(* ===== verification/Prelude.thy ===== *)
theory Prelude
  imports Main "HOL-Library.AList" "HOL-Library.Monad_Syntax" "HOL-Library.Multiset"
begin

text \<open>
  Shared vocabulary of the development: how Go's values are represented, and the generic
  lemmas the component theories use.

  \<^item> A Go map is an association list with distinct keys (type \<open>gomap\<close>). Its list order is
    the order in which one execution ranges over it; Go leaves that order open, so an operation
    that ranges over a map is a function of the list and a theorem that quantifies over the
    list covers every iteration order. Store and delete are \<open>AList.update\<close> and
    \<open>AList.delete\<close>, the comma-ok read is \<open>map_of\<close>.
  \<^item> A call that may panic or end the process (\<^verbatim>\<open>klog.Fatalf\<close>) has a result of type
    \<open>'a option\<close>, with \<open>None\<close> for "does not continue". Error values that the code returns and
    handles are values of a sum type, \<open>Inl\<close> for the error.
  \<^item> A \<^verbatim>\<open>time.Time\<close> is an \<open>int\<close>, the nanoseconds since the zero time \<^verbatim>\<open>time.Time{}\<close>,
    which is 0; a \<^verbatim>\<open>time.Duration\<close> is an \<open>int\<close> number of nanoseconds.
\<close>

section \<open>Named collections\<close>

named_theorems frame_simps \<open>what an operation leaves unchanged\<close>
named_theorems wf_intros \<open>preservation of the well-formedness invariants\<close>

section \<open>Go maps\<close>

type_synonym ('k, 'v) gomap = "('k \<times> 'v) list"

type_synonym go_time = int
type_synonym go_duration = int

abbreviation (input) nilTime :: go_time where
  "nilTime \<equiv> 0"

abbreviation (input) second :: go_duration where
  "second \<equiv> 1000000000"

abbreviation (input) minute :: go_duration where
  "minute \<equiv> 60000000000"

abbreviation wf_map :: "('k, 'v) gomap \<Rightarrow> bool" where
  "wf_map m \<equiv> distinct (map fst m)"

abbreviation gmap_has :: "('k, 'v) gomap \<Rightarrow> 'k \<Rightarrow> bool" where
  "gmap_has m k \<equiv> map_of m k \<noteq> None"

text \<open>A read of a map of float64 or bool: the zero value for a missing key.\<close>

definition gmap_get0 :: "('k, 'v::zero) gomap \<Rightarrow> 'k \<Rightarrow> 'v" where
  "gmap_get0 m k = (case map_of m k of None \<Rightarrow> 0 | Some v \<Rightarrow> v)"

lemma map_of_update_apply [simp]:
  "map_of (AList.update k v m) x = (if x = k then Some v else map_of m x)"
  by (simp add: update_conv')

lemma map_of_delete_apply [simp]:
  "map_of (AList.delete k m) x = (if x = k then None else map_of m x)"
  by (simp add: delete_conv')

lemma wf_map_update [simp, intro, wf_intros]: "wf_map m \<Longrightarrow> wf_map (AList.update k v m)"
  by (rule distinct_update)

lemma wf_map_delete [simp, intro, wf_intros]: "wf_map m \<Longrightarrow> wf_map (AList.delete k m)"
  by (rule distinct_delete)

lemma map_of_perm:
  assumes "wf_map m" and "mset m = mset m'"
  shows "map_of m = map_of m'"
proof -
  have set_eq: "set m = set m'" using assms(2) by (rule mset_eq_setD)
  have "mset (map fst m) = mset (map fst m')" using assms(2) by simp
  then have d': "wf_map m'" using assms(1) mset_eq_imp_distinct_iff by blast
  show ?thesis
  proof
    fix k
    show "map_of m k = map_of m' k"
      using assms(1) d' set_eq by (metis map_of_inject_set)
  qed
qed

lemma map_of_in_set: "wf_map m \<Longrightarrow> (map_of m k = Some v) = ((k, v) \<in> set m)"
  by auto

lemma fold_update_other:
  "k \<notin> fst ` set xs \<Longrightarrow>
   map_of (fold (\<lambda>(k, v). AList.update k v) xs m) k = map_of m k"
  by (induction xs arbitrary: m) auto

text \<open>\<^verbatim>\<open>for k, v := range m2 { m[k] = v }\<close>: the last write of each key wins.\<close>

definition gmap_put_all :: "('k, 'v) gomap \<Rightarrow> ('k, 'v) gomap \<Rightarrow> ('k, 'v) gomap" where
  "gmap_put_all m upd = fold (\<lambda>(k, v). AList.update k v) upd m"

lemma map_of_put_all:
  "wf_map upd \<Longrightarrow> map_of (gmap_put_all m upd) = map_of m ++ map_of upd"
proof (induction upd arbitrary: m)
  case Nil
  then show ?case by (simp add: gmap_put_all_def)
next
  case (Cons a upd)
  obtain k v where a: "a = (k, v)" by (cases a)
  with Cons.prems have k: "k \<notin> fst ` set upd" and "wf_map upd" by auto
  have "map_of (gmap_put_all m (a # upd)) = map_of (gmap_put_all (AList.update k v m) upd)"
    by (simp add: gmap_put_all_def a)
  also have "\<dots> = map_of (AList.update k v m) ++ map_of upd"
    using Cons.IH \<open>wf_map upd\<close> by simp
  also have "\<dots> = map_of m ++ map_of (a # upd)"
  proof
    fix x
    have "map_of upd k = None" using k by (simp add: map_of_eq_None_iff)
    then show "(map_of (AList.update k v m) ++ map_of upd) x = (map_of m ++ map_of (a # upd)) x"
      by (simp add: a map_add_def split: option.split)
  qed
  finally show ?case .
qed

lemma wf_map_put_all [simp, intro, wf_intros]: "wf_map m \<Longrightarrow> wf_map (gmap_put_all m upd)"
  unfolding gmap_put_all_def by (induction upd arbitrary: m) auto

section \<open>Sorting\<close>

text \<open>
  \<^verbatim>\<open>sort.Sort\<close> and \<^verbatim>\<open>sort.Slice\<close> leave the order of elements open that the comparison
  does not separate. The model is the insertion sort that the library runs on short slices;
  the theorems about sorted results only use that the result is a permutation with no
  inversion.
\<close>

fun insert_by :: "('a \<Rightarrow> 'a \<Rightarrow> bool) \<Rightarrow> 'a \<Rightarrow> 'a list \<Rightarrow> 'a list" where
  "insert_by lt x [] = [x]"
| "insert_by lt x (y # ys) = (if lt y x then y # insert_by lt x ys else x # y # ys)"

definition sort_by :: "('a \<Rightarrow> 'a \<Rightarrow> bool) \<Rightarrow> 'a list \<Rightarrow> 'a list" where
  "sort_by lt xs = foldr (insert_by lt) xs []"

lemma mset_insert_by [simp]: "mset (insert_by lt x ys) = add_mset x (mset ys)"
  by (induction ys) auto

lemma mset_sort_by [simp]: "mset (sort_by lt xs) = mset xs"
  by (induction xs) (auto simp: sort_by_def)

lemma set_sort_by [simp]: "set (sort_by lt xs) = set xs"
  by (metis mset_sort_by set_mset_mset)

lemma set_insert_by [simp]: "set (insert_by lt x ys) = insert x (set ys)"
  by (induction ys) auto

lemma sort_by_Nil_iff [simp]: "sort_by lt xs = [] \<longleftrightarrow> xs = []"
  by (metis mset_sort_by mset_zero_iff)

text \<open>A strict weak order: what the sort functions ask of a comparison.\<close>

locale strict_weak_order =
  fixes lt :: "'a \<Rightarrow> 'a \<Rightarrow> bool"
  assumes less_asym: "lt x y \<Longrightarrow> \<not> lt y x"
    and not_less_trans: "\<not> lt y x \<Longrightarrow> \<not> lt z y \<Longrightarrow> \<not> lt z x"
begin

lemma not_less_refl: "\<not> lt x x"
  using less_asym by blast

lemma insert_by_sorted:
  "sorted_wrt (\<lambda>a b. \<not> lt b a) ys \<Longrightarrow> sorted_wrt (\<lambda>a b. \<not> lt b a) (insert_by lt x ys)"
proof (induction ys)
  case Nil
  then show ?case by simp
next
  case (Cons y ys)
  show ?case
  proof (cases "lt y x")
    case True
    have "\<not> lt x y" using True by (rule less_asym)
    with Cons True show ?thesis by auto
  next
    case False
    have "\<not> lt z x" if "z \<in> set ys" for z
      using not_less_trans [OF False] Cons.prems that by simp
    with Cons False show ?thesis by auto
  qed
qed

lemma sort_by_sorted: "sorted_wrt (\<lambda>a b. \<not> lt b a) (sort_by lt xs)"
  by (induction xs) (auto simp: sort_by_def intro: insert_by_sorted)

text \<open>The first element of the sorted slice is below or level with every element.\<close>

lemma sort_by_hd_minimal:
  assumes "sort_by lt xs = y # ys" and "z \<in> set xs"
  shows "\<not> lt z y"
proof -
  have "sorted_wrt (\<lambda>a b. \<not> lt b a) (y # ys)"
    using sort_by_sorted [of xs] assms(1) by simp
  moreover have "z \<in> set (y # ys)"
    using assms by (metis set_sort_by)
  ultimately show ?thesis using not_less_refl by auto
qed

end

section \<open>Options and lists\<close>

lemma option_bind_eq_Some: "(x \<bind> f = Some y) = (\<exists>a. x = Some a \<and> f a = Some y)"
  by (cases x) auto

lemma option_bind_eq_None: "(x \<bind> f = None) = (x = None \<or> (\<exists>a. x = Some a \<and> f a = None))"
  by (cases x) auto

lemmas go_simps = option_bind_eq_Some option_bind_eq_None Let_def

text \<open>A loop whose body may abort, over the elements of a slice.\<close>

fun foldM :: "('a \<Rightarrow> 's \<Rightarrow> 's option) \<Rightarrow> 'a list \<Rightarrow> 's \<Rightarrow> 's option" where
  "foldM f [] s = Some s"
| "foldM f (x # xs) s = (case f x s of None \<Rightarrow> None | Some s' \<Rightarrow> foldM f xs s')"

lemma foldM_append: "foldM f (xs @ ys) s = Option.bind (foldM f xs s) (foldM f ys)"
  by (induction xs arbitrary: s) (auto split: option.split)

lemma foldM_invariant:
  assumes "foldM f xs s = Some s'" and "P s"
    and "\<And>x s s'. x \<in> set xs \<Longrightarrow> f x s = Some s' \<Longrightarrow> P s \<Longrightarrow> P s'"
  shows "P s'"
  using assms
proof (induction xs arbitrary: s)
  case Nil
  then show ?case by simp
next
  case (Cons x xs)
  from Cons.prems(1) obtain s1 where s1: "f x s = Some s1" "foldM f xs s1 = Some s'"
    by (auto split: option.splits)
  have "P s1" using Cons.prems(3) [OF _ s1(1) Cons.prems(2)] by simp
  moreover have "\<And>y s s'. y \<in> set xs \<Longrightarrow> f y s = Some s' \<Longrightarrow> P s \<Longrightarrow> P s'"
    using Cons.prems(3) by (metis list.set_intros(2))
  ultimately show ?case using Cons.IH [OF s1(2)] by blast
qed

lemma foldM_total:
  assumes "P s" and "\<And>x s. x \<in> set xs \<Longrightarrow> P s \<Longrightarrow> \<exists>s'. f x s = Some s' \<and> P s'"
  shows "\<exists>s'. foldM f xs s = Some s' \<and> P s'"
  using assms
proof (induction xs arbitrary: s)
  case Nil
  then show ?case by simp
next
  case (Cons x xs)
  from Cons.prems obtain s1 where s1: "f x s = Some s1" "P s1"
    by (meson list.set_intros(1))
  then obtain s' where "foldM f xs s1 = Some s' \<and> P s'"
    using Cons.IH Cons.prems(2) by (meson list.set_intros(2))
  with s1 show ?case by simp
qed

end
