(* ===== verification/GoStrings.thy ===== *)
theory GoStrings
  imports Prelude
begin

text \<open>
  The parts of \<^verbatim>\<open>strings\<close>, \<^verbatim>\<open>strconv\<close> and \<^verbatim>\<open>fmt\<close> that the modelled code calls, on byte strings:
  \<^verbatim>\<open>Split\<close> and \<^verbatim>\<open>Join\<close>, \<^verbatim>\<open>Trim\<close>, \<^verbatim>\<open>HasPrefix\<close>, \<^verbatim>\<open>TrimPrefix\<close>, \<^verbatim>\<open>Contains\<close>, \<^verbatim>\<open>Index\<close>,
  \<^verbatim>\<open>Replace\<close>, decimal printing with \<^verbatim>\<open>%d\<close> and \<^verbatim>\<open>%02d\<close>, \<^verbatim>\<open>Atoi\<close> and \<^verbatim>\<open>ParseUint\<close>.
  The lemmas give the print/parse and split/join round trips.
\<close>

section \<open>Splitting and joining\<close>

fun split_on :: "char \<Rightarrow> string \<Rightarrow> string list" where
  "split_on c [] = [[]]"
| "split_on c (x # xs) =
     (if x = c then [] # split_on c xs
      else case split_on c xs of [] \<Rightarrow> [[x]] | y # ys \<Rightarrow> (x # y) # ys)"

fun join_with :: "string \<Rightarrow> string list \<Rightarrow> string" where
  "join_with sep [] = []"
| "join_with sep [s] = s"
| "join_with sep (s # t # ts) = s @ sep @ join_with sep (t # ts)"

lemma split_on_ne [simp]: "split_on c s \<noteq> []"
  by (induction s) (auto split: list.splits)

lemma split_on_plain: "c \<notin> set s \<Longrightarrow> split_on c s = [s]"
  by (induction s) auto

lemma split_on_append:
  "c \<notin> set s \<Longrightarrow> split_on c (s @ c # t) = s # split_on c t"
  by (induction s) auto

lemma split_join:
  "ss \<noteq> [] \<Longrightarrow> \<forall>s \<in> set ss. c \<notin> set s \<Longrightarrow> split_on c (join_with [c] ss) = ss"
  by (induction "[c]" ss rule: join_with.induct) (auto simp: split_on_plain split_on_append)

section \<open>Prefixes, substrings\<close>

definition strings_HasPrefix :: "string \<Rightarrow> string \<Rightarrow> bool" where
  "strings_HasPrefix s p = (take (length p) s = p)"

definition strings_TrimPrefix :: "string \<Rightarrow> string \<Rightarrow> string" where
  "strings_TrimPrefix s p = (if strings_HasPrefix s p then drop (length p) s else s)"

lemma HasPrefix_append [simp]: "strings_HasPrefix (p @ s) p"
  by (simp add: strings_HasPrefix_def)

lemma TrimPrefix_append [simp]: "strings_TrimPrefix (p @ s) p = s"
  by (simp add: strings_TrimPrefix_def)

definition strings_TrimChar :: "char \<Rightarrow> string \<Rightarrow> string" where
  "strings_TrimChar c s = rev (dropWhile (\<lambda>x. x = c) (rev (dropWhile (\<lambda>x. x = c) s)))"

fun strings_Index :: "string \<Rightarrow> char \<Rightarrow> nat option" where
  "strings_Index [] c = None"
| "strings_Index (x # xs) c = (if x = c then Some 0 else map_option Suc (strings_Index xs c))"

fun strings_Contains :: "string \<Rightarrow> string \<Rightarrow> bool" where
  "strings_Contains [] sub = (sub = [])"
| "strings_Contains (x # xs) sub = (strings_HasPrefix (x # xs) sub \<or> strings_Contains xs sub)"

text \<open>\<^verbatim>\<open>strings.Replace(s, old, new, -1)\<close> for a non-empty \<^verbatim>\<open>old\<close>: left to right, not overlapping.\<close>

function strings_ReplaceAll :: "string \<Rightarrow> string \<Rightarrow> string \<Rightarrow> string" where
  "strings_ReplaceAll [] old new = []"
| "strings_ReplaceAll (x # xs) old new =
     (if old \<noteq> [] \<and> strings_HasPrefix (x # xs) old
      then new @ strings_ReplaceAll (drop (length old) (x # xs)) old new
      else x # strings_ReplaceAll xs old new)"
  by pat_completeness auto
termination
  by (relation "measure (\<lambda>(s, old, new). length s)") (auto simp: Suc_le_eq)

lemma ReplaceAll_absent: "\<not> strings_Contains s old \<Longrightarrow> strings_ReplaceAll s old new = s"
  by (induction s) auto

lemma Index_append:
  "c \<notin> set s \<Longrightarrow> strings_Index (s @ c # t) c = Some (length s)"
  by (induction s) auto

lemma Index_None: "strings_Index s c = None \<longleftrightarrow> c \<notin> set s"
  by (induction s) auto

text \<open>The text before and after the first \<open>sep\<close>, as \<^verbatim>\<open>SplitN(s, sep, 2)\<close> gives them.\<close>

fun cut_first :: "string \<Rightarrow> string \<Rightarrow> (string \<times> string) option" where
  "cut_first sep [] = (if sep = [] then Some ([], []) else None)"
| "cut_first sep (c # s) =
     (if strings_HasPrefix (c # s) sep then Some ([], drop (length sep) (c # s))
      else map_option (\<lambda>(a, b). (c # a, b)) (cut_first sep s))"

section \<open>Decimal numbers\<close>

definition is_digit :: "char \<Rightarrow> bool" where
  "is_digit c = (48 \<le> (of_char c :: nat) \<and> (of_char c :: nat) \<le> 57)"

definition digit_char :: "nat \<Rightarrow> char" where
  "digit_char d = char_of (48 + d)"

definition digit_val :: "char \<Rightarrow> nat" where
  "digit_val c = of_char c - 48"

fun show_nat :: "nat \<Rightarrow> string" where
  "show_nat n = (if n < 10 then [digit_char n] else show_nat (n div 10) @ [digit_char (n mod 10)])"

declare show_nat.simps [simp del]

lemma show_nat_0: "show_nat 0 = ''0''"
  by code_simp

definition show_int :: "int \<Rightarrow> string" where
  "show_int i = (if i < 0 then CHR ''-'' # show_nat (nat (- i)) else show_nat (nat i))"

text \<open>\<^verbatim>\<open>%02d\<close> of a non-negative number.\<close>

definition show_pad2 :: "nat \<Rightarrow> string" where
  "show_pad2 n = replicate (2 - length (show_nat n)) (CHR ''0'') @ show_nat n"

definition dec_val :: "string \<Rightarrow> nat" where
  "dec_val s = foldl (\<lambda>a c. a * 10 + digit_val c) 0 s"

text \<open>\<^verbatim>\<open>strconv.ParseUint(s, 10, bits)\<close>: \<open>None\<close> is the error result.\<close>

definition parse_uint :: "nat \<Rightarrow> string \<Rightarrow> nat option" where
  "parse_uint bits s =
     (if s \<noteq> [] \<and> list_all is_digit s \<and> dec_val s < 2 ^ bits then Some (dec_val s) else None)"

text \<open>\<^verbatim>\<open>strconv.Atoi\<close>: an optional sign, decimal digits, the range of int64.\<close>

definition atoi :: "string \<Rightarrow> int option" where
  "atoi s =
     (let (neg, body) = (case s of
           c # cs \<Rightarrow> if c = CHR ''-'' then (True, cs) else if c = CHR ''+'' then (False, cs) else (False, s)
         | [] \<Rightarrow> (False, s));
         v = (if neg then - int (dec_val body) else int (dec_val body))
      in if body \<noteq> [] \<and> list_all is_digit body \<and> - (2 ^ 63) \<le> v \<and> v < 2 ^ 63 then Some v else None)"

lemma of_char_digit_char [simp]: "d < 10 \<Longrightarrow> (of_char (digit_char d) :: nat) = 48 + d"
  by (simp add: digit_char_def)

lemma digit_val_char [simp]: "d < 10 \<Longrightarrow> digit_val (digit_char d) = d"
  by (simp add: digit_val_def)

lemma is_digit_char [simp]: "d < 10 \<Longrightarrow> is_digit (digit_char d)"
  by (simp add: is_digit_def)

lemma show_nat_digits: "list_all is_digit (show_nat n)"
proof (induction n rule: show_nat.induct)
  case (1 n)
  then show ?case by (subst show_nat.simps) simp
qed

lemma show_nat_ne [simp]: "show_nat n \<noteq> []"
  by (subst show_nat.simps) simp

lemma dec_val_snoc: "dec_val (s @ [c]) = dec_val s * 10 + digit_val c"
  by (simp add: dec_val_def)

lemma dec_val_show [simp]: "dec_val (show_nat n) = n"
proof (induction n rule: show_nat.induct)
  case (1 n)
  show ?case
  proof (cases "n < 10")
    case True
    then show ?thesis by (subst show_nat.simps) (simp add: dec_val_def)
  next
    case False
    with 1 show ?thesis by (subst show_nat.simps) (simp add: dec_val_snoc)
  qed
qed

lemma dec_val_zeros: "dec_val (replicate k (CHR ''0'') @ s) = dec_val s"
proof -
  have "foldl (\<lambda>a c. a * 10 + digit_val c) 0 (replicate k (CHR ''0'')) = 0"
    by (induction k) (auto simp: digit_val_def)
  then show ?thesis by (simp add: dec_val_def)
qed

lemma show_pad2_digits: "list_all is_digit (show_pad2 n)"
  using show_nat_digits by (auto simp: show_pad2_def list_all_iff is_digit_def)

lemma parse_show_pad2: "n < 2 ^ bits \<Longrightarrow> parse_uint bits (show_pad2 n) = Some n"
  using show_pad2_digits [of n]
  by (simp add: parse_uint_def show_pad2_def dec_val_zeros)

lemma atoi_show_nat:
  assumes "int n < 2 ^ 63"
  shows "atoi (show_nat n) = Some (int n)"
proof -
  obtain c cs where s: "show_nat n = c # cs" by (cases "show_nat n") auto
  have "is_digit c" using show_nat_digits [of n] s by simp
  then have "c \<noteq> CHR ''-''" "c \<noteq> CHR ''+''" by (auto simp: is_digit_def)
  then show ?thesis
    using assms show_nat_digits [of n] dec_val_show [of n] by (simp add: atoi_def s Let_def)
qed

lemma digits_no_char: "list_all is_digit s \<Longrightarrow> \<not> is_digit c \<Longrightarrow> c \<notin> set s"
  by (auto simp: list_all_iff)

end
