(* ===== verification/Times.thy ===== *)
theory Times
  imports GoStrings "HOL-Library.Word"
begin

text \<open>
  \<^verbatim>\<open>pkg/util/times/times.go\<close>: \<^verbatim>\<open>SecondsInDay\<close>, a uint32 second of the day that is printed and
  parsed as \<^verbatim>\<open>HH:MM:SS\<close>, and the test whether a clock time lies in a period of the day.
\<close>

type_synonym SecondsInDay = "32 word"

datatype times_error = BadSecondsFormat string

definition SecondsInDay_MarshalJSON :: "SecondsInDay \<Rightarrow> string" where
  "SecondsInDay_MarshalJSON s =
     [CHR 0x22] @ show_pad2 (unat (s div 3600)) @ '':'' @ show_pad2 (unat (s mod 3600 div 60)) @ '':''
       @ show_pad2 (unat (s mod 3600 mod 60)) @ [CHR 0x22]"

text \<open>The loop of \<^verbatim>\<open>UnmarshalJSON\<close> over \<^verbatim>\<open>i = 0..2\<close>; the arithmetic is that of uint32.\<close>

fun unmarshal_parts :: "nat \<Rightarrow> string list \<Rightarrow> SecondsInDay \<Rightarrow> SecondsInDay option" where
  "unmarshal_parts 0 parts seconds = Some seconds"
| "unmarshal_parts (Suc n) [] seconds = unmarshal_parts n [] (seconds * 60)"
| "unmarshal_parts (Suc n) (p # parts) seconds =
     (case parse_uint 32 p of
        None \<Rightarrow> None
      | Some t \<Rightarrow> unmarshal_parts n parts (seconds * 60 + of_nat t))"

definition SecondsInDay_UnmarshalJSON :: "string \<Rightarrow> times_error + SecondsInDay" where
  "SecondsInDay_UnmarshalJSON d =
     (let str = strings_TrimChar (CHR 0x22) d; parts = split_on (CHR '':'') str
      in if length parts \<le> 1 \<or> length parts > 3 then Inl (BadSecondsFormat str)
         else case unmarshal_parts 3 parts 0 of
                None \<Rightarrow> Inl (BadSecondsFormat str)
              | Some s \<Rightarrow> Inr s)"

text \<open>A \<^verbatim>\<open>time.Time\<close> seen through \<^verbatim>\<open>Hour\<close>, \<^verbatim>\<open>Minute\<close> and \<^verbatim>\<open>Second\<close>.\<close>

record clock =
  Hour :: nat
  Minute :: nat
  Second :: nat

definition IsTimeInSecondsDay :: "clock \<Rightarrow> SecondsInDay \<times> SecondsInDay \<Rightarrow> bool" where
  "IsTimeInSecondsDay t ss =
     (let seconds = (of_nat (Second t + Minute t * 60 + Hour t * 3600) :: SecondsInDay)
      in seconds \<ge> fst ss \<and> seconds \<le> snd ss)"

section \<open>Round trip\<close>

lemma trim_quotes:
  assumes "CHR 0x22 \<notin> set s"
  shows "strings_TrimChar (CHR 0x22) (CHR 0x22 # s @ [CHR 0x22]) = s"
proof -
  have "dropWhile (\<lambda>x. x = CHR 0x22) (s @ [CHR 0x22]) = s @ [CHR 0x22] \<or> s = []"
    using assms by (cases s) auto
  moreover have "dropWhile (\<lambda>x. x = CHR 0x22) (rev s) = rev s"
    using assms by (cases "rev s") (auto dest: arg_cong [where f = set])
  ultimately show ?thesis by (auto simp: strings_TrimChar_def)
qed

lemma show_pad2_plain: "CHR '':'' \<notin> set (show_pad2 n)" "CHR 0x22 \<notin> set (show_pad2 n)"
  using digits_no_char [OF show_pad2_digits] by (auto simp: is_digit_def)

lemma word_hms: "(((0 * 60 + s div 3600) * 60 + s mod 3600 div 60) * 60 + s mod 3600 mod 60) = (s :: 32 word)"
proof -
  have m: "s mod 3600 = (s mod 3600 div 60) * 60 + s mod 3600 mod 60"
    by (simp only: word_mod_div_equality)
  have "(((0 * 60 + s div 3600) * 60 + s mod 3600 div 60) * 60 + s mod 3600 mod 60)
      = (s div 3600) * 3600 + ((s mod 3600 div 60) * 60 + s mod 3600 mod 60)"
    by (simp add: algebra_simps)
  also have "\<dots> = (s div 3600) * 3600 + s mod 3600" by (simp only: m [symmetric])
  also have "\<dots> = s" by (simp only: word_mod_div_equality)
  finally show ?thesis .
qed

lemma parse_show_word: "parse_uint 32 (show_pad2 (unat (w :: 32 word))) = Some (unat w)"
proof (rule parse_show_pad2)
  have "unat w < 2 ^ LENGTH(32)" by (rule unsigned_less)
  then show "unat w < 2 ^ 32" by simp
qed

text \<open>
  Printing and parsing a \<^verbatim>\<open>SecondsInDay\<close> is the identity for every 32-bit value, also for
  values past midnight, where the hours take more than two digits.
\<close>

lemma SecondsInDay_roundtrip:
  "SecondsInDay_UnmarshalJSON (SecondsInDay_MarshalJSON s) = Inr s"
proof -
  let ?h = "show_pad2 (unat (s div 3600))" and ?m = "show_pad2 (unat (s mod 3600 div 60))"
  let ?s = "show_pad2 (unat (s mod 3600 mod 60))"
  have trim: "strings_TrimChar (CHR 0x22) (SecondsInDay_MarshalJSON s) = ?h @ '':'' @ ?m @ '':'' @ ?s"
    using trim_quotes [of "?h @ '':'' @ ?m @ '':'' @ ?s"] show_pad2_plain
    by (simp add: SecondsInDay_MarshalJSON_def)
  have split: "split_on (CHR '':'') (?h @ '':'' @ ?m @ '':'' @ ?s) = [?h, ?m, ?s]"
    by (simp add: split_on_append split_on_plain show_pad2_plain)
  have "unmarshal_parts 3 [?h, ?m, ?s] 0 = Some s"
    using word_hms [of s] by (simp add: numeral_3_eq_3 parse_show_word)
  then show ?thesis
    unfolding SecondsInDay_UnmarshalJSON_def trim split Let_def by simp
qed

section \<open>Periods of the day\<close>

definition clock_wf :: "clock \<Rightarrow> bool" where
  "clock_wf t = (Hour t < 24 \<and> Minute t < 60 \<and> Second t < 60)"

definition clock_seconds :: "clock \<Rightarrow> nat" where
  "clock_seconds t = Second t + Minute t * 60 + Hour t * 3600"

lemma clock_seconds_bound: "clock_wf t \<Longrightarrow> clock_seconds t < 86400"
  by (auto simp: clock_wf_def clock_seconds_def)

lemma IsTimeInSecondsDay_iff:
  assumes "clock_wf t"
  shows "IsTimeInSecondsDay t (a, b) \<longleftrightarrow> unat a \<le> clock_seconds t \<and> clock_seconds t \<le> unat b"
proof -
  have "unat (of_nat (clock_seconds t) :: 32 word) = clock_seconds t"
    using clock_seconds_bound [OF assms] by (simp add: unat_of_nat take_bit_nat_eq_self)
  then show ?thesis
    by (simp add: IsTimeInSecondsDay_def Let_def word_le_nat_alt clock_seconds_def)
qed

text \<open>A period whose end is before its start (one that crosses midnight) contains no time.\<close>

lemma crossing_midnight_empty:
  "clock_wf t \<Longrightarrow> b < a \<Longrightarrow> \<not> IsTimeInSecondsDay t (a, b)"
  by (auto simp: IsTimeInSecondsDay_iff word_less_nat_alt)

end
