(* ===== verification/Float64.thy ===== *)
theory Float64
  imports Complex_Main Prelude "HOL-Library.Log_Nat"
begin

text \<open>
  Go's \<^verbatim>\<open>float64\<close>. A finite float64 is a \<open>real\<close>; each arithmetic operation of the source is the
  exact operation followed by \<open>fl\<close>, rounding to the nearest binary64 value with ties to even
  and gradual underflow (IEEE 754, the rounding Go prescribes). Overflow to infinity and NaN are
  outside the type: the theorems state the ranges in which they do not arise. The section shows
  that \<open>fl\<close> is monotone, odd and exact on representable values, which is what the
  components' bounds rest on.
\<close>

type_synonym float64 = real

section \<open>Rounding\<close>

definition round_even :: "real \<Rightarrow> int" where
  "round_even y =
     (let n = \<lfloor>y\<rfloor>; d = y - of_int n
      in if d < 1/2 then n else if d > 1/2 then n + 1 else if even n then n else n + 1)"

text \<open>
  The exponent of the last place of the binary64 values around \<open>x\<close>: 53 significant bits,
  and never below \<open>- 1074\<close>.
\<close>

definition emin :: nat where
  "emin = 1074"

definition fexp :: "real \<Rightarrow> int" where
  "fexp x = max (- int emin) (bitlen \<lfloor>\<bar>x\<bar> * 2 ^ emin\<rfloor> - int emin - 53)"

definition fl :: "real \<Rightarrow> float64" where
  "fl x = of_int (round_even (x / 2 powi fexp x)) * 2 powi fexp x"

text \<open>\<^verbatim>\<open>math.Round\<close> (half away from zero) and the conversion \<^verbatim>\<open>int64(x)\<close> (towards zero).\<close>

definition go_round :: "float64 \<Rightarrow> float64" where
  "go_round x = (if x < 0 then - of_int \<lfloor>- x + 1/2\<rfloor> else of_int \<lfloor>x + 1/2\<rfloor>)"

definition go_trunc :: "float64 \<Rightarrow> int" where
  "go_trunc x = (if x < 0 then \<lceil>x\<rceil> else \<lfloor>x\<rfloor>)"

section \<open>The integer rounding\<close>

lemma round_even_of_int [simp]: "round_even (of_int n) = n"
  by (simp add: round_even_def)

lemma round_even_bounds: "\<lfloor>y\<rfloor> \<le> round_even y \<and> round_even y \<le> \<lfloor>y\<rfloor> + 1"
  by (auto simp: round_even_def Let_def)

lemma round_even_mono:
  assumes "x \<le> y"
  shows "round_even x \<le> round_even y"
proof (cases "\<lfloor>x\<rfloor> = \<lfloor>y\<rfloor>")
  case True
  with assms show ?thesis by (auto simp: round_even_def Let_def)
next
  case False
  with assms have "\<lfloor>x\<rfloor> + 1 \<le> \<lfloor>y\<rfloor>"
    using floor_mono [OF assms] by linarith
  with round_even_bounds [of x] round_even_bounds [of y] show ?thesis by linarith
qed

lemma round_even_minus: "round_even (- y) = - round_even y"
proof (cases "y = of_int \<lfloor>y\<rfloor>")
  case True
  then have "- y = of_int (- \<lfloor>y\<rfloor>)" by simp
  with True show ?thesis by (metis round_even_of_int)
next
  case False
  then have "of_int \<lfloor>y\<rfloor> < y" using of_int_floor_le [of y] by linarith
  then have f: "\<lfloor>- y\<rfloor> = - \<lfloor>y\<rfloor> - 1"
    by (intro floor_unique) (simp_all, linarith)
  show ?thesis by (auto simp: round_even_def Let_def f)
qed

section \<open>The exponent\<close>

lemma fexp_ge: "- int emin \<le> fexp x"
  by (simp add: fexp_def)

lemma fexp_minus [simp]: "fexp (- x) = fexp x"
  by (simp add: fexp_def)

lemma bitlen_mono:
  assumes "0 \<le> a" and "a \<le> (b::int)"
  shows "bitlen a \<le> bitlen b"
proof (cases "a = 0")
  case True
  then show ?thesis by (simp add: bitlen_nonneg)
next
  case False
  with assms have a: "0 < a" and b: "0 < b" by auto
  have "2 ^ nat (bitlen a - 1) < (2::int) ^ nat (bitlen b)"
    using bitlen_bounds [OF a] bitlen_bounds [OF b] assms(2) by linarith
  then have "nat (bitlen a - 1) < nat (bitlen b)"
    by (rule power_less_imp_less_exp [rotated]) simp
  then show ?thesis by linarith
qed

lemma fexp_mono: "\<bar>x\<bar> \<le> \<bar>y\<bar> \<Longrightarrow> fexp x \<le> fexp y"
  unfolding fexp_def
  by (intro max.mono order_refl diff_right_mono bitlen_mono floor_mono mult_right_mono) simp_all

lemma powi_2_nat: "0 \<le> e \<Longrightarrow> (2::real) powi e = 2 ^ nat e"
  by (simp add: power_int_def)

lemma scaled_floor:
  fixes x :: real
  defines "k \<equiv> \<lfloor>\<bar>x\<bar> * 2 ^ emin\<rfloor>"
  shows "of_int k * (2::real) powi (- int emin) \<le> \<bar>x\<bar>"
    and "\<bar>x\<bar> < of_int (k + 1) * (2::real) powi (- int emin)"
proof -
  have p: "(2::real) powi (- int emin) = 1 / 2 ^ emin"
    by (simp add: power_int_minus divide_inverse)
  have "of_int k \<le> \<bar>x\<bar> * 2 ^ emin" unfolding k_def by (rule of_int_floor_le)
  then show "of_int k * (2::real) powi (- int emin) \<le> \<bar>x\<bar>"
    by (simp add: p divide_simps)
  have "\<bar>x\<bar> * 2 ^ emin < of_int (k + 1)" unfolding k_def by linarith
  then show "\<bar>x\<bar> < of_int (k + 1) * (2::real) powi (- int emin)"
    by (simp add: p divide_simps)
qed

lemma fexp_upper: "\<bar>x\<bar> < 2 powi (fexp x + 53)"
proof -
  let ?k = "\<lfloor>\<bar>x\<bar> * 2 ^ emin\<rfloor>"
  have "?k + 1 \<le> 2 ^ nat (bitlen ?k)"
  proof (cases "?k = 0")
    case False
    moreover have "0 \<le> ?k" by simp
    ultimately have "0 < ?k" by linarith
    then show ?thesis using bitlen_bounds [of ?k] by linarith
  qed simp
  then have "of_int (?k + 1) \<le> (2::real) ^ nat (bitlen ?k)"
    by (metis of_int_le_iff of_int_numeral of_int_power)
  then have "\<bar>x\<bar> < 2 ^ nat (bitlen ?k) * (2::real) powi (- int emin)"
    using scaled_floor(2) [of x] by (smt (verit) mult_right_mono zero_less_power_int)
  also have "\<dots> = 2 powi (bitlen ?k - int emin)"
    using bitlen_nonneg [of ?k]
    by (simp add: powi_2_nat [symmetric] power_int_add [symmetric] algebra_simps)
  also have "\<dots> \<le> 2 powi (fexp x + 53)"
    by (intro power_int_increasing) (auto simp: fexp_def)
  finally show ?thesis .
qed

lemma fexp_lower:
  assumes "- int emin < fexp x"
  shows "2 powi (fexp x + 52) \<le> \<bar>x\<bar>"
proof -
  let ?k = "\<lfloor>\<bar>x\<bar> * 2 ^ emin\<rfloor>"
  from assms have e: "fexp x = bitlen ?k - int emin - 53" and b: "53 < bitlen ?k"
    by (auto simp: fexp_def)
  have k: "0 < ?k"
  proof (rule ccontr)
    assume "\<not> 0 < ?k"
    moreover have "0 \<le> ?k" by simp
    ultimately have "?k = 0" by linarith
    with b show False by (simp add: bitlen_def floorlog_def)
  qed
  have "2 powi (fexp x + 52) = 2 powi (bitlen ?k - 1) * (2::real) powi (- int emin)"
    by (simp add: e power_int_add [symmetric] algebra_simps)
  also have "(2::real) powi (bitlen ?k - 1) = of_int (2 ^ nat (bitlen ?k - 1))"
    using b by (simp add: powi_2_nat)
  also have "of_int (2 ^ nat (bitlen ?k - 1)) * (2::real) powi (- int emin) \<le> of_int ?k * 2 powi (- int emin)"
    using bitlen_bounds [OF k] by (intro mult_right_mono) (simp_all only: of_int_le_iff, simp_all)
  also have "\<dots> \<le> \<bar>x\<bar>" by (rule scaled_floor(1))
  finally show ?thesis .
qed

section \<open>Properties of rounding\<close>

lemma fl_0 [simp]: "fl 0 = 0"
  using round_even_of_int [of 0] by (simp add: fl_def)

lemma fl_minus [simp]: "fl (- x) = - fl x"
  by (simp add: fl_def round_even_minus)

lemma fl_upper: "0 \<le> x \<Longrightarrow> fl x \<le> 2 powi (fexp x + 53)"
proof -
  assume "0 \<le> x"
  then have "x / 2 powi fexp x \<le> of_int (2 ^ 53)"
    using fexp_upper [of x] by (simp add: divide_simps power_int_add)
  then have "round_even (x / 2 powi fexp x) \<le> 2 ^ 53"
    using round_even_mono round_even_of_int by metis
  then have "of_int (round_even (x / 2 powi fexp x)) \<le> (2::real) ^ 53"
    by (metis of_int_le_iff of_int_numeral of_int_power)
  then show ?thesis
    by (simp add: fl_def power_int_add powi_2_nat mult_right_mono mult.commute)
qed

lemma fl_lower: "0 \<le> x \<Longrightarrow> - int emin < fexp x \<Longrightarrow> 2 powi (fexp x + 52) \<le> fl x"
proof -
  assume "0 \<le> x" and "- int emin < fexp x"
  then have "of_int (2 ^ 52) \<le> x / 2 powi fexp x"
    using fexp_lower [of x] by (simp add: divide_simps power_int_add)
  then have "2 ^ 52 \<le> round_even (x / 2 powi fexp x)"
    using round_even_mono round_even_of_int by metis
  then have "(2::real) ^ 52 \<le> of_int (round_even (x / 2 powi fexp x))"
    by (metis of_int_le_iff of_int_numeral of_int_power)
  then show ?thesis
    by (simp add: fl_def power_int_add powi_2_nat mult_right_mono mult.commute)
qed

lemma fl_mono_nonneg:
  assumes "0 \<le> x" and "x \<le> y"
  shows "fl x \<le> fl y"
proof (cases "fexp x = fexp y")
  case True
  have "round_even (x / 2 powi fexp y) \<le> round_even (y / 2 powi fexp y)"
    using assms by (intro round_even_mono divide_right_mono) simp_all
  then show ?thesis by (simp add: fl_def True mult_right_mono)
next
  case False
  then have lt: "fexp x < fexp y" using fexp_mono [of x y] assms by simp
  have "fl x \<le> 2 powi (fexp x + 53)" using assms(1) by (rule fl_upper)
  also have "\<dots> \<le> 2 powi (fexp y + 52)" using lt by (intro power_int_increasing) auto
  also have "\<dots> \<le> fl y" using lt fexp_ge [of x] assms by (intro fl_lower) auto
  finally show ?thesis .
qed

lemma fl_nonneg: "0 \<le> x \<Longrightarrow> 0 \<le> fl x"
  using fl_mono_nonneg [of 0 x] by simp

lemma fl_mono: "x \<le> y \<Longrightarrow> fl x \<le> fl y"
proof -
  assume xy: "x \<le> y"
  consider "0 \<le> x" | "y \<le> 0" | "x < 0" "0 < y" by linarith
  then show ?thesis
  proof cases
    case 1
    then show ?thesis using xy by (rule fl_mono_nonneg)
  next
    case 2
    then have "fl (- y) \<le> fl (- x)" using xy by (intro fl_mono_nonneg) auto
    then show ?thesis by simp
  next
    case 3
    then have "0 \<le> fl (- x)" and "0 \<le> fl y" by (auto intro: fl_nonneg simp del: fl_minus)
    then show ?thesis by simp
  qed
qed

text \<open>Representable values are unchanged; in particular all integers below \<open>2 ^ 53\<close>.\<close>

lemma fl_representable:
  assumes x: "x = of_int m * 2 powi e" and m: "\<bar>m\<bar> < 2 ^ 53" and e: "- int emin \<le> e"
  shows "fl x = x"
proof -
  have "real_of_int \<bar>m\<bar> < real_of_int (2 ^ 53)" using m by (simp only: of_int_less_iff)
  then have "\<bar>x\<bar> < 2 ^ 53 * 2 powi e"
    by (simp add: x abs_mult)
  also have "\<dots> = 2 powi (e + 53)" by (simp add: power_int_add powi_2_nat)
  finally have up: "\<bar>x\<bar> < 2 powi (e + 53)" .
  have le: "fexp x \<le> e"
  proof (rule ccontr)
    assume "\<not> fexp x \<le> e"
    then have "2 powi (fexp x + 52) \<le> \<bar>x\<bar>" and "e + 53 \<le> fexp x + 52"
      using e by (auto intro: fexp_lower)
    moreover have "(2::real) powi (e + 53) \<le> 2 powi (fexp x + 52)"
      using \<open>e + 53 \<le> fexp x + 52\<close> by (intro power_int_increasing) auto
    ultimately show False using up by linarith
  qed
  have "x / 2 powi fexp x = of_int m * 2 powi (e - fexp x)"
    by (simp add: x power_int_diff)
  also have "\<dots> = of_int (m * 2 ^ nat (e - fexp x))"
    using le by (simp add: powi_2_nat)
  finally have "x / 2 powi fexp x = of_int (m * 2 ^ nat (e - fexp x))" .
  then show ?thesis
    unfolding fl_def by (metis nonzero_eq_divide_eq round_even_of_int power_int_not_zero zero_neq_numeral)
qed

lemma fl_of_int: "\<bar>n\<bar> < 2 ^ 53 \<Longrightarrow> fl (of_int n) = of_int n"
  by (rule fl_representable [of _ n 0]) auto

lemma fl_numeral: "(numeral w :: int) < 2 ^ 53 \<Longrightarrow> fl (numeral w) = numeral w"
  using fl_of_int [of "numeral w"] by simp

lemma fl_1 [simp]: "fl 1 = 1"
  using fl_of_int [of 1] by simp

lemma fl_half: "\<bar>n\<bar> < 2 ^ 53 \<Longrightarrow> fl (of_int n / 2) = of_int n / 2"
  by (rule fl_representable [of _ n "- 1"]) (auto simp: power_int_minus emin_def)

lemma fl_le_of_int: "x \<le> of_int n \<Longrightarrow> \<bar>n\<bar> < 2 ^ 53 \<Longrightarrow> fl x \<le> of_int n"
  using fl_mono [of x "of_int n"] fl_of_int [of n] by simp

lemma fl_ge_of_int: "of_int n \<le> x \<Longrightarrow> \<bar>n\<bar> < 2 ^ 53 \<Longrightarrow> of_int n \<le> fl x"
  using fl_mono [of "of_int n" x] fl_of_int [of n] by simp

section \<open>Conversions\<close>

lemma go_round_bounds:
  assumes "of_int a \<le> x" and "x \<le> of_int b" and "0 \<le> a"
  shows "of_int a \<le> go_round x \<and> go_round x \<le> of_int b"
proof -
  have "0 \<le> x" using assms by (meson of_int_0_le_iff order_trans)
  moreover have "a \<le> \<lfloor>x + 1/2\<rfloor>" using assms(1) by (simp add: le_floor_iff)
  moreover have "\<lfloor>x + 1/2\<rfloor> \<le> b" using assms(2) by (simp add: floor_le_iff)
  ultimately show ?thesis by (simp add: go_round_def)
qed

lemma go_trunc_bounds:
  assumes "of_int a \<le> x" and "x \<le> of_int b"
  shows "a \<le> go_trunc x \<and> go_trunc x \<le> b"
  using assms by (auto simp: go_trunc_def ceiling_le_iff le_floor_iff le_ceiling_iff floor_le_iff)

lemma go_trunc_of_int [simp]: "go_trunc (of_int n) = n"
  by (simp add: go_trunc_def)

lemma go_trunc_nonpos: "x \<le> 0 \<Longrightarrow> go_trunc x \<le> 0"
  by (auto simp: go_trunc_def ceiling_le_iff)

lemma go_trunc_nonneg: "0 \<le> x \<Longrightarrow> 0 \<le> go_trunc x"
  by (auto simp: go_trunc_def)

text \<open>Rounding twice is rounding once.\<close>

lemma fl_idem [simp]: "fl (fl x) = fl x"
proof -
  define m where "m = round_even (x / 2 powi fexp x)"
  have "\<bar>x / 2 powi fexp x\<bar> \<le> of_int (2 ^ 53)"
    using fexp_upper [of x] by (simp add: abs_divide divide_simps power_int_add)
  then have "x / 2 powi fexp x \<le> of_int (2 ^ 53)" and "- (x / 2 powi fexp x) \<le> of_int (2 ^ 53)"
    by (rule abs_le_D1, rule abs_le_D2)
  then have "of_int (- (2 ^ 53)) \<le> x / 2 powi fexp x" and "x / 2 powi fexp x \<le> of_int (2 ^ 53)" by simp_all
  then have m: "- (2 ^ 53) \<le> m" "m \<le> 2 ^ 53"
    unfolding m_def using round_even_mono round_even_of_int by metis+
  have fl: "fl x = of_int m * 2 powi fexp x" by (simp add: fl_def m_def)
  show ?thesis
  proof (cases "\<bar>m\<bar> < 2 ^ 53")
    case True
    then show ?thesis using fl fexp_ge by (intro fl_representable [where m = m and e = "fexp x"]) auto
  next
    case False
    with m have "m = 2 ^ 53 \<or> m = - (2 ^ 53)" by linarith
    then have "fl x = of_int (m div 2) * 2 powi (fexp x + 1)" and "\<bar>m div 2\<bar> < 2 ^ 53"
      by (auto simp: fl power_int_add)
    then show ?thesis using fexp_ge [of x] by (intro fl_representable [where e = "fexp x + 1"]) auto
  qed
qed

end
