(* ===== verification/Durations.thy ===== *)
theory Durations
  imports GoStrings Float64
begin

text \<open>
  \<^verbatim>\<open>Duration\<close> of \<^verbatim>\<open>pkg/util/times/times.go\<close>, a \<^verbatim>\<open>time.Duration\<close> (int64 nanoseconds) that is written to and read from JSON
  as text like \<^verbatim>\<open>1h30m0s\<close>, with the functions of package \<^verbatim>\<open>time\<close> it calls: \<^verbatim>\<open>Duration.String\<close> and
  \<^verbatim>\<open>ParseDuration\<close>. Shown is that reading gives back every duration that was written.
\<close>

section \<open>Writing\<close>

text \<open>
  \<^verbatim>\<open>fmtFrac\<close>: the fraction \<open>v / 10 ^ n\<close> without trailing zeros, from the last digit to the first, and what is left of \<open>v\<close>.
\<close>

fun fmtFrac :: "nat \<Rightarrow> nat \<Rightarrow> bool \<Rightarrow> string \<Rightarrow> string \<times> nat" where
  "fmtFrac 0 v printing buf = (if printing then CHR ''.'' # buf else buf, v)"
| "fmtFrac (Suc n) v printing buf =
     (let digit = v mod 10; printing = (printing \<or> digit \<noteq> 0)
      in fmtFrac n (v div 10) printing (if printing then digit_char digit # buf else buf))"

definition fmt_fraction :: "nat \<Rightarrow> nat \<Rightarrow> string" where
  "fmt_fraction n v = (let (frac, w) = fmtFrac n v False [] in show_nat w @ frac)"

definition fmt_clock :: "nat \<Rightarrow> string" where
  "fmt_clock u =
     (let (frac, w) = fmtFrac 9 u False []; sec = show_nat (w mod 60) @ frac @ ''s''; w = w div 60
      in if w = 0 then sec
         else let mins = show_nat (w mod 60) @ ''m'' @ sec; w = w div 60
              in if w = 0 then mins else show_nat w @ ''h'' @ mins)"

text \<open>The micro sign is two bytes of UTF-8.\<close>

definition micro :: string where
  "micro = [CHR 0xC2, CHR 0xB5, CHR ''s'']"

definition Duration_String :: "go_duration \<Rightarrow> string" where
  "Duration_String d =
     (let u = nat \<bar>d\<bar>;
          text = (if u = 0 then ''0s''
             else if u < 10 ^ 3 then fmt_fraction 0 u @ ''ns''
             else if u < 10 ^ 6 then fmt_fraction 3 u @ micro
             else if u < 10 ^ 9 then fmt_fraction 6 u @ ''ms''
             else fmt_clock u)
      in if d < 0 then CHR ''-'' # text else text)"

section \<open>Reading\<close>

text \<open>\<^verbatim>\<open>leadingInt\<close> and \<^verbatim>\<open>leadingFraction\<close>: digits at the front, limited to \<open>2 ^ 63\<close>.\<close>

fun leadingInt :: "nat \<Rightarrow> string \<Rightarrow> (nat \<times> string) option" where
  "leadingInt x [] = Some (x, [])"
| "leadingInt x (c # s) =
     (if \<not> is_digit c then Some (x, c # s)
      else if x > 2 ^ 63 div 10 then None
      else let x = x * 10 + digit_val c in if x > 2 ^ 63 then None else leadingInt x s)"

fun leadingFraction :: "nat \<Rightarrow> float64 \<Rightarrow> bool \<Rightarrow> string \<Rightarrow> nat \<times> float64 \<times> string" where
  "leadingFraction x scale overflow [] = (x, scale, [])"
| "leadingFraction x scale overflow (c # s) =
     (if \<not> is_digit c then (x, scale, c # s)
      else if overflow then leadingFraction x scale True s
      else if x > (2 ^ 63 - 1) div 10 then leadingFraction x scale True s
      else let y = x * 10 + digit_val c
           in if y > 2 ^ 63 then leadingFraction x scale True s else leadingFraction y (fl (scale * 10)) False s)"

definition unitMap :: "(string, nat) gomap" where
  "unitMap = [(''ns'', 1), (''us'', 10 ^ 3), (micro, 10 ^ 3), ([CHR 0xCE, CHR 0xBC, CHR ''s''], 10 ^ 3), (''ms'', 10 ^ 6),
     (''s'', 10 ^ 9), (''m'', 60 * 10 ^ 9), (''h'', 3600 * 10 ^ 9)]"

definition unit_char :: "char \<Rightarrow> bool" where
  "unit_char c \<longleftrightarrow> c \<noteq> CHR ''.'' \<and> \<not> is_digit c"

text \<open>The part of the loop that reads the digits before and after the point.\<close>

definition read_number :: "string \<Rightarrow> (nat \<times> nat \<times> float64 \<times> string) option" where
  "read_number s =
     (if s = [] \<or> unit_char (hd s) then None
      else case leadingInt 0 s of None \<Rightarrow> None
        | Some (v, s') \<Rightarrow>
            let (f, scale, s'', post) = (case s' of
                   c # t \<Rightarrow> if c = CHR ''.'' then (let (f, scale, r) = leadingFraction 0 1 False t in (f, scale, r, length t \<noteq> length r))
                            else (0, 1, s', False)
                 | [] \<Rightarrow> (0, 1, s', False))
            in if length s = length s' \<and> \<not> post then None else Some (v, f, scale, s''))"

text \<open>One round of the loop: a number and its unit.\<close>

definition read_part :: "string \<Rightarrow> (nat \<times> string) option" where
  "read_part s =
     (case read_number s of None \<Rightarrow> None
      | Some (v, f, scale, s) \<Rightarrow>
          let u = takeWhile unit_char s; s = dropWhile unit_char s
          in if u = [] then None
             else case map_of unitMap u of None \<Rightarrow> None
               | Some unit \<Rightarrow>
                   if v > 2 ^ 63 div unit then None
                   else let v = v * unit;
                            v' = (if f > 0 then (v + nat (go_trunc (fl (fl (real f) * fl (real unit / scale))))) mod 2 ^ 64 else v)
                        in if v' > 2 ^ 63 \<and> f > 0 then None else Some (v', s))"

lemma leadingInt_length: "leadingInt x s = Some (v, r) \<Longrightarrow> length r \<le> length s"
  by (induction x s rule: leadingInt.induct) (auto split: if_splits simp: Let_def)

lemma leadingFraction_length: "leadingFraction x scale ov s = (v, sc, r) \<Longrightarrow> length r \<le> length s"
  by (induction x scale ov s rule: leadingFraction.induct) (auto split: if_splits simp: Let_def)

lemma read_number_length: "read_number s = Some (v, f, scale, r) \<Longrightarrow> length r \<le> length s"
  unfolding read_number_def Let_def
  by (auto split: if_splits option.splits list.splits prod.splits dest!: leadingInt_length leadingFraction_length)

lemma read_part_length: "read_part s = Some (v, r) \<Longrightarrow> length r < length s"
proof -
  assume a: "read_part s = Some (v, r)"
  then obtain v' f scale t where n: "read_number s = Some (v', f, scale, t)" "takeWhile unit_char t \<noteq> []" "r = dropWhile unit_char t"
    by (auto simp: read_part_def Let_def split: option.splits if_splits)
  then have "length r < length t" by (metis append_eq_append_conv append_self_conv2 le_neq_implies_less length_dropWhile_le takeWhile_dropWhile_id)
  then show ?thesis using read_number_length [OF n(1)] by simp
qed

function read_parts :: "string \<Rightarrow> nat \<Rightarrow> nat option" where
  "read_parts s d =
     (if s = [] then Some d
      else case read_part s of None \<Rightarrow> None
        | Some (v, r) \<Rightarrow> let d = (d + v) mod 2 ^ 64 in if d > 2 ^ 63 then None else read_parts r d)"
  by pat_completeness auto
termination
  by (relation "measure (\<lambda>(s, d). length s)") (auto dest: read_part_length)

declare read_parts.simps [simp del]

definition ParseDuration :: "string \<Rightarrow> go_duration option" where
  "ParseDuration s =
     (let (neg, s) = (case s of c # t \<Rightarrow> if c = CHR ''-'' \<or> c = CHR ''+'' then (c = CHR ''-'', t) else (False, s) | [] \<Rightarrow> (False, s))
      in if s = ''0'' then Some 0
         else if s = [] then None
         else case read_parts s 0 of None \<Rightarrow> None
           | Some d \<Rightarrow> if neg then Some (- int d) else if d > 2 ^ 63 - 1 then None else Some (int d))"

section \<open>The type of the configuration\<close>

text \<open>A JSON value as \<^verbatim>\<open>encoding/json\<close> decodes it into an empty interface.\<close>

datatype json_value = JNumber float64 | JString string | JOther

datatype duration_error = ParseError string | InvalidDuration

definition Duration_MarshalJSON :: "go_duration \<Rightarrow> json_value" where
  "Duration_MarshalJSON d = JString (Duration_String d)"

text \<open>A number beyond the range of int64 is not cut: what Go makes of it depends on the machine.\<close>

definition Duration_UnmarshalJSON :: "json_value \<Rightarrow> duration_error + go_duration" where
  "Duration_UnmarshalJSON v =
     (case v of
        JNumber x \<Rightarrow> Inr (go_trunc x)
      | JString s \<Rightarrow> if s = [] then Inr 0 else (case ParseDuration s of None \<Rightarrow> Inl (ParseError s) | Some d \<Rightarrow> Inr d)
      | JOther \<Rightarrow> Inl InvalidDuration)"

text \<open>\<^verbatim>\<open>Seconds\<close> adds whole seconds and the fraction.\<close>

definition Duration_Seconds :: "go_duration \<Rightarrow> float64" where
  "Duration_Seconds d =
     (let s = (if d < 0 then - (\<bar>d\<bar> div second) else d div second); ns = d - s * second
      in fl (fl (of_int s) + fl (of_int ns / 10 ^ 9)))"

definition Duration_TimeDuration :: "go_duration \<Rightarrow> go_duration" where
  "Duration_TimeDuration d = d"

section \<open>What is written\<close>

lemma dec_val_Cons: "dec_val (c # s) = digit_val c * 10 ^ length s + dec_val s"
proof (induction s rule: rev_induct)
  case (snoc x xs)
  show ?case using snoc dec_val_snoc [of "c # xs" x] dec_val_snoc [of xs x] by (simp add: algebra_simps)
qed (simp add: dec_val_def)

lemma dec_val_Nil [simp]: "dec_val [] = 0"
  by (simp add: dec_val_def)

lemma fmtFrac_printing:
  "\<exists>ds. fmtFrac n v True buf = (CHR ''.'' # ds @ buf, v div 10 ^ n) \<and> length ds = n \<and> list_all is_digit ds \<and> dec_val ds = v mod 10 ^ n"
proof (induction n arbitrary: v buf)
  case 0
  show ?case by simp
next
  case (Suc n)
  obtain ds where ds: "fmtFrac n (v div 10) True (digit_char (v mod 10) # buf) = (CHR ''.'' # ds @ digit_char (v mod 10) # buf, v div 10 div 10 ^ n)"
    "length ds = n" "list_all is_digit ds" "dec_val ds = v div 10 mod 10 ^ n" using Suc.IH by blast
  have "dec_val (ds @ [digit_char (v mod 10)]) = v mod 10 ^ Suc n"
    using ds(4) by (simp add: dec_val_snoc mod_mult2_eq)
  then show ?case using ds by (intro exI [of _ "ds @ [digit_char (v mod 10)]"]) (simp add: Let_def div_mult2_eq)
qed

lemma fmtFrac_spec:
  "fmtFrac n v False [] = ([], v div 10 ^ n) \<and> v mod 10 ^ n = 0 \<or>
   (\<exists>ds. fmtFrac n v False [] = (CHR ''.'' # ds, v div 10 ^ n) \<and> length ds \<le> n \<and> list_all is_digit ds \<and>
      0 < dec_val ds \<and> dec_val ds * 10 ^ (n - length ds) = v mod 10 ^ n)"
proof (induction n arbitrary: v)
  case 0
  show ?case by simp
next
  case (Suc n)
  show ?case
  proof (cases "v mod 10 = 0")
    case True
    have m: "v mod 10 ^ Suc n = v div 10 mod 10 ^ n * 10" using True by (simp add: mod_mult2_eq)
    from Suc.IH [of "v div 10"] show ?thesis
    proof
      assume "fmtFrac n (v div 10) False [] = ([], v div 10 div 10 ^ n) \<and> v div 10 mod 10 ^ n = 0"
      then show ?thesis using True m by (simp add: div_mult2_eq)
    next
      assume "\<exists>ds. fmtFrac n (v div 10) False [] = (CHR ''.'' # ds, v div 10 div 10 ^ n) \<and> length ds \<le> n \<and> list_all is_digit ds \<and>
        0 < dec_val ds \<and> dec_val ds * 10 ^ (n - length ds) = v div 10 mod 10 ^ n"
      then obtain ds where ds: "fmtFrac n (v div 10) False [] = (CHR ''.'' # ds, v div 10 div 10 ^ n)" "length ds \<le> n"
        "list_all is_digit ds" "0 < dec_val ds" "dec_val ds * 10 ^ (n - length ds) = v div 10 mod 10 ^ n" by blast
      then show ?thesis using True m by (intro disjI2 exI [of _ ds]) (simp add: div_mult2_eq Suc_diff_le)
    qed
  next
    case False
    obtain ds where ds: "fmtFrac n (v div 10) True [digit_char (v mod 10)] = (CHR ''.'' # ds @ [digit_char (v mod 10)], v div 10 div 10 ^ n)"
      "length ds = n" "list_all is_digit ds" "dec_val ds = v div 10 mod 10 ^ n" using fmtFrac_printing by blast
    have "dec_val (ds @ [digit_char (v mod 10)]) = v mod 10 ^ Suc n"
      using ds(4) by (simp add: dec_val_snoc mod_mult2_eq)
    then show ?thesis using ds False
      by (intro disjI2 exI [of _ "ds @ [digit_char (v mod 10)]"]) (simp add: Let_def div_mult2_eq dec_val_snoc)
  qed
qed

section \<open>What is read\<close>

lemma leadingInt_digits:
  assumes "list_all is_digit ds" and "x * 10 ^ length ds + dec_val ds \<le> 2 ^ 63" and "r = [] \<or> \<not> is_digit (hd r)"
  shows "leadingInt x (ds @ r) = Some (x * 10 ^ length ds + dec_val ds, r)"
  using assms
proof (induction ds arbitrary: x)
  case Nil
  then show ?case by (cases r) auto
next
  case (Cons c ds)
  let ?y = "x * 10 + digit_val c"
  have e: "x * 10 ^ length (c # ds) + dec_val (c # ds) = ?y * 10 ^ length ds + dec_val ds"
    by (simp add: dec_val_Cons algebra_simps)
  have "?y * 1 \<le> ?y * 10 ^ length ds" by (intro mult_left_mono) simp_all
  then have y: "?y \<le> 2 ^ 63" using Cons.prems(2) unfolding e mult_1_right by (meson add_leD1 order_trans)
  then have "x \<le> 2 ^ 63 div 10" by simp
  then show ?case using Cons e y by (simp add: Let_def)
qed

lemma leadingFraction_digits:
  assumes "list_all is_digit ds" and "length ds + k \<le> 9" and "x < 10 ^ k" and "r = [] \<or> \<not> is_digit (hd r)"
  shows "leadingFraction x (10 ^ k) False (ds @ r) = (x * 10 ^ length ds + dec_val ds, 10 ^ (k + length ds), r)"
  using assms
proof (induction ds arbitrary: x k)
  case Nil
  then show ?case by (cases r) auto
next
  case (Cons c ds)
  let ?y = "x * 10 + digit_val c"
  have c: "digit_val c < 10" using Cons.prems(1) by (auto simp: digit_val_def is_digit_def)
  have "x + 1 \<le> 10 ^ k" using Cons.prems(3) by simp
  then have y: "?y < 10 ^ Suc k" using c by simp
  have k: "Suc k \<le> 9" using Cons.prems(2) by simp
  have "(10::nat) ^ Suc k \<le> 10 ^ 9" using k by (intro power_increasing) simp_all
  then have b: "?y \<le> 2 ^ 63" "x \<le> (2 ^ 63 - 1) div 10" using y by simp_all
  have "(10::int) ^ Suc k \<le> 10 ^ 9" using k by (intro power_increasing) simp_all
  then have "fl (of_int (10 ^ Suc k)) = of_int (10 ^ Suc k)" by (intro fl_of_int) simp
  then have f: "fl (10 ^ k * 10) = 10 ^ Suc k" by (simp add: mult.commute)
  have "leadingFraction ?y (10 ^ Suc k) False (ds @ r) = (?y * 10 ^ length ds + dec_val ds, 10 ^ (Suc k + length ds), r)"
    using Cons.prems y by (intro Cons.IH) simp_all
  moreover have "leadingFraction x (10 ^ k) False ((c # ds) @ r) = leadingFraction ?y (10 ^ Suc k) False (ds @ r)"
    using Cons.prems(1) b unfolding append_Cons leadingFraction.simps Let_def f by auto
  ultimately show ?case by (simp add: dec_val_Cons algebra_simps)
qed

lemma read_number_plain:
  assumes "v \<le> 2 ^ 63" and "list_all unit_char u" and "u \<noteq> []"
  shows "read_number (show_nat v @ u @ r) = Some (v, 0, 1, u @ r)"
proof -
  obtain c cs where u: "u = c # cs" "c \<noteq> CHR ''.''" "\<not> is_digit c" using assms(2,3) by (cases u) (auto simp: unit_char_def)
  obtain d ds where s: "show_nat v = d # ds" "is_digit d" using show_nat_digits [of v] by (cases "show_nat v") auto
  have "leadingInt 0 (show_nat v @ u @ r) = Some (v, u @ r)"
    using leadingInt_digits [OF show_nat_digits, of 0 v "u @ r"] assms(1) u by simp
  then show ?thesis using s u unfolding read_number_def by (simp add: unit_char_def Let_def)
qed

lemma read_number_fraction:
  assumes "v \<le> 2 ^ 63" and "list_all unit_char u" and "u \<noteq> []" and ds: "list_all is_digit ds" "length ds \<le> 9" "0 < dec_val ds"
  shows "read_number (show_nat v @ (CHR ''.'' # ds) @ u @ r) = Some (v, dec_val ds, 10 ^ length ds, u @ r)"
proof -
  obtain d es where s: "show_nat v = d # es" "is_digit d" using show_nat_digits [of v] by (cases "show_nat v") auto
  have h: "u @ r = [] \<or> \<not> is_digit (hd (u @ r))" using assms(2,3) by (cases u) (auto simp: unit_char_def)
  have "leadingInt 0 (show_nat v @ (CHR ''.'' # ds) @ u @ r) = Some (v, (CHR ''.'' # ds) @ u @ r)"
    using leadingInt_digits [OF show_nat_digits, of 0 v "(CHR ''.'' # ds) @ u @ r"] assms(1) by (simp add: is_digit_def)
  moreover have "leadingFraction 0 1 False (ds @ u @ r) = (dec_val ds, 10 ^ length ds, u @ r)"
    using leadingFraction_digits [OF ds(1), of 0 0 "u @ r"] ds(2) h by simp
  moreover have "ds \<noteq> []" using ds(3) by auto
  ultimately show ?thesis using s unfolding read_number_def by (simp add: unit_char_def Let_def)
qed

text \<open>With at most nine digits the arithmetic with floating point numbers is exact.\<close>

lemma fraction_exact:
  assumes "n \<le> 9" and "k \<le> n" and "f < 10 ^ k"
  shows "go_trunc (fl (fl (real f) * fl (real (10 ^ n) / 10 ^ k))) = int (f * 10 ^ (n - k))"
proof -
  have le: "(10::nat) ^ j \<le> 10 ^ 9" if "j \<le> 9" for j using that by (intro power_increasing) simp_all
  have exact: "fl (real m) = real m" if "m \<le> 10 ^ 9" for m using that fl_of_int [of "int m"] by simp
  have "(10::nat) ^ n = 10 ^ k * 10 ^ (n - k)" using assms(2) by (simp flip: power_add)
  then have q: "real (10 ^ n) / 10 ^ k = real (10 ^ (n - k))" by simp
  have "f * 10 ^ (n - k) < 10 ^ k * 10 ^ (n - k)" using assms(3) by simp
  also have "\<dots> = 10 ^ n" using assms(2) by (simp flip: power_add)
  finally have p: "f * 10 ^ (n - k) \<le> 10 ^ 9" using le [OF assms(1)] by simp
  have f: "f \<le> 10 ^ 9" using assms le [of k] by simp
  have "fl (real f) * fl (real (10 ^ n) / 10 ^ k) = real (f * 10 ^ (n - k))"
    unfolding q exact [OF f] using exact [OF le, of "n - k"] assms(1) by simp
  then show ?thesis using exact [OF p] go_trunc_of_int [of "int (f * 10 ^ (n - k))"] by simp
qed

lemma dec_val_bound: "list_all is_digit ds \<Longrightarrow> dec_val ds < 10 ^ length ds"
proof (induction ds)
  case (Cons c ds)
  then have "digit_val c \<le> 9" by (auto simp: digit_val_def is_digit_def)
  then have "digit_val c * 10 ^ length ds \<le> 9 * 10 ^ length ds" by simp
  moreover have "dec_val ds < 10 ^ length ds" using Cons by simp
  ultimately have "digit_val c * 10 ^ length ds + dec_val ds < 9 * 10 ^ length ds + 10 ^ length ds" by (rule add_le_less_mono)
  then show ?case by (simp add: dec_val_Cons)
qed simp

lemma unit_take_drop:
  assumes "list_all unit_char u" and "r = [] \<or> \<not> unit_char (hd r)"
  shows "takeWhile unit_char (u @ r) = u" and "dropWhile unit_char (u @ r) = r"
  using assms by (cases r; auto simp: list_all_iff takeWhile_append dropWhile_append)+

lemma read_part_plain:
  assumes "v * unit \<le> 2 ^ 63" "map_of unitMap u = Some unit" "list_all unit_char u" "u \<noteq> []" "0 < unit" "r = [] \<or> \<not> unit_char (hd r)"
  shows "read_part (show_nat v @ u @ r) = Some (v * unit, r)"
proof -
  have "v \<le> 2 ^ 63 div unit" using assms(1,5) by (simp add: less_eq_div_iff_mult_less_eq)
  moreover have "v \<le> 2 ^ 63" using assms(1,5) by (meson calculation div_le_dividend order_trans)
  ultimately show ?thesis
    using assms(2-4) read_number_plain [of v u r] unit_take_drop [OF assms(3,6)] unfolding read_part_def by simp
qed

lemma read_part_fraction:
  assumes v: "v * 10 ^ n + dec_val ds * 10 ^ (n - length ds) \<le> 2 ^ 63" and u: "map_of unitMap u = Some (10 ^ n)" "list_all unit_char u" "u \<noteq> []"
    and r: "r = [] \<or> \<not> unit_char (hd r)" and ds: "list_all is_digit ds" "length ds \<le> n" "0 < dec_val ds" "n \<le> 9"
  shows "read_part (show_nat v @ (CHR ''.'' # ds) @ u @ r) = Some (v * 10 ^ n + dec_val ds * 10 ^ (n - length ds), r)"
proof -
  let ?f = "dec_val ds * 10 ^ (n - length ds)"
  have vn: "v * 10 ^ n \<le> 2 ^ 63" using v by (rule add_leD1)
  then have a: "v \<le> 2 ^ 63 div 10 ^ n" by (simp add: less_eq_div_iff_mult_less_eq)
  then have b: "v \<le> 2 ^ 63" by (meson div_le_dividend order_trans)
  have l: "length ds \<le> 9" using ds by simp
  have n: "read_number (show_nat v @ (CHR ''.'' # ds) @ u @ r) = Some (v, dec_val ds, 10 ^ length ds, u @ r)"
    using read_number_fraction [OF b u(2,3) ds(1) l ds(3)] .
  have x: "nat (go_trunc (fl (fl (real (dec_val ds)) * fl (real (10 ^ n) / 10 ^ length ds)))) = ?f"
    unfolding fraction_exact [OF ds(4,2) dec_val_bound [OF ds(1)]] by (rule nat_int)
  have m: "(v * 10 ^ n + ?f) mod 2 ^ 64 = v * 10 ^ n + ?f" using v by (intro mod_less) simp
  show ?thesis unfolding read_part_def n option.case prod.case Let_def unit_take_drop [OF u(2) r] u(1) x m
    using a v u(3) ds(3) by simp
qed

lemma read_part_written:
  assumes "x * 10 ^ n + w mod 10 ^ n \<le> 2 ^ 63" "map_of unitMap u = Some (10 ^ n)" "list_all unit_char u" "u \<noteq> []" "n \<le> 9"
    "r = [] \<or> \<not> unit_char (hd r)"
  shows "read_part (show_nat x @ fst (fmtFrac n w False []) @ u @ r) = Some (x * 10 ^ n + w mod 10 ^ n, r)"
  using fmtFrac_spec [of n w]
proof
  assume "fmtFrac n w False [] = ([], w div 10 ^ n) \<and> w mod 10 ^ n = 0"
  then show ?thesis using read_part_plain [of x "10 ^ n" u r] assms by simp
next
  assume "\<exists>ds. fmtFrac n w False [] = (CHR ''.'' # ds, w div 10 ^ n) \<and> length ds \<le> n \<and> list_all is_digit ds \<and>
      0 < dec_val ds \<and> dec_val ds * 10 ^ (n - length ds) = w mod 10 ^ n"
  then obtain ds where ds: "fmtFrac n w False [] = (CHR ''.'' # ds, w div 10 ^ n)" "length ds \<le> n" "list_all is_digit ds"
      "0 < dec_val ds" "dec_val ds * 10 ^ (n - length ds) = w mod 10 ^ n" by blast
  then show ?thesis using read_part_fraction [of x n ds u r] assms by simp
qed

lemma snd_fmtFrac: "snd (fmtFrac n w False []) = w div 10 ^ n"
  using fmtFrac_spec [of n w] by auto

lemma fmt_fraction_eq: "fmt_fraction n w = show_nat (w div 10 ^ n) @ fst (fmtFrac n w False [])"
  using snd_fmtFrac [of n w] by (auto simp: fmt_fraction_def split: prod.split)

lemma read_parts_step:
  assumes "read_part s = Some (v, r)" and "d + v \<le> 2 ^ 63"
  shows "read_parts s d = read_parts r (d + v)"
proof -
  have "s \<noteq> []" using assms(1) by (auto dest: read_part_length)
  moreover have "(d + v) mod 2 ^ 64 = d + v" using assms(2) by (intro mod_less) simp
  ultimately show ?thesis using assms by (subst read_parts.simps) simp
qed

lemma read_parts_Nil [simp]: "read_parts [] d = Some d"
  by (simp add: read_parts.simps)

lemma read_fraction:
  assumes "w \<le> 2 ^ 63" "map_of unitMap u = Some (10 ^ n)" "list_all unit_char u" "u \<noteq> []" "n \<le> 9"
  shows "read_parts (fmt_fraction n w @ u) 0 = Some w"
proof -
  have "w div 10 ^ n * 10 ^ n + w mod 10 ^ n = w" by (rule div_mult_mod_eq)
  then have "read_part (fmt_fraction n w @ u) = Some (w, [])"
    using read_part_written [of "w div 10 ^ n" n w u "[]"] assms by (simp add: fmt_fraction_eq)
  then show ?thesis using assms(1) by (simp add: read_parts_step)
qed

lemma not_unit_char_show: "\<not> unit_char (hd (show_nat v @ s))"
  using show_nat_digits [of v] by (cases "show_nat v") (auto simp: unit_char_def)

lemma read_seconds:
  assumes "d + (x * 10 ^ 9 + w mod 10 ^ 9) \<le> 2 ^ 63"
  shows "read_parts (show_nat x @ fst (fmtFrac 9 w False []) @ ''s'') d = Some (d + (x * 10 ^ 9 + w mod 10 ^ 9))"
proof -
  have "read_part (show_nat x @ fst (fmtFrac 9 w False []) @ ''s'') = Some (x * 10 ^ 9 + w mod 10 ^ 9, [])"
    using assms read_part_written [of x 9 w "''s''" "[]"] by (simp add: unitMap_def unit_char_def is_digit_def micro_def)
  then show ?thesis using assms by (simp add: read_parts_step)
qed

lemma read_plain:
  assumes "map_of unitMap u = Some k" "list_all unit_char u" "u \<noteq> []" "0 < k" "d + v * k \<le> 2 ^ 63"
  shows "read_parts (show_nat v @ u @ show_nat x @ s) d = read_parts (show_nat x @ s) (d + v * k)"
  using read_part_plain [of v k u "show_nat x @ s"] assms not_unit_char_show [of x s] by (simp add: read_parts_step)

lemma clock_sum:
  fixes w :: nat
  assumes "u = w * 10 ^ 9 + f"
  shows "w div 60 div 60 * (3600 * 10 ^ 9) + w div 60 mod 60 * (60 * 10 ^ 9) + (w mod 60 * 10 ^ 9 + f) = u"
proof -
  obtain a b c where abc: "w div 60 div 60 = a" "w div 60 mod 60 = b" "w mod 60 = c" by blast
  have "w = w div 60 * 60 + c" "w div 60 = a * 60 + b" using abc by (metis div_mult_mod_eq)+
  then have "w = a * 3600 + b * 60 + c" by linarith
  then show ?thesis using assms unfolding abc by simp
qed

lemma read_clock:
  assumes "u \<le> 2 ^ 63"
  shows "read_parts (fmt_clock u) 0 = Some u"
proof -
  define w where "w = u div 10 ^ 9"
  define frac where "frac = fst (fmtFrac 9 u False [])"
  have f: "fmtFrac 9 u False [] = (frac, w)" using snd_fmtFrac [of 9 u] by (simp add: w_def frac_def prod_eq_iff)
  have u: "u = w * 10 ^ 9 + u mod 10 ^ 9" unfolding w_def by (rule div_mult_mod_eq [symmetric])
  note sum_eq = clock_sum [OF u]
  note secs = read_seconds [of _ "w mod 60" u, folded frac_def]
  have mins: "map_of unitMap ''m'' = Some (60 * 10 ^ 9)" "list_all unit_char ''m''"
    and hours: "map_of unitMap ''h'' = Some (3600 * 10 ^ 9)" "list_all unit_char ''h''"
    by (simp_all add: unitMap_def micro_def unit_char_def is_digit_def)
  consider "w div 60 = 0" | "w div 60 \<noteq> 0" "w div 60 div 60 = 0" | "w div 60 \<noteq> 0" "w div 60 div 60 \<noteq> 0" by blast
  then show ?thesis
  proof cases
    case 1
    then have e: "w mod 60 * 10 ^ 9 + u mod 10 ^ 9 = u" using sum_eq 1 by simp
    then show ?thesis using 1 secs [of 0] assms by (simp add: fmt_clock_def f Let_def)
  next
    case 2
    let ?m = "w div 60 mod 60 * (60 * 10 ^ 9)"
    have e: "?m + (w mod 60 * 10 ^ 9 + u mod 10 ^ 9) = u" using sum_eq unfolding 2(2) by simp
    then have m: "0 + ?m \<le> 2 ^ 63" using assms by linarith
    have "read_parts (fmt_clock u) 0 = read_parts (show_nat (w mod 60) @ frac @ ''s'') (0 + ?m)"
      using 2 read_plain [OF mins _ _ m] by (simp add: fmt_clock_def f Let_def)
    then show ?thesis using secs [of ?m] assms e by simp
  next
    case 3
    let ?m = "w div 60 mod 60 * (60 * 10 ^ 9)" and ?h = "w div 60 div 60 * (3600 * 10 ^ 9)"
    have e: "?h + ?m + (w mod 60 * 10 ^ 9 + u mod 10 ^ 9) = u" by (rule sum_eq)
    then have m: "0 + ?h \<le> 2 ^ 63" "0 + ?h + ?m \<le> 2 ^ 63" using assms by linarith+
    have "read_parts (fmt_clock u) 0 = read_parts (show_nat (w div 60 mod 60) @ ''m'' @ show_nat (w mod 60) @ frac @ ''s'') (0 + ?h)"
      using 3 read_plain [OF hours _ _ m(1)] by (simp add: fmt_clock_def f Let_def)
    also have "\<dots> = read_parts (show_nat (w mod 60) @ frac @ ''s'') (0 + ?h + ?m)"
      using read_plain [OF mins _ _ m(2)] by simp
    finally show ?thesis using secs [of "?h + ?m"] assms e by simp
  qed
qed

definition duration_text :: "nat \<Rightarrow> string" where
  "duration_text u = (if u = 0 then ''0s'' else if u < 10 ^ 3 then fmt_fraction 0 u @ ''ns'' else if u < 10 ^ 6 then fmt_fraction 3 u @ micro
     else if u < 10 ^ 9 then fmt_fraction 6 u @ ''ms'' else fmt_clock u)"

lemma read_duration_text:
  assumes "u \<le> 2 ^ 63"
  shows "read_parts (duration_text u) 0 = Some u"
proof -
  have z: "read_parts ''0s'' 0 = Some 0"
    using read_part_plain [of 0 "10 ^ 9" "''s''" "[]"]
    by (simp add: unitMap_def micro_def unit_char_def is_digit_def show_nat_0 read_parts_step)
  have a: "read_parts (fmt_fraction 0 u @ ''ns'') 0 = Some u" "read_parts (fmt_fraction 3 u @ micro) 0 = Some u"
     "read_parts (fmt_fraction 6 u @ ''ms'') 0 = Some u"
    using assms by (intro read_fraction; simp add: unitMap_def micro_def unit_char_def is_digit_def)+
  show ?thesis unfolding duration_text_def using z a read_clock [OF assms] by simp
qed

lemma digit_first:
  assumes "s = show_nat v @ t"
  shows "s \<noteq> []" "hd s \<noteq> CHR ''-''" "hd s \<noteq> CHR ''+''"
  using assms show_nat_digits [of v] by (cases "show_nat v"; auto simp: is_digit_def)+

lemma duration_text_first: "\<exists>v t. duration_text u = show_nat v @ t \<and> t \<noteq> []"
proof -
  have z: "\<exists>v t. ''0s'' = show_nat v @ t \<and> t \<noteq> []" by (intro exI [of _ 0] exI [of _ "''s''"]) (simp add: show_nat_0)
  have c: "\<exists>v t. fmt_clock u = show_nat v @ t \<and> t \<noteq> []"
    by (auto simp: fmt_clock_def Let_def split: prod.split)
  have f: "\<exists>v t. fmt_fraction n u @ c # x = show_nat v @ t \<and> t \<noteq> []" for n c x
    by (auto simp: fmt_fraction_eq)
  show ?thesis unfolding duration_text_def micro_def
    by (cases "u = 0"; cases "u < 10 ^ 3"; cases "u < 10 ^ 6"; cases "u < 10 ^ 9") (simp_all only: if_True if_False simp_thms z c f)
qed

section \<open>Round trip\<close>

lemma ParseDuration_String:
  assumes "- (2 ^ 63) \<le> d" and "d < 2 ^ 63"
  shows "ParseDuration (Duration_String d) = Some d"
proof -
  let ?u = "nat \<bar>d\<bar>"
  obtain v t where t: "duration_text ?u = show_nat v @ t" "t \<noteq> []" using duration_text_first by blast
  note h = digit_first [OF t(1)]
  have n0: "duration_text ?u \<noteq> ''0''"
  proof
    assume "duration_text ?u = ''0''"
    then have "length (show_nat v @ t) = 1" using t by (metis length_Cons list.size(3) One_nat_def)
    then show False using t(2) by (cases "show_nat v"; cases t) auto
  qed
  have u: "?u \<le> 2 ^ 63" using assms by simp
  note r = read_duration_text [OF u]
  obtain c cs where c: "duration_text ?u = c # cs" using h(1) by (cases "duration_text ?u") auto
  have s: "Duration_String d = (if d < 0 then CHR ''-'' # duration_text ?u else duration_text ?u)"
    unfolding Duration_String_def duration_text_def Let_def by simp
  show ?thesis
  proof (cases "d < 0")
    case True
    then show ?thesis using s r n0 h(1) by (simp add: ParseDuration_def)
  next
    case False
    then have "?u \<le> 2 ^ 63 - 1" using assms(2) by simp
    moreover have "Duration_String d = c # cs" using s c False by simp
    moreover have "c # cs \<noteq> ''0''" "c \<noteq> CHR ''-''" "c \<noteq> CHR ''+''" using n0 h c by auto
    ultimately show ?thesis using r c False unfolding ParseDuration_def by (auto simp: Let_def)
  qed
qed

lemma Duration_String_ne: "Duration_String d \<noteq> []"
proof -
  have "Duration_String d = (if d < 0 then CHR ''-'' # duration_text (nat \<bar>d\<bar>) else duration_text (nat \<bar>d\<bar>))"
    unfolding Duration_String_def duration_text_def Let_def by simp
  then show ?thesis using duration_text_first [of "nat \<bar>d\<bar>"] by auto
qed

text \<open>
  C40. Every duration (an int64 number of nanoseconds) that is written to JSON is read back unchanged: hours, minutes,
  seconds and fractions down to the nanosecond, negative ones and the smallest int64 included. The fractions are read with floating
  point arithmetic, which is exact here.
\<close>

theorem Duration_roundtrip:
  assumes "- (2 ^ 63) \<le> d" and "d < 2 ^ 63"
  shows "Duration_UnmarshalJSON (Duration_MarshalJSON d) = Inr d"
  using ParseDuration_String [OF assms] Duration_String_ne [of d] by (simp add: Duration_UnmarshalJSON_def Duration_MarshalJSON_def)

theorem Duration_roundtrip_witness:
  "Duration_UnmarshalJSON (Duration_MarshalJSON (- 5400000000001)) = Inr (- 5400000000001)"
  by (rule Duration_roundtrip) simp_all

end
