(* ===== verification/Quantity.thy ===== *)
theory Quantity
  imports Float64 GoStrings
begin

text \<open>
  \<^verbatim>\<open>resource.Quantity\<close> of \<^verbatim>\<open>k8s.io/apimachinery\<close> is a library type the sources only call. It is a
  parameter of the model: a type variable \<open>'q\<close> and a record \<open>Q\<close> of the operations the code
  uses, passed to every definition that handles quantities. The locale \<open>quantity\<close> states
  the documented behaviour the theorems rely on, through the number \<open>amount\<close> that a quantity
  denotes. At the end the interface is interpreted on exact decimal quantities with nano
  precision, the finest scale the library keeps.
\<close>

record 'q qops =
  q_add :: "'q \<Rightarrow> 'q \<Rightarrow> 'q"
  q_sub :: "'q \<Rightarrow> 'q \<Rightarrow> 'q"
  q_neg :: "'q \<Rightarrow> 'q"
  q_cmp :: "'q \<Rightarrow> 'q \<Rightarrow> int"
  q_is_zero :: "'q \<Rightarrow> bool"
  q_new :: "int \<Rightarrow> 'q"
  q_new_milli :: "int \<Rightarrow> 'q"
  q_value :: "'q \<Rightarrow> int"
  q_milli :: "'q \<Rightarrow> int"
  q_parse :: "string \<Rightarrow> 'q option"
  q_default :: "'q"

text \<open>\<^verbatim>\<open>v1.ResourceList\<close> and the resource names.\<close>

type_synonym 'q resource_list = "(string, 'q) gomap"

abbreviation (input) ResourceCPU :: string where
  "ResourceCPU \<equiv> ''cpu''"

abbreviation (input) ResourceMemory :: string where
  "ResourceMemory \<equiv> ''memory''"

text \<open>\<^verbatim>\<open>resource.MustParse("0")\<close>, a package variable in several files.\<close>

definition zeroQ :: "'q qops \<Rightarrow> 'q" where
  "zeroQ Q = (case q_parse Q ''0'' of Some z \<Rightarrow> z | None \<Rightarrow> q_default Q)"

text \<open>A read of a resource list; a missing resource is the zero \<^verbatim>\<open>Quantity{}\<close>.\<close>

definition rl_get :: "'q qops \<Rightarrow> 'q resource_list \<Rightarrow> string \<Rightarrow> 'q" where
  "rl_get Q rl k = (case map_of rl k of Some q \<Rightarrow> q | None \<Rightarrow> q_default Q)"

locale quantity =
  fixes Q :: "'q qops" and amount :: "'q \<Rightarrow> real"
  assumes amount_add [simp]: "amount (q_add Q a b) = amount a + amount b"
    and amount_sub [simp]: "amount (q_sub Q a b) = amount a - amount b"
    and amount_neg [simp]: "amount (q_neg Q a) = - amount a"
    and cmp_less [simp]: "q_cmp Q a b < 0 \<longleftrightarrow> amount a < amount b"
    and cmp_greater [simp]: "0 < q_cmp Q a b \<longleftrightarrow> amount b < amount a"
    and is_zero [simp]: "q_is_zero Q a \<longleftrightarrow> amount a = 0"
    and amount_new [simp]: "amount (q_new Q n) = of_int n"
    and amount_new_milli [simp]: "amount (q_new_milli Q n) = of_int n / 1000"
    and value_exact: "amount a = of_int n \<Longrightarrow> q_value Q a = n"
    and milli_exact: "amount a = of_int n / 1000 \<Longrightarrow> q_milli Q a = n"
    and milli_nonneg: "0 \<le> amount a \<Longrightarrow> 0 \<le> q_milli Q a"
    and milli_nonpos: "amount a \<le> 0 \<Longrightarrow> q_milli Q a \<le> 0"
    and parse_zero: "\<exists>z. q_parse Q ''0'' = Some z \<and> amount z = 0"
    and parse_neg: "q_parse Q (c # s) = Some a \<Longrightarrow> is_digit c \<Longrightarrow>
      \<exists>b. q_parse Q (CHR ''-'' # c # s) = Some b \<and> amount b = - amount a"
    and parse_nonneg: "q_parse Q (c # s) = Some a \<Longrightarrow> is_digit c \<Longrightarrow> 0 \<le> amount a"
    and amount_default [simp]: "amount (q_default Q) = 0"
begin

lemma amount_zeroQ [simp]: "amount (zeroQ Q) = 0"
  using parse_zero by (auto simp: zeroQ_def split: option.splits)

lemma cmp_eq [simp]: "q_cmp Q a b = 0 \<longleftrightarrow> amount a = amount b"
  by (metis cmp_greater cmp_less linorder_neq_iff)

lemma cmp_ge [simp]: "0 \<le> q_cmp Q a b \<longleftrightarrow> amount b \<le> amount a"
  by (metis cmp_less linorder_not_less)

lemma cmp_le [simp]: "q_cmp Q a b \<le> 0 \<longleftrightarrow> amount a \<le> amount b"
  by (metis cmp_greater linorder_not_less)

lemma milli_new_milli [simp]: "q_milli Q (q_new_milli Q n) = n"
  by (rule milli_exact) simp

lemma value_new [simp]: "q_value Q (q_new Q n) = n"
  by (rule value_exact) simp

lemma milli_new [simp]: "q_milli Q (q_new Q n) = n * 1000"
  by (rule milli_exact) simp

lemma amount_rl_get: "amount (rl_get Q rl k) = (case map_of rl k of Some q \<Rightarrow> amount q | None \<Rightarrow> 0)"
  by (auto simp: rl_get_def split: option.splits)

end

section \<open>Exact decimal quantities\<close>

text \<open>
  Quantities as integer counts of nano units. \<open>nano_parse\<close> reads an optional sign, decimal
  digits and an optional suffix \<open>m\<close>, the forms that occur in the configuration files.
\<close>

definition nano_parse_unsigned :: "string \<Rightarrow> int option" where
  "nano_parse_unsigned s =
     (if s \<noteq> [] \<and> list_all is_digit s then Some (int (dec_val s) * 10 ^ 9)
      else if s \<noteq> [] \<and> last s = CHR ''m'' \<and> butlast s \<noteq> [] \<and> list_all is_digit (butlast s)
      then Some (int (dec_val (butlast s)) * 10 ^ 6)
      else None)"

definition nano_parse :: "string \<Rightarrow> int option" where
  "nano_parse s =
     (case s of [] \<Rightarrow> None
      | c # r \<Rightarrow> if c = CHR ''-'' then map_option uminus (nano_parse_unsigned r) else nano_parse_unsigned s)"

definition nanoQ :: "int qops" where
  "nanoQ = \<lparr>q_add = (+), q_sub = (-), q_neg = uminus, q_cmp = (\<lambda>a b. sgn (a - b)),
     q_is_zero = (\<lambda>a. a = 0), q_new = (\<lambda>n. n * 10 ^ 9), q_new_milli = (\<lambda>n. n * 10 ^ 6),
     q_value = (\<lambda>a. - ((- a) div 10 ^ 9)), q_milli = (\<lambda>a. - ((- a) div 10 ^ 6)),
     q_parse = nano_parse, q_default = 0\<rparr>"

definition nano_amount :: "int \<Rightarrow> real" where
  "nano_amount n = of_int n / 10 ^ 9"

lemma nano_parse_digit:
  assumes "nano_parse (c # s) = Some a" and "is_digit c"
  shows "nano_parse_unsigned (c # s) = Some a" "c \<noteq> CHR ''-''" "0 \<le> a"
  using assms
  by (auto simp: nano_parse_def is_digit_def nano_parse_unsigned_def split: if_splits)

lemma nano_milli_exact:
  assumes "nano_amount a = of_int n / 1000"
  shows "- ((- a) div 10 ^ 6) = n"
proof -
  have "real_of_int a = real_of_int (n * 10 ^ 6)" using assms by (simp add: nano_amount_def)
  then have "a = n * 10 ^ 6" by (simp only: of_int_eq_iff)
  then show ?thesis by simp
qed

lemma nano_value_exact:
  assumes "nano_amount a = of_int n"
  shows "- ((- a) div 10 ^ 9) = n"
proof -
  have "real_of_int a = real_of_int (n * 10 ^ 9)" using assms by (simp add: nano_amount_def)
  then have "a = n * 10 ^ 9" by (simp only: of_int_eq_iff)
  then show ?thesis by simp
qed

lemma nano_amount_sign: "0 \<le> nano_amount a \<longleftrightarrow> 0 \<le> a" "nano_amount a \<le> 0 \<longleftrightarrow> a \<le> 0"
  by (auto simp: nano_amount_def)

interpretation nano: quantity nanoQ nano_amount
proof (unfold_locales, goal_cases)
  case (4 a b)
  then show ?case by (auto simp: nanoQ_def nano_amount_def sgn_if divide_less_cancel)
next
  case (5 a b)
  then show ?case by (auto simp: nanoQ_def nano_amount_def sgn_if divide_less_cancel)
next
  case (9 a n)
  then show ?case using nano_value_exact by (simp add: nanoQ_def)
next
  case (10 a n)
  then show ?case using nano_milli_exact by (simp add: nanoQ_def)
next
  case (11 a)
  then show ?case by (simp add: nanoQ_def nano_amount_sign div_nonpos_pos_le0)
next
  case (12 a)
  then show ?case by (simp add: nanoQ_def nano_amount_sign pos_imp_zdiv_nonneg_iff)
next
  case 13
  then show ?case
    by (simp add: nanoQ_def nano_parse_def nano_parse_unsigned_def is_digit_def nano_amount_def
        dec_val_def digit_val_def)
next
  case (14 c s a)
  then have "nano_parse_unsigned (c # s) = Some a"
    by (intro nano_parse_digit(1)) (simp_all add: nanoQ_def)
  then have "nano_parse (CHR ''-'' # c # s) = Some (- a)"
    by (simp add: nano_parse_def)
  then show ?case by (simp add: nanoQ_def nano_amount_def)
next
  case (15 c s a)
  then show ?case using nano_parse_digit(3) [of c s a] by (simp add: nanoQ_def nano_amount_sign)
qed (simp_all add: nanoQ_def nano_amount_def add_divide_distrib diff_divide_distrib)

lemma zeroQ_nano [simp]: "zeroQ nanoQ = 0"
  by (simp add: zeroQ_def nanoQ_def nano_parse_def nano_parse_unsigned_def is_digit_def dec_val_def digit_val_def)

lemma nano_sel:
  "q_add nanoQ = (+)" "q_sub nanoQ = (-)" "q_neg nanoQ = uminus" "q_cmp nanoQ = (\<lambda>a b. sgn (a - b))"
  "q_is_zero nanoQ = (\<lambda>a. a = 0)" "q_new nanoQ = (\<lambda>n. n * 10 ^ 9)" "q_new_milli nanoQ = (\<lambda>n. n * 10 ^ 6)"
  "q_value nanoQ = (\<lambda>a. - ((- a) div 10 ^ 9))" "q_milli nanoQ = (\<lambda>a. - ((- a) div 10 ^ 6))"
  "q_parse nanoQ = nano_parse" "q_default nanoQ = 0"
  by (simp_all add: nanoQ_def)

lemmas nano_ops = nano_sel nano_amount_def rl_get_def

end
