(* ===== verification/Pods.thy ===== *)
theory Pods
  imports Quantity
begin

text \<open>
  Pods as the agent sees them: their class (\<^verbatim>\<open>util/appclass\<close>), sets of pods (\<^verbatim>\<open>util/sets\<close>), their
  extended resource requests summed up per node (\<^verbatim>\<open>resource/k8s/types.go\<close>) and the order in which
  offline pods are chosen to be killed (\<^verbatim>\<open>resource/k8s/pod_sort.go\<close>). \<^verbatim>\<open>v1.Pod\<close> is a library type; the
  record has the fields the code reads.
\<close>

section \<open>Data\<close>

record 'q container =
  c_Name :: string
  c_Requests :: "'q resource_list"

record 'q pod =
  p_Name :: string
  p_Namespace :: string
  p_UID :: string
  p_Annotations :: "(string, string) gomap option"
  p_Priority :: "int option"
  p_Phase :: string
  p_StartTime :: "go_time option"
  p_QOSClass :: string
  p_Containers :: "'q container list"
  p_ContainerIDs :: "string list"
  p_HostNetwork :: bool
  p_PodIP :: string

section \<open>The class of a pod\<close>

definition AnnotationOfflineKey :: string where
  "AnnotationOfflineKey = ''mixer.kubernetes.io/'' @ ''app-class''"

definition AnnotationOfflineValue :: string where
  "AnnotationOfflineValue = ''greedy''"

datatype AppClass = AppClassOnline | AppClassOffline | AppClassSystem | AppClassUnknown | AppClassAggregatedCgroup

definition IsOffline :: "'q pod \<Rightarrow> bool" where
  "IsOffline pod =
     (case p_Annotations pod of
        None \<Rightarrow> False
      | Some a \<Rightarrow> map_of a AnnotationOfflineKey = Some AnnotationOfflineValue)"

definition GetAppClass :: "'q pod \<Rightarrow> AppClass" where
  "GetAppClass pod =
     (if p_Namespace pod = ''kube-system'' then AppClassSystem
      else case p_Annotations pod of
        None \<Rightarrow> AppClassUnknown
      | Some a \<Rightarrow> if map_of a AnnotationOfflineKey = Some AnnotationOfflineValue then AppClassOffline
                   else AppClassOnline)"

text \<open>
  \<^verbatim>\<open>filepath.Join\<close> of clean, non-empty parts. The pod UID and the container IDs contain no path
  separator.
\<close>

definition path_join :: "string \<Rightarrow> string \<Rightarrow> string" where
  "path_join a b = a @ ''/'' @ b"

definition PodCgroupDirs :: "'q pod \<Rightarrow> string list" where
  "PodCgroupDirs pod =
     (let prefix = (if IsOffline pod then ''/kubepods/offline'' else ''/kubepods'') in
      case (if p_QOSClass pod = ''BestEffort'' then Some (path_join prefix ''besteffort'')
            else if p_QOSClass pod = ''Burstable'' then Some (path_join prefix ''burstable'')
            else if p_QOSClass pod = ''Guaranteed'' then Some prefix
            else None) of
        None \<Rightarrow> []
      | Some prefix \<Rightarrow>
          let podDir = path_join prefix (''pod'' @ p_UID pod) in
          concat (map (\<lambda>id. let cid = strings_TrimPrefix (strings_TrimPrefix id ''docker://'') ''containerd://''
                            in if cid \<noteq> [] then [path_join podDir cid] else []) (p_ContainerIDs pod)))"

section \<open>Sets of pods\<close>

type_synonym 'q pods = "(string, 'q pod) gomap"

text \<open>The library's \<^verbatim>\<open>cache.MetaNamespaceKeyFunc\<close> is the parameter \<open>key\<close>; \<open>None\<close> is its error.\<close>

definition pods_Insert :: "('q pod \<Rightarrow> string option) \<Rightarrow> 'q pods \<Rightarrow> 'q pod list \<Rightarrow> 'q pods" where
  "pods_Insert key p items =
     fold (\<lambda>item p. case key item of None \<Rightarrow> p | Some k \<Rightarrow> AList.update k item p) items p"

definition NewPod :: "('q pod \<Rightarrow> string option) \<Rightarrow> 'q pod list \<Rightarrow> 'q pods" where
  "NewPod key items = pods_Insert key [] items"

definition pods_Delete :: "('q pod \<Rightarrow> string option) \<Rightarrow> 'q pods \<Rightarrow> 'q pod list \<Rightarrow> 'q pods" where
  "pods_Delete key p items =
     fold (\<lambda>item p. case key item of None \<Rightarrow> p | Some k \<Rightarrow> AList.delete k p) items p"

definition pods_Has :: "('q pod \<Rightarrow> string option) \<Rightarrow> 'q pods \<Rightarrow> 'q pod \<Rightarrow> bool" where
  "pods_Has key p item = (case key item of None \<Rightarrow> False | Some k \<Rightarrow> gmap_has p k)"

definition pods_UnsortedList :: "'q pods \<Rightarrow> 'q pod list" where
  "pods_UnsortedList p = map snd p"

definition pods_Update :: "('q pod \<Rightarrow> string option) \<Rightarrow> 'q pods \<Rightarrow> 'q pod \<Rightarrow> 'q pods \<times> bool" where
  "pods_Update key p item = (case key item of None \<Rightarrow> (p, False) | Some k \<Rightarrow> (AList.update k item p, True))"

section \<open>Extended resources\<close>

definition ExternalResourcePrefix :: string where
  "ExternalResourcePrefix = ''mixer.kubernetes.io/ext-''"

text \<open>The library's test for extended resource names is a parameter.\<close>

definition empty_requests :: "'q qops \<Rightarrow> 'q resource_list" where
  "empty_requests Q = [(ResourceCPU, q_new_milli Q 0), (ResourceMemory, q_new Q 0)]"

definition add_request :: "'q qops \<Rightarrow> (string \<Rightarrow> bool) \<Rightarrow> string \<times> 'q \<Rightarrow> 'q resource_list \<Rightarrow> 'q resource_list" where
  "add_request Q ext = (\<lambda>(rName, rQuanty) requestList.
     (if \<not> ext rName then requestList
      else let name = strings_TrimPrefix rName ExternalResourcePrefix in
           case map_of requestList name of
             None \<Rightarrow> requestList
           | Some vv \<Rightarrow>
               AList.update name
                 (q_add Q vv (if name = ResourceCPU then q_new_milli Q (q_value Q rQuanty) else rQuanty)) requestList))"

definition GetPodResourceRequest :: "'q qops \<Rightarrow> (string \<Rightarrow> bool) \<Rightarrow> 'q pod \<Rightarrow> 'q resource_list" where
  "GetPodResourceRequest Q ext pod =
     fold (\<lambda>c. fold (add_request Q ext) (c_Requests c)) (p_Containers pod) (empty_requests Q)"

record 'q NodeInfo =
  RequestedResource :: "'q resource_list"

definition AddPod :: "'q qops \<Rightarrow> (string \<Rightarrow> bool) \<Rightarrow> 'q pod \<Rightarrow> 'q NodeInfo \<Rightarrow> 'q NodeInfo" where
  "AddPod Q ext pod n =
     n\<lparr>RequestedResource := fold (\<lambda>(rName, rQuanty) rr. AList.update rName (q_add Q (rl_get Q rr rName) rQuanty) rr)
         (GetPodResourceRequest Q ext pod) (RequestedResource n)\<rparr>"

definition NewNodeInfo :: "'q qops \<Rightarrow> (string \<Rightarrow> bool) \<Rightarrow> 'q pod list \<Rightarrow> 'q NodeInfo" where
  "NewNodeInfo Q ext pods = fold (AddPod Q ext) pods \<lparr>RequestedResource = empty_requests Q\<rparr>"

definition ResetNodeInfo :: "'q qops \<Rightarrow> (string \<Rightarrow> bool) \<Rightarrow> 'q pod list \<Rightarrow> 'q NodeInfo \<Rightarrow> 'q NodeInfo" where
  "ResetNodeInfo Q ext pods n = fold (AddPod Q ext) pods (n\<lparr>RequestedResource := empty_requests Q\<rparr>)"

fun more_of :: "'q qops \<Rightarrow> 'q resource_list \<Rightarrow> 'q resource_list \<Rightarrow> bool \<times> string" where
  "more_of Q [] rl = (False, [])"
| "more_of Q ((k, v) # rr) rl =
     (case map_of rl k of
        Some vl \<Rightarrow> if q_cmp Q v vl > 0 then (True, k) else more_of Q rr rl
      | None \<Rightarrow> more_of Q rr rl)"

definition More :: "'q qops \<Rightarrow> 'q NodeInfo \<Rightarrow> 'q resource_list \<Rightarrow> bool \<times> string" where
  "More Q n rl = more_of Q (RequestedResource n) rl"

definition Less :: "'q qops \<Rightarrow> 'q NodeInfo \<Rightarrow> 'q resource_list \<Rightarrow> bool" where
  "Less Q n rl = list_all (\<lambda>(k, v). case map_of rl k of None \<Rightarrow> True | Some vl \<Rightarrow> \<not> q_cmp Q v vl \<ge> 0) (RequestedResource n)"

definition ReduceRequestedResource :: "'q qops \<Rightarrow> 'q resource_list \<Rightarrow> 'q NodeInfo \<Rightarrow> 'q NodeInfo" where
  "ReduceRequestedResource Q resQuan n =
     n\<lparr>RequestedResource := fold (\<lambda>(r, q) rr. case map_of rr r of
         None \<Rightarrow> rr | Some req \<Rightarrow> AList.update r (q_sub Q req q) rr) resQuan (RequestedResource n)\<rparr>"

definition GetPodKey :: "'q pod \<Rightarrow> string" where
  "GetPodKey pod = p_Namespace pod @ ''-'' @ p_Name pod"

section \<open>Sorting pods\<close>

text \<open>Comparison functions return a Go \<^verbatim>\<open>int\<close>, which wraps around at 64 bits.\<close>

type_synonym 'a cmpFunc = "'a \<Rightarrow> 'a \<Rightarrow> int"

definition wrap64 :: "int \<Rightarrow> int" where
  "wrap64 x = (x + 2 ^ 63) mod 2 ^ 64 - 2 ^ 63"

definition pod_priority :: "'q pod \<Rightarrow> int" where
  "pod_priority pod = (case p_Priority pod of Some p \<Rightarrow> p | None \<Rightarrow> 0)"

definition SortByPriority :: "'q pod cmpFunc" where
  "SortByPriority p1 p2 =
     (if pod_priority p1 = pod_priority p2 then 0 else if pod_priority p1 > pod_priority p2 then 1 else -1)"

definition SortByResource :: "(string, int) gomap \<Rightarrow> 'q pod cmpFunc" where
  "SortByResource usageMap p1 p2 =
     (case (map_of usageMap (GetPodKey p1), map_of usageMap (GetPodKey p2)) of
        (None, None) \<Rightarrow> 0
      | (None, Some r2) \<Rightarrow> -1
      | (Some r1, None) \<Rightarrow> 1
      | (Some r1, Some r2) \<Rightarrow> wrap64 (r2 - r1))"

definition SortByStartTime :: "'q pod cmpFunc" where
  "SortByStartTime p1 p2 =
     (case (p_StartTime p1, p_StartTime p2) of
        (None, None) \<Rightarrow> 0
      | (None, Some t2) \<Rightarrow> 1
      | (Some t1, None) \<Rightarrow> -1
      | (Some t1, Some t2) \<Rightarrow> if t1 < t2 then 1 else if t1 = t2 then 0 else -1)"

text \<open>\<^verbatim>\<open>multiSorter.Less\<close>: the first comparison that decides, the last one decides anyway.\<close>

fun multi_less :: "'a cmpFunc list \<Rightarrow> 'a \<Rightarrow> 'a \<Rightarrow> bool" where
  "multi_less [] p1 p2 = False"
| "multi_less [cmp] p1 p2 = (cmp p1 p2 < 0)"
| "multi_less (cmp # c # cs) p1 p2 =
     (let r = cmp p1 p2 in if r < 0 then True else if r > 0 then False else multi_less (c # cs) p1 p2)"

text \<open>Go's sort is not stable, this one is; the properties use that the result is sorted and has the same elements.\<close>

definition OrderedBy_Sort :: "'a cmpFunc list \<Rightarrow> 'a list \<Rightarrow> 'a list" where
  "OrderedBy_Sort cmps pods = sort_by (multi_less cmps) pods"

section \<open>Comparators\<close>

text \<open>
  What \<^verbatim>\<open>sort.Sort\<close> needs of a comparison function: it is a sign function of a total preorder.
  A lexicographic combination of such functions is one again and gives a strict weak order.
\<close>

locale comparator =
  fixes cmp :: "'a cmpFunc"
  assumes cmp_sym: "cmp x y < 0 \<longleftrightarrow> 0 < cmp y x"
    and cmp_trans: "cmp x y \<le> 0 \<Longrightarrow> cmp y z \<le> 0 \<Longrightarrow> cmp x z \<le> 0"
begin

lemma cmp_refl: "cmp x x = 0"
  using cmp_sym [of x x] by linarith

lemma cmp_eq_sym: "cmp x y = 0 \<longleftrightarrow> cmp y x = 0"
  using cmp_sym [of x y] cmp_sym [of y x] by linarith

lemma cmp_less_trans: "cmp x y < 0 \<Longrightarrow> cmp y z \<le> 0 \<Longrightarrow> cmp x z < 0"
  using cmp_trans [of x y z] cmp_trans [of z x y] cmp_sym [of x z] cmp_sym [of z x] cmp_sym [of x y] cmp_eq_sym [of x z]
    cmp_trans [of y z x] cmp_sym [of y x] by linarith

lemma cmp_less_trans': "cmp x y \<le> 0 \<Longrightarrow> cmp y z < 0 \<Longrightarrow> cmp x z < 0"
  using cmp_trans [of x y z] cmp_trans [of z x y] cmp_sym [of z y] cmp_sym [of y z] cmp_eq_sym [of x z]
    cmp_sym [of x z] cmp_sym [of z x] by linarith

end

sublocale comparator \<subseteq> single: strict_weak_order "\<lambda>x y. cmp x y < 0"
proof
  show "\<not> cmp y x < 0" if "cmp x y < 0" for x y using that cmp_sym [of x y] by simp
  show "\<not> cmp z x < 0" if "\<not> cmp y x < 0" "\<not> cmp z y < 0" for x y z
    using that cmp_trans [of x y z] cmp_sym [of y x] cmp_sym [of z y] cmp_sym [of z x] cmp_sym [of x z]
      cmp_sym [of x y] cmp_sym [of y z] by linarith
qed

context comparator
begin

lemma sorted_first: "sort_by (\<lambda>x y. cmp x y < 0) xs = y # ys \<Longrightarrow> z \<in> set xs \<Longrightarrow> \<not> cmp z y < 0"
  by (rule single.sort_by_hd_minimal)

end

text \<open>The comparison functions of the code.\<close>

interpretation byPriority: comparator SortByPriority
  by unfold_locales (auto simp: SortByPriority_def split: if_splits)

interpretation byStartTime: comparator SortByStartTime
  by unfold_locales (auto simp: SortByStartTime_def split: option.splits if_splits)

definition usage_ok :: "(string, int) gomap \<Rightarrow> bool" where
  "usage_ok usageMap \<longleftrightarrow> (\<forall>k v. map_of usageMap k = Some v \<longrightarrow> 0 \<le> v \<and> v < 2 ^ 63)"

lemma wrap64_id: "- (2 ^ 63) \<le> x \<Longrightarrow> x < 2 ^ 63 \<Longrightarrow> wrap64 x = x"
  by (simp add: wrap64_def)

lemma SortByResource_eq:
  assumes "usage_ok u" and "map_of u (GetPodKey p1) = Some r1" and "map_of u (GetPodKey p2) = Some r2"
  shows "SortByResource u p1 p2 = r2 - r1"
proof -
  have "0 \<le> r1" "r1 < 2 ^ 63" "0 \<le> r2" "r2 < 2 ^ 63" using assms unfolding usage_ok_def by blast+
  then show ?thesis using assms by (simp add: SortByResource_def wrap64_id)
qed

lemma comparator_SortByResource:
  assumes "usage_ok u"
  shows "comparator (SortByResource u)"
proof
  fix x y :: "'q pod"
  show "SortByResource u x y < 0 \<longleftrightarrow> 0 < SortByResource u y x"
    using SortByResource_eq [OF assms, of x _ y] SortByResource_eq [OF assms, of y _ x]
    by (cases "map_of u (GetPodKey x)"; cases "map_of u (GetPodKey y)") (auto simp: SortByResource_def)
next
  fix x y z :: "'q pod"
  assume "SortByResource u x y \<le> 0" "SortByResource u y z \<le> 0"
  then show "SortByResource u x z \<le> 0"
    using SortByResource_eq [OF assms, of x _ y] SortByResource_eq [OF assms, of y _ z] SortByResource_eq [OF assms, of x _ z]
    by (cases "map_of u (GetPodKey x)"; cases "map_of u (GetPodKey y)"; cases "map_of u (GetPodKey z)")
      (auto simp: SortByResource_def)
qed

definition lex_cmp :: "'a cmpFunc \<Rightarrow> 'a cmpFunc \<Rightarrow> 'a cmpFunc" where
  "lex_cmp c d x y = (if c x y \<noteq> 0 then c x y else d x y)"

lemma comparator_lex:
  assumes "comparator c" and "comparator d"
  shows "comparator (lex_cmp c d)"
proof
  note cs = comparator.cmp_sym [OF assms(1)] and ce = comparator.cmp_eq_sym [OF assms(1)]
  fix x y
  show "lex_cmp c d x y < 0 \<longleftrightarrow> 0 < lex_cmp c d y x"
    using cs [of x y] cs [of y x] ce [of x y] comparator.cmp_sym [OF assms(2), of x y] by (auto simp: lex_cmp_def)
next
  fix x y z
  assume h: "lex_cmp c d x y \<le> 0" "lex_cmp c d y z \<le> 0"
  then have le: "c x y \<le> 0" "c y z \<le> 0" by (auto simp: lex_cmp_def split: if_splits)
  show "lex_cmp c d x z \<le> 0"
  proof (cases "c x y = 0 \<and> c y z = 0")
    case True
    have "c x z \<le> 0" using comparator.cmp_trans [OF assms(1) le] .
    moreover have "d x z \<le> 0" using True h comparator.cmp_trans [OF assms(2), of x y z] by (simp add: lex_cmp_def)
    ultimately show ?thesis by (simp add: lex_cmp_def)
  next
    case False
    then have "c x z < 0"
      using le comparator.cmp_less_trans [OF assms(1), of x y z] comparator.cmp_less_trans' [OF assms(1), of x y z] by linarith
    then show ?thesis by (simp add: lex_cmp_def)
  qed
qed

lemma multi_less_lex: "multi_less [a, b, c] x y \<longleftrightarrow> lex_cmp a (lex_cmp b c) x y < 0"
  by (auto simp: lex_cmp_def Let_def)

text \<open>The order in which offline pods are killed, and what its first element is.\<close>

definition kill_order :: "(string, int) gomap \<Rightarrow> 'q pod cmpFunc list" where
  "kill_order usageMap = [SortByPriority, SortByResource usageMap, SortByStartTime]"

lemma kill_order_first:
  fixes p :: "'q pod"
  assumes "usage_ok u" and "OrderedBy_Sort (kill_order u) pods = p # rest" and "p' \<in> set pods"
  shows "SortByPriority p p' < 0 \<or> SortByPriority p p' = 0 \<and>
     (SortByResource u p p' < 0 \<or> SortByResource u p p' = 0 \<and> SortByStartTime p p' \<le> 0)"
proof -
  let ?c = "lex_cmp SortByPriority (lex_cmp (SortByResource u) SortByStartTime) :: 'q pod cmpFunc"
  have c: "comparator ?c"
    by (intro comparator_lex comparator_SortByResource assms byPriority.comparator_axioms byStartTime.comparator_axioms)
  have "multi_less (kill_order u) = (\<lambda>x y. ?c x y < 0)" by (intro HOL.ext) (simp only: kill_order_def multi_less_lex)
  then have "sort_by (\<lambda>x y. ?c x y < 0) pods = p # rest" using assms(2) by (simp add: OrderedBy_Sort_def)
  then have "\<not> ?c p' p < 0"
    using comparator.sorted_first [OF c] assms(3) by blast
  then have "?c p p' \<le> 0" using comparator.cmp_sym [OF c, of p' p] by linarith
  then show ?thesis by (auto simp: lex_cmp_def split: if_splits)
qed

section \<open>Sums of requests\<close>

lemma map_of_add_request:
  "map_of (add_request Q ext x rl) r = None \<longleftrightarrow> map_of rl r = None"
  by (cases x) (auto simp: add_request_def Let_def split: option.split)

lemma request_keys: "fst ` set (add_request Q ext x rl) = fst ` set rl"
  using map_of_add_request [of Q ext x rl] by (metis (mono_tags, lifting) map_of_eq_None_iff set_eqI)

lemma wf_add_request [simp]: "wf_map rl \<Longrightarrow> wf_map (add_request Q ext x rl)"
  by (cases x) (auto simp: add_request_def Let_def split: option.split)

lemma wf_GetPodResourceRequest [simp]: "wf_map (GetPodResourceRequest Q ext pod)"
  unfolding GetPodResourceRequest_def
  by (rule fold_invariant [where Q = "\<lambda>_. True"], simp, simp add: empty_requests_def)
    (rule fold_invariant [where Q = "\<lambda>_. True"], simp_all)

lemma fold_add_lookup:
  assumes "wf_map rs"
  shows "map_of (fold (\<lambda>(k, q) rr. AList.update k (q_add Q (rl_get Q rr k) q) rr) rs rr) r =
     (case map_of rs r of None \<Rightarrow> map_of rr r | Some q \<Rightarrow> Some (q_add Q (rl_get Q rr r) q))"
  using assms
proof (induction rs arbitrary: rr)
  case Nil
  then show ?case by simp
next
  case (Cons x rs)
  obtain k q where x: "x = (k, q)" by (cases x)
  have "map_of rs k = None" using Cons.prems by (simp add: x map_of_eq_None_iff)
  then show ?case using Cons by (auto simp: x rl_get_def simp del: map_of_eq_Some_iff split: option.split)
qed

lemma fold_sub_lookup:
  assumes "wf_map rs"
  shows "map_of (fold (\<lambda>(k, q) rr. case map_of rr k of None \<Rightarrow> rr | Some req \<Rightarrow> AList.update k (q_sub Q req q) rr) rs rr) r =
     (case map_of rs r of None \<Rightarrow> map_of rr r | Some q \<Rightarrow> map_option (\<lambda>req. q_sub Q req q) (map_of rr r))"
  using assms
proof (induction rs arbitrary: rr)
  case Nil
  then show ?case by simp
next
  case (Cons x rs)
  obtain k q where x: "x = (k, q)" by (cases x)
  have "map_of rs k = None" using Cons.prems by (simp add: x map_of_eq_None_iff)
  then show ?case using Cons by (auto simp: x simp del: map_of_eq_Some_iff split: option.split)
qed

context quantity
begin

definition requested :: "(string \<Rightarrow> bool) \<Rightarrow> string \<Rightarrow> 'q pod \<Rightarrow> real" where
  "requested ext r pod = amount (rl_get Q (GetPodResourceRequest Q ext pod) r)"

lemma AddPod_amount:
  "amount (rl_get Q (RequestedResource (AddPod Q ext pod n)) r) = amount (rl_get Q (RequestedResource n) r) + requested ext r pod"
  by (simp add: AddPod_def amount_rl_get fold_add_lookup requested_def split: option.split)

lemma AddPods_amount:
  "amount (rl_get Q (RequestedResource (fold (AddPod Q ext) pods n)) r) =
     amount (rl_get Q (RequestedResource n) r) + sum_list (map (requested ext r) pods)"
  by (induction pods arbitrary: n) (simp_all add: AddPod_amount)

lemma NewNodeInfo_amount:
  "amount (rl_get Q (RequestedResource (NewNodeInfo Q ext pods)) r) = sum_list (map (requested ext r) pods)"
  by (simp add: NewNodeInfo_def AddPods_amount) (simp add: empty_requests_def amount_rl_get)

lemma ResetNodeInfo_amount:
  "amount (rl_get Q (RequestedResource (ResetNodeInfo Q ext pods n)) r) = sum_list (map (requested ext r) pods)"
  by (simp add: ResetNodeInfo_def AddPods_amount) (simp add: empty_requests_def amount_rl_get)

lemma Reduce_amount:
  assumes "gmap_has (RequestedResource n) r"
  shows "amount (rl_get Q (RequestedResource (ReduceRequestedResource Q (GetPodResourceRequest Q ext pod) n)) r) =
     amount (rl_get Q (RequestedResource n) r) - requested ext r pod"
  using assms by (auto simp: ReduceRequestedResource_def amount_rl_get fold_sub_lookup requested_def split: option.split)

end

end
