(* ===== verification/CgroupFs.thy ===== *)
theory CgroupFs
  imports Pods "HOL-Library.Signed_Division"
begin

text \<open>
  The control group files the agent reads and writes: \<^verbatim>\<open>path.Join\<close>, \<^verbatim>\<open>util/cgroup/cgroup.go\<close>, \<^verbatim>\<open>cpu.go\<close>,
  \<^verbatim>\<open>cpuset.go\<close>, \<^verbatim>\<open>cpubt.go\<close> and \<^verbatim>\<open>memory.go\<close>. A file system is the map from paths to contents, the
  directories, and the paths at which a write fails; writing returns the new file system and an
  error or nothing.
\<close>

section \<open>Paths\<close>

text \<open>\<^verbatim>\<open>path.Clean\<close>: the elements seen so far are kept in reverse.\<close>

fun clean_elems :: "bool \<Rightarrow> string list \<Rightarrow> string list \<Rightarrow> string list" where
  "clean_elems rooted [] acc = rev acc"
| "clean_elems rooted (e # es) acc =
     (if e = [] \<or> e = ''.'' then clean_elems rooted es acc
      else if e = ''..'' then
        (case acc of
           [] \<Rightarrow> clean_elems rooted es (if rooted then [] else [e])
         | a # as \<Rightarrow> clean_elems rooted es (if a = ''..'' then e # acc else as))
      else clean_elems rooted es (e # acc))"

definition path_Clean :: "string \<Rightarrow> string" where
  "path_Clean s =
     (if s = [] then ''.''
      else let rooted = (hd s = CHR ''/''); body = join_with ''/'' (clean_elems rooted (split_on (CHR ''/'') s) [])
           in if rooted then CHR ''/'' # body else if body = [] then ''.'' else body)"

definition path_Join :: "string list \<Rightarrow> string" where
  "path_Join elems =
     (let es = filter (\<lambda>e. e \<noteq> []) elems in if es = [] then [] else path_Clean (join_with ''/'' es))"

section \<open>Files\<close>

datatype fs_error = NotExist | WriteFailed | InvalidCpus | CpuInfoError | LimitTooBig | BadNumber

record cgfs =
  fs_root :: string
  fs_files :: "(string, string) gomap"
  fs_dirs :: "string list"
  fs_fail :: "string \<Rightarrow> bool"

definition ReadFile :: "string \<Rightarrow> cgfs \<Rightarrow> fs_error + string" where
  "ReadFile p fs = (case map_of (fs_files fs) p of None \<Rightarrow> Inl NotExist | Some s \<Rightarrow> Inr s)"

definition fs_write :: "string \<Rightarrow> string \<Rightarrow> cgfs \<Rightarrow> cgfs \<times> (fs_error + unit)" where
  "fs_write p data fs =
     (if fs_fail fs p then (fs, Inl WriteFailed) else (fs\<lparr>fs_files := AList.update p data (fs_files fs)\<rparr>, Inr ()))"

definition WriteFile :: "string \<Rightarrow> string \<Rightarrow> string \<Rightarrow> cgfs \<Rightarrow> cgfs \<times> (fs_error + unit)" where
  "WriteFile data cgroupPath cgroupFile fs = fs_write (path_Join [cgroupPath, cgroupFile]) data fs"

text \<open>The next step of a sequence of calls that stops at the first error.\<close>

definition fs_then :: "cgfs \<times> (fs_error + 'a) \<Rightarrow> (cgfs \<Rightarrow> cgfs \<times> (fs_error + 'b)) \<Rightarrow> cgfs \<times> (fs_error + 'b)" where
  "fs_then r k = (case r of (fs, Inl err) \<Rightarrow> (fs, Inl err) | (fs, Inr _) \<Rightarrow> k fs)"

lemma fs_then_simps [simp]:
  "fs_then (fs, Inl err) k = (fs, Inl err)" "fs_then (fs, Inr x) k = k fs"
  by (simp_all add: fs_then_def)

section \<open>cpu\<close>

definition SetCPUShares :: "string \<Rightarrow> nat \<Rightarrow> cgfs \<Rightarrow> cgfs \<times> (fs_error + unit)" where
  "SetCPUShares pathInCgroup v fs = WriteFile (show_nat v) (path_Join [fs_root fs, ''cpu'', pathInCgroup]) ''cpu.shares'' fs"

definition SetCpuQuota :: "string \<Rightarrow> float64 \<Rightarrow> cgfs \<Rightarrow> cgfs \<times> (fs_error + unit)" where
  "SetCpuQuota pathInCgroup cores fs =
     fs_then (WriteFile ''1000000'' (path_Join [fs_root fs, ''cpu'', pathInCgroup]) ''cpu.cfs_period_us'' fs)
       (\<lambda>fs. let v = (if cores = - 1 then - 1 else go_trunc (fl (cores * 1000000)))
             in WriteFile (show_int v) (path_Join [fs_root fs, ''cpu'', pathInCgroup]) ''cpu.cfs_quota_us'' fs)"

section \<open>cpuset\<close>

text \<open>
  \<^verbatim>\<open>strconv.Atoi\<close> with its error dropped: 0 for a malformed number, the nearest limit for one out
  of range.
\<close>

definition atoi_ignore :: "string \<Rightarrow> int" where
  "atoi_ignore s =
     (let (neg, body) = (case s of
           c # cs \<Rightarrow> if c = CHR ''-'' then (True, cs) else if c = CHR ''+'' then (False, cs) else (False, s)
         | [] \<Rightarrow> (False, s));
         v = (if neg then - int (dec_val body) else int (dec_val body))
      in if body = [] \<or> \<not> list_all is_digit body then 0
         else if v < - (2 ^ 63) then - (2 ^ 63) else if v \<ge> 2 ^ 63 then 2 ^ 63 - 1 else v)"

text \<open>
  \<^verbatim>\<open>for j := lo; j <= hi; j++\<close> on int64, collecting the counter. The increment wraps, so the loop does
  not end when \<open>hi\<close> is the largest int64; this is the value \<open>None\<close>.
\<close>

partial_function (option) count_up :: "int \<Rightarrow> int \<Rightarrow> int list option" where
  "count_up j hi = (if j > hi then Some [] else Option.bind (count_up (wrap64 (j + 1)) hi) (\<lambda>xs. Some (j # xs)))"

definition strip_newlines :: "string \<Rightarrow> string" where
  "strip_newlines s = filter (\<lambda>c. c \<noteq> CHR 0x0A) s"

text \<open>One element of a cpu list, as a list of numbers in decimal.\<close>

definition expand_cpus :: "string \<Rightarrow> string list option" where
  "expand_cpus v =
     (case strings_Index v (CHR ''-'') of
        None \<Rightarrow> Some [v]
      | Some index \<Rightarrow>
          map_option (map show_int) (count_up (atoi_ignore (take index v)) (atoi_ignore (drop (index + 1) v))))"

text \<open>\<open>None\<close> when a range does not end.\<close>

definition GetCpuSet :: "string \<Rightarrow> bool \<Rightarrow> cgfs \<Rightarrow> (fs_error + string list) option" where
  "GetCpuSet pathInRoot needParse fs =
     (case ReadFile (path_Join [fs_root fs, ''cpuset'', pathInRoot, ''cpuset.cpus'']) fs of
        Inl err \<Rightarrow> Some (Inl err)
      | Inr data \<Rightarrow>
          let cpusetStr = strip_newlines data in
          if \<not> needParse then Some (Inr (if cpusetStr \<noteq> [] then [cpusetStr] else []))
          else map_option (\<lambda>css. Inr (concat css)) (those (map expand_cpus (split_on (CHR '','') cpusetStr))))"

definition cpus_string :: "int list \<Rightarrow> string" where
  "cpus_string cores = join_with '','' (map show_int cores)"

definition WriteCpuSetCores :: "string \<Rightarrow> int list \<Rightarrow> cgfs \<Rightarrow> cgfs \<times> (fs_error + unit)" where
  "WriteCpuSetCores pathInRoot cores fs =
     (if cores = [] then (fs, Inr ())
      else WriteFile (cpus_string cores) (path_Join [fs_root fs, ''cpuset'', pathInRoot]) ''cpuset.cpus'' fs)"

definition WriteCpuSetCoresStr :: "string \<Rightarrow> string \<Rightarrow> cgfs \<Rightarrow> cgfs \<times> (fs_error + unit)" where
  "WriteCpuSetCoresStr pathInRoot coresStr fs =
     (if coresStr = [] then (fs, Inr ())
      else WriteFile coresStr (path_Join [fs_root fs, ''cpuset'', pathInRoot]) ''cpuset.cpus'' fs)"

text \<open>Filling the cpus and memory nodes of a new group and of all the groups above it.\<close>

fun fill_cpusets :: "string \<Rightarrow> string \<Rightarrow> string list \<Rightarrow> string list \<Rightarrow> cgfs \<Rightarrow> cgfs \<times> (fs_error + unit)" where
  "fill_cpusets cpus mems done [] fs = (fs, Inr ())"
| "fill_cpusets cpus mems done (p # parts) fs =
     (let subpath = path_Join (done @ [p]); dir = path_Join [fs_root fs, ''cpuset'', subpath] in
      fs_then (WriteFile cpus dir ''cpuset.cpus'' fs)
        (\<lambda>fs. fs_then (WriteFile mems dir ''cpuset.mems'' fs)
          (\<lambda>fs. fill_cpusets cpus mems (done @ [p]) parts fs)))"

definition EnsureCpuSetCores :: "string \<Rightarrow> cgfs \<Rightarrow> cgfs \<times> (fs_error + unit)" where
  "EnsureCpuSetCores pathInRoot fs =
     (case ReadFile (path_Join [fs_root fs, ''cpuset'', pathInRoot, ''cpuset.cpus'']) fs of
        Inl err \<Rightarrow> (fs, Inl err)
      | Inr originCores \<Rightarrow>
          if originCores \<noteq> [CHR 0x0A] then (fs, Inr ())
          else case ReadFile (path_Join [fs_root fs, ''cpuset'', ''cpuset.cpus'']) fs of
            Inl err \<Rightarrow> (fs, Inl err)
          | Inr totalCores \<Rightarrow>
              case ReadFile (path_Join [fs_root fs, ''cpuset'', ''cpuset.mems'']) fs of
                Inl err \<Rightarrow> (fs, Inl err)
              | Inr totalMems \<Rightarrow>
                  fill_cpusets totalCores totalMems [] (split_on (CHR ''/'') (strings_TrimPrefix pathInRoot ''/'')) fs)"


section \<open>Offline scheduling class\<close>

text \<open>The file is optional: a failed write is only logged.\<close>

definition CPUOfflineSet :: "string \<Rightarrow> bool \<Rightarrow> cgfs \<Rightarrow> cgfs \<times> (fs_error + unit)" where
  "CPUOfflineSet pathInSubSystem enable fs =
     (fst (WriteFile (if enable then ''1'' else ''0'') (path_Join [fs_root fs, ''cpu,cpuacct'', pathInSubSystem]) ''cpu.offline'' fs), Inr ())"

fun offline_dirs :: "string \<Rightarrow> string list \<Rightarrow> cgfs \<Rightarrow> cgfs \<times> (fs_error + unit)" where
  "offline_dirs v [] fs = (fs, Inr ())"
| "offline_dirs v (d # ds) fs = fs_then (WriteFile v d ''cpu.offline'' fs) (offline_dirs v ds)"

text \<open>The directories below a path, itself included, in the order of \<^verbatim>\<open>filepath.Walk\<close>.\<close>

definition fs_walk :: "string \<Rightarrow> cgfs \<Rightarrow> string list" where
  "fs_walk p fs = filter (\<lambda>d. d = p \<or> strings_HasPrefix d (p @ ''/'')) (fs_dirs fs)"

definition CPUChildOfflineSet :: "string \<Rightarrow> bool \<Rightarrow> cgfs \<Rightarrow> cgfs \<times> (fs_error + unit)" where
  "CPUChildOfflineSet pathInSubSystem enable fs =
     (let cgPath = path_Join [fs_root fs, ''cpu,cpuacct'', pathInSubSystem] in
      if cgPath \<notin> set (fs_dirs fs) then (fs, Inl NotExist)
      else offline_dirs (if enable then ''1'' else ''0'') (fs_walk cgPath fs) fs)"

text \<open>Whether the feature is there is checked once: the answer is kept in a global variable.\<close>

definition CPUOfflineSupported :: "cgfs \<Rightarrow> bool option \<Rightarrow> bool option \<times> bool" where
  "CPUOfflineSupported fs cpuBT =
     (case cpuBT of
        Some supported \<Rightarrow> (cpuBT, supported)
      | None \<Rightarrow>
          let supported = gmap_has (fs_files fs) (path_Join [fs_root fs, ''cpu'', ''cpu.offline''])
          in (Some supported, supported))"

definition offline_percent :: "int \<Rightarrow> int \<Rightarrow> int \<Rightarrow> int" where
  "offline_percent cpuTotal cpuLimitNum minPercent =
     (let percent = (cpuLimitNum * 100) sdiv cpuTotal in if percent < minPercent then minPercent else percent)"

text \<open>
  The total number of cpus is kept in a global variable, 0 until it is known; \<open>cpus\<close> is the number the
  library reports, \<open>None\<close> on an error. The files of \<^verbatim>\<open>/proc/offline\<close> are listed in \<open>procs\<close>, \<open>None\<close> on an
  error. A panic, the division by zero, is \<open>None\<close>.
\<close>

definition CPUOfflineLimit ::
  "nat option \<Rightarrow> string list option \<Rightarrow> int \<Rightarrow> int \<Rightarrow> nat \<Rightarrow> cgfs \<Rightarrow> (nat \<times> cgfs \<times> (fs_error + unit)) option" where
  "CPUOfflineLimit cpus procs cpuLimitNum minPercent cpuTotal fs =
     (case (if cpuTotal = 0 then cpus else Some cpuTotal) of
        None \<Rightarrow> Some (cpuTotal, fs, Inl CpuInfoError)
      | Some n \<Rightarrow>
          if cpuLimitNum > int n then Some (n, fs, Inl LimitTooBig)
          else if n = 0 then None
          else let percent = offline_percent (int n) cpuLimitNum minPercent in
               case procs of
                 None \<Rightarrow> Some (n, fs, Inl NotExist)
               | Some names \<Rightarrow>
                   Some (n, fold (\<lambda>f fs. fst (fs_write (path_Join [''/proc/offline/'', f]) (show_int percent @ '' '') fs)) names fs, Inr ()))"

section \<open>memory\<close>

definition SetMemoryLimit :: "string \<Rightarrow> int \<Rightarrow> cgfs \<Rightarrow> cgfs \<times> (fs_error + unit)" where
  "SetMemoryLimit pathInRoot v fs =
     WriteFile (show_int v) (path_Join [fs_root fs, ''memory'', pathInRoot]) ''memory.limit_in_bytes'' fs"

definition readMemoryFile :: "string \<Rightarrow> cgfs \<Rightarrow> fs_error + string" where
  "readMemoryFile file fs = map_sum id strip_newlines (ReadFile file fs)"

text \<open>The limit and whether there is one; the limit of an unparsable file comes with the error.\<close>

definition GetMemoryLimit :: "string \<Rightarrow> cgfs \<Rightarrow> fs_error + int \<times> bool" where
  "GetMemoryLimit pathInRoot fs =
     (case readMemoryFile (path_Join [fs_root fs, ''memory'', pathInRoot, ''memory.limit_in_bytes'']) fs of
        Inl err \<Rightarrow> Inl err
      | Inr limitStr \<Rightarrow>
          if limitStr = ''9223372036854771712'' then Inr (- 1, False)
          else case atoi limitStr of None \<Rightarrow> Inl BadNumber | Some v \<Rightarrow> Inr (v, True))"

definition GetMemoryUsage :: "string \<Rightarrow> cgfs \<Rightarrow> fs_error + int" where
  "GetMemoryUsage pathInRoot fs =
     (case readMemoryFile (path_Join [fs_root fs, ''memory'', pathInRoot, ''memory.usage_in_bytes'']) fs of
        Inl err \<Rightarrow> Inl err
      | Inr dataStr \<Rightarrow> case atoi (strip_newlines dataStr) of None \<Rightarrow> Inl BadNumber | Some v \<Rightarrow> Inr v)"

text \<open>The working set: usage less the inactive file pages the library's statistics report.\<close>

definition GetMemoryWorkingSet :: "(fs_error + (string, int) gomap) \<Rightarrow> string \<Rightarrow> cgfs \<Rightarrow> fs_error + int" where
  "GetMemoryWorkingSet stats pathInCgroup fs =
     (case stats of
        Inl err \<Rightarrow> Inl err
      | Inr st \<Rightarrow>
          case GetMemoryUsage pathInCgroup fs of
            Inl err \<Rightarrow> Inl err
          | Inr usage \<Rightarrow>
              Inr (case map_of st ''total_inactive_file'' of
                     None \<Rightarrow> usage
                   | Some v \<Rightarrow> if usage < v then 0 else usage - v))"

section \<open>Counting\<close>

lemma count_up_bounded:
  assumes "- (2 ^ 63) \<le> lo" and "hi < 2 ^ 63 - 1"
  shows "count_up lo hi = Some [lo..hi]"
  using assms(1)
proof (induction "nat (hi + 1 - lo)" arbitrary: lo)
  case 0
  then show ?case by (subst count_up.simps) simp
next
  case (Suc n)
  then have le: "lo \<le> hi" by simp
  have w: "wrap64 (lo + 1) = lo + 1" using assms(2) Suc.prems le by (intro wrap64_id) simp_all
  have "count_up (lo + 1) hi = Some [lo + 1..hi]" using Suc by (intro Suc.hyps(1)) simp_all
  with le w show ?case by (subst count_up.simps) (simp add: upto_rec1)
qed

lemma count_up_result:
  assumes "count_up j hi = Some xs"
  shows "\<not> (hi = 2 ^ 63 - 1 \<and> - (2 ^ 63) \<le> j \<and> j \<le> 2 ^ 63 - 1)"
proof (rule count_up.raw_induct [where P = "\<lambda>j hi xs. \<not> (hi = 2 ^ 63 - 1 \<and> - (2 ^ 63) \<le> j \<and> j \<le> 2 ^ 63 - 1)", OF _ assms])
  fix f j hi xs
  assume ih: "\<And>j hi xs. f j hi = Some xs \<Longrightarrow> \<not> (hi = 2 ^ 63 - 1 \<and> - (2 ^ 63) \<le> j \<and> j \<le> 2 ^ 63 - 1)"
    and r: "(if j > hi then Some [] else Option.bind (f (wrap64 (j + 1)) hi) (\<lambda>xs. Some (j # xs))) = Some xs"
  have "- (2 ^ 63) \<le> wrap64 (j + 1)" "wrap64 (j + 1) \<le> 2 ^ 63 - 1" unfolding wrap64_def by simp_all
  with ih [of "wrap64 (j + 1)" hi] r show "\<not> (hi = 2 ^ 63 - 1 \<and> - (2 ^ 63) \<le> j \<and> j \<le> 2 ^ 63 - 1)"
    by (auto split: if_splits bind_splits)
qed

lemma count_up_endless: "- (2 ^ 63) \<le> lo \<Longrightarrow> lo \<le> 2 ^ 63 - 1 \<Longrightarrow> count_up lo (2 ^ 63 - 1) = None"
  using count_up_result by (cases "count_up lo (2 ^ 63 - 1)") blast+


section \<open>Nested paths\<close>

text \<open>Joining onto a joined absolute path is joining all the parts at once.\<close>

lemma split_on_app: "split_on c (s @ c # t) = split_on c s @ split_on c t"
  by (induction s) (auto split: list.splits)

lemma clean_elems_app: "clean_elems r (es @ fs) acc = clean_elems r fs (rev (clean_elems r es acc))"
  by (induction r es acc rule: clean_elems.induct) (auto split: list.splits)

definition plain_elem :: "string \<Rightarrow> bool" where
  "plain_elem e \<longleftrightarrow> e \<noteq> [] \<and> e \<noteq> ''.'' \<and> e \<noteq> ''..'' \<and> CHR ''/'' \<notin> set e"

lemma split_elems: "e \<in> set (split_on c s) \<Longrightarrow> c \<notin> set e"
  by (induction s arbitrary: e) (auto split: if_splits list.splits)

lemma clean_elems_plain:
  "\<forall>e \<in> set es. CHR ''/'' \<notin> set e \<Longrightarrow> list_all plain_elem acc \<Longrightarrow> list_all plain_elem (clean_elems True es acc)"
proof (induction es arbitrary: acc)
  case Nil
  then show ?case by (simp add: list_all_iff)
next
  case (Cons e es)
  have e: "CHR ''/'' \<notin> set e" and IH: "list_all plain_elem (clean_elems True es acc')" if "list_all plain_elem acc'" for acc'
    using Cons that by simp_all
  consider "e = [] \<or> e = ''.''" | "e = ''..''" "acc = []" | a as where "e = ''..''" "acc = a # as" | "plain_elem e"
    using Cons.prems(1) unfolding plain_elem_def by (metis list.exhaust list.set_intros(1))
  then show ?case
  proof cases
    case 3
    then have "plain_elem a" "list_all plain_elem as" using Cons.prems(2) by simp_all
    then have "a \<noteq> ''..''" "list_all plain_elem as" by (auto simp: plain_elem_def [of a])
    then show ?thesis using 3 IH [of as] by simp
  next
    case 4
    then have "list_all plain_elem (e # acc)" "e \<noteq> []" "e \<noteq> ''.''" "e \<noteq> ''..''"
      using Cons.prems(2) by (simp, simp_all add: plain_elem_def)
    then show ?thesis using IH [of "e # acc"] by simp
  qed (use Cons.prems(2) IH in simp_all)
qed

lemma clean_plain: "list_all plain_elem es \<Longrightarrow> clean_elems r es acc = rev acc @ es"
  by (induction es arbitrary: acc) (auto simp: plain_elem_def)

lemma clean_split_join:
  assumes "list_all plain_elem es"
  shows "clean_elems r (split_on (CHR ''/'') (CHR ''/'' # join_with ''/'' es @ CHR ''/'' # t)) [] =
    clean_elems r (split_on (CHR ''/'') t) (rev es)"
proof (cases "es = []")
  case True
  then show ?thesis by simp
next
  case False
  have "split_on (CHR ''/'') (join_with ''/'' es) = es"
    using False assms by (intro split_join) (auto simp: plain_elem_def list_all_iff)
  then show ?thesis using clean_plain [OF assms, of r "[]"] by (simp add: split_on_app clean_elems_app)
qed

lemma path_Clean_nested:
  assumes "s = CHR ''/'' # s'"
  shows "path_Clean (path_Clean s @ CHR ''/'' # t) = path_Clean (s @ CHR ''/'' # t)"
proof -
  let ?C = "clean_elems True (split_on (CHR ''/'') s) []"
  have p: "list_all plain_elem ?C" using split_elems by (intro clean_elems_plain) (fastforce, simp)
  have "clean_elems True (split_on (CHR ''/'') (path_Clean s @ CHR ''/'' # t)) [] =
      clean_elems True (split_on (CHR ''/'') (s @ CHR ''/'' # t)) []"
    using clean_split_join [OF p, of True t] assms by (simp add: path_Clean_def Let_def split_on_app clean_elems_app)
  then show ?thesis using assms by (simp add: path_Clean_def Let_def)
qed

lemma join_snoc: "es \<noteq> [] \<Longrightarrow> join_with sep (es @ [f]) = join_with sep es @ sep @ f"
  by (induction sep es rule: join_with.induct) auto

lemma join_head: "join_with sep (s # es) = s @ (case es of [] \<Rightarrow> [] | _ \<Rightarrow> sep @ join_with sep es)"
  by (cases es) auto

lemma path_Join_nested:
  assumes "rt = CHR ''/'' # r" and "f \<noteq> []"
  shows "path_Join [path_Join (rt # ps), f] = path_Join (rt # ps @ [f])"
proof -
  let ?es = "rt # filter (\<lambda>e. e \<noteq> []) ps"
  have s: "join_with ''/'' ?es = CHR ''/'' # (r @ (case filter (\<lambda>e. e \<noteq> []) ps of [] \<Rightarrow> [] | _ \<Rightarrow> ''/'' @ join_with ''/'' (filter (\<lambda>e. e \<noteq> []) ps)))"
    unfolding join_head assms(1) by simp
  have e: "path_Join (rt # ps) = path_Clean (join_with ''/'' ?es)" using assms(1) by (simp add: path_Join_def)
  have ne: "path_Clean (join_with ''/'' ?es) \<noteq> []" by (simp add: path_Clean_def Let_def)
  have "path_Join (rt # ps @ [f]) = path_Clean (join_with ''/'' (?es @ [f]))" using assms by (simp add: path_Join_def)
  also have "\<dots> = path_Clean (join_with ''/'' ?es @ CHR ''/'' # f)" by (subst join_snoc) simp_all
  also have "\<dots> = path_Clean (path_Clean (join_with ''/'' ?es) @ CHR ''/'' # f)" by (rule path_Clean_nested [OF s, symmetric])
  also have "\<dots> = path_Join [path_Join (rt # ps), f]" unfolding e unfolding path_Join_def using ne assms(2) by simp
  finally show ?thesis ..
qed

end
