(* ===== verification/Topology.thy ===== *)
theory Topology
  imports CgroupFs
begin

text \<open>
  \<^verbatim>\<open>util/cgroup/topology.go\<close>: which hardware threads share a core, and the choice of cores for the offline
  jobs: from the highest number down, each with its sibling.
\<close>

section \<open>Thread siblings\<close>

record cpu_info =
  ci_CPU :: int
  ci_PhysicalID :: string
  ci_CoreID :: string

definition add_thread ::
  "cpu_info \<Rightarrow> (string, int) gomap \<times> (int, int) gomap \<Rightarrow> (string, int) gomap \<times> (int, int) gomap" where
  "add_thread info = (\<lambda>(coreIdToThread, siblings).
     (let processorid = ci_CPU info; k = ci_PhysicalID info @ ci_CoreID info in
      case map_of coreIdToThread k of
        None \<Rightarrow> (AList.update k processorid coreIdToThread, siblings)
      | Some tid \<Rightarrow> (coreIdToThread, AList.update tid processorid (AList.update processorid tid siblings))))"

definition GenerateTheadSiblings :: "cpu_info list \<Rightarrow> (int, int) gomap" where
  "GenerateTheadSiblings cpuinfo = snd (fold add_thread cpuinfo ([], []))"

section \<open>Choosing cores\<close>

text \<open>
  The loop over the sorted cores from the last to the first: the chosen cores in order and the
  map \<^verbatim>\<open>ifChosen\<close>.
\<close>

fun choose_loop ::
  "(int, int) gomap \<Rightarrow> int \<Rightarrow> int list \<Rightarrow> int list \<times> (int, bool) gomap \<Rightarrow> int list \<times> (int, bool) gomap" where
  "choose_loop siblings chosenNum [] s = s"
| "choose_loop siblings chosenNum (threadId # ts) (chosen, ifChosen) =
     (if map_of ifChosen threadId = Some True then choose_loop siblings chosenNum ts (chosen, ifChosen)
      else let chosen = chosen @ [threadId]; ifChosen = AList.update threadId True ifChosen in
           if int (length chosen) = chosenNum then (chosen, ifChosen)
           else case map_of siblings threadId of
             None \<Rightarrow> choose_loop siblings chosenNum ts (chosen, ifChosen)
           | Some sibling \<Rightarrow>
               if map_of ifChosen sibling = Some False
               then let chosen = chosen @ [sibling]; ifChosen = AList.update sibling True ifChosen in
                    if int (length chosen) = chosenNum then (chosen, ifChosen)
                    else choose_loop siblings chosenNum ts (chosen, ifChosen)
               else choose_loop siblings chosenNum ts (chosen, ifChosen))"

definition ChooseNumaCores :: "(int, int) gomap \<Rightarrow> int list \<Rightarrow> int \<Rightarrow> int list \<times> int list" where
  "ChooseNumaCores siblings totalCores chosenNum =
     (if totalCores = [] then ([], [])
      else if chosenNum = 0 then ([], totalCores)
      else let totalCores = sort totalCores;
               ifChosen = fold (\<lambda>c m. AList.update c False m) totalCores [];
               (chosen, ifChosen) = choose_loop siblings chosenNum (rev totalCores) ([], ifChosen)
           in (chosen, filter (\<lambda>c. map_of ifChosen c \<noteq> Some True) totalCores))"

section \<open>What is chosen\<close>

text \<open>The map marks the chosen cores.\<close>

definition marks :: "int list \<Rightarrow> int list \<Rightarrow> (int, bool) gomap \<Rightarrow> bool" where
  "marks cores chosen m \<longleftrightarrow> (\<forall>c. map_of m c = (if c \<in> set cores then Some (c \<in> set chosen) else None))"

lemma marks_add: "marks cores chosen m \<Longrightarrow> c \<in> set cores \<Longrightarrow> marks cores (chosen @ [c]) (AList.update c True m)"
  by (auto simp: marks_def)

lemma marks_lookup:
  "marks cores chosen m \<Longrightarrow> map_of m c = Some True \<longleftrightarrow> c \<in> set cores \<and> c \<in> set chosen"
  "marks cores chosen m \<Longrightarrow> map_of m c = Some False \<longleftrightarrow> c \<in> set cores \<and> c \<notin> set chosen"
  by (auto simp: marks_def simp del: map_of_eq_Some_iff)

text \<open>Complete pairs: every core of the set with a sibling among the cores has it in the set.\<close>

definition pairs_closed :: "(int, int) gomap \<Rightarrow> int list \<Rightarrow> int set \<Rightarrow> bool" where
  "pairs_closed siblings cores S \<longleftrightarrow> (\<forall>c \<in> S. \<forall>d. map_of siblings c = Some d \<and> d \<in> set cores \<longrightarrow> d \<in> S)"

definition siblings_ok :: "(int, int) gomap \<Rightarrow> bool" where
  "siblings_ok siblings \<longleftrightarrow> (\<forall>c d. map_of siblings c = Some d \<longrightarrow> map_of siblings d = Some c)"

lemma pairs_closed_insert:
  "pairs_closed siblings cores S \<Longrightarrow> (\<And>d. map_of siblings c = Some d \<Longrightarrow> d \<in> set cores \<Longrightarrow> d \<in> insert c S) \<Longrightarrow>
     pairs_closed siblings cores (insert c S)"
  by (auto simp: pairs_closed_def)

lemma pairs_closed_insert2:
  "pairs_closed siblings cores S \<Longrightarrow> siblings_ok siblings \<Longrightarrow> map_of siblings c = Some d \<Longrightarrow>
     pairs_closed siblings cores (insert d (insert c S))"
  unfolding pairs_closed_def siblings_ok_def by (metis insert_iff option.inject)

text \<open>
  The state of the loop: no core is chosen twice, not enough are chosen yet, the cores passed by
  are chosen, and pairs are complete; and the result: at most one chosen core is without its
  sibling.
\<close>

definition choosing :: "(int, int) gomap \<Rightarrow> int list \<Rightarrow> int \<Rightarrow> int list \<Rightarrow> int list \<Rightarrow> (int, bool) gomap \<Rightarrow> bool" where
  "choosing siblings cores n todo chosen m \<longleftrightarrow>
     marks cores chosen m \<and> set chosen \<subseteq> set cores \<and> distinct chosen \<and> int (length chosen) < n \<and>
     set cores \<subseteq> set chosen \<union> set todo \<and> set todo \<subseteq> set cores \<and> pairs_closed siblings cores (set chosen)"

definition chosen_ok :: "(int, int) gomap \<Rightarrow> int list \<Rightarrow> int \<Rightarrow> int list \<Rightarrow> (int, bool) gomap \<Rightarrow> bool" where
  "chosen_ok siblings cores n chosen m \<longleftrightarrow>
     marks cores chosen m \<and> set chosen \<subseteq> set cores \<and> distinct chosen \<and> int (length chosen) \<le> n \<and>
     (int (length chosen) < n \<longrightarrow> set cores \<subseteq> set chosen) \<and>
     (\<exists>S. S \<subseteq> set chosen \<and> card (set chosen - S) \<le> 1 \<and> pairs_closed siblings cores S)"

lemma choose_loop_result:
  assumes "choosing siblings cores n todo chosen m" and "siblings_ok siblings"
    and "choose_loop siblings n todo (chosen, m) = (chosen', m')"
  shows "chosen_ok siblings cores n chosen' m'"
  using assms
proof (induction todo arbitrary: chosen m)
  case Nil
  then show ?case by (auto simp: choosing_def chosen_ok_def intro!: exI [of _ "set chosen'"])
next
  case (Cons t ts)
  note ch = Cons.prems(1) [unfolded choosing_def]
  then have t: "t \<in> set cores" and mk: "marks cores chosen m" by auto
  let ?c1 = "chosen @ [t]" and ?m1 = "AList.update t True m"
  have mk1: "marks cores ?c1 ?m1" using marks_add [OF mk t] .
  consider (old) "t \<in> set chosen"
    | (full1) "t \<notin> set chosen" "int (length ?c1) = n"
    | (pair) d where "t \<notin> set chosen" "int (length ?c1) \<noteq> n" "map_of siblings t = Some d" "map_of ?m1 d = Some False"
    | (single) "t \<notin> set chosen" "int (length ?c1) \<noteq> n" "\<And>d. map_of siblings t = Some d \<Longrightarrow> map_of ?m1 d \<noteq> Some False"
    by blast
  then show ?case
  proof cases
    case old
    then have "choosing siblings cores n ts chosen m" using ch by (auto simp: choosing_def)
    moreover have "choose_loop siblings n ts (chosen, m) = (chosen', m')"
      using Cons.prems(3) old t mk by (simp add: marks_lookup(1) del: map_of_eq_Some_iff)
    ultimately show ?thesis using Cons.IH Cons.prems(2) by blast
  next
    case full1
    then have r: "chosen' = ?c1" "m' = ?m1"
      using Cons.prems(3) mk by (simp_all add: marks_lookup(1) Let_def del: map_of_eq_Some_iff)
    have "set ?c1 - set chosen = {t}" using full1 by auto
    then show ?thesis using full1 ch mk1 t unfolding r chosen_ok_def by (intro conjI exI [of _ "set chosen"]) auto
  next
    case (pair d)
    let ?c2 = "?c1 @ [d]" and ?m2 = "AList.update d True ?m1"
    have d: "d \<in> set cores" "d \<notin> set ?c1" using pair(4) marks_lookup(2) [OF mk1] by blast+
    have mk2: "marks cores ?c2 ?m2" using marks_add [OF mk1 d(1)] .
    have cl: "pairs_closed siblings cores (set ?c2)"
      using pairs_closed_insert2 [OF _ Cons.prems(2) pair(3), of cores "set chosen"] ch by (simp add: insert_commute)
    have r: "(if int (length ?c2) = n then (?c2, ?m2) else choose_loop siblings n ts (?c2, ?m2)) = (chosen', m')"
      using Cons.prems(3) pair mk by (simp add: marks_lookup(1) Let_def del: map_of_eq_Some_iff split: if_splits)
    show ?thesis
    proof (cases "int (length ?c2) = n")
      case True
      then have "chosen' = ?c2" "m' = ?m2" using r by simp_all
      then show ?thesis using True ch mk2 cl t d pair(1) by (auto simp: chosen_ok_def intro!: exI [of _ "set ?c2"])
    next
      case False
      have "choosing siblings cores n ts ?c2 ?m2"
        using False ch mk2 cl t d pair(1,2) by (auto simp: choosing_def)
      then show ?thesis using Cons.IH [OF _ Cons.prems(2)] r False by auto
    qed
  next
    case single
    have "d \<in> insert t (set chosen)" if "map_of siblings t = Some d" "d \<in> set cores" for d
      using single(3) [OF that(1)] that(2) marks_lookup(2) [OF mk1] by auto
    then have cl: "pairs_closed siblings cores (set ?c1)" using pairs_closed_insert [of siblings cores "set chosen" t] ch by auto
    have "choosing siblings cores n ts ?c1 ?m1"
      using ch mk1 cl t single(1,2) by (auto simp: choosing_def)
    moreover have "choose_loop siblings n ts (?c1, ?m1) = (chosen', m')"
      using Cons.prems(3) single mk by (auto simp: marks_lookup(1) Let_def simp del: map_of_eq_Some_iff split: option.splits if_splits)
    ultimately show ?thesis using Cons.IH Cons.prems(2) by blast
  qed
qed

lemma marks_start: "marks cores [] (fold (\<lambda>c m. AList.update c False m) cores [])"
proof -
  have "map_of (fold (\<lambda>c m. AList.update c False m) cs m) c = (if c \<in> set cs then Some False else map_of m c)"
    for cs and m :: "(int, bool) gomap" and c
    by (induction cs arbitrary: m) (auto simp del: map_of_eq_Some_iff)
  then show ?thesis by (simp add: marks_def)
qed

text \<open>The siblings read from the machine are symmetric when no core has more than two threads.\<close>

definition thread_key :: "cpu_info \<Rightarrow> string" where
  "thread_key info = ci_PhysicalID info @ ci_CoreID info"


definition threads_known :: "cpu_info list \<Rightarrow> (string, int) gomap \<times> (int, int) gomap \<Rightarrow> bool" where
  "threads_known infos = (\<lambda>(coreIdToThread, siblings).
     (\<forall>k. map_of coreIdToThread k = None \<longleftrightarrow> k \<notin> thread_key ` set infos) \<and>
     (\<forall>k t. map_of coreIdToThread k = Some t \<longrightarrow> (\<exists>i \<in> set infos. thread_key i = k \<and> ci_CPU i = t)) \<and>
     (\<forall>a b. map_of siblings a = Some b \<longleftrightarrow>
        (\<exists>i \<in> set infos. \<exists>j \<in> set infos. i \<noteq> j \<and> thread_key i = thread_key j \<and> ci_CPU i = a \<and> ci_CPU j = b)))"

definition hyperthreads :: "cpu_info list \<Rightarrow> bool" where
  "hyperthreads infos \<longleftrightarrow> distinct (map ci_CPU infos) \<and>
     (\<forall>i \<in> set infos. length (filter (\<lambda>j. thread_key j = thread_key i) infos) \<le> 2)"

lemma hyperthreads_snoc:
  assumes "hyperthreads (infos @ [x])"
  shows "hyperthreads infos" "ci_CPU x \<notin> ci_CPU ` set infos"
    "i \<in> set infos \<Longrightarrow> j \<in> set infos \<Longrightarrow> thread_key i = thread_key x \<Longrightarrow> thread_key j = thread_key x \<Longrightarrow> i = j"
proof -
  have le: "length (filter (\<lambda>j. thread_key j = thread_key i) infos) \<le> 2" if "i \<in> set infos" for i
    using assms that by (force simp: hyperthreads_def)
  then show "hyperthreads infos" "ci_CPU x \<notin> ci_CPU ` set infos" using assms by (auto simp: hyperthreads_def)
  show "i = j" if "i \<in> set infos" "j \<in> set infos" "thread_key i = thread_key x" "thread_key j = thread_key x"
  proof -
    let ?f = "filter (\<lambda>j. thread_key j = thread_key x) infos"
    have "length ?f \<le> 1" using assms by (auto simp: hyperthreads_def)
    moreover have "i \<in> set ?f" "j \<in> set ?f" using that by simp_all
    ultimately show ?thesis by (cases ?f) (simp, metis One_nat_def add_le_cancel_right empty_iff le_zero_eq length_0_conv
        list.set(1) list.size(4) plus_1_eq_Suc set_ConsD add_0 add.commute)
  qed
qed


lemma add_thread_known:
  assumes "threads_known infos s" and "hyperthreads (infos @ [x])"
  shows "threads_known (infos @ [x]) (add_thread x s)"
proof -
  obtain C S where s: "s = (C, S)" by (cases s)
  note new = hyperthreads_snoc(2,3) [OF assms(2)]
  have none: "map_of C k = None \<longleftrightarrow> k \<notin> thread_key ` set infos"
    and some: "map_of C k = Some t \<Longrightarrow> \<exists>i \<in> set infos. thread_key i = k \<and> ci_CPU i = t"
    and sib: "map_of S a = Some b \<longleftrightarrow>
      (\<exists>i \<in> set infos. \<exists>j \<in> set infos. i \<noteq> j \<and> thread_key i = thread_key j \<and> ci_CPU i = a \<and> ci_CPU j = b)" for k t a b
    using assms(1) unfolding threads_known_def s by blast+
  show ?thesis
  proof (cases "map_of C (thread_key x)")
    case None
    then have "thread_key x \<notin> thread_key ` set infos" using none by blast
    then have k: "thread_key i \<noteq> thread_key x" if "i \<in> set infos" for i using that by (metis image_eqI)
    have e: "add_thread x s = (AList.update (thread_key x) (ci_CPU x) C, S)" using None by (simp add: add_thread_def s Let_def thread_key_def)
    have "map_of S a = Some b \<longleftrightarrow>
      (\<exists>i \<in> insert x (set infos). \<exists>j \<in> insert x (set infos). i \<noteq> j \<and> thread_key i = thread_key j \<and> ci_CPU i = a \<and> ci_CPU j = b)" for a b
      unfolding sib using k by (metis insert_iff)
    then show ?thesis unfolding e threads_known_def using none some by (auto simp del: map_of_eq_Some_iff)
  next
    case (Some t)
    then obtain y where y: "y \<in> set infos" "thread_key y = thread_key x" "ci_CPU y = t" using some by blast
    have uniq: "i = y" if "i \<in> set infos" "thread_key i = thread_key x" for i using new(2) [OF that(1) y(1) that(2) y(2)] .
    have cpu: "i = y" if "i \<in> set infos" "ci_CPU i = t" for i
      using hyperthreads_snoc(1) [OF assms(2)] that y by (auto simp: hyperthreads_def distinct_map inj_on_def)
    have xy: "ci_CPU x \<noteq> t" "x \<noteq> y" using new(1) y by force+
    have "map_of (AList.update t (ci_CPU x) (AList.update (ci_CPU x) t S)) a = Some b \<longleftrightarrow>
      (\<exists>i \<in> insert x (set infos). \<exists>j \<in> insert x (set infos). i \<noteq> j \<and> thread_key i = thread_key j \<and> ci_CPU i = a \<and> ci_CPU j = b)"
      (is "_ \<longleftrightarrow> ?R") for a b
    proof -
      consider "a = t" | "a = ci_CPU x" "a \<noteq> t" | "a \<noteq> t" "a \<noteq> ci_CPU x" by blast
      then show ?thesis
      proof cases
        case 1
        then have "?R \<longleftrightarrow> b = ci_CPU x" using y cpu uniq xy new(1) by (metis insert_iff)
        then show ?thesis using 1 by auto
      next
        case 2
        then have "?R \<longleftrightarrow> b = t" using y cpu uniq xy new(1) by (metis image_eqI insert_iff)
        then show ?thesis using 2 by auto
      next
        case 3
        have "?R \<longleftrightarrow> map_of S a = Some b" unfolding sib using 3 y uniq by (metis insert_iff)
        then show ?thesis using 3 by (simp del: map_of_eq_Some_iff)
      qed
    qed
    moreover have e: "add_thread x s = (C, AList.update t (ci_CPU x) (AList.update (ci_CPU x) t S))"
      using Some by (simp add: add_thread_def s Let_def thread_key_def)
    moreover have "insert (thread_key x) (thread_key ` set infos) = thread_key ` set infos" using y by (metis image_eqI insert_absorb)
    ultimately show ?thesis unfolding e threads_known_def using none some by (auto simp del: map_of_eq_Some_iff)
  qed
qed


lemma GenerateTheadSiblings_ok:
  assumes "hyperthreads infos"
  shows "siblings_ok (GenerateTheadSiblings infos)"
proof -
  have "threads_known infos (fold add_thread infos ([], []))"
    using assms
  proof (induction infos rule: rev_induct)
    case Nil
    show ?case by (simp add: threads_known_def)
  next
    case (snoc x infos)
    then show ?case using add_thread_known hyperthreads_snoc(1) by (simp del: map_of_eq_Some_iff)
  qed
  then show ?thesis
    unfolding siblings_ok_def GenerateTheadSiblings_def threads_known_def case_prod_unfold by metis
qed

lemma ChooseNumaCores_ok:
  assumes "siblings_ok siblings" and "0 < n" and "ChooseNumaCores siblings cores n = (chosen, left)"
  shows "\<exists>m. chosen_ok siblings cores n chosen m" and "left = sort (filter (\<lambda>c. c \<notin> set chosen) cores)"
proof -
  let ?cs = "sort cores" and ?m = "fold (\<lambda>c m. AList.update c False m) (sort cores) []"
  obtain m' where r: "choose_loop siblings n (rev ?cs) ([], ?m) = (chosen, m')"
    and left: "left = filter (\<lambda>c. map_of m' c \<noteq> Some True) ?cs"
    using assms(2,3) by (cases "cores = []") (auto simp: ChooseNumaCores_def Let_def split: prod.splits)
  have "choosing siblings ?cs n (rev ?cs) [] ?m"
    using assms(2) marks_start [of ?cs] by (simp add: choosing_def pairs_closed_def)
  then have ok: "chosen_ok siblings ?cs n chosen m'" using choose_loop_result assms(1) r by blast
  then show "\<exists>m. chosen_ok siblings cores n chosen m" by (intro exI [of _ m']) (simp add: chosen_ok_def marks_def pairs_closed_def)
  have "marks ?cs chosen m'" using ok by (simp add: chosen_ok_def)
  then show "left = sort (filter (\<lambda>c. c \<notin> set chosen) cores)"
    unfolding left filter_sort [symmetric] using marks_lookup(1) by (intro filter_cong) auto
qed

text \<open>
  C23. The cores given to the offline jobs: on a machine whose cores have at most two hardware
  threads, as many as asked for (or all there are) are chosen, none twice, the rest is left in
  ascending order, and all chosen cores but at most one are taken together with their sibling
  thread when that is among the cores too.
\<close>

theorem cores_chosen_in_pairs:
  assumes "hyperthreads infos" and "distinct cores" and "0 < n"
    and "ChooseNumaCores (GenerateTheadSiblings infos) cores n = (chosen, left)"
  shows "distinct chosen \<and> set chosen \<subseteq> set cores \<and> int (length chosen) = min n (int (length cores)) \<and>
    left = sort (filter (\<lambda>c. c \<notin> set chosen) cores) \<and>
    (\<exists>S. S \<subseteq> set chosen \<and> card (set chosen - S) \<le> 1 \<and> pairs_closed (GenerateTheadSiblings infos) cores S)"
proof -
  note ok = ChooseNumaCores_ok [OF GenerateTheadSiblings_ok [OF assms(1)] assms(3,4)]
  then have sub: "set chosen \<subseteq> set cores" and d: "distinct chosen" and le: "int (length chosen) \<le> n"
    and all: "int (length chosen) < n \<Longrightarrow> set cores \<subseteq> set chosen"
    by (auto simp: chosen_ok_def)
  have len: "length chosen = card (set chosen)" "length cores = card (set cores)"
    using d assms(2) by (simp_all add: distinct_card)
  then have "length chosen \<le> length cores" using sub by (simp add: card_mono)
  moreover have "int (length chosen) < n \<Longrightarrow> length cores = length chosen" using all sub len by (metis antisym)
  ultimately have "int (length chosen) = min n (int (length cores))" using le by linarith
  then show ?thesis using d sub ok by (simp add: chosen_ok_def)
qed

definition four_threads :: "cpu_info list" where
  "four_threads = [\<lparr>ci_CPU = 0, ci_PhysicalID = ''0'', ci_CoreID = ''0''\<rparr>, \<lparr>ci_CPU = 1, ci_PhysicalID = ''0'', ci_CoreID = ''1''\<rparr>,
     \<lparr>ci_CPU = 2, ci_PhysicalID = ''0'', ci_CoreID = ''0''\<rparr>, \<lparr>ci_CPU = 3, ci_PhysicalID = ''0'', ci_CoreID = ''1''\<rparr>]"

theorem cores_chosen_in_pairs_witness:
  "ChooseNumaCores (GenerateTheadSiblings four_threads) [0, 1, 2, 3] 3 = ([3, 1, 2], [0]) \<and>
   (\<exists>S. S \<subseteq> {3, 1, 2} \<and> card ({3, 1, 2} - S) \<le> 1 \<and> pairs_closed (GenerateTheadSiblings four_threads) [0, 1, 2, 3] S)"
proof -
  have e: "ChooseNumaCores (GenerateTheadSiblings four_threads) [0, 1, 2, 3] 3 = ([3, 1, 2], [0])" by code_simp
  have "hyperthreads four_threads" by (simp add: hyperthreads_def four_threads_def thread_key_def)
  from cores_chosen_in_pairs [OF this _ _ e] e show ?thesis by simp
qed

text \<open>
  The key of a core is the node's number followed by the core's, so that from ten nodes and ten cores
  on two different cores can share it: core 11 of node 1 and core 1 of node 11 become siblings.
\<close>

lemma core_keys_collide:
  "GenerateTheadSiblings [\<lparr>ci_CPU = 0, ci_PhysicalID = ''1'', ci_CoreID = ''11''\<rparr>,
     \<lparr>ci_CPU = 1, ci_PhysicalID = ''11'', ci_CoreID = ''1''\<rparr>] = [(1, 0), (0, 1)]"
  by code_simp

end
