(* ===== verification/QosCpu.thy ===== *)
theory QosCpu
  imports Topology
begin

text \<open>
  \<^verbatim>\<open>qos/manager/manage_cpu.go\<close>: the policies that keep the offline jobs from taking the cpus of the
  online jobs (an offline scheduling class, cpu sets, a quota), and the adaptive policy that
  tries the first two and keeps the better one. The global variables of the packages are the
  record \<open>cpu_world\<close>; what the machine and the libraries report is the record \<open>cpu_env\<close>.
\<close>

section \<open>Data\<close>

record 'q CgroupResourceConfig =
  cg_OnlineCgroups :: "string list"
  cg_OfflineCgroups :: "string list"
  cg_Resources :: "'q resource_list"
  cg_PodList :: "'q pod list"

record cpu_env =
  ce_Info :: "cpu_info list option"
  ce_procs :: "string list option"
  ce_subsystems :: "string list option"
  ce_MkdirAll :: "string \<Rightarrow> cgfs \<Rightarrow> cgfs"

record cpu_world =
  w_fs :: cgfs
  w_cpusetRecovered :: bool
  w_threadSiblings :: "(int, int) gomap"
  w_cpuBT :: "bool option"
  w_cpuTotal :: nat

datatype qos_error = QosFs fs_error | NoOfflineCores | NoOnlineCores | InvalidRootCpuset

definition CgroupOffline :: string where
  "CgroupOffline = ''/kubepods/offline''"

definition minCpuBtPercent :: int where
  "minCpuBtPercent = 10"

text \<open>A call on the file system inside the world.\<close>

definition on_fs :: "(cgfs \<Rightarrow> cgfs \<times> (fs_error + unit)) \<Rightarrow> cpu_world \<Rightarrow> cpu_world \<times> (qos_error + unit)" where
  "on_fs f w = (let (fs, r) = f (w_fs w) in (w\<lparr>w_fs := fs\<rparr>, map_sum QosFs id r))"

definition q_then :: "cpu_world \<times> (qos_error + unit) \<Rightarrow> (cpu_world \<Rightarrow> cpu_world \<times> (qos_error + unit)) \<Rightarrow> cpu_world \<times> (qos_error + unit)" where
  "q_then r k = (case r of (w, Inl err) \<Rightarrow> (w, Inl err) | (w, Inr _) \<Rightarrow> k w)"

section \<open>Helpers\<close>

record cgroupPaths =
  cp_cgroups :: "string list"

definition newCgroupPaths :: cgroupPaths where
  "newCgroupPaths = \<lparr>cp_cgroups = []\<rparr>"

definition cgroupPaths_equal :: "cgroupPaths \<Rightarrow> string list \<Rightarrow> bool" where
  "cgroupPaths_equal c cgs \<longleftrightarrow> length cgs = length (cp_cgroups c) \<and> list_all (\<lambda>cg. cg \<in> set cgs) (cp_cgroups c)"

definition cgroupPaths_copy :: "cgroupPaths \<Rightarrow> string list \<Rightarrow> cgroupPaths" where
  "cgroupPaths_copy c cgs = c\<lparr>cp_cgroups := cgs\<rparr>"

definition getOfflineCores :: "'q qops \<Rightarrow> 'q resource_list \<Rightarrow> int" where
  "getOfflineCores Q offlineRes =
     (case map_of offlineRes ResourceCPU of None \<Rightarrow> 0 | Some qty \<Rightarrow> q_milli Q qty sdiv 1000)"

text \<open>\<^verbatim>\<open>%v\<close> of a slice of integers.\<close>

definition sprint_ints :: "int list \<Rightarrow> string" where
  "sprint_ints xs = ''['' @ join_with '' '' (map show_int xs) @ '']''"

fun setCoresForCgroups :: "string list \<Rightarrow> int list \<Rightarrow> string \<Rightarrow> cgfs \<Rightarrow> cgfs \<times> fs_error list" where
  "setCoresForCgroups [] cores coresStr fs = (fs, [])"
| "setCoresForCgroups (cgPath # cgs) cores coresStr fs =
     (case (if coresStr \<noteq> [] then WriteCpuSetCoresStr cgPath coresStr fs else WriteCpuSetCores cgPath cores fs) of
        (fs, Inr _) \<Rightarrow> setCoresForCgroups cgs cores coresStr fs
      | (fs, Inl err) \<Rightarrow>
          let coresStr = (if coresStr = [] then sprint_ints cores else coresStr);
              (fs, errs) = setCoresForCgroups cgs cores coresStr fs
          in (fs, err # errs))"

definition recoverCoresForCgroups :: "string list \<Rightarrow> cgfs \<Rightarrow> (cgfs \<times> qos_error list) option" where
  "recoverCoresForCgroups cgs fs =
     (case GetCpuSet [] False fs of
        None \<Rightarrow> None
      | Some (Inl err) \<Rightarrow> Some (fs, [QosFs err])
      | Some (Inr [coresStr]) \<Rightarrow> Some (map_prod id (map QosFs) (setCoresForCgroups cgs [] coresStr fs))
      | Some (Inr _) \<Rightarrow> Some (fs, [InvalidRootCpuset]))"

fun setSharesForCgroups :: "string list \<Rightarrow> nat \<Rightarrow> cgfs \<Rightarrow> cgfs \<times> fs_error list" where
  "setSharesForCgroups [] shares fs = (fs, [])"
| "setSharesForCgroups (cg # cgs) shares fs =
     (let (fs, r) = SetCPUShares cg shares fs; (fs, errs) = setSharesForCgroups cgs shares fs
      in (fs, case r of Inl err \<Rightarrow> err # errs | Inr _ \<Rightarrow> errs))"

definition EnsureCgroupPath :: "cpu_env \<Rightarrow> string \<Rightarrow> cgfs \<Rightarrow> cgfs \<times> (fs_error + unit)" where
  "EnsureCgroupPath E pathInRoot fs =
     (case ce_subsystems E of
        None \<Rightarrow> (fs, Inl NotExist)
      | Some cgs \<Rightarrow> (fold (\<lambda>cg. ce_MkdirAll E (path_Join [fs_root fs, cg, pathInRoot])) cgs fs, Inr ()))"

definition refresh_siblings :: "cpu_env \<Rightarrow> cpu_world \<Rightarrow> cpu_world \<times> (qos_error + unit)" where
  "refresh_siblings E w =
     (case ce_Info E of
        None \<Rightarrow> (w, Inl (QosFs CpuInfoError))
      | Some cpuinfo \<Rightarrow> (w\<lparr>w_threadSiblings := GenerateTheadSiblings cpuinfo\<rparr>, Inr ()))"

definition initCgroup :: "cpu_env \<Rightarrow> cpu_world \<Rightarrow> cpu_world \<times> (qos_error + unit)" where
  "initCgroup E w =
     q_then (on_fs (EnsureCgroupPath E CgroupOffline) w)
       (\<lambda>w. q_then (on_fs (EnsureCpuSetCores CgroupOffline) w) (refresh_siblings E))"

text \<open>\<open>None\<close> when a range does not end; the set is a list without repetition.\<close>

definition set_insert :: "int \<Rightarrow> int list \<Rightarrow> int list" where
  "set_insert x xs = (if x \<in> set xs then xs else xs @ [x])"

fun parse_slices :: "string list \<Rightarrow> int list \<Rightarrow> (string + int list) option" where
  "parse_slices [] cpus = Some (Inr cpus)"
| "parse_slices (slice # slices) cpus =
     (if length slice = 1 then
        (case atoi slice of
           None \<Rightarrow> Some (Inl slice)
         | Some core \<Rightarrow> parse_slices slices (set_insert core cpus))
      else case split_on (CHR ''-'') slice of
        [lo, hi] \<Rightarrow>
          (case (atoi lo, atoi hi) of
             (Some start, Some end') \<Rightarrow>
               (case count_up start end' of
                  None \<Rightarrow> None
                | Some is \<Rightarrow> parse_slices slices (fold set_insert is cpus))
           | _ \<Rightarrow> Some (Inl slice))
      | _ \<Rightarrow> Some (Inl slice))"

definition parseCpList :: "string \<Rightarrow> (string + int list) option" where
  "parseCpList cpuList = (if cpuList = [] then Some (Inr []) else parse_slices (split_on (CHR '','') cpuList) [])"

section \<open>The offline scheduling class\<close>

record qosCpuBT =
  bt_lastNCores :: "int option"
  bt_kubeletStatic :: bool

definition NewQosCpuBT :: "bool \<Rightarrow> qosCpuBT" where
  "NewQosCpuBT kubeletStatic = \<lparr>bt_lastNCores = None, bt_kubeletStatic = kubeletStatic\<rparr>"

definition bt_PreInit :: "cpu_env \<Rightarrow> cpu_world \<Rightarrow> cpu_world \<times> (qos_error + unit)" where
  "bt_PreInit E w =
     q_then (initCgroup E w)
       (\<lambda>w. q_then (on_fs (CPUOfflineSet CgroupOffline True) w)
         (\<lambda>w. q_then (on_fs (CPUChildOfflineSet CgroupOffline True) w)
           (on_fs (SetCpuQuota CgroupOffline (- 1)))))"

text \<open>
  \<open>None\<close> is a panic or a loop that does not end. After a failed recovery of the cpu sets the global
  flag is set, as in the source.
\<close>

definition bt_Manage ::
  "'q qops \<Rightarrow> cpu_env \<Rightarrow> 'q CgroupResourceConfig \<Rightarrow> qosCpuBT \<Rightarrow> cpu_world \<Rightarrow> (qosCpuBT \<times> cpu_world \<times> (qos_error + unit)) option" where
  "bt_Manage Q E cgResources b w =
     (let nCores = getOfflineCores Q (cg_Resources cgResources) in
      if nCores = 0 then Some (b, w, Inr ())
      else if bt_lastNCores b = Some nCores then Some (b, w, Inr ())
      else case on_fs (CPUOfflineSet CgroupOffline True) w of
        (w, Inl err) \<Rightarrow> Some (b\<lparr>bt_lastNCores := None\<rparr>, w, Inl err)
      | (w, Inr _) \<Rightarrow>
          (case CPUOfflineLimit (map_option length (ce_Info E)) (ce_procs E) nCores minCpuBtPercent (w_cpuTotal w) (w_fs w) of
             None \<Rightarrow> None
           | Some (cpuTotal, fs, r) \<Rightarrow>
               let w = w\<lparr>w_cpuTotal := cpuTotal, w_fs := fs\<rparr> in
               case r of
                 Inl err \<Rightarrow> Some (b\<lparr>bt_lastNCores := None\<rparr>, w, Inl (QosFs err))
               | Inr _ \<Rightarrow>
                   if bt_kubeletStatic b \<or> \<not> w_cpusetRecovered w then
                     (case recoverCoresForCgroups (cg_OfflineCgroups cgResources) (w_fs w) of
                        None \<Rightarrow> None
                      | Some (fs, errs) \<Rightarrow>
                          if errs \<noteq> [] then Some (b\<lparr>bt_lastNCores := None\<rparr>, w\<lparr>w_fs := fs, w_cpusetRecovered := True\<rparr>, Inr ())
                          else Some (b\<lparr>bt_lastNCores := Some nCores\<rparr>, w\<lparr>w_fs := fs\<rparr>, Inr ()))
                   else Some (b\<lparr>bt_lastNCores := Some nCores\<rparr>, w, Inr ())))"

section \<open>Cpu sets\<close>

record CpuSetConfig =
  EnableOnlineIsolate :: bool
  ReservedCpus :: string

record qosCpuSet =
  cs_lastNCores :: "int option"
  cs_lastOfflineCgs :: cgroupPaths
  cs_lastOnlineCgs :: cgroupPaths
  cs_onlineIsolate :: bool
  cs_reserved :: "int list"

text \<open>\<open>None\<close>: an invalid list of reserved cpus ends the process, an endless range never returns.\<close>

definition NewQosCpuSet :: "CpuSetConfig \<Rightarrow> qosCpuSet option" where
  "NewQosCpuSet config =
     (case parseCpList (ReservedCpus config) of
        Some (Inr reserved) \<Rightarrow>
          Some \<lparr>cs_lastNCores = None, cs_lastOfflineCgs = newCgroupPaths, cs_lastOnlineCgs = newCgroupPaths,
                cs_onlineIsolate = EnableOnlineIsolate config, cs_reserved = reserved\<rparr>
      | _ \<Rightarrow> None)"

definition offline_off :: "cpu_world \<Rightarrow> cpu_world \<times> (qos_error + unit)" where
  "offline_off w =
     (let (bt, supported) = CPUOfflineSupported (w_fs w) (w_cpuBT w); w = w\<lparr>w_cpuBT := bt\<rparr> in
      if supported
      then q_then (on_fs (CPUOfflineSet CgroupOffline False) w) (on_fs (CPUChildOfflineSet CgroupOffline False))
      else (w, Inr ()))"

definition set_PreInit :: "cpu_env \<Rightarrow> cpu_world \<Rightarrow> cpu_world \<times> (qos_error + unit)" where
  "set_PreInit E w =
     q_then (initCgroup E w) (\<lambda>w. q_then (on_fs (SetCpuQuota CgroupOffline (- 1)) w) offline_off)"

definition set_unchanged :: "int \<Rightarrow> 'q CgroupResourceConfig \<Rightarrow> qosCpuSet \<Rightarrow> bool" where
  "set_unchanged nCores cgResources s \<longleftrightarrow>
     cs_lastNCores s = Some nCores \<and> cgroupPaths_equal (cs_lastOfflineCgs s) (cg_OfflineCgroups cgResources) \<and>
     (\<not> cs_onlineIsolate s \<or> cgroupPaths_equal (cs_lastOnlineCgs s) (cg_OnlineCgroups cgResources))"

text \<open>The cores the offline jobs may get: those of the root group that are not reserved.\<close>

definition total_cores :: "qosCpuSet \<Rightarrow> string list \<Rightarrow> int list" where
  "total_cores s totalCoresStr = filter (\<lambda>c. c \<notin> set (cs_reserved s)) (map atoi_ignore totalCoresStr)"

definition set_Manage ::
  "'q qops \<Rightarrow> 'q CgroupResourceConfig \<Rightarrow> qosCpuSet \<Rightarrow> cpu_world \<Rightarrow> (qosCpuSet \<times> cpu_world \<times> (qos_error + unit)) option" where
  "set_Manage Q cgResources s w =
     (let nCores = getOfflineCores Q (cg_Resources cgResources) in
      if nCores = 0 then Some (s, w, Inr ())
      else if set_unchanged nCores cgResources s then Some (s, w, Inr ())
      else case GetCpuSet [] True (w_fs w) of
        None \<Rightarrow> None
      | Some (Inl err) \<Rightarrow> Some (s\<lparr>cs_lastNCores := None\<rparr>, w, Inl (QosFs err))
      | Some (Inr totalCoresStr) \<Rightarrow>
          let (offlineCores, leftCores) = ChooseNumaCores (w_threadSiblings w) (total_cores s totalCoresStr) nCores in
          if offlineCores = [] then Some (s\<lparr>cs_lastNCores := None\<rparr>, w, Inl NoOfflineCores)
          else let (fs, errs) = setCoresForCgroups (cg_OfflineCgroups cgResources) offlineCores [] (w_fs w);
                   s = (if errs = []
                        then s\<lparr>cs_lastNCores := Some nCores,
                               cs_lastOfflineCgs := cgroupPaths_copy (cs_lastOfflineCgs s) (cg_OfflineCgroups cgResources)\<rparr>
                        else s);
                   (fs, r) = SetCpuQuota CgroupOffline (- 1) fs;
                   s = (case r of Inl _ \<Rightarrow> s\<lparr>cs_lastNCores := None\<rparr> | Inr _ \<Rightarrow> s)
               in if \<not> cs_onlineIsolate s then Some (s, w\<lparr>w_fs := fs\<rparr>, Inr ())
                  else let leftCores = leftCores @ sort (cs_reserved s) in
                       if leftCores = [] then Some (s\<lparr>cs_lastNCores := None\<rparr>, w\<lparr>w_fs := fs\<rparr>, Inl NoOnlineCores)
                       else let (fs, errs) = setCoresForCgroups (cg_OnlineCgroups cgResources) leftCores [] fs;
                                s = (if errs = []
                                     then s\<lparr>cs_lastOnlineCgs := cgroupPaths_copy (cs_lastOnlineCgs s) (cg_OnlineCgroups cgResources)\<rparr>
                                     else s\<lparr>cs_lastNCores := None\<rparr>)
                            in Some (s, w\<lparr>w_fs := fs\<rparr>, Inr ()))"

section \<open>Quota\<close>

record qosCpuQuota =
  cq_lastNCores :: "int option"
  cq_lastOfflineCgs :: cgroupPaths
  cq_shareWeight :: "nat option"
  cq_kubeletStatic :: bool

definition NewQosCpuQuota :: "bool \<Rightarrow> nat option \<Rightarrow> qosCpuQuota" where
  "NewQosCpuQuota kubeletStatic offlineShare =
     \<lparr>cq_lastNCores = None, cq_lastOfflineCgs = newCgroupPaths, cq_shareWeight = offlineShare, cq_kubeletStatic = kubeletStatic\<rparr>"

definition quota_PreInit :: "cpu_env \<Rightarrow> cpu_world \<Rightarrow> cpu_world \<times> (qos_error + unit)" where
  "quota_PreInit E w = q_then (initCgroup E w) offline_off"

definition quota_unchanged :: "int \<Rightarrow> 'q CgroupResourceConfig \<Rightarrow> qosCpuQuota \<Rightarrow> bool" where
  "quota_unchanged nCores cgResources q \<longleftrightarrow>
     cq_lastNCores q = Some nCores \<and>
     (cq_shareWeight q = None \<or> cgroupPaths_equal (cq_lastOfflineCgs q) (cg_OfflineCgroups cgResources))"

definition quota_Manage ::
  "'q qops \<Rightarrow> 'q CgroupResourceConfig \<Rightarrow> qosCpuQuota \<Rightarrow> cpu_world \<Rightarrow> (qosCpuQuota \<times> cpu_world \<times> (qos_error + unit)) option" where
  "quota_Manage Q cgResources q w =
     (let nCores = getOfflineCores Q (cg_Resources cgResources) in
      if nCores = 0 then Some (q, w, Inr ())
      else if quota_unchanged nCores cgResources q then Some (q, w, Inr ())
      else case SetCpuQuota CgroupOffline (fl (of_int nCores)) (w_fs w) of
        (fs, Inl err) \<Rightarrow> Some (q\<lparr>cq_lastNCores := None\<rparr>, w\<lparr>w_fs := fs\<rparr>, Inl (QosFs err))
      | (fs, Inr _) \<Rightarrow>
          let q = q\<lparr>cq_lastNCores := Some nCores\<rparr>;
              (fs, sharesOk) = (case cq_shareWeight q of
                None \<Rightarrow> (fs, True)
              | Some share \<Rightarrow> map_prod id (\<lambda>errs. errs = []) (setSharesForCgroups (cg_OfflineCgroups cgResources) share fs));
              w = w\<lparr>w_fs := fs\<rparr>;
              recovered = (if cq_kubeletStatic q \<or> \<not> w_cpusetRecovered w
                then map_option (\<lambda>(fs, errs). if errs = [] then (w\<lparr>w_fs := fs\<rparr>, True)
                       else (w\<lparr>w_fs := fs, w_cpusetRecovered := True\<rparr>, False))
                     (recoverCoresForCgroups (cg_OfflineCgroups cgResources) fs)
                else Some (w, True))
          in case recovered of
               None \<Rightarrow> None
             | Some (w, coresOk) \<Rightarrow>
                 Some (if sharesOk \<and> coresOk
                       then q\<lparr>cq_lastOfflineCgs := cgroupPaths_copy (cq_lastOfflineCgs q) (cg_OfflineCgroups cgResources)\<rparr>
                       else q\<lparr>cq_lastNCores := None\<rparr>, w, Inr ()))"

section \<open>The adaptive policy\<close>

datatype cpu_manager = CpuBT qosCpuBT | CpuSet qosCpuSet | CpuQuota qosCpuQuota

definition cpu_PreInit :: "cpu_env \<Rightarrow> cpu_manager \<Rightarrow> cpu_world \<Rightarrow> cpu_world \<times> (qos_error + unit)" where
  "cpu_PreInit E m = (case m of CpuBT _ \<Rightarrow> bt_PreInit E | CpuSet _ \<Rightarrow> set_PreInit E | CpuQuota _ \<Rightarrow> quota_PreInit E)"

definition cpu_Manage ::
  "'q qops \<Rightarrow> cpu_env \<Rightarrow> 'q CgroupResourceConfig \<Rightarrow> cpu_manager \<Rightarrow> cpu_world \<Rightarrow> (cpu_manager \<times> cpu_world \<times> (qos_error + unit)) option" where
  "cpu_Manage Q E cgResources m w =
     (case m of
        CpuBT b \<Rightarrow> map_option (map_prod CpuBT id) (bt_Manage Q E cgResources b w)
      | CpuSet s \<Rightarrow> map_option (map_prod CpuSet id) (set_Manage Q cgResources s w)
      | CpuQuota q \<Rightarrow> map_option (map_prod CpuQuota id) (quota_Manage Q cgResources q w))"

text \<open>A factory is the manager it builds, \<open>None\<close> when it does not return.\<close>

record 'q qosCpuAdaptive =
  ad_factories :: "cpu_manager option list"
  ad_managerMetrics :: "float64 list"
  ad_currTry :: nat
  ad_currentManager :: "cpu_manager option"
  ad_currentWinFactory :: nat
  ad_winCount :: nat
  ad_lastCgResources :: "'q CgroupResourceConfig option"
  ad_roundCount :: nat

definition NewQosCpuAdaptive :: "bool \<Rightarrow> CpuSetConfig \<Rightarrow> 'q qosCpuAdaptive" where
  "NewQosCpuAdaptive kubeletStatic config =
     \<lparr>ad_factories = [Some (CpuBT (NewQosCpuBT kubeletStatic)), map_option CpuSet (NewQosCpuSet config)],
      ad_managerMetrics = [0, 0], ad_currTry = 0, ad_currentManager = None, ad_currentWinFactory = 0,
      ad_winCount = 0, ad_lastCgResources = None, ad_roundCount = 0\<rparr>"

definition adaptive_PreInit ::
  "cpu_env \<Rightarrow> 'q qosCpuAdaptive \<Rightarrow> cpu_world \<Rightarrow> ('q qosCpuAdaptive \<times> cpu_world \<times> (qos_error + unit)) option" where
  "adaptive_PreInit E q w =
     (case ad_factories q of
        Some m # _ \<Rightarrow> let (w, r) = cpu_PreInit E m w in Some (q\<lparr>ad_currentManager := Some m, ad_currTry := 0\<rparr>, w, r)
      | _ \<Rightarrow> None)"

definition renewManager :: "'q qops \<Rightarrow> cpu_env \<Rightarrow> 'q qosCpuAdaptive \<Rightarrow> cpu_world \<Rightarrow> ('q qosCpuAdaptive \<times> cpu_world) option" where
  "renewManager Q E q w =
     (let w = w\<lparr>w_cpusetRecovered := False\<rparr> in
      if length (ad_factories q) \<le> ad_currTry q then None
      else case ad_factories q ! ad_currTry q of
        None \<Rightarrow> None
      | Some m \<Rightarrow>
          let w = fst (cpu_PreInit E m w) in
          case ad_lastCgResources q of
            None \<Rightarrow> Some (q\<lparr>ad_currentManager := Some m\<rparr>, w)
          | Some cgResources \<Rightarrow>
              map_option (\<lambda>(m, w, _). (q\<lparr>ad_currentManager := Some m\<rparr>, w)) (cpu_Manage Q E cgResources m w))"

definition adaptive_Manage ::
  "'q qops \<Rightarrow> cpu_env \<Rightarrow> 'q CgroupResourceConfig \<Rightarrow> 'q qosCpuAdaptive \<Rightarrow> cpu_world
    \<Rightarrow> ('q qosCpuAdaptive \<times> cpu_world \<times> (qos_error + unit)) option" where
  "adaptive_Manage Q E cgResources q w =
     (let q = q\<lparr>ad_lastCgResources := Some cgResources\<rparr> in
      case ad_currentManager q of
        None \<Rightarrow> None
      | Some m \<Rightarrow> map_option (\<lambda>(m, w, r). (q\<lparr>ad_currentManager := Some m\<rparr>, w, r)) (cpu_Manage Q E cgResources m w))"

text \<open>The mean of the values of the metrics.\<close>

definition add_metric :: "(string, float64) gomap \<Rightarrow> nat \<times> float64 \<Rightarrow> nat \<times> float64" where
  "add_metric v = (\<lambda>(cnt, sum). case map_of v ''value'' of None \<Rightarrow> (cnt, sum) | Some x \<Rightarrow> (cnt + 1, fl (sum + x)))"

definition metrics_mean :: "(string, (string, float64) gomap list) gomap \<Rightarrow> float64" where
  "metrics_mean metrics =
     fold (\<lambda>(_, vv) sum. let (cnt, sum) = fold add_metric vv (0, sum) in if cnt > 0 then fl (sum / real cnt) else sum) metrics 0"

text \<open>The first factory with the smallest metric.\<close>

definition min_index :: "float64 list \<Rightarrow> nat" where
  "min_index ms = fst (fold (\<lambda>(i, v) (minIdx, m). if v < m then (i, v) else (minIdx, m)) (zip [0..<length ms] ms) (0, ms ! 0))"

datatype next_try = TryAgain | NextRound | Settled

text \<open>The part of a tick that decides on the policy to try next.\<close>

definition choose_policy :: "float64 \<Rightarrow> 'q qosCpuAdaptive \<Rightarrow> 'q qosCpuAdaptive \<times> next_try" where
  "choose_policy metric q =
     (let q = q\<lparr>ad_managerMetrics := (ad_managerMetrics q)[ad_currTry q := metric]\<rparr>;
          q = q\<lparr>ad_currTry := (ad_currTry q + 1) mod length (ad_factories q)\<rparr> in
      if ad_currTry q = ad_currentWinFactory q
      then let q = q\<lparr>ad_roundCount := ad_roundCount q + 1\<rparr>; minIdx = min_index (ad_managerMetrics q) in
           if ad_currentWinFactory q = minIdx
           then let q = q\<lparr>ad_winCount := ad_winCount q + 1\<rparr> in (q, if ad_winCount q \<ge> 5 then Settled else NextRound)
           else (q\<lparr>ad_currentWinFactory := minIdx, ad_winCount := 1, ad_currTry := minIdx\<rparr>, NextRound)
      else (q, TryAgain))"

text \<open>
  What the timer is set to after a tick: a try or a round (the random addition is a parameter);
  \<open>Stopped\<close> ends the loop.
\<close>

datatype timer = AfterTry int | AfterRound int | Stopped

definition tryDuration :: int where "tryDuration = 15 * 60"
definition roundDuration :: int where "roundDuration = 6 * 3600"

definition adaptive_tick ::
  "'q qops \<Rightarrow> cpu_env \<Rightarrow> int \<Rightarrow> int \<Rightarrow> (string, (string, float64) gomap list) gomap option \<Rightarrow> 'q qosCpuAdaptive \<Rightarrow> cpu_world
    \<Rightarrow> ('q qosCpuAdaptive \<times> cpu_world \<times> timer) option" where
  "adaptive_tick Q E rndTry rndRound metrics q w =
     (case metrics of
        None \<Rightarrow> Some (q, w, AfterTry (tryDuration + rndTry))
      | Some ms \<Rightarrow>
          if ms = [] then Some (q, w, AfterTry (tryDuration + rndTry))
          else if length ms > 1 then Some (q, w, Stopped)
          else let (q, nxt) = choose_policy (metrics_mean ms) q in
               map_option (\<lambda>(q, w). (q, w,
                   case nxt of Settled \<Rightarrow> Stopped | NextRound \<Rightarrow> AfterRound (roundDuration + 60 * rndRound) | TryAgain \<Rightarrow> AfterTry (tryDuration + rndTry)))
                 (renewManager Q E q w))"

end
