(* ===== verification/QosCpuProps.thy ===== *)
theory QosCpuProps
  imports QosCpu
begin

text \<open>
  Properties of the cpu policies: the reserved cpu list, the isolation by cpu sets, the quota, what
  a failed write does to the groups after it, and the end of the adaptive policy's trials.
\<close>

section \<open>Reading cpu lists\<close>

text \<open>The elements of a cpu list that are accepted: a one digit number or a range.\<close>

datatype cpu_item = CpuOne nat | CpuRange nat nat

fun item_string :: "cpu_item \<Rightarrow> string" where
  "item_string (CpuOne d) = show_nat d"
| "item_string (CpuRange a b) = show_nat a @ ''-'' @ show_nat b"

fun item_ok :: "cpu_item \<Rightarrow> bool" where
  "item_ok (CpuOne d) \<longleftrightarrow> d < 10"
| "item_ok (CpuRange a b) \<longleftrightarrow> a < 2 ^ 63 \<and> b < 2 ^ 63 - 1"

fun item_cpus :: "cpu_item \<Rightarrow> int list" where
  "item_cpus (CpuOne d) = [int d]"
| "item_cpus (CpuRange a b) = [int a..int b]"

lemma set_fold_insert: "set (fold set_insert xs ys) = set ys \<union> set xs" "distinct ys \<Longrightarrow> distinct (fold set_insert xs ys)"
  by (induction xs arbitrary: ys) (auto simp: set_insert_def)

lemma length_item_range: "length (item_string (CpuRange a b)) \<noteq> 1"
  by (cases "show_nat a"; cases "show_nat b") simp_all

lemma parse_item:
  assumes "item_ok item"
  shows "parse_slices (item_string item # slices) cpus = parse_slices slices (fold set_insert (item_cpus item) cpus)"
proof (cases item)
  case (CpuOne d)
  then have "show_nat d = [digit_char d]" using assms by (subst show_nat.simps) simp
  moreover have "atoi (show_nat d) = Some (int d)" using assms CpuOne by (intro atoi_show_nat) simp
  ultimately show ?thesis using CpuOne by simp
next
  case (CpuRange a b)
  have d: "CHR ''-'' \<notin> set (show_nat n)" for n by (rule digits_no_char [OF show_nat_digits]) (simp add: is_digit_def)
  have "split_on (CHR ''-'') (item_string item) = [show_nat a, show_nat b]"
    using split_on_append [OF d, of a "show_nat b"] split_on_plain [OF d, of b] CpuRange by simp
  moreover have "atoi (show_nat a) = Some (int a)" "atoi (show_nat b) = Some (int b)"
    using assms CpuRange by (auto intro!: atoi_show_nat)
  moreover have "count_up (int a) (int b) = Some [int a..int b]"
    using assms CpuRange by (intro count_up_bounded) auto
  ultimately show ?thesis using length_item_range [of a b] CpuRange by (simp del: item_string.simps)
qed

lemma parse_items:
  "list_all item_ok items \<Longrightarrow> parse_slices (map item_string items) cpus = Some (Inr (fold set_insert (concat (map item_cpus items)) cpus))"
  by (induction items arbitrary: cpus) (simp_all add: parse_item del: parse_slices.simps(2))

lemma item_no_comma: "CHR '','' \<notin> set (item_string item)"
proof -
  have "CHR '','' \<notin> set (show_nat n)" for n by (rule digits_no_char [OF show_nat_digits]) (simp add: is_digit_def)
  then show ?thesis by (cases item) simp_all
qed

lemma item_string_ne: "item_string item \<noteq> []"
  by (cases item) simp_all

text \<open>
  The list of reserved cpus is read completely and reading it ends: a list of one digit numbers
  and of ranges (below the largest int64), printed with commas, gives the set of exactly the cpus it
  names, each once.
\<close>

lemma parseCpList_roundtrip:
  assumes "list_all item_ok items"
  shows "\<exists>cpus. parseCpList (join_with '','' (map item_string items)) = Some (Inr cpus) \<and> distinct cpus \<and>
    set cpus = (\<Union>item \<in> set items. set (item_cpus item))"
proof (cases "items = []")
  case True
  then show ?thesis by (simp add: parseCpList_def)
next
  case False
  have "split_on (CHR '','') (join_with '','' (map item_string items)) = map item_string items"
    using False item_no_comma by (intro split_join) auto
  moreover have "join_with '','' (map item_string items) \<noteq> []"
    using False item_string_ne by (cases items; cases "tl items") auto
  ultimately have "parseCpList (join_with '','' (map item_string items)) = Some (Inr (fold set_insert (concat (map item_cpus items)) []))"
    using parse_items [OF assms] by (simp add: parseCpList_def)
  then show ?thesis using set_fold_insert [where xs = "concat (map item_cpus items)" and ys = "[]"] by simp
qed

theorem parseCpList_roundtrip_witness:
  "\<exists>cpus. parseCpList ''0,3-5'' = Some (Inr cpus) \<and> set cpus = {0, 3, 4, 5}"
proof -
  have e: "join_with '','' (map item_string [CpuOne 0, CpuRange 3 5]) = ''0,3-5''"
    by code_simp
  have "[3..5] = [3, 4, 5 :: int]" by (simp add: upto.simps)
  with parseCpList_roundtrip [of "[CpuOne 0, CpuRange 3 5]", unfolded e] show ?thesis by auto
qed

text \<open>
  The comment's own example has a blank after the comma and is rejected, as is a single cpu of
  two digits.
\<close>

lemma documented_list_rejected: "parseCpList ''0, 3-5'' = Some (Inl '' 3-5'')"
  by (simp add: parseCpList_def atoi_def is_digit_def Let_def dec_val_def digit_val_def)

lemma two_digit_cpu_rejected: "parseCpList ''10'' = Some (Inl ''10'')"
  by (simp add: parseCpList_def)

section \<open>The adaptive policy settles\<close>

text \<open>A number of ticks with data, the metric of a policy being the given constant, up to the end of the loop.\<close>

fun policy_ticks :: "(nat \<Rightarrow> float64) \<Rightarrow> nat \<Rightarrow> 'q qosCpuAdaptive \<Rightarrow> 'q qosCpuAdaptive \<times> next_try" where
  "policy_ticks m 0 q = (q, TryAgain)"
| "policy_ticks m (Suc n) q =
     (case choose_policy (m (ad_currTry q)) q of
        (q, Settled) \<Rightarrow> (q, Settled)
      | (q, _) \<Rightarrow> policy_ticks m n q)"

lemma min_index_two: "min_index [a, b] = (if b < a then 1 else 0)"
  by (simp add: min_index_def numeral_2_eq_2)

lemma no_data_no_change: "adaptive_tick Q E rt rr None q w = Some (q, w, AfterTry (tryDuration + rt))"
  by (simp add: adaptive_tick_def)

text \<open>The state at the start of a round: the winning policy is tried first.\<close>

definition trial :: "bool \<Rightarrow> CpuSetConfig \<Rightarrow> float64 list \<Rightarrow> nat \<Rightarrow> nat \<Rightarrow> nat \<Rightarrow> 'q qosCpuAdaptive" where
  "trial k c xs w cnt r = (NewQosCpuAdaptive k c)\<lparr>ad_managerMetrics := xs, ad_currTry := w, ad_currentWinFactory := w,
     ad_winCount := cnt, ad_roundCount := r\<rparr>"

lemma trial_start: "NewQosCpuAdaptive k c = trial k c [0, 0] 0 0 0"
  by (simp add: trial_def NewQosCpuAdaptive_def)

lemma trial_first:
  "choose_policy x (trial k c [a, b] 0 cnt r) = ((trial k c [x, b] 0 cnt r)\<lparr>ad_currTry := 1\<rparr>, TryAgain)"
  "choose_policy x (trial k c [a, b] 1 cnt r) = ((trial k c [a, x] 1 cnt r)\<lparr>ad_currTry := 0\<rparr>, TryAgain)"
  by (simp_all add: choose_policy_def trial_def NewQosCpuAdaptive_def Let_def)

lemma trial_second:
  "choose_policy x ((trial k c [a, b] 0 cnt r)\<lparr>ad_currTry := 1\<rparr>) =
     (if x < a then (trial k c [a, x] 1 1 (Suc r), NextRound)
      else (trial k c [a, x] 0 (Suc cnt) (Suc r), if 4 \<le> cnt then Settled else NextRound))"
  "choose_policy x ((trial k c [a, b] 1 cnt r)\<lparr>ad_currTry := 0\<rparr>) =
     (if b < x then (trial k c [x, b] 1 (Suc cnt) (Suc r), if 4 \<le> cnt then Settled else NextRound)
      else (trial k c [x, b] 0 1 (Suc r), NextRound))"
  by (simp_all add: choose_policy_def trial_def NewQosCpuAdaptive_def Let_def min_index_two)

lemma trial_currTry: "ad_currTry (trial k c xs w cnt r) = w" "ad_roundCount (trial k c xs w cnt r) = r"
  by (simp_all add: trial_def)

lemma trial_round:
  "policy_ticks m (Suc (Suc n)) (trial k c [a, b] 0 cnt r) =
     (if m 1 < m 0 then policy_ticks m n (trial k c [m 0, m 1] 1 1 (Suc r))
      else if 4 \<le> cnt then (trial k c [m 0, m 1] 0 (Suc cnt) (Suc r), Settled)
      else policy_ticks m n (trial k c [m 0, m 1] 0 (Suc cnt) (Suc r)))"
  "policy_ticks m (Suc (Suc n)) (trial k c [a, b] 1 cnt r) =
     (if m 1 < m 0 then (if 4 \<le> cnt then (trial k c [m 0, m 1] 1 (Suc cnt) (Suc r), Settled)
                         else policy_ticks m n (trial k c [m 0, m 1] 1 (Suc cnt) (Suc r)))
      else policy_ticks m n (trial k c [m 0, m 1] 0 1 (Suc r)))"
  by (simp_all only: policy_ticks.simps trial_currTry trial_first trial_second prod.case next_try.case
      qosCpuAdaptive.select_convs qosCpuAdaptive.update_convs split: if_split)
     (simp_all add: trial_second split: if_split)

text \<open>
  C24. The trials of the adaptive policy end: when each of the two policies has a constant metric,
  the loop ends with the tenth tick that has data and not before, after five rounds, and keeps the
  policy with the smaller metric, the offline scheduling class when they are equal.
\<close>

theorem adaptive_policy_settles:
  "\<exists>q. policy_ticks m 10 (NewQosCpuAdaptive kubeletStatic config) = (q, Settled) \<and>
     ad_currTry q = (if m 1 < m 0 then 1 else 0) \<and> ad_roundCount q = 5 \<and>
     snd (policy_ticks m 9 (NewQosCpuAdaptive kubeletStatic config)) \<noteq> Settled"
proof -
  define i :: nat where "i = (if m 1 < m 0 then 1 else 0)"
  have e: "10 = Suc (Suc (Suc (Suc (Suc (Suc (Suc (Suc (Suc (Suc 0)))))))))" "9 = Suc (Suc (Suc (Suc (Suc (Suc (Suc (Suc (Suc 0))))))))"
    by simp_all
  have "snd (policy_ticks m 10 (trial kubeletStatic config [0, 0] 0 0 0)) = Settled \<and>
      ad_currTry (fst (policy_ticks m 10 (trial kubeletStatic config [0, 0] 0 0 0))) = i \<and>
      ad_roundCount (fst (policy_ticks m 10 (trial kubeletStatic config [0, 0] 0 0 0))) = 5"
    unfolding e i_def by (cases "m 1 < m 0") (simp_all add: trial_round trial_currTry del: policy_ticks.simps One_nat_def)
  moreover have "snd (policy_ticks m (Suc 0) (trial kubeletStatic config [m 0, m 1] i cnt r)) = TryAgain" for cnt r
    by (simp add: i_def trial_first trial_first(2) [unfolded One_nat_def])
  then have "snd (policy_ticks m 9 (trial kubeletStatic config [0, 0] 0 0 0)) = TryAgain"
    unfolding e i_def by (cases "m 1 < m 0") (simp_all add: trial_round del: policy_ticks.simps One_nat_def)
  ultimately show ?thesis unfolding trial_start i_def by (metis next_try.distinct(3) prod.collapse)
qed

section \<open>Isolation by cpu sets\<close>

definition cpuset_file :: "string \<Rightarrow> string \<Rightarrow> string" where
  "cpuset_file rt cg = path_Join [path_Join [rt, ''cpuset'', cg], ''cpuset.cpus'']"

definition quota_files :: "string \<Rightarrow> string set" where
  "quota_files rt = {path_Join [path_Join [rt, ''cpu'', CgroupOffline], ''cpu.cfs_period_us''],
     path_Join [path_Join [rt, ''cpu'', CgroupOffline], ''cpu.cfs_quota_us'']}"

lemma fs_write_ok:
  "\<not> fs_fail fs p \<Longrightarrow> fs_write p data fs = (fs\<lparr>fs_files := AList.update p data (fs_files fs)\<rparr>, Inr ())"
  by (simp add: fs_write_def)

definition cores_text :: "int list \<Rightarrow> string \<Rightarrow> string" where
  "cores_text cores coresStr = (if coresStr = [] then cpus_string cores else coresStr)"

lemma setCores_step:
  "cores \<noteq> [] \<or> str \<noteq> [] \<Longrightarrow> \<not> fs_fail fs (cpuset_file (fs_root fs) cg) \<Longrightarrow>
     setCoresForCgroups (cg # cgs) cores str fs =
       setCoresForCgroups cgs cores str (fs\<lparr>fs_files := AList.update (cpuset_file (fs_root fs) cg) (cores_text cores str) (fs_files fs)\<rparr>)"
  by (auto simp: WriteCpuSetCores_def WriteCpuSetCoresStr_def WriteFile_def cpuset_file_def fs_write_ok cores_text_def)

lemma setCores_text:
  assumes "cores \<noteq> [] \<or> str \<noteq> []" and "\<forall>cg \<in> set cgs. \<not> fs_fail fs (cpuset_file (fs_root fs) cg)"
  shows "\<exists>fs'. setCoresForCgroups cgs cores str fs = (fs', []) \<and> fs_root fs' = fs_root fs \<and> fs_fail fs' = fs_fail fs \<and>
    (\<forall>p. map_of (fs_files fs') p = (if p \<in> cpuset_file (fs_root fs) ` set cgs then Some (cores_text cores str) else map_of (fs_files fs) p))"
  using assms(2)
proof (induction cgs arbitrary: fs)
  case Nil
  then show ?case by simp
next
  case (Cons cg cgs)
  let ?fs = "fs\<lparr>fs_files := AList.update (cpuset_file (fs_root fs) cg) (cores_text cores str) (fs_files fs)\<rparr>"
  have "\<forall>cg \<in> set cgs. \<not> fs_fail ?fs (cpuset_file (fs_root ?fs) cg)" using Cons.prems by simp
  from Cons.IH [OF this] show ?case
    using setCores_step [OF assms(1), of fs cg cgs] Cons.prems by (auto simp del: setCoresForCgroups.simps map_of_eq_Some_iff)
qed

lemma setCores_ok:
  assumes "cores \<noteq> []" and "\<forall>cg \<in> set cgs. \<not> fs_fail fs (cpuset_file (fs_root fs) cg)"
  shows "\<exists>fs'. setCoresForCgroups cgs cores [] fs = (fs', []) \<and> fs_root fs' = fs_root fs \<and> fs_fail fs' = fs_fail fs \<and>
    (\<forall>p. map_of (fs_files fs') p = (if p \<in> cpuset_file (fs_root fs) ` set cgs then Some (cpus_string cores) else map_of (fs_files fs) p))"
  using setCores_text [of cores "[]"] assms unfolding cores_text_def by (simp only: if_True refl) blast

lemma SetCpuQuota_ok:
  assumes "\<forall>p \<in> quota_files (fs_root fs). \<not> fs_fail fs p"
  shows "\<exists>fs'. SetCpuQuota CgroupOffline v fs = (fs', Inr ()) \<and> fs_root fs' = fs_root fs \<and> fs_fail fs' = fs_fail fs \<and>
    (\<forall>p. p \<notin> quota_files (fs_root fs) \<longrightarrow> map_of (fs_files fs') p = map_of (fs_files fs) p)"
  using assms by (simp add: SetCpuQuota_def WriteFile_def quota_files_def fs_write_ok Let_def del: map_of_eq_Some_iff)

lemma ChooseNumaCores_parts:
  assumes "siblings_ok siblings" and "0 < n" and "ChooseNumaCores siblings cores n = (chosen, left)"
  shows "distinct chosen \<and> set chosen \<subseteq> set cores \<and> int (length chosen) \<le> n \<and> set left = set cores - set chosen"
  using ChooseNumaCores_ok [OF assms] by (auto simp: chosen_ok_def)



definition quiet_fs :: cgfs where
  "quiet_fs = \<lparr>fs_root = ''/c'', fs_files = [(''/c/cpuset/cpuset.cpus'', ''0-3'')], fs_dirs = [], fs_fail = (\<lambda>p. False)\<rparr>"

definition quiet_world :: cpu_world where
  "quiet_world = \<lparr>w_fs = quiet_fs, w_cpusetRecovered = False, w_threadSiblings = GenerateTheadSiblings four_threads,
     w_cpuBT = None, w_cpuTotal = 0\<rparr>"

definition two_jobs :: "int CgroupResourceConfig" where
  "two_jobs = \<lparr>cg_OnlineCgroups = [''/on''], cg_OfflineCgroups = [''/off''], cg_Resources = [(''cpu'', 2000000000)], cg_PodList = []\<rparr>"

definition reserve_zero :: qosCpuSet where
  "reserve_zero = \<lparr>cs_lastNCores = None, cs_lastOfflineCgs = newCgroupPaths, cs_lastOnlineCgs = newCgroupPaths,
     cs_onlineIsolate = True, cs_reserved = [0]\<rparr>"




section \<open>After a failed write\<close>

text \<open>
  One failed write spoils the rest: once a write of cores to a group has failed, all the groups
  after it get the cores in the form of an error message, as in \<open>[0 1]\<close> with brackets and
  blanks, which is not a cpu list; the failure of the first group is reported and no other.
\<close>

lemma failed_write_spoils_cores:
  assumes "cores \<noteq> []" and "fs_fail fs (cpuset_file (fs_root fs) a)" and "\<forall>cg \<in> set cgs. \<not> fs_fail fs (cpuset_file (fs_root fs) cg)"
  shows "\<exists>fs'. setCoresForCgroups (a # cgs) cores [] fs = (fs', [WriteFailed]) \<and>
    (\<forall>cg \<in> set cgs. map_of (fs_files fs') (cpuset_file (fs_root fs) cg) = Some (''['' @ join_with '' '' (map show_int cores) @ '']''))"
proof -
  have "sprint_ints cores \<noteq> []" by (simp add: sprint_ints_def)
  from setCores_text [OF disjI2, OF this assms(3), of cores] obtain fs' where
    "setCoresForCgroups cgs cores (sprint_ints cores) fs = (fs', [])"
    "\<And>p. map_of (fs_files fs') p = (if p \<in> cpuset_file (fs_root fs) ` set cgs then Some (sprint_ints cores) else map_of (fs_files fs) p)"
    by (auto simp: cores_text_def sprint_ints_def simp del: map_of_eq_Some_iff)
  then show ?thesis using assms(1,2)
    by (simp add: WriteCpuSetCores_def WriteFile_def cpuset_file_def fs_write_def sprint_ints_def del: map_of_eq_Some_iff)
qed

theorem failed_write_spoils_cores_witness:
  "\<exists>fs'. setCoresForCgroups [''/gone'', ''/off''] [2, 3] [] (quiet_fs\<lparr>fs_fail := (\<lambda>p. p = ''/c/cpuset/gone/cpuset.cpus'')\<rparr>) = (fs', [WriteFailed]) \<and>
     map_of (fs_files fs') ''/c/cpuset/off/cpuset.cpus'' = Some ''[2 3]''"
proof -
  let ?fs = "quiet_fs\<lparr>fs_fail := (\<lambda>p. p = ''/c/cpuset/gone/cpuset.cpus'')\<rparr>"
  have p: "cpuset_file ''/c'' ''/gone'' = ''/c/cpuset/gone/cpuset.cpus''" "cpuset_file ''/c'' ''/off'' = ''/c/cpuset/off/cpuset.cpus''"
    by code_simp+
  have j: "join_with '' '' (map show_int [2, 3]) = ''2 3''" by code_simp
  have r: "fs_root ?fs = ''/c''" by (simp add: quiet_fs_def)
  from failed_write_spoils_cores [of "[2, 3]" ?fs "''/gone''" "[''/off'']", unfolded r p j] show ?thesis by (simp add: p del: setCoresForCgroups.simps map_of_eq_Some_iff)
qed

text \<open>
  The number of cores recorded for the offline jobs is not cleared when a write to one of their groups
  fails: the next call with the recorded number and groups does nothing, whatever the failed call wrote.
\<close>

lemma stale_record_skips:
  assumes "cs_lastNCores s = Some k" and "cgroupPaths_equal (cs_lastOfflineCgs s) (cg_OfflineCgroups cg)"
    and "\<not> cs_onlineIsolate s" and "getOfflineCores Q (cg_Resources cg) = n" and "getOfflineCores Q (cg_Resources cg0) = k" and "n \<noteq> k"
    and "cg_OfflineCgroups cg0 = cg_OfflineCgroups cg"
    and "GetCpuSet [] True (w_fs w) = Some (Inr strs)"
    and "ChooseNumaCores (w_threadSiblings w) (total_cores s strs) n = (off, left)"
    and "setCoresForCgroups (cg_OfflineCgroups cg) off [] (w_fs w) = (fs1, err # errs)"
    and "SetCpuQuota CgroupOffline (- 1) fs1 = (fs2, Inr ())" and "off \<noteq> []" and "n \<noteq> 0"
  shows "set_Manage Q cg s w = Some (s, w\<lparr>w_fs := fs2\<rparr>, Inr ())"
    and "set_Manage Q cg0 s w' = Some (s, w', Inr ())"
proof -
  show "set_Manage Q cg s w = Some (s, w\<lparr>w_fs := fs2\<rparr>, Inr ())"
    using assms by (simp add: set_Manage_def set_unchanged_def Let_def)
  show "set_Manage Q cg0 s w' = Some (s, w', Inr ())"
    using assms by (simp add: set_Manage_def set_unchanged_def Let_def)
qed

end
