(* ===== verification/NetIO.thy ===== *)
theory NetIO
  imports CgroupFs
begin

text \<open>
  \<^verbatim>\<open>qos/manager/netio/netio.go\<close>: shaping the egress traffic of the offline jobs with a queueing
  discipline, three traffic classes, two filters, a control group class and a set of addresses. The
  netlink and ipset libraries and the \<^verbatim>\<open>tc\<close> command are the operations \<open>N\<close> on a state of their own
  type \<open>'n\<close>; the files are those of \<open>CgroupFs\<close>.
\<close>

section \<open>The libraries\<close>

record HtbClass =
  hc_LinkIndex :: int
  hc_Handle :: nat
  hc_Parent :: nat
  hc_Rate :: nat
  hc_Ceil :: nat
  hc_Prio :: nat
  hc_Buffer :: nat
  hc_Cbuffer :: nat

text \<open>A class or discipline of another kind is \<open>None\<close>.\<close>

record Htb =
  hq_LinkIndex :: int
  hq_Handle :: nat
  hq_Parent :: nat
  hq_Defcls :: nat

datatype ipset_result = IpsetCreated | IpsetExists | IpsetFailed

record 'n net_ops =
  no_ROOT :: nat
  no_MakeHandle :: "nat \<Rightarrow> nat \<Rightarrow> nat"
  no_LinkByName :: "string \<Rightarrow> 'n \<Rightarrow> int option"
  no_QdiscList :: "int \<Rightarrow> 'n \<Rightarrow> Htb option list option"
  no_QdiscDel :: "Htb \<Rightarrow> 'n \<Rightarrow> 'n \<times> bool"
  no_QdiscAdd :: "Htb \<Rightarrow> 'n \<Rightarrow> 'n \<times> bool"
  no_NewHtbClass :: "int \<Rightarrow> nat \<Rightarrow> nat \<Rightarrow> nat \<Rightarrow> nat \<Rightarrow> nat \<Rightarrow> HtbClass"
  no_ClassList :: "int \<Rightarrow> 'n \<Rightarrow> HtbClass option list option"
  no_ClassChange :: "HtbClass \<Rightarrow> 'n \<Rightarrow> 'n \<times> bool"
  no_ClassAdd :: "HtbClass \<Rightarrow> 'n \<Rightarrow> 'n \<times> bool"
  no_tc :: "string list \<Rightarrow> 'n \<Rightarrow> 'n \<times> string option"
  no_IpsetCreate :: "string \<Rightarrow> 'n \<Rightarrow> 'n \<times> ipset_result"
  no_IpsetList :: "string \<Rightarrow> 'n \<Rightarrow> string list list option"
  no_IpsetAdd :: "string \<Rightarrow> string \<Rightarrow> 'n \<Rightarrow> 'n \<times> bool"
  no_IpsetDel :: "string \<Rightarrow> string \<Rightarrow> 'n \<Rightarrow> 'n \<times> bool"

section \<open>Discipline and classes\<close>

record EgressShaper =
  es_ifName :: string
  es_speed :: nat
  es_offlineIpset :: string

definition NewEgressShaper :: "bool \<Rightarrow> nat \<Rightarrow> string \<Rightarrow> EgressShaper option" where
  "NewEgressShaper ipsetOk speed ifName =
     (if \<not> ipsetOk then None
      else Some \<lparr>es_ifName = ifName, es_speed = speed, es_offlineIpset = ''caelus-offline'' @ ''-'' @ ifName\<rparr>)"

definition newClass :: "'n net_ops \<Rightarrow> int \<Rightarrow> nat \<Rightarrow> nat \<Rightarrow> nat \<Rightarrow> nat \<Rightarrow> nat \<Rightarrow> HtbClass" where
  "newClass N index parent minor rate ceil' prio = no_NewHtbClass N index parent minor rate ceil' prio"

text \<open>A step on the library's state returns the new state and whether it succeeded.\<close>

definition n_then :: "'n \<times> bool \<Rightarrow> ('n \<Rightarrow> 'n \<times> bool) \<Rightarrow> 'n \<times> bool" where
  "n_then r k = (case r of (n, ok) \<Rightarrow> if ok then k n else (n, False))"

definition ensureClass :: "'n net_ops \<Rightarrow> int \<Rightarrow> HtbClass \<Rightarrow> 'n \<Rightarrow> 'n \<times> bool" where
  "ensureClass N nic expect n =
     (case no_ClassList N nic n of
        None \<Rightarrow> (n, False)
      | Some classes \<Rightarrow>
          (case find (\<lambda>c. hc_Handle c = hc_Handle expect \<and> hc_Parent c = hc_Parent expect) (List.map_filter id classes) of
             Some existing \<Rightarrow>
               if hc_Rate expect = hc_Rate existing \<and> hc_Ceil expect = hc_Ceil existing \<and> hc_Prio expect = hc_Prio existing \<and>
                  hc_Buffer expect = hc_Buffer existing \<and> hc_Cbuffer expect = hc_Cbuffer existing
               then (n, True)
               else no_ClassChange N expect n
           | None \<Rightarrow> no_ClassAdd N expect n))"

text \<open>The rate is computed on uint64.\<close>

definition ensureClasses :: "'n net_ops \<Rightarrow> EgressShaper \<Rightarrow> int \<Rightarrow> 'n \<Rightarrow> 'n \<times> bool" where
  "ensureClasses N s nic n =
     (let maxCeil = (1000 * 1000 * es_speed s) mod 2 ^ 64;
          rootClass = no_MakeHandle N 1 1; onlineClass = no_MakeHandle N 1 2; offlineClass = no_MakeHandle N 1 3 in
      n_then (ensureClass N nic (newClass N nic (no_ROOT N) rootClass maxCeil maxCeil 0) n)
        (\<lambda>n. n_then (ensureClass N nic (newClass N nic rootClass onlineClass maxCeil maxCeil 1) n)
          (ensureClass N nic (newClass N nic rootClass offlineClass (1000 * 1000) maxCeil 3))))"

definition ReconcileInterface :: "'n net_ops \<Rightarrow> EgressShaper \<Rightarrow> 'n \<Rightarrow> 'n \<times> bool" where
  "ReconcileInterface N s n =
     (case no_LinkByName N (es_ifName s) n of
        None \<Rightarrow> (n, False)
      | Some nic \<Rightarrow>
          (case no_QdiscList N nic n of
             None \<Rightarrow> (n, False)
           | Some qdiscs \<Rightarrow>
               let htb = \<lparr>hq_LinkIndex = nic, hq_Handle = no_MakeHandle N 1 0, hq_Parent = no_ROOT N, hq_Defcls = 2\<rparr>;
                   (n, deleted, expected) = (case qdiscs of
                     [Some existHtb] \<Rightarrow>
                       if hq_Defcls existHtb = hq_Defcls htb \<and> hq_Handle existHtb = hq_Handle htb then (n, True, True)
                       else let (n, ok) = no_QdiscDel N htb n in (n, ok, False)
                   | _ \<Rightarrow> (n, True, False))
               in if \<not> deleted then (n, False)
                  else n_then (if expected then (n, True) else no_QdiscAdd N htb n) (ensureClasses N s nic)))"

section \<open>Filters\<close>

text \<open>The lines of the output, as \<^verbatim>\<open>bufio.Scanner\<close> and \<^verbatim>\<open>strings.TrimSpace\<close> (of ASCII blanks) give them.\<close>

definition is_space :: "char \<Rightarrow> bool" where
  "is_space c \<longleftrightarrow> c = CHR '' '' \<or> (9 \<le> (of_char c :: nat) \<and> (of_char c :: nat) \<le> 13)"

definition strings_TrimSpace :: "string \<Rightarrow> string" where
  "strings_TrimSpace s = rev (dropWhile is_space (rev (dropWhile is_space s)))"

definition output_lines :: "string \<Rightarrow> string list" where
  "output_lines data = map strings_TrimSpace (split_on (CHR 0x0A) data)"

definition ensureCgroupFilter :: "'n net_ops \<Rightarrow> EgressShaper \<Rightarrow> 'n \<Rightarrow> 'n \<times> bool" where
  "ensureCgroupFilter N s n =
     (case no_tc N [''filter'', ''show'', ''dev'', es_ifName s] n of
        (n, None) \<Rightarrow> (n, False)
      | (n, Some data) \<Rightarrow>
          if list_ex (\<lambda>line. line \<noteq> [] \<and> strings_Contains line ''handle 0x3'' \<and> length (split_on (CHR '' '') line) = 10)
               (output_lines data)
          then (n, True)
          else let (n, r) = no_tc N [''filter'', ''add'', ''dev'', es_ifName s, ''protocol'', ''ip'', ''prio'', ''20'',
                                     ''parent'', ''1:'', ''handle'', ''3:'', ''cgroup''] n
               in (n, r \<noteq> None))"

definition ensureIpSetFilter :: "'n net_ops \<Rightarrow> EgressShaper \<Rightarrow> 'n \<Rightarrow> 'n \<times> bool" where
  "ensureIpSetFilter N s n =
     (case no_tc N [''filter'', ''show'', ''dev'', es_ifName s] n of
        (n, None) \<Rightarrow> (n, False)
      | (n, Some data) \<Rightarrow>
          let ipsetMatch = ''ipset('' @ es_offlineIpset s @ '' src)'' in
          if list_ex (\<lambda>line. line \<noteq> [] \<and> strings_HasPrefix line ipsetMatch) (output_lines data) then (n, True)
          else let (n, r) = no_tc N [''filter'', ''add'', ''dev'', es_ifName s, ''parent'', ''1:'', ''protocol'', ''ip'',
                                     ''prio'', ''10'', ''basic'', ''match'', ipsetMatch, ''flowid'', ''1:3''] n
               in (n, r \<noteq> None))"

section \<open>Groups and addresses\<close>

text \<open>The result is the one of the last write: the error of an earlier group is only logged.\<close>

fun write_classids :: "string list \<Rightarrow> bool \<Rightarrow> cgfs \<Rightarrow> cgfs \<times> bool" where
  "write_classids [] ok fs = (fs, ok)"
| "write_classids (p # ps) ok fs =
     (case WriteFile ''0x10003'' (path_Join [fs_root fs, ''net_cls'', p]) ''net_cls.classid'' fs of
        (fs, r) \<Rightarrow> write_classids ps (case r of Inl _ \<Rightarrow> False | Inr _ \<Rightarrow> True) fs)"

definition EnsureEgressOfCgroup :: "'n net_ops \<Rightarrow> EgressShaper \<Rightarrow> string list \<Rightarrow> 'n \<Rightarrow> cgfs \<Rightarrow> 'n \<times> cgfs \<times> bool" where
  "EnsureEgressOfCgroup N s pathInSubSystems n fs =
     (case ensureCgroupFilter N s n of
        (n, False) \<Rightarrow> (n, fs, False)
      | (n, True) \<Rightarrow> (n, write_classids pathInSubSystems True fs))"

text \<open>The members to add and to delete; an operation that fails is only logged.\<close>

definition ipset_add_missing :: "'n net_ops \<Rightarrow> string \<Rightarrow> string list \<Rightarrow> string list \<Rightarrow> 'n \<Rightarrow> 'n" where
  "ipset_add_missing N set_name existIPs ipStrs n =
     fold (\<lambda>current n. if current \<in> set existIPs then n else fst (no_IpsetAdd N set_name current n)) ipStrs n"

definition ipset_del_others :: "'n net_ops \<Rightarrow> string \<Rightarrow> string list \<Rightarrow> string list \<Rightarrow> 'n \<Rightarrow> 'n" where
  "ipset_del_others N set_name existIPs ipStrs n =
     fold (\<lambda>exist n. if exist \<in> set ipStrs then n else fst (no_IpsetDel N set_name exist n)) existIPs n"

definition EnsureEgressOfIPs :: "'n net_ops \<Rightarrow> EgressShaper \<Rightarrow> string list \<Rightarrow> 'n \<Rightarrow> 'n \<times> bool" where
  "EnsureEgressOfIPs N s ipStrs n =
     (case no_IpsetCreate N (es_offlineIpset s) n of
        (n, IpsetFailed) \<Rightarrow> (n, False)
      | (n, _) \<Rightarrow>
          (case no_IpsetList N (es_offlineIpset s) n of
             None \<Rightarrow> (n, False)
           | Some [] \<Rightarrow> (n, False)
           | Some (entries # _) \<Rightarrow>
               let existIPs = remdups entries;
                   n = ipset_add_missing N (es_offlineIpset s) existIPs ipStrs n;
                   n = ipset_del_others N (es_offlineIpset s) existIPs ipStrs n
               in ensureIpSetFilter N s n))"

section \<open>The set of addresses\<close>

text \<open>
  What the code relies on in the ipset library: listing a set gives its members, adding and deleting
  an address succeed and do just that, and the \<^verbatim>\<open>tc\<close> command leaves the sets alone.
\<close>

definition ipset_laws :: "'n net_ops \<Rightarrow> string \<Rightarrow> ('n \<Rightarrow> string set) \<Rightarrow> bool" where
  "ipset_laws N name members \<longleftrightarrow>
     (\<forall>n entries rest. no_IpsetList N name n = Some (entries # rest) \<longrightarrow> set entries = members n) \<and>
     (\<forall>n ip. members (fst (no_IpsetAdd N name ip n)) = insert ip (members n)) \<and>
     (\<forall>n ip. members (fst (no_IpsetDel N name ip n)) = members n - {ip}) \<and>
     (\<forall>n args. members (fst (no_tc N args n)) = members n)"

lemma members_add_missing:
  "ipset_laws N name members \<Longrightarrow> members (ipset_add_missing N name ex ips n) = members n \<union> {ip \<in> set ips. ip \<notin> set ex}"
  unfolding ipset_add_missing_def by (induction ips arbitrary: n) (auto simp: ipset_laws_def)

lemma members_del_others:
  "ipset_laws N name members \<Longrightarrow> members (ipset_del_others N name ex ips n) = members n - {ip \<in> set ex. ip \<notin> set ips}"
  unfolding ipset_del_others_def by (induction ex arbitrary: n) (auto simp: ipset_laws_def)

lemma members_filter:
  "ipset_laws N name members \<Longrightarrow> members (fst (ensureIpSetFilter N s n)) = members n"
  by (simp add: ensureIpSetFilter_def ipset_laws_def Let_def case_prod_unfold split: option.split)

text \<open>
  The set of addresses converges: when the library can create and list the set, the set contains
  exactly the addresses of the offline jobs after one call, whatever it contained before.
\<close>

lemma ipset_holds_offline_ips:
  assumes "ipset_laws N (es_offlineIpset s) members" and "no_IpsetCreate N (es_offlineIpset s) n = (n1, r)" and "r \<noteq> IpsetFailed"
    and "no_IpsetList N (es_offlineIpset s) n1 = Some (entries # rest)"
  shows "members (fst (EnsureEgressOfIPs N s ips n)) = set ips"
proof -
  have "set entries = members n1" using assms(1,4) by (auto simp: ipset_laws_def)
  then have "members (ipset_del_others N (es_offlineIpset s) (remdups entries) ips
      (ipset_add_missing N (es_offlineIpset s) (remdups entries) ips n1)) = set ips"
    unfolding members_del_others [OF assms(1)] members_add_missing [OF assms(1)] by auto
  then show ?thesis
    using assms(2-4) members_filter [OF assms(1)] by (cases r) (simp_all add: EnsureEgressOfIPs_def Let_def)
qed

definition plain_net :: "string list net_ops" where
  "plain_net = \<lparr>no_ROOT = 0, no_MakeHandle = (\<lambda>a b. a * 65536 + b), no_LinkByName = (\<lambda>_ _. None), no_QdiscList = (\<lambda>_ _. None),
     no_QdiscDel = (\<lambda>_ n. (n, True)), no_QdiscAdd = (\<lambda>_ n. (n, True)),
     no_NewHtbClass = (\<lambda>i p h r c q. \<lparr>hc_LinkIndex = i, hc_Handle = h, hc_Parent = p, hc_Rate = r, hc_Ceil = c, hc_Prio = q,
        hc_Buffer = 0, hc_Cbuffer = 0\<rparr>),
     no_ClassList = (\<lambda>_ _. None), no_ClassChange = (\<lambda>_ n. (n, True)), no_ClassAdd = (\<lambda>_ n. (n, True)),
     no_tc = (\<lambda>_ n. (n, Some [])), no_IpsetCreate = (\<lambda>_ n. (n, IpsetExists)), no_IpsetList = (\<lambda>_ n. Some [n]),
     no_IpsetAdd = (\<lambda>_ ip n. (ip # n, True)), no_IpsetDel = (\<lambda>_ ip n. (filter (\<lambda>x. x \<noteq> ip) n, True))\<rparr>"

theorem ipset_holds_offline_ips_witness:
  "set (fst (EnsureEgressOfIPs plain_net \<lparr>es_ifName = ''eth0'', es_speed = 1000, es_offlineIpset = ''caelus-offline-eth0''\<rparr>
     [''10.0.0.2'', ''10.0.0.3''] [''10.0.0.1'', ''10.0.0.2''])) = {''10.0.0.2'', ''10.0.0.3''}"
proof -
  have "ipset_laws plain_net name set" for name by (auto simp: ipset_laws_def plain_net_def)
  from ipset_holds_offline_ips [OF this, of _ "[''10.0.0.1'', ''10.0.0.2'']" "[''10.0.0.1'', ''10.0.0.2'']" IpsetExists]
  show ?thesis by (simp add: plain_net_def)
qed

end
