(* ===== verification/Action.thy ===== *)
theory Action
  imports Quantity
begin

text \<open>
  \<^verbatim>\<open>pkg/caelus/healthcheck/action\<close>: the actions a rule triggers (adjust, schedule, evict, log), the
  resource adjustments they ask for and the merging of several results into one.
\<close>

section \<open>Data\<close>

datatype formula = FormulaStep | FormulaTotal | FormulaPercent

definition allActionFormula :: "formula list" where
  "allActionFormula = [FormulaStep, FormulaTotal, FormulaPercent]"

record 'q ActionResource =
  ar_Name :: string
  ar_Conflicting :: bool
  ar_ConflictQuantity :: "(formula, 'q) gomap"

record 'q ActionResult =
  UnscheduleMap :: "(string, bool) gomap"
  EvictPods :: "(string \<times> string) list"
  AdjustResources :: "(string, 'q ActionResource) gomap"
  SyncEvent :: bool
  Messages :: "string list"

definition emptyResult :: "'q ActionResult" where
  "emptyResult = \<lparr>UnscheduleMap = [], EvictPods = [], AdjustResources = [], SyncEvent = False, Messages = []\<rparr>"

section \<open>Operations on resources and results\<close>

definition MergeByLittle :: "'q qops \<Rightarrow> 'q ActionResource \<Rightarrow> 'q ActionResource \<Rightarrow> 'q ActionResource" where
  "MergeByLittle Q a b =
     \<lparr>ar_Name = ar_Name a, ar_Conflicting = (ar_Conflicting a \<or> ar_Conflicting b),
      ar_ConflictQuantity = fold (\<lambda>k c.
        (case (map_of (ar_ConflictQuantity a) k, map_of (ar_ConflictQuantity b) k) of
           (Some v1, Some v2) \<Rightarrow> AList.update k (if q_cmp Q v1 v2 < 0 then v1 else v2) c
         | (Some v1, None) \<Rightarrow> AList.update k v1 c
         | (None, Some v2) \<Rightarrow> AList.update k v2 c
         | (None, None) \<Rightarrow> c)) allActionFormula []\<rparr>"

definition ActionResource_DeepCopy :: "'q ActionResource \<Rightarrow> 'q ActionResource" where
  "ActionResource_DeepCopy a =
     \<lparr>ar_Name = ar_Name a, ar_Conflicting = ar_Conflicting a,
      ar_ConflictQuantity = gmap_put_all [] (ar_ConflictQuantity a)\<rparr>"

definition IsNegative :: "'q qops \<Rightarrow> 'q ActionResource \<Rightarrow> bool" where
  "IsNegative Q a \<longleftrightarrow>
     ar_Conflicting a \<or> list_ex (\<lambda>(k, q). q_cmp Q q (zeroQ Q) < 0) (ar_ConflictQuantity a)"

definition ActionResource_Equal :: "'q qops \<Rightarrow> 'q ActionResource \<Rightarrow> 'q ActionResource \<Rightarrow> bool" where
  "ActionResource_Equal Q a b \<longleftrightarrow>
     \<not> (ar_Name a \<noteq> [] \<and> ar_Name b \<noteq> [] \<and> ar_Name a \<noteq> ar_Name b) \<and>
     ar_Conflicting a = ar_Conflicting b \<and>
     length (ar_ConflictQuantity a) = length (ar_ConflictQuantity b) \<and>
     list_all (\<lambda>(k, v). case map_of (ar_ConflictQuantity b) k of
         None \<Rightarrow> False | Some vv \<Rightarrow> q_cmp Q v vv = 0) (ar_ConflictQuantity a)"

text \<open>Appending the elements of a slice whose key has not been seen yet.\<close>

definition append_new :: "('a \<Rightarrow> 'k) \<Rightarrow> 'a list \<Rightarrow> 'a list \<Rightarrow> 'a list" where
  "append_new key xs ys =
     snd (fold (\<lambda>y (seen, out). if key y \<in> set seen then (seen, out) else (key y # seen, out @ [y]))
            ys (map key xs, xs))"

definition merge_unschedule :: "(string, bool) gomap \<Rightarrow> (string, bool) gomap \<Rightarrow> (string, bool) gomap" where
  "merge_unschedule m other =
     fold (\<lambda>(k, v) m. if v then AList.update k True m
                      else if map_of m k = None then AList.update k v m else m) other m"

definition merge_adjust :: "'q qops \<Rightarrow> (string, 'q ActionResource) gomap \<Rightarrow>
    (string, 'q ActionResource) gomap \<Rightarrow> (string, 'q ActionResource) gomap" where
  "merge_adjust Q m other =
     fold (\<lambda>(k, v) m. case map_of m k of
         None \<Rightarrow> AList.update k v m
       | Some v2 \<Rightarrow> AList.update k (MergeByLittle Q v2 v) m) other m"

definition pod_key :: "string \<times> string \<Rightarrow> string" where
  "pod_key p = fst p @ ''/'' @ snd p"

definition ActionResult_Merge :: "'q qops \<Rightarrow> 'q ActionResult \<Rightarrow> 'q ActionResult \<Rightarrow> 'q ActionResult" where
  "ActionResult_Merge Q ar other =
     \<lparr>UnscheduleMap = merge_unschedule (UnscheduleMap ar) (UnscheduleMap other),
      EvictPods = append_new pod_key (EvictPods ar) (EvictPods other),
      AdjustResources = merge_adjust Q (AdjustResources ar) (AdjustResources other),
      SyncEvent = (SyncEvent ar \<or> SyncEvent other),
      Messages = append_new id (Messages ar) (Messages other)\<rparr>"

section \<open>Actions\<close>

record adjustActionResourceArg =
  arg_Resource :: string
  arg_Step :: string
  arg_StepPercent :: "float64 option"

record adjustActionArgs =
  args_Op :: string
  args_Resources :: "adjustActionResourceArg list"

text \<open>
  The self-defined handler of a resource reads the state of the node, the argument \<open>'w\<close>; it
  panics (\<open>None\<close>) or returns a resource that may be nil.
\<close>

record ('q, 'w) adjustResource =
  adj_resource :: string
  adj_step :: 'q
  adj_negativeStep :: 'q
  adj_stepPercent :: "float64 option"
  adj_ratio :: float64
  adj_handler :: "('w \<Rightarrow> bool \<Rightarrow> 'q ActionResource option option) option"

record ('q, 'w) AdjustResourceAction =
  act_resource :: string
  act_adjIndex :: nat
  act_op :: string
  act_adjResKind :: nat
  act_adjustResources :: "('q, 'w) adjustResource list"

datatype ('q, 'w) action =
  LogAction
| ScheduleAction string
| AdjustAction "('q, 'w) AdjustResourceAction"
| EvictAction

datatype ActionType = Adjust | Schedule | Evict | Log

fun actionType :: "('q, 'w) action \<Rightarrow> ActionType" where
  "actionType LogAction = Log"
| "actionType (ScheduleAction n) = Schedule"
| "actionType (AdjustAction a) = Adjust"
| "actionType EvictAction = Evict"

text \<open>
  The arguments are those \<^verbatim>\<open>json.Unmarshal\<close> yields, \<open>None\<close> when it fails; \<open>None\<close> as a result is
  \<^verbatim>\<open>klog.Fatalf\<close> or the panic of \<^verbatim>\<open>MustParse\<close>.
\<close>

definition newAdjustResource ::
  "'q qops \<Rightarrow> string \<Rightarrow> adjustActionResourceArg \<Rightarrow> ('q, 'w) adjustResource option" where
  "newAdjustResource Q resourceName adjRes =
     (if arg_Step adjRes \<noteq> [] \<and> arg_StepPercent adjRes \<noteq> None then None
      else let st = (if arg_Step adjRes = [] then ''0'' else arg_Step adjRes);
               name = (if arg_Resource adjRes = [] then resourceName else arg_Resource adjRes)
           in do {
             q \<leftarrow> q_parse Q st;
             nq \<leftarrow> q_parse Q (''-'' @ st);
             Some \<lparr>adj_resource = name, adj_step = q, adj_negativeStep = nq,
               adj_stepPercent = arg_StepPercent adjRes, adj_ratio = 1, adj_handler = None\<rparr>
           })"

definition NewAdjustResourceAction ::
  "'q qops \<Rightarrow> string \<Rightarrow> adjustActionArgs option \<Rightarrow> ('q, 'w) action option" where
  "NewAdjustResourceAction Q resourceName args = do {
     argsData \<leftarrow> args;
     ress \<leftarrow> those (map (newAdjustResource Q resourceName) (args_Resources argsData));
     Some (AdjustAction \<lparr>act_resource = resourceName, act_adjIndex = 0,
       act_op = (if args_Op argsData = [] then ''and'' else args_Op argsData),
       act_adjResKind = length ress, act_adjustResources = ress\<rparr>)
   }"

definition float64Round :: "float64 \<Rightarrow> float64" where
  "float64Round v = fl (go_round (fl (v * 100)) / 100)"

text \<open>The new ratio of a percentage step, and the (negative) share it stands for in thousandths.\<close>

definition adj_next_ratio :: "bool \<Rightarrow> float64 \<Rightarrow> float64 \<Rightarrow> float64" where
  "adj_next_ratio conflicting p ratio =
     (if conflicting then float64Round (fl (ratio * fl (1 - p)))
      else let r = float64Round (fl (ratio / fl (1 - p))) in if r > 1 then 1 else r)"

definition ratio_milli :: "float64 \<Rightarrow> int" where
  "ratio_milli ratio = go_trunc (fl (- float64Round (fl (1 - ratio)) * 1000))"

definition generateActionResource ::
  "'q qops \<Rightarrow> 'w \<Rightarrow> bool \<Rightarrow> ('q, 'w) adjustResource \<Rightarrow> ('q ActionResource \<times> ('q, 'w) adjustResource) option" where
  "generateActionResource Q w conflicting adjRes = do {
     self \<leftarrow> (case adj_handler adjRes of None \<Rightarrow> Some None | Some h \<Rightarrow> h w conflicting);
     Some (case self of
        Some selfResource \<Rightarrow> (selfResource, adjRes)
      | None \<Rightarrow>
          (let aRes = \<lparr>ar_Name = adj_resource adjRes, ar_Conflicting = conflicting, ar_ConflictQuantity = []\<rparr>
           in if \<not> q_is_zero Q (adj_step adjRes)
              then (aRes\<lparr>ar_ConflictQuantity :=
                      [(FormulaStep, if conflicting then adj_negativeStep adjRes else adj_step adjRes)]\<rparr>, adjRes)
              else (case adj_stepPercent adjRes of
                      None \<Rightarrow> (aRes, adjRes)
                    | Some p \<Rightarrow>
                        (let ratio = adj_next_ratio conflicting p (adj_ratio adjRes)
                         in (aRes\<lparr>ar_ConflictQuantity := [(FormulaPercent, q_new_milli Q (ratio_milli ratio))]\<rparr>,
                             adjRes\<lparr>adj_ratio := ratio\<rparr>)))))
   }"

text \<open>All resources, in order: the result map and the updated resources.\<close>

fun adjust_all ::
  "'q qops \<Rightarrow> 'w \<Rightarrow> bool \<Rightarrow> string \<Rightarrow> ('q, 'w) adjustResource list \<Rightarrow> (string, 'q ActionResource) gomap
    \<Rightarrow> ((string, 'q ActionResource) gomap \<times> ('q, 'w) adjustResource list) option" where
  "adjust_all Q w c resource [] m = Some (m, [])"
| "adjust_all Q w c resource (r # rs) m = do {
     (aRes, r') \<leftarrow> generateActionResource Q w c r;
     (m', rs') \<leftarrow> adjust_all Q w c resource rs (AList.update (resource @ ''_'' @ adj_resource r) aRes m);
     Some (m', r' # rs')
   }"

definition Adjust_DoAction ::
  "'q qops \<Rightarrow> 'w \<Rightarrow> bool \<Rightarrow> string \<Rightarrow> ('q, 'w) AdjustResourceAction
    \<Rightarrow> (('q, 'w) AdjustResourceAction \<times> 'q ActionResult) option" where
  "Adjust_DoAction Q w conflicting data a =
     (let ac = emptyResult\<lparr>Messages := [data]\<rparr>; rs = act_adjustResources a in
      if act_adjResKind a = 0 then Some (a, ac)
      else if act_adjResKind a = 1
      then (case rs of
              [] \<Rightarrow> None
            | r # rest \<Rightarrow> do {
                (aRes, r') \<leftarrow> generateActionResource Q w conflicting r;
                Some (a\<lparr>act_adjustResources := r' # rest\<rparr>, ac\<lparr>AdjustResources := [(act_resource a, aRes)]\<rparr>)
              })
      else if act_op a = ''loop''
      then (let index = act_adjIndex a in
            if length rs = 0 then None
            else let a = a\<lparr>act_adjIndex := (index + 1) mod length rs\<rparr> in
                 if index < length rs
                 then do {
                   (aRes, r') \<leftarrow> generateActionResource Q w conflicting (rs ! index);
                   Some (a\<lparr>act_adjustResources := rs[index := r']\<rparr>,
                         ac\<lparr>AdjustResources := [(act_resource a @ ''_'' @ adj_resource (rs ! index), aRes)]\<rparr>)
                 }
                 else None)
      else do {
        (m, rs') \<leftarrow> adjust_all Q w conflicting (act_resource a) rs [];
        Some (a\<lparr>act_adjustResources := rs'\<rparr>, ac\<lparr>AdjustResources := m\<rparr>)
      })"

definition InitSelfHandler ::
  "string \<Rightarrow> ('w \<Rightarrow> bool \<Rightarrow> 'q ActionResource option option) \<Rightarrow> ('q, 'w) AdjustResourceAction
    \<Rightarrow> ('q, 'w) AdjustResourceAction" where
  "InitSelfHandler resource handler a =
     (case List.extract (\<lambda>r. adj_resource r = resource) (act_adjustResources a) of
        None \<Rightarrow> a
      | Some (pre, r, post) \<Rightarrow> a\<lparr>act_adjustResources := pre @ r\<lparr>adj_handler := Some handler\<rparr> # post\<rparr>)"

text \<open>
  \<^verbatim>\<open>DoAction\<close> of the interface: the updated action, the result (\<^verbatim>\<open>nil\<close> is \<open>None\<close>) and the alarms
  it sends. The argument \<open>data\<close> is an interface value: \<open>None\<close> for \<^verbatim>\<open>nil\<close>, on which the type
  assertion \<^verbatim>\<open>data.(string)\<close> panics. No action returns an error.
\<close>

definition evict_DoAction :: "bool \<Rightarrow> string option \<Rightarrow> ('q ActionResult option \<times> string list) option" where
  "evict_DoAction conflicting data = Some (None, [])"

definition log_DoAction :: "bool \<Rightarrow> string option \<Rightarrow> ('q ActionResult option \<times> string list) option" where
  "log_DoAction conflicting data =
     (if conflicting then (case data of None \<Rightarrow> None | Some msg \<Rightarrow> Some (None, [msg])) else Some (None, []))"

definition schedule_DoAction ::
  "string \<Rightarrow> bool \<Rightarrow> string option \<Rightarrow> ('q ActionResult option \<times> string list) option" where
  "schedule_DoAction name conflicting data =
     (case data of None \<Rightarrow> None
      | Some msg \<Rightarrow> Some (Some (emptyResult\<lparr>UnscheduleMap := [(name, conflicting)], Messages := [msg]\<rparr>), []))"

fun DoAction ::
  "'q qops \<Rightarrow> 'w \<Rightarrow> bool \<Rightarrow> string option \<Rightarrow> ('q, 'w) action
    \<Rightarrow> (('q, 'w) action \<times> 'q ActionResult option \<times> string list) option" where
  "DoAction Q w conflicting data EvictAction = map_option (Pair EvictAction) (evict_DoAction conflicting data)"
| "DoAction Q w conflicting data LogAction = map_option (Pair LogAction) (log_DoAction conflicting data)"
| "DoAction Q w conflicting data (ScheduleAction n) =
     map_option (Pair (ScheduleAction n)) (schedule_DoAction n conflicting data)"
| "DoAction Q w conflicting data (AdjustAction a) =
     (case data of None \<Rightarrow> None
      | Some msg \<Rightarrow> map_option (\<lambda>(a', r). (AdjustAction a', Some r, [])) (Adjust_DoAction Q w conflicting msg a))"

section \<open>Lookups\<close>

lemma map_of_MergeByLittle:
  "map_of (ar_ConflictQuantity (MergeByLittle Q a b)) k =
     (case (map_of (ar_ConflictQuantity a) k, map_of (ar_ConflictQuantity b) k) of
        (Some v1, Some v2) \<Rightarrow> Some (if q_cmp Q v1 v2 < 0 then v1 else v2)
      | (Some v1, None) \<Rightarrow> Some v1
      | (None, r) \<Rightarrow> r)"
  by (cases k) (simp_all add: MergeByLittle_def allActionFormula_def split: option.splits)

lemma MergeByLittle_fields [simp]:
  "ar_Name (MergeByLittle Q a b) = ar_Name a"
  "ar_Conflicting (MergeByLittle Q a b) = (ar_Conflicting a \<or> ar_Conflicting b)"
  by (simp_all add: MergeByLittle_def)

lemma wf_MergeByLittle [simp, wf_intros]: "wf_map (ar_ConflictQuantity (MergeByLittle Q a b))"
  by (auto simp: MergeByLittle_def allActionFormula_def split: option.splits)

lemma DeepCopy_id: "map_of (ar_ConflictQuantity (ActionResource_DeepCopy a)) = map_of (ar_ConflictQuantity a)"
  if "wf_map (ar_ConflictQuantity a)"
  using that by (simp add: ActionResource_DeepCopy_def map_of_put_all)

lemma wf_DeepCopy [simp, wf_intros]: "wf_map (ar_ConflictQuantity (ActionResource_DeepCopy a))"
  by (simp add: ActionResource_DeepCopy_def wf_map_put_all)

lemma DeepCopy_fields [simp]:
  "ar_Name (ActionResource_DeepCopy a) = ar_Name a"
  "ar_Conflicting (ActionResource_DeepCopy a) = ar_Conflicting a"
  by (simp_all add: ActionResource_DeepCopy_def)

lemma map_of_merge_unschedule:
  assumes "wf_map other"
  shows "map_of (merge_unschedule m other) k =
     (case map_of other k of
        None \<Rightarrow> map_of m k
      | Some v \<Rightarrow> Some (v \<or> map_of m k = Some True))"
  using assms
proof (induction other arbitrary: m)
  case Nil
  then show ?case by (simp add: merge_unschedule_def)
next
  case (Cons p other)
  obtain k' v where p: "p = (k', v)" by (cases p)
  let ?m = "if v then AList.update k' True m else if map_of m k' = None then AList.update k' v m else m"
  have step: "merge_unschedule m (p # other) = merge_unschedule ?m other"
    by (simp add: merge_unschedule_def p)
  have nk: "map_of other k' = None" using Cons.prems p by (simp add: map_of_eq_None_iff)
  have "map_of (merge_unschedule ?m other) k =
     (case map_of other k of None \<Rightarrow> map_of ?m k | Some v \<Rightarrow> Some (v \<or> map_of ?m k = Some True))"
    using Cons by simp
  then show ?case using nk unfolding step by (auto simp: p split: option.split)
qed

lemma wf_merge_unschedule [simp, wf_intros]: "wf_map m \<Longrightarrow> wf_map (merge_unschedule m other)"
  unfolding merge_unschedule_def
  by (rule fold_invariant [where Q = "\<lambda>_. True"]) (simp_all split: prod.split)

lemma map_of_merge_adjust:
  assumes "wf_map other"
  shows "map_of (merge_adjust Q m other) k =
     (case (map_of m k, map_of other k) of
        (Some a, Some b) \<Rightarrow> Some (MergeByLittle Q a b)
      | (Some a, None) \<Rightarrow> Some a
      | (None, r) \<Rightarrow> r)"
  using assms
proof (induction other arbitrary: m)
  case Nil
  then show ?case by (simp add: merge_adjust_def split: option.split)
next
  case (Cons p other)
  obtain k' v where p: "p = (k', v)" by (cases p)
  let ?m = "case map_of m k' of None \<Rightarrow> AList.update k' v m
       | Some v2 \<Rightarrow> AList.update k' (MergeByLittle Q v2 v) m"
  have step: "merge_adjust Q m (p # other) = merge_adjust Q ?m other"
    by (simp add: merge_adjust_def p)
  have nk: "map_of other k' = None" using Cons.prems p by (simp add: map_of_eq_None_iff)
  have "map_of (merge_adjust Q ?m other) k =
     (case (map_of ?m k, map_of other k) of
        (Some a, Some b) \<Rightarrow> Some (MergeByLittle Q a b) | (Some a, None) \<Rightarrow> Some a | (None, r) \<Rightarrow> r)"
    using Cons by simp
  then show ?case using nk unfolding step by (simp add: p split: option.split)
qed

lemma wf_merge_adjust [simp, wf_intros]: "wf_map m \<Longrightarrow> wf_map (merge_adjust Q m other)"
  unfolding merge_adjust_def
  by (rule fold_invariant [where Q = "\<lambda>_. True"]) (simp_all split: prod.split option.split)

end
