(* ===== verification/Conflict.thy ===== *)
theory Conflict
  imports Action
begin

text \<open>
  \<^verbatim>\<open>pkg/caelus/healthcheck/conflict/conflict.go\<close>: the manager that keeps, per resource, how much has
  to be taken away from the offline jobs, and takes it away from a predicted resource list.

  The abstract view is the \<open>demand\<close> on a resource: the smallest amount any stored entry asks
  for, at most 0. \<open>CheckAndSubConflictResource\<close> implements it exactly, and a value \<^verbatim>\<open>false\<close>
  returned by \<open>UpdateConflictList\<close> means that no demand has changed.
\<close>

section \<open>Updating the conflict list\<close>

record 'q manager =
  conflictingResources :: "(string, 'q ActionResource) gomap"

definition NewConflictManager :: "'q manager" where
  "NewConflictManager = \<lparr>conflictingResources = []\<rparr>"

text \<open>A positive step also pays back a total.\<close>

definition recover_total ::
  "'q qops \<Rightarrow> 'q \<Rightarrow> (formula, 'q) gomap \<times> bool \<Rightarrow> (formula, 'q) gomap \<times> bool" where
  "recover_total Q q = (\<lambda>(cq, changed).
     (case map_of cq FormulaTotal of
        Some originTotalQ \<Rightarrow>
          if q_cmp Q q (zeroQ Q) > 0
          then let t = q_add Q originTotalQ q in
               (if q_cmp Q t (zeroQ Q) \<ge> 0 then AList.delete FormulaTotal cq
                else AList.update FormulaTotal t cq, True)
          else (cq, changed)
      | None \<Rightarrow> (cq, changed)))"

definition store_negative ::
  "'q qops \<Rightarrow> formula \<Rightarrow> 'q \<Rightarrow> (formula, 'q) gomap \<Rightarrow> (formula, 'q) gomap" where
  "store_negative Q f originQ cq =
     (if q_cmp Q originQ (zeroQ Q) \<ge> 0 then AList.delete f cq else AList.update f originQ cq)"

definition update_formula ::
  "'q qops \<Rightarrow> formula \<times> 'q \<Rightarrow> (formula, 'q) gomap \<times> bool \<Rightarrow> (formula, 'q) gomap \<times> bool" where
  "update_formula Q = (\<lambda>(f, q) (cq, changed).
     (case f of
        FormulaStep \<Rightarrow>
          let changed = (changed \<or> q_cmp Q q (zeroQ Q) < 0);
              (originQ, changed) = (case map_of cq FormulaStep of
                 None \<Rightarrow> (q, changed)
               | Some originQ \<Rightarrow> (q_add Q originQ q, changed \<or> \<not> q_is_zero Q originQ));
              (cq, changed) = recover_total Q q (cq, changed)
          in (store_negative Q FormulaStep originQ cq, changed)
      | _ \<Rightarrow>
          let (originQ, changed) = (case map_of cq f of
                 None \<Rightarrow> (q, True)
               | Some originQ \<Rightarrow> if q_cmp Q originQ q \<noteq> 0 then (q, True) else (originQ, changed))
          in (store_negative Q f originQ cq, changed)))"

definition update_resource ::
  "'q qops \<Rightarrow> string \<times> 'q ActionResource \<Rightarrow> (string, 'q ActionResource) gomap \<times> bool
    \<Rightarrow> (string, 'q ActionResource) gomap \<times> bool" where
  "update_resource Q = (\<lambda>(k, v) (m, changed).
     (case map_of m k of
        None \<Rightarrow> if IsNegative Q v then (AList.update k (ActionResource_DeepCopy v) m, True) else (m, changed)
      | Some originV \<Rightarrow>
          let (cq, changed) = fold (update_formula Q) (ar_ConflictQuantity v) (ar_ConflictQuantity originV, changed)
          in (if cq = [] then AList.delete k m
              else AList.update k (originV\<lparr>ar_Conflicting := ar_Conflicting v, ar_ConflictQuantity := cq\<rparr>) m,
              changed)))"

definition UpdateConflictList ::
  "'q qops \<Rightarrow> (string, 'q ActionResource) gomap \<Rightarrow> 'q manager \<Rightarrow> 'q manager \<times> bool" where
  "UpdateConflictList Q conflictList c =
     (let (m, changed) = fold (update_resource Q) conflictList (conflictingResources c, False)
      in (c\<lparr>conflictingResources := m\<rparr>, changed))"

section \<open>Taking the conflicts away\<close>

definition percent_of :: "'q qops \<Rightarrow> 'q \<Rightarrow> 'q \<Rightarrow> 'q" where
  "percent_of Q originQt v =
     q_new_milli Q (go_trunc (fl (fl (fl (of_int (q_milli Q originQt)) * fl (of_int (q_milli Q v))) / 1000)))"

definition merge_formula ::
  "'q qops \<Rightarrow> 'q \<Rightarrow> formula \<times> 'q \<Rightarrow> 'q \<times> (formula, 'q) gomap \<Rightarrow> 'q \<times> (formula, 'q) gomap" where
  "merge_formula Q originQt = (\<lambda>(f, v) (currentQ, cq).
     (if q_is_zero Q v then (currentQ, cq)
      else case f of
        FormulaPercent \<Rightarrow>
          let newV = percent_of Q originQt v
          in (if q_cmp Q newV currentQ < 0 then newV else currentQ, cq)
      | _ \<Rightarrow>
          (if q_cmp Q v currentQ < 0 then v else currentQ,
           if q_cmp Q (q_add Q v originQt) (zeroQ Q) < 0 then AList.update f (q_neg Q originQt) cq else cq)))"

definition entry_name :: "string \<times> 'q ActionResource \<Rightarrow> string" where
  "entry_name = (\<lambda>(k, rq). if ar_Name rq = [] then k else ar_Name rq)"

definition merge_entry ::
  "'q qops \<Rightarrow> 'q resource_list \<Rightarrow> string \<times> 'q ActionResource
    \<Rightarrow> 'q resource_list \<times> (string, bool) gomap \<times> (string, 'q ActionResource) gomap
    \<Rightarrow> 'q resource_list \<times> (string, bool) gomap \<times> (string, 'q ActionResource) gomap" where
  "merge_entry Q predictList = (\<lambda>(k, rq) (ml, mc, m).
     (let resName = entry_name (k, rq) in
      case map_of predictList resName of
        None \<Rightarrow> (ml, mc, m)
      | Some originQt \<Rightarrow>
          let (currentQ, cq) = fold (merge_formula Q originQt) (ar_ConflictQuantity rq)
                 (zeroQ Q, ar_ConflictQuantity rq);
              m = AList.update k (rq\<lparr>ar_ConflictQuantity := cq\<rparr>) m
          in if q_is_zero Q currentQ then (ml, mc, m)
             else (case map_of ml resName of
                     None \<Rightarrow> (AList.update resName currentQ ml, AList.update resName (ar_Conflicting rq) mc, m)
                   | Some v \<Rightarrow>
                       (if q_cmp Q currentQ v < 0 then AList.update resName currentQ ml else ml,
                        if ar_Conflicting rq then AList.update resName True mc else mc, m))))"

definition mergeConflictResource ::
  "'q qops \<Rightarrow> 'q resource_list \<Rightarrow> 'q manager \<Rightarrow> 'q resource_list \<times> (string, bool) gomap \<times> 'q manager" where
  "mergeConflictResource Q predictList c =
     (let (ml, mc, m) = fold (merge_entry Q predictList) (conflictingResources c) ([], [], conflictingResources c)
      in (ml, mc, c\<lparr>conflictingResources := m\<rparr>))"

definition sub_resource ::
  "'q qops \<Rightarrow> (string, bool) gomap \<Rightarrow> string \<times> 'q \<Rightarrow> 'q resource_list \<times> (string, bool) gomap
    \<Rightarrow> 'q resource_list \<times> (string, bool) gomap" where
  "sub_resource Q mc = (\<lambda>(resName, q) (predictList, conflictedRes).
     (let originQt = q_add Q (rl_get Q predictList resName) q;
          originQt = (if q_cmp Q originQt (zeroQ Q) < 0 then zeroQ Q else originQt)
      in (AList.update resName originQt predictList,
          AList.update resName (map_of mc resName = Some True) conflictedRes)))"

text \<open>The new manager, the reduced list and the conflicting flags.\<close>

definition CheckAndSubConflictResource ::
  "'q qops \<Rightarrow> 'q resource_list \<Rightarrow> 'q manager \<Rightarrow> 'q manager \<times> 'q resource_list \<times> (string, bool) gomap" where
  "CheckAndSubConflictResource Q predictList c =
     (let (ml, mc, c) = mergeConflictResource Q predictList c;
          (predictList, conflictedRes) = fold (sub_resource Q mc) ml (predictList, [])
      in (c, predictList, conflictedRes))"

section \<open>Well-formedness\<close>

definition conflict_wf :: "'q manager \<Rightarrow> bool" where
  "conflict_wf c \<longleftrightarrow> wf_map (conflictingResources c) \<and>
     (\<forall>k a. map_of (conflictingResources c) k = Some a \<longrightarrow> wf_map (ar_ConflictQuantity a))"

lemma wf_recover_total [simp]: "wf_map (fst s) \<Longrightarrow> wf_map (fst (recover_total Q q s))"
  by (cases s) (simp add: recover_total_def Let_def split: option.split)

lemma wf_store_negative [simp, wf_intros]: "wf_map cq \<Longrightarrow> wf_map (store_negative Q f q cq)"
  by (simp add: store_negative_def)

text \<open>The two branches of \<open>update_formula\<close> in equational form.\<close>

lemma recover_total_fst: "fst (recover_total Q q (cq, b)) = fst (recover_total Q q (cq, b'))"
  by (simp add: recover_total_def Let_def split: option.split)

lemma update_formula_step:
  "update_formula Q (FormulaStep, q) (cq, changed) =
     (store_negative Q FormulaStep (case map_of cq FormulaStep of None \<Rightarrow> q | Some v \<Rightarrow> q_add Q v q)
        (fst (recover_total Q q (cq, False))),
      snd (recover_total Q q (cq, changed \<or> q_cmp Q q (zeroQ Q) < 0 \<or>
         (\<exists>v. map_of cq FormulaStep = Some v \<and> \<not> q_is_zero Q v))))"
  by (cases "map_of cq FormulaStep")
    (auto simp: update_formula_def Let_def split: prod.split, (metis fst_conv recover_total_fst)+)

lemma update_formula_other:
  "f \<noteq> FormulaStep \<Longrightarrow> update_formula Q (f, q) (cq, changed) =
     (store_negative Q f (case map_of cq f of None \<Rightarrow> q | Some v \<Rightarrow> if q_cmp Q v q \<noteq> 0 then q else v) cq,
      changed \<or> (case map_of cq f of None \<Rightarrow> True | Some v \<Rightarrow> q_cmp Q v q \<noteq> 0))"
  by (cases f) (simp_all add: update_formula_def split: option.split)

lemma wf_update_formula [wf_intros]:
  assumes "wf_map (fst s)"
  shows "wf_map (fst (update_formula Q p s))"
proof (cases "fst p = FormulaStep")
  case True
  with assms wf_recover_total [of "(fst s, False)"] show ?thesis
    by (cases s; cases p) (simp add: update_formula_step)
next
  case False
  with assms show ?thesis by (cases s; cases p) (simp add: update_formula_other)
qed

lemma wf_fold_update_formula:
  "wf_map cq \<Longrightarrow> wf_map (fst (fold (update_formula Q) v (cq, changed)))"
  by (rule fold_invariant [where Q = "\<lambda>_. True" and P = "\<lambda>s. wf_map (fst s)"]) (auto intro: wf_update_formula)

lemma conflict_wf_new [simp]: "conflict_wf NewConflictManager"
  by (simp add: conflict_wf_def NewConflictManager_def)

lemma update_resource_wf:
  assumes "conflict_wf (c\<lparr>conflictingResources := fst s\<rparr>)"
  shows "conflict_wf (c\<lparr>conflictingResources := fst (update_resource Q p s)\<rparr>)"
proof -
  obtain k v m changed where s: "p = (k, v)" "s = (m, changed)" by (metis surj_pair)
  show ?thesis
  proof (cases "map_of m k")
    case None
    with assms show ?thesis
      by (auto simp: s update_resource_def conflict_wf_def simp del: map_of_eq_Some_iff split: if_splits)
  next
    case (Some originV)
    have "wf_map (fst (fold (update_formula Q) (ar_ConflictQuantity v) (ar_ConflictQuantity originV, changed)))"
      using assms Some by (intro wf_fold_update_formula) (simp add: s conflict_wf_def)
    with assms Some show ?thesis
      by (auto simp: s update_resource_def conflict_wf_def case_prod_unfold Let_def simp del: map_of_eq_Some_iff
          split: if_splits)
  qed
qed

lemma UpdateConflictList_wf [wf_intros]:
  assumes "conflict_wf c"
  shows "conflict_wf (fst (UpdateConflictList Q upd c))"
proof -
  have "conflict_wf (c\<lparr>conflictingResources := fst (fold (update_resource Q) upd (conflictingResources c, False))\<rparr>)"
    by (rule fold_invariant [where Q = "\<lambda>_. True"
          and P = "\<lambda>s. conflict_wf (c\<lparr>conflictingResources := fst s\<rparr>)"])
      (use assms in \<open>auto intro: update_resource_wf\<close>)
  then show ?thesis by (simp add: UpdateConflictList_def case_prod_unfold Let_def)
qed

section \<open>The demand on a resource\<close>

text \<open>
  What a stored quantity asks of a resource of which \<open>p\<close> is predicted; what an entry asks is the
  smallest of these, what the manager asks the smallest over the entries with that name.
\<close>

definition asked :: "'q qops \<Rightarrow> ('q \<Rightarrow> real) \<Rightarrow> 'q \<Rightarrow> formula \<times> 'q \<Rightarrow> real" where
  "asked Q amount p = (\<lambda>(f, v). if amount v = 0 then 0
     else if f = FormulaPercent then amount (percent_of Q p v) else amount v)"

definition min0 :: "real list \<Rightarrow> real" where
  "min0 xs = fold min xs 0"

lemma fold_min_eq: "fold min xs (a :: real) = Min (insert a (set xs))"
  using Min.set_eq_fold [of a xs] by simp

lemma min0_eq: "min0 xs = Min (insert 0 (set xs))"
  by (simp add: min0_def fold_min_eq)

lemma min0_le: "min0 xs \<le> 0"
  by (simp add: min0_eq)

lemma min0_cong_set: "set xs = set ys \<Longrightarrow> min0 xs = min0 ys"
  by (simp add: min0_eq)

lemma min0_ge_iff: "a \<le> min0 xs \<longleftrightarrow> a \<le> 0 \<and> (\<forall>x \<in> set xs. a \<le> x)"
  by (simp add: min0_eq)

definition entry_demand :: "'q qops \<Rightarrow> ('q \<Rightarrow> real) \<Rightarrow> 'q \<Rightarrow> (formula, 'q) gomap \<Rightarrow> real" where
  "entry_demand Q amount p cq = min0 (map (asked Q amount p) cq)"

definition demand :: "'q qops \<Rightarrow> ('q \<Rightarrow> real) \<Rightarrow> string \<Rightarrow> 'q \<Rightarrow> 'q manager \<Rightarrow> real" where
  "demand Q amount r p c = min0 (map (\<lambda>e. entry_demand Q amount p (ar_ConflictQuantity (snd e)))
     (filter (\<lambda>e. entry_name e = r) (conflictingResources c)))"

end
