(* ===== verification/ConflictProps.thy ===== *)
theory ConflictProps
  imports Conflict
begin

text \<open>
  What the conflict manager guarantees: the reduced list is the prediction lowered by the demand
  and never negative, stored debts never exceed the prediction, positive steps pay a debt back in
  bounded time, and \<open>UpdateConflictList\<close> reports every change of a demand.
\<close>

section \<open>One entry\<close>

context quantity
begin

lemma merge_formula_fold_current:
  assumes "amount cur \<le> 0"
  shows "amount (fst (fold (merge_formula Q p) xs (cur, cq))) =
     fold min (map (asked Q amount p) xs) (amount cur)"
  using assms
proof (induction xs arbitrary: cur cq)
  case Nil
  then show ?case by simp
next
  case (Cons x xs)
  obtain f v where x: "x = (f, v)" by (cases x)
  obtain cur' cq' where m: "merge_formula Q p x (cur, cq) = (cur', cq')" by fastforce
  have "amount cur' = min (asked Q amount p x) (amount cur)"
    using m Cons.prems
    by (cases f) (auto simp: x merge_formula_def asked_def Let_def min_def split: if_splits)
  with Cons show ?case by (simp add: m)
qed

lemma merge_formula_fold_lookup:
  assumes "wf_map xs"
  shows "map_of (snd (fold (merge_formula Q p) xs (cur, cq))) f =
     (case map_of xs f of
        None \<Rightarrow> map_of cq f
      | Some v \<Rightarrow> if f \<noteq> FormulaPercent \<and> amount v \<noteq> 0 \<and> amount v + amount p < 0
                   then Some (q_neg Q p) else map_of cq f)"
  using assms
proof (induction xs arbitrary: cur cq)
  case Nil
  then show ?case by simp
next
  case (Cons x xs)
  obtain g v where x: "x = (g, v)" by (cases x)
  obtain cur' cq' where m: "merge_formula Q p x (cur, cq) = (cur', cq')" by fastforce
  have "map_of xs g = None" using Cons.prems by (simp add: x map_of_eq_None_iff)
  moreover have "map_of cq' f = (if f = g \<and> g \<noteq> FormulaPercent \<and> amount v \<noteq> 0 \<and> amount v + amount p < 0
      then Some (q_neg Q p) else map_of cq f)"
    using m by (cases g) (auto simp: x merge_formula_def Let_def split: if_splits)
  ultimately show ?case using Cons by (auto simp: m [unfolded x] x simp del: map_of_eq_Some_iff split: option.split)
qed

lemma wf_merge_formula_fold: "wf_map cq \<Longrightarrow> wf_map (snd (fold (merge_formula Q p) xs (cur, cq)))"
  by (rule fold_invariant [where Q = "\<lambda>_. True" and P = "\<lambda>s. wf_map (snd s)"])
    (auto simp: merge_formula_def Let_def split: formula.split)

section \<open>All entries\<close>

definition merged_ok :: "'q resource_list \<Rightarrow> bool" where
  "merged_ok ml \<longleftrightarrow> wf_map ml \<and> (\<forall>r v. map_of ml r = Some v \<longrightarrow> amount v < 0)"

lemma merged_ok_le: "merged_ok ml \<Longrightarrow> amount (rl_get Q ml r) \<le> 0"
  by (auto simp: merged_ok_def amount_rl_get less_imp_le split: option.split simp del: map_of_eq_Some_iff)

lemma entry_demand_le: "entry_demand Q amount p cq \<le> 0"
  by (simp add: entry_demand_def min0_le)

text \<open>What one entry contributes to the merged list and the flags, for one resource.\<close>

lemma merge_entry_step:
  assumes "merge_entry Q pl (k, rq) (ml, mc, m) = (ml', mc', m')" and "merged_ok ml"
    and "dom (map_of mc) = dom (map_of ml)"
  shows "merged_ok ml'" "dom (map_of mc') = dom (map_of ml')"
    "map_of pl r = None \<Longrightarrow> map_of ml' r = map_of ml r"
    "map_of pl r = Some p \<Longrightarrow> entry_name (k, rq) \<noteq> r \<Longrightarrow> map_of ml' r = map_of ml r \<and> map_of mc' r = map_of mc r"
    "map_of pl r = Some p \<Longrightarrow> entry_name (k, rq) = r \<Longrightarrow>
       amount (rl_get Q ml' r) = min (entry_demand Q amount p (ar_ConflictQuantity rq)) (amount (rl_get Q ml r)) \<and>
       (map_of mc' r = Some True \<longleftrightarrow> map_of mc r = Some True \<or>
          entry_demand Q amount p (ar_ConflictQuantity rq) < 0 \<and> ar_Conflicting rq)"
proof -
  let ?n = "entry_name (k, rq)"
  let ?d = "\<lambda>p. entry_demand Q amount p (ar_ConflictQuantity rq)"
  have cur: "amount (fst (fold (merge_formula Q p) (ar_ConflictQuantity rq) (zeroQ Q, ar_ConflictQuantity rq))) = ?d p" for p
    using merge_formula_fold_current [of "zeroQ Q" p "ar_ConflictQuantity rq" "ar_ConflictQuantity rq"]
    by (simp add: entry_demand_def min0_def)
  consider (same) "ml' = ml" "mc' = mc" "\<And>p. map_of pl ?n = Some p \<Longrightarrow> ?d p = 0"
    | (new) p cur where "map_of pl ?n = Some p" "amount cur = ?d p" "?d p < 0" "map_of ml ?n = None"
        "ml' = AList.update ?n cur ml" "mc' = AList.update ?n (ar_Conflicting rq) mc"
    | (old) p cur v where "map_of pl ?n = Some p" "amount cur = ?d p" "?d p < 0" "map_of ml ?n = Some v"
        "ml' = (if q_cmp Q cur v < 0 then AList.update ?n cur ml else ml)"
        "mc' = (if ar_Conflicting rq then AList.update ?n True mc else mc)"
  proof (cases "map_of pl ?n")
    case None
    then show ?thesis using assms(1) by (intro same) (simp_all add: merge_entry_def Let_def)
  next
    case (Some p)
    obtain cur' cq where f: "fold (merge_formula Q p) (ar_ConflictQuantity rq) (zeroQ Q, ar_ConflictQuantity rq) = (cur', cq)"
      by fastforce
    have c: "amount cur' = ?d p" using cur [of p] by (simp add: f)
    show ?thesis
    proof (cases "?d p = 0")
      case True
      then show ?thesis using assms(1) Some f c by (intro same) (simp_all add: merge_entry_def Let_def)
    next
      case False
      then have d: "?d p < 0" using entry_demand_le [of p "ar_ConflictQuantity rq"] by simp
      show ?thesis
      proof (cases "map_of ml ?n")
        case None
        then show ?thesis using assms(1) Some f c d by (intro new [of p cur']) (auto simp: merge_entry_def Let_def)
      next
        case (Some v)
        with \<open>map_of pl ?n = Some p\<close> assms(1) f c d show ?thesis
          by (intro old [of p cur' v]) (auto simp: merge_entry_def Let_def)
      qed
    qed
  qed
  note cases = this
  have neg: "amount v < 0" if "map_of ml r = Some v" for r v
    using assms(2) that by (simp add: merged_ok_def del: map_of_eq_Some_iff)
  have wf: "wf_map ml" using assms(2) by (simp add: merged_ok_def)
  show "merged_ok ml'"
    by (rule cases) (use wf neg in \<open>auto simp: merged_ok_def simp del: map_of_eq_Some_iff split: if_splits\<close>)
  show "dom (map_of mc') = dom (map_of ml')"
    by (rule cases) (use assms(3) in \<open>auto simp: update_conv'\<close>)
  show "map_of ml' r = map_of ml r" if "map_of pl r = None"
    by (rule cases) (use that in auto)
  show "map_of ml' r = map_of ml r \<and> map_of mc' r = map_of mc r" if "map_of pl r = Some p" "?n \<noteq> r"
    by (rule cases) (use that in auto)
  assume r: "map_of pl r = Some p" "?n = r"
  have dm: "map_of ml ?n = None \<Longrightarrow> map_of mc ?n = None" using assms(3) by (metis domIff)
  show "amount (rl_get Q ml' r) = min (?d p) (amount (rl_get Q ml r)) \<and>
       (map_of mc' r = Some True \<longleftrightarrow> map_of mc r = Some True \<or> ?d p < 0 \<and> ar_Conflicting rq)"
  proof (rule cases, goal_cases)
    case 1
    then have "?d p = 0" using r by blast
    then show ?case using 1 merged_ok_le [OF assms(2), of r] by (simp add: min.absorb2)
  next
    case (2 p' cur')
    then show ?case using r dm by (simp add: amount_rl_get min.absorb1)
  next
    case (3 p' cur' v)
    then show ?case using r by (simp add: amount_rl_get min_def)
  qed
qed

lemma merge_entries:
  assumes "fold (merge_entry Q pl) es (ml, mc, m) = (ml', mc', m')" and "merged_ok ml"
    and "dom (map_of mc) = dom (map_of ml)"
  shows "merged_ok ml' \<and> (map_of pl r = None \<longrightarrow> map_of ml' r = map_of ml r) \<and>
     (\<forall>p. map_of pl r = Some p \<longrightarrow>
        amount (rl_get Q ml' r) = fold min (map (\<lambda>e. entry_demand Q amount p (ar_ConflictQuantity (snd e)))
           (filter (\<lambda>e. entry_name e = r) es)) (amount (rl_get Q ml r)) \<and>
        (map_of mc' r = Some True \<longleftrightarrow> map_of mc r = Some True \<or>
           (\<exists>e \<in> set es. entry_name e = r \<and> entry_demand Q amount p (ar_ConflictQuantity (snd e)) < 0 \<and>
              ar_Conflicting (snd e))))"
  using assms
proof (induction es arbitrary: ml mc m)
  case Nil
  then show ?case by simp
next
  case (Cons e es)
  obtain k rq where e: "e = (k, rq)" by (cases e)
  obtain ml1 mc1 m1 where s: "merge_entry Q pl (k, rq) (ml, mc, m) = (ml1, mc1, m1)" by (metis surj_pair)
  note st = merge_entry_step [OF s Cons.prems(2,3)]
  have r: "fold (merge_entry Q pl) es (ml1, mc1, m1) = (ml', mc', m')" using Cons.prems(1) s e by simp
  note ih = Cons.IH [OF r st(1,2)]
  show ?case
  proof (cases "map_of pl r")
    case None
    with ih st(3) [of r] show ?thesis by simp
  next
    case (Some p)
    note ih' = ih [unfolded Some, simplified]
    show ?thesis
    proof (cases "entry_name (k, rq) = r")
      case True
      with Some ih' st(5) [of r p] show ?thesis by (auto simp: e)
    next
      case False
      then have "rl_get Q ml1 r = rl_get Q ml r" using st(4) [of r p] Some by (simp add: rl_get_def)
      with False Some ih' st(4) [of r p] show ?thesis by (auto simp: e)
    qed
  qed
qed

lemma sub_resource_fold:
  assumes "wf_map ml" and "fold (sub_resource Q mc) ml (pl, cr) = (pl', cr')"
  shows "map_of pl' r = (case map_of ml r of
        None \<Rightarrow> map_of pl r
      | Some q \<Rightarrow> Some (let v = q_add Q (rl_get Q pl r) q in if amount v < 0 then zeroQ Q else v)) \<and>
    map_of cr' r = (case map_of ml r of None \<Rightarrow> map_of cr r | Some q \<Rightarrow> Some (map_of mc r = Some True))"
  using assms
proof (induction ml arbitrary: pl cr)
  case Nil
  then show ?case by simp
next
  case (Cons x ml)
  obtain k q where x: "x = (k, q)" by (cases x)
  obtain pl1 cr1 where s: "sub_resource Q mc x (pl, cr) = (pl1, cr1)" by fastforce
  have "map_of ml k = None" using Cons.prems(1) by (simp add: x map_of_eq_None_iff)
  moreover have "fold (sub_resource Q mc) ml (pl1, cr1) = (pl', cr')" using Cons.prems(2) s by simp
  moreover have "map_of pl1 = (map_of pl)(k \<mapsto> let v = q_add Q (rl_get Q pl k) q in if amount v < 0 then zeroQ Q else v)"
    "map_of cr1 = (map_of cr)(k \<mapsto> (map_of mc k = Some True))"
    using s by (auto simp: x sub_resource_def Let_def fun_eq_iff)
  ultimately show ?case
    using Cons.IH [of pl1 cr1] Cons.prems(1) by (auto simp: x rl_get_def simp del: map_of_eq_Some_iff split: option.split)
qed

lemma CheckAndSub_spec:
  assumes "CheckAndSubConflictResource Q pl c = (c', pl', cr)"
  shows "map_of pl r = None \<Longrightarrow> map_of pl' r = None \<and> map_of cr r = None"
    and "map_of pl r = Some p \<Longrightarrow> 0 \<le> amount p \<Longrightarrow>
       (\<exists>p'. map_of pl' r = Some p' \<and> amount p' = max 0 (amount p + demand Q amount r p c)) \<and>
       map_of cr r = (if demand Q amount r p c < 0
          then Some (\<exists>e \<in> set (conflictingResources c). entry_name e = r \<and>
             entry_demand Q amount p (ar_ConflictQuantity (snd e)) < 0 \<and> ar_Conflicting (snd e)) else None)"
proof -
  obtain ml mc m where f: "fold (merge_entry Q pl) (conflictingResources c) ([], [], conflictingResources c) = (ml, mc, m)"
    by (metis surj_pair)
  have mo: "merged_ok []" "dom (map_of ([] :: (string, bool) gomap)) = dom (map_of ([] :: 'q resource_list))"
    by (simp_all add: merged_ok_def)
  note all = merge_entries [OF f mo]
  have me: "merged_ok ml" using all by blast
  have mn: "map_of ml r = None" if "map_of pl r = None" using all [of r] that by simp
  have mr: "amount (rl_get Q ml r) = demand Q amount r p c"
    "map_of mc r = Some True \<longleftrightarrow> (\<exists>e \<in> set (conflictingResources c). entry_name e = r \<and>
       entry_demand Q amount p (ar_ConflictQuantity (snd e)) < 0 \<and> ar_Conflicting (snd e))"
    if "map_of pl r = Some p"
    using all [of r] that by (simp_all add: demand_def min0_def rl_get_def)
  have s: "fold (sub_resource Q mc) ml (pl, []) = (pl', cr)"
    using assms by (simp add: CheckAndSubConflictResource_def mergeConflictResource_def f case_prod_unfold Let_def)
  have wf: "wf_map ml" using me by (simp add: merged_ok_def)
  note sr = sub_resource_fold [OF wf s, of r]
  show "map_of pl' r = None \<and> map_of cr r = None" if "map_of pl r = None"
    using mn [OF that] sr that by simp
  assume p: "map_of pl r = Some p" "0 \<le> amount p"
  show "(\<exists>p'. map_of pl' r = Some p' \<and> amount p' = max 0 (amount p + demand Q amount r p c)) \<and>
       map_of cr r = (if demand Q amount r p c < 0
          then Some (\<exists>e \<in> set (conflictingResources c). entry_name e = r \<and>
             entry_demand Q amount p (ar_ConflictQuantity (snd e)) < 0 \<and> ar_Conflicting (snd e)) else None)"
  proof (cases "map_of ml r")
    case None
    with p mr [OF p(1)] sr show ?thesis by (simp add: rl_get_def)
  next
    case (Some v)
    then have "amount v < 0" using me by (auto simp: merged_ok_def simp del: map_of_eq_Some_iff)
    with Some p mr [OF p(1)] sr show ?thesis by (auto simp: rl_get_def Let_def max_def)
  qed
qed

end

text \<open>
  C1. \<open>CheckAndSubConflictResource\<close> takes exactly the demand away: a predicted resource becomes
  the prediction plus the (non-positive) demand, cut off at 0, whatever the order in which the
  entries and formulas are visited; resources without a prediction are not added. A resource is
  reported exactly when there is a demand on it, as conflicting when one of the entries that
  ask for something is in conflicting state.
\<close>

theorem CheckAndSub_takes_demand:
  assumes "quantity Q amount" and "CheckAndSubConflictResource Q pl c = (c', pl', cr)"
    and "\<forall>p. map_of pl r = Some p \<longrightarrow> 0 \<le> amount p"
  shows "case map_of pl r of
      None \<Rightarrow> map_of pl' r = None \<and> map_of cr r = None
    | Some p \<Rightarrow>
        (\<exists>p'. map_of pl' r = Some p' \<and> amount p' = max 0 (amount p + demand Q amount r p c)) \<and>
        map_of cr r = (if demand Q amount r p c < 0
          then Some (\<exists>e \<in> set (conflictingResources c). entry_name e = r \<and>
             entry_demand Q amount p (ar_ConflictQuantity (snd e)) < 0 \<and> ar_Conflicting (snd e)) else None)"
  using quantity.CheckAndSub_spec [OF assms(1,2), of r] assms(3) by (cases "map_of pl r") simp_all

definition sample_conflicts :: "int manager" where
  "sample_conflicts = \<lparr>conflictingResources =
     [(''cpu_load'', \<lparr>ar_Name = ''cpu'', ar_Conflicting = True,
        ar_ConflictQuantity = [(FormulaStep, - 3000000000), (FormulaTotal, - 5000000000)]\<rparr>),
      (''memory'', \<lparr>ar_Name = [], ar_Conflicting = False, ar_ConflictQuantity = [(FormulaTotal, - 9000000000)]\<rparr>)]\<rparr>"

definition sample_predict :: "int resource_list" where
  "sample_predict = [(''cpu'', 8000000000), (''memory'', 4000000000)]"

definition sample_conflicts_after :: "int manager" where
  "sample_conflicts_after = \<lparr>conflictingResources =
     [(''cpu_load'', \<lparr>ar_Name = ''cpu'', ar_Conflicting = True,
        ar_ConflictQuantity = [(FormulaStep, - 3000000000), (FormulaTotal, - 5000000000)]\<rparr>),
      (''memory'', \<lparr>ar_Name = [], ar_Conflicting = False, ar_ConflictQuantity = [(FormulaTotal, - 4000000000)]\<rparr>)]\<rparr>"

lemma sample_CheckAndSub:
  "CheckAndSubConflictResource nanoQ sample_predict sample_conflicts =
     (sample_conflicts_after, [(''cpu'', 3000000000), (''memory'', 0)], [(''cpu'', True), (''memory'', False)])"
  by (simp add: CheckAndSubConflictResource_def mergeConflictResource_def sample_conflicts_def sample_predict_def
      sample_conflicts_after_def merge_entry_def merge_formula_def entry_name_def sub_resource_def rl_get_def
      nano_ops Let_def)

theorem CheckAndSub_takes_demand_witness:
  "\<exists>p'. map_of [(''cpu'', 3000000000), (''memory'', 0)] ''cpu'' = Some p' \<and>
     nano_amount p' = max 0 (nano_amount 8000000000 + demand nanoQ nano_amount ''cpu'' 8000000000 sample_conflicts)"
  using CheckAndSub_takes_demand [OF nano.quantity_axioms sample_CheckAndSub, of "''cpu''"]
  by (simp add: sample_predict_def nano_amount_def)

section \<open>Stored debts\<close>

context quantity
begin

lemma merge_entry_store:
  assumes "merge_entry Q pl (k, rq) (ml, mc, m) = (ml', mc', m')"
  shows "map_of m' k' = (if k' = k
     then (case map_of pl (entry_name (k, rq)) of
        None \<Rightarrow> map_of m k
      | Some p \<Rightarrow> Some (rq\<lparr>ar_ConflictQuantity :=
           snd (fold (merge_formula Q p) (ar_ConflictQuantity rq) (zeroQ Q, ar_ConflictQuantity rq))\<rparr>))
     else map_of m k')"
  using assms by (auto simp: merge_entry_def Let_def case_prod_unfold split: option.splits if_splits)

lemma merge_entries_store:
  assumes "wf_map es" and "fold (merge_entry Q pl) es (ml, mc, m) = (ml', mc', m')"
  shows "map_of m' k = (case map_of es k of
       None \<Rightarrow> map_of m k
     | Some rq \<Rightarrow> (case map_of pl (entry_name (k, rq)) of
        None \<Rightarrow> map_of m k
      | Some p \<Rightarrow> Some (rq\<lparr>ar_ConflictQuantity :=
           snd (fold (merge_formula Q p) (ar_ConflictQuantity rq) (zeroQ Q, ar_ConflictQuantity rq))\<rparr>)))"
  using assms
proof (induction es arbitrary: ml mc m)
  case Nil
  then show ?case by simp
next
  case (Cons e es)
  obtain k' rq where e: "e = (k', rq)" by (cases e)
  obtain ml1 mc1 m1 where s: "merge_entry Q pl (k', rq) (ml, mc, m) = (ml1, mc1, m1)" by (metis surj_pair)
  have "map_of es k' = None" using Cons.prems(1) by (simp add: e map_of_eq_None_iff)
  moreover have "fold (merge_entry Q pl) es (ml1, mc1, m1) = (ml', mc', m')" using Cons.prems(2) s e by simp
  moreover have "wf_map es" using Cons.prems(1) by simp
  ultimately show ?case
    using Cons.IH merge_entry_store [OF s, of k] by (auto simp: e simp del: map_of_eq_Some_iff split: option.split)
qed

lemma CheckAndSub_store:
  assumes "conflict_wf c" and "CheckAndSubConflictResource Q pl c = (c', pl', cr)"
  shows "map_of (conflictingResources c') k = (case map_of (conflictingResources c) k of
       None \<Rightarrow> None
     | Some rq \<Rightarrow> (case map_of pl (entry_name (k, rq)) of
        None \<Rightarrow> Some rq
      | Some p \<Rightarrow> Some (rq\<lparr>ar_ConflictQuantity :=
           snd (fold (merge_formula Q p) (ar_ConflictQuantity rq) (zeroQ Q, ar_ConflictQuantity rq))\<rparr>)))"
proof -
  obtain ml mc m where f: "fold (merge_entry Q pl) (conflictingResources c) ([], [], conflictingResources c) = (ml, mc, m)"
    by (metis surj_pair)
  have "conflictingResources c' = m"
    using assms(2) by (auto simp: CheckAndSubConflictResource_def mergeConflictResource_def f case_prod_unfold Let_def)
  with merge_entries_store [OF _ f, of k] assms(1) show ?thesis
    by (auto simp: conflict_wf_def simp del: map_of_eq_Some_iff split: option.split)
qed

lemma CheckAndSub_clips:
  assumes "conflict_wf c" and "CheckAndSubConflictResource Q pl c = (c', pl', cr)"
    and "map_of (conflictingResources c') k = Some a" and "map_of pl (entry_name (k, a)) = Some p" and "0 \<le> amount p"
    and "f \<noteq> FormulaPercent" and "map_of (ar_ConflictQuantity a) f = Some v"
  shows "- amount p \<le> amount v"
proof -
  obtain rq where rq: "map_of (conflictingResources c) k = Some rq"
    using assms(3) CheckAndSub_store [OF assms(1,2), of k] by (auto split: option.splits)
  have "ar_Name a = ar_Name rq"
    using assms(3) rq CheckAndSub_store [OF assms(1,2), of k] by (auto split: option.splits)
  then have n: "entry_name (k, a) = entry_name (k, rq)" by (simp add: entry_name_def)
  have "ar_ConflictQuantity a =
      snd (fold (merge_formula Q p) (ar_ConflictQuantity rq) (zeroQ Q, ar_ConflictQuantity rq))"
    using assms(3,4) rq CheckAndSub_store [OF assms(1,2), of k] by (auto simp: n split: option.splits)
  moreover have "wf_map (ar_ConflictQuantity rq)" using assms(1) rq unfolding conflict_wf_def by blast
  ultimately show ?thesis
    using assms(5-7) merge_formula_fold_lookup [of "ar_ConflictQuantity rq" p "zeroQ Q" "ar_ConflictQuantity rq" f]
    by (auto simp del: map_of_eq_Some_iff split: option.splits if_splits)
qed

end

text \<open>
  C2. After \<open>CheckAndSubConflictResource\<close> no stored step or total asks for more than the
  prediction it has just been compared with: debts do not pile up beyond what there is.
\<close>

theorem CheckAndSub_clips_debts:
  assumes "quantity Q amount" and "conflict_wf c" and "CheckAndSubConflictResource Q pl c = (c', pl', cr)"
    and "map_of (conflictingResources c') k = Some a" and "map_of pl (entry_name (k, a)) = Some p" and "0 \<le> amount p"
    and "f \<noteq> FormulaPercent" and "map_of (ar_ConflictQuantity a) f = Some v"
  shows "- amount p \<le> amount v"
  using assms by (rule quantity.CheckAndSub_clips)

lemma sample_conflicts_wf: "conflict_wf sample_conflicts"
  by (auto simp: conflict_wf_def sample_conflicts_def)

theorem CheckAndSub_clips_debts_witness: "- nano_amount 4000000000 \<le> nano_amount (- 4000000000)"
  by (rule CheckAndSub_clips_debts [OF nano.quantity_axioms sample_conflicts_wf sample_CheckAndSub,
        where k = "''memory''" and f = FormulaTotal
        and a = "\<lparr>ar_Name = [], ar_Conflicting = False, ar_ConflictQuantity = [(FormulaTotal, - 4000000000)]\<rparr>"])
    (simp_all add: sample_predict_def sample_conflicts_after_def entry_name_def nano_amount_def)

section \<open>Paying back\<close>

text \<open>The update a recovered rule sends: a positive step for one resource.\<close>

definition step_update :: "string \<Rightarrow> string \<Rightarrow> 'q \<Rightarrow> (string, 'q ActionResource) gomap" where
  "step_update k name q = [(k, \<lparr>ar_Name = name, ar_Conflicting = False, ar_ConflictQuantity = [(FormulaStep, q)]\<rparr>)]"

context quantity
begin

lemma positive_step_lookup:
  assumes "0 < amount q"
  shows "map_of (fst (update_formula Q (FormulaStep, q) (cq, changed))) f =
     (if f = FormulaPercent then map_of cq f
      else case map_of cq f of
        None \<Rightarrow> None
      | Some v \<Rightarrow> if amount v + amount q < 0 then Some (q_add Q v q) else None)"
  using assms
  by (cases f) (auto simp: update_formula_step store_negative_def recover_total_def Let_def split: option.split)

definition owes :: "real \<Rightarrow> 'q ActionResource option \<Rightarrow> bool" where
  "owes D e \<longleftrightarrow> (\<forall>a f v. e = Some a \<longrightarrow> map_of (ar_ConflictQuantity a) f = Some v \<longrightarrow>
     f \<noteq> FormulaPercent \<and> - D \<le> amount v)"

lemma step_update_pays:
  assumes "0 < amount q" and "owes D (map_of (conflictingResources c) k)"
  shows "owes (D - amount q) (map_of (conflictingResources (fst (UpdateConflictList Q (step_update k name q) c))) k)"
    and "D \<le> amount q \<Longrightarrow>
      map_of (conflictingResources (fst (UpdateConflictList Q (step_update k name q) c))) k = None"
proof -
  let ?m = "conflictingResources c"
  let ?m' = "conflictingResources (fst (UpdateConflictList Q (step_update k name q) c))"
  have new: "map_of ?m' k = None \<or> (\<exists>a cq. map_of ?m k = Some a \<and> cq \<noteq> [] \<and>
      cq = fst (update_formula Q (FormulaStep, q) (ar_ConflictQuantity a, False)) \<and>
      map_of ?m' k = Some (a\<lparr>ar_Conflicting := False, ar_ConflictQuantity := cq\<rparr>))"
    using assms(1)
    by (cases "map_of ?m k")
      (auto simp: UpdateConflictList_def step_update_def update_resource_def IsNegative_def Let_def case_prod_unfold)
  have left: "f \<noteq> FormulaPercent \<and> - (D - amount q) \<le> amount v \<and> amount v < 0"
    if "map_of ?m k = Some a" and "map_of (fst (update_formula Q (FormulaStep, q) (ar_ConflictQuantity a, False))) f = Some v"
    for a f v
    using that assms(2) unfolding positive_step_lookup [OF assms(1)] owes_def
    by (fastforce split: if_splits option.splits)
  show "owes (D - amount q) (map_of ?m' k)"
    unfolding owes_def using new left by fastforce
  show "map_of ?m' k = None" if "D \<le> amount q"
  proof (rule ccontr)
    assume "map_of ?m' k \<noteq> None"
    with new obtain a cq where e: "map_of ?m k = Some a" "cq \<noteq> []"
      "cq = fst (update_formula Q (FormulaStep, q) (ar_ConflictQuantity a, False))" by auto
    then obtain f v cq' where "cq = (f, v) # cq'" by (metis list.exhaust surj_pair)
    then have "map_of cq f = Some v" by simp
    with left [OF e(1), of f v] e(3) that show False by auto
  qed
qed

lemma steps_pay_back:
  assumes "0 < amount q" and "owes D (map_of (conflictingResources c) k)" and "0 < n" and "D \<le> real n * amount q"
  shows "map_of (conflictingResources (((\<lambda>c. fst (UpdateConflictList Q (step_update k name q) c)) ^^ n) c)) k = None"
  using assms
proof (induction n arbitrary: c D)
  case 0
  then show ?case by simp
next
  case (Suc n)
  let ?c = "fst (UpdateConflictList Q (step_update k name q) c)"
  show ?case
  proof (cases "n = 0")
    case True
    with Suc.prems step_update_pays(2) [OF Suc.prems(1,2), of name] show ?thesis by simp
  next
    case False
    have "D - amount q \<le> real n * amount q" using Suc.prems(4) by (simp add: algebra_simps)
    with Suc.IH [OF Suc.prems(1) step_update_pays(1) [OF Suc.prems(1,2), of name]] False show ?thesis
      by (simp add: funpow_Suc_right del: funpow.simps)
  qed
qed

end

text \<open>
  C3. Recovery ends: once a resource is no longer in conflict, repeated positive steps remove its
  entry. If no step or total asks for more than \<open>D\<close> and no percentage is stored, \<open>n\<close> updates with
  a step of at least \<open>D / n\<close> leave no entry for the resource, so nothing is taken away from it.
\<close>

theorem positive_steps_recover:
  assumes "quantity Q amount" and "0 < amount q" and "0 < n" and "D \<le> real n * amount q"
    and "\<forall>a f v. map_of (conflictingResources c) k = Some a \<longrightarrow> map_of (ar_ConflictQuantity a) f = Some v \<longrightarrow>
       f \<noteq> FormulaPercent \<and> - D \<le> amount v"
  shows "map_of (conflictingResources (((\<lambda>c. fst (UpdateConflictList Q (step_update k name q) c)) ^^ n) c)) k = None"
  using quantity.steps_pay_back [OF assms(1,2) _ assms(3,4), of c k name] assms(5)
  unfolding quantity.owes_def [OF assms(1)] by blast

theorem positive_steps_recover_witness:
  "map_of (conflictingResources (((\<lambda>c. fst (UpdateConflictList nanoQ
      (step_update ''memory'' ''memory'' 2000000000) c)) ^^ 2) sample_conflicts_after)) ''memory'' = None"
  by (rule positive_steps_recover [OF nano.quantity_axioms, where D = 4])
    (auto simp: sample_conflicts_after_def nano_amount_def split: if_splits)

section \<open>Reporting changes\<close>

context quantity
begin

text \<open>The only unreported effect: a quantity that asks for nothing is dropped.\<close>

definition drops_idle :: "(formula, 'q) gomap \<Rightarrow> (formula, 'q) gomap \<Rightarrow> bool" where
  "drops_idle cq cq' \<longleftrightarrow> (\<forall>f. map_of cq' f = map_of cq f \<or>
     (\<exists>v. map_of cq f = Some v \<and> 0 \<le> amount v) \<and> map_of cq' f = None)"

lemma drops_idle_refl: "drops_idle cq cq"
  by (simp add: drops_idle_def)

lemma drops_idle_trans: "drops_idle a b \<Longrightarrow> drops_idle b c \<Longrightarrow> drops_idle a c"
  unfolding drops_idle_def by metis

lemma update_formula_unreported:
  assumes "update_formula Q p (cq, changed) = (cq', False)"
  shows "\<not> changed \<and> drops_idle cq cq'"
proof (cases "fst p = FormulaStep")
  case True
  then obtain q where "p = (FormulaStep, q)" by (metis prod.collapse)
  with assms show ?thesis
    by (auto simp: update_formula_step store_negative_def recover_total_def drops_idle_def Let_def
        simp del: map_of_eq_Some_iff split: option.splits if_splits)
next
  case False
  then obtain f q where p: "p = (f, q)" "f \<noteq> FormulaStep" by (metis prod.collapse)
  with assms show ?thesis
    by (auto simp: update_formula_other store_negative_def drops_idle_def
        simp del: map_of_eq_Some_iff split: option.splits if_splits)
qed

lemma update_formulas_unreported:
  "fold (update_formula Q) v (cq, changed) = (cq', False) \<Longrightarrow> \<not> changed \<and> drops_idle cq cq'"
proof (induction v arbitrary: cq changed)
  case Nil
  then show ?case by (simp add: drops_idle_refl)
next
  case (Cons p v)
  obtain cq1 ch1 where s: "update_formula Q p (cq, changed) = (cq1, ch1)" by fastforce
  with Cons have "\<not> ch1" and "drops_idle cq1 cq'" by auto
  with s update_formula_unreported [of p cq changed cq1] show ?case by (auto intro: drops_idle_trans)
qed

lemma asked_nonneg:
  assumes "0 \<le> amount p" and "0 \<le> amount v"
  shows "0 \<le> asked Q amount p (f, v)"
proof -
  have "0 \<le> fl (of_int (q_milli Q p)) * fl (of_int (q_milli Q v))"
    using milli_nonneg assms by (intro mult_nonneg_nonneg fl_nonneg) simp_all
  then have "0 \<le> go_trunc (fl (fl (fl (of_int (q_milli Q p)) * fl (of_int (q_milli Q v))) / 1000))"
    by (intro go_trunc_nonneg fl_nonneg divide_nonneg_pos) simp_all
  then show ?thesis using assms by (simp add: asked_def percent_of_def)
qed

lemma entry_demand_ge_iff:
  assumes "wf_map cq"
  shows "a \<le> entry_demand Q amount p cq \<longleftrightarrow>
     a \<le> 0 \<and> (\<forall>f v. map_of cq f = Some v \<longrightarrow> a \<le> asked Q amount p (f, v))"
  using assms by (auto simp: entry_demand_def min0_ge_iff)

lemma drops_idle_demand:
  assumes "drops_idle cq cq'" and "wf_map cq" and "wf_map cq'" and "0 \<le> amount p"
  shows "entry_demand Q amount p cq' = entry_demand Q amount p cq"
proof -
  have "a \<le> entry_demand Q amount p cq' \<longleftrightarrow> a \<le> entry_demand Q amount p cq" for a
    unfolding entry_demand_ge_iff [OF assms(2)] entry_demand_ge_iff [OF assms(3)]
    using assms(1,4) asked_nonneg unfolding drops_idle_def by (smt (verit) option.discI option.inject)
  then show ?thesis by (metis order_antisym order_refl)
qed

lemma demand_ge_iff:
  assumes "wf_map (conflictingResources c)"
  shows "a \<le> demand Q amount r p c \<longleftrightarrow> a \<le> 0 \<and>
     (\<forall>k e. map_of (conflictingResources c) k = Some e \<longrightarrow> entry_name (k, e) = r \<longrightarrow>
        a \<le> entry_demand Q amount p (ar_ConflictQuantity e))"
  using assms by (auto simp: demand_def min0_ge_iff)

end

context quantity
begin

lemma update_resource_unreported:
  assumes "conflict_wf (c\<lparr>conflictingResources := m\<rparr>)" and "update_resource Q e (m, changed) = (m', False)"
    and "0 \<le> amount p"
  shows "\<not> changed \<and> demand Q amount r p (c\<lparr>conflictingResources := m'\<rparr>) = demand Q amount r p (c\<lparr>conflictingResources := m\<rparr>)"
proof -
  obtain k v where e: "e = (k, v)" by (cases e)
  show ?thesis
  proof (cases "map_of m k")
    case None
    with assms(2) show ?thesis by (auto simp: e update_resource_def split: if_splits)
  next
    case (Some o1)
    let ?cq = "ar_ConflictQuantity o1"
    obtain cq ch where f: "fold (update_formula Q) (ar_ConflictQuantity v) (?cq, changed) = (cq, ch)" by fastforce
    then have m': "\<not> ch" "m' = (if cq = [] then AList.delete k m
        else AList.update k (o1\<lparr>ar_Conflicting := ar_Conflicting v, ar_ConflictQuantity := cq\<rparr>) m)"
      using assms(2) Some by (auto simp: e update_resource_def)
    have wf: "wf_map m" "wf_map ?cq" using assms(1) Some unfolding conflict_wf_def by auto
    have wfc: "wf_map cq" using wf_fold_update_formula [OF wf(2)] f by (metis fst_conv)
    have d: "\<not> changed" "drops_idle ?cq cq" using update_formulas_unreported [of "ar_ConflictQuantity v" ?cq changed cq] f m'(1) by simp_all
    note same = drops_idle_demand [OF d(2) wf(2) wfc assms(3)]
    have n: "entry_name (k, o1\<lparr>ar_Conflicting := b, ar_ConflictQuantity := x\<rparr>) = entry_name (k, o1)" for b x
      by (simp add: entry_name_def)
    have "wf_map m'" using wf(1) m'(2) by simp
    then have "a \<le> demand Q amount r p (c\<lparr>conflictingResources := m'\<rparr>) \<longleftrightarrow>
        a \<le> demand Q amount r p (c\<lparr>conflictingResources := m\<rparr>)" for a
      using wf(1) Some same n
      by (auto simp: demand_ge_iff m'(2) entry_demand_def [where cq = "[]"] min0_def
          simp del: map_of_eq_Some_iff split: if_splits) (metis option.inject)
    then show ?thesis using d(1) by (metis order_antisym order_refl)
  qed
qed

lemma updates_unreported:
  assumes "conflict_wf (c\<lparr>conflictingResources := m\<rparr>)" and "fold (update_resource Q) upd (m, changed) = (m', False)"
    and "0 \<le> amount p"
  shows "\<not> changed \<and> demand Q amount r p (c\<lparr>conflictingResources := m'\<rparr>) = demand Q amount r p (c\<lparr>conflictingResources := m\<rparr>)"
  using assms(1,2)
proof (induction upd arbitrary: m changed)
  case Nil
  then show ?case by simp
next
  case (Cons e upd)
  obtain m1 ch1 where s: "update_resource Q e (m, changed) = (m1, ch1)" by fastforce
  have "conflict_wf (c\<lparr>conflictingResources := m1\<rparr>)"
    using update_resource_wf [where c = c and s = "(m, changed)" and Q = Q and p = e] Cons.prems(1) s by simp
  with Cons.IH [of m1 ch1] Cons.prems(2) s have ih: "\<not> ch1 \<and> demand Q amount r p (c\<lparr>conflictingResources := m'\<rparr>) =
      demand Q amount r p (c\<lparr>conflictingResources := m1\<rparr>)" by simp
  with s update_resource_unreported [OF Cons.prems(1), of e changed m1 p r] assms(3) show ?case by simp
qed

lemma UpdateConflictList_unreported:
  assumes "conflict_wf c" and "UpdateConflictList Q upd c = (c', False)" and "0 \<le> amount p"
  shows "conflict_wf c' \<and> demand Q amount r p c' = demand Q amount r p c"
proof -
  obtain m where f: "fold (update_resource Q) upd (conflictingResources c, False) = (m, False)"
    and c': "c' = c\<lparr>conflictingResources := m\<rparr>"
    using assms(2) by (auto simp: UpdateConflictList_def split: prod.splits)
  have "conflict_wf c'" using UpdateConflictList_wf [OF assms(1), of Q upd] assms(2) by simp
  moreover have "demand Q amount r p c' = demand Q amount r p c"
    using updates_unreported [OF _ f assms(3), of c r] assms(1) c' by simp
  ultimately show ?thesis by simp
qed

end

text \<open>
  \<open>UpdateConflictList\<close> reports every change that matters: when it returns \<^verbatim>\<open>false\<close>, the demand on
  every resource is what it was before, whatever is predicted, so skipping the immediate
  resource update loses nothing.
\<close>

lemma UpdateConflictList_reports_changes:
  assumes "quantity Q amount" and "conflict_wf c" and "UpdateConflictList Q upd c = (c', False)" and "0 \<le> amount p"
  shows "conflict_wf c' \<and> demand Q amount r p c' = demand Q amount r p c"
  using assms by (rule quantity.UpdateConflictList_unreported)

definition sample_idle_update :: "(string, int ActionResource) gomap" where
  "sample_idle_update = [(''memory'', \<lparr>ar_Name = [], ar_Conflicting = True,
     ar_ConflictQuantity = [(FormulaTotal, - 9000000000)]\<rparr>), (''disk'', \<lparr>ar_Name = [], ar_Conflicting = False,
     ar_ConflictQuantity = [(FormulaStep, 5)]\<rparr>)]"

lemma sample_idle_update_unreported:
  "UpdateConflictList nanoQ sample_idle_update sample_conflicts =
     (fst (UpdateConflictList nanoQ sample_idle_update sample_conflicts), False)"
  by (simp add: UpdateConflictList_def sample_idle_update_def sample_conflicts_def update_resource_def
      update_formula_def store_negative_def IsNegative_def nano_ops Let_def)

theorem UpdateConflictList_reports_changes_witness:
  "demand nanoQ nano_amount ''memory'' 8000000000 (fst (UpdateConflictList nanoQ sample_idle_update sample_conflicts)) =
   demand nanoQ nano_amount ''memory'' 8000000000 sample_conflicts"
  using UpdateConflictList_reports_changes [OF nano.quantity_axioms sample_conflicts_wf sample_idle_update_unreported,
      of 8000000000 "''memory''"]
  by (simp add: nano_amount_def)

end
