(* ===== verification/Ring.thy ===== *)
theory Ring
  imports Float64
begin

text \<open>
  \<^verbatim>\<open>pkg/caelus/detection/ring/ring.go\<close>: the fixed-size ring buffer behind the EWMA detector. The
  interface \<open>sliding_window\<close> says what a client may rely on: the buffer is a window of fixed
  length that drops its oldest value when one is added. The ring implements it, with the
  window read off by rotating the array to the write position.
\<close>

record ring =
  ring_data :: "float64 list"
  ring_capacity :: nat
  ring_tail :: nat
  ring_ready :: bool

definition NewRing :: "int \<Rightarrow> ring option" where
  "NewRing n =
     (if n < 0 then None
      else Some \<lparr>ring_data = replicate (nat n) 0, ring_capacity = nat n, ring_tail = 0, ring_ready = False\<rparr>)"

definition ring_Add :: "ring \<Rightarrow> float64 \<Rightarrow> ring option" where
  "ring_Add r v =
     (let i = ring_tail r in
      if i < length (ring_data r)
      then let r1 = r\<lparr>ring_data := (ring_data r)[i := v], ring_tail := i + 1\<rparr>
           in Some (if ring_tail r1 = ring_capacity r1 then r1\<lparr>ring_tail := 0, ring_ready := True\<rparr> else r1)
      else None)"

definition ring_Values :: "ring \<Rightarrow> float64 list" where
  "ring_Values r = ring_data r"

definition ring_Peek :: "ring \<Rightarrow> float64 option" where
  "ring_Peek r =
     (let i = int (ring_tail r) - 1;
          i = (if i < 0 then int (ring_capacity r) - 1 else i)
      in if 0 \<le> i \<and> nat i < length (ring_data r) then Some (ring_data r ! nat i) else None)"

definition ring_Ready :: "ring \<Rightarrow> bool" where
  "ring_Ready r = ring_ready r"

definition ring_Mean :: "ring \<Rightarrow> float64" where
  "ring_Mean r = fl (fold (\<lambda>v sum. fl (sum + v)) (ring_data r) 0 / fl (of_nat (ring_capacity r)))"

section \<open>The interface: a sliding window\<close>

locale sliding_window =
  fixes add :: "'r \<Rightarrow> 'a \<Rightarrow> 'r option"
    and peek :: "'r \<Rightarrow> 'a option"
    and window :: "'r \<Rightarrow> 'a list"
    and invar :: "'r \<Rightarrow> bool"
  assumes add_window: "invar r \<Longrightarrow> \<exists>r'. add r v = Some r' \<and> invar r' \<and> window r' = tl (window r) @ [v]"
    and peek_window: "invar r \<Longrightarrow> peek r = Some (last (window r))"
    and window_ne: "invar r \<Longrightarrow> window r \<noteq> []"
begin

lemma add_length:
  assumes "invar r" and "add r v = Some r'"
  shows "invar r'" "length (window r') = length (window r)"
  using add_window [OF assms(1), of v] window_ne [OF assms(1)] assms(2) by auto

lemma add_all:
  "invar r \<Longrightarrow> \<exists>r'. foldM (\<lambda>v s. add s v) xs r = Some r' \<and> invar r' \<and>
     window r' = drop (length xs) (window r @ xs)"
proof (induction xs arbitrary: r)
  case Nil
  then show ?case by simp
next
  case (Cons x xs)
  from add_window [OF Cons.prems, of x] obtain r1
    where r1: "add r x = Some r1" "invar r1" "window r1 = tl (window r) @ [x]" by blast
  with Cons.IH [OF r1(2)] window_ne [OF Cons.prems] show ?case
    by (cases "window r") auto
qed

lemma peek_after_add_all:
  assumes "invar r" and "foldM (\<lambda>v s. add s v) xs r = Some r'" and "xs \<noteq> []"
  shows "peek r' = Some (last xs)"
proof -
  from add_all [OF assms(1), of xs] assms(2)
  have r': "invar r'" "window r' = drop (length xs) (window r @ xs)" by auto
  have "last (window r') = last xs"
    using r'(2) assms(3) window_ne [OF assms(1)]
    by (metis add.commute drop_eq_Nil last_appendR last_drop length_append length_greater_0_conv
        less_add_same_cancel1 linorder_not_less)
  with peek_window [OF r'(1)] show ?thesis by simp
qed

end

section \<open>The ring implements it\<close>

definition ring_wf :: "ring \<Rightarrow> bool" where
  "ring_wf r \<longleftrightarrow> length (ring_data r) = ring_capacity r \<and> ring_tail r < ring_capacity r"

definition ring_window :: "ring \<Rightarrow> float64 list" where
  "ring_window r = drop (ring_tail r) (ring_data r) @ take (ring_tail r) (ring_data r)"

lemma NewRing_window:
  "0 < n \<Longrightarrow> \<exists>r. NewRing n = Some r \<and> ring_wf r \<and> ring_window r = replicate (nat n) 0"
  by (simp add: NewRing_def ring_wf_def ring_window_def)

lemma ring_Add_window:
  assumes "ring_wf r"
  shows "\<exists>r'. ring_Add r v = Some r' \<and> ring_wf r' \<and> ring_window r' = tl (ring_window r) @ [v]"
proof -
  let ?i = "ring_tail r" and ?d = "ring_data r"
  have i: "?i < length ?d" using assms by (simp add: ring_wf_def)
  have "drop ?i ?d = ?d ! ?i # drop (Suc ?i) ?d"
    using i by (rule Cons_nth_drop_Suc [symmetric])
  then have tl: "tl (ring_window r) = drop (Suc ?i) ?d @ take ?i ?d"
    by (simp add: ring_window_def)
  have upd: "take (Suc ?i) (?d[?i := v]) = take ?i ?d @ [v]"
    using i by (simp add: take_Suc_conv_app_nth)
  show ?thesis
  proof (cases "Suc ?i = ring_capacity r")
    case True
    then have "?d[?i := v] = take (Suc ?i) (?d[?i := v])" and "drop (Suc ?i) ?d = []"
      using assms by (simp_all add: ring_wf_def)
    then have d: "?d[?i := v] = tl (ring_window r) @ [v]" using upd tl by simp
    have "ring_Add r v = Some (r\<lparr>ring_data := ?d[?i := v], ring_tail := 0, ring_ready := True\<rparr>)"
      using True i by (simp add: ring_Add_def Let_def)
    then show ?thesis
      using True assms d [symmetric] by (simp add: ring_wf_def ring_window_def)
  next
    case False
    have "drop (Suc ?i) (?d[?i := v]) @ take (Suc ?i) (?d[?i := v]) = tl (ring_window r) @ [v]"
      by (simp add: upd tl)
    moreover have "ring_Add r v = Some (r\<lparr>ring_data := ?d[?i := v], ring_tail := Suc ?i\<rparr>)"
      using False i by (simp add: ring_Add_def Let_def)
    ultimately show ?thesis
      using False assms by (simp add: ring_wf_def ring_window_def)
  qed
qed

lemma ring_Peek_window: "ring_wf r \<Longrightarrow> ring_Peek r = Some (last (ring_window r))"
proof -
  assume wf: "ring_wf r"
  show ?thesis
  proof (cases "ring_tail r")
    case 0
    with wf have "ring_data r \<noteq> []" by (auto simp: ring_wf_def)
    with 0 wf show ?thesis by (simp add: ring_Peek_def ring_wf_def ring_window_def last_conv_nth nat_diff_distrib)
  next
    case (Suc k)
    with wf have "take (Suc k) (ring_data r) = take k (ring_data r) @ [ring_data r ! k]"
      by (simp add: ring_wf_def take_Suc_conv_app_nth)
    with Suc wf show ?thesis by (simp add: ring_Peek_def ring_wf_def ring_window_def)
  qed
qed

interpretation rw: sliding_window ring_Add ring_Peek ring_window ring_wf
proof (unfold_locales, goal_cases)
  case (1 r v)
  then show ?case by (rule ring_Add_window)
next
  case (2 r)
  then show ?case by (rule ring_Peek_window)
next
  case (3 r)
  then show ?case by (auto simp: ring_window_def ring_wf_def)
qed

lemma ring_Values_mset: "mset (ring_Values r) = mset (ring_window r)"
  by (metis append_take_drop_id mset_append ring_Values_def ring_window_def union_commute)

text \<open>
  C10. Filling a new ring of size \<open>n\<close> never panics, and afterwards the buffer holds, as a
  multiset, the last \<open>n\<close> values of the initial zeros followed by the added values, and
  \<^verbatim>\<open>Peek\<close> returns the newest one.
\<close>

theorem ring_keeps_last_values:
  assumes "0 < n" and "xs \<noteq> []"
  shows "\<exists>r r'. NewRing n = Some r \<and> foldM (\<lambda>v s. ring_Add s v) xs r = Some r' \<and>
     mset (ring_Values r') = mset (drop (length xs) (replicate (nat n) 0 @ xs)) \<and>
     ring_Peek r' = Some (last xs)"
proof -
  from NewRing_window [OF assms(1)] obtain r
    where r: "NewRing n = Some r" "ring_wf r" "ring_window r = replicate (nat n) 0" by blast
  from rw.add_all [OF r(2), of xs] obtain r'
    where r': "foldM (\<lambda>v s. ring_Add s v) xs r = Some r'"
      "ring_window r' = drop (length xs) (ring_window r @ xs)" by blast
  show ?thesis
    using r r' rw.peek_after_add_all [OF r(2) r'(1) assms(2)] by (auto simp: ring_Values_mset)
qed

theorem ring_keeps_last_values_witness:
  "(0::int) < 2 \<and> [1, 2, 3 :: float64] \<noteq> [] \<and>
   (\<exists>r r'. NewRing 2 = Some r \<and> foldM (\<lambda>v s. ring_Add s v) [1, 2, 3] r = Some r' \<and>
     mset (ring_Values r') = {# 2, 3 #} \<and> ring_Peek r' = Some 3)"
  using ring_keeps_last_values [of 2 "[1, 2, 3]"] by (simp add: numeral_2_eq_2 add_mset_commute)

end
