(* ===== verification/Detection.thy ===== *)
theory Detection
  imports Ring GoStrings "HOL-Library.List_Lexorder" "HOL-Library.Char_ord"
begin

text \<open>
  \<^verbatim>\<open>pkg/caelus/detection\<close>: the anomaly detectors. An EWMA detector compares the newest sample with
  a moving average, an expression detector counts how long a condition has held, a union
  detector asks all its members. The moving average (\<^verbatim>\<open>VividCortex/ewma\<close>) and the expression
  evaluator (\<^verbatim>\<open>Knetic/govaluate\<close>) are libraries: records of operations passed as parameters.
  \<open>None\<close> is a panic (an index out of range in the ring).
\<close>

record TimedData =
  Ts :: go_time
  Vals :: "(string, float64) gomap"

datatype detect_error = TooFewSamples nat

abbreviation (input) MinData :: nat where
  "MinData \<equiv> 11"

record 'm ma_ops =
  ma_new :: "float64 \<Rightarrow> 'm"
  ma_add :: "'m \<Rightarrow> float64 \<Rightarrow> 'm"
  ma_value :: "'m \<Rightarrow> float64"

datatype eval_result = EvalError | EvalBool bool | EvalOther

record 'e exp_ops =
  exp_new :: "string \<Rightarrow> 'e option"
  exp_evaluate :: "'e \<Rightarrow> (string, float64) gomap \<Rightarrow> eval_result"
  exp_string :: "'e \<Rightarrow> string"

text \<open>\<^verbatim>\<open>time.Time.Sub\<close> saturates at the limits of \<^verbatim>\<open>time.Duration\<close>.\<close>

definition time_sub :: "go_time \<Rightarrow> go_time \<Rightarrow> go_duration" where
  "time_sub a b = max (- (2 ^ 63)) (min (2 ^ 63 - 1) (a - b))"

section \<open>EWMA detector\<close>

record 'm EwmaDetector =
  ewma_data :: ring
  ewma_n :: int
  ewma_ma :: 'm
  ewma_recentAddTime :: go_time
  ewma_addCount :: nat
  ewma_metric :: string

definition NewEwmaDetector :: "'m ma_ops \<Rightarrow> string \<Rightarrow> int \<Rightarrow> 'm EwmaDetector option" where
  "NewEwmaDetector M metric n = do {
     r \<leftarrow> NewRing n;
     Some \<lparr>ewma_data = r, ewma_n = n, ewma_ma = ma_new M (fl (of_int n)), ewma_recentAddTime = nilTime,
       ewma_addCount = 0, ewma_metric = metric\<rparr>
   }"

definition ewma_add :: "'m ma_ops \<Rightarrow> TimedData \<Rightarrow> 'm EwmaDetector \<Rightarrow> 'm EwmaDetector option" where
  "ewma_add M data e =
     (if \<not> Ts data > ewma_recentAddTime e then Some e
      else let v = gmap_get0 (Vals data) (ewma_metric e);
               e = e\<lparr>ewma_recentAddTime := Ts data\<rparr>;
               e = (if ewma_addCount e < MinData then e\<lparr>ewma_addCount := ewma_addCount e + 1\<rparr> else e);
               e = e\<lparr>ewma_ma := ma_add M (ewma_ma e) v\<rparr>
           in do { r \<leftarrow> ring_Add (ewma_data e) v; Some (e\<lparr>ewma_data := r\<rparr>) })"

definition ewma_AddAll :: "'m ma_ops \<Rightarrow> 'm EwmaDetector \<Rightarrow> TimedData list \<Rightarrow> 'm EwmaDetector option" where
  "ewma_AddAll M e vals = do {
     r \<leftarrow> NewRing (ewma_n e);
     foldM (ewma_add M) vals
       (e\<lparr>ewma_ma := ma_new M (fl (of_int (ewma_n e))), ewma_data := r,
          ewma_recentAddTime := nilTime, ewma_addCount := 0\<rparr>)
   }"

definition ewma_Mean :: "'m ma_ops \<Rightarrow> 'm EwmaDetector \<Rightarrow> float64" where
  "ewma_Mean M e = ma_value M (ewma_ma e)"

definition ewma_StdDev :: "'m ma_ops \<Rightarrow> 'm EwmaDetector \<Rightarrow> float64" where
  "ewma_StdDev M e =
     (let mean = ewma_Mean M e; vs = ring_Values (ewma_data e);
          sum = fold (\<lambda>v sum. let d = \<bar>fl (v - mean)\<bar> in fl (sum + fl (d * d))) vs 0
      in fl (sqrt (fl (sum / fl (of_nat (length vs))))))"

definition ewma_IsAnomaly :: "'m ma_ops \<Rightarrow> 'm EwmaDetector \<Rightarrow> (detect_error + bool) option" where
  "ewma_IsAnomaly M e =
     (if ewma_addCount e < MinData then Some (Inl (TooFewSamples (ewma_addCount e)))
      else do {
        p \<leftarrow> ring_Peek (ewma_data e);
        Some (Inr (\<bar>fl (p - ewma_Mean M e)\<bar> > fl (3 * ewma_StdDev M e)))
      })"

definition ewma_Reason :: "'m EwmaDetector \<Rightarrow> string" where
  "ewma_Reason e = ''ewma abnormal with metric '' @ ewma_metric e"

section \<open>Expression detector\<close>

record 'e ExpressionDetector =
  expr_metrics :: "string list"
  expr_exp :: 'e
  expr_params :: "(string, float64) gomap"
  expr_recentAddTime :: go_time
  expr_warningCount :: int
  expr_falseCount :: int
  expr_warningDuration :: go_duration
  expr_firstContinueWarning :: go_time
  expr_renew :: bool
  expr_reason :: string

definition ExpressionWarningArgs ::
  "int \<Rightarrow> go_duration \<Rightarrow> 'e ExpressionDetector \<Rightarrow> 'e ExpressionDetector" where
  "ExpressionWarningArgs cnt duration e =
     e\<lparr>expr_warningCount := cnt, expr_warningDuration := duration, expr_firstContinueWarning := nilTime\<rparr>"

definition NewExpressionDetector ::
  "string list \<Rightarrow> 'e \<Rightarrow> ('e ExpressionDetector \<Rightarrow> 'e ExpressionDetector) list \<Rightarrow> 'e ExpressionDetector" where
  "NewExpressionDetector metrics ex options =
     (let d = fold (\<lambda>opt d. opt d) options
            \<lparr>expr_metrics = metrics, expr_exp = ex, expr_params = [], expr_recentAddTime = nilTime,
             expr_warningCount = 0, expr_falseCount = 0, expr_warningDuration = 0,
             expr_firstContinueWarning = nilTime, expr_renew = False, expr_reason = []\<rparr>
      in if expr_warningDuration d = 0 \<and> expr_warningCount d = 0 then d\<lparr>expr_warningCount := 1\<rparr> else d)"

definition expr_detect :: "'e exp_ops \<Rightarrow> 'e ExpressionDetector \<Rightarrow> 'e ExpressionDetector" where
  "expr_detect E e =
     (case exp_evaluate E (expr_exp e) (expr_params e) of
        EvalError \<Rightarrow> e
      | EvalOther \<Rightarrow> e
      | EvalBool True \<Rightarrow>
          (let e = (if expr_warningCount e > 0 then e\<lparr>expr_falseCount := expr_falseCount e + 1\<rparr> else e)
           in if expr_warningDuration e \<noteq> 0 \<and> expr_firstContinueWarning e = nilTime
              then e\<lparr>expr_firstContinueWarning := expr_recentAddTime e\<rparr> else e)
      | EvalBool False \<Rightarrow> e\<lparr>expr_falseCount := 0, expr_firstContinueWarning := nilTime\<rparr>)"

definition expr_add :: "'e exp_ops \<Rightarrow> TimedData \<Rightarrow> 'e ExpressionDetector \<Rightarrow> 'e ExpressionDetector" where
  "expr_add E data e =
     (if \<not> Ts data > expr_recentAddTime e then e
      else expr_detect E (e\<lparr>expr_recentAddTime := Ts data,
                            expr_params := gmap_put_all (expr_params e) (Vals data)\<rparr>))"

definition expr_AddAll :: "'e exp_ops \<Rightarrow> 'e ExpressionDetector \<Rightarrow> TimedData list \<Rightarrow> 'e ExpressionDetector" where
  "expr_AddAll E e vals =
     fold (expr_add E) vals
       (e\<lparr>expr_recentAddTime := nilTime, expr_falseCount := 0, expr_firstContinueWarning := nilTime\<rparr>)"

definition expr_IsAnomaly :: "'e exp_ops \<Rightarrow> 'e ExpressionDetector \<Rightarrow> 'e ExpressionDetector \<times> bool" where
  "expr_IsAnomaly E e =
     (let count_res = expr_falseCount e \<ge> expr_warningCount e;
          dur_res = time_sub (expr_recentAddTime e) (expr_firstContinueWarning e) \<ge> expr_warningDuration e;
          ret = (if expr_warningCount e > 0 \<and> expr_firstContinueWarning e \<noteq> nilTime then count_res \<or> dur_res
                 else if expr_warningCount e > 0 then count_res
                 else if expr_firstContinueWarning e \<noteq> nilTime then dur_res
                 else False);
          e = (if expr_renew e then e\<lparr>expr_falseCount := 0, expr_firstContinueWarning := nilTime\<rparr> else e);
          e = (if ret then e\<lparr>expr_reason := ''expression('' @ exp_string E (expr_exp e) @ '') abnormal''\<rparr> else e)
      in (e, ret))"

section \<open>The detector interface and the union detector\<close>

datatype ('m, 'e) detector =
  DEwma "'m EwmaDetector"
| DExpr "'e ExpressionDetector"
| DUnion "string list" "('m, 'e) detector list" "string list"

fun det_Metrics :: "('m, 'e) detector \<Rightarrow> string list" where
  "det_Metrics (DEwma e) = [ewma_metric e]"
| "det_Metrics (DExpr e) = expr_metrics e"
| "det_Metrics (DUnion metrics ds reason) = metrics"

definition NewUnionDetector :: "('m, 'e) detector list \<Rightarrow> ('m, 'e) detector" where
  "NewUnionDetector ds = DUnion (remdups (sort (concat (map det_Metrics ds)))) ds []"

fun det_Name :: "('m, 'e) detector \<Rightarrow> string" where
  "det_Name (DEwma e) = ''ewma''"
| "det_Name (DExpr e) = ''expression''"
| "det_Name (DUnion metrics ds reason) = ''union''"

fun det_Reason :: "('m, 'e) detector \<Rightarrow> string" where
  "det_Reason (DEwma e) = ewma_Reason e"
| "det_Reason (DExpr e) = expr_reason e"
| "det_Reason (DUnion metrics ds reason) = join_with '';'' reason"

fun det_SampleCount :: "('m, 'e) detector \<Rightarrow> int" where
  "det_SampleCount (DEwma e) = ewma_n e"
| "det_SampleCount (DExpr e) = expr_warningCount e"
| "det_SampleCount (DUnion metrics ds reason) =
     fold (\<lambda>nn n. if nn > n then nn else n) (map det_SampleCount ds) 0"

fun det_SampleDuration :: "('m, 'e) detector \<Rightarrow> go_duration" where
  "det_SampleDuration (DEwma e) = 0"
| "det_SampleDuration (DExpr e) = expr_warningDuration e"
| "det_SampleDuration (DUnion metrics ds reason) =
     fold (\<lambda>dd d. if dd > d then dd else d) (map det_SampleDuration ds) 0"

fun det_Add :: "'m ma_ops \<Rightarrow> 'e exp_ops \<Rightarrow> TimedData \<Rightarrow> ('m, 'e) detector \<Rightarrow> ('m, 'e) detector option" where
  "det_Add M E data (DEwma e) = map_option DEwma (ewma_add M data e)"
| "det_Add M E data (DExpr e) = Some (DExpr (expr_add E data e))"
| "det_Add M E data (DUnion metrics ds reason) =
     map_option (\<lambda>ds'. DUnion metrics ds' reason) (those (map (det_Add M E data) ds))"

fun det_AddAll ::
  "'m ma_ops \<Rightarrow> 'e exp_ops \<Rightarrow> TimedData list \<Rightarrow> ('m, 'e) detector \<Rightarrow> ('m, 'e) detector option" where
  "det_AddAll M E vals (DEwma e) = map_option DEwma (ewma_AddAll M e vals)"
| "det_AddAll M E vals (DExpr e) = Some (DExpr (expr_AddAll E e vals))"
| "det_AddAll M E vals (DUnion metrics ds reason) =
     map_option (\<lambda>ds'. DUnion metrics ds' reason) (those (map (det_AddAll M E vals) ds))"

fun det_IsAnomaly ::
  "'m ma_ops \<Rightarrow> 'e exp_ops \<Rightarrow> ('m, 'e) detector \<Rightarrow> (('m, 'e) detector \<times> (detect_error + bool)) option"
and union_IsAnomaly ::
  "'m ma_ops \<Rightarrow> 'e exp_ops \<Rightarrow> ('m, 'e) detector list \<Rightarrow>
     (('m, 'e) detector list \<times> (detect_error + bool) \<times> string list) option" where
  "det_IsAnomaly M E (DEwma e) = map_option (\<lambda>r. (DEwma e, r)) (ewma_IsAnomaly M e)"
| "det_IsAnomaly M E (DExpr e) = (case expr_IsAnomaly E e of (e', r) \<Rightarrow> Some (DExpr e', Inr r))"
| "det_IsAnomaly M E (DUnion metrics ds reason) =
     (case union_IsAnomaly M E ds of
        None \<Rightarrow> None
      | Some (ds', r, reason') \<Rightarrow> Some (DUnion metrics ds' (if r = Inr True then reason' else reason), r))"
| "union_IsAnomaly M E [] = Some ([], Inr True, [])"
| "union_IsAnomaly M E (d # ds) =
     (case det_IsAnomaly M E d of
        None \<Rightarrow> None
      | Some (d', r) \<Rightarrow>
          if r = Inr True
          then (case union_IsAnomaly M E ds of
                  None \<Rightarrow> None
                | Some (ds', r', reason) \<Rightarrow> Some (d' # ds', r', det_Reason d' # reason))
          else Some (d' # ds, r, []))"

section \<open>Which samples count\<close>

text \<open>Both detectors only take a sample that is newer than the newest one taken.\<close>

fun accepted :: "go_time \<Rightarrow> TimedData list \<Rightarrow> TimedData list" where
  "accepted t [] = []"
| "accepted t (v # vs) = (if Ts v > t then v # accepted (Ts v) vs else accepted t vs)"

definition last_time :: "go_time \<Rightarrow> TimedData list \<Rightarrow> go_time" where
  "last_time t vs = (if accepted t vs = [] then t else Ts (last (accepted t vs)))"

lemma accepted_sorted: "sorted_wrt (\<lambda>a b. Ts a < Ts b) (accepted t vs) \<and> (\<forall>v \<in> set (accepted t vs). t < Ts v)"
  by (induction t vs rule: accepted.induct) force+

text \<open>Samples that arrive in time order are all taken.\<close>

lemma accepted_all:
  "sorted_wrt (\<lambda>a b. Ts a < Ts b) vs \<Longrightarrow> \<forall>v \<in> set vs. t < Ts v \<Longrightarrow> accepted t vs = vs"
  by (induction t vs rule: accepted.induct) auto

lemma last_time_Cons:
  "last_time t (v # vs) = (if Ts v > t then last_time (Ts v) vs else last_time t vs)"
  by (auto simp: last_time_def)

section \<open>Behaviour of the EWMA detector\<close>

definition ewma_value :: "'m EwmaDetector \<Rightarrow> TimedData \<Rightarrow> float64" where
  "ewma_value e v = gmap_get0 (Vals v) (ewma_metric e)"

lemma ewma_add_old [simp]: "\<not> ewma_recentAddTime e < Ts v \<Longrightarrow> ewma_add M v e = Some e"
  by (simp add: ewma_add_def)

lemma ring_Add_tail:
  assumes "ring_wf r" and "ring_Add r v = Some r'"
  shows "ring_tail r' = Suc (ring_tail r) mod ring_capacity r" "ring_capacity r' = ring_capacity r"
proof -
  have "ring_tail r < ring_capacity r" "length (ring_data r) = ring_capacity r" using assms(1) by (simp_all add: ring_wf_def)
  then show "ring_tail r' = Suc (ring_tail r) mod ring_capacity r" "ring_capacity r' = ring_capacity r"
    using assms(2) by (cases "Suc (ring_tail r) = ring_capacity r"; auto simp: ring_Add_def Let_def)+
qed

text \<open>The array is the window, rotated back by the write position.\<close>

lemma ring_Values_rotate:
  assumes "ring_wf r"
  shows "ring_Values r = rotate (ring_capacity r - ring_tail r) (ring_window r)"
proof -
  let ?d = "ring_data r"
  have t: "ring_tail r < length ?d" "ring_capacity r = length ?d" using assms by (simp_all add: ring_wf_def)
  then have "ring_window r = rotate (ring_tail r) ?d" by (simp add: ring_window_def rotate_drop_take)
  then show ?thesis using t by (simp add: ring_Values_def rotate_rotate)
qed

text \<open>The values a detector takes from the samples newer than \<open>t\<close>.\<close>

definition ewma_values :: "'m EwmaDetector \<Rightarrow> go_time \<Rightarrow> TimedData list \<Rightarrow> float64 list" where
  "ewma_values e t vals = map (ewma_value e) (accepted t vals)"

definition ewma_state :: "'m ma_ops \<Rightarrow> 'm EwmaDetector \<Rightarrow> float64 list \<Rightarrow> 'm EwmaDetector \<Rightarrow> bool" where
  "ewma_state M e vs e' \<longleftrightarrow> ring_wf (ewma_data e') \<and>
     ring_window (ewma_data e') = drop (length vs) (ring_window (ewma_data e) @ vs) \<and>
     ring_tail (ewma_data e') = (ring_tail (ewma_data e) + length vs) mod ring_capacity (ewma_data e) \<and>
     ring_capacity (ewma_data e') = ring_capacity (ewma_data e) \<and>
     ewma_ma e' = foldl (ma_add M) (ewma_ma e) vs \<and>
     ewma_addCount e' = min MinData (ewma_addCount e + length vs) \<and> ewma_n e' = ewma_n e \<and> ewma_metric e' = ewma_metric e"

lemma ewma_add_new:
  assumes "ring_wf (ewma_data e)" and "ewma_recentAddTime e < Ts v" and "ewma_addCount e \<le> MinData"
  shows "\<exists>e'. ewma_add M v e = Some e' \<and> ewma_state M e [ewma_value e v] e' \<and> ewma_recentAddTime e' = Ts v"
proof -
  from rw.add_window [OF assms(1), of "ewma_value e v"] obtain r where r:
    "ring_Add (ewma_data e) (ewma_value e v) = Some r" "ring_wf r"
    "ring_window r = tl (ring_window (ewma_data e)) @ [ewma_value e v]" by blast
  have "tl (ring_window (ewma_data e)) @ [x] = drop 1 (ring_window (ewma_data e) @ [x])" for x
    using rw.window_ne [OF assms(1)] by (cases "ring_window (ewma_data e)") auto
  with r ring_Add_tail [OF assms(1) r(1)] show ?thesis
    using assms(2,3) by (auto simp: ewma_add_def ewma_state_def ewma_value_def Let_def)
qed

lemma ewma_state_trans:
  assumes "ewma_state M e vs e1" and "ewma_state M e1 ws e2" and "ring_wf (ewma_data e)" and "ewma_addCount e \<le> MinData"
  shows "ewma_state M e (vs @ ws) e2"
proof -
  have "drop (length vs) (w @ vs) @ ws = drop (length vs) (w @ vs @ ws)" for w :: "float64 list" by simp
  then have "drop (length ws) (drop (length vs) (w @ vs) @ ws) = drop (length (vs @ ws)) (w @ vs @ ws)" for w :: "float64 list"
    by (simp only: drop_drop length_append add.commute)
  then show ?thesis using assms by (auto simp: ewma_state_def mod_simps add.assoc)
qed

lemma ewma_fold:
  assumes "ring_wf (ewma_data e)" and "ewma_addCount e \<le> MinData"
  shows "\<exists>e'. foldM (ewma_add M) vals e = Some e' \<and> ewma_state M e (ewma_values e (ewma_recentAddTime e) vals) e'"
  using assms
proof (induction vals arbitrary: e)
  case Nil
  then show ?case by (auto simp: ewma_state_def ewma_values_def ring_wf_def mod_less)
next
  case (Cons v vals)
  show ?case
  proof (cases "ewma_recentAddTime e < Ts v")
    case True
    from ewma_add_new [OF Cons.prems(1) True Cons.prems(2), of M] obtain e1 where e1:
      "ewma_add M v e = Some e1" "ewma_state M e [ewma_value e v] e1" "ewma_recentAddTime e1 = Ts v" by blast
    have e1': "ring_wf (ewma_data e1)" "ewma_addCount e1 \<le> MinData" "ewma_value e1 = ewma_value e"
      using e1(2) by (simp_all add: ewma_state_def ewma_value_def fun_eq_iff)
    from Cons.IH [OF e1'(1,2)] obtain e2 where e2: "foldM (ewma_add M) vals e1 = Some e2"
      "ewma_state M e1 (ewma_values e (Ts v) vals) e2" using e1(3) e1'(3) by (auto simp: ewma_values_def)
    from ewma_state_trans [OF e1(2) e2(2) Cons.prems] e1(1) e2(1) True show ?thesis by (simp add: ewma_values_def)
  next
    case False
    with Cons show ?thesis by (simp add: ewma_values_def)
  qed
qed

lemma ewma_AddAll_spec:
  fixes e :: "'m EwmaDetector" and vals :: "TimedData list"
  assumes "0 < ewma_n e"
  defines "vs \<equiv> ewma_values e 0 vals" and "n \<equiv> nat (ewma_n e)"
  shows "\<exists>e'. ewma_AddAll M e vals = Some e' \<and> ring_wf (ewma_data e') \<and>
     ring_window (ewma_data e') = drop (length vs) (replicate n 0 @ vs) \<and>
     ring_Values (ewma_data e') = rotate (n - length vs mod n) (drop (length vs) (replicate n 0 @ vs)) \<and>
     ewma_ma e' = foldl (ma_add M) (ma_new M (fl (of_int (ewma_n e)))) vs \<and>
     ewma_addCount e' = min MinData (length vs) \<and> ewma_n e' = ewma_n e \<and> ewma_metric e' = ewma_metric e"
proof -
  from NewRing_window [OF assms(1)] obtain r where r:
    "NewRing (ewma_n e) = Some r" "ring_wf r" "ring_window r = replicate n 0" unfolding n_def by blast
  have c: "ring_capacity r = n" "ring_tail r = 0" using r(1) assms(1) by (auto simp: NewRing_def n_def)
  let ?e = "e\<lparr>ewma_ma := ma_new M (fl (of_int (ewma_n e))), ewma_data := r,
          ewma_recentAddTime := nilTime, ewma_addCount := 0\<rparr>"
  have same: "ewma_values ?e = ewma_values e" by (simp add: ewma_values_def ewma_value_def fun_eq_iff)
  have "\<exists>e'. foldM (ewma_add M) vals ?e = Some e' \<and> ewma_state M ?e (ewma_values ?e (ewma_recentAddTime ?e) vals) e'"
    by (rule ewma_fold) (simp_all add: r)
  then obtain e' where e': "ewma_AddAll M e vals = Some e'" "ewma_state M ?e vs e'"
    unfolding same by (auto simp: ewma_AddAll_def r vs_def)
  then have "ring_Values (ewma_data e') = rotate (n - length vs mod n) (drop (length vs) (replicate n 0 @ vs))"
    using ring_Values_rotate [of "ewma_data e'"] by (simp add: ewma_state_def r c)
  with e' show ?thesis by (auto simp: ewma_state_def r c)
qed

text \<open>
  The test on a list of values, without the detector: the mean is the moving average of all values, the deviation is taken over the last \<open>n\<close> of them, with zeros
  while there are fewer, and the last value lies more than three deviations from the mean. The sum of the
  squares is rounded after every addition, so that it depends on the order: that of the array, in which the oldest value stands at the write position.
\<close>

definition three_sigma :: "'m ma_ops \<Rightarrow> nat \<Rightarrow> float64 list \<Rightarrow> bool" where
  "three_sigma M n vs =
     (let mean = ma_value M (foldl (ma_add M) (ma_new M (fl (of_nat n))) vs);
          window = drop (length vs) (replicate n 0 @ vs);
          squares = map (\<lambda>v. fl (\<bar>fl (v - mean)\<bar> * \<bar>fl (v - mean)\<bar>)) (rotate (n - length vs mod n) window);
          deviation = fl (sqrt (fl (foldl (\<lambda>s d. fl (s + d)) 0 squares / fl (of_nat n))))
      in fl (3 * deviation) < \<bar>fl (last vs - mean)\<bar>)"

lemma fold_squares: "fold (\<lambda>v s. fl (s + fl (f v * f v))) vs s = foldl (\<lambda>s d. fl (s + d)) s (map (\<lambda>v. fl (f v * f v)) vs)"
  by (induction vs arbitrary: s) (simp_all add: Let_def)

text \<open>
  C8. With at least one slot in its window, feeding the EWMA detector never panics. Its
  verdict is the error "too few samples" exactly when fewer than 11 of the samples were newer
  than all samples before them; otherwise it is the three sigma test on the values of exactly these samples, with their
  moving average as the mean and the deviation from it over the last values that fit the window, whatever the detector was fed before.
\<close>

theorem ewma_IsAnomaly_after_AddAll:
  assumes "0 < ewma_n e"
  shows "\<exists>e'. ewma_AddAll M e vals = Some e' \<and>
     ewma_IsAnomaly M e' =
       Some (if length (accepted 0 vals) < 11 then Inl (TooFewSamples (length (accepted 0 vals)))
             else Inr (three_sigma M (nat (ewma_n e)) (map (\<lambda>v. gmap_get0 (Vals v) (ewma_metric e)) (accepted 0 vals))))"
proof -
  define vs where "vs = ewma_values e 0 vals"
  have vs: "map (\<lambda>v. gmap_get0 (Vals v) (ewma_metric e)) (accepted 0 vals) = vs" "length (accepted 0 vals) = length vs"
    by (simp_all add: vs_def ewma_values_def ewma_value_def)
  from ewma_AddAll_spec [OF assms, of M vals] obtain e' where e':
    "ewma_AddAll M e vals = Some e'" "ring_wf (ewma_data e')"
    "ring_window (ewma_data e') = drop (length vs) (replicate (nat (ewma_n e)) 0 @ vs)"
    "ring_Values (ewma_data e') = rotate (nat (ewma_n e) - length vs mod nat (ewma_n e)) (drop (length vs) (replicate (nat (ewma_n e)) 0 @ vs))"
    "ewma_ma e' = foldl (ma_add M) (ma_new M (fl (of_int (ewma_n e)))) vs" "ewma_addCount e' = min MinData (length vs)"
    unfolding vs_def by blast
  have "ewma_IsAnomaly M e' = Some (if length vs < 11 then Inl (TooFewSamples (length vs)) else Inr (three_sigma M (nat (ewma_n e)) vs))"
  proof (cases "length vs < 11")
    case True
    with e'(6) show ?thesis by (simp add: ewma_IsAnomaly_def)
  next
    case False
    then have ne: "vs \<noteq> []" by auto
    have "length vs < length (replicate (nat (ewma_n e)) (0::float64) @ vs)" using assms by simp
    then have "last (ring_window (ewma_data e')) = last vs" unfolding e'(3) by (simp only: last_drop last_appendR [OF ne])
    then have p: "ring_Peek (ewma_data e') = Some (last vs)" using rw.peek_window [OF e'(2)] by simp
    have n: "real_of_int (ewma_n e) = real (nat (ewma_n e))" using assms by simp
    have len: "length (ring_Values (ewma_data e')) = nat (ewma_n e)" by (simp add: e'(4))
    have mean: "ewma_Mean M e' = ma_value M (foldl (ma_add M) (ma_new M (fl (of_nat (nat (ewma_n e))))) vs)"
      by (simp only: ewma_Mean_def e'(5) n)
    have "ewma_IsAnomaly M e' = Some (Inr (fl (3 * ewma_StdDev M e') < \<bar>fl (last vs - ewma_Mean M e')\<bar>))"
      using False by (simp add: ewma_IsAnomaly_def e'(6) p)
    then show ?thesis
      using False unfolding three_sigma_def ewma_StdDev_def Let_def len mean unfolding e'(4) fold_squares by simp
  qed
  with e'(1) vs show ?thesis by simp
qed

text \<open>With the least value in place of the moving average: ten zeros and then a four, in a window of sixteen.\<close>

definition sample_ma :: "float64 ma_ops" where
  "sample_ma = \<lparr>ma_new = (\<lambda>n. 0), ma_add = (\<lambda>m v. min m v), ma_value = (\<lambda>m. m)\<rparr>"

definition sample_ewma :: "float64 EwmaDetector" where
  "sample_ewma = \<lparr>ewma_data = \<lparr>ring_data = [0], ring_capacity = 1, ring_tail = 0, ring_ready = False\<rparr>,
     ewma_n = 16, ewma_ma = 0, ewma_recentAddTime = 0, ewma_addCount = 0, ewma_metric = ''cpu''\<rparr>"

definition sample_series :: "TimedData list" where
  "sample_series = map (\<lambda>t. \<lparr>Ts = t, Vals = [(''cpu'', 0)]\<rparr>) [1, 2, 3, 4, 5, 6, 7, 8, 9, 10] @ [\<lparr>Ts = 11, Vals = [(''cpu'', 4)]\<rparr>, \<lparr>Ts = 11, Vals = []\<rparr>]"

theorem ewma_IsAnomaly_after_AddAll_witness:
  "\<exists>e'. ewma_AddAll sample_ma sample_ewma sample_series = Some e' \<and> ewma_IsAnomaly sample_ma e' = Some (Inr True)"
proof -
  have acc: "map (\<lambda>v. gmap_get0 (Vals v) ''cpu'') (accepted 0 sample_series) = [0, 0, 0, 0, 0, 0, 0, 0, 0, 0, 4]" "length (accepted 0 sample_series) = 11"
    by (simp_all add: sample_series_def gmap_get0_def)
  have "three_sigma sample_ma 16 [0, 0, 0, 0, 0, 0, 0, 0, 0, 0, 4]"
  proof -
    have w: "rotate (16 - 11 mod 16) (drop 11 (replicate 16 0 @ [0, 0, 0, 0, 0, 0, 0, 0, 0, 0, 4])) =
        [0, 0, 0, 0, 0, 0, 0, 0, 0, 0, 4, 0, 0, 0, 0, 0::float64]"
      by code_simp
    have l: "length [0, 0, 0, 0, 0, 0, 0, 0, 0, 0, 4::float64] = 11" by simp
    show ?thesis unfolding three_sigma_def Let_def l w by (simp add: sample_ma_def fl_numeral)
  qed
  with ewma_IsAnomaly_after_AddAll [of sample_ewma sample_ma sample_series] acc show ?thesis by (simp add: sample_ewma_def)
qed

end
