(* ===== verification/DetectionProps.thy ===== *)
theory DetectionProps
  imports Detection
begin

text \<open>
  What the detectors of \<open>Detection\<close> compute. The expression detector, which keeps two counters,
  is shown equal to a specification over the whole sample sequence: the run of consecutive
  matches at its end. The union detector is the conjunction of its members. The interface
  \<open>detector_interface\<close> is what the rule checker relies on: polling a detector does not change its
  configuration.
\<close>

section \<open>The expression detector counts the current run of matches\<close>

fun verdicts ::
  "'e exp_ops \<Rightarrow> 'e \<Rightarrow> (string, float64) gomap \<Rightarrow> TimedData list \<Rightarrow> (go_time \<times> eval_result) list" where
  "verdicts E x ps [] = []"
| "verdicts E x ps (v # vs) =
     (let ps' = gmap_put_all ps (Vals v) in (Ts v, exp_evaluate E x ps') # verdicts E x ps' vs)"

text \<open>The times of the matches since the last definite mismatch, oldest first.\<close>

fun streak_step :: "go_time \<times> eval_result \<Rightarrow> go_time list \<Rightarrow> go_time list" where
  "streak_step (t, EvalBool True) acc = acc @ [t]"
| "streak_step (t, EvalBool False) acc = []"
| "streak_step (t, EvalError) acc = acc"
| "streak_step (t, EvalOther) acc = acc"

definition streak :: "(go_time \<times> eval_result) list \<Rightarrow> go_time list" where
  "streak vs = fold streak_step vs []"

definition tracks :: "'e ExpressionDetector \<Rightarrow> go_time list \<Rightarrow> bool" where
  "tracks e tss \<longleftrightarrow>
     expr_falseCount e = (if expr_warningCount e > 0 then int (length tss) else 0) \<and>
     expr_firstContinueWarning e = (if expr_warningDuration e \<noteq> 0 \<and> tss \<noteq> [] then hd tss else 0) \<and>
     (\<forall>t \<in> set tss. 0 < t) \<and> 0 \<le> expr_recentAddTime e"

definition expr_config :: "'e ExpressionDetector \<Rightarrow> string list \<times> 'e \<times> int \<times> int \<times> bool" where
  "expr_config e = (expr_metrics e, expr_exp e, expr_warningCount e, expr_warningDuration e, expr_renew e)"

lemma expr_detect_config [simp, frame_simps]: "expr_config (expr_detect E e) = expr_config e"
  by (simp add: expr_detect_def expr_config_def Let_def split: eval_result.split bool.split)

lemma expr_add_config [simp, frame_simps]: "expr_config (expr_add E v e) = expr_config e"
  by (simp add: expr_add_def) (simp add: expr_config_def)

lemma expr_fold_config [simp, frame_simps]: "expr_config (fold (expr_add E) vs e) = expr_config e"
  by (induction vs arbitrary: e) auto

lemma expr_AddAll_config [simp, frame_simps]: "expr_config (expr_AddAll E e vs) = expr_config e"
  by (simp add: expr_AddAll_def) (simp add: expr_config_def)

lemma expr_IsAnomaly_config [simp, frame_simps]: "expr_config (fst (expr_IsAnomaly E e)) = expr_config e"
  by (simp add: expr_IsAnomaly_def expr_config_def Let_def)

lemma expr_add_fields:
  assumes "expr_recentAddTime e < Ts v"
  shows "expr_recentAddTime (expr_add E v e) = Ts v"
    and "expr_params (expr_add E v e) = gmap_put_all (expr_params e) (Vals v)"
  using assms by (simp_all add: expr_add_def expr_detect_def Let_def split: eval_result.split bool.split)

lemma tracks_hd: "tracks e tss \<Longrightarrow> tss \<noteq> [] \<Longrightarrow> hd tss \<noteq> 0"
  by (cases tss) (auto simp: tracks_def)

lemma expr_add_tracks:
  assumes "tracks e tss" and "expr_recentAddTime e < Ts v"
  shows "tracks (expr_add E v e)
    (streak_step (Ts v, exp_evaluate E (expr_exp e) (gmap_put_all (expr_params e) (Vals v))) tss)"
proof -
  have pos: "0 < Ts v" using assms by (auto simp: tracks_def)
  note hd = tracks_hd [OF assms(1)]
  show ?thesis
  proof (cases "exp_evaluate E (expr_exp e) (gmap_put_all (expr_params e) (Vals v))")
    case (EvalBool b)
    with assms pos hd show ?thesis
      by (cases b) (auto simp: tracks_def expr_add_def expr_detect_def Let_def hd_append)
  qed (use assms pos in \<open>auto simp: tracks_def expr_add_def expr_detect_def\<close>)
qed

lemma expr_fold_tracks:
  assumes "tracks e tss"
  shows "tracks (fold (expr_add E) vals e)
      (fold streak_step (verdicts E (expr_exp e) (expr_params e) (accepted (expr_recentAddTime e) vals)) tss)
    \<and> expr_recentAddTime (fold (expr_add E) vals e) = last_time (expr_recentAddTime e) vals"
  using assms
proof (induction vals arbitrary: e tss)
  case Nil
  then show ?case by (simp add: last_time_def)
next
  case (Cons v vals)
  show ?case
  proof (cases "expr_recentAddTime e < Ts v")
    case True
    have "expr_exp (expr_add E v e) = expr_exp e"
      using expr_add_config [of E v e] by (simp add: expr_config_def)
    with Cons.IH [OF expr_add_tracks [OF Cons.prems True, of E]] True show ?thesis
      by (simp add: expr_add_fields last_time_Cons Let_def)
  next
    case False
    then have "expr_add E v e = e" by (simp add: expr_add_def)
    with Cons False show ?thesis by (simp add: last_time_Cons)
  qed
qed

lemma expr_AddAll_tracks:
  "tracks (expr_AddAll E e vals) (streak (verdicts E (expr_exp e) (expr_params e) (accepted 0 vals)))"
  "expr_recentAddTime (expr_AddAll E e vals) = last_time 0 vals"
proof -
  let ?e = "e\<lparr>expr_recentAddTime := nilTime, expr_falseCount := 0, expr_firstContinueWarning := nilTime\<rparr>"
  have "tracks ?e []" by (simp add: tracks_def)
  from expr_fold_tracks [OF this, of E vals]
  show "tracks (expr_AddAll E e vals) (streak (verdicts E (expr_exp e) (expr_params e) (accepted 0 vals)))"
    "expr_recentAddTime (expr_AddAll E e vals) = last_time 0 vals"
    by (simp_all add: expr_AddAll_def streak_def)
qed

text \<open>
  C5. After \<^verbatim>\<open>AddAll\<close>, the expression detector reports an anomaly exactly when the run of
  consecutive matches at the end of the accepted samples is long enough in count (if a warning
  count is set) or in duration (if a warning duration is set). Samples that are not newer than
  their predecessors and samples on which the evaluation fails neither extend nor end the run.
\<close>

theorem expr_IsAnomaly_spec:
  "let tss = streak (verdicts E (expr_exp e) (expr_params e) (accepted 0 vals)) in
   snd (expr_IsAnomaly E (expr_AddAll E e vals)) \<longleftrightarrow>
     (0 < expr_warningCount e \<and> expr_warningCount e \<le> int (length tss)) \<or>
     (expr_warningDuration e \<noteq> 0 \<and> tss \<noteq> [] \<and> expr_warningDuration e \<le> time_sub (last_time 0 vals) (hd tss))"
proof -
  define tss where "tss = streak (verdicts E (expr_exp e) (expr_params e) (accepted 0 vals))"
  have tr: "tracks (expr_AddAll E e vals) tss" unfolding tss_def by (rule expr_AddAll_tracks)
  have "expr_warningCount (expr_AddAll E e vals) = expr_warningCount e"
    "expr_warningDuration (expr_AddAll E e vals) = expr_warningDuration e"
    using expr_AddAll_config [of E e vals] by (simp_all add: expr_config_def)
  moreover note tracks_hd [OF tr]
  ultimately show ?thesis
    using tr unfolding tss_def [symmetric]
    by (auto simp: expr_IsAnomaly_def tracks_def expr_AddAll_tracks(2) Let_def)
qed

section \<open>The union detector\<close>

lemma union_IsAnomaly_true:
  "union_IsAnomaly M E ds = Some (ds', Inr True, rs) \<Longrightarrow>
   \<forall>d \<in> set ds. \<exists>d'. det_IsAnomaly M E d = Some (d', Inr True)"
  by (induction ds arbitrary: ds' rs) (auto split: option.splits if_splits)

lemma union_IsAnomaly_all:
  "\<forall>d \<in> set ds. \<exists>d'. det_IsAnomaly M E d = Some (d', Inr True) \<Longrightarrow>
   \<exists>ds' rs. union_IsAnomaly M E ds = Some (ds', Inr True, rs)"
  by (induction ds) fastforce+

text \<open>
  C9. The union detector reports an anomaly exactly when every one of its members does.
\<close>

theorem union_is_conjunction:
  "(\<exists>u. det_IsAnomaly M E (NewUnionDetector ds) = Some (u, Inr True)) \<longleftrightarrow>
   (\<forall>d \<in> set ds. \<exists>d'. det_IsAnomaly M E d = Some (d', Inr True))"
proof
  assume "\<exists>u. det_IsAnomaly M E (NewUnionDetector ds) = Some (u, Inr True)"
  then obtain ds' rs where "union_IsAnomaly M E ds = Some (ds', Inr True, rs)"
    by (auto simp: NewUnionDetector_def split: option.splits)
  then show "\<forall>d \<in> set ds. \<exists>d'. det_IsAnomaly M E d = Some (d', Inr True)"
    by (rule union_IsAnomaly_true)
next
  assume "\<forall>d \<in> set ds. \<exists>d'. det_IsAnomaly M E d = Some (d', Inr True)"
  from union_IsAnomaly_all [OF this]
  show "\<exists>u. det_IsAnomaly M E (NewUnionDetector ds) = Some (u, Inr True)"
    by (auto simp: NewUnionDetector_def)
qed

definition always_ops :: "unit exp_ops" where
  "always_ops = \<lparr>exp_new = (\<lambda>s. Some ()), exp_evaluate = (\<lambda>x ps. EvalBool True), exp_string = (\<lambda>x. ''true'')\<rparr>"

definition fired_expr :: "unit ExpressionDetector" where
  "fired_expr = expr_AddAll always_ops (NewExpressionDetector [''cpu''] () []) [\<lparr>Ts = 1, Vals = []\<rparr>]"

lemma fired_expr_anomaly: "\<exists>d'. det_IsAnomaly M always_ops (DExpr fired_expr) = Some (d', Inr True)"
  by (simp add: fired_expr_def expr_AddAll_def expr_add_def expr_detect_def expr_IsAnomaly_def
      NewExpressionDetector_def always_ops_def Let_def)

theorem union_is_conjunction_witness:
  "\<exists>u. det_IsAnomaly sample_ma always_ops (NewUnionDetector [DExpr fired_expr]) = Some (u, Inr True)"
proof -
  have "\<forall>d \<in> set [DExpr fired_expr]. \<exists>d'. det_IsAnomaly sample_ma always_ops d = Some (d', Inr True)"
    using fired_expr_anomaly [of sample_ma] by simp
  then show ?thesis by (simp only: union_is_conjunction)
qed

section \<open>The interface the rule checker uses\<close>

locale detector_interface =
  fixes addAll :: "'v list \<Rightarrow> 'd \<Rightarrow> 'd option"
    and isAnomaly :: "'d \<Rightarrow> ('d \<times> ('err + bool)) option"
    and config :: "'d \<Rightarrow> 'c"
  assumes addAll_config: "addAll vs d = Some d' \<Longrightarrow> config d' = config d"
    and isAnomaly_config: "isAnomaly d = Some (d', r) \<Longrightarrow> config d' = config d"
begin

text \<open>One poll: feed the samples, then ask.\<close>

lemma poll_config:
  assumes "addAll vs d = Some d1" and "isAnomaly d1 = Some (d2, r)"
  shows "config d2 = config d"
  using addAll_config [OF assms(1)] isAnomaly_config [OF assms(2)] by simp

end

definition det_config :: "('m, 'e) detector \<Rightarrow> string list \<times> int \<times> int" where
  "det_config d = (det_Metrics d, det_SampleCount d, det_SampleDuration d)"

lemma those_map_list_all2:
  "those (map f xs) = Some ys \<Longrightarrow> list_all2 (\<lambda>x y. f x = Some y) xs ys"
  by (induction xs arbitrary: ys) (auto split: option.splits simp: map_option_case)

lemma ewma_add_frame:
  "ewma_add M v e = Some e' \<Longrightarrow> ewma_n e' = ewma_n e \<and> ewma_metric e' = ewma_metric e"
  by (auto simp: ewma_add_def Let_def go_simps split: if_splits)

lemma ewma_AddAll_frame:
  assumes "ewma_AddAll M e vals = Some e'"
  shows "ewma_n e' = ewma_n e \<and> ewma_metric e' = ewma_metric e"
proof -
  from assms obtain r where "foldM (ewma_add M) vals (e\<lparr>ewma_ma := ma_new M (fl (of_int (ewma_n e))),
      ewma_data := r, ewma_recentAddTime := nilTime, ewma_addCount := 0\<rparr>) = Some e'"
    by (auto simp: ewma_AddAll_def go_simps)
  then show ?thesis
    by (rule foldM_invariant) (auto dest: ewma_add_frame)
qed

lemma config_map_eq:
  "list_all2 (\<lambda>d d'. det_config d' = det_config d) ds ds' \<Longrightarrow>
   map det_SampleCount ds' = map det_SampleCount ds \<and> map det_SampleDuration ds' = map det_SampleDuration ds"
  by (induction rule: list_all2_induct) (auto simp: det_config_def)

lemma det_AddAll_config: "det_AddAll M E vals d = Some d' \<Longrightarrow> det_config d' = det_config d"
proof (induction d arbitrary: d')
  case (DEwma e)
  then show ?case by (auto simp: det_config_def dest: ewma_AddAll_frame)
next
  case (DExpr e)
  then show ?case using expr_AddAll_config [of E e vals] by (auto simp: det_config_def expr_config_def)
next
  case (DUnion ms ds rs)
  from DUnion.prems obtain ds' where ds': "those (map (det_AddAll M E vals) ds) = Some ds'"
    "d' = DUnion ms ds' rs" by auto
  have "list_all2 (\<lambda>d d'. det_config d' = det_config d) ds ds'"
    by (rule list.rel_mono_strong [OF those_map_list_all2 [OF ds'(1)]]) (rule DUnion.IH)
  from config_map_eq [OF this] show ?case by (simp add: ds'(2) det_config_def)
qed

lemma det_IsAnomaly_config_aux:
  "det_IsAnomaly M E d = Some (d', r) \<Longrightarrow> det_config d' = det_config d"
  "union_IsAnomaly M E ds = Some (ds', r', rs) \<Longrightarrow> list_all2 (\<lambda>d d'. det_config d' = det_config d) ds ds'"
proof (induction M E d and M E ds arbitrary: d' r and ds' r' rs rule: det_IsAnomaly_union_IsAnomaly.induct)
  case (1 M E e)
  then show ?case by auto
next
  case (2 M E e)
  then show ?case using expr_IsAnomaly_config [of E e]
    by (auto simp: det_config_def expr_config_def split: prod.splits)
next
  case (3 M E ms ds rs)
  from 3(2) obtain ds' reason' where u: "union_IsAnomaly M E ds = Some (ds', r, reason')"
    "d' = DUnion ms ds' (if r = Inr True then reason' else rs)" by (auto split: option.splits)
  from config_map_eq [OF 3(1) [OF u(1)]] show ?case by (simp add: u(2) det_config_def)
next
  case (4 M E)
  then show ?case by simp
next
  case (5 M E d ds)
  have refl: "list_all2 (\<lambda>d d'. det_config d' = det_config d) ds ds"
    by (simp add: list_all2_same)
  from 5 refl show ?case by (fastforce split: option.splits if_splits)
qed

lemmas det_IsAnomaly_config = det_IsAnomaly_config_aux(1)

interpretation di: detector_interface "det_AddAll M E" "det_IsAnomaly M E" det_config for M E
  by unfold_locales (auto intro: det_AddAll_config det_IsAnomaly_config)

end
