(* ===== verification/HealthConfig.thy ===== *)
theory HealthConfig
  imports Float64 GoStrings
begin

text \<open>
  The rule part of \<^verbatim>\<open>pkg/caelus/types/health_check.go\<close>: the rule configuration and the completion it
  goes through after being read: default intervals, parsed detector arguments, expressions
  generated for \<^verbatim>\<open>auto\<close> and for every device. \<^verbatim>\<open>klog.Fatalf\<close>, a nil dereference and an index out of
  range are \<open>None\<close>; the JSON decoder of the detector arguments is a parameter.
\<close>

section \<open>Configuration data\<close>

record ExpressionArgs =
  Expression :: string
  WarningCount :: int
  WarningDuration :: go_duration

record EWMAArgs =
  ea_Metric :: string
  ea_Nr :: int

datatype detect_args = ArgsNil | ArgsExpression ExpressionArgs | ArgsEWMA EWMAArgs

record DetectConfig =
  dc_Name :: string
  dc_ArgsStr :: string
  dc_Args :: detect_args

record ActionConfig =
  ac_Name :: string
  ac_ArgsStr :: string

text \<open>A nil entry of a rule list is \<open>None\<close>.\<close>

record DetectActionConfig =
  Detects :: "DetectConfig list"
  Actions :: "ActionConfig list"

record RuleCheckConfig =
  rc_Name :: string
  rc_Metrics :: "string list"
  rc_CheckInterval :: go_duration
  rc_HandleInterval :: go_duration
  rc_RecoverInterval :: go_duration
  rc_Rules :: "DetectActionConfig option list"
  rc_RecoverRules :: "DetectActionConfig option list"

text \<open>\<^verbatim>\<open>types.Resource\<close>, as far as the rules read it, and the devices of \<^verbatim>\<open>MetricsNodeConfig\<close>.\<close>

record Resource =
  CpuMilli :: "float64 option"
  MemMB :: "float64 option"
  CpuPercent :: "float64 option"
  MemPercent :: "float64 option"

record Devices =
  Ifaces :: "string list"
  DiskNames :: "string list"

text \<open>The decoders: \<open>None\<close> is the error of \<^verbatim>\<open>json.Unmarshal\<close>.\<close>

record decoders =
  dec_expression :: "string \<Rightarrow> ExpressionArgs option"
  dec_ewma :: "string \<Rightarrow> EWMAArgs option"

definition MemUnit :: int where
  "MemUnit = 1024 * 1024"

definition defaultRuleInterval :: go_duration where
  "defaultRuleInterval = 1 * minute"

definition defaultExpressionWarningCount :: int where
  "defaultExpressionWarningCount = 1"

definition DetectionExpression :: string where "DetectionExpression = ''expression''"
definition DetectionEWMA :: string where "DetectionEWMA = ''ewma''"
definition genericDev :: string where "genericDev = ''$dev''"
definition deviceMetricPrefix :: string where "deviceMetricPrefix = ''dev_''"

section \<open>Devices in metrics and expressions\<close>

definition generateMetricsWithDev :: "string list \<Rightarrow> string list \<Rightarrow> string list" where
  "generateMetricsWithDev metrics devices =
     concat (map (\<lambda>m. if \<not> strings_Contains m genericDev then [m]
                      else map (\<lambda>dev. strings_ReplaceAll m genericDev (deviceMetricPrefix @ dev)) devices) metrics)"

text \<open>The device, the metric with the device and the plain metric; a missing \<^verbatim>\<open>_\<close> panics.\<close>

definition GetDeviceNameFromMetric :: "string \<Rightarrow> (string \<times> string \<times> string) option" where
  "GetDeviceNameFromMetric metric =
     (if \<not> strings_HasPrefix metric deviceMetricPrefix then Some ([], metric, metric)
      else let devMetric = strings_TrimPrefix metric deviceMetricPrefix in
           case strings_Index devMetric (CHR ''_'') of
             None \<Rightarrow> None
           | Some index \<Rightarrow> Some (take index devMetric, devMetric, drop (index + 1) devMetric))"

definition generateExpressionEvaluateWithDev :: "string \<Rightarrow> string list \<Rightarrow> string" where
  "generateExpressionEvaluateWithDev expStr devices =
     (if \<not> strings_Contains expStr genericDev \<or> devices = [] then expStr
      else join_with '' || '' (map (strings_ReplaceAll expStr genericDev) devices))"

section \<open>Automatic thresholds\<close>

text \<open>\<^verbatim>\<open>%f\<close>: six decimals, correctly rounded.\<close>

definition show_f :: "float64 \<Rightarrow> string" where
  "show_f x =
     (let n = nat (round_even (\<bar>x\<bar> * 10 ^ 6)); frac = show_nat (n mod 10 ^ 6)
      in (if x < 0 then ''-'' else []) @ show_nat (n div 10 ^ 6) @ ''.'' @
         replicate (6 - length frac) (CHR ''0'') @ frac)"

definition cpu_threshold :: "int \<Rightarrow> float64 \<Rightarrow> bool \<Rightarrow> float64" where
  "cpu_threshold totalMilli cpuReserve recoveryRule =
     (let cpuTotal = fl (of_int totalMilli);
          cpuUsage = fl (fl (cpuTotal - cpuReserve) / cpuTotal);
          cpuUsage = (if cpuUsage < fl 0.85 then fl (cpuUsage + fl 0.05) else cpuUsage)
      in if recoveryRule then fl (cpuUsage - fl 0.05) else cpuUsage)"

definition mem_threshold :: "float64 \<Rightarrow> bool \<Rightarrow> float64" where
  "mem_threshold memReserve recoveryRule =
     (let memAvailable = fl (fl (memReserve * fl (of_int MemUnit)) - fl (of_int (1024 * MemUnit)))
      in if recoveryRule then fl (memAvailable + fl (of_int (1024 * MemUnit))) else memAvailable)"

definition initExpressionEvaluate ::
  "int \<Rightarrow> Devices \<Rightarrow> Resource \<Rightarrow> bool \<Rightarrow> string \<Rightarrow> string list \<times> ExpressionArgs
    \<Rightarrow> (string list \<times> ExpressionArgs) option" where
  "initExpressionEvaluate totalMilli dev predictReserve recoveryRule name = (\<lambda>(metrics, args).
     (if name = ''cpu'' then
        (if Expression args = ''auto'' then
           (case (metrics, CpuMilli predictReserve) of
              (metric # _, Some reserve) \<Rightarrow>
                Some (metrics, args\<lparr>Expression := metric @ (if recoveryRule then '' < '' else '' > '') @
                   show_f (cpu_threshold totalMilli reserve recoveryRule)\<rparr>)
            | _ \<Rightarrow> None)
         else Some (metrics, args))
      else if name = ''memory'' then
        (if Expression args = ''auto'' then
           (case (metrics, MemMB predictReserve) of
              (metric # _, Some reserve) \<Rightarrow>
                Some (metrics, args\<lparr>Expression := metric @ (if recoveryRule then '' > '' else '' < '') @
                   show_f (mem_threshold reserve recoveryRule)\<rparr>)
            | _ \<Rightarrow> None)
         else Some (metrics, args))
      else if name = ''diskio'' then
        Some (generateMetricsWithDev metrics (DiskNames dev),
              args\<lparr>Expression := generateExpressionEvaluateWithDev (Expression args) (DiskNames dev)\<rparr>)
      else if name = ''netio'' then
        Some (generateMetricsWithDev metrics (Ifaces dev),
              args\<lparr>Expression := generateExpressionEvaluateWithDev (Expression args) (Ifaces dev)\<rparr>)
      else Some (metrics, args)))"

section \<open>Completing the rules\<close>

definition detectorAvailable ::
  "decoders \<Rightarrow> int \<Rightarrow> Devices \<Rightarrow> Resource \<Rightarrow> bool \<Rightarrow> string \<Rightarrow> DetectConfig \<Rightarrow> string list
    \<Rightarrow> (string list \<times> DetectConfig) option" where
  "detectorAvailable J totalMilli dev predictReserve recoveryRule name detector metrics =
     (if dc_Name detector = DetectionEWMA then
        map_option (\<lambda>args. (metrics, detector\<lparr>dc_Args := ArgsEWMA args\<rparr>)) (dec_ewma J (dc_ArgsStr detector))
      else if dc_Name detector = DetectionExpression then
        (if metrics = [] then None
         else do {
           args \<leftarrow> dec_expression J (dc_ArgsStr detector);
           let args = (if WarningCount args \<le> 0 \<and> WarningDuration args = 0
                       then args\<lparr>WarningCount := defaultExpressionWarningCount\<rparr> else args);
           (metrics', args') \<leftarrow> initExpressionEvaluate totalMilli dev predictReserve recoveryRule name (metrics, args);
           Some (metrics', detector\<lparr>dc_Args := ArgsExpression args'\<rparr>)
         })
      else Some (metrics, detector))"

fun detectorsAvailable ::
  "decoders \<Rightarrow> int \<Rightarrow> Devices \<Rightarrow> Resource \<Rightarrow> bool \<Rightarrow> string \<Rightarrow> DetectConfig list \<Rightarrow> string list
    \<Rightarrow> (string list \<times> DetectConfig list) option" where
  "detectorsAvailable J t dev pr rec name [] metrics = Some (metrics, [])"
| "detectorsAvailable J t dev pr rec name (d # ds) metrics = do {
     (metrics1, d') \<leftarrow> detectorAvailable J t dev pr rec name d metrics;
     (metrics2, ds') \<leftarrow> detectorsAvailable J t dev pr rec name ds metrics1;
     Some (metrics2, d' # ds')
   }"

definition detectActionAvailable ::
  "decoders \<Rightarrow> int \<Rightarrow> Devices \<Rightarrow> Resource \<Rightarrow> bool \<Rightarrow> string \<Rightarrow> DetectActionConfig option \<Rightarrow> string list
    \<Rightarrow> (string list \<times> DetectActionConfig option) option" where
  "detectActionAvailable J t dev pr rec name detectAction metrics = do {
     a \<leftarrow> detectAction;
     (metrics', ds) \<leftarrow> detectorsAvailable J t dev pr rec name (Detects a) metrics;
     Some (metrics', Some (a\<lparr>Detects := ds\<rparr>))
   }"

fun detectActionsAvailable ::
  "decoders \<Rightarrow> int \<Rightarrow> Devices \<Rightarrow> Resource \<Rightarrow> bool \<Rightarrow> string \<Rightarrow> DetectActionConfig option list \<Rightarrow> string list
    \<Rightarrow> (string list \<times> DetectActionConfig option list) option" where
  "detectActionsAvailable J t dev pr rec name [] metrics = Some (metrics, [])"
| "detectActionsAvailable J t dev pr rec name (a # as) metrics = do {
     (metrics1, a') \<leftarrow> detectActionAvailable J t dev pr rec name a metrics;
     (metrics2, as') \<leftarrow> detectActionsAvailable J t dev pr rec name as metrics1;
     Some (metrics2, a' # as')
   }"

definition ruleCheckAvailable ::
  "decoders \<Rightarrow> int \<Rightarrow> Devices \<Rightarrow> Resource \<Rightarrow> RuleCheckConfig \<Rightarrow> RuleCheckConfig option" where
  "ruleCheckAvailable J totalMilli dev predictReserve rc =
     (let rc = (if rc_CheckInterval rc = 0 then rc\<lparr>rc_CheckInterval := defaultRuleInterval\<rparr> else rc);
          rc = (if rc_HandleInterval rc = 0 then rc\<lparr>rc_HandleInterval := rc_CheckInterval rc\<rparr> else rc);
          rc = (if rc_RecoverInterval rc = 0 then rc\<lparr>rc_RecoverInterval := rc_CheckInterval rc\<rparr> else rc)
      in do {
        (metrics1, rules) \<leftarrow>
          detectActionsAvailable J totalMilli dev predictReserve False (rc_Name rc) (rc_Rules rc) (rc_Metrics rc);
        (metrics2, recoverRules) \<leftarrow>
          detectActionsAvailable J totalMilli dev predictReserve True (rc_Name rc) (rc_RecoverRules rc) metrics1;
        Some (rc\<lparr>rc_Metrics := metrics2, rc_Rules := rules, rc_RecoverRules := recoverRules\<rparr>)
      })"

section \<open>Properties\<close>

definition detector_complete :: "DetectConfig \<Rightarrow> bool" where
  "detector_complete d \<longleftrightarrow>
     (dc_Name d = DetectionExpression \<longrightarrow>
        (\<exists>args. dc_Args d = ArgsExpression args \<and> (0 < WarningCount args \<or> WarningDuration args \<noteq> 0))) \<and>
     (dc_Name d = DetectionEWMA \<longrightarrow> (\<exists>args. dc_Args d = ArgsEWMA args))"

definition rules_complete :: "DetectActionConfig option list \<Rightarrow> bool" where
  "rules_complete as \<longleftrightarrow> (\<forall>a \<in> set as. \<exists>c. a = Some c \<and> (\<forall>d \<in> set (Detects c). detector_complete d))"

lemma initExpression_keeps_warning:
  "initExpressionEvaluate t dev pr rec name (metrics, args) = Some (metrics', args') \<Longrightarrow>
   WarningCount args' = WarningCount args \<and> WarningDuration args' = WarningDuration args"
  by (auto simp: initExpressionEvaluate_def split: if_splits list.splits option.splits)

lemma detectorAvailable_complete:
  assumes "detectorAvailable J t dev pr rec name d metrics = Some (metrics', d')"
  shows "detector_complete d'"
proof (cases "dc_Name d = DetectionExpression")
  case True
  then have "dc_Name d \<noteq> DetectionEWMA" by (simp add: DetectionExpression_def DetectionEWMA_def)
  with True assms have "metrics \<noteq> []" by (auto simp: detectorAvailable_def)
  with True assms \<open>dc_Name d \<noteq> DetectionEWMA\<close> obtain a0 args' where
    i: "initExpressionEvaluate t dev pr rec name (metrics, if WarningCount a0 \<le> 0 \<and> WarningDuration a0 = 0
          then a0\<lparr>WarningCount := defaultExpressionWarningCount\<rparr> else a0) = Some (metrics', args')"
    and d': "d' = d\<lparr>dc_Args := ArgsExpression args'\<rparr>"
    by (auto simp: detectorAvailable_def go_simps simp del: if_split)
  with True initExpression_keeps_warning [OF i] show ?thesis
    by (auto simp: detector_complete_def d' DetectionExpression_def DetectionEWMA_def defaultExpressionWarningCount_def
        split: if_splits)
next
  case False
  with assms show ?thesis by (auto simp: detectorAvailable_def detector_complete_def split: if_splits)
qed

lemma detectorsAvailable_complete:
  "detectorsAvailable J t dev pr rec name ds metrics = Some (metrics', ds') \<Longrightarrow> \<forall>d \<in> set ds'. detector_complete d"
  by (induction ds arbitrary: metrics metrics' ds') (fastforce simp: go_simps dest: detectorAvailable_complete)+

lemma detectActionsAvailable_complete:
  "detectActionsAvailable J t dev pr rec name as metrics = Some (metrics', as') \<Longrightarrow> rules_complete as'"
  by (induction as arbitrary: metrics metrics' as')
    (fastforce simp: rules_complete_def go_simps detectActionAvailable_def dest: detectorsAvailable_complete)+

text \<open>
  A rule that survives \<open>ruleCheckAvailable\<close> is complete: its three intervals are not zero, no
  entry of its rule lists is nil, every expression detector carries parsed arguments with a
  warning count or a warning duration, and every ewma detector carries its arguments.
\<close>

lemma ruleCheckAvailable_completes:
  assumes "ruleCheckAvailable J t dev pr rc = Some rc'"
  shows "rc_CheckInterval rc' \<noteq> 0 \<and> rc_HandleInterval rc' \<noteq> 0 \<and> rc_RecoverInterval rc' \<noteq> 0 \<and>
    rules_complete (rc_Rules rc') \<and> rules_complete (rc_RecoverRules rc')"
proof -
  define rc0 where "rc0 = (let rc = (if rc_CheckInterval rc = 0 then rc\<lparr>rc_CheckInterval := defaultRuleInterval\<rparr> else rc);
          rc = (if rc_HandleInterval rc = 0 then rc\<lparr>rc_HandleInterval := rc_CheckInterval rc\<rparr> else rc)
      in if rc_RecoverInterval rc = 0 then rc\<lparr>rc_RecoverInterval := rc_CheckInterval rc\<rparr> else rc)"
  have i: "rc_CheckInterval rc0 \<noteq> 0" "rc_HandleInterval rc0 \<noteq> 0" "rc_RecoverInterval rc0 \<noteq> 0"
    by (simp_all add: rc0_def Let_def defaultRuleInterval_def)
  obtain metrics1 metrics2 rules recoverRules where
    r: "detectActionsAvailable J t dev pr False (rc_Name rc0) (rc_Rules rc0) (rc_Metrics rc0) = Some (metrics1, rules)"
      "detectActionsAvailable J t dev pr True (rc_Name rc0) (rc_RecoverRules rc0) metrics1 = Some (metrics2, recoverRules)"
      "rc' = rc0\<lparr>rc_Metrics := metrics2, rc_Rules := rules, rc_RecoverRules := recoverRules\<rparr>"
    using assms unfolding ruleCheckAvailable_def Let_def rc0_def [unfolded Let_def, symmetric] by (auto simp: option_bind_eq_Some)
  with i detectActionsAvailable_complete show ?thesis by auto
qed

definition sample_rule :: RuleCheckConfig where
  "sample_rule = \<lparr>rc_Name = ''diskio'', rc_Metrics = [''$dev_util''], rc_CheckInterval = 0, rc_HandleInterval = 0,
     rc_RecoverInterval = 5, rc_Rules = [Some \<lparr>Detects = [\<lparr>dc_Name = ''expression'', dc_ArgsStr = ''x'', dc_Args = ArgsNil\<rparr>],
       Actions = []\<rparr>], rc_RecoverRules = []\<rparr>"

definition sample_decoders :: decoders where
  "sample_decoders = \<lparr>dec_expression = (\<lambda>s. Some \<lparr>Expression = ''$dev_util > 5'', WarningCount = 0, WarningDuration = 0\<rparr>),
     dec_ewma = (\<lambda>s. None)\<rparr>"

lemma sample_rule_available:
  "\<exists>rc'. ruleCheckAvailable sample_decoders 8000 \<lparr>Ifaces = [], DiskNames = [''sda'', ''sdb'']\<rparr>
     \<lparr>CpuMilli = None, MemMB = None, CpuPercent = None, MemPercent = None\<rparr> sample_rule = Some rc' \<and> rc_Metrics rc' = [''dev_sda_util'', ''dev_sdb_util'']"
  by (simp add: ruleCheckAvailable_def sample_rule_def sample_decoders_def detectActionAvailable_def
      detectorAvailable_def initExpressionEvaluate_def DetectionExpression_def DetectionEWMA_def Let_def
      generateMetricsWithDev_def genericDev_def deviceMetricPrefix_def strings_HasPrefix_def)

theorem ruleCheckAvailable_completes_witness:
  "\<exists>rc' :: RuleCheckConfig. rc_CheckInterval rc' \<noteq> 0 \<and> rc_HandleInterval rc' \<noteq> 0 \<and> rc_RecoverInterval rc' \<noteq> 0 \<and>
    rules_complete (rc_Rules rc') \<and> rules_complete (rc_RecoverRules rc') \<and>
    rc_Metrics rc' = [''dev_sda_util'', ''dev_sdb_util'']"
proof -
  obtain rc' where r: "ruleCheckAvailable sample_decoders 8000 \<lparr>Ifaces = [], DiskNames = [''sda'', ''sdb'']\<rparr>
     \<lparr>CpuMilli = None, MemMB = None, CpuPercent = None, MemPercent = None\<rparr> sample_rule = Some rc'" "rc_Metrics rc' = [''dev_sda_util'', ''dev_sdb_util'']"
    using sample_rule_available by blast
  then show ?thesis using ruleCheckAvailable_completes [OF r(1)] by (intro exI [of _ rc']) simp
qed

lemma ReplaceAll_prefix:
  assumes "old \<noteq> []"
  shows "strings_ReplaceAll (old @ s) old new = new @ strings_ReplaceAll s old new"
proof -
  obtain c cs where "old = c # cs" using assms by (cases old) auto
  then show ?thesis using HasPrefix_append [of old s] by simp
qed

lemma GetDevice_roundtrip:
  "CHR ''_'' \<notin> set dev \<Longrightarrow>
   GetDeviceNameFromMetric (deviceMetricPrefix @ dev @ ''_'' @ x) = Some (dev, dev @ ''_'' @ x, x)"
  by (simp add: GetDeviceNameFromMetric_def Index_append)

text \<open>
  Device metrics round trip: a metric written with the placeholder \<^verbatim>\<open>$dev\<close> is expanded to one
  metric per device, and \<open>GetDeviceNameFromMetric\<close> reads each of them back as the device, the plain
  metric, and the parameter name under which the expression generated for that device refers
  to it. Device names must not contain an underscore.
\<close>

lemma device_metrics_roundtrip:
  assumes "\<forall>dev \<in> set devices. CHR ''_'' \<notin> set dev" and "\<not> strings_Contains (''_'' @ x) genericDev"
  shows "map GetDeviceNameFromMetric (generateMetricsWithDev [genericDev @ ''_'' @ x] devices) =
     map (\<lambda>dev. Some (dev, strings_ReplaceAll (genericDev @ ''_'' @ x) genericDev dev, x)) devices"
proof -
  have ne: "genericDev \<noteq> []" by (simp add: genericDev_def)
  have r: "strings_ReplaceAll (genericDev @ ''_'' @ x) genericDev new = new @ ''_'' @ x" for new
    using ReplaceAll_prefix [OF ne, of "''_'' @ x" new] ReplaceAll_absent [OF assms(2)] by simp
  have "strings_Contains (genericDev @ ''_'' @ x) genericDev"
    by (simp add: genericDev_def strings_HasPrefix_def)
  then have "generateMetricsWithDev [genericDev @ ''_'' @ x] devices =
      map (\<lambda>dev. deviceMetricPrefix @ dev @ ''_'' @ x) devices"
    using r by (simp add: generateMetricsWithDev_def)
  moreover have "map GetDeviceNameFromMetric (map (\<lambda>dev. deviceMetricPrefix @ dev @ ''_'' @ x) devices) =
      map (\<lambda>dev. Some (dev, dev @ ''_'' @ x, x)) devices"
    unfolding map_map comp_def by (rule map_cong) (use assms(1) GetDevice_roundtrip in auto)
  ultimately show ?thesis unfolding r by simp
qed

theorem device_metrics_roundtrip_witness:
  "map GetDeviceNameFromMetric (generateMetricsWithDev [genericDev @ ''_'' @ ''util''] [''sda'', ''nvme0n1'']) =
     map (\<lambda>dev. Some (dev, strings_ReplaceAll (genericDev @ ''_'' @ ''util'') genericDev dev, ''util'')) [''sda'', ''nvme0n1'']"
  by (rule device_metrics_roundtrip) (simp_all add: genericDev_def strings_HasPrefix_def)

text \<open>
  The generated thresholds leave no overlap: for cpu the recovery threshold (usage below it)
  is at most the detection threshold (usage above it), and for memory the recovery threshold
  (available above it) is at least the detection threshold (available below it), for all
  totals and reservations and in spite of the float64 roundings.
\<close>

lemma auto_thresholds_do_not_overlap:
  "cpu_threshold totalMilli reserve True \<le> cpu_threshold totalMilli reserve False \<and>
   mem_threshold memReserve False \<le> mem_threshold memReserve True"
proof
  let ?u = "cpu_threshold totalMilli reserve False"
  have "fl ?u = ?u" by (simp add: cpu_threshold_def Let_def)
  moreover have "0 \<le> fl 0.05" by (rule fl_nonneg) simp
  ultimately have "fl (?u - fl 0.05) \<le> ?u" using fl_mono [of "?u - fl 0.05" ?u] by simp
  then show "cpu_threshold totalMilli reserve True \<le> ?u" by (simp add: cpu_threshold_def Let_def)
next
  let ?m = "mem_threshold memReserve False"
  have "fl ?m = ?m" by (simp add: mem_threshold_def Let_def)
  moreover have "0 \<le> fl (of_int (1024 * MemUnit))" by (rule fl_nonneg) (simp add: MemUnit_def)
  ultimately have "?m \<le> fl (?m + fl (of_int (1024 * MemUnit)))"
    using fl_mono [of ?m "?m + fl (of_int (1024 * MemUnit))"] by simp
  then show "?m \<le> mem_threshold memReserve True" by (simp add: mem_threshold_def Let_def)
qed

end
