(* ===== verification/RuleCheck.thy ===== *)
theory RuleCheck
  imports DetectionProps Action HealthConfig
begin

text \<open>
  \<^verbatim>\<open>pkg/caelus/healthcheck/rulecheck/common.go\<close>: building the rules from their configuration, and
  checking one rule: run its detectors, decide by the time stamps whether to act, and run the
  actions or the recover actions.

  Detectors and actions are pointers in the code; a check returns their updated values in the
  updated rule. Alarms sent on the way are the list of their messages. The expression library
  and the JSON decoder of the action arguments are parameters.
\<close>

section \<open>Building rules\<close>

record ('m, 'e, 'q, 'w) ruleEntry =
  re_detects :: "('m, 'e) detector list"
  re_actions :: "('q, 'w) action list"

record ('m, 'e, 'q, 'w) ruleCheckEntry =
  rce_name :: string
  rce_rules :: "('m, 'e, 'q, 'w) ruleEntry list"
  rce_recoverRules :: "('m, 'e, 'q, 'w) ruleEntry list"
  rce_samples :: int
  rce_duration :: go_duration
  rce_checkInterval :: go_duration
  rce_handleInterval :: go_duration
  rce_recoverInterval :: go_duration
  rce_lastCheck :: go_time
  rce_lastHandle :: "go_time option"
  rce_lastRecover :: "go_time option"
  rce_lastAbnormal :: "go_time option"

datatype rule_error = NilDetectName | BadExpression string | UnknownDetect string | InvalidAction string | NilRule

text \<open>A detector factory is the detector it creates; \<open>None\<close> when creating it panics.\<close>

type_synonym ('m, 'e) detectorFactory = "('m, 'e) detector option"

definition generateDetectorFactory ::
  "'m ma_ops \<Rightarrow> 'e exp_ops \<Rightarrow> string list \<Rightarrow> DetectConfig
    \<Rightarrow> (rule_error + ('m, 'e) detectorFactory \<times> int \<times> go_duration) option" where
  "generateDetectorFactory M E ruleMetrics detector =
     (if dc_Name detector = [] then Some (Inl NilDetectName)
      else if dc_Name detector = DetectionExpression then
        (case dc_Args detector of
           ArgsExpression args \<Rightarrow>
             (case exp_new E (Expression args) of
                None \<Rightarrow> Some (Inl (BadExpression (Expression args)))
              | Some ex \<Rightarrow>
                  Some (Inr (Some (DExpr (NewExpressionDetector ruleMetrics ex
                        [ExpressionWarningArgs (WarningCount args) (WarningDuration args)])),
                     WarningCount args, WarningDuration args)))
         | _ \<Rightarrow> None)
      else if dc_Name detector = DetectionEWMA then
        (case dc_Args detector of
           ArgsEWMA args \<Rightarrow>
             (let samples = (if ea_Nr args < MinData then MinData else ea_Nr args) in
              if ea_Metric args = [] \<and> ruleMetrics = [] then None
              else let metric = (if ea_Metric args = [] then hd ruleMetrics else ea_Metric args)
                   in Some (Inr (map_option DEwma (NewEwmaDetector M metric samples), samples, 0)))
         | _ \<Rightarrow> None)
      else Some (Inl (UnknownDetect (dc_Name detector))))"

definition generateAction ::
  "'q qops \<Rightarrow> (string \<Rightarrow> adjustActionArgs option) \<Rightarrow> ActionConfig \<Rightarrow> string \<Rightarrow> (rule_error + ('q, 'w) action) option" where
  "generateAction Q J actor ruleName =
     (if ac_Name actor = [] \<or> ac_Name actor = ''log'' then Some (Inr LogAction)
      else if ac_Name actor = ''schedule'' then Some (Inr (ScheduleAction ruleName))
      else if ac_Name actor = ''adjust'' then
        map_option Inr (NewAdjustResourceAction Q ruleName (J (ac_ArgsStr actor)))
      else if ac_Name actor = ''evict'' then Some (Inr EvictAction)
      else Some (Inl (InvalidAction (ac_Name actor))))"

text \<open>
  One round of the loops over detectors and actions: an error of a detector or an action ends
  the process.
\<close>

definition add_detector ::
  "'m ma_ops \<Rightarrow> 'e exp_ops \<Rightarrow> string list \<Rightarrow> DetectConfig \<Rightarrow> ('m, 'e) detectorFactory list \<times> int \<times> go_duration
    \<Rightarrow> (('m, 'e) detectorFactory list \<times> int \<times> go_duration) option" where
  "add_detector M E ruleMetrics detector = (\<lambda>(factories, samples, duration).
     (case generateDetectorFactory M E ruleMetrics detector of
        Some (Inr (factory, curSamples, curDuration)) \<Rightarrow>
          Some (factories @ [factory], if curSamples > samples then curSamples else samples,
                if curDuration > duration then curDuration else duration)
      | _ \<Rightarrow> None))"

definition add_action ::
  "'q qops \<Rightarrow> (string \<Rightarrow> adjustActionArgs option) \<Rightarrow> string \<Rightarrow> ActionConfig \<Rightarrow> ('q, 'w) action list
    \<Rightarrow> ('q, 'w) action list option" where
  "add_action Q J ruleName actor actions =
     (case generateAction Q J actor ruleName of
        Some (Inr ac) \<Rightarrow> Some (actions @ [ac])
      | _ \<Rightarrow> None)"

definition parseDetectorRule ::
  "'m ma_ops \<Rightarrow> 'e exp_ops \<Rightarrow> 'q qops \<Rightarrow> (string \<Rightarrow> adjustActionArgs option) \<Rightarrow> string \<Rightarrow> string list \<Rightarrow> DetectActionConfig option
    \<Rightarrow> (rule_error + ('m, 'e) detectorFactory list \<times> ('q, 'w) action list \<times> int \<times> go_duration) option" where
  "parseDetectorRule M E Q J ruleName ruleMetrics detectAc =
     (case detectAc of
        None \<Rightarrow> Some (Inl NilRule)
      | Some cfg \<Rightarrow> do {
          (factories, samples, duration) \<leftarrow>
            foldM (add_detector M E ruleMetrics) (Detects cfg) ([], 0, 0);
          actions \<leftarrow> foldM (add_action Q J ruleName) (Actions cfg) [];
          Some (Inr (factories, actions, samples, duration))
        })"

definition generateDetectActionEntry ::
  "'m ma_ops \<Rightarrow> 'e exp_ops \<Rightarrow> 'q qops \<Rightarrow> (string \<Rightarrow> adjustActionArgs option) \<Rightarrow> string \<Rightarrow> string list \<Rightarrow> DetectActionConfig option
    \<Rightarrow> (rule_error + ('m, 'e, 'q, 'w) ruleEntry \<times> int \<times> go_duration) option" where
  "generateDetectActionEntry M E Q J ruleName metrics ruleCfg = do {
     r \<leftarrow> parseDetectorRule M E Q J ruleName metrics ruleCfg;
     (case r of
        Inl err \<Rightarrow> Some (Inl err)
      | Inr (factories, actions, samples, duration) \<Rightarrow> do {
          detects \<leftarrow> those factories;
          Some (Inr (\<lparr>re_detects = detects, re_actions = actions\<rparr>, samples, duration))
        })
   }"

definition add_rule ::
  "'m ma_ops \<Rightarrow> 'e exp_ops \<Rightarrow> 'q qops \<Rightarrow> (string \<Rightarrow> adjustActionArgs option) \<Rightarrow> string \<Rightarrow> string list
    \<Rightarrow> DetectActionConfig option \<Rightarrow> ('m, 'e, 'q, 'w) ruleEntry list \<times> int \<times> go_duration
    \<Rightarrow> (('m, 'e, 'q, 'w) ruleEntry list \<times> int \<times> go_duration) option" where
  "add_rule M E Q J name metrics cfg = (\<lambda>(rules, samples, duration).
     (case generateDetectActionEntry M E Q J name metrics cfg of
        None \<Rightarrow> None
      | Some (Inl err) \<Rightarrow> Some (rules, samples, duration)
      | Some (Inr (entry, curSamples, curDuration)) \<Rightarrow>
          Some (rules @ [entry], if curSamples > samples then curSamples else samples,
                if curDuration > duration then curDuration else duration)))"

definition generateRules ::
  "'m ma_ops \<Rightarrow> 'e exp_ops \<Rightarrow> 'q qops \<Rightarrow> (string \<Rightarrow> adjustActionArgs option) \<Rightarrow> RuleCheckConfig
    \<Rightarrow> (('m, 'e, 'q, 'w) ruleEntry list \<times> ('m, 'e, 'q, 'w) ruleEntry list \<times> int \<times> go_duration) option" where
  "generateRules M E Q J rc = do {
     (rules, samples, duration) \<leftarrow> foldM (add_rule M E Q J (rc_Name rc) (rc_Metrics rc)) (rc_Rules rc) ([], 0, 0);
     (recoverRules, samples, duration) \<leftarrow>
       foldM (add_rule M E Q J (rc_Name rc) (rc_Metrics rc)) (rc_RecoverRules rc) ([], samples, duration);
     Some (rules, recoverRules, if samples = 0 then -1 else samples, duration)
   }"

section \<open>Running detectors and actions\<close>

type_synonym metricsValuesFunc = "string list \<Rightarrow> int \<Rightarrow> go_duration \<Rightarrow> TimedData list option"

text \<open>The updated detectors, the alarms and the verdict.\<close>

fun detect ::
  "'m ma_ops \<Rightarrow> 'e exp_ops \<Rightarrow> metricsValuesFunc \<Rightarrow> bool \<Rightarrow> ('m, 'e) detector list
    \<Rightarrow> (('m, 'e) detector list \<times> string list \<times> (detect_error + bool)) option" where
  "detect M E mvf warning [] = Some ([], [], Inr False)"
| "detect M E mvf warning (d # ds) = do {
     vals \<leftarrow> mvf (det_Metrics d) (det_SampleCount d) (det_SampleDuration d);
     d1 \<leftarrow> det_AddAll M E vals d;
     (d2, r) \<leftarrow> det_IsAnomaly M E d1;
     (case r of
        Inl err \<Rightarrow> Some (d2 # ds, [], Inl err)
      | Inr True \<Rightarrow> Some (d2 # ds, if warning then [det_Reason d2] else [], Inr True)
      | Inr False \<Rightarrow> do {
          (ds', alarms, r') \<leftarrow> detect M E mvf warning ds;
          Some (d2 # ds', alarms, r')
        })
   }"

fun mergeAction ::
  "'q qops \<Rightarrow> 'w \<Rightarrow> string \<Rightarrow> ('q, 'w) action list \<Rightarrow> bool list \<Rightarrow> 'q ActionResult
    \<Rightarrow> (('q, 'w) action list \<times> 'q ActionResult \<times> string list) option" where
  "mergeAction Q w reason [] flags acRet = Some ([], acRet, [])"
| "mergeAction Q w reason (ac # acs) [] acRet = None"
| "mergeAction Q w reason (ac # acs) (anomaly # flags) acRet = do {
     let data = (case actionType ac of Evict \<Rightarrow> None | _ \<Rightarrow> Some reason);
     (ac', aRet, alarms) \<leftarrow> DoAction Q w anomaly data ac;
     let acRet' = (case aRet of None \<Rightarrow> acRet | Some r \<Rightarrow> ActionResult_Merge Q acRet r);
     (acs', acRet'', alarms') \<leftarrow> mergeAction Q w reason acs flags acRet';
     Some (ac' # acs', acRet'', alarms @ alarms')
   }"

text \<open>The verdict of every rule of a list, with the detectors updated.\<close>

fun detectRules ::
  "'m ma_ops \<Rightarrow> 'e exp_ops \<Rightarrow> metricsValuesFunc \<Rightarrow> bool \<Rightarrow> ('m, 'e, 'q, 'w) ruleEntry list
    \<Rightarrow> (('m, 'e, 'q, 'w) ruleEntry list \<times> string list \<times> (detect_error + bool) list) option" where
  "detectRules M E mvf warning [] = Some ([], [], [])"
| "detectRules M E mvf warning (rule # rules) = do {
     (ds, alarms, r) \<leftarrow> detect M E mvf warning (re_detects rule);
     (rules', alarms', rs) \<leftarrow> detectRules M E mvf warning rules;
     Some (rule\<lparr>re_detects := ds\<rparr> # rules', alarms @ alarms', r # rs)
   }"

text \<open>
  Running the selected actions of a list of rules, rule by rule: the flag of a rule is what all
  its actions are told, \<open>None\<close> when the actions of the rule are not selected. The actions are
  shared pointers, so the rules hold the updated ones afterwards.
\<close>

fun mergeRuleActions ::
  "'q qops \<Rightarrow> 'w \<Rightarrow> string \<Rightarrow> ('m, 'e, 'q, 'w) ruleEntry list \<Rightarrow> bool option list \<Rightarrow> 'q ActionResult
    \<Rightarrow> (('m, 'e, 'q, 'w) ruleEntry list \<times> 'q ActionResult \<times> string list) option" where
  "mergeRuleActions Q w reason (rule # rules) (Some flag # flags) acRet = do {
     (acs, acRet1, alarms) \<leftarrow>
       mergeAction Q w reason (re_actions rule) (replicate (length (re_actions rule)) flag) acRet;
     (rules', acRet2, alarms') \<leftarrow> mergeRuleActions Q w reason rules flags acRet1;
     Some (rule\<lparr>re_actions := acs\<rparr> # rules', acRet2, alarms @ alarms')
   }"
| "mergeRuleActions Q w reason (rule # rules) (None # flags) acRet = do {
     (rules', acRet2, alarms) \<leftarrow> mergeRuleActions Q w reason rules flags acRet;
     Some (rule # rules', acRet2, alarms)
   }"
| "mergeRuleActions Q w reason rules flags acRet = Some (rules, acRet, [])"

definition rule_flags :: "(detect_error + bool) list \<Rightarrow> bool option list" where
  "rule_flags = map (\<lambda>r. case r of Inl err \<Rightarrow> None | Inr b \<Rightarrow> Some b)"

text \<open>Recover rules that match are run as non-conflicting, the others are not run.\<close>

definition recover_flags :: "(detect_error + bool) list \<Rightarrow> bool option list" where
  "recover_flags = map (\<lambda>r. if r = Inr True then Some False else None)"

definition handleRecover ::
  "'m ma_ops \<Rightarrow> 'e exp_ops \<Rightarrow> metricsValuesFunc \<Rightarrow> ('m, 'e, 'q, 'w) ruleCheckEntry
    \<Rightarrow> (('m, 'e, 'q, 'w) ruleCheckEntry \<times> bool \<times> bool option list) option" where
  "handleRecover M E mvf checker = do {
     (rules, alarms, rs) \<leftarrow> detectRules M E mvf False (rce_recoverRules checker);
     Some (checker\<lparr>rce_recoverRules := rules\<rparr>, Inr True \<in> set rs, recover_flags rs)
   }"

section \<open>Checking a rule\<close>

record 'q checkRet =
  cr_acRet :: "'q ActionResult"
  cr_anomaly :: bool
  cr_noNeedHandle :: bool
  cr_noNeedRecover :: bool

text \<open>\<^verbatim>\<open>last != nil && !last.Add(interval).Before(now)\<close>\<close>

definition not_yet :: "go_time option \<Rightarrow> go_duration \<Rightarrow> go_time \<Rightarrow> bool" where
  "not_yet prev interval now = (case prev of None \<Rightarrow> False | Some t \<Rightarrow> \<not> t + interval < now)"

text \<open>The time from which recovery is counted.\<close>

definition recover_since :: "go_time option \<Rightarrow> go_time option \<Rightarrow> go_time option" where
  "recover_since lastAbnormal lastRecover =
     (case lastAbnormal of
        None \<Rightarrow> lastRecover
      | Some a \<Rightarrow> (case lastRecover of
           None \<Rightarrow> Some a
         | Some r \<Rightarrow> if r < a then Some a else Some r))"

definition checkAbnormal ::
  "'q qops \<Rightarrow> 'w \<Rightarrow> go_time \<Rightarrow> bool option list \<Rightarrow> ('m, 'e, 'q, 'w) ruleCheckEntry
    \<Rightarrow> (('m, 'e, 'q, 'w) ruleCheckEntry \<times> 'q checkRet \<times> string list) option" where
  "checkAbnormal Q w now flags checker =
     (let checker = checker\<lparr>rce_lastAbnormal := Some now\<rparr> in
      if not_yet (rce_lastHandle checker) (rce_handleInterval checker) now
      then Some (checker, \<lparr>cr_acRet = emptyResult, cr_anomaly = True, cr_noNeedHandle = True, cr_noNeedRecover = False\<rparr>, [])
      else do {
        let checker = checker\<lparr>rce_lastHandle := Some now\<rparr>;
        (rules, acRet, alarms) \<leftarrow>
          mergeRuleActions Q w (rce_name checker @ '' detect ABNORMAL'') (rce_rules checker) flags emptyResult;
        Some (checker\<lparr>rce_rules := rules\<rparr>,
          \<lparr>cr_acRet = acRet, cr_anomaly = True, cr_noNeedHandle = False, cr_noNeedRecover = False\<rparr>, alarms)
      })"

definition checkNormal ::
  "'m ma_ops \<Rightarrow> 'e exp_ops \<Rightarrow> 'q qops \<Rightarrow> 'w \<Rightarrow> metricsValuesFunc \<Rightarrow> go_time \<Rightarrow> bool option list
    \<Rightarrow> ('m, 'e, 'q, 'w) ruleCheckEntry \<Rightarrow> (('m, 'e, 'q, 'w) ruleCheckEntry \<times> 'q checkRet \<times> string list) option" where
  "checkNormal M E Q w mvf now flags checker =
     (let ret = (\<lambda>acRet noNeedRecover. \<lparr>cr_acRet = acRet, cr_anomaly = False, cr_noNeedHandle = False, cr_noNeedRecover = noNeedRecover\<rparr>);
          checker = checker\<lparr>rce_lastRecover := recover_since (rce_lastAbnormal checker) (rce_lastRecover checker)\<rparr> in
      if not_yet (rce_lastRecover checker) (rce_recoverInterval checker) now
      then Some (checker, ret emptyResult True, [])
      else do {
        (checker, recoverAnomaly, recoverFlags) \<leftarrow> handleRecover M E mvf (checker\<lparr>rce_lastRecover := Some now\<rparr>);
        (if recoverAnomaly then do {
           (rules, acRet, alarms) \<leftarrow>
             mergeRuleActions Q w (rce_name checker @ '' recover detect ABNORMAL'') (rce_recoverRules checker)
               recoverFlags emptyResult;
           Some (checker\<lparr>rce_recoverRules := rules\<rparr>, ret acRet False, alarms)
         }
         else if rce_recoverRules checker \<noteq> [] then Some (checker, ret emptyResult False, [])
         else do {
           (rules, acRet, alarms) \<leftarrow>
             mergeRuleActions Q w (rce_name checker @ '' detect NORMAL'') (rce_rules checker) flags emptyResult;
           Some (checker\<lparr>rce_rules := rules\<rparr>, ret acRet False, alarms)
         })
      })"

definition checkRule ::
  "'m ma_ops \<Rightarrow> 'e exp_ops \<Rightarrow> 'q qops \<Rightarrow> 'w \<Rightarrow> metricsValuesFunc \<Rightarrow> go_time \<Rightarrow> ('m, 'e, 'q, 'w) ruleCheckEntry
    \<Rightarrow> (('m, 'e, 'q, 'w) ruleCheckEntry \<times> 'q checkRet \<times> string list) option" where
  "checkRule M E Q w mvf now checker = do {
     (rules, alarms, rs) \<leftarrow> detectRules M E mvf True (rce_rules checker);
     let checker = checker\<lparr>rce_rules := rules\<rparr>;
     (checker, ret, alarms') \<leftarrow>
       (if Inr True \<in> set rs then checkAbnormal Q w now (rule_flags rs) checker
        else checkNormal M E Q w mvf now (rule_flags rs) checker);
     Some (checker, ret, alarms @ alarms')
   }"

section \<open>Timing\<close>

text \<open>
  The timing of a rule as a state machine of its own. A check at a time \<open>now\<close> is one of four
  events: an anomaly that is handled, an anomaly within the handle interval, a recovery, and a
  normal result within the recover interval.
\<close>

datatype outcome = Handled | HandleSilent | Recovered | RecoverSilent

record timing =
  tm_handle :: "go_time option"
  tm_recover :: "go_time option"
  tm_abnormal :: "go_time option"

definition timing_of :: "('m, 'e, 'q, 'w) ruleCheckEntry \<Rightarrow> timing" where
  "timing_of c = \<lparr>tm_handle = rce_lastHandle c, tm_recover = rce_lastRecover c, tm_abnormal = rce_lastAbnormal c\<rparr>"

definition outcome_of :: "'q checkRet \<Rightarrow> outcome" where
  "outcome_of r = (if cr_anomaly r then if cr_noNeedHandle r then HandleSilent else Handled
     else if cr_noNeedRecover r then RecoverSilent else Recovered)"

inductive timing_step :: "go_duration \<Rightarrow> go_duration \<Rightarrow> timing \<Rightarrow> go_time \<Rightarrow> outcome \<Rightarrow> timing \<Rightarrow> bool"
  for hi ri where
  handled: "\<not> not_yet (tm_handle s) hi now \<Longrightarrow>
     timing_step hi ri s now Handled (s\<lparr>tm_abnormal := Some now, tm_handle := Some now\<rparr>)"
| handle_silent: "not_yet (tm_handle s) hi now \<Longrightarrow>
     timing_step hi ri s now HandleSilent (s\<lparr>tm_abnormal := Some now\<rparr>)"
| recovered: "\<not> not_yet (recover_since (tm_abnormal s) (tm_recover s)) ri now \<Longrightarrow>
     timing_step hi ri s now Recovered (s\<lparr>tm_recover := Some now\<rparr>)"
| recover_silent: "not_yet (recover_since (tm_abnormal s) (tm_recover s)) ri now \<Longrightarrow>
     timing_step hi ri s now RecoverSilent (s\<lparr>tm_recover := recover_since (tm_abnormal s) (tm_recover s)\<rparr>)"

inductive_cases timing_stepE: "timing_step hi ri s now out s'"

text \<open>A history of checks at non-decreasing times, latest first.\<close>

inductive timing_run :: "go_duration \<Rightarrow> go_duration \<Rightarrow> (go_time \<times> outcome) list \<Rightarrow> timing \<Rightarrow> bool"
  for hi ri where
  start: "timing_run hi ri [] \<lparr>tm_handle = None, tm_recover = None, tm_abnormal = None\<rparr>"
| check: "timing_run hi ri hist s \<Longrightarrow> \<forall>e \<in> set hist. fst e \<le> now \<Longrightarrow> timing_step hi ri s now out s' \<Longrightarrow>
     timing_run hi ri ((now, out) # hist) s'"

definition config_of :: "('m, 'e, 'q, 'w) ruleCheckEntry \<Rightarrow> string \<times> go_duration \<times> go_duration \<times> go_duration" where
  "config_of c = (rce_name c, rce_checkInterval c, rce_handleInterval c, rce_recoverInterval c)"

end
