(* ===== verification/RuleCheckProps.thy ===== *)
theory RuleCheckProps
  imports RuleCheck
begin

text \<open>
  Timing guarantees of rule checking: a check refines a step of the timing machine, and in every
  sequence of checks handled anomalies and recoveries keep their distances.
\<close>

section \<open>A check is a step of the timing machine\<close>

lemma checkAbnormal_step:
  assumes "checkAbnormal Q w now flags c = Some (c', ret, alarms)"
  shows "timing_step (rce_handleInterval c) ri (timing_of c) now (outcome_of ret) (timing_of c') \<and> config_of c' = config_of c"
proof (cases "not_yet (rce_lastHandle c) (rce_handleInterval c) now")
  case True
  with assms have "timing_of c' = (timing_of c)\<lparr>tm_abnormal := Some now\<rparr>" "outcome_of ret = HandleSilent"
    "config_of c' = config_of c"
    by (auto simp: checkAbnormal_def Let_def timing_of_def outcome_of_def config_of_def)
  with True handle_silent [of "timing_of c" "rce_handleInterval c" now ri] show ?thesis
    by (simp add: timing_of_def)
next
  case False
  with assms have "timing_of c' = (timing_of c)\<lparr>tm_abnormal := Some now, tm_handle := Some now\<rparr>" "outcome_of ret = Handled"
    "config_of c' = config_of c"
    by (auto simp: checkAbnormal_def go_simps timing_of_def outcome_of_def config_of_def)
  with False handled [of "timing_of c" "rce_handleInterval c" now ri] show ?thesis
    by (simp add: timing_of_def)
qed

lemma handleRecover_frame:
  "handleRecover M E mvf c = Some (c', b, flags) \<Longrightarrow> timing_of c' = timing_of c \<and> config_of c' = config_of c"
  by (auto simp: handleRecover_def go_simps timing_of_def config_of_def)

lemma checkNormal_step:
  assumes "checkNormal M E Q w mvf now flags c = Some (c', ret, alarms)"
  shows "timing_step hi (rce_recoverInterval c) (timing_of c) now (outcome_of ret) (timing_of c') \<and> config_of c' = config_of c"
proof (cases "not_yet (recover_since (rce_lastAbnormal c) (rce_lastRecover c)) (rce_recoverInterval c) now")
  case True
  with assms have "timing_of c' = (timing_of c)\<lparr>tm_recover := recover_since (rce_lastAbnormal c) (rce_lastRecover c)\<rparr>"
    "outcome_of ret = RecoverSilent" "config_of c' = config_of c"
    by (auto simp: checkNormal_def Let_def timing_of_def outcome_of_def config_of_def)
  with True recover_silent [of "timing_of c" "rce_recoverInterval c" now hi] show ?thesis
    by (simp add: timing_of_def)
next
  case False
  let ?c0 = "c\<lparr>rce_lastRecover := Some now\<rparr>"
  from False assms obtain c1 b fl where h: "handleRecover M E mvf ?c0 = Some (c1, b, fl)"
    by (auto simp: checkNormal_def go_simps)
  have "timing_of c1 = (timing_of c)\<lparr>tm_recover := Some now\<rparr>" "config_of c1 = config_of c"
    using handleRecover_frame [OF h] by (simp_all add: timing_of_def config_of_def)
  moreover have "timing_of c' = timing_of c1 \<and> outcome_of ret = Recovered \<and> config_of c' = config_of c1"
    using False assms h
    by (auto simp: checkNormal_def go_simps timing_of_def outcome_of_def config_of_def split: if_splits)
  ultimately show ?thesis
    using False recovered [of "timing_of c" "rce_recoverInterval c" now hi] by (simp add: timing_of_def)
qed

lemma checkRule_step:
  assumes "checkRule M E Q w mvf now c = Some (c', ret, alarms)"
  shows "timing_step (rce_handleInterval c) (rce_recoverInterval c) (timing_of c) now (outcome_of ret) (timing_of c')"
    and "config_of c' = config_of c"
proof -
  from assms obtain rules rs al2 where
    "(if Inr True \<in> set rs then checkAbnormal Q w now (rule_flags rs) (c\<lparr>rce_rules := rules\<rparr>)
      else checkNormal M E Q w mvf now (rule_flags rs) (c\<lparr>rce_rules := rules\<rparr>)) = Some (c', ret, al2)"
    by (auto simp: checkRule_def go_simps)
  then have "timing_step (rce_handleInterval c) (rce_recoverInterval c) (timing_of (c\<lparr>rce_rules := rules\<rparr>)) now (outcome_of ret) (timing_of c') \<and>
      config_of c' = config_of (c\<lparr>rce_rules := rules\<rparr>)"
    using checkAbnormal_step [of Q w now "rule_flags rs" "c\<lparr>rce_rules := rules\<rparr>"]
      checkNormal_step [of M E Q w mvf now "rule_flags rs" "c\<lparr>rce_rules := rules\<rparr>"]
    by (auto split: if_splits)
  then show "timing_step (rce_handleInterval c) (rce_recoverInterval c) (timing_of c) now (outcome_of ret) (timing_of c')"
    and "config_of c' = config_of c"
    by (simp_all add: timing_of_def config_of_def)
qed

section \<open>Distances in a run\<close>

definition covers :: "timing \<Rightarrow> go_time \<times> outcome \<Rightarrow> bool" where
  "covers s e = (case snd e of
       Handled \<Rightarrow> (\<exists>h. tm_handle s = Some h \<and> fst e \<le> h) \<and> (\<exists>a. tm_abnormal s = Some a \<and> fst e \<le> a)
     | HandleSilent \<Rightarrow> (\<exists>a. tm_abnormal s = Some a \<and> fst e \<le> a)
     | Recovered \<Rightarrow> (\<exists>r. tm_recover s = Some r \<and> fst e \<le> r)
     | RecoverSilent \<Rightarrow> True)"

lemma recover_since_ge:
  "recover_since a r = x \<Longrightarrow> (a = Some t \<or> r = Some t) \<Longrightarrow> \<exists>y. x = Some y \<and> t \<le> y"
  by (auto simp: recover_since_def split: option.splits)

lemma timing_step_covers:
  assumes "timing_step hi ri s now out s'" and "covers s e" and "fst e \<le> now"
  shows "covers s' e"
  using assms recover_since_ge [OF refl, of "tm_abnormal s" _ "tm_recover s"]
  by (cases rule: timing_step.cases) (fastforce simp: covers_def split: outcome.splits)+

lemma timing_step_covers_new: "timing_step hi ri s now out s' \<Longrightarrow> covers s' (now, out)"
  by (cases rule: timing_step.cases) (auto simp: covers_def)

lemma timing_run_covers: "timing_run hi ri hist s \<Longrightarrow> e \<in> set hist \<Longrightarrow> covers s e"
proof (induction rule: timing_run.induct)
  case start
  then show ?case by simp
next
  case (check hist s now out s')
  then show ?case using timing_step_covers timing_step_covers_new by (metis set_ConsD)
qed

lemma timing_run_suffix: "timing_run hi ri (xs @ ys) s \<Longrightarrow> \<exists>s'. timing_run hi ri ys s'"
proof (induction xs arbitrary: s)
  case Nil
  then show ?case by auto
next
  case (Cons x xs)
  from Cons.prems show ?case by (cases rule: timing_run.cases) (auto dest: Cons.IH)
qed

lemma timing_run_distance:
  assumes "timing_run hi ri ((now, out) # hist) s" and "(t, out') \<in> set hist"
  shows "out = Handled \<Longrightarrow> out' = Handled \<Longrightarrow> t + hi < now"
    and "out = Recovered \<Longrightarrow> out' \<noteq> RecoverSilent \<Longrightarrow> t + ri < now"
proof -
  from assms(1) obtain s0 where r: "timing_run hi ri hist s0" "timing_step hi ri s0 now out s"
    by (cases rule: timing_run.cases) auto
  have c: "covers s0 (t, out')" using timing_run_covers [OF r(1) assms(2)] .
  show "t + hi < now" if "out = Handled" "out' = Handled"
    using r(2) c that by (cases rule: timing_step.cases) (auto simp: covers_def not_yet_def)
  show "t + ri < now" if "out = Recovered" "out' \<noteq> RecoverSilent"
  proof -
    from c that(2) obtain u where "tm_abnormal s0 = Some u \<or> tm_recover s0 = Some u" "t \<le> u"
      by (cases out') (auto simp: covers_def)
    with recover_since_ge [OF refl, of "tm_abnormal s0" u "tm_recover s0"]
    obtain y where "recover_since (tm_abnormal s0) (tm_recover s0) = Some y" "t \<le> y" by auto
    with r(2) that(1) show ?thesis by (cases rule: timing_step.cases) (auto simp: not_yet_def)
  qed
qed

section \<open>Sequences of checks\<close>

fun check_runs ::
  "'m ma_ops \<Rightarrow> 'e exp_ops \<Rightarrow> 'q qops \<Rightarrow> ('w \<times> metricsValuesFunc \<times> go_time) list \<Rightarrow> ('m, 'e, 'q, 'w) ruleCheckEntry
    \<Rightarrow> (('m, 'e, 'q, 'w) ruleCheckEntry \<times> (go_time \<times> outcome) list) option" where
  "check_runs M E Q [] c = Some (c, [])"
| "check_runs M E Q ((w, mvf, now) # checks) c = do {
     (c1, ret, alarms) \<leftarrow> checkRule M E Q w mvf now c;
     (c2, evs) \<leftarrow> check_runs M E Q checks c1;
     Some (c2, (now, outcome_of ret) # evs)
   }"

lemma check_runs_timing:
  assumes "check_runs M E Q checks c = Some (c', evs)" and "timing_run (rce_handleInterval c) (rce_recoverInterval c) hist (timing_of c)"
    and "sorted (map (\<lambda>(w, v, now). now) checks)" and "\<forall>e \<in> set hist. \<forall>(w, v, now) \<in> set checks. fst e \<le> now"
  shows "timing_run (rce_handleInterval c) (rce_recoverInterval c) (rev evs @ hist) (timing_of c')"
  using assms
proof (induction checks arbitrary: c evs hist)
  case Nil
  then show ?case by simp
next
  case (Cons x checks)
  obtain w mvf now where x: "x = (w, mvf, now)" by (cases x)
  from Cons.prems(1) obtain c1 ret al evs' where r: "checkRule M E Q w mvf now c = Some (c1, ret, al)"
    "check_runs M E Q checks c1 = Some (c', evs')" "evs = (now, outcome_of ret) # evs'"
    by (auto simp: x go_simps)
  note st = checkRule_step [OF r(1)]
  have cfg: "rce_handleInterval c1 = rce_handleInterval c" "rce_recoverInterval c1 = rce_recoverInterval c"
    using st(2) by (simp_all add: config_of_def)
  have "timing_run (rce_handleInterval c) (rce_recoverInterval c) ((now, outcome_of ret) # hist) (timing_of c1)"
    by (rule timing_run.check [OF Cons.prems(2) _ st(1)]) (use Cons.prems(4) in \<open>auto simp: x\<close>)
  moreover have "\<forall>e \<in> set ((now, outcome_of ret) # hist). \<forall>(w, v, t) \<in> set checks. fst e \<le> t"
    using Cons.prems(3,4) by (auto simp: x)
  ultimately show ?case
    using Cons.IH [OF r(2), of "(now, outcome_of ret) # hist"] Cons.prems(3) by (simp add: cfg r(3))
qed

lemma run_pair:
  assumes "timing_run hi ri (rev evs) s" and "i < j" and "j < length evs"
  shows "snd (evs ! i) = Handled \<Longrightarrow> snd (evs ! j) = Handled \<Longrightarrow> fst (evs ! i) + hi < fst (evs ! j)"
    and "snd (evs ! i) \<noteq> RecoverSilent \<Longrightarrow> snd (evs ! j) = Recovered \<Longrightarrow> fst (evs ! i) + ri < fst (evs ! j)"
proof -
  have "evs = take j evs @ evs ! j # drop (Suc j) evs" using assms(3) by (rule id_take_nth_drop)
  then have "rev evs = rev (drop (Suc j) evs) @ evs ! j # rev (take j evs)"
    by (metis append.assoc append_Cons append_Nil rev.simps(2) rev_append)
  with assms(1) obtain s' where "timing_run hi ri (evs ! j # rev (take j evs)) s'"
    using timing_run_suffix by metis
  then have r: "timing_run hi ri ((fst (evs ! j), snd (evs ! j)) # rev (take j evs)) s'" by simp
  have "evs ! i \<in> set (rev (take j evs))" using assms(2,3) by (auto simp: in_set_conv_nth)
  then have m: "(fst (evs ! i), snd (evs ! i)) \<in> set (rev (take j evs))" by simp
  show "fst (evs ! i) + hi < fst (evs ! j)" if "snd (evs ! i) = Handled" "snd (evs ! j) = Handled"
    using timing_run_distance(1) [OF r m] that by simp
  show "fst (evs ! i) + ri < fst (evs ! j)" if "snd (evs ! i) \<noteq> RecoverSilent" "snd (evs ! j) = Recovered"
    using timing_run_distance(2) [OF r m] that by simp
qed

text \<open>
  C14. Over any sequence of checks of a rule at non-decreasing times: two anomalies that are handled
  are more than the handle interval apart, and recover actions run only when more than the
  recover interval has passed since every earlier anomaly, handled or not, and every earlier
  recovery.
\<close>

theorem checkRule_keeps_distance:
  assumes "check_runs M E Q checks c = Some (c', evs)" and "sorted (map (\<lambda>(w, v, now). now) checks)"
    and "rce_lastHandle c = None" and "rce_lastRecover c = None" and "rce_lastAbnormal c = None"
    and "i < j" and "j < length evs"
  shows "(snd (evs ! i) = Handled \<and> snd (evs ! j) = Handled \<longrightarrow>
        fst (evs ! i) + rce_handleInterval c < fst (evs ! j)) \<and>
     (snd (evs ! i) \<noteq> RecoverSilent \<and> snd (evs ! j) = Recovered \<longrightarrow>
        fst (evs ! i) + rce_recoverInterval c < fst (evs ! j))"
proof -
  have "timing_run (rce_handleInterval c) (rce_recoverInterval c) [] (timing_of c)"
    unfolding timing_of_def assms(3-5) by (rule timing_run.start)
  from check_runs_timing [OF assms(1) this assms(2)]
  have "timing_run (rce_handleInterval c) (rce_recoverInterval c) (rev evs) (timing_of c')" by simp
  from run_pair [OF this assms(6,7)] show ?thesis by blast
qed

definition hot_exp :: "unit exp_ops" where
  "hot_exp = \<lparr>exp_new = (\<lambda>s. Some ()), exp_evaluate = (\<lambda>e p. EvalBool (gmap_get0 p ''load'' > 3)), exp_string = (\<lambda>e. ''load > 3'')\<rparr>"

definition hot_rule :: "(float64, unit, int, unit) ruleCheckEntry" where
  "hot_rule = \<lparr>rce_name = ''cpu'',
     rce_rules = [\<lparr>re_detects = [DExpr (NewExpressionDetector [''load''] () [ExpressionWarningArgs 1 0])],
                   re_actions = [ScheduleAction ''cpu'']\<rparr>],
     rce_recoverRules = [], rce_samples = 1, rce_duration = 0, rce_checkInterval = 1, rce_handleInterval = 5,
     rce_recoverInterval = 20, rce_lastCheck = 0, rce_lastHandle = None, rce_lastRecover = None, rce_lastAbnormal = None\<rparr>"

definition load_values :: "real \<Rightarrow> metricsValuesFunc" where
  "load_values v = (\<lambda>metrics samples duration. Some [\<lparr>Ts = 1, Vals = [(''load'', v)]\<rparr>])"

definition hot_checks :: "(unit \<times> metricsValuesFunc \<times> go_time) list" where
  "hot_checks = [((), load_values 4, 10), ((), load_values 5, 12), ((), load_values 1, 30), ((), load_values 1, 40)]"

lemma hot_runs:
  "\<exists>c'. check_runs sample_ma hot_exp nanoQ hot_checks hot_rule =
     Some (c', [(10, Handled), (12, HandleSilent), (30, RecoverSilent), (40, Recovered)])"
  by (simp add: hot_checks_def hot_rule_def load_values_def checkRule_def checkAbnormal_def checkNormal_def
      handleRecover_def not_yet_def recover_since_def rule_flags_def recover_flags_def outcome_of_def
      NewExpressionDetector_def ExpressionWarningArgs_def expr_AddAll_def expr_add_def expr_detect_def
      expr_IsAnomaly_def hot_exp_def gmap_put_all_def gmap_get0_def schedule_DoAction_def time_sub_def Let_def)

theorem checkRule_keeps_distance_witness:
  "\<exists>c' evs. check_runs sample_ma hot_exp nanoQ hot_checks hot_rule = Some (c', evs) \<and> snd (evs ! 3) = Recovered \<and>
     fst (evs ! 1) + rce_recoverInterval hot_rule < fst (evs ! 3)"
proof -
  obtain c' where r: "check_runs sample_ma hot_exp nanoQ hot_checks hot_rule =
      Some (c', [(10, Handled), (12, HandleSilent), (30, RecoverSilent), (40, Recovered)])"
    using hot_runs by blast
  from checkRule_keeps_distance [OF r, of 1 3]
  have "fst ([(10, Handled), (12, HandleSilent), (30, RecoverSilent), (40, Recovered)] ! 1) + rce_recoverInterval hot_rule <
      fst ([(10, Handled), (12, HandleSilent), (30, RecoverSilent), (40, Recovered)] ! 3)"
    by (simp add: hot_checks_def hot_rule_def)
  with r show ?thesis by (intro exI conjI) (assumption | simp)+
qed

section \<open>The window that is fetched\<close>

definition det_covered :: "('m, 'e) detector \<Rightarrow> int \<Rightarrow> go_duration \<Rightarrow> bool" where
  "det_covered d samples duration \<longleftrightarrow> det_SampleDuration d \<le> duration \<and> det_SampleCount d \<le> max samples 1"

lemma det_covered_mono: "det_covered d s t \<Longrightarrow> s \<le> s' \<Longrightarrow> t \<le> t' \<Longrightarrow> det_covered d s' t'"
  by (auto simp: det_covered_def)

lemma factory_covered:
  "generateDetectorFactory M E metrics cfg = Some (Inr (Some d, samples, duration)) \<Longrightarrow> det_covered d samples duration"
  by (auto simp: generateDetectorFactory_def det_covered_def NewExpressionDetector_def ExpressionWarningArgs_def
      NewEwmaDetector_def go_simps split: if_splits detect_args.splits option.splits)

lemma add_detector_covered:
  assumes "add_detector M E metrics cfg (fs, s, t) = Some (fs', s', t')"
    and "(\<forall>d. Some d \<in> set fs \<longrightarrow> det_covered d s t) \<and> 0 \<le> s"
  shows "(\<forall>d. Some d \<in> set fs' \<longrightarrow> det_covered d s' t') \<and> 0 \<le> s'"
proof -
  obtain f cs ct where f: "generateDetectorFactory M E metrics cfg = Some (Inr (f, cs, ct))"
    "fs' = fs @ [f]" "s' = max s cs" "t' = max t ct"
    using assms(1) by (auto simp: add_detector_def split: option.splits sum.splits)
  then have "det_covered d s' t'" if "f = Some d" for d
    using factory_covered that det_covered_mono by (metis max.cobounded2)
  moreover have "det_covered d s' t'" if "Some d \<in> set fs" for d
    using assms(2) that f det_covered_mono by (metis max.cobounded1)
  ultimately show ?thesis using assms(2) f by auto
qed

lemma parse_covered:
  assumes "parseDetectorRule M E Q J name metrics cfg = Some (Inr (factories, actions, samples, duration))"
  shows "(\<forall>d. Some d \<in> set factories \<longrightarrow> det_covered d samples duration) \<and> 0 \<le> samples"
proof -
  obtain c :: DetectActionConfig where "foldM (add_detector M E metrics) (Detects c) ([], 0, 0) = Some (factories, samples, duration)"
    using assms by (auto simp: parseDetectorRule_def option_bind_eq_Some split: option.splits)
  then have "case (factories, samples, duration) of (fs, s, t) \<Rightarrow> (\<forall>d. Some d \<in> set fs \<longrightarrow> det_covered d s t) \<and> 0 \<le> s"
    by (rule foldM_invariant) (use add_detector_covered in \<open>simp, fastforce\<close>)
  then show ?thesis by simp
qed

definition rules_covered :: "('m, 'e, 'q, 'w) ruleEntry list \<Rightarrow> int \<Rightarrow> go_duration \<Rightarrow> bool" where
  "rules_covered rules samples duration \<longleftrightarrow>
     (\<forall>rule \<in> set rules. \<forall>d \<in> set (re_detects rule). det_covered d samples duration)"

lemma rules_covered_mono: "rules_covered rs s t \<Longrightarrow> s \<le> s' \<Longrightarrow> t \<le> t' \<Longrightarrow> rules_covered rs s' t'"
  by (meson rules_covered_def det_covered_mono)

lemma those_in: "those fs = Some ds \<Longrightarrow> d \<in> set ds \<Longrightarrow> Some d \<in> set fs"
  by (induction fs arbitrary: ds) (auto split: option.splits)

lemma entry_covered:
  assumes "generateDetectActionEntry M E Q J name metrics cfg = Some (Inr (entry, samples, duration))"
  shows "rules_covered [entry] samples duration"
proof -
  obtain fs acs ds where "parseDetectorRule M E Q J name metrics cfg = Some (Inr (fs, acs, samples, duration))"
    and d: "those fs = Some ds" "re_detects entry = ds" "re_actions entry = acs"
    using assms unfolding generateDetectActionEntry_def option_bind_eq_Some
    by (elim exE conjE) (auto simp: option_bind_eq_Some split: sum.split_asm prod.split_asm)
  then show ?thesis using parse_covered those_in [OF d(1)] by (fastforce simp: rules_covered_def)
qed

lemma add_rule_covered:
  assumes "add_rule M E Q J name metrics cfg (rs, s, t) = Some (rs', s', t')" and "rules_covered rs s t"
  shows "rules_covered rs' s' t' \<and> s \<le> s' \<and> t \<le> t'"
proof -
  consider "rs' = rs" "s' = s" "t' = t"
    | e cs ct where "generateDetectActionEntry M E Q J name metrics cfg = Some (Inr (e, cs, ct))"
      "rs' = rs @ [e]" "s' = max s cs" "t' = max t ct"
    using assms(1) by (auto simp: add_rule_def max_def split: option.splits sum.splits if_splits)
  then show ?thesis
  proof cases
    case 1
    with assms(2) show ?thesis by simp
  next
    case (2 e cs ct)
    have "rules_covered [e] s' t'" using rules_covered_mono [OF entry_covered [OF 2(1)]] 2(3,4) by simp
    moreover have "rules_covered rs s' t'" using rules_covered_mono [OF assms(2)] 2(3,4) by simp
    ultimately show ?thesis using 2 by (auto simp: rules_covered_def)
  qed
qed

lemma ruleList_covered:
  assumes "foldM (add_rule M E Q J name metrics) cfgs ([], s0, t0) = Some (rules, samples, duration)"
  shows "rules_covered rules samples duration \<and> s0 \<le> samples \<and> t0 \<le> duration"
proof -
  have "case (rules, samples, duration) of (rs, s, t) \<Rightarrow> rules_covered rs s t \<and> s0 \<le> s \<and> t0 \<le> t"
    using assms
  proof (rule foldM_invariant, goal_cases)
    case 1
    then show ?case by (simp add: rules_covered_def)
  next
    case (2 x st st')
    then show ?case by (cases st; cases st') (auto dest!: add_rule_covered)
  qed
  then show ?thesis by simp
qed

text \<open>
  The window of metrics that is fetched for a rule is large enough for each of its detectors,
  for the recover rules too: the duration is at least every detector's duration, and the
  number of samples is unlimited (-1) or at least every detector's number of samples.
\<close>

lemma generateRules_window_suffices:
  assumes "generateRules M E Q J rc = Some (rules, recoverRules, samples, duration)"
    and "rule \<in> set rules \<union> set recoverRules" and "d \<in> set (re_detects rule)"
  shows "det_SampleDuration d \<le> duration \<and> (samples = - 1 \<or> det_SampleCount d \<le> samples)"
proof -
  obtain s1 t1 s2 where r: "foldM (add_rule M E Q J (rc_Name rc) (rc_Metrics rc)) (rc_Rules rc) ([], 0, 0) = Some (rules, s1, t1)"
    "foldM (add_rule M E Q J (rc_Name rc) (rc_Metrics rc)) (rc_RecoverRules rc) ([], s1, t1) = Some (recoverRules, s2, duration)"
    "samples = (if s2 = 0 then - 1 else s2)"
    using assms(1) by (auto simp: generateRules_def option_bind_eq_Some)
  have 1: "rules_covered rules s1 t1" "0 \<le> s1" using ruleList_covered [OF r(1)] by simp_all
  have 2: "rules_covered recoverRules s2 duration" "s1 \<le> s2" "t1 \<le> duration" using ruleList_covered [OF r(2)] by simp_all
  have "rules_covered rules s2 duration" using rules_covered_mono [OF 1(1) 2(2,3)] .
  with 2(1) assms(2,3) have "det_covered d s2 duration" by (auto simp: rules_covered_def)
  then show ?thesis using 1(2) 2(2) by (auto simp: det_covered_def r(3))
qed

definition cpu_rule :: RuleCheckConfig where
  "cpu_rule = \<lparr>rc_Name = ''cpu'', rc_Metrics = [''load''], rc_CheckInterval = 1, rc_HandleInterval = 1, rc_RecoverInterval = 1,
     rc_Rules = [Some \<lparr>Detects = [\<lparr>dc_Name = ''expression'', dc_ArgsStr = [],
       dc_Args = ArgsExpression \<lparr>Expression = ''load > 3'', WarningCount = 3, WarningDuration = 7\<rparr>\<rparr>], Actions = []\<rparr>],
     rc_RecoverRules = []\<rparr>"

definition cpu_detector :: "(float64, unit) detector" where
  "cpu_detector = DExpr (NewExpressionDetector [''load''] () [ExpressionWarningArgs 3 7])"

lemma cpu_rules_generated:
  "generateRules sample_ma hot_exp nanoQ (\<lambda>s. None) cpu_rule =
     Some ([\<lparr>re_detects = [cpu_detector], re_actions = []\<rparr>], [], 3, 7)"
  by (simp add: generateRules_def add_rule_def add_detector_def generateDetectActionEntry_def parseDetectorRule_def
      generateDetectorFactory_def cpu_rule_def cpu_detector_def hot_exp_def DetectionExpression_def)

theorem generateRules_window_suffices_witness:
  "det_SampleDuration cpu_detector \<le> 7 \<and> ((3 :: int) = - 1 \<or> det_SampleCount cpu_detector \<le> 3)"
  by (rule generateRules_window_suffices [OF cpu_rules_generated]) auto

end
