(* ===== verification/NodeState.thy ===== *)
theory NodeState
  imports Float64 GoStrings
begin

text \<open>
  \<^verbatim>\<open>statestore/common/node/type.go\<close>: the state of the node and how a metric is read from it by name.
  Metric names are the struct tags; \<^verbatim>\<open>structs.Map\<close> turns a struct into the map from the tags of its
  exported fields to their values, and the code then asserts that the value is a \<^verbatim>\<open>float64\<close>. A
  failing assertion is a panic: the result \<open>None\<close>. An error is \<open>Inl\<close>.
\<close>

section \<open>Data\<close>

datatype field_value = FloatV float64 | FloatsV "float64 list" | IntV int | UintV nat | StringV string

datatype metric_error = MetricNotFound | NilData | InvalidDevice

type_synonym metric_result = "(metric_error + float64) option"

record NodeCpu =
  CpuTotal :: float64
  CpuPerCore :: "float64 list"
  CpuAvg :: float64
  CpuStealTotal :: float64
  CpuStealPerCore :: "float64 list"
  CpuOfflineTotal :: float64

record NodeLoad =
  Load1Min :: float64
  Load5Min :: float64
  Load15Min :: float64

record NodeMemory =
  nm_Total :: float64
  nm_UsageTotal :: float64
  nm_UsageCache :: float64
  nm_UsageRss :: float64
  nm_Available :: float64
  nm_OfflineTotal :: float64

record DiskIOState =
  DiskReadKiBps :: float64
  DiskWriteKiBps :: float64
  DiskReadIOps :: float64
  DiskWriteIOps :: float64
  disk_Util :: float64

record NodeDiskIO =
  IOState :: "(string, DiskIOState) gomap"

record IfaceStat =
  Iface :: string
  Speed :: int
  NetRecvkbps :: float64
  NetSentkbps :: float64
  NetRecvPckps :: float64
  NetSentPckps :: float64
  NetDropIn :: float64
  NetDropOut :: float64
  NetFifoIn :: float64
  NetFifoOut :: float64
  NetErrin :: float64
  NetErrout :: float64

record NodeNetwork =
  IfaceStats :: "(string, IfaceStat) gomap"

record NodeProcess =
  NrUninterruptible :: nat

record NodeResourceState =
  nrs_Timestamp :: go_time
  nrs_CPU :: "NodeCpu option"
  nrs_Load :: "NodeLoad option"
  nrs_Memory :: "NodeMemory option"
  nrs_DiskIO :: "NodeDiskIO option"
  nrs_NetIO :: "NodeNetwork option"
  nrs_Process :: "NodeProcess option"

section \<open>Tags\<close>

definition cpu_fields :: "NodeCpu \<Rightarrow> (string, field_value) gomap" where
  "cpu_fields c = [(''cpu_total'', FloatV (CpuTotal c)), (''cpu_per_core'', FloatsV (CpuPerCore c)),
     (''cpu_avg'', FloatV (CpuAvg c)), (''cpu_steal_total'', FloatV (CpuStealTotal c)),
     (''cpu_steal_per_core'', FloatsV (CpuStealPerCore c)), (''cpu_offline_total'', FloatV (CpuOfflineTotal c))]"

definition load_fields :: "NodeLoad \<Rightarrow> (string, field_value) gomap" where
  "load_fields l = [(''load_1min'', FloatV (Load1Min l)), (''load_5min'', FloatV (Load5Min l)),
     (''load_15min'', FloatV (Load15Min l))]"

definition memory_fields :: "NodeMemory \<Rightarrow> (string, field_value) gomap" where
  "memory_fields m = [(''memory_total'', FloatV (nm_Total m)), (''memory_usage_total'', FloatV (nm_UsageTotal m)),
     (''memory_usage_cache'', FloatV (nm_UsageCache m)), (''memory_usage_rss'', FloatV (nm_UsageRss m)),
     (''memory_available'', FloatV (nm_Available m)), (''memory_offline_total'', FloatV (nm_OfflineTotal m))]"

definition diskio_fields :: "DiskIOState \<Rightarrow> (string, field_value) gomap" where
  "diskio_fields d = [(''diskio_read_kibps'', FloatV (DiskReadKiBps d)), (''diskio_write_kibps'', FloatV (DiskWriteKiBps d)),
     (''diskio_read_iops'', FloatV (DiskReadIOps d)), (''diskio_write_iops'', FloatV (DiskWriteIOps d)),
     (''diskio_util'', FloatV (disk_Util d))]"

definition iface_fields :: "IfaceStat \<Rightarrow> (string, field_value) gomap" where
  "iface_fields s = [(''iface'', StringV (Iface s)), (''netio_speed'', IntV (Speed s)),
     (''netio_recv_kbps'', FloatV (NetRecvkbps s)), (''netio_sent_kbps'', FloatV (NetSentkbps s)),
     (''netio_recv_pckps'', FloatV (NetRecvPckps s)), (''netio_sent_pckps'', FloatV (NetSentPckps s)),
     (''netio_drop_in'', FloatV (NetDropIn s)), (''netio_drop_out'', FloatV (NetDropOut s)),
     (''netio_fifo_in'', FloatV (NetFifoIn s)), (''netio_fifo_out'', FloatV (NetFifoOut s)),
     (''netio_err_in'', FloatV (NetErrin s)), (''netio_err_out'', FloatV (NetErrout s))]"

definition process_fields :: "NodeProcess \<Rightarrow> (string, field_value) gomap" where
  "process_fields p = [(''process_nr_uninterruptible'', UintV (NrUninterruptible p))]"

section \<open>Reading a metric\<close>

text \<open>\<^verbatim>\<open>value.(float64)\<close>\<close>

definition as_float :: "field_value \<Rightarrow> metric_result" where
  "as_float v = (case v of FloatV x \<Rightarrow> Some (Inr x) | _ \<Rightarrow> None)"

definition field_value_of :: "(string, field_value) gomap \<Rightarrow> string \<Rightarrow> metric_result" where
  "field_value_of m res =
     (case map_of m res of None \<Rightarrow> Some (Inl MetricNotFound) | Some v \<Rightarrow> as_float v)"

definition cpu_GetValue :: "NodeCpu \<Rightarrow> string \<Rightarrow> string \<Rightarrow> metric_result" where
  "cpu_GetValue c res device =
     (case map_of (cpu_fields c) res of
        None \<Rightarrow> Some (Inl MetricNotFound)
      | Some v \<Rightarrow>
          if device = [] then as_float v
          else case atoi device of
            None \<Rightarrow> Some (Inl InvalidDevice)
          | Some index \<Rightarrow>
              if index < 0 \<or> int (length (CpuPerCore c)) \<le> index then Some (Inl InvalidDevice)
              else case v of
                FloatsV xs \<Rightarrow> if nat index < length xs then Some (Inr (xs ! nat index)) else None
              | _ \<Rightarrow> None)"

definition load_GetValue :: "NodeLoad \<Rightarrow> string \<Rightarrow> string \<Rightarrow> metric_result" where
  "load_GetValue l res device = field_value_of (load_fields l) res"

definition memory_GetValue :: "NodeMemory \<Rightarrow> string \<Rightarrow> string \<Rightarrow> metric_result" where
  "memory_GetValue m res device = field_value_of (memory_fields m) res"

definition disk_GetValue :: "DiskIOState \<Rightarrow> string \<Rightarrow> string \<Rightarrow> metric_result" where
  "disk_GetValue d res device = field_value_of (diskio_fields d) res"

definition diskio_GetValue :: "NodeDiskIO \<Rightarrow> string \<Rightarrow> string \<Rightarrow> metric_result" where
  "diskio_GetValue nd res device =
     (case map_of (IOState nd) device of
        None \<Rightarrow> Some (Inl InvalidDevice)
      | Some d \<Rightarrow> disk_GetValue d res device)"

definition iface_GetValue :: "IfaceStat \<Rightarrow> string \<Rightarrow> string \<Rightarrow> metric_result" where
  "iface_GetValue s res device = field_value_of (iface_fields s) res"

definition netio_GetValue :: "NodeNetwork \<Rightarrow> string \<Rightarrow> string \<Rightarrow> metric_result" where
  "netio_GetValue nn res device =
     (case map_of (IfaceStats nn) device of
        None \<Rightarrow> Some (Inl InvalidDevice)
      | Some s \<Rightarrow> iface_GetValue s res device)"

definition process_GetValue :: "NodeProcess \<Rightarrow> string \<Rightarrow> string \<Rightarrow> metric_result" where
  "process_GetValue p res device = field_value_of (process_fields p) res"

definition nrs_GetValue :: "NodeResourceState \<Rightarrow> string \<Rightarrow> string \<Rightarrow> metric_result" where
  "nrs_GetValue nrs res device =
     (case strings_Index res (CHR ''_'') of
        None \<Rightarrow> Some (Inl MetricNotFound)
      | Some prefixIndex \<Rightarrow>
          let prefix = take prefixIndex res
          in if prefix = ''cpu'' then (case nrs_CPU nrs of None \<Rightarrow> Some (Inl NilData) | Some x \<Rightarrow> cpu_GetValue x res device)
             else if prefix = ''load'' then (case nrs_Load nrs of None \<Rightarrow> Some (Inl NilData) | Some x \<Rightarrow> load_GetValue x res device)
             else if prefix = ''memory'' then (case nrs_Memory nrs of None \<Rightarrow> Some (Inl NilData) | Some x \<Rightarrow> memory_GetValue x res device)
             else if prefix = ''diskio'' then (case nrs_DiskIO nrs of None \<Rightarrow> Some (Inl NilData) | Some x \<Rightarrow> diskio_GetValue x res device)
             else if prefix = ''netio'' then (case nrs_NetIO nrs of None \<Rightarrow> Some (Inl NilData) | Some x \<Rightarrow> netio_GetValue x res device)
             else if prefix = ''process'' then (case nrs_Process nrs of None \<Rightarrow> Some (Inl NilData) | Some x \<Rightarrow> process_GetValue x res device)
             else Some (Inl MetricNotFound))"

definition cpu_GetTags :: "NodeCpu \<Rightarrow> string list" where
  "cpu_GetTags c = map fst (cpu_fields c)"

definition load_GetTags :: "NodeLoad \<Rightarrow> string list" where
  "load_GetTags l = map fst (load_fields l)"

definition memory_GetTags :: "NodeMemory \<Rightarrow> string list" where
  "memory_GetTags m = map fst (memory_fields m)"

definition diskio_GetTags :: "DiskIOState \<Rightarrow> string list" where
  "diskio_GetTags d = map fst (diskio_fields d)"

definition iface_GetTags :: "IfaceStat \<Rightarrow> string list" where
  "iface_GetTags s = map fst (iface_fields s)"

definition process_GetTags :: "NodeProcess \<Rightarrow> string list" where
  "process_GetTags p = map fst (process_fields p)"

text \<open>All tags; of the disks and interfaces the first one visited speaks for all.\<close>

definition nrs_GetTags :: "NodeResourceState \<Rightarrow> string list" where
  "nrs_GetTags nrs =
     (case nrs_CPU nrs of None \<Rightarrow> [] | Some c \<Rightarrow> cpu_GetTags c) @
     (case nrs_Load nrs of None \<Rightarrow> [] | Some l \<Rightarrow> load_GetTags l) @
     (case nrs_Memory nrs of None \<Rightarrow> [] | Some m \<Rightarrow> memory_GetTags m) @
     (case nrs_DiskIO nrs of None \<Rightarrow> [] | Some nd \<Rightarrow>
        (case IOState nd of [] \<Rightarrow> [] | (k, d) # _ \<Rightarrow> diskio_GetTags d)) @
     (case nrs_NetIO nrs of None \<Rightarrow> [] | Some nn \<Rightarrow>
        (case IfaceStats nn of [] \<Rightarrow> [] | (k, s) # _ \<Rightarrow> iface_GetTags s)) @
     (case nrs_Process nrs of None \<Rightarrow> [] | Some p \<Rightarrow> process_GetTags p)"

text \<open>The state whose tags are the metrics that rules may use.\<close>

definition nodeStatExample :: NodeResourceState where
  "nodeStatExample = \<lparr>nrs_Timestamp = nilTime,
     nrs_CPU = Some \<lparr>CpuTotal = 0, CpuPerCore = [], CpuAvg = 0, CpuStealTotal = 0, CpuStealPerCore = [], CpuOfflineTotal = 0\<rparr>,
     nrs_Load = Some \<lparr>Load1Min = 0, Load5Min = 0, Load15Min = 0\<rparr>,
     nrs_Memory = Some \<lparr>nm_Total = 0, nm_UsageTotal = 0, nm_UsageCache = 0, nm_UsageRss = 0, nm_Available = 0, nm_OfflineTotal = 0\<rparr>,
     nrs_DiskIO = Some \<lparr>IOState = [(''example'', \<lparr>DiskReadKiBps = 0, DiskWriteKiBps = 0, DiskReadIOps = 0,
        DiskWriteIOps = 0, disk_Util = 0\<rparr>)]\<rparr>,
     nrs_NetIO = Some \<lparr>IfaceStats = [(''example'', \<lparr>Iface = [], Speed = 0, NetRecvkbps = 0, NetSentkbps = 0, NetRecvPckps = 0,
        NetSentPckps = 0, NetDropIn = 0, NetDropOut = 0, NetFifoIn = 0, NetFifoOut = 0, NetErrin = 0, NetErrout = 0\<rparr>)]\<rparr>,
     nrs_Process = Some \<lparr>NrUninterruptible = 0\<rparr>\<rparr>"

section \<open>Panics\<close>

text \<open>The panics of the parts; the tags of a part share its prefix.\<close>

lemma index_prefix: "strings_Index s c = Some i \<Longrightarrow> take i s = p \<longleftrightarrow> (\<exists>t. s = p @ c # t \<and> c \<notin> set p)"
proof
  show "\<exists>t. s = p @ c # t \<and> c \<notin> set p" if "strings_Index s c = Some i" "take i s = p"
    using that
  proof (induction s arbitrary: i p)
    case (Cons x s)
    then show ?case by (cases "x = c") (auto simp: Cons_eq_append_conv)
  qed simp
  show "take i s = p" if "strings_Index s c = Some i" "\<exists>t. s = p @ c # t \<and> c \<notin> set p"
    using that Index_append by fastforce
qed

lemma field_panics: "field_value_of m res = None \<longleftrightarrow> (\<exists>v. map_of m res = Some v \<and> (\<forall>x. v \<noteq> FloatV x))"
  by (auto simp: field_value_of_def as_float_def split: option.split field_value.split)

lemma float_parts_total [simp]:
  "load_GetValue l res device \<noteq> None" "memory_GetValue m res device \<noteq> None" "disk_GetValue d res device \<noteq> None"
  by (auto simp: load_GetValue_def memory_GetValue_def disk_GetValue_def field_panics
      load_fields_def memory_fields_def diskio_fields_def split: if_splits)

lemma iface_panics: "iface_GetValue s res device = None \<longleftrightarrow> res = ''iface'' \<or> res = ''netio_speed''"
  by (auto simp: iface_GetValue_def field_panics iface_fields_def)

lemma process_panics: "process_GetValue p res device = None \<longleftrightarrow> res = ''process_nr_uninterruptible''"
  by (auto simp: process_GetValue_def field_panics process_fields_def)

definition cpu_floats :: "string list" where
  "cpu_floats = [''cpu_total'', ''cpu_avg'', ''cpu_steal_total'', ''cpu_offline_total'']"

lemma cpu_field_cases:
  obtains (float) x where "res \<in> set cpu_floats" "map_of (cpu_fields c) res = Some (FloatV x)"
  | (core) "res = ''cpu_per_core''" "map_of (cpu_fields c) res = Some (FloatsV (CpuPerCore c))"
  | (steal) "res = ''cpu_steal_per_core''" "map_of (cpu_fields c) res = Some (FloatsV (CpuStealPerCore c))"
  | (none) "res \<notin> set cpu_floats" "res \<noteq> ''cpu_per_core''" "res \<noteq> ''cpu_steal_per_core''" "map_of (cpu_fields c) res = None"
proof -
  consider "res \<in> set cpu_floats" | "res = ''cpu_per_core''" | "res = ''cpu_steal_per_core''"
    | "res \<notin> set cpu_floats" "res \<noteq> ''cpu_per_core''" "res \<noteq> ''cpu_steal_per_core''" by blast
  then show thesis
  proof cases
    case 1
    then have "\<exists>x. map_of (cpu_fields c) res = Some (FloatV x)" by (auto simp: cpu_floats_def cpu_fields_def)
    with 1 that(1) show thesis by blast
  next
    case 2
    with that(2) show thesis by (simp add: cpu_fields_def)
  next
    case 3
    with that(3) show thesis by (simp add: cpu_fields_def)
  next
    case 4
    then have "res \<notin> fst ` set (cpu_fields c)" by (simp add: cpu_floats_def cpu_fields_def)
    then have "map_of (cpu_fields c) res = None" by (simp add: map_of_eq_None_iff)
    with 4 that(4) show thesis by blast
  qed
qed

lemma cpu_floats_not_cores: "''cpu_per_core'' \<notin> set cpu_floats" "''cpu_steal_per_core'' \<notin> set cpu_floats"
  by (simp_all add: cpu_floats_def)

definition cpu_panic :: "NodeCpu \<Rightarrow> string \<Rightarrow> string \<Rightarrow> bool" where
  "cpu_panic c res device \<longleftrightarrow>
     (if device = [] then res = ''cpu_per_core'' \<or> res = ''cpu_steal_per_core''
      else case atoi device of
        None \<Rightarrow> False
      | Some index \<Rightarrow> 0 \<le> index \<and> index < int (length (CpuPerCore c)) \<and>
          (res \<in> set cpu_floats \<or> res = ''cpu_steal_per_core'' \<and> int (length (CpuStealPerCore c)) \<le> index))"

lemma cpu_panics: "cpu_GetValue c res device = None \<longleftrightarrow> cpu_panic c res device"
proof (cases rule: cpu_field_cases [of res c])
  case (float x)
  then have "res \<noteq> ''cpu_per_core''" "res \<noteq> ''cpu_steal_per_core''" using cpu_floats_not_cores by metis+
  with float show ?thesis by (auto simp: cpu_GetValue_def cpu_panic_def as_float_def split: option.split)
next
  case core
  then show ?thesis using cpu_floats_not_cores by (auto simp: cpu_GetValue_def cpu_panic_def as_float_def split: option.split)
next
  case steal
  then show ?thesis using cpu_floats_not_cores by (auto simp: cpu_GetValue_def cpu_panic_def as_float_def split: option.split)
next
  case none
  then show ?thesis by (auto simp: cpu_GetValue_def cpu_panic_def split: option.split)
qed


lemma nrs_prefix:
  "strings_Index res (CHR ''_'') = Some 3 \<Longrightarrow> take 3 res = ''cpu'' \<Longrightarrow>
     nrs_GetValue nrs res device = (case nrs_CPU nrs of None \<Rightarrow> Some (Inl NilData) | Some x \<Rightarrow> cpu_GetValue x res device)"
  by (simp add: nrs_GetValue_def)

lemma cpu_panic_prefix: "cpu_panic c res device \<Longrightarrow> strings_Index res (CHR ''_'') = Some 3 \<and> take 3 res = ''cpu''"
  by (auto simp: cpu_panic_def cpu_floats_def numeral_eq_Suc split: if_splits option.splits)

lemma part_panics:
  "diskio_GetValue nd res device \<noteq> None"
  "netio_GetValue nn res device = None \<longleftrightarrow> gmap_has (IfaceStats nn) device \<and> (res = ''iface'' \<or> res = ''netio_speed'')"
  by (simp_all add: diskio_GetValue_def netio_GetValue_def iface_panics del: not_None_eq split: option.split)

lemma nrs_panic_part:
  assumes "nrs_GetValue nrs res device = None"
  shows "(\<exists>c. nrs_CPU nrs = Some c \<and> cpu_GetValue c res device = None) \<or>
     (\<exists>nn. nrs_NetIO nrs = Some nn \<and> CHR ''_'' \<in> set res \<and> netio_GetValue nn res device = None) \<or>
     (\<exists>p. nrs_Process nrs = Some p \<and> process_GetValue p res device = None)"
proof -
  obtain i where i: "strings_Index res (CHR ''_'') = Some i"
    using assms by (cases "strings_Index res (CHR ''_'')") (simp_all add: nrs_GetValue_def)
  then have u: "CHR ''_'' \<in> set res" using Index_None [of res "CHR ''_''"] by auto
  define prefix where "prefix = take i res"
  have "nrs_GetValue nrs res device = None" by fact
  then show ?thesis
    unfolding nrs_GetValue_def i option.case Let_def prefix_def [symmetric]
    using u by (simp split: if_split_asm option.split_asm add: part_panics(1) del: not_None_eq)
qed

text \<open>
  Reading a node metric panics exactly when the value behind the tag is not a \<^verbatim>\<open>float64\<close>: for per-core
  values without a core and single values with one, for the speed of an interface and for the
  number of uninterruptible processes; in all other cases it returns a value or an error. The
  last two are among the metrics that rules are allowed to use.
\<close>

lemma node_metric_panics:
  "(nrs_GetValue nrs res device = None \<longleftrightarrow>
      (\<exists>c. nrs_CPU nrs = Some c \<and> cpu_panic c res device) \<or>
      (\<exists>nn. nrs_NetIO nrs = Some nn \<and> gmap_has (IfaceStats nn) device \<and> res = ''netio_speed'') \<or>
      (nrs_Process nrs \<noteq> None \<and> res = ''process_nr_uninterruptible'')) \<and>
   {''netio_speed'', ''process_nr_uninterruptible''} \<subseteq> set (nrs_GetTags nodeStatExample)"
  (is "(?l \<longleftrightarrow> ?r) \<and> _")
proof (intro conjI iffI)
  assume ?l
  from nrs_panic_part [OF this] show ?r
    unfolding part_panics process_panics cpu_panics by auto
next
  assume ?r
  then consider (cpu) c where "nrs_CPU nrs = Some c" "cpu_panic c res device"
    | (net) nn where "nrs_NetIO nrs = Some nn" "gmap_has (IfaceStats nn) device" "res = ''netio_speed''"
    | (proc) "nrs_Process nrs \<noteq> None" "res = ''process_nr_uninterruptible''" by blast
  then show ?l
  proof cases
    case cpu
    then show ?thesis using cpu_panic_prefix [of c res device] by (simp add: nrs_prefix cpu_panics)
  next
    case net
    then show ?thesis by (simp add: nrs_GetValue_def part_panics)
  next
    case proc
    then show ?thesis by (auto simp: nrs_GetValue_def process_panics)
  qed
next
  show "{''netio_speed'', ''process_nr_uninterruptible''} \<subseteq> set (nrs_GetTags nodeStatExample)"
    by (simp add: nrs_GetTags_def nodeStatExample_def iface_GetTags_def process_GetTags_def iface_fields_def process_fields_def)
qed

end
