(* ===== verification/NodeCheck.thy ===== *)
theory NodeCheck
  imports RuleCheckProps NodeState
begin

text \<open>
  \<^verbatim>\<open>rule_check_node.go\<close>: the checker of node metrics. What the state store answers is an
  input: the states it returns for a range and the most recent one.
\<close>

section \<open>The store\<close>

text \<open>What the store answers during one check; \<open>None\<close> is an error.\<close>

record node_store =
  st_range :: "go_time \<Rightarrow> int \<Rightarrow> NodeResourceState list option"
  st_recent :: "NodeResourceState option"

section \<open>Choosing metric values\<close>

definition node_params :: "string list \<Rightarrow> NodeResourceState \<Rightarrow> (string, float64) gomap option" where
  "node_params metrics st =
     foldM (\<lambda>metric params. do {
         (device, devMetric, originalMetric) \<leftarrow> GetDeviceNameFromMetric metric;
         r \<leftarrow> nrs_GetValue st originalMetric device;
         Some (AList.update devMetric (case r of Inl err \<Rightarrow> 0 | Inr m \<Rightarrow> m) params)
       }) metrics []"

text \<open>The loop over the states: a state is skipped when it and its successor are too old.\<close>

fun node_values :: "string list \<Rightarrow> go_time \<Rightarrow> NodeResourceState list \<Rightarrow> TimedData list option" where
  "node_values metrics startTime [] = Some []"
| "node_values metrics startTime (st # sts) =
     (if startTime > nrs_Timestamp st \<and> sts \<noteq> [] \<and> startTime > nrs_Timestamp (hd sts)
      then node_values metrics startTime sts
      else do {
        params \<leftarrow> node_params metrics st;
        vals \<leftarrow> node_values metrics startTime sts;
        Some (\<lparr>Ts = nrs_Timestamp st, Vals = params\<rparr> # vals)
      })"

definition sample_start :: "int \<Rightarrow> nat \<Rightarrow> nat" where
  "sample_start samples n = (if samples > 0 \<and> int n > samples then n - nat samples else 0)"

definition getNodeMetricsValues ::
  "string list \<Rightarrow> NodeResourceState list \<Rightarrow> int \<Rightarrow> go_duration \<Rightarrow> TimedData list option" where
  "getNodeMetricsValues metrics sts samples duration =
     (if sts = [] then Some []
      else let i = sample_start samples (length sts);
               startTime = (if duration \<noteq> 0 then nrs_Timestamp (last sts) - duration else nilTime)
           in node_values metrics startTime (drop i sts))"

section \<open>The checker\<close>

record ('m, 'e, 'q) nodeHealthChecker =
  nhc_ruleCheckers :: "('m, 'e, 'q, node_store) ruleCheckEntry list"
  nhc_predictedReserved :: "'q resource_list"

text \<open>A nil resource is \<open>Some None\<close>; a recent state without memory data makes the read of its field panic.\<close>

definition getMemConflictedQuantity ::
  "'q qops \<Rightarrow> 'q resource_list \<Rightarrow> node_store \<Rightarrow> bool \<Rightarrow> 'q ActionResource option option" where
  "getMemConflictedQuantity Q predictedReserved store conflicting =
     (if \<not> conflicting then Some None
      else case st_recent store of
        None \<Rightarrow> Some None
      | Some nodeSt \<Rightarrow> do {
          memory \<leftarrow> nrs_Memory nodeSt;
          let overUsed = q_value Q (rl_get Q predictedReserved ResourceMemory) - go_trunc (nm_Available memory);
          Some (if overUsed \<le> 0 then None
                else Some \<lparr>ar_Name = ResourceMemory, ar_Conflicting = conflicting,
                  ar_ConflictQuantity = [(FormulaTotal, q_new Q (- overUsed))]\<rparr>)
        })"

definition generateSelfDefineHandler ::
  "'q qops \<Rightarrow> 'q resource_list \<Rightarrow> ('q, node_store) action list \<Rightarrow> ('q, node_store) action list" where
  "generateSelfDefineHandler Q reserved = map (\<lambda>ac. case ac of
       AdjustAction a \<Rightarrow>
         if act_resource a = ''memory''
         then AdjustAction (InitSelfHandler ''memory'' (getMemConflictedQuantity Q reserved) a)
         else AdjustAction a
     | _ \<Rightarrow> ac)"

definition new_node_rule ::
  "'m ma_ops \<Rightarrow> 'e exp_ops \<Rightarrow> 'q qops \<Rightarrow> (string \<Rightarrow> adjustActionArgs option)
    \<Rightarrow> 'q resource_list \<Rightarrow> go_time \<Rightarrow> RuleCheckConfig \<Rightarrow> ('m, 'e, 'q, node_store) ruleCheckEntry option" where
  "new_node_rule M E Q J reserved now cfg =
     (if list_all (\<lambda>metric. case GetDeviceNameFromMetric metric of
            None \<Rightarrow> False | Some (dev, devMetric, originalMetric) \<Rightarrow> originalMetric \<in> set (nrs_GetTags nodeStatExample)) (rc_Metrics cfg)
      then do {
        (entries, recoverEntries, samples, duration) \<leftarrow> generateRules M E Q J cfg;
        Some \<lparr>rce_name = rc_Name cfg,
          rce_rules = map (\<lambda>r. r\<lparr>re_actions := generateSelfDefineHandler Q reserved (re_actions r)\<rparr>) entries,
          rce_recoverRules = recoverEntries, rce_samples = samples, rce_duration = duration,
          rce_checkInterval = rc_CheckInterval cfg, rce_handleInterval = rc_HandleInterval cfg,
          rce_recoverInterval = rc_RecoverInterval cfg, rce_lastCheck = now - rc_CheckInterval cfg,
          rce_lastHandle = None, rce_lastRecover = None, rce_lastAbnormal = None\<rparr>
      }
      else None)"

definition newNodeHealthChecker ::
  "'m ma_ops \<Rightarrow> 'e exp_ops \<Rightarrow> 'q qops \<Rightarrow> (string \<Rightarrow> adjustActionArgs option)
    \<Rightarrow> go_time \<Rightarrow> Resource \<Rightarrow> RuleCheckConfig list \<Rightarrow> ('m, 'e, 'q) nodeHealthChecker option" where
  "newNodeHealthChecker M E Q J now reserved cfgs = do {
     cpu \<leftarrow> CpuMilli reserved;
     mem \<leftarrow> MemMB reserved;
     let predicted = [(ResourceCPU, q_new_milli Q (go_trunc cpu)), (ResourceMemory, q_new Q (go_trunc mem * MemUnit))];
     rules \<leftarrow> those (map (new_node_rule M E Q J predicted now) cfgs);
     Some \<lparr>nhc_ruleCheckers = rules, nhc_predictedReserved = predicted\<rparr>
   }"

text \<open>
  The window of a rule's metrics: its duration and a buffer of the same length, but at most a
  minute. \<^verbatim>\<open>Seconds() > 60\<close> is decided on the exact duration.
\<close>

definition range_start :: "go_duration \<Rightarrow> go_time \<Rightarrow> go_time" where
  "range_start duration now =
     (if duration = 0 then nilTime
      else let buffer = (if duration > 60 * second then 1 * minute else duration)
           in now - duration - buffer)"

text \<open>One rule of a check: the updated rule, and what \<open>checkRule\<close> returned if the rule was due.\<close>

definition node_check_rule ::
  "'m ma_ops \<Rightarrow> 'e exp_ops \<Rightarrow> 'q qops \<Rightarrow> node_store \<Rightarrow> go_time
    \<Rightarrow> ('m, 'e, 'q, node_store) ruleCheckEntry
    \<Rightarrow> (('m, 'e, 'q, node_store) ruleCheckEntry \<times> ('q checkRet \<times> string list) option) option" where
  "node_check_rule M E Q store now rChecker =
     (if \<not> rce_lastCheck rChecker + rce_checkInterval rChecker < now then Some (rChecker, None)
      else let rChecker = rChecker\<lparr>rce_lastCheck := now\<rparr> in
           case st_range store (range_start (rce_duration rChecker) now) (rce_samples rChecker) of
             None \<Rightarrow> Some (rChecker, None)
           | Some sts \<Rightarrow>
               map_option (\<lambda>(rChecker, ret, alarms). (rChecker, Some (ret, alarms)))
                 (checkRule M E Q store (\<lambda>metrics. getNodeMetricsValues metrics sts) now rChecker))"

text \<open>Merging the result of a rule into the result of the check.\<close>

definition merge_ret :: "'q qops \<Rightarrow> 'q checkRet \<Rightarrow> 'q ActionResult \<Rightarrow> 'q ActionResult" where
  "merge_ret Q ret acResult =
     (let acResult = ActionResult_Merge Q acResult (cr_acRet ret)
      in if cr_anomaly ret \<and> \<not> cr_noNeedHandle ret then acResult\<lparr>SyncEvent := True\<rparr> else acResult)"

fun node_check_rules ::
  "'m ma_ops \<Rightarrow> 'e exp_ops \<Rightarrow> 'q qops \<Rightarrow> node_store \<Rightarrow> go_time
    \<Rightarrow> ('m, 'e, 'q, node_store) ruleCheckEntry list \<Rightarrow> 'q ActionResult
    \<Rightarrow> (('m, 'e, 'q, node_store) ruleCheckEntry list \<times> 'q ActionResult \<times> string list) option" where
  "node_check_rules M E Q store now [] acResult = Some ([], acResult, [])"
| "node_check_rules M E Q store now (r # rs) acResult = do {
     (r', out) \<leftarrow> node_check_rule M E Q store now r;
     let (acResult', alarms) = (case out of None \<Rightarrow> (acResult, []) | Some (ret, alarms) \<Rightarrow> (merge_ret Q ret acResult, alarms));
     (rs', acResult'', alarms') \<leftarrow> node_check_rules M E Q store now rs acResult';
     Some (r' # rs', acResult'', alarms @ alarms')
   }"

definition node_Check ::
  "'m ma_ops \<Rightarrow> 'e exp_ops \<Rightarrow> 'q qops \<Rightarrow> node_store \<Rightarrow> go_time
    \<Rightarrow> ('m, 'e, 'q) nodeHealthChecker
    \<Rightarrow> (('m, 'e, 'q) nodeHealthChecker \<times> 'q ActionResult \<times> string list) option" where
  "node_Check M E Q store now n = do {
     (rs, acResult, alarms) \<leftarrow> node_check_rules M E Q store now (nhc_ruleCheckers n) emptyResult;
     Some (n\<lparr>nhc_ruleCheckers := rs\<rparr>, acResult, alarms)
   }"

section \<open>Properties\<close>

lemma node_values_all:
  assumes "node_values metrics startTime sts = Some vals" and "\<forall>st \<in> set sts. startTime \<le> nrs_Timestamp st"
  shows "map Ts vals = map (nrs_Timestamp) sts"
  using assms by (induction sts arbitrary: vals) (auto simp: option_bind_eq_Some split: if_splits)

lemma node_values_suffix:
  assumes "node_values metrics startTime sts = Some vals" and "sorted (map (nrs_Timestamp) sts)"
  shows "\<exists>k. map Ts vals = map (nrs_Timestamp) (drop k sts) \<and> (\<forall>st \<in> set (take k sts). nrs_Timestamp st < startTime) \<and>
     (\<forall>t \<in> set (tl (map Ts vals)). startTime \<le> t)"
  using assms
proof (induction sts arbitrary: vals)
  case Nil
  then show ?case by simp
next
  case (Cons st sts)
  show ?case
  proof (cases "startTime > nrs_Timestamp st \<and> sts \<noteq> [] \<and> startTime > nrs_Timestamp (hd sts)")
    case True
    with Cons obtain k where "map Ts vals = map (nrs_Timestamp) (drop k sts)"
      "\<forall>st \<in> set (take k sts). nrs_Timestamp st < startTime" "\<forall>t \<in> set (tl (map Ts vals)). startTime \<le> t" by auto
    with True show ?thesis by (intro exI [of _ "Suc k"]) auto
  next
    case False
    then obtain params vals' where v: "node_values metrics startTime sts = Some vals'"
      "vals = \<lparr>Ts = nrs_Timestamp st, Vals = params\<rparr> # vals'"
      using Cons.prems(1) by (auto simp: option_bind_eq_Some)
    have all: "\<forall>s \<in> set sts. startTime \<le> nrs_Timestamp s"
      using False Cons.prems(2) by (cases sts) auto
    with node_values_all [OF v(1)] show ?thesis by (intro exI [of _ 0]) (auto simp: v(2))
  qed
qed

text \<open>
  The values a node rule is evaluated on, when the store returns states in time order: they are
  the states of a suffix of the range, at most as many as the wanted number of samples; every
  state among those samples that lies within the duration before the newest one is used, and
  at most one older state, the first, is added.
\<close>

lemma node_metrics_window:
  assumes "getNodeMetricsValues metrics sts samples duration = Some vals"
    and "sorted (map (nrs_Timestamp) sts)" and "sts \<noteq> []" and "duration \<noteq> 0"
  shows "\<exists>k. map Ts vals = map (nrs_Timestamp) (drop k sts) \<and>
     (0 < samples \<longrightarrow> int (length vals) \<le> samples) \<and>
     (\<forall>st \<in> set (drop (sample_start samples (length sts)) (take k sts)).
        nrs_Timestamp st < nrs_Timestamp (last sts) - duration) \<and>
     (\<forall>t \<in> set (tl (map Ts vals)). nrs_Timestamp (last sts) - duration \<le> t)"
proof -
  let ?i = "sample_start samples (length sts)" and ?start = "nrs_Timestamp (last sts) - duration"
  have r: "node_values metrics ?start (drop ?i sts) = Some vals"
    using assms by (simp add: getNodeMetricsValues_def)
  have "sorted (map (nrs_Timestamp) (drop ?i sts))" using assms(2) by (simp add: drop_map [symmetric])
  from node_values_suffix [OF r this] obtain k where
    k: "map Ts vals = map (nrs_Timestamp) (drop k (drop ?i sts))"
      "\<forall>st \<in> set (take k (drop ?i sts)). nrs_Timestamp st < ?start"
      "\<forall>t \<in> set (tl (map Ts vals)). ?start \<le> t" by blast
  have "length vals = length (drop k (drop ?i sts))" using k(1) by (metis length_map)
  then have "int (length vals) \<le> samples" if "0 < samples" using that by (auto simp: sample_start_def)
  moreover have "take k (drop ?i sts) = drop ?i (take (k + ?i) sts)" by (simp add: drop_take)
  ultimately show ?thesis using k by (intro exI [of _ "k + ?i"]) auto
qed

definition load_state :: "go_time \<Rightarrow> float64 \<Rightarrow> NodeResourceState" where
  "load_state t x = nodeStatExample\<lparr>nrs_Timestamp := t, nrs_Load := Some \<lparr>Load1Min = x, Load5Min = x, Load15Min = x\<rparr>\<rparr>"

definition load_history :: "NodeResourceState list" where
  "load_history = [load_state 10 1, load_state 20 2, load_state 30 3, load_state 40 4]"

lemma load_state_read [simp]:
  "nrs_Timestamp (load_state t x) = t" "nrs_GetValue (load_state t x) ''load_1min'' [] = Some (Inr x)"
  by (simp_all add: load_state_def nrs_GetValue_def load_GetValue_def field_value_of_def as_float_def load_fields_def)

lemma load_state_values:
  "getNodeMetricsValues [''load_1min''] load_history 3 5 =
     Some [\<lparr>Ts = 30, Vals = [(''load_1min'', 3)]\<rparr>, \<lparr>Ts = 40, Vals = [(''load_1min'', 4)]\<rparr>]"
  by (simp add: getNodeMetricsValues_def sample_start_def load_history_def node_params_def GetDeviceNameFromMetric_def
      strings_HasPrefix_def deviceMetricPrefix_def numeral_eq_Suc)

theorem node_metrics_window_witness:
  "\<exists>k. map Ts [\<lparr>Ts = 30, Vals = [(''load_1min'', 3)]\<rparr>, \<lparr>Ts = 40, Vals = [(''load_1min'', 4)]\<rparr>] =
       map nrs_Timestamp (drop k load_history)"
proof -
  have "sorted (map nrs_Timestamp load_history)" "load_history \<noteq> []" by (simp_all add: load_history_def)
  from node_metrics_window [OF load_state_values this numeral_neq_zero] show ?thesis by blast
qed

end
