(* ===== verification/AppCheck.thy ===== *)
theory AppCheck
  imports NodeCheck
begin

text \<open>
  \<^verbatim>\<open>rule_check_app.go\<close>: the checker of the metrics that online jobs report about themselves, with the
  history of the best and the worst slack to their service level objective. The state store is
  a parameter.
\<close>

section \<open>Data\<close>

record app_metric =
  cm_JobName :: string
  cm_Ts :: go_time
  cm_Values :: "(string, float64) gomap"

text \<open>What the store answers during one check; \<open>None\<close> is an error.\<close>

record app_store =
  as_recent :: "(string, app_metric) gomap option"
  as_range :: "string \<Rightarrow> string \<Rightarrow> go_time \<Rightarrow> go_time \<Rightarrow> int \<Rightarrow> app_metric list option"

record sloParam =
  slo_min :: float64
  slo_max :: float64
  slo_ts :: go_time

record ('m, 'e, 'q) appHealthChecker =
  ahc_ruleCheckers :: "('m, 'e, 'q, app_store) ruleCheckEntry list"
  ahc_historySlo :: "sloParam list"
  ahc_latestMetricTs :: go_time

section \<open>Operations\<close>

definition app_rule_name_ok :: "string \<Rightarrow> bool" where
  "app_rule_name_ok name \<longleftrightarrow> name = ''slo'' \<or> length (split_on (CHR '':'') name) = 2"

definition new_app_rule ::
  "'m ma_ops \<Rightarrow> 'e exp_ops \<Rightarrow> 'q qops \<Rightarrow> (string \<Rightarrow> adjustActionArgs option) \<Rightarrow> go_time \<Rightarrow> RuleCheckConfig
    \<Rightarrow> ('m, 'e, 'q, app_store) ruleCheckEntry option" where
  "new_app_rule M E Q J now cfg = do {
     (entries, recoverEntries, samples, duration) \<leftarrow> generateRules M E Q J cfg;
     (if \<not> app_rule_name_ok (rc_Name cfg) then None
      else Some \<lparr>rce_name = rc_Name cfg, rce_rules = entries, rce_recoverRules = recoverEntries,
        rce_samples = samples, rce_duration = duration, rce_checkInterval = rc_CheckInterval cfg,
        rce_handleInterval = rc_HandleInterval cfg, rce_recoverInterval = rc_RecoverInterval cfg,
        rce_lastCheck = now - rc_CheckInterval cfg, rce_lastHandle = None, rce_lastRecover = None,
        rce_lastAbnormal = None\<rparr>)
   }"

definition newAppHealthChecker ::
  "'m ma_ops \<Rightarrow> 'e exp_ops \<Rightarrow> 'q qops \<Rightarrow> (string \<Rightarrow> adjustActionArgs option) \<Rightarrow> go_time \<Rightarrow> RuleCheckConfig list
    \<Rightarrow> ('m, 'e, 'q) appHealthChecker option" where
  "newAppHealthChecker M E Q J now cfgs = do {
     rules \<leftarrow> those (map (new_app_rule M E Q J now) cfgs);
     Some \<lparr>ahc_ruleCheckers = rules, ahc_historySlo = [], ahc_latestMetricTs = nilTime\<rparr>
   }"

definition slo_step :: "string \<times> app_metric \<Rightarrow> float64 \<times> float64 \<Rightarrow> float64 \<times> float64" where
  "slo_step = (\<lambda>(k, v) (mx, mn).
     (let slo = gmap_get0 (cm_Values v) ''slo''; val = gmap_get0 (cm_Values v) ''value'' in
      if val = 0 \<or> slo = 0 then (mx, mn)
      else let slack = fl (fl (slo - val) / slo)
           in (if slack > mx then slack else mx, if slack < mn then slack else mn)))"

definition findMaxAndMinSLOSlack :: "(string, app_metric) gomap \<Rightarrow> float64 \<times> float64" where
  "findMaxAndMinSLOSlack metric = fold slo_step metric (0, 1)"

text \<open>
  The values of the \<^verbatim>\<open>slo\<close> rule. With a duration the code reads the last element of the slice of
  results, which is still empty, and panics.
\<close>

definition slo_data :: "sloParam \<Rightarrow> TimedData" where
  "slo_data slo = \<lparr>Ts = slo_ts slo, Vals = [(''slo_max'', slo_max slo), (''slo_min'', slo_min slo)]\<rparr>"

definition sloMetricFunc :: "sloParam list \<Rightarrow> metricsValuesFunc" where
  "sloMetricFunc history metrics samples duration =
     (if history = [] then Some []
      else if duration \<noteq> 0 then None
      else let rest = drop (sample_start samples (length history)) history in
           Some (map (\<lambda>(i, slo). slo_data slo)
             (filter (\<lambda>(i, slo). \<not> (nilTime > slo_ts slo \<and> i + 1 \<noteq> length history \<and> nilTime > slo_ts (history ! (i + 1))))
                (enumerate 0 rest))))"

text \<open>The values of another rule: all metrics of the last half hour.\<close>

definition customMetricFunc :: "app_metric list \<Rightarrow> metricsValuesFunc" where
  "customMetricFunc cMetrics metrics samples duration = Some (map (\<lambda>m. \<lparr>Ts = cm_Ts m, Vals = cm_Values m\<rparr>) cMetrics)"

definition app_check_rule ::
  "'m ma_ops \<Rightarrow> 'e exp_ops \<Rightarrow> 'q qops \<Rightarrow> app_store \<Rightarrow> sloParam list \<Rightarrow> go_time
    \<Rightarrow> ('m, 'e, 'q, app_store) ruleCheckEntry
    \<Rightarrow> (('m, 'e, 'q, app_store) ruleCheckEntry \<times> ('q checkRet \<times> string list) option) option" where
  "app_check_rule M E Q store history now rChecker =
     (if \<not> rce_lastCheck rChecker + rce_checkInterval rChecker < now then Some (rChecker, None)
      else let run = (\<lambda>f. map_option (\<lambda>(rChecker, ret, alarms). (rChecker, Some (ret, alarms)))
                  (checkRule M E Q store f now (rChecker\<lparr>rce_lastCheck := now\<rparr>))) in
           if rce_name rChecker = ''slo'' then run (sloMetricFunc history)
           else (case split_on (CHR '':'') (rce_name rChecker) of
                   p0 # p1 # _ \<Rightarrow>
                     (case as_range store p0 p1 (now - 30 * minute) now 30 of
                        None \<Rightarrow> Some (rChecker, None)
                      | Some cMetrics \<Rightarrow> run (customMetricFunc cMetrics))
                 | _ \<Rightarrow> None))"

fun app_check_rules ::
  "'m ma_ops \<Rightarrow> 'e exp_ops \<Rightarrow> 'q qops \<Rightarrow> app_store \<Rightarrow> sloParam list \<Rightarrow> go_time
    \<Rightarrow> ('m, 'e, 'q, app_store) ruleCheckEntry list \<Rightarrow> 'q ActionResult
    \<Rightarrow> (('m, 'e, 'q, app_store) ruleCheckEntry list \<times> 'q ActionResult \<times> string list) option" where
  "app_check_rules M E Q store history now [] acResult = Some ([], acResult, [])"
| "app_check_rules M E Q store history now (r # rs) acResult = do {
     (r', out) \<leftarrow> app_check_rule M E Q store history now r;
     let (acResult', alarms) = (case out of None \<Rightarrow> (acResult, []) | Some (ret, alarms) \<Rightarrow> (merge_ret Q ret acResult, alarms));
     (rs', acResult'', alarms') \<leftarrow> app_check_rules M E Q store history now rs acResult';
     Some (r' # rs', acResult'', alarms @ alarms')
   }"

text \<open>The newest time stamp after a look at the states, and whether one of them was new.\<close>

definition new_metrics :: "(string, app_metric) gomap \<Rightarrow> go_time \<Rightarrow> bool \<times> go_time" where
  "new_metrics cStates latest =
     fold (\<lambda>(k, metric) (needCheck, latest).
       if cm_Ts metric > latest then (True, cm_Ts metric) else (needCheck, latest)) cStates (False, latest)"

definition push_slo :: "sloParam list \<Rightarrow> sloParam \<Rightarrow> sloParam list" where
  "push_slo history slo = (let h = history @ [slo] in if length h > 100 then tl h else h)"

definition app_Check ::
  "'m ma_ops \<Rightarrow> 'e exp_ops \<Rightarrow> 'q qops \<Rightarrow> app_store \<Rightarrow> go_time \<Rightarrow> ('m, 'e, 'q) appHealthChecker
    \<Rightarrow> (('m, 'e, 'q) appHealthChecker \<times> 'q ActionResult \<times> string list) option" where
  "app_Check M E Q store now a =
     (case as_recent store of
        None \<Rightarrow> Some (a, emptyResult, [])
      | Some cStates \<Rightarrow>
          if cStates = [] then Some (a, emptyResult, [])
          else let (needCheck, latest) = new_metrics cStates (ahc_latestMetricTs a);
                   a = a\<lparr>ahc_latestMetricTs := latest\<rparr> in
               if \<not> needCheck then Some (a, emptyResult, [])
               else let (mx, mn) = findMaxAndMinSLOSlack cStates;
                        a = a\<lparr>ahc_historySlo := push_slo (ahc_historySlo a) \<lparr>slo_min = mn, slo_max = mx, slo_ts = now\<rparr>\<rparr> in
                    do {
                      (rs, acResult, alarms) \<leftarrow>
                        app_check_rules M E Q store (ahc_historySlo a) now (ahc_ruleCheckers a) emptyResult;
                      Some (a\<lparr>ahc_ruleCheckers := rs\<rparr>, acResult, alarms)
                    })"

section \<open>Properties\<close>

text \<open>The slacks of the jobs that report both an objective and a value.\<close>

definition slacks :: "(string, app_metric) gomap \<Rightarrow> float64 set" where
  "slacks metric = {fl (fl (slo - val) / slo) | k v slo val.
     (k, v) \<in> set metric \<and> slo = gmap_get0 (cm_Values v) ''slo'' \<and> val = gmap_get0 (cm_Values v) ''value'' \<and> val \<noteq> 0 \<and> slo \<noteq> 0}"

lemma slacks_Cons: "slacks ((k, v) # m) =
   (let slo = gmap_get0 (cm_Values v) ''slo''; val = gmap_get0 (cm_Values v) ''value''
    in if val = 0 \<or> slo = 0 then slacks m else insert (fl (fl (slo - val) / slo)) (slacks m))"
  by (auto simp: slacks_def Let_def)

lemma slacks_finite: "finite (slacks m)"
proof (induction m)
  case Nil
  then show ?case by (simp add: slacks_def)
next
  case (Cons x m)
  then show ?case by (cases x) (simp add: slacks_Cons Let_def)
qed

lemma slo_step_extremes:
  assumes "slo_step (k, v) (a, b) = (a', b')"
  shows "Max (insert a' (slacks m)) = Max (insert a (slacks ((k, v) # m)))"
    and "Min (insert b' (slacks m)) = Min (insert b (slacks ((k, v) # m)))"
proof -
  define slack where "slack = fl (fl (gmap_get0 (cm_Values v) ''slo'' - gmap_get0 (cm_Values v) ''value'') / gmap_get0 (cm_Values v) ''slo'')"
  have "a' = a \<and> b' = b \<and> slacks ((k, v) # m) = slacks m \<or>
      a' = max a slack \<and> b' = min b slack \<and> slacks ((k, v) # m) = insert slack (slacks m)"
  proof (cases "gmap_get0 (cm_Values v) ''value'' = 0 \<or> gmap_get0 (cm_Values v) ''slo'' = 0")
    case True
    then show ?thesis using assms by (simp add: slo_step_def slacks_Cons)
  next
    case False
    then have "(a', b') = (if slack > a then slack else a, if slack < b then slack else b)"
      unfolding assms [symmetric] by (simp add: slo_step_def Let_def slack_def [symmetric])
    then have "a' = max a slack" "b' = min b slack" by auto
    with False show ?thesis by (simp add: slacks_Cons slack_def Let_def)
  qed
  then show "Max (insert a' (slacks m)) = Max (insert a (slacks ((k, v) # m)))"
    and "Min (insert b' (slacks m)) = Min (insert b (slacks ((k, v) # m)))"
    using slacks_finite [of m] by (cases "slacks m = {}"; auto simp: max.assoc min.assoc)+
qed

lemma slo_fold_extremes:
  "fold slo_step metric (a, b) = (Max (insert a (slacks metric)), Min (insert b (slacks metric)))"
proof (induction metric arbitrary: a b)
  case Nil
  then show ?case by (simp add: slacks_def)
next
  case (Cons x metric)
  obtain k v where x: "x = (k, v)" by (cases x)
  obtain a' b' where s: "slo_step (k, v) (a, b) = (a', b')" by fastforce
  show ?case using slo_step_extremes [OF s, of metric] by (simp add: x s Cons)
qed

text \<open>
  The slack extremes do not depend on the order in which the job map is visited: the maximum is
  the largest slack of a job with an objective and a value, at least 0, the minimum the
  smallest one, at most 1.
\<close>

lemma slo_slack_extremes:
  "findMaxAndMinSLOSlack metric = (Max (insert 0 (slacks metric)), Min (insert 1 (slacks metric)))"
  by (simp add: findMaxAndMinSLOSlack_def slo_fold_extremes)

lemma push_slo_bounded: "length h \<le> 100 \<Longrightarrow> length (push_slo h slo) \<le> 100"
  by (simp add: push_slo_def Let_def)

end
