(* ===== verification/ContainerCheck.thy ===== *)
theory ContainerCheck
  imports AppCheck Pods
begin

text \<open>
  \<^verbatim>\<open>rule_check_container.go\<close> and \<^verbatim>\<open>correlation/correlation.go\<close>: the checker of the containers of online
  jobs, and the search for the pod that most likely disturbs them. The pod informer is its
  store, a map from keys to pods. \<^verbatim>\<open>Quantity.ScaledValue\<close> at the scale \<^verbatim>\<open>Mega\<close> is a parameter. The text of
  the alarms is abbreviated.
\<close>

section \<open>Container states\<close>

record CgroupRef =
  ref_Name :: string
  ref_ContainerName :: string
  ref_PodName :: string
  ref_PodNamespace :: string
  ref_PodUid :: string
  ref_AppClass :: AppClass

record CgroupStats =
  cg_Ref :: CgroupRef
  CpuUsage :: float64
  NrCpuThrottled :: float64
  LoadAvg :: float64
  MemoryTotalUsage :: float64
  MemoryWorkingSetUsage :: float64
  MemoryCacheUsage :: float64
  TcpOOM :: float64
  ListenOverflows :: float64
  RxBps :: float64
  RxPps :: float64
  TxBps :: float64
  TxPps :: float64
  cg_Timestamp :: go_time

text \<open>\<^verbatim>\<open>GetValue\<close> by struct tag: an unknown tag is an error, here \<open>None\<close>.\<close>

definition CgroupStats_GetValue :: "CgroupStats \<Rightarrow> string \<Rightarrow> float64 option" where
  "CgroupStats_GetValue cg = map_of
     [(''cpu_usage'', CpuUsage cg), (''nr_cpu_throttled'', NrCpuThrottled cg), (''load_avg'', LoadAvg cg),
      (''memory_total_usage'', MemoryTotalUsage cg), (''memory_working_set_usage'', MemoryWorkingSetUsage cg),
      (''memory_cache_usage'', MemoryCacheUsage cg), (''tcp_oom'', TcpOOM cg), (''listen_overflows'', ListenOverflows cg),
      (''rx_bps'', RxBps cg), (''rx_pps'', RxPps cg), (''tx_bps'', TxBps cg), (''tx_pps'', TxPps cg)]"

text \<open>What the store answers; \<open>None\<close> is an error.\<close>

record cgroup_store =
  gs_online :: "(string, CgroupStats) gomap option"
  gs_all :: "(string, CgroupStats) gomap option"

section \<open>Correlation\<close>

type_synonym 'q informer = "(string, 'q pod) gomap"

definition GetByKey :: "'q informer \<Rightarrow> string \<Rightarrow> string \<Rightarrow> 'q pod option" where
  "GetByKey pods namespace name = map_of pods (namespace @ ''/'' @ name)"

text \<open>In Go \<^verbatim>\<open>2 ^ 30\<close> is the exclusive or of 2 and 30.\<close>

definition xor_2_30 :: float64 where
  "xor_2_30 = of_int (xor 2 30)"

definition getPodPriority :: "'q informer \<Rightarrow> CgroupRef \<Rightarrow> int" where
  "getPodPriority pods ref =
     (if ref_PodNamespace ref = [] then
        (if ref_AppClass ref = AppClassOnline then 2 ^ 31 - 1 else - (2 ^ 31))
      else case GetByKey pods (ref_PodNamespace ref) (ref_PodName ref) of
        None \<Rightarrow> 0
      | Some pod \<Rightarrow> (case p_Priority pod of Some p \<Rightarrow> p | None \<Rightarrow> 0))"

definition getPodRunningTime :: "'q informer \<Rightarrow> go_time \<Rightarrow> CgroupRef \<Rightarrow> go_duration" where
  "getPodRunningTime pods now ref =
     (if ref_PodNamespace ref = [] then 24 * 60 * minute
      else case GetByKey pods (ref_PodNamespace ref) (ref_PodName ref) of
        None \<Rightarrow> 0
      | Some pod \<Rightarrow> (case p_StartTime pod of None \<Rightarrow> 0 | Some t \<Rightarrow> time_sub now t))"

definition getPodMemoryRequest :: "'q qops \<Rightarrow> ('q \<Rightarrow> int) \<Rightarrow> 'q informer \<Rightarrow> CgroupRef \<Rightarrow> float64" where
  "getPodMemoryRequest Q mega pods ref =
     (case GetByKey pods (ref_PodNamespace ref) (ref_PodName ref) of
        None \<Rightarrow> 0
      | Some pod \<Rightarrow>
          (case find (\<lambda>c. c_Name c = ref_ContainerName ref) (p_Containers pod) of
             None \<Rightarrow> 0
           | Some c \<Rightarrow> fl (fl (of_int (mega (rl_get Q (c_Requests c) ResourceMemory))) / 1024)))"

definition memLoadFunc :: "'q qops \<Rightarrow> ('q \<Rightarrow> int) \<Rightarrow> 'q informer \<Rightarrow> CgroupStats \<Rightarrow> float64" where
  "memLoadFunc Q mega pods s =
     (let req = getPodMemoryRequest Q mega pods (cg_Ref s) in
      if req = 0 then 0
      else let usage = fl (MemoryTotalUsage s / xor_2_30) in fl (fl (usage - req) / req))"

definition memFilter :: "int \<Rightarrow> float64 \<Rightarrow> int \<Rightarrow> float64 \<Rightarrow> CgroupStats \<Rightarrow> bool" where
  "memFilter maxPri minLoad currentPri currentLoad cgroupStats =
     (if currentLoad < 0 then False
      else if fl (MemoryTotalUsage cgroupStats / xor_2_30) < fl 0.5 then False
      else currentPri < maxPri \<or> maxPri = currentPri \<and> minLoad < currentLoad)"

record suspect =
  su_ref :: CgroupRef
  su_priority :: int
  su_val :: float64
  su_runtime :: go_duration

definition suspect_less :: "suspect \<Rightarrow> suspect \<Rightarrow> bool" where
  "suspect_less a b = (if su_priority a = su_priority b then su_val a > su_val b else su_priority a < su_priority b)"

definition recentFilter :: "suspect list \<Rightarrow> suspect list" where
  "recentFilter items = (let cand = filter (\<lambda>i. su_runtime i < 15 * minute) items in if cand \<noteq> [] then cand else items)"

text \<open>The highest priority of a victim, and the smallest load at that priority.\<close>

definition victim_bounds ::
  "(CgroupRef \<Rightarrow> int) \<Rightarrow> (CgroupStats \<Rightarrow> float64) \<Rightarrow> (CgroupRef, CgroupStats) gomap \<Rightarrow> int \<times> float64" where
  "victim_bounds priority load victimStats =
     fold (\<lambda>(ref, cstat) (maxPri, minLoad).
       let pri = priority ref;
           minLoad = (if pri = maxPri \<and> load cstat < minLoad then load cstat else minLoad)
       in if pri > maxPri then (pri, load cstat) else (maxPri, minLoad)) victimStats (0, 0)"

definition suspects_of ::
  "(CgroupRef \<Rightarrow> int) \<Rightarrow> (CgroupRef \<Rightarrow> go_duration) \<Rightarrow> (CgroupStats \<Rightarrow> float64)
    \<Rightarrow> (int \<Rightarrow> float64 \<Rightarrow> int \<Rightarrow> float64 \<Rightarrow> CgroupStats \<Rightarrow> bool) \<Rightarrow> int \<times> float64 \<Rightarrow> (string, CgroupStats) gomap \<Rightarrow> suspect list" where
  "suspects_of priority runtime load flt = (\<lambda>(maxPri, minLoad) statMap.
     map (\<lambda>(k, cstat). \<lparr>su_ref = cg_Ref cstat, su_priority = priority (cg_Ref cstat), su_val = load cstat,
            su_runtime = runtime (cg_Ref cstat)\<rparr>)
       (filter (\<lambda>(k, cstat).
          \<not> (ref_PodNamespace (cg_Ref cstat) = [] \<and> ref_AppClass (cg_Ref cstat) = AppClassOnline) \<and>
          flt maxPri minLoad (priority (cg_Ref cstat)) (load cstat) cstat) statMap))"

definition findSuspect ::
  "(CgroupRef \<Rightarrow> int) \<Rightarrow> (CgroupRef \<Rightarrow> go_duration) \<Rightarrow> (CgroupStats \<Rightarrow> float64)
    \<Rightarrow> (int \<Rightarrow> float64 \<Rightarrow> int \<Rightarrow> float64 \<Rightarrow> CgroupStats \<Rightarrow> bool) \<Rightarrow> cgroup_store
    \<Rightarrow> (CgroupRef, CgroupStats) gomap \<Rightarrow> CgroupRef option" where
  "findSuspect priority runtime load flt store victimStats = do {
     statMap \<leftarrow> gs_all store;
     let suspects = suspects_of priority runtime load flt (victim_bounds priority load victimStats) statMap;
     (if suspects = [] then None
      else Some (su_ref (hd (recentFilter (sort_by suspect_less suspects)))))
   }"

definition Analysis ::
  "'q qops \<Rightarrow> ('q \<Rightarrow> int) \<Rightarrow> 'q informer \<Rightarrow> go_time \<Rightarrow> cgroup_store \<Rightarrow> string
    \<Rightarrow> (CgroupRef, CgroupStats) gomap \<Rightarrow> CgroupRef option" where
  "Analysis Q mega pods now store metric victimStats =
     (if metric = ''memory''
      then findSuspect (getPodPriority pods) (getPodRunningTime pods now) (memLoadFunc Q mega pods) memFilter store victimStats
      else None)"

section \<open>The checker\<close>

record ('m, 'e) containerHealthChecker =
  chc_rulesFactory :: "('m, 'e) detectorFactory list"
  chc_containerChecks :: "(CgroupRef, ('m, 'e) detector list) gomap"
  chc_checkInterval :: go_duration
  chc_lastCheck :: go_time

definition add_container_rule ::
  "'m ma_ops \<Rightarrow> 'e exp_ops \<Rightarrow> 'q qops \<Rightarrow> (string \<Rightarrow> adjustActionArgs option) \<Rightarrow> RuleCheckConfig
    \<Rightarrow> DetectActionConfig option \<Rightarrow> ('m, 'e) detectorFactory list \<Rightarrow> ('m, 'e) detectorFactory list option" where
  "add_container_rule M E Q J rCheck rule factories =
     (case (parseDetectorRule M E Q J (rc_Name rCheck) (rc_Metrics rCheck) rule
              :: (rule_error + ('m, 'e) detectorFactory list \<times> ('q, unit) action list \<times> int \<times> go_duration) option) of
        None \<Rightarrow> None
      | Some (Inl err) \<Rightarrow> Some factories
      | Some (Inr (fs, actions, samples, duration)) \<Rightarrow> Some (factories @ fs))"

definition newContainerHealthChecker ::
  "'m ma_ops \<Rightarrow> 'e exp_ops \<Rightarrow> 'q qops \<Rightarrow> (string \<Rightarrow> adjustActionArgs option) \<Rightarrow> string list \<Rightarrow> go_time
    \<Rightarrow> RuleCheckConfig list \<Rightarrow> ('m, 'e) containerHealthChecker option" where
  "newContainerHealthChecker M E Q J supported now cfgs = do {
     (factories, interval) \<leftarrow>
       foldM (\<lambda>rCheck (factories, interval).
           if \<not> list_all (\<lambda>metric. metric \<in> set supported \<or> metric = ''cpu_request'') (rc_Metrics rCheck) then None
           else do {
             factories \<leftarrow> foldM (add_container_rule M E Q J rCheck) (rc_Rules rCheck) factories;
             Some (factories, if interval \<noteq> 0 \<and> rc_CheckInterval rCheck \<ge> interval then interval else rc_CheckInterval rCheck)
           }) cfgs ([], 0);
     Some \<lparr>chc_rulesFactory = factories, chc_containerChecks = [], chc_checkInterval = interval,
       chc_lastCheck = now - interval\<rparr>
   }"

definition metricCategory :: "string \<Rightarrow> string" where
  "metricCategory metric =
     (if metric \<in> {''mem_direct_reclaim'', ''mem_direct_compact'', ''memory_working_set_activate''} then ''memory''
      else if metric \<in> {''read_latency'', ''write_latency'', ''read_count'', ''write_count''} then ''diskio''
      else [])"

definition getCpuRequest :: "'q qops \<Rightarrow> 'q informer \<Rightarrow> CgroupRef \<Rightarrow> float64" where
  "getCpuRequest Q pods ref =
     (if ref_PodName ref = [] \<or> ref_PodNamespace ref = [] then 100
      else case GetByKey pods (ref_PodNamespace ref) (ref_PodName ref) of
        None \<Rightarrow> 100
      | Some pod \<Rightarrow>
          (case find (\<lambda>c. c_Name c = ref_ContainerName ref) (p_Containers pod) of
             None \<Rightarrow> 100
           | Some c \<Rightarrow> fl (fl (of_int (q_milli Q (rl_get Q (c_Requests c) ResourceCPU))) / 1000)))"

definition getMetricValue :: "'q qops \<Rightarrow> 'q informer \<Rightarrow> CgroupStats \<Rightarrow> string \<Rightarrow> float64" where
  "getMetricValue Q pods stat metric =
     (if metric = ''cpu_request'' then getCpuRequest Q pods (cg_Ref stat)
      else case CgroupStats_GetValue stat metric of None \<Rightarrow> 0 | Some v \<Rightarrow> v)"

type_synonym victims = "(string, (CgroupRef, CgroupStats) gomap) gomap"

definition add_victim :: "CgroupStats \<Rightarrow> string \<Rightarrow> victims \<Rightarrow> victims" where
  "add_victim stat metric victims =
     (let category = metricCategory metric in
      if category = [] then victims
      else let st = (case map_of victims category of None \<Rightarrow> [] | Some st \<Rightarrow> st)
           in AList.update category (AList.update (cg_Ref stat) stat st) victims)"

fun victim_detect ::
  "'m ma_ops \<Rightarrow> 'e exp_ops \<Rightarrow> 'q qops \<Rightarrow> 'q informer \<Rightarrow> CgroupStats \<Rightarrow> ('m, 'e) detector list \<Rightarrow> victims
    \<Rightarrow> (('m, 'e) detector list \<times> victims \<times> string list) option" where
  "victim_detect M E Q pods stat [] victims = Some ([], victims, [])"
| "victim_detect M E Q pods stat (d # ds) victims = do {
     let params = fold (\<lambda>metric. AList.update metric (getMetricValue Q pods stat metric)) (det_Metrics d) [];
     d1 \<leftarrow> det_Add M E \<lparr>Ts = cg_Timestamp stat, Vals = params\<rparr> d;
     (d2, r) \<leftarrow> det_IsAnomaly M E d1;
     let (victims, alarms) = (if r = Inr True
           then (fold (add_victim stat) (det_Metrics d2) victims, [ref_PodNamespace (cg_Ref stat) @ ''/'' @
                  ref_PodName (cg_Ref stat) @ ''/'' @ ref_ContainerName (cg_Ref stat) @ '' has abnormal on metrics''])
           else (victims, []));
     (ds', victims, alarms') \<leftarrow> victim_detect M E Q pods stat ds victims;
     Some (d2 # ds', victims, alarms @ alarms')
   }"

definition victim_stat ::
  "'m ma_ops \<Rightarrow> 'e exp_ops \<Rightarrow> 'q qops \<Rightarrow> 'q informer \<Rightarrow> ('m, 'e) detectorFactory list \<Rightarrow> string \<times> CgroupStats
    \<Rightarrow> (CgroupRef, ('m, 'e) detector list) gomap \<times> victims \<times> CgroupRef list \<times> string list
    \<Rightarrow> ((CgroupRef, ('m, 'e) detector list) gomap \<times> victims \<times> CgroupRef list \<times> string list) option" where
  "victim_stat M E Q pods factories = (\<lambda>(k, stat) (checks, victims, existRefs, alarms).
     (let ref = cg_Ref stat in
      if ref_ContainerName ref = [] \<or> ref_PodNamespace ref = ''kube-system'' then Some (checks, victims, existRefs, alarms)
      else do {
        detectors \<leftarrow> (case map_of checks ref of None \<Rightarrow> those factories | Some ds \<Rightarrow> Some ds);
        (ds, victims, alarms') \<leftarrow> victim_detect M E Q pods stat detectors victims;
        Some (AList.update ref ds checks, victims, ref # existRefs, alarms @ alarms')
      }))"

text \<open>The checks, the victims by category, the containers that exist, the alarms.\<close>

definition victimStats ::
  "'m ma_ops \<Rightarrow> 'e exp_ops \<Rightarrow> 'q qops \<Rightarrow> 'q informer \<Rightarrow> cgroup_store \<Rightarrow> ('m, 'e) containerHealthChecker
    \<Rightarrow> (('m, 'e) containerHealthChecker \<times> victims \<times> CgroupRef list \<times> string list) option" where
  "victimStats M E Q pods store c =
     (case gs_online store of
        None \<Rightarrow> Some (c, [], [], [])
      | Some cstats \<Rightarrow> do {
          (checks, victims, existRefs, alarms) \<leftarrow>
            foldM (victim_stat M E Q pods (chc_rulesFactory c)) cstats (chc_containerChecks c, [], [], []);
          Some (c\<lparr>chc_containerChecks := checks\<rparr>, victims, existRefs, alarms)
        })"

definition add_suspect :: "CgroupRef option \<Rightarrow> (string \<times> string) list \<Rightarrow> (string \<times> string) list" where
  "add_suspect s suspects =
     (case s of None \<Rightarrow> suspects
      | Some ref \<Rightarrow> List.insert (ref_PodNamespace ref, ref_PodName ref) suspects)"

definition container_Check ::
  "'m ma_ops \<Rightarrow> 'e exp_ops \<Rightarrow> 'q qops \<Rightarrow> ('q \<Rightarrow> int) \<Rightarrow> 'q informer \<Rightarrow> cgroup_store \<Rightarrow> go_time
    \<Rightarrow> ('m, 'e) containerHealthChecker
    \<Rightarrow> (('m, 'e) containerHealthChecker \<times> 'q ActionResult \<times> string list) option" where
  "container_Check M E Q mega pods store now c =
     (if chc_checkInterval c = 0 \<or> \<not> chc_lastCheck c + chc_checkInterval c < now then Some (c, emptyResult, [])
      else do {
        (c, victims, existRefs, alarms) \<leftarrow> victimStats M E Q pods store (c\<lparr>chc_lastCheck := now\<rparr>);
        (if victims = [] then Some (c, emptyResult, alarms)
         else let suspects = fold (\<lambda>(category, cstat). add_suspect (Analysis Q mega pods now store category cstat)) victims []
              in Some (c\<lparr>chc_containerChecks := filter (\<lambda>(ref, ds). ref \<in> set existRefs) (chc_containerChecks c)\<rparr>,
                       emptyResult\<lparr>EvictPods := suspects\<rparr>, alarms @ [''find suspect pods'']))
      })"

section \<open>Properties\<close>

interpretation suspects: strict_weak_order suspect_less
  by unfold_locales (auto simp: suspect_less_def split: if_splits)

definition recent :: "suspect \<Rightarrow> bool" where
  "recent s \<longleftrightarrow> su_runtime s < 15 * minute"

lemma recentFilter_first:
  assumes "sorted_wrt (\<lambda>a b. \<not> suspect_less b a) xs" and "xs \<noteq> []"
  shows "hd (recentFilter xs) \<in> set xs" "(\<exists>s \<in> set xs. recent s) \<longrightarrow> recent (hd (recentFilter xs))"
    "s' \<in> set xs \<Longrightarrow> recent s' \<or> \<not> (\<exists>s \<in> set xs. recent s) \<Longrightarrow> \<not> suspect_less s' (hd (recentFilter xs))"
proof -
  define ys where "ys = recentFilter xs"
  have ys: "ys = (if \<exists>s \<in> set xs. recent s then filter recent xs else xs)"
    by (auto simp: ys_def recentFilter_def recent_def [abs_def] Let_def filter_empty_conv)
  have ne: "ys \<noteq> []" using assms(2) by (auto simp: ys filter_empty_conv)
  have so: "sorted_wrt (\<lambda>a b. \<not> suspect_less b a) ys" using assms(1) by (simp add: ys sorted_wrt_filter)
  have "hd ys \<in> set ys" using ne by simp
  then show "hd (recentFilter xs) \<in> set xs" "(\<exists>s \<in> set xs. recent s) \<longrightarrow> recent (hd (recentFilter xs))"
    unfolding ys_def [symmetric] by (auto simp: ys split: if_splits)
  assume "s' \<in> set xs" "recent s' \<or> \<not> (\<exists>s \<in> set xs. recent s)"
  then have "s' \<in> set ys" by (auto simp: ys)
  then show "\<not> suspect_less s' (hd (recentFilter xs))"
    unfolding ys_def [symmetric] using so ne suspects.not_less_refl by (cases ys) auto
qed

text \<open>
  The suspect that is evicted: it is a running container that passed the filter; if some
  candidate started less than fifteen minutes ago, it is one of those; and among the
  candidates it was chosen from none has a lower priority, and none of the same priority a
  larger load.
\<close>

lemma findSuspect_choice:
  assumes "findSuspect priority runtime load flt store victims = Some ref"
  shows "\<exists>statMap cands s. gs_all store = Some statMap \<and>
     cands = suspects_of priority runtime load flt (victim_bounds priority load victims) statMap \<and>
     s \<in> set cands \<and> su_ref s = ref \<and> ((\<exists>c \<in> set cands. recent c) \<longrightarrow> recent s) \<and>
     (\<forall>c \<in> set cands. recent c \<or> \<not> recent s \<longrightarrow>
        su_priority s < su_priority c \<or> su_priority s = su_priority c \<and> su_val c \<le> su_val s)"
proof -
  obtain statMap where m: "gs_all store = Some statMap" using assms by (auto simp: findSuspect_def option_bind_eq_Some)
  define cands where "cands = suspects_of priority runtime load flt (victim_bounds priority load victims) statMap"
  have ne: "cands \<noteq> []" and ref: "su_ref (hd (recentFilter (sort_by suspect_less cands))) = ref"
    using assms by (auto simp: findSuspect_def m cands_def Let_def split: if_splits)
  define s where "s = hd (recentFilter (sort_by suspect_less cands))"
  have "sort_by suspect_less cands \<noteq> []" using ne by simp
  note r = recentFilter_first [OF suspects.sort_by_sorted this, folded s_def, simplified]
  have "su_priority s < su_priority c \<or> su_priority s = su_priority c \<and> su_val c \<le> su_val s"
    if "c \<in> set cands" "recent c \<or> \<not> recent s" for c
  proof -
    have "\<not> suspect_less c s" using r(2) r(3) [OF that(1)] that(2) by blast
    then show ?thesis by (auto simp: suspect_less_def split: if_splits)
  qed
  with r(1,2) m ref show ?thesis unfolding cands_def s_def by blast
qed

definition batch_ref :: "string \<Rightarrow> CgroupRef" where
  "batch_ref name = \<lparr>ref_Name = name, ref_ContainerName = name, ref_PodName = name, ref_PodNamespace = ''batch'',
     ref_PodUid = [], ref_AppClass = AppClassOffline\<rparr>"

definition batch_stats :: "string \<Rightarrow> float64 \<Rightarrow> CgroupStats" where
  "batch_stats name mem = \<lparr>cg_Ref = batch_ref name, CpuUsage = 0, NrCpuThrottled = 0, LoadAvg = 0, MemoryTotalUsage = mem,
     MemoryWorkingSetUsage = 0, MemoryCacheUsage = 0, TcpOOM = 0, ListenOverflows = 0, RxBps = 0, RxPps = 0, TxBps = 0,
     TxPps = 0, cg_Timestamp = 5\<rparr>"

definition batch_store :: cgroup_store where
  "batch_store = \<lparr>gs_online = None, gs_all = Some [(''/a'', batch_stats ''a'' 3), (''/b'', batch_stats ''b'' 7)]\<rparr>"

lemma batch_suspect:
  "findSuspect (\<lambda>r. 0) (\<lambda>r. 0) MemoryTotalUsage (\<lambda>mp ml p l s. ml < l) batch_store [] = Some (batch_ref ''b'')"
  by (simp add: findSuspect_def batch_store_def suspects_of_def victim_bounds_def batch_stats_def recentFilter_def
      sort_by_def suspect_less_def batch_ref_def)

theorem findSuspect_choice_witness:
  "\<exists>cands s. s \<in> set cands \<and> su_ref s = batch_ref ''b'' \<and> ((\<exists>c \<in> set cands. recent c) \<longrightarrow> recent s)"
  using findSuspect_choice [OF batch_suspect] by blast

text \<open>
  The memory unit of the correlation analysis: the code writes \<^verbatim>\<open>2 ^ 30\<close> for a gibibyte, which in
  Go is the exclusive or of 2 and 30, that is 28. A container that uses 14 bytes passes the
  filter that is meant to keep containers below half a gibibyte out.
\<close>

lemma memFilter_accepts_14_bytes:
  "xor_2_30 = 28 \<and> memFilter 1 0 0 0 (batch_stats ''tiny'' 14)"
proof -
  have "xor 2 (30 :: int) = 28" by code_simp
  then have x: "xor_2_30 = 28" by (simp add: xor_2_30_def)
  have "(14 :: real) / 28 = 0.5" by simp
  then show ?thesis by (simp add: memFilter_def batch_stats_def x)
qed

end
