(* ===== verification/Resource.thy ===== *)
theory Resource
  imports ConflictProps ContainerCheck Times
begin

text \<open>
  \<^verbatim>\<open>pkg/caelus/resource\<close> for offline jobs on kubernetes: the manager (\<^verbatim>\<open>resource.go\<close>) that turns predictions
  and conflicts into the capacity of the node, and its kubernetes client (\<^verbatim>\<open>resource_k8s.go\<close>,
  \<^verbatim>\<open>resource_checkpoint.go\<close>) that kills pods and writes the node.

  The informers, the state store, the predictor and the API server are inputs of the
  operations; what the client does to the outside is a list of effects in program order.
\<close>

section \<open>Data\<close>

record 'q node =
  Capacity :: "'q resource_list"
  Allocatable :: "'q resource_list"

datatype 'q effect =
  UpdateStatus "'q node"
| EvictPod "'q pod"
| SaveCheckpoint bool
| SendAlarm string

datatype resource_error = NodeGetError | NodeNotFound | ChannelFull

record 'q k8sClient =
  kc_node :: "'q node option"
  kc_lastNode :: "'q node option"
  kc_DisableKillIfNormal :: bool
  kc_OnlyKillIfIncompressibleRes :: bool
  kc_nodeInfo :: "'q NodeInfo option"
  kc_extResScheduleDisabled :: bool

text \<open>
  The outside during one operation: the node in the informer, the pods in the informer, the
  states of cgroups, whether the i-th \<^verbatim>\<open>UpdateStatus\<close> call succeeds, and the library's
  \<^verbatim>\<open>apiequality.Semantic.DeepEqual\<close> on resource lists.
\<close>

record 'q k8s_env =
  env_node :: "resource_error + 'q node"
  env_pods :: "'q pod list"
  env_stat :: "string \<Rightarrow> CgroupStats option"
  env_update :: "nat \<Rightarrow> bool"
  env_DeepEqual :: "'q resource_list \<Rightarrow> 'q resource_list \<Rightarrow> bool"

section \<open>Choosing a pod\<close>

definition getPodList :: "'q k8s_env \<Rightarrow> 'q pod list \<times> 'q pod list" where
  "getPodList env =
     (let allPods = filter (\<lambda>pod. p_Phase pod = ''Running'' \<or> p_Phase pod = ''Pending'') (env_pods env)
      in (allPods, filter IsOffline allPods))"

definition GetOfflineJobs :: "'q k8s_env \<Rightarrow> (string \<times> string) list" where
  "GetOfflineJobs env = map (\<lambda>pod. (p_Name pod, p_Namespace pod)) (snd (getPodList env))"

definition getPodUsage :: "'q qops \<Rightarrow> 'q k8s_env \<Rightarrow> 'q pod \<Rightarrow> 'q resource_list" where
  "getPodUsage Q env pod =
     (let (cpu, mem) = fold (\<lambda>cgPath (cpu, mem).
            case env_stat env cgPath of
              None \<Rightarrow> (cpu, mem)
            | Some cgStat \<Rightarrow>
                (q_add Q cpu (q_new_milli Q (go_trunc (fl (CpuUsage cgStat * 1000)))),
                 q_add Q mem (q_new Q (go_trunc (MemoryTotalUsage cgStat)))))
          (PodCgroupDirs pod) (q_new_milli Q 0, q_new Q 0)
      in [(ResourceCPU, cpu), (ResourceMemory, mem)])"

definition usage_map :: "'q qops \<Rightarrow> 'q k8s_env \<Rightarrow> string \<Rightarrow> 'q pod list \<Rightarrow> (string, int) gomap" where
  "usage_map Q env rName pods =
     fold (\<lambda>pod usageMap.
       if rName = [] then usageMap
       else case map_of (getPodUsage Q env pod) rName of
         None \<Rightarrow> usageMap
       | Some q \<Rightarrow> AList.update (GetPodKey pod) (q_milli Q q) usageMap) pods []"

definition chooseOfflinePod ::
  "'q qops \<Rightarrow> (string \<Rightarrow> bool) \<Rightarrow> 'q k8s_env \<Rightarrow> string \<Rightarrow> 'q pod option \<times> 'q resource_list" where
  "chooseOfflinePod Q ext env rName =
     (let offlinePods = snd (getPodList env) in
      case OrderedBy_Sort (kill_order (usage_map Q env rName offlinePods)) offlinePods of
        [] \<Rightarrow> (None, [])
      | killPod # _ \<Rightarrow> (Some killPod, GetPodResourceRequest Q ext killPod))"

definition KillOfflineJob :: "'q qops \<Rightarrow> (string \<Rightarrow> bool) \<Rightarrow> 'q k8s_env \<Rightarrow> string \<Rightarrow> 'q effect list" where
  "KillOfflineJob Q ext env conflictingResource =
     (case fst (chooseOfflinePod Q ext env conflictingResource) of None \<Rightarrow> [] | Some pod \<Rightarrow> [EvictPod pod])"

definition syncNodeInfo :: "'q qops \<Rightarrow> (string \<Rightarrow> bool) \<Rightarrow> 'q k8s_env \<Rightarrow> 'q k8sClient \<Rightarrow> 'q NodeInfo" where
  "syncNodeInfo Q ext env k =
     (let pods = fst (getPodList env) in
      case kc_nodeInfo k of
        None \<Rightarrow> NewNodeInfo Q ext pods
      | Some n \<Rightarrow> ResetNodeInfo Q ext pods n)"

definition reduceReleaseRequestResource ::
  "'q qops \<Rightarrow> (string \<Rightarrow> bool) \<Rightarrow> 'q k8s_env \<Rightarrow> string \<Rightarrow> 'q NodeInfo \<Rightarrow> 'q NodeInfo \<times> 'q pod option" where
  "reduceReleaseRequestResource Q ext env rs n =
     (let (chosenPod, releasedRes) = chooseOfflinePod Q ext env rs
      in (ReduceRequestedResource Q releasedRes n, chosenPod))"

section \<open>Writing the node\<close>

definition updateNodeResources :: "'q qops \<Rightarrow> 'q node \<Rightarrow> 'q resource_list \<Rightarrow> 'q node" where
  "updateNodeResources Q node res =
     fold (\<lambda>(k, v) n.
       let resName = ExternalResourcePrefix @ k; vv = (if k = ResourceCPU then q_new Q (q_milli Q v) else v)
       in n\<lparr>Capacity := AList.update resName vv (Capacity n), Allocatable := AList.update resName vv (Allocatable n)\<rparr>) res node"

text \<open>The attempts of the update loop: at most three, none after a success.\<close>

definition update_attempts :: "(nat \<Rightarrow> bool) \<Rightarrow> nat" where
  "update_attempts ok = (if ok 0 then 1 else if ok 1 then 2 else 3)"

text \<open>
  The error of the loop is a new variable of the loop body; the function's own error stays nil,
  so the node counts as updated and no error is returned, whatever the attempts gave.
\<close>

definition syncOfflineResource ::
  "'q qops \<Rightarrow> 'q k8s_env \<Rightarrow> 'q node \<Rightarrow> 'q resource_list \<Rightarrow> 'q k8sClient
    \<Rightarrow> 'q k8sClient \<times> 'q effect list \<times> (resource_error + unit)" where
  "syncOfflineResource Q env node offlineList k =
     (let updatedNode = updateNodeResources Q node offlineList in
      if (case kc_lastNode k of None \<Rightarrow> False | Some l \<Rightarrow> env_DeepEqual env (Capacity l) (Capacity updatedNode))
      then (k, [], Inr ())
      else (k\<lparr>kc_lastNode := Some updatedNode\<rparr>,
            replicate (update_attempts (env_update env)) (UpdateStatus updatedNode), Inr ()))"

definition AllResCompressible :: "string list \<Rightarrow> bool" where
  "AllResCompressible res \<longleftrightarrow> list_all (\<lambda>r. r = ResourceCPU) res"

text \<open>Whether and for which resource a pod is to be killed.\<close>

definition kill_reason :: "'q qops \<Rightarrow> 'q k8sClient \<Rightarrow> 'q NodeInfo \<Rightarrow> 'q resource_list \<Rightarrow> string list \<Rightarrow> string option" where
  "kill_reason Q k n offlineList conflictingRes =
     (let (over, rs) = More Q n offlineList in
      if conflictingRes = [] \<and> kc_DisableKillIfNormal k then None
      else if conflictingRes \<noteq> [] \<and> kc_OnlyKillIfIncompressibleRes k \<and> AllResCompressible conflictingRes then None
      else if over then Some rs
      else case conflictingRes of [] \<Rightarrow> None | c # _ \<Rightarrow> Some c)"

definition AdaptAndUpdateOfflineResource ::
  "'q qops \<Rightarrow> (string \<Rightarrow> bool) \<Rightarrow> 'q k8s_env \<Rightarrow> 'q resource_list \<Rightarrow> string list \<Rightarrow> 'q k8sClient
    \<Rightarrow> 'q k8sClient \<times> 'q effect list \<times> (resource_error + unit)" where
  "AdaptAndUpdateOfflineResource Q ext env offlineList conflictingRes k =
     (case env_node env of
        Inl err \<Rightarrow> (k, [], Inl err)
      | Inr node \<Rightarrow>
          let n = syncNodeInfo Q ext env k;
              (n, chosenPod) = (case kill_reason Q k n offlineList conflictingRes of
                 None \<Rightarrow> (n, None)
               | Some rs \<Rightarrow> reduceReleaseRequestResource Q ext env rs n);
              k = k\<lparr>kc_node := Some node, kc_nodeInfo := Some n\<rparr>;
              offlineList = (if kc_extResScheduleDisabled k \<and> Less Q n offlineList
                 then AList.update ResourceCPU (rl_get Q (RequestedResource n) ResourceCPU) offlineList else offlineList);
              (k, effects, r) = syncOfflineResource Q env node offlineList k
          in (case r of
                Inl err \<Rightarrow> (k, effects, Inl err)
              | Inr _ \<Rightarrow> (k, effects @ (case chosenPod of None \<Rightarrow> [] | Some pod \<Rightarrow> [EvictPod pod]), Inr ())))"

section \<open>Schedule switches\<close>

definition k8s_DisableOfflineSchedule :: "'q k8sClient \<Rightarrow> 'q k8sClient \<times> 'q effect list" where
  "k8s_DisableOfflineSchedule k =
     (if kc_extResScheduleDisabled k then (k, [])
      else (k\<lparr>kc_extResScheduleDisabled := True\<rparr>, [SendAlarm ''schedule is closing'', SaveCheckpoint True]))"

definition k8s_EnableOfflineSchedule :: "'q k8sClient \<Rightarrow> 'q k8sClient \<times> 'q effect list" where
  "k8s_EnableOfflineSchedule k =
     (if \<not> kc_extResScheduleDisabled k then (k, [])
      else (k\<lparr>kc_extResScheduleDisabled := False\<rparr>, [SaveCheckpoint False]))"

record NodeResourceCheckPoint =
  Timeseconds :: int
  ScheduleDisable :: bool

text \<open>
  Restoring the switch after a restart: the checkpoint (\<open>None\<close> when it cannot be restored) and
  the clock. The result says whether an enable call is due five minutes later.
\<close>

definition checkScheduleDisable ::
  "bool \<Rightarrow> int \<Rightarrow> NodeResourceCheckPoint option \<Rightarrow> 'q k8sClient \<Rightarrow> 'q k8sClient \<times> 'q effect list \<times> bool" where
  "checkScheduleDisable checkTime nowSeconds nodeCheckpoint k =
     (case nodeCheckpoint of
        None \<Rightarrow> (k, [], False)
      | Some cp \<Rightarrow>
          if \<not> ScheduleDisable cp then (k, [], False)
          else if checkTime \<and> nowSeconds - Timeseconds cp > 300 then (k, [], False)
          else let (k, effects) = k8s_DisableOfflineSchedule k in (k, effects, True))"

section \<open>The manager\<close>

record ResourceUpdateEvent =
  ConflictRes :: "string list"
  Reason :: string

record 'q offlineManager =
  om_client :: "'q k8sClient"
  om_conflict :: "'q manager"
  om_eventChan :: "ResourceUpdateEvent list"
  om_scheduleSilence :: bool
  om_aheadOfUnschedulePeriod :: go_duration
  om_silencePeriods :: "(SecondsInDay \<times> SecondsInDay) list"
  om_SilenceMode :: bool

definition in_periods :: "(go_time \<Rightarrow> clock) \<Rightarrow> go_time \<Rightarrow> (SecondsInDay \<times> SecondsInDay) list \<Rightarrow> bool" where
  "in_periods clock_of t ps \<longleftrightarrow> list_ex (IsTimeInSecondsDay (clock_of t)) ps"

definition checkSilence :: "(go_time \<Rightarrow> clock) \<Rightarrow> go_time \<Rightarrow> 'q offlineManager \<Rightarrow> 'q offlineManager \<times> 'q effect list" where
  "checkSilence clock_of now m =
     (if om_silencePeriods m = [] then (m, [])
      else let scheduleSilence = in_periods clock_of (now + om_aheadOfUnschedulePeriod m) (om_silencePeriods m);
               resourceSilence = in_periods clock_of now (om_silencePeriods m);
               (m, e1) = (if \<not> om_scheduleSilence m \<and> scheduleSilence
                  then let (c, e) = k8s_DisableOfflineSchedule (om_client m)
                       in (m\<lparr>om_client := c, om_scheduleSilence := True\<rparr>, e)
                  else (m, []));
               (m, e2) = (if om_SilenceMode m \<noteq> resourceSilence
                  then let m = m\<lparr>om_SilenceMode := resourceSilence\<rparr> in
                       if resourceSilence then (m, [])
                       else let (c, e) = k8s_EnableOfflineSchedule (om_client m)
                            in (m\<lparr>om_scheduleSilence := False, om_client := c\<rparr>, e)
                  else (m, []))
           in (m, e1 @ e2))"

definition DisableOfflineSchedule :: "'q offlineManager \<Rightarrow> 'q offlineManager \<times> 'q effect list" where
  "DisableOfflineSchedule m =
     (if om_scheduleSilence m then (m, [])
      else let (c, e) = k8s_DisableOfflineSchedule (om_client m) in (m\<lparr>om_client := c\<rparr>, e))"

definition EnableOfflineSchedule :: "'q offlineManager \<Rightarrow> 'q offlineManager \<times> 'q effect list" where
  "EnableOfflineSchedule m =
     (if om_scheduleSilence m then (m, [])
      else let (c, e) = k8s_EnableOfflineSchedule (om_client m) in (m\<lparr>om_client := c\<rparr>, e))"

definition SyncNodeResource :: "ResourceUpdateEvent \<Rightarrow> 'q offlineManager \<Rightarrow> 'q offlineManager \<times> (resource_error + unit)" where
  "SyncNodeResource event m =
     (if length (om_eventChan m) < 32 then (m\<lparr>om_eventChan := om_eventChan m @ [event]\<rparr>, Inr ())
      else (m, Inl ChannelFull))"

definition sync ::
  "'q qops \<Rightarrow> (string \<Rightarrow> bool) \<Rightarrow> 'q k8s_env \<Rightarrow> 'q resource_list option \<Rightarrow> string list \<Rightarrow> 'q offlineManager
    \<Rightarrow> 'q offlineManager \<times> 'q effect list" where
  "sync Q ext env predicted conflictingRes m =
     (case predicted of
        None \<Rightarrow> (m, [])
      | Some resList \<Rightarrow>
          let (c, resList, conflictedList) = CheckAndSubConflictResource Q resList (om_conflict m);
              (resList, conflictingRes) = (if om_SilenceMode m
                 then (AList.update ResourceCPU (zeroQ Q) resList, [ResourceCPU]) else (resList, conflictingRes));
              (client, effects, r) = AdaptAndUpdateOfflineResource Q ext env resList conflictingRes (om_client m)
          in (m\<lparr>om_conflict := c, om_client := client\<rparr>, effects))"

text \<open>One round of the main loop: a tick, or the next event of the channel.\<close>

definition on_tick ::
  "'q qops \<Rightarrow> (string \<Rightarrow> bool) \<Rightarrow> (go_time \<Rightarrow> clock) \<Rightarrow> go_time \<Rightarrow> 'q k8s_env \<Rightarrow> 'q resource_list option
    \<Rightarrow> 'q offlineManager \<Rightarrow> 'q offlineManager \<times> 'q effect list" where
  "on_tick Q ext clock_of now env predicted m =
     (let (m, e1) = checkSilence clock_of now m; (m, e2) = sync Q ext env predicted [] m in (m, e1 @ e2))"

definition on_event ::
  "'q qops \<Rightarrow> (string \<Rightarrow> bool) \<Rightarrow> 'q k8s_env \<Rightarrow> 'q resource_list option \<Rightarrow> 'q offlineManager
    \<Rightarrow> 'q offlineManager \<times> 'q effect list" where
  "on_event Q ext env predicted m =
     (case om_eventChan m of
        [] \<Rightarrow> (m, [])
      | event # rest \<Rightarrow> sync Q ext env predicted (ConflictRes event) (m\<lparr>om_eventChan := rest\<rparr>))"

text \<open>The restoring of the checkpoint before the loop, and the call that it may have delayed.\<close>

definition restore_checkpoint :: "int \<Rightarrow> NodeResourceCheckPoint option \<Rightarrow> 'q offlineManager \<Rightarrow> 'q offlineManager \<times> bool" where
  "restore_checkpoint nowSeconds cp m =
     (let (client, effects, due) = checkScheduleDisable True nowSeconds cp (om_client m) in (m\<lparr>om_client := client\<rparr>, due))"

definition delayed_EnableOfflineSchedule :: "'q offlineManager \<Rightarrow> 'q offlineManager" where
  "delayed_EnableOfflineSchedule m = m\<lparr>om_client := fst (k8s_EnableOfflineSchedule (om_client m))\<rparr>"

end
