(* ===== verification/ResourceProps.thy ===== *)
theory ResourceProps
  imports Resource
begin

text \<open>
  What the resource manager relies on (the interface of the conflict manager), and what it
  guarantees: only offline pods are killed, in the documented order and after the node has been
  sent; what is written lies between zero and the prediction; the silence state machine.
\<close>

section \<open>The conflict manager as seen by its client\<close>

locale conflict_interface =
  fixes amount :: "'q \<Rightarrow> real"
    and check :: "'q resource_list \<Rightarrow> 'c \<Rightarrow> 'c \<times> 'q resource_list \<times> (string, bool) gomap"
    and inv :: "'c \<Rightarrow> bool"
  assumes check_inv: "inv c \<Longrightarrow> check pl c = (c', pl', cr) \<Longrightarrow> inv c'"
    and check_missing: "check pl c = (c', pl', cr) \<Longrightarrow> map_of pl r = None \<Longrightarrow> map_of pl' r = None"
    and check_lowers: "check pl c = (c', pl', cr) \<Longrightarrow> map_of pl r = Some p \<Longrightarrow> 0 \<le> amount p \<Longrightarrow>
       \<exists>p'. map_of pl' r = Some p' \<and> 0 \<le> amount p' \<and> amount p' \<le> amount p"
begin

definition in_range :: "'q resource_list \<Rightarrow> 'q resource_list \<Rightarrow> bool" where
  "in_range pl' pl \<longleftrightarrow> (\<forall>r q. map_of pl' r = Some q \<longrightarrow> (\<exists>p. map_of pl r = Some p \<and> 0 \<le> amount q \<and> amount q \<le> amount p))"

lemma check_in_range:
  assumes "check pl c = (c', pl', cr)" and "\<forall>r p. map_of pl r = Some p \<longrightarrow> 0 \<le> amount p"
  shows "in_range pl' pl"
  unfolding in_range_def
proof (intro allI impI)
  fix r q
  assume q: "map_of pl' r = Some q"
  then obtain p where p: "map_of pl r = Some p" using check_missing [OF assms(1), of r] by (cases "map_of pl r") auto
  with check_lowers [OF assms(1), of r p] assms(2) q show "\<exists>p. map_of pl r = Some p \<and> 0 \<le> amount q \<and> amount q \<le> amount p"
    by auto
qed

end

lemma wf_merge_entry_fold:
  "wf_map m \<Longrightarrow> wf_map (snd (snd (fold (merge_entry Q pl) es (ml, mc, m))))"
  by (rule fold_invariant [where Q = "\<lambda>_. True" and P = "\<lambda>s. wf_map (snd (snd s))"])
    (auto simp: merge_entry_def Let_def case_prod_unfold split: option.splits)

context quantity
begin

lemma CheckAndSub_wf:
  assumes "conflict_wf c" and "CheckAndSubConflictResource Q pl c = (c', pl', cr)"
  shows "conflict_wf c'"
proof -
  have "conflictingResources c' = snd (snd (fold (merge_entry Q pl) (conflictingResources c) ([], [], conflictingResources c)))"
    using assms(2) by (auto simp: CheckAndSubConflictResource_def mergeConflictResource_def case_prod_unfold Let_def)
  then have "wf_map (conflictingResources c')"
    using assms(1) wf_merge_entry_fold [of "conflictingResources c"] by (simp add: conflict_wf_def)
  moreover have "wf_map (ar_ConflictQuantity a)" if "map_of (conflictingResources c') k = Some a" for k a
    using that CheckAndSub_store [OF assms, of k] assms(1)
    by (fastforce simp: conflict_wf_def simp del: map_of_eq_Some_iff split: option.splits intro!: wf_merge_formula_fold)
  ultimately show ?thesis by (simp add: conflict_wf_def del: map_of_eq_Some_iff)
qed

lemma demand_le: "demand Q amount r p c \<le> 0"
  by (simp add: demand_def min0_le)

end

sublocale quantity \<subseteq> cm: conflict_interface amount "CheckAndSubConflictResource Q" conflict_wf
proof (unfold_locales, goal_cases)
  case (1 c pl c' pl' cr)
  then show ?case by (rule CheckAndSub_wf)
next
  case (2 pl c c' pl' cr r)
  then show ?case using CheckAndSub_spec(1) by blast
next
  case (3 pl c c' pl' cr r p)
  then show ?case using CheckAndSub_spec(2) [OF 3(1-3)] demand_le [of r p c] by (auto simp: max_def split: if_splits)
qed

context quantity
begin

lemma sub_in_range:
  "CheckAndSubConflictResource Q pl c = (c', pl', cr) \<Longrightarrow> \<forall>r p. map_of pl r = Some p \<longrightarrow> 0 \<le> amount p \<Longrightarrow>
   map_of pl' r = Some q \<Longrightarrow> \<exists>p. map_of pl r = Some p \<and> 0 \<le> amount q \<and> amount q \<le> amount p"
  using cm.check_in_range [of pl c c' pl' cr] unfolding cm.in_range_def by blast

end

section \<open>Killing pods\<close>

lemma chosen_is_offline:
  assumes "fst (chooseOfflinePod Q ext env rName) = Some pod"
  shows "pod \<in> set (snd (getPodList env))"
proof -
  let ?u = "usage_map Q env rName (snd (getPodList env))"
  obtain rest where "OrderedBy_Sort (kill_order ?u) (snd (getPodList env)) = pod # rest"
    using assms by (auto simp: chooseOfflinePod_def Let_def split: list.splits)
  then show ?thesis by (metis OrderedBy_Sort_def list.set_intros(1) set_sort_by)
qed

lemma sync_result [simp]: "snd (snd (syncOfflineResource Q env node ol k)) = Inr ()"
  by (simp add: syncOfflineResource_def Let_def)

lemma update_attempts_spec:
  "update_attempts ok \<in> {1..3} \<and> (\<forall>i < update_attempts ok - 1. \<not> ok i) \<and>
   (update_attempts ok < 3 \<longrightarrow> ok (update_attempts ok - 1))"
  by (auto simp: update_attempts_def less_Suc_eq numeral_2_eq_2)

lemma updateNode_lookup:
  assumes "wf_map res"
  shows "map_of (Capacity (updateNodeResources Q node res)) (ExternalResourcePrefix @ r) =
     (case map_of res r of
        None \<Rightarrow> map_of (Capacity node) (ExternalResourcePrefix @ r)
      | Some v \<Rightarrow> Some (if r = ResourceCPU then q_new Q (q_milli Q v) else v))"
  using assms
proof (induction res arbitrary: node)
  case Nil
  then show ?case by (simp add: updateNodeResources_def)
next
  case (Cons x res)
  obtain k v where x: "x = (k, v)" by (cases x)
  let ?vv = "if k = ResourceCPU then q_new Q (q_milli Q v) else v"
  let ?node = "node\<lparr>Capacity := AList.update (ExternalResourcePrefix @ k) ?vv (Capacity node),
      Allocatable := AList.update (ExternalResourcePrefix @ k) ?vv (Allocatable node)\<rparr>"
  have "updateNodeResources Q node (x # res) = updateNodeResources Q ?node res"
    by (simp add: updateNodeResources_def x Let_def)
  moreover have "map_of res k = None" using Cons.prems by (simp add: x map_of_eq_None_iff)
  ultimately show ?case using Cons by (auto simp: x simp del: map_of_eq_Some_iff split: option.split)
qed

text \<open>What one call sends to the server: nothing when the capacity equals that of the node sent last, or a run of attempts that ends with the first success or the third failure.\<close>

definition node_sent :: "'q k8s_env \<Rightarrow> 'q node \<Rightarrow> 'q node option \<Rightarrow> 'q node option \<Rightarrow> 'q effect list \<Rightarrow> bool" where
  "node_sent env nd previous next_last writes \<longleftrightarrow>
     writes = [] \<and> next_last = previous \<and> (\<exists>l. previous = Some l \<and> env_DeepEqual env (Capacity l) (Capacity nd)) \<or>
     next_last = Some nd \<and>
       (\<exists>n \<in> {1..3}. writes = replicate n (UpdateStatus nd) \<and> (\<forall>i < n - 1. \<not> env_update env i) \<and> (n < 3 \<longrightarrow> env_update env (n - 1)))"

lemma sync_sends:
  assumes "syncOfflineResource Q env node ol k = (k', effects, res)"
  shows "node_sent env (updateNodeResources Q node ol) (kc_lastNode k) (kc_lastNode k') effects"
proof (cases "\<exists>l. kc_lastNode k = Some l \<and> env_DeepEqual env (Capacity l) (Capacity (updateNodeResources Q node ol))")
  case True
  with assms show ?thesis by (auto simp: syncOfflineResource_def node_sent_def Let_def)
next
  case False
  then have "effects = replicate (update_attempts (env_update env)) (UpdateStatus (updateNodeResources Q node ol))"
    and "kc_lastNode k' = Some (updateNodeResources Q node ol)"
    using assms by (auto simp: syncOfflineResource_def Let_def split: option.splits)
  with update_attempts_spec [of "env_update env"] show ?thesis unfolding node_sent_def by blast
qed

lemma kill_reason_Some:
  assumes "kill_reason Q k n ol crs = Some rs"
  shows "if crs = [] then \<not> kc_DisableKillIfNormal k \<and> fst (More Q n ol)
     else \<not> (kc_OnlyKillIfIncompressibleRes k \<and> set crs \<subseteq> {ResourceCPU})"
  using assms
  by (auto simp: kill_reason_def AllResCompressible_def list_all_iff case_prod_unfold Let_def split: if_splits list.splits)

lemma adapt_cases:
  assumes "AdaptAndUpdateOfflineResource Q ext env ol crs k = (k', effects, res)" and "env_node env = Inr node"
  obtains n0 n1 ol' k1 writes chosen where "n0 = syncNodeInfo Q ext env k"
    and "(n1, chosen) = (case kill_reason Q k n0 ol crs of None \<Rightarrow> (n0, None) | Some rs \<Rightarrow> reduceReleaseRequestResource Q ext env rs n0)"
    and "ol' = (if kc_extResScheduleDisabled k \<and> Less Q n1 ol
                 then AList.update ResourceCPU (rl_get Q (RequestedResource n1) ResourceCPU) ol else ol)"
    and "kc_lastNode k1 = kc_lastNode k" and "syncOfflineResource Q env node ol' k1 = (k', writes, Inr ())"
    and "effects = writes @ (case chosen of None \<Rightarrow> [] | Some pod \<Rightarrow> [EvictPod pod])" and "res = Inr ()"
proof -
  obtain n1 chosen where c: "(n1, chosen) = (case kill_reason Q k (syncNodeInfo Q ext env k) ol crs of
      None \<Rightarrow> (syncNodeInfo Q ext env k, None) | Some rs \<Rightarrow> reduceReleaseRequestResource Q ext env rs (syncNodeInfo Q ext env k))"
    by (metis surj_pair)
  define ol' where "ol' = (if kc_extResScheduleDisabled k \<and> Less Q n1 ol
                 then AList.update ResourceCPU (rl_get Q (RequestedResource n1) ResourceCPU) ol else ol)"
  let ?k = "k\<lparr>kc_node := Some node, kc_nodeInfo := Some n1\<rparr>"
  obtain k2 writes where s: "syncOfflineResource Q env node ol' ?k = (k2, writes, Inr ())"
    using sync_result by (metis surj_pair prod.sel(2))
  have "k' = k2 \<and> effects = writes @ (case chosen of None \<Rightarrow> [] | Some pod \<Rightarrow> [EvictPod pod]) \<and> res = Inr ()"
    using assms s unfolding AdaptAndUpdateOfflineResource_def Let_def c [symmetric] by (simp add: ol'_def)
  with s show thesis using that [OF refl c ol'_def, of ?k writes] by simp
qed

text \<open>
  C12. One call that adapts the offline resources either fails to get the node and does nothing, or first deals
  with the capacity and then kills. The node sent to the server carries the offer (cpu in thousandths, and lower
  while scheduling is switched off); sending it is at most three attempts, of which all but the
  last failed and the third may have failed too, and it is left out only when the capacity
  equals that of the node sent last. After these writes at most one pod is killed; it is an
  offline pod that is running or pending; and it is killed only for a conflict, unless all conflicting resources are compressible and
  these are excepted, or, where killing without a conflict is not disabled, when the requests exceed the offer.
\<close>

theorem adapt_kills_offline_after_update:
  assumes "AdaptAndUpdateOfflineResource Q ext env offlineList conflictRes k = (k', effects, res)" and "wf_map offlineList"
  shows "(\<exists>err. env_node env = Inl err \<and> k' = k \<and> effects = [] \<and> res = Inl err) \<or>
     (\<exists>node nd writes kills. env_node env = Inr node \<and> res = Inr () \<and> effects = writes @ map EvictPod kills \<and>
        node_sent env nd (kc_lastNode k) (kc_lastNode k') writes \<and>
        (\<forall>r v. map_of offlineList r = Some v \<and> (r = ResourceCPU \<longrightarrow> \<not> kc_extResScheduleDisabled k) \<longrightarrow>
           map_of (Capacity nd) (ExternalResourcePrefix @ r) = Some (if r = ResourceCPU then q_new Q (q_milli Q v) else v)) \<and>
        length kills \<le> 1 \<and>
        (\<forall>pod \<in> set kills. pod \<in> set (env_pods env) \<and> IsOffline pod \<and> p_Phase pod \<in> {''Running'', ''Pending''} \<and>
           (if conflictRes = [] then \<not> kc_DisableKillIfNormal k \<and> fst (More Q (syncNodeInfo Q ext env k) offlineList)
            else \<not> (kc_OnlyKillIfIncompressibleRes k \<and> set conflictRes \<subseteq> {ResourceCPU}))))"
proof (cases "env_node env")
  case (Inl err)
  with assms show ?thesis by (simp add: AdaptAndUpdateOfflineResource_def)
next
  case (Inr node)
  from adapt_cases [OF assms(1) Inr] obtain n0 n1 ol' k1 writes chosen where a: "n0 = syncNodeInfo Q ext env k"
    "(n1, chosen) = (case kill_reason Q k n0 offlineList conflictRes of None \<Rightarrow> (n0, None) | Some rs \<Rightarrow> reduceReleaseRequestResource Q ext env rs n0)"
    "ol' = (if kc_extResScheduleDisabled k \<and> Less Q n1 offlineList
                 then AList.update ResourceCPU (rl_get Q (RequestedResource n1) ResourceCPU) offlineList else offlineList)"
    "kc_lastNode k1 = kc_lastNode k" "syncOfflineResource Q env node ol' k1 = (k', writes, Inr ())"
    "effects = writes @ (case chosen of None \<Rightarrow> [] | Some pod \<Rightarrow> [EvictPod pod])" "res = Inr ()" by metis
  have "wf_map ol'" and l: "map_of ol' r = map_of offlineList r" if "r = ResourceCPU \<longrightarrow> \<not> kc_extResScheduleDisabled k" for r
    using assms(2) that by (auto simp: a(3))
  then have carries: "map_of (Capacity (updateNodeResources Q node ol')) (ExternalResourcePrefix @ r) = Some (if r = ResourceCPU then q_new Q (q_milli Q v) else v)"
    if "map_of offlineList r = Some v" "r = ResourceCPU \<longrightarrow> \<not> kc_extResScheduleDisabled k" for r v
    using updateNode_lookup [of ol' Q node r] that by (simp del: map_of_eq_Some_iff)
  have kill: "pod \<in> set (env_pods env) \<and> IsOffline pod \<and> p_Phase pod \<in> {''Running'', ''Pending''} \<and>
      (if conflictRes = [] then \<not> kc_DisableKillIfNormal k \<and> fst (More Q (syncNodeInfo Q ext env k) offlineList)
       else \<not> (kc_OnlyKillIfIncompressibleRes k \<and> set conflictRes \<subseteq> {ResourceCPU}))" if chosen: "chosen = Some pod" for pod
  proof -
    obtain rs where rs: "kill_reason Q k n0 offlineList conflictRes = Some rs" "fst (chooseOfflinePod Q ext env rs) = Some pod"
      using a(2) chosen by (auto simp: reduceReleaseRequestResource_def case_prod_unfold Let_def split: option.splits)
    with kill_reason_Some [OF rs(1)] chosen_is_offline [OF rs(2)] show ?thesis by (auto simp: getPodList_def Let_def a(1))
  qed
  let ?kills = "case chosen of None \<Rightarrow> [] | Some pod \<Rightarrow> [pod]"
  have "effects = writes @ map EvictPod ?kills \<and> length ?kills \<le> 1" by (simp add: a(6) split: option.splits)
  then show ?thesis using Inr a(7) sync_sends [OF a(5)] carries kill unfolding a(4)
    by (intro disjI2 exI [of _ node] exI [of _ "updateNodeResources Q node ol'"] exI [of _ writes] exI [of _ ?kills])
      (auto simp del: map_of_eq_Some_iff split: option.splits)
qed

definition kill_pod :: "string \<Rightarrow> bool \<Rightarrow> int \<Rightarrow> int pod" where
  "kill_pod name offline pri = \<lparr>p_Name = name, p_Namespace = ''batch'', p_UID = name,
     p_Annotations = (if offline then Some [(AnnotationOfflineKey, AnnotationOfflineValue)] else None),
     p_Priority = Some pri, p_Phase = ''Running'', p_StartTime = None, p_QOSClass = ''BestEffort'',
     p_Containers = [\<lparr>c_Name = ''c'', c_Requests = [(ExternalResourcePrefix @ ''cpu'', 2000000000000)]\<rparr>], p_ContainerIDs = [], p_HostNetwork = False, p_PodIP = []\<rparr>"

definition kill_env :: "int k8s_env" where
  "kill_env = \<lparr>env_node = Inr \<lparr>Capacity = [], Allocatable = []\<rparr>,
     env_pods = [kill_pod ''web'' False 0, kill_pod ''a'' True 9, kill_pod ''b'' True 3],
     env_stat = (\<lambda>p. None), env_update = (\<lambda>i. True), env_DeepEqual = (=)\<rparr>"

definition kill_client :: "int k8sClient" where
  "kill_client = \<lparr>kc_node = None, kc_lastNode = None, kc_DisableKillIfNormal = False,
     kc_OnlyKillIfIncompressibleRes = False, kc_nodeInfo = None, kc_extResScheduleDisabled = False\<rparr>"

text \<open>Two offline pods request 4000 cores and the offer is none: one write that succeeds, then one of the two is killed.\<close>

lemma kill_env_evicts:
  "EvictPod (kill_pod ''b'' True 3) \<in> set (fst (snd (AdaptAndUpdateOfflineResource nanoQ (\<lambda>r. True) kill_env [(''cpu'', 0)] [] kill_client)))"
  by code_simp

theorem adapt_kills_offline_after_update_witness:
  "\<exists>nd kills. fst (snd (AdaptAndUpdateOfflineResource nanoQ (\<lambda>r. True) kill_env [(''cpu'', 0)] [] kill_client)) =
       UpdateStatus nd # map EvictPod kills \<and> kills = [kill_pod ''b'' True 3] \<and>
     map_of (Capacity nd) (ExternalResourcePrefix @ ''cpu'') = Some 0"
proof -
  let ?A = "AdaptAndUpdateOfflineResource nanoQ (\<lambda>r. True) kill_env [(''cpu'', 0)] [] kill_client"
  have "?A = (fst ?A, fst (snd ?A), snd (snd ?A))" "wf_map [(''cpu'', 0::int)]" by simp_all
  from adapt_kills_offline_after_update [OF this] obtain nd writes kills where
    w: "fst (snd ?A) = writes @ map EvictPod kills" "node_sent kill_env nd None (kc_lastNode (fst ?A)) writes" "length kills \<le> 1"
    "map_of (Capacity nd) (ExternalResourcePrefix @ ''cpu'') = Some 0"
    by (auto simp: kill_client_def kill_env_def nanoQ_def simp del: map_of_eq_Some_iff)
  from w(2) obtain n where n: "writes = replicate n (UpdateStatus nd)" "1 \<le> n" "\<forall>i < n - 1. \<not> True"
    by (auto simp: node_sent_def kill_env_def)
  then have "n = 1" by (metis diff_is_0_eq gr0I le_antisym)
  then have "writes = [UpdateStatus nd]" by (simp add: n(1))
  moreover from this have "kill_pod ''b'' True 3 \<in> set kills" using kill_env_evicts w(1) by auto
  then have "kills = [kill_pod ''b'' True 3]" using w(3) by (cases kills) auto
  ultimately show ?thesis using w by auto
qed

text \<open>The usage a pod is compared by: that of its cgroups, nothing for a resource other than cpu and memory.\<close>

definition kill_usage :: "'q qops \<Rightarrow> 'q k8s_env \<Rightarrow> string \<Rightarrow> 'q pod \<Rightarrow> int" where
  "kill_usage Q env rName pod = (case map_of (getPodUsage Q env pod) rName of None \<Rightarrow> 0 | Some q \<Rightarrow> q_milli Q q)"

lemma getPodUsage_dom: "map_of (getPodUsage Q env pod) r = None \<longleftrightarrow> r \<notin> {ResourceCPU, ResourceMemory}"
  by (simp add: getPodUsage_def case_prod_unfold Let_def)

definition usage_step where
  "usage_step Q env rName = (\<lambda>pod usageMap.
       if rName = [] then usageMap
       else case map_of (getPodUsage Q env pod) rName of
         None \<Rightarrow> usageMap
       | Some q \<Rightarrow> AList.update (GetPodKey pod) (q_milli Q q) usageMap)"

lemma usage_step_lookup:
  "map_of (usage_step Q env r pod u) x =
     (if x = GetPodKey pod \<and> r \<in> {ResourceCPU, ResourceMemory} then Some (kill_usage Q env r pod) else map_of u x)"
  using getPodUsage_dom [of Q env pod r]
  by (auto simp: usage_step_def kill_usage_def update_conv' simp del: map_of_eq_Some_iff split: option.splits)

lemma usage_fold_frame:
  "x \<notin> GetPodKey ` set pods \<Longrightarrow> map_of (fold (usage_step Q env r) pods u) x = map_of u x"
  by (induction pods arbitrary: u) (simp_all add: usage_step_lookup)

lemma usage_fold_lookup:
  "distinct (map GetPodKey pods) \<Longrightarrow> p \<in> set pods \<Longrightarrow> map_of (fold (usage_step Q env r) pods u) (GetPodKey p) =
     (if r \<in> {ResourceCPU, ResourceMemory} then Some (kill_usage Q env r p) else map_of u (GetPodKey p))"
  by (induction pods arbitrary: u) (auto simp: usage_step_lookup usage_fold_frame simp del: map_of_eq_Some_iff)

lemma usage_map_lookup:
  assumes "distinct (map GetPodKey pods)"
  shows "p \<in> set pods \<Longrightarrow> map_of (usage_map Q env r pods) (GetPodKey p) =
     (if r \<in> {ResourceCPU, ResourceMemory} then Some (kill_usage Q env r p) else None)"
    and "x \<notin> GetPodKey ` set pods \<Longrightarrow> map_of (usage_map Q env r pods) x = None"
  using usage_fold_lookup [OF assms, of p Q env r "[]"] usage_fold_frame [of x pods Q env r "[]"]
  unfolding usage_map_def usage_step_def [symmetric] by auto

lemma usage_map_ok:
  assumes "distinct (map GetPodKey pods)" and "\<forall>p \<in> set pods. kill_usage Q env r p \<in> {0..<2 ^ 63}"
  shows "usage_ok (usage_map Q env r pods)"
  unfolding usage_ok_def
proof (intro allI impI)
  fix x v
  assume v: "map_of (usage_map Q env r pods) x = Some v"
  then obtain p where "p \<in> set pods" "x = GetPodKey p" using usage_map_lookup(2) [OF assms(1)] by fastforce
  with v usage_map_lookup(1) [OF assms(1), of p Q env r] assms(2) show "0 \<le> v \<and> v < 2 ^ 63" by (auto split: if_splits)
qed

text \<open>
  C16. The pod chosen to be killed is an offline pod, and it comes before every other one in the documented order: it has the lower
  priority (zero when none is set); or the same priority and the larger usage of the conflicting
  resource; or both are the same and it started later, pods that have not started being the last to be
  chosen. The released resources are the pod's requests. The keys of the pods,
  namespace and name joined by a dash, are distinct, and no usage is negative or outside the 64 bit range.
\<close>

theorem chooseOfflinePod_order:
  assumes "chooseOfflinePod Q ext env rName = (Some pod, released)"
    and "distinct (map (\<lambda>p. p_Namespace p @ ''-'' @ p_Name p) (snd (getPodList env)))"
    and "\<forall>p \<in> set (snd (getPodList env)). kill_usage Q env rName p \<in> {0..<2 ^ 63}" and "other \<in> set (snd (getPodList env))"
  defines "priority \<equiv> \<lambda>p :: 'q pod. case p_Priority p of None \<Rightarrow> 0 | Some n \<Rightarrow> n"
  shows "released = GetPodResourceRequest Q ext pod \<and> pod \<in> set (snd (getPodList env)) \<and>
     (priority pod < priority other \<or> priority pod = priority other \<and>
        (kill_usage Q env rName other < kill_usage Q env rName pod \<or> kill_usage Q env rName other = kill_usage Q env rName pod \<and>
           (p_StartTime other = None \<or> (\<exists>t s. p_StartTime other = Some t \<and> p_StartTime pod = Some s \<and> t \<le> s))))"
proof -
  let ?pods = "snd (getPodList env)" and ?u = "usage_map Q env rName (snd (getPodList env))"
  have d: "distinct (map GetPodKey ?pods)" using assms(2) by (simp add: GetPodKey_def [abs_def])
  obtain rest where srt: "OrderedBy_Sort (kill_order ?u) ?pods = pod # rest"
    and r: "released = GetPodResourceRequest Q ext pod"
    using assms(1) by (auto simp: chooseOfflinePod_def Let_def split: list.splits)
  have ok: "usage_ok ?u" by (rule usage_map_ok [OF d assms(3)])
  have pod: "pod \<in> set ?pods" using chosen_is_offline assms(1) by (metis fst_conv)
  note u = usage_map_lookup(1) [OF d pod, of Q env rName] usage_map_lookup(1) [OF d assms(4), of Q env rName]
  have res: "SortByResource ?u pod other = kill_usage Q env rName other - kill_usage Q env rName pod"
  proof (cases "rName \<in> {ResourceCPU, ResourceMemory}")
    case True
    then show ?thesis using u SortByResource_eq [OF ok, of pod _ other] by auto
  next
    case False
    then have "kill_usage Q env rName p = 0" for p using getPodUsage_dom [of Q env p rName] by (simp add: kill_usage_def)
    then show ?thesis using u False by (simp add: SortByResource_def)
  qed
  have start: "SortByStartTime pod other \<le> 0 \<Longrightarrow> p_StartTime other = None \<or> (\<exists>t s. p_StartTime other = Some t \<and> p_StartTime pod = Some s \<and> t \<le> s)"
    by (auto simp: SortByStartTime_def split: if_splits option.splits)
  have pri: "SortByPriority pod other < 0 \<longleftrightarrow> priority pod < priority other" "SortByPriority pod other = 0 \<longleftrightarrow> priority pod = priority other"
    by (simp_all add: SortByPriority_def pod_priority_def priority_def)
  show ?thesis using kill_order_first [OF ok srt assms(4)] r pod start unfolding res pri by auto
qed

lemma kill_env_choice:
  "\<exists>r. chooseOfflinePod nanoQ (\<lambda>r. True) kill_env [] = (Some (kill_pod ''b'' True 3), r)"
  by (simp add: chooseOfflinePod_def getPodList_def kill_env_def kill_pod_def IsOffline_def usage_map_def
      OrderedBy_Sort_def sort_by_def kill_order_def SortByPriority_def pod_priority_def Let_def)

lemma kill_env_pods: "snd (getPodList kill_env) = [kill_pod ''a'' True 9, kill_pod ''b'' True 3]"
  by (simp add: getPodList_def kill_env_def kill_pod_def IsOffline_def Let_def)

theorem chooseOfflinePod_order_witness:
  "\<exists>pod r. chooseOfflinePod nanoQ (\<lambda>r. True) kill_env [] = (Some pod, r) \<and> p_Priority pod = Some 3 \<and>
     (\<forall>other \<in> set (snd (getPodList kill_env)). 3 \<le> the (p_Priority other))"
proof -
  obtain r where c: "chooseOfflinePod nanoQ (\<lambda>r. True) kill_env [] = (Some (kill_pod ''b'' True 3), r)"
    using kill_env_choice by blast
  have "distinct (map (\<lambda>p. p_Namespace p @ ''-'' @ p_Name p) (snd (getPodList kill_env)))"
    "\<forall>p \<in> set (snd (getPodList kill_env)). kill_usage nanoQ kill_env [] p \<in> {0..<2 ^ 63}"
    by (simp_all add: kill_env_pods kill_pod_def kill_usage_def getPodUsage_def case_prod_unfold Let_def)
  note chooseOfflinePod_order [OF c this]
  then have "3 \<le> the (p_Priority other)" if "other \<in> set (snd (getPodList kill_env))" for other
    using that by (fastforce simp: kill_env_pods kill_pod_def)
  with c show ?thesis by (simp add: kill_pod_def)
qed

section \<open>The update error\<close>

text \<open>
  A failed write of the node is taken for a success: when every \<^verbatim>\<open>UpdateStatus\<close> call fails, the
  function still returns nil and remembers the node as written, so that the next call with the
  same resources does not try again. The hypothesis on the library is that its equality is
  reflexive.
\<close>

lemma syncOfflineResource_forgets_failure:
  assumes "\<forall>rl. env_DeepEqual env rl rl" and "\<forall>i. \<not> env_update env i" and "kc_lastNode k = None"
  shows "\<exists>k'. syncOfflineResource Q env node offlineList k =
       (k', replicate 3 (UpdateStatus (updateNodeResources Q node offlineList)), Inr ()) \<and>
     syncOfflineResource Q env node offlineList k' = (k', [], Inr ())"
proof -
  let ?n = "updateNodeResources Q node offlineList"
  have "update_attempts (env_update env) = 3" using assms(2) by (simp add: update_attempts_def)
  then have "syncOfflineResource Q env node offlineList k =
      (k\<lparr>kc_lastNode := Some ?n\<rparr>, replicate 3 (UpdateStatus ?n), Inr ())"
    using assms(3) by (simp add: syncOfflineResource_def Let_def)
  moreover have "syncOfflineResource Q env node offlineList (k\<lparr>kc_lastNode := Some ?n\<rparr>) =
      (k\<lparr>kc_lastNode := Some ?n\<rparr>, [], Inr ())"
    using assms(1) by (simp add: syncOfflineResource_def Let_def)
  ultimately show ?thesis by blast
qed

theorem syncOfflineResource_forgets_failure_witness:
  "\<exists>k'. syncOfflineResource nanoQ (kill_env\<lparr>env_update := \<lambda>i. False\<rparr>) \<lparr>Capacity = [], Allocatable = []\<rparr> [(''memory'', 7)] kill_client =
       (k', replicate 3 (UpdateStatus (updateNodeResources nanoQ \<lparr>Capacity = [], Allocatable = []\<rparr> [(''memory'', 7)])), Inr ()) \<and>
     syncOfflineResource nanoQ (kill_env\<lparr>env_update := \<lambda>i. False\<rparr>) \<lparr>Capacity = [], Allocatable = []\<rparr> [(''memory'', 7)] k' = (k', [], Inr ())"
  by (rule syncOfflineResource_forgets_failure) (simp_all add: kill_client_def kill_env_def)

section \<open>What is written\<close>

lemma wf_sub_resource_fold: "wf_map pl \<Longrightarrow> wf_map (fst (fold (sub_resource Q mc) ml (pl, cr)))"
  by (rule fold_invariant [where Q = "\<lambda>_. True" and P = "\<lambda>s. wf_map (fst s)"])
    (auto simp: sub_resource_def Let_def)

lemma CheckAndSub_list_wf:
  assumes "CheckAndSubConflictResource Q pl c = (c', pl', cr)" and "wf_map pl"
  shows "wf_map pl'"
proof -
  obtain ml mc c1 where m: "mergeConflictResource Q pl c = (ml, mc, c1)" by (metis surj_pair)
  have "pl' = fst (fold (sub_resource Q mc) ml (pl, []))"
    using assms(1) by (auto simp: CheckAndSubConflictResource_def m case_prod_unfold Let_def)
  then show ?thesis using wf_sub_resource_fold [OF assms(2)] by simp
qed

lemma adapt_writes:
  fixes k :: "'q k8sClient"
  assumes "AdaptAndUpdateOfflineResource Q ext env ol crs k = (k', effects, res)" and "UpdateStatus nd \<in> set effects"
  shows "\<exists>node ol'. env_node env = Inr node \<and> nd = updateNodeResources Q node ol' \<and>
     (ol' = ol \<or> (\<exists>v. ol' = AList.update ResourceCPU v ol))"
proof (cases "env_node env")
  case (Inl err)
  with assms show ?thesis by (simp add: AdaptAndUpdateOfflineResource_def)
next
  case (Inr node)
  from adapt_cases [OF assms(1) Inr] obtain n1 :: "'q NodeInfo" and chosen k1 writes ol' where
    ol': "ol' = (if kc_extResScheduleDisabled k \<and> Less Q n1 ol
                 then AList.update ResourceCPU (rl_get Q (RequestedResource n1) ResourceCPU) ol else ol)"
    and w: "syncOfflineResource Q env node ol' k1 = (k', writes, Inr ())"
    "effects = writes @ (case chosen of None \<Rightarrow> [] | Some pod \<Rightarrow> [EvictPod pod])" by metis
  from assms(2) w(2) have "UpdateStatus nd \<in> set writes" by (auto split: option.splits)
  with w(1) have "nd = updateNodeResources Q node ol'"
    by (auto simp: syncOfflineResource_def Let_def split: if_splits)
  with Inr show ?thesis by (auto simp: ol')
qed

text \<open>
  C11. What the node offers to offline jobs is never negative and never more than the prediction:
  when a round writes the node, the extended capacity of every predicted resource other than
  cpu (which is written in thousandths and lowered further while scheduling is switched off)
  lies between zero and its prediction, whatever the stored conflicts are.
\<close>

theorem sync_writes_at_most_prediction:
  assumes "quantity Q amount" and "sync Q ext env (Some pl) crs m = (m', effects)" and "UpdateStatus nd \<in> set effects"
    and "wf_map pl" and "\<forall>r p. map_of pl r = Some p \<longrightarrow> 0 \<le> amount p" and "map_of pl r = Some p" and "r \<noteq> ResourceCPU"
  shows "\<exists>q. map_of (Capacity nd) (ExternalResourcePrefix @ r) = Some q \<and> 0 \<le> amount q \<and> amount q \<le> amount p"
proof -
  obtain c pl' cr where c: "CheckAndSubConflictResource Q pl (om_conflict m) = (c, pl', cr)" by (metis surj_pair)
  define ol where "ol = (if om_SilenceMode m then AList.update ResourceCPU (zeroQ Q) pl' else pl')"
  obtain crs' k' res where a: "AdaptAndUpdateOfflineResource Q ext env ol crs' (om_client m) = (k', effects, res)"
    using assms(2) by (auto simp: sync_def c ol_def case_prod_unfold Let_def split: if_splits) (metis surj_pair fst_conv snd_conv)+
  from adapt_writes [OF a assms(3)] obtain node ol' where nd: "nd = updateNodeResources Q node ol'"
    and ol': "ol' = ol \<or> (\<exists>v. ol' = AList.update ResourceCPU v ol)" by blast
  have "wf_map pl'" using CheckAndSub_list_wf [OF c assms(4)] .
  then have "wf_map ol'" and l: "map_of ol' r = map_of pl' r" using ol' assms(7) by (auto simp: ol_def)
  obtain q where "map_of pl' r = Some q"
    using quantity.CheckAndSub_spec(2) [OF assms(1) c, of r p] assms(5,6) by blast
  moreover have "0 \<le> amount q \<and> amount q \<le> amount p" if "map_of pl' r = Some q" for q
    using quantity.sub_in_range [OF assms(1) c assms(5) that] assms(6) by auto
  ultimately show ?thesis using updateNode_lookup [OF \<open>wf_map ol'\<close>, of Q node r] assms(7) by (simp add: nd l)
qed

definition quiet_env :: "int k8s_env" where
  "quiet_env = \<lparr>env_node = Inr \<lparr>Capacity = [], Allocatable = []\<rparr>, env_pods = [], env_stat = (\<lambda>p. None), env_update = (\<lambda>i. True), env_DeepEqual = (=)\<rparr>"

definition quiet_manager :: "int offlineManager" where
  "quiet_manager = \<lparr>om_client = kill_client, om_conflict = sample_conflicts, om_eventChan = [], om_scheduleSilence = False,
     om_aheadOfUnschedulePeriod = 0, om_silencePeriods = [], om_SilenceMode = False\<rparr>"

lemma quiet_sync:
  "UpdateStatus \<lparr>Capacity = [(ExternalResourcePrefix @ ''cpu'', 3000000000000), (ExternalResourcePrefix @ ''memory'', 0)],
      Allocatable = [(ExternalResourcePrefix @ ''cpu'', 3000000000000), (ExternalResourcePrefix @ ''memory'', 0)]\<rparr>
   \<in> set (snd (sync nanoQ (\<lambda>r. True) quiet_env (Some sample_predict) [] quiet_manager))"
  by (simp add: sync_def quiet_env_def quiet_manager_def sample_CheckAndSub AdaptAndUpdateOfflineResource_def
      syncNodeInfo_def getPodList_def NewNodeInfo_def kill_client_def kill_reason_def More_def empty_requests_def
      syncOfflineResource_def updateNodeResources_def update_attempts_def nano_ops Let_def)

lemma sample_predict_wf: "wf_map sample_predict" "\<forall>r p. map_of sample_predict r = Some p \<longrightarrow> 0 \<le> nano_amount p"
  by (auto simp: sample_predict_def nano_amount_def split: if_splits)

theorem sync_writes_at_most_prediction_witness:
  "\<exists>q. map_of [(ExternalResourcePrefix @ ''cpu'', 3000000000000), (ExternalResourcePrefix @ ''memory'', 0)]
       (ExternalResourcePrefix @ ''memory'') = Some q \<and> 0 \<le> nano_amount q \<and> nano_amount q \<le> nano_amount 4000000000"
  using sync_writes_at_most_prediction [OF nano.quantity_axioms surjective_pairing quiet_sync sample_predict_wf,
      of "''memory''" 4000000000]
  by (simp add: sample_predict_def)

section \<open>Silence\<close>

text \<open>
  The states of the manager that its operations reach: the restoring of the checkpoint before the main
  loop starts, ticks and events of the loop, and the notifications and schedule switches as the health checker calls
  them, at any time. The enable call that the restoring may delay by five minutes goes to the client directly;
  the second part of a state says where it is: the checkpoint was not looked at yet, the call is due, it is done
  with or was never needed, or it was made in the silence that still lasts.
\<close>

datatype delayed_enable = Unchecked | Due | Over | InSilence

definition settle :: "delayed_enable \<Rightarrow> 'q offlineManager \<Rightarrow> delayed_enable" where
  "settle s m = (if s = InSilence \<and> \<not> om_scheduleSilence m then Over else s)"

inductive manager_reach :: "'q qops \<Rightarrow> (string \<Rightarrow> bool) \<Rightarrow> (go_time \<Rightarrow> clock) \<Rightarrow> 'q offlineManager \<Rightarrow> delayed_enable \<Rightarrow> bool"
  for Q ext clock_of where
  init: "\<not> om_scheduleSilence m \<Longrightarrow> om_eventChan m = [] \<Longrightarrow> manager_reach Q ext clock_of m Unchecked"
| checkpoint: "manager_reach Q ext clock_of m Unchecked \<Longrightarrow> restore_checkpoint nowSeconds cp m = (m', due) \<Longrightarrow>
    manager_reach Q ext clock_of m' (if due then Due else Over)"
| tick: "manager_reach Q ext clock_of m s \<Longrightarrow> s \<noteq> Unchecked \<Longrightarrow> m' = fst (on_tick Q ext clock_of now env predicted m) \<Longrightarrow>
    manager_reach Q ext clock_of m' (settle s m')"
| event: "manager_reach Q ext clock_of m s \<Longrightarrow> s \<noteq> Unchecked \<Longrightarrow> manager_reach Q ext clock_of (fst (on_event Q ext env predicted m)) s"
| notify: "manager_reach Q ext clock_of m s \<Longrightarrow> manager_reach Q ext clock_of (fst (SyncNodeResource ev m)) s"
| disable: "manager_reach Q ext clock_of m s \<Longrightarrow> manager_reach Q ext clock_of (fst (DisableOfflineSchedule m)) s"
| enable: "manager_reach Q ext clock_of m s \<Longrightarrow> manager_reach Q ext clock_of (fst (EnableOfflineSchedule m)) s"
| delayed: "manager_reach Q ext clock_of m Due \<Longrightarrow>
    manager_reach Q ext clock_of (delayed_EnableOfflineSchedule m) (if om_scheduleSilence m then InSilence else Over)"

definition silence_inv :: "'q offlineManager \<Rightarrow> delayed_enable \<Rightarrow> bool" where
  "silence_inv m s \<longleftrightarrow>
     (om_scheduleSilence m \<longrightarrow> (kc_extResScheduleDisabled (om_client m) \<longleftrightarrow> s \<noteq> InSilence)) \<and>
     (s = InSilence \<longrightarrow> om_scheduleSilence m) \<and> length (om_eventChan m) \<le> 32"

lemma k8s_switch [simp]:
  "kc_extResScheduleDisabled (fst (k8s_DisableOfflineSchedule k))"
  "\<not> kc_extResScheduleDisabled (fst (k8s_EnableOfflineSchedule k))"
  by (simp_all add: k8s_DisableOfflineSchedule_def k8s_EnableOfflineSchedule_def)

lemma adapt_frame [frame_simps]:
  "kc_extResScheduleDisabled (fst (AdaptAndUpdateOfflineResource Q ext env ol crs k)) = kc_extResScheduleDisabled k"
  by (cases "env_node env")
    (auto simp: AdaptAndUpdateOfflineResource_def syncOfflineResource_def Let_def case_prod_unfold)

lemma sync_frame [frame_simps]:
  "om_scheduleSilence (fst (sync Q ext env p crs m)) = om_scheduleSilence m"
  "om_eventChan (fst (sync Q ext env p crs m)) = om_eventChan m"
  "kc_extResScheduleDisabled (om_client (fst (sync Q ext env p crs m))) = kc_extResScheduleDisabled (om_client m)"
  by (cases p; simp add: sync_def Let_def case_prod_unfold frame_simps)+

lemma checkSilence_inv: "silence_inv m s \<Longrightarrow> m' = fst (checkSilence clock_of now m) \<Longrightarrow> silence_inv m' (settle s m')"
  by (auto simp: checkSilence_def silence_inv_def settle_def Let_def case_prod_unfold)

lemma sync_inv: "silence_inv m s \<Longrightarrow> silence_inv (fst (sync Q ext env p crs m)) s"
  by (simp add: silence_inv_def frame_simps)

lemma tick_inv:
  assumes "silence_inv m s" and "m' = fst (on_tick Q ext clock_of now env predicted m)"
  shows "silence_inv m' (settle s m')"
proof -
  let ?m = "fst (checkSilence clock_of now m)"
  have "m' = fst (sync Q ext env predicted [] ?m)" using assms(2) by (simp add: on_tick_def case_prod_unfold Let_def)
  moreover from this have "settle s m' = settle s ?m" by (simp add: settle_def frame_simps)
  ultimately show ?thesis using sync_inv [OF checkSilence_inv [OF assms(1) refl]] by simp
qed

lemma restore_checkpoint_frame:
  assumes "restore_checkpoint nowSeconds cp m = (m', due)"
  shows "om_scheduleSilence m' = om_scheduleSilence m" "om_eventChan m' = om_eventChan m"
    "kc_extResScheduleDisabled (om_client m) \<Longrightarrow> kc_extResScheduleDisabled (om_client m')"
  using assms by (auto simp: restore_checkpoint_def checkScheduleDisable_def k8s_DisableOfflineSchedule_def Let_def
      split: option.splits if_splits)

text \<open>
  C13. In every state that the manager reaches after a start, with the restored checkpoint and the enable call
  it may delay: while offline scheduling is silenced, the client's schedule switch is off, whatever enable requests
  arrive from the health checker meanwhile, unless the delayed call was made in this very silence, when it is on.
  The event channel never holds more than its 32 events.
\<close>

theorem silence_keeps_schedule_disabled:
  assumes "manager_reach Q ext clock_of m s"
  shows "(om_scheduleSilence m \<longrightarrow> (kc_extResScheduleDisabled (om_client m) \<longleftrightarrow> s \<noteq> InSilence)) \<and> length (om_eventChan m) \<le> 32"
proof -
  have "silence_inv m s"
    using assms
  proof (induction rule: manager_reach.induct)
    case (init m)
    then show ?case by (simp add: silence_inv_def)
  next
    case (checkpoint m nowSeconds cp m' due)
    then show ?case using restore_checkpoint_frame [OF checkpoint.hyps(2)] by (auto simp: silence_inv_def)
  next
    case (tick m s m' now env predicted)
    then show ?case by (simp add: tick_inv)
  next
    case (event m s env predicted)
    then show ?case by (cases "om_eventChan m") (auto simp: on_event_def silence_inv_def frame_simps)
  next
    case (notify m s ev)
    then show ?case by (auto simp: SyncNodeResource_def silence_inv_def)
  next
    case (disable m s)
    then show ?case by (auto simp: DisableOfflineSchedule_def silence_inv_def case_prod_unfold Let_def)
  next
    case (enable m s)
    then show ?case by (auto simp: EnableOfflineSchedule_def silence_inv_def case_prod_unfold Let_def)
  next
    case (delayed m)
    then show ?case by (auto simp: delayed_EnableOfflineSchedule_def silence_inv_def)
  qed
  then show ?thesis by (simp add: silence_inv_def)
qed

definition noon :: clock where
  "noon = \<lparr>Hour = 12, Minute = 0, Second = 0\<rparr>"

definition silent_manager :: "int offlineManager" where
  "silent_manager = quiet_manager\<lparr>om_silencePeriods := [(0, 86399)]\<rparr>"

text \<open>A restart with a fresh checkpoint, then a tick in a period of silence and an enable request.\<close>

definition restarted :: "int offlineManager" where
  "restarted = fst (restore_checkpoint 100 (Some \<lparr>Timeseconds = 90, ScheduleDisable = True\<rparr>) silent_manager)"

definition silenced :: "int offlineManager" where
  "silenced = fst (EnableOfflineSchedule (fst (on_tick nanoQ (\<lambda>r. True) (\<lambda>t. noon) 0 quiet_env None restarted)))"

lemma silenced_state: "om_scheduleSilence silenced"
  by (simp add: silenced_def restarted_def restore_checkpoint_def checkScheduleDisable_def on_tick_def checkSilence_def sync_def
      EnableOfflineSchedule_def in_periods_def IsTimeInSecondsDay_def noon_def silent_manager_def quiet_manager_def
      k8s_DisableOfflineSchedule_def kill_client_def Let_def)

lemma silenced_reach: "manager_reach nanoQ (\<lambda>r. True) (\<lambda>t. noon) silenced Due"
proof -
  have "manager_reach nanoQ (\<lambda>r. True) (\<lambda>t. noon) silent_manager Unchecked"
    by (intro manager_reach.init) (simp_all add: silent_manager_def quiet_manager_def)
  moreover have "restore_checkpoint 100 (Some \<lparr>Timeseconds = 90, ScheduleDisable = True\<rparr>) silent_manager = (restarted, True)"
    by (simp add: restarted_def restore_checkpoint_def checkScheduleDisable_def case_prod_unfold Let_def)
  ultimately have "manager_reach nanoQ (\<lambda>r. True) (\<lambda>t. noon) restarted (if True then Due else Over)"
    by (rule manager_reach.checkpoint)
  then have "manager_reach nanoQ (\<lambda>r. True) (\<lambda>t. noon) restarted Due" by simp
  from manager_reach.tick [OF this _ refl, of 0 quiet_env None] show ?thesis
    unfolding silenced_def by (intro manager_reach.enable) (simp add: settle_def)
qed

theorem silence_keeps_schedule_disabled_witness: "kc_extResScheduleDisabled (om_client silenced)"
  using silence_keeps_schedule_disabled [OF silenced_reach] silenced_state by simp

text \<open>The delayed call switches scheduling on in the middle of a silence.\<close>

lemma delayed_enable_breaks_silence:
  "\<exists>m. manager_reach nanoQ (\<lambda>r. True) (\<lambda>t. noon) m InSilence \<and> om_scheduleSilence m \<and> \<not> kc_extResScheduleDisabled (om_client m)"
  using manager_reach.delayed [OF silenced_reach] silenced_state
  by (intro exI [of _ "delayed_EnableOfflineSchedule silenced"]) (simp add: delayed_EnableOfflineSchedule_def)

end
