(* ===== verification/Predict.thy ===== *)
theory Predict
  imports DetectionProps HealthConfig NodeState Quantity "HOL-Library.Signed_Division"
begin

text \<open>
  \<^verbatim>\<open>pkg/caelus/predict\<close> and the predict part of \<^verbatim>\<open>pkg/caelus/types/predict.go\<close>: how much of the node the online jobs will
  need, and what is left for the offline jobs. The histograms and estimators of the vertical
  pod autoscaler are library code, the record \<open>V\<close>; the remote predictor's answer is an input.
\<close>

section \<open>The library\<close>

type_synonym amounts = "(string, int) gomap"

record 'acs vpa_ops =
  NewAggregateContainerState :: 'acs
  acs_AddSample :: "'acs \<Rightarrow> go_time \<Rightarrow> int \<Rightarrow> int \<Rightarrow> string \<Rightarrow> 'acs"
  GetControlledResources :: "'acs \<Rightarrow> string list"
  NewPercentileEstimator :: "float64 \<Rightarrow> float64 \<Rightarrow> 'acs \<Rightarrow> amounts"
  WithMargin :: "float64 \<Rightarrow> ('acs \<Rightarrow> amounts) \<Rightarrow> 'acs \<Rightarrow> amounts"
  WithMinResources :: "amounts \<Rightarrow> ('acs \<Rightarrow> amounts) \<Rightarrow> 'acs \<Rightarrow> amounts"
  ScaleResource :: "int \<Rightarrow> float64 \<Rightarrow> int"
  CPUAmountFromCores :: "float64 \<Rightarrow> int"
  MemoryAmountFromBytes :: "float64 \<Rightarrow> int"
  DefaultMemoryAggregationInterval :: go_duration
  DefaultMemoryAggregationIntervalCount :: int
  DefaultCPUHistogramDecayHalfLife :: go_duration
  DefaultMemoryHistogramDecayHalfLife :: go_duration

section \<open>Configuration\<close>

record LocalPredictConfig =
  PodMinCPUMillicores :: float64
  PodMinMemoryMb :: float64
  SafetyMarginFraction :: float64
  CPUPercentile :: float64
  MemoryPeaksPercentile :: float64
  MemoryAggregationInterval :: go_duration
  MemoryAggregationIntervalCount :: int
  MemoryHistogramDecayHalfLife :: go_duration
  CPUHistogramDecayHalfLife :: go_duration
  EnableTuneCPUWeight :: bool
  AnomalyDetectorMovingWindow :: go_duration
  IncreasingAnomalyWeightFactor :: int
  DecreasingAnomalyWeightFactor :: int

record PredictConfig =
  pc_Disable :: bool
  pc_CheckInterval :: go_duration
  pc_PredictType :: string
  pc_PredictServerAddr :: string
  pc_ReserveResource :: Resource
  pc_PrintInterval :: go_duration
  pc_Local :: LocalPredictConfig
  pc_PredictMetricsType :: string

definition checkLocalPredictType :: "'acs vpa_ops \<Rightarrow> PredictConfig \<Rightarrow> PredictConfig" where
  "checkLocalPredictType V config =
     (let l = pc_Local config;
          l = (if MemoryAggregationInterval l = 0
               then l\<lparr>MemoryAggregationInterval := DefaultMemoryAggregationInterval V\<rparr> else l);
          l = (if MemoryAggregationIntervalCount l = 0
               then l\<lparr>MemoryAggregationIntervalCount := DefaultMemoryAggregationIntervalCount V\<rparr> else l);
          l = (if CPUHistogramDecayHalfLife l = 0
               then l\<lparr>CPUHistogramDecayHalfLife := DefaultCPUHistogramDecayHalfLife V\<rparr> else l);
          l = (if MemoryHistogramDecayHalfLife l = 0
               then l\<lparr>MemoryHistogramDecayHalfLife := DefaultMemoryHistogramDecayHalfLife V\<rparr> else l);
          config = (if pc_CheckInterval config = 0 then config\<lparr>pc_CheckInterval := 30 * second\<rparr> else config);
          config = (if pc_PrintInterval config = 0 then config\<lparr>pc_PrintInterval := 5 * minute\<rparr> else config);
          l = (if PodMinCPUMillicores l = 0 then l\<lparr>PodMinCPUMillicores := 10\<rparr> else l);
          l = (if PodMinMemoryMb l = 0 then l\<lparr>PodMinMemoryMb := 10\<rparr> else l);
          l = (if SafetyMarginFraction l = 0 then l\<lparr>SafetyMarginFraction := fl 0.08\<rparr> else l);
          l = (if CPUPercentile l = 0 then l\<lparr>CPUPercentile := fl 0.8\<rparr> else l);
          l = (if MemoryPeaksPercentile l = 0 then l\<lparr>MemoryPeaksPercentile := fl 0.9\<rparr> else l);
          l = (if EnableTuneCPUWeight l \<and> AnomalyDetectorMovingWindow l = 0
               then l\<lparr>AnomalyDetectorMovingWindow := 10 * minute\<rparr> else l);
          l = (if IncreasingAnomalyWeightFactor l = 0 then l\<lparr>IncreasingAnomalyWeightFactor := 1\<rparr> else l);
          l = (if DecreasingAnomalyWeightFactor l = 0 then l\<lparr>DecreasingAnomalyWeightFactor := 1\<rparr> else l)
      in config\<lparr>pc_Local := l\<rparr>)"

definition getReservedValue :: "float64 \<Rightarrow> float64 option \<Rightarrow> float64 option \<Rightarrow> float64" where
  "getReservedValue tot percent v =
     (case (percent, v) of
        (None, None) \<Rightarrow> 0
      | (None, Some x) \<Rightarrow> x
      | (Some p, None) \<Rightarrow> fl (tot * p)
      | (Some p, Some x) \<Rightarrow> min (fl (tot * p)) x)"

definition getReservedResource :: "'q qops \<Rightarrow> 'q resource_list option \<Rightarrow> Resource \<Rightarrow> Resource option" where
  "getReservedResource Q machineTotal reserved = do {
     tot \<leftarrow> machineTotal;
     let memTotal = fl (of_int (q_value Q (rl_get Q tot ResourceMemory) sdiv MemUnit));
     let cpuTotal = fl (of_int (q_milli Q (rl_get Q tot ResourceCPU)));
     Some (reserved\<lparr>MemMB := Some (getReservedValue memTotal (MemPercent reserved) (MemMB reserved)),
                     CpuMilli := Some (getReservedValue cpuTotal (CpuPercent reserved) (CpuMilli reserved))\<rparr>)
   }"

section \<open>Recommendation\<close>

record 'acs podResourceRecommender =
  prr_config :: LocalPredictConfig
  prr_targetEstimator :: "'acs \<Rightarrow> amounts"

definition CreatePodResourceRecommender :: "'acs vpa_ops \<Rightarrow> LocalPredictConfig \<Rightarrow> 'acs podResourceRecommender" where
  "CreatePodResourceRecommender V config =
     (let targetEstimator = NewPercentileEstimator V (CPUPercentile config) (MemoryPeaksPercentile config);
          targetEstimator = WithMargin V (SafetyMarginFraction config) targetEstimator
      in \<lparr>prr_config = config, prr_targetEstimator = targetEstimator\<rparr>)"

definition FilterControlledResources :: "amounts \<Rightarrow> string list \<Rightarrow> amounts" where
  "FilterControlledResources estimation controlledResources =
     fold (\<lambda>resource result. case map_of estimation resource of
         None \<Rightarrow> result | Some v \<Rightarrow> AList.update resource v result) controlledResources []"

definition estimateContainerResources :: "'acs vpa_ops \<Rightarrow> 'acs podResourceRecommender \<Rightarrow> 'acs \<Rightarrow> amounts" where
  "estimateContainerResources V r s = FilterControlledResources (prr_targetEstimator r s) (GetControlledResources V s)"

definition min_resources :: "'acs vpa_ops \<Rightarrow> LocalPredictConfig \<Rightarrow> nat \<Rightarrow> amounts" where
  "min_resources V config n =
     (let fraction = fl (1 / fl (of_nat n))
      in [(ResourceCPU, ScaleResource V (CPUAmountFromCores V (fl (PodMinCPUMillicores config * fl 0.001))) fraction),
          (ResourceMemory, ScaleResource V
             (MemoryAmountFromBytes V (fl (fl (PodMinMemoryMb config * 1024) * 1024))) fraction)])"

definition GetRecommendedPodResources ::
  "'acs vpa_ops \<Rightarrow> 'acs podResourceRecommender \<Rightarrow> (string, 'acs) gomap \<Rightarrow> (string, amounts) gomap" where
  "GetRecommendedPodResources V r states =
     (if states = [] then []
      else let recommender = r\<lparr>prr_targetEstimator :=
                 WithMinResources V (min_resources V (prr_config r) (length states)) (prr_targetEstimator r)\<rparr>
           in map (\<lambda>(name, s). (name, estimateContainerResources V recommender s)) states)"


section \<open>The local predictor\<close>

record ('m, 'acs) localPredict =
  lp_config :: PredictConfig
  lp_recommender :: "'acs podResourceRecommender"
  lp_statMap :: "(string, 'acs) gomap"
  lp_addSampleTimes :: int
  lp_initSampleTimes :: int
  lp_anomalyDetector :: "'m EwmaDetector"

definition NewLocalPredict :: "'m ma_ops \<Rightarrow> 'acs vpa_ops \<Rightarrow> PredictConfig \<Rightarrow> ('m, 'acs) localPredict option" where
  "NewLocalPredict M V config =
     (if pc_CheckInterval config = 0 then None
      else let minData = 30 * minute sdiv pc_CheckInterval config;
               minData = (if minData < int MinData then int MinData else minData)
           in do {
             detector \<leftarrow> NewEwmaDetector M ''cpu'' minData;
             Some \<lparr>lp_config = config, lp_recommender = CreatePodResourceRecommender V (pc_Local config), lp_statMap = [],
               lp_addSampleTimes = 0, lp_initSampleTimes = 3, lp_anomalyDetector = detector\<rparr>
           })"

text \<open>Predicting does not change the predictor; the wait for the first samples is bounded and its result ignored.\<close>

definition local_Predict :: "'q qops \<Rightarrow> 'acs vpa_ops \<Rightarrow> ('m, 'acs) localPredict \<Rightarrow> 'q resource_list" where
  "local_Predict Q V p =
     (if pc_Disable (lp_config p) then [(ResourceCPU, q_new_milli Q 0), (ResourceMemory, q_new Q 0)]
      else let recommended = GetRecommendedPodResources V (lp_recommender p) (lp_statMap p);
               (cpu, mem) = fold (\<lambda>(name, target) (cpu, mem).
                  (cpu + gmap_get0 target ResourceCPU, mem + gmap_get0 target ResourceMemory)) recommended (0, 0)
           in [(ResourceCPU, q_new_milli Q cpu), (ResourceMemory, q_new Q mem)])"

text \<open>The recent state is \<open>None\<close> on an error or for nil.\<close>

definition getRecentOnlineResource :: "NodeResourceState option \<Rightarrow> (float64 \<times> float64) option" where
  "getRecentOnlineResource nodeSt = do {
     nodeSt \<leftarrow> nodeSt;
     cpuStats \<leftarrow> nrs_CPU nodeSt;
     memStats \<leftarrow> nrs_Memory nodeSt;
     Some (fl (max (fl (CpuTotal cpuStats - CpuOfflineTotal cpuStats)) 0 * 1000),
           max (fl (nm_UsageRss memStats - nm_OfflineTotal memStats)) 0)
   }"

definition getOrCreateACS :: "'acs vpa_ops \<Rightarrow> string \<Rightarrow> (string, 'acs) gomap \<Rightarrow> 'acs" where
  "getOrCreateACS V name states = (case map_of states name of None \<Rightarrow> NewAggregateContainerState V | Some acs \<Rightarrow> acs)"

text \<open>The weight of a cpu sample, and the detector after it has seen the sample; \<open>None\<close> is a panic.\<close>

definition cpu_weight ::
  "'m ma_ops \<Rightarrow> LocalPredictConfig \<Rightarrow> go_time \<Rightarrow> float64 \<Rightarrow> 'm EwmaDetector \<Rightarrow> ('m EwmaDetector \<times> int) option" where
  "cpu_weight M config now milliCPU e =
     (if \<not> EnableTuneCPUWeight config then Some (e, 100)
      else do {
        e \<leftarrow> ewma_add M \<lparr>Ts = now, Vals = [(''cpu'', milliCPU)]\<rparr> e;
        r \<leftarrow> ewma_IsAnomaly M e;
        Some (e, if r = Inr True
                 then (if milliCPU > ewma_Mean M e then IncreasingAnomalyWeightFactor config * 100
                       else DecreasingAnomalyWeightFactor config * 100)
                 else 100)
      })"

definition addSample ::
  "'m ma_ops \<Rightarrow> 'acs vpa_ops \<Rightarrow> go_time \<Rightarrow> NodeResourceState option \<Rightarrow> ('m, 'acs) localPredict \<Rightarrow> ('m, 'acs) localPredict option" where
  "addSample M V now nodeSt p =
     (case getRecentOnlineResource nodeSt of
        None \<Rightarrow> Some p
      | Some (milliCPU, mem) \<Rightarrow> do {
          let p = (if lp_addSampleTimes p < lp_initSampleTimes p then p\<lparr>lp_addSampleTimes := lp_addSampleTimes p + 1\<rparr> else p);
          (e, cpuWeight) \<leftarrow> cpu_weight M (pc_Local (lp_config p)) now milliCPU (lp_anomalyDetector p);
          let acs = getOrCreateACS V ''online-system'' (lp_statMap p);
          let acs = acs_AddSample V acs now (go_trunc milliCPU) cpuWeight ResourceCPU;
          let acs = acs_AddSample V acs now (go_trunc mem) 0 ResourceMemory;
          Some (p\<lparr>lp_anomalyDetector := e, lp_statMap := AList.update ''online-system'' acs (lp_statMap p)\<rparr>)
        })"

section \<open>The machine\<close>

text \<open>
  \<^verbatim>\<open>machine.GetTotalResource\<close>: the package variable is filled once from the number of cores (\<open>None\<close> on
  an error) and the memory.
\<close>

definition GetTotalResource ::
  "'q qops \<Rightarrow> nat option \<Rightarrow> int \<Rightarrow> 'q resource_list \<Rightarrow> 'q resource_list \<times> 'q resource_list option" where
  "GetTotalResource Q cores mems totalResource =
     (if totalResource = []
      then case cores of
             None \<Rightarrow> (totalResource, None)
           | Some n \<Rightarrow>
               let totalResource = [(ResourceCPU, q_new_milli Q (int n * 1000)), (ResourceMemory, q_new Q mems)]
               in (totalResource, Some totalResource)
      else (totalResource, Some totalResource))"

section \<open>The wrapper\<close>

datatype ('m, 'acs) predictor = LocalPredictor "('m, 'acs) localPredict" | VpaPredictor

record ('m, 'acs, 'q) predictorWrapper =
  pw_config :: PredictConfig
  pw_predictors :: "('m, 'acs) predictor list"
  pw_cacheRes :: "'q resource_list"
  pw_cacheTs :: go_time

definition newPredictor :: "'m ma_ops \<Rightarrow> 'acs vpa_ops \<Rightarrow> PredictConfig \<Rightarrow> ('m, 'acs) predictor option" where
  "newPredictor M V config =
     (if pc_PredictType config = ''local'' then map_option LocalPredictor (NewLocalPredict M V config)
      else if pc_PredictType config = ''vpa'' then Some VpaPredictor
      else None)"

definition NewPredictorOrDie ::
  "'m ma_ops \<Rightarrow> 'acs vpa_ops \<Rightarrow> PredictConfig list \<Rightarrow> ('m, 'acs, 'q) predictorWrapper option" where
  "NewPredictorOrDie M V configs =
     (case configs of
        [] \<Rightarrow> None
      | config # _ \<Rightarrow> do {
          predictors \<leftarrow> those (map (newPredictor M V) configs);
          Some \<lparr>pw_config = config, pw_predictors = predictors, pw_cacheRes = [], pw_cacheTs = nilTime\<rparr>
        })"

text \<open>
  The remote answer is \<open>None\<close> when the request fails; the code then returns a nil list, which
  reads as empty.
\<close>

definition vpa_Predict :: "'q resource_list option \<Rightarrow> 'q resource_list" where
  "vpa_Predict answer = (case answer of None \<Rightarrow> [] | Some res \<Rightarrow> res)"

definition predictor_Predict ::
  "'q qops \<Rightarrow> 'acs vpa_ops \<Rightarrow> 'q resource_list option \<Rightarrow> ('m, 'acs) predictor \<Rightarrow> 'q resource_list" where
  "predictor_Predict Q V answer p = (case p of LocalPredictor l \<Rightarrow> local_Predict Q V l | VpaPredictor \<Rightarrow> vpa_Predict answer)"

definition GetReservedResource :: "'q qops \<Rightarrow> Resource \<Rightarrow> 'q resource_list option" where
  "GetReservedResource Q r = do {
     cpu \<leftarrow> CpuMilli r;
     mem \<leftarrow> MemMB r;
     Some [(ResourceCPU, q_new_milli Q (go_trunc cpu)), (ResourceMemory, q_new Q (go_trunc mem * MemUnit))]
   }"

text \<open>
  The new state and the list, nil as \<open>None\<close>; a nil reservation panics. The predictors after the
  first are only asked for their metrics.
\<close>

definition GetAllocatableForBatch ::
  "'q qops \<Rightarrow> 'acs vpa_ops \<Rightarrow> 'q resource_list option \<Rightarrow> 'q resource_list option \<Rightarrow> go_time \<Rightarrow> ('m, 'acs, 'q) predictorWrapper
    \<Rightarrow> (('m, 'acs, 'q) predictorWrapper \<times> 'q resource_list option) option" where
  "GetAllocatableForBatch Q V answer machineTotal now p =
     (if pw_cacheRes p \<noteq> [] \<and> now - pw_cacheTs p < pc_CheckInterval (pw_config p) then Some (p, Some (pw_cacheRes p))
      else let onlinePredict = (case pw_predictors p of [] \<Rightarrow> [] | x # _ \<Rightarrow> predictor_Predict Q V answer x) in
        case machineTotal of
          None \<Rightarrow> Some (p, None)
        | Some tot \<Rightarrow> do {
            reserved \<leftarrow> GetReservedResource Q (pc_ReserveResource (pw_config p));
            let cpu = q_milli Q (rl_get Q tot ResourceCPU) - q_milli Q (rl_get Q onlinePredict ResourceCPU)
                  - q_milli Q (rl_get Q reserved ResourceCPU);
            let cpu = (if cpu < 0 then 0 else cpu);
            let mem = q_value Q (rl_get Q tot ResourceMemory) - q_value Q (rl_get Q onlinePredict ResourceMemory)
                  - q_value Q (rl_get Q reserved ResourceMemory);
            let mem = (if mem < 0 then 0 else mem);
            let rl = [(ResourceCPU, q_new_milli Q cpu), (ResourceMemory, q_new Q mem)];
            Some (p\<lparr>pw_cacheTs := now, pw_cacheRes := rl\<rparr>, Some rl)
          })"


section \<open>Samples and estimates\<close>

text \<open>
  The samples of the online jobs: a state without cpu or memory data gives none. The weights are
  those the detector assigns along the way.
\<close>

definition add_usage :: "'acs vpa_ops \<Rightarrow> go_time \<times> float64 \<times> float64 \<times> int \<Rightarrow> 'acs \<Rightarrow> 'acs" where
  "add_usage V = (\<lambda>(now, milliCPU, mem, weight) acs.
     acs_AddSample V (acs_AddSample V acs now (go_trunc milliCPU) weight ResourceCPU) now (go_trunc mem) 0 ResourceMemory)"

fun weighted_usages ::
  "'m ma_ops \<Rightarrow> LocalPredictConfig \<Rightarrow> (go_time \<times> NodeResourceState option) list \<Rightarrow> 'm EwmaDetector
    \<Rightarrow> ((go_time \<times> float64 \<times> float64 \<times> int) list \<times> 'm EwmaDetector) option" where
  "weighted_usages M config [] e = Some ([], e)"
| "weighted_usages M config ((now, st) # sts) e =
     (case getRecentOnlineResource st of
        None \<Rightarrow> weighted_usages M config sts e
      | Some (milliCPU, mem) \<Rightarrow> do {
          (e1, weight) \<leftarrow> cpu_weight M config now milliCPU e;
          (us, e2) \<leftarrow> weighted_usages M config sts e1;
          Some ((now, milliCPU, mem, weight) # us, e2)
        })"

lemma addSamples_usages:
  assumes "foldM (\<lambda>(now, st). addSample M V now st) sts p = Some p'"
    and "lp_statMap p = [] \<and> acs = NewAggregateContainerState V \<or> lp_statMap p = [(''online-system'', acs)]"
  shows "\<exists>us e'. weighted_usages M (pc_Local (lp_config p)) sts (lp_anomalyDetector p) = Some (us, e') \<and>
     lp_config p' = lp_config p \<and> lp_recommender p' = lp_recommender p \<and>
     lp_statMap p' = (if us = [] then lp_statMap p else [(''online-system'', fold (add_usage V) us acs)])"
  using assms
proof (induction sts arbitrary: p acs)
  case Nil
  then show ?case by simp
next
  case (Cons x sts)
  obtain now st where x: "x = (now, st)" by (cases x)
  show ?case
  proof (cases "getRecentOnlineResource st")
    case None
    with Cons.IH [OF _ Cons.prems(2)] Cons.prems(1) show ?thesis by (simp add: x addSample_def)
  next
    case (Some u)
    then obtain milliCPU mem where u: "getRecentOnlineResource st = Some (milliCPU, mem)" by (cases u) auto
    obtain p1 where p1: "addSample M V now st p = Some p1" "foldM (\<lambda>(now, st). addSample M V now st) sts p1 = Some p'"
      using Cons.prems(1) by (auto simp: x split: option.splits)
    obtain e1 w where w: "cpu_weight M (pc_Local (lp_config p)) now milliCPU (lp_anomalyDetector p) = Some (e1, w)"
      "lp_anomalyDetector p1 = e1" "lp_config p1 = lp_config p" "lp_recommender p1 = lp_recommender p"
      "lp_statMap p1 = AList.update ''online-system''
         (add_usage V (now, milliCPU, mem, w) (getOrCreateACS V ''online-system'' (lp_statMap p))) (lp_statMap p)"
      using p1(1) u by (auto simp: addSample_def option_bind_eq_Some add_usage_def split: if_splits)
    have s1: "lp_statMap p1 = [(''online-system'', add_usage V (now, milliCPU, mem, w) acs)]"
      using Cons.prems(2) w(5) by (auto simp: getOrCreateACS_def)
    from Cons.IH [OF p1(2) disjI2, OF s1] obtain us e' where
      "weighted_usages M (pc_Local (lp_config p)) sts e1 = Some (us, e')"
      "lp_config p' = lp_config p" "lp_recommender p' = lp_recommender p"
      "lp_statMap p' = (if us = [] then lp_statMap p1 else [(''online-system'', fold (add_usage V) us (add_usage V (now, milliCPU, mem, w) acs))])"
      using w by auto
    with u w s1 show ?thesis by (simp add: x)
  qed
qed



text \<open>What is measured of the online jobs is never negative.\<close>

lemma online_usage_nonneg:
  "getRecentOnlineResource st = Some (milliCPU, mem) \<Longrightarrow> 0 \<le> milliCPU \<and> 0 \<le> mem"
  by (auto simp: getRecentOnlineResource_def option_bind_eq_Some intro!: fl_nonneg)

definition peak_vpa :: "(int \<times> int) vpa_ops" where
  "peak_vpa = \<lparr>NewAggregateContainerState = (0, 0),
     acs_AddSample = (\<lambda>(c, m) now usage weight r. if r = ResourceCPU then (max c usage, m) else (c, max m usage)),
     GetControlledResources = (\<lambda>acs. [ResourceCPU, ResourceMemory]),
     NewPercentileEstimator = (\<lambda>cp mp (c, m). [(ResourceCPU, c), (ResourceMemory, m)]),
     WithMargin = (\<lambda>f est. est), WithMinResources = (\<lambda>mins est. est), ScaleResource = (\<lambda>a f. a),
     CPUAmountFromCores = (\<lambda>c. 0), MemoryAmountFromBytes = (\<lambda>c. 0), DefaultMemoryAggregationInterval = 1,
     DefaultMemoryAggregationIntervalCount = 1, DefaultCPUHistogramDecayHalfLife = 1, DefaultMemoryHistogramDecayHalfLife = 1\<rparr>"

definition sample_predict_config :: PredictConfig where
  "sample_predict_config = \<lparr>pc_Disable = False, pc_CheckInterval = 30 * second, pc_PredictType = ''local'', pc_PredictServerAddr = [],
     pc_ReserveResource = \<lparr>CpuMilli = Some 1000, MemMB = Some 100, CpuPercent = None, MemPercent = None\<rparr>,
     pc_PrintInterval = minute,
     pc_Local = \<lparr>PodMinCPUMillicores = 10, PodMinMemoryMb = 10, SafetyMarginFraction = 0, CPUPercentile = 1, MemoryPeaksPercentile = 1,
       MemoryAggregationInterval = 1, MemoryAggregationIntervalCount = 1, MemoryHistogramDecayHalfLife = 1,
       CPUHistogramDecayHalfLife = 1, EnableTuneCPUWeight = False, AnomalyDetectorMovingWindow = 1,
       IncreasingAnomalyWeightFactor = 1, DecreasingAnomalyWeightFactor = 1\<rparr>,
     pc_PredictMetricsType = ''online_predict''\<rparr>"


definition busy_node :: NodeResourceState where
  "busy_node = nodeStatExample\<lparr>
     nrs_CPU := Some \<lparr>CpuTotal = 4, CpuPerCore = [], CpuAvg = 0, CpuStealTotal = 0, CpuStealPerCore = [], CpuOfflineTotal = 1\<rparr>,
     nrs_Memory := Some \<lparr>nm_Total = 0, nm_UsageTotal = 0, nm_UsageCache = 0, nm_UsageRss = 70, nm_Available = 0, nm_OfflineTotal = 20\<rparr>\<rparr>"

lemma busy_node_usage: "getRecentOnlineResource (Some busy_node) = Some (3000, 50)"
  by (simp add: getRecentOnlineResource_def busy_node_def fl_numeral)

lemma sample_local:
  "\<exists>p p'. NewLocalPredict sample_ma peak_vpa sample_predict_config = Some p \<and>
     foldM (\<lambda>(now, st). addSample sample_ma peak_vpa now st) [(5, None), (9, Some busy_node)] p = Some p' \<and>
     weighted_usages sample_ma (pc_Local sample_predict_config) [(5, None), (9, Some busy_node)] (lp_anomalyDetector p) =
       Some ([(9, 3000, 50, 100)], lp_anomalyDetector p)"
  by (simp add: NewLocalPredict_def sample_predict_config_def NewEwmaDetector_def NewRing_def addSample_def busy_node_usage
      cpu_weight_def getRecentOnlineResource_def [of None] Let_def signed_divide_int_def)



section \<open>What is left for offline jobs\<close>

text \<open>
  What is offered to the offline jobs: a fresh answer is the node's total less the prediction of
  the first predictor and less the reservation, cut off at zero, so it is never negative and
  never above the total; while a cached answer is younger than the check interval it is
  returned unchanged. The other predictors have no influence.
\<close>

lemma allocatable_is_rest:
  assumes "quantity Q amount" and "GetTotalResource Q (Some cores) mems [] = (tot, machineTotal)"
    and "CpuMilli (pc_ReserveResource (pw_config p)) = Some rc" and "MemMB (pc_ReserveResource (pw_config p)) = Some rm"
    and "pw_predictors p = x # xs"
  shows "\<exists>p' rl. GetAllocatableForBatch Q V answer machineTotal now p = Some (p', Some rl) \<and>
    (if pw_cacheRes p \<noteq> [] \<and> now - pw_cacheTs p < pc_CheckInterval (pw_config p) then p' = p \<and> rl = pw_cacheRes p
     else pw_cacheRes p' = rl \<and> pw_cacheTs p' = now \<and>
       amount (rl_get Q rl ResourceCPU) =
         max 0 (1000 * of_nat cores - of_int (q_milli Q (rl_get Q (predictor_Predict Q V answer x) ResourceCPU)) - of_int (go_trunc rc)) / 1000 \<and>
       amount (rl_get Q rl ResourceMemory) =
         max 0 (of_int mems - of_int (q_value Q (rl_get Q (predictor_Predict Q V answer x) ResourceMemory)) - of_int (go_trunc rm * MemUnit)))"
proof -
  have v: "q_value Q (q_new Q n) = n" for n
    using quantity.value_exact [OF assms(1) quantity.amount_new [OF assms(1)]] .
  show ?thesis
    using assms(2-5)
    by (auto simp: GetTotalResource_def GetAllocatableForBatch_def GetReservedResource_def rl_get_def Let_def v
        quantity.milli_new_milli [OF assms(1)] quantity.amount_new [OF assms(1)] quantity.amount_new_milli [OF assms(1)]
        simp del: of_int_mult)
qed


definition remote_wrapper :: "(float64, int \<times> int, int) predictorWrapper" where
  "remote_wrapper = \<lparr>pw_config = sample_predict_config, pw_predictors = [VpaPredictor], pw_cacheRes = [], pw_cacheTs = 0\<rparr>"

theorem allocatable_is_rest_witness:
  "\<exists>p' rl. GetAllocatableForBatch nanoQ peak_vpa (Some [(''cpu'', 3000000000)])
       (Some [(''cpu'', 8000000000), (''memory'', 4000000000000000000)]) 7 remote_wrapper = Some (p', Some rl) \<and>
     nano_amount (rl_get nanoQ rl ''cpu'') = 4"
proof -
  have t: "GetTotalResource nanoQ (Some 8) 4000000000 [] =
      ([(''cpu'', 8000000000), (''memory'', 4000000000000000000)], Some [(''cpu'', 8000000000), (''memory'', 4000000000000000000)])"
    by (simp add: GetTotalResource_def nano_ops Let_def)
  show ?thesis
    using allocatable_is_rest [OF nano.quantity_axioms t, of remote_wrapper 1000 100 VpaPredictor "[]" peak_vpa "Some [(''cpu'', 3000000000)]" 7]
    by (auto simp: remote_wrapper_def sample_predict_config_def predictor_Predict_def vpa_Predict_def rl_get_def nano_ops
        go_trunc_of_int [of 1000, simplified])
qed

text \<open>A failed request to the remote predictor counts as a prediction of nothing.\<close>

lemma vpa_failure_predicts_nothing:
  assumes "quantity Q amount"
  shows "amount (rl_get Q (predictor_Predict Q V None VpaPredictor) r) = 0"
  using quantity.amount_default [OF assms] by (simp add: predictor_Predict_def vpa_Predict_def rl_get_def)

lemma getReservedValue_bounds:
  assumes "0 \<le> tot" and "\<forall>p. percent = Some p \<longrightarrow> 0 \<le> p" and "\<forall>x. v = Some x \<longrightarrow> 0 \<le> x"
  shows "0 \<le> getReservedValue tot percent v"
    and "v = Some x \<Longrightarrow> getReservedValue tot percent v \<le> x"
    and "percent = Some p \<Longrightarrow> getReservedValue tot percent v \<le> fl (tot * p)"
  using assms by (auto simp: getReservedValue_def intro!: fl_nonneg split: option.split)

end
