(* ===== verification/QosManager.thy ===== *)
theory QosManager
  imports QosCpuProps NetIO ResourceProps Predict
begin

text \<open>
  \<^verbatim>\<open>qos/qos_k8s.go\<close> and the managers of memory, disk and network traffic under \<^verbatim>\<open>qos/manager\<close>, with
  \<^verbatim>\<open>util/cgroup/blkio.go\<close>, \<^verbatim>\<open>cgroup.MovePids\<close> and \<^verbatim>\<open>machine.GetMemoryCgroupLimitByUsage\<close>: a period of the
  qos module predicts what the offline jobs may use, takes away what conflicts, and hands the result to
  the managers in turn.
\<close>

section \<open>Memory\<close>

definition memoryBuffer :: int where "memoryBuffer = 1024 * 1020 * 1024"
definition minUsage :: int where "minUsage = 100 * 1024 * 1024"

text \<open>The arithmetic is on int64; the reason is only logged.\<close>

definition GetMemoryCgroupLimitByUsage :: "int \<Rightarrow> int \<Rightarrow> int" where
  "GetMemoryCgroupLimitByUsage limit usage =
     (if usage \<le> minUsage then limit
      else if wrap64 (limit - usage) < memoryBuffer then wrap64 (usage + memoryBuffer)
      else limit)"

text \<open>The recent memory usage of the offline group, \<open>None\<close> on an error.\<close>

definition mem_Manage ::
  "'q qops \<Rightarrow> float64 option \<Rightarrow> 'q CgroupResourceConfig \<Rightarrow> cgfs \<Rightarrow> cgfs \<times> (fs_error + unit)" where
  "mem_Manage Q state cgResources fs =
     (case map_of (cg_Resources cgResources) ResourceMemory of
        None \<Rightarrow> (fs, Inr ())
      | Some qty \<Rightarrow>
          let limit = q_value Q qty;
              newLimit = (case state of None \<Rightarrow> limit | Some usage \<Rightarrow> GetMemoryCgroupLimitByUsage limit (go_trunc usage))
          in SetMemoryLimit CgroupOffline newLimit fs)"

section \<open>Disk\<close>

definition getBlockDeviceNumbers :: "string \<Rightarrow> cgfs \<Rightarrow> fs_error + string" where
  "getBlockDeviceNumbers name fs = map_sum id strip_newlines (ReadFile (path_Join [''/sys/block'', name, ''/dev'']) fs)"

text \<open>Resetting the limits of one throttle file, line by line.\<close>

fun reset_lines :: "string \<Rightarrow> string \<Rightarrow> string list \<Rightarrow> cgfs \<Rightarrow> cgfs \<times> (fs_error + unit)" where
  "reset_lines cgroupPath file [] fs = (fs, Inr ())"
| "reset_lines cgroupPath file (line # lines) fs =
     (case split_on (CHR '' '') line of
        [dev, _] \<Rightarrow> fs_then (WriteFile (dev @ '' 0'') cgroupPath file fs) (reset_lines cgroupPath file lines)
      | _ \<Rightarrow> reset_lines cgroupPath file lines fs)"

definition reset_throttle :: "string \<Rightarrow> string \<Rightarrow> cgfs \<Rightarrow> cgfs \<times> (fs_error + unit)" where
  "reset_throttle cgroupPath file fs =
     (case ReadFile (path_Join [cgroupPath, file]) fs of
        Inl err \<Rightarrow> (fs, Inl err)
      | Inr data \<Rightarrow> reset_lines cgroupPath file (split_on (CHR 0x0A) data) fs)"

text \<open>A weight that cannot be set is only logged.\<close>

fun set_weights :: "string \<Rightarrow> string list \<Rightarrow> cgfs \<Rightarrow> cgfs" where
  "set_weights cgroupPath [] fs = fs"
| "set_weights cgroupPath (deviceName # names) fs =
     (case getBlockDeviceNumbers deviceName fs of
        Inl _ \<Rightarrow> set_weights cgroupPath names fs
      | Inr deviceNumber \<Rightarrow>
          set_weights cgroupPath names (fst (WriteFile (deviceNumber @ '' 10'') cgroupPath ''blkio.weight_device'' fs)))"

definition SetBlkioWeight :: "string \<Rightarrow> string list \<Rightarrow> cgfs \<Rightarrow> cgfs \<times> (fs_error + unit)" where
  "SetBlkioWeight pathInSubSystem deviceNames fs =
     (let cgroupPath = path_Join [fs_root fs, ''blkio'', pathInSubSystem] in
      fs_then (reset_throttle cgroupPath ''blkio.throttle.read_bps_device'' fs)
        (\<lambda>fs. fs_then (reset_throttle cgroupPath ''blkio.throttle.write_bps_device'' fs)
          (\<lambda>fs. (set_weights cgroupPath deviceNames fs, Inr ()))))"

text \<open>
  Throughput limits: the device numbers of the disks, then one write per device; the rates are
  uint64 and shifted. A disk whose number cannot be read is skipped.
\<close>

definition limit_numbers :: "cgfs \<Rightarrow> (string, string) gomap \<Rightarrow> (string, nat) gomap \<Rightarrow> (string, nat) gomap \<times> (string, string) gomap" where
  "limit_numbers fs known rates =
     fold (\<lambda>(disk, rate) (new, sdx).
        case map_of known disk of
          Some num \<Rightarrow> (AList.update num rate new, sdx)
        | None \<Rightarrow> (case getBlockDeviceNumbers disk fs of
            Inl _ \<Rightarrow> (new, sdx)
          | Inr num \<Rightarrow> (AList.update num rate new, AList.update disk num sdx))) rates ([], [])"

definition limit_set :: "string \<Rightarrow> string \<Rightarrow> (string, nat) gomap \<Rightarrow> cgfs \<Rightarrow> cgfs" where
  "limit_set file cgroupPath limits fs =
     fold (\<lambda>(disk, kiBps) fs. fst (WriteFile (disk @ '' '' @ show_nat ((kiBps * 1024) mod 2 ^ 64)) cgroupPath file fs)) limits fs"

definition writeLimitSet :: "string \<Rightarrow> (string, nat) gomap \<Rightarrow> cgfs \<Rightarrow> cgfs" where
  "writeLimitSet = limit_set ''blkio.throttle.write_bps_device''"

definition readLimitSet :: "string \<Rightarrow> (string, nat) gomap \<Rightarrow> cgfs \<Rightarrow> cgfs" where
  "readLimitSet = limit_set ''blkio.throttle.read_bps_device''"

definition BlkioLimitSet :: "string \<Rightarrow> (string, nat) gomap \<Rightarrow> (string, nat) gomap \<Rightarrow> cgfs \<Rightarrow> cgfs" where
  "BlkioLimitSet pathInSubSystem writeKiBps readKiBps fs =
     (let (writeNew, sdx) = limit_numbers fs [] writeKiBps;
          (readNew, _) = limit_numbers fs sdx readKiBps;
          cgroupPath = path_Join [fs_root fs, ''blkio'', pathInSubSystem]
      in readLimitSet cgroupPath readNew (writeLimitSet cgroupPath writeNew fs))"

definition disk_Manage :: "string list \<Rightarrow> cgfs \<Rightarrow> cgfs \<times> (fs_error + unit)" where
  "disk_Manage disks fs = SetBlkioWeight CgroupOffline disks fs"

section \<open>Network\<close>

record qosNetIO =
  ni_tc :: "EgressShaper option"
  ni_enitc :: "EgressShaper option"

text \<open>\<open>None\<close>: a shaper that cannot be created ends the process.\<close>

definition NewQosNetIO :: "bool \<Rightarrow> (string \<Rightarrow> nat) \<Rightarrow> string \<Rightarrow> string \<Rightarrow> qosNetIO option" where
  "NewQosNetIO ipsetOk speed iface eniIface =
     (let tc = NewEgressShaper ipsetOk (speed iface) iface; enitc = NewEgressShaper ipsetOk (speed eniIface) eniIface in
      if (iface \<noteq> [] \<and> tc = None) \<or> (eniIface \<noteq> [] \<and> enitc = None) then None
      else Some \<lparr>ni_tc = (if iface \<noteq> [] then tc else None), ni_enitc = (if eniIface \<noteq> [] then enitc else None)\<rparr>)"

definition eniPod :: "string \<Rightarrow> 'q pod \<Rightarrow> bool" where
  "eniPod eniIPResource pod \<longleftrightarrow> list_ex (\<lambda>c. gmap_has (c_Requests c) eniIPResource) (p_Containers pod)"

text \<open>Addresses of the eni network, of the global route network, and groups of the host network.\<close>

definition add_net_pod :: "string \<Rightarrow> 'q pod \<Rightarrow> string list \<times> string list \<times> string list \<Rightarrow> string list \<times> string list \<times> string list" where
  "add_net_pod eniIPResource pod = (\<lambda>(eniIPs, globalRouteIPs, hostPaths).
     (if p_Namespace pod = ''kube-system'' \<or> \<not> IsOffline pod then (eniIPs, globalRouteIPs, hostPaths)
      else if p_HostNetwork pod then (eniIPs, globalRouteIPs, hostPaths @ PodCgroupDirs pod)
      else if p_PodIP pod = [] then (eniIPs, globalRouteIPs, hostPaths)
      else if eniPod eniIPResource pod then (eniIPs @ [p_PodIP pod], globalRouteIPs, hostPaths)
      else (eniIPs, globalRouteIPs @ [p_PodIP pod], hostPaths)))"

definition net_Manage ::
  "'n net_ops \<Rightarrow> string \<Rightarrow> 'q CgroupResourceConfig \<Rightarrow> qosNetIO \<Rightarrow> 'n \<Rightarrow> cgfs \<Rightarrow> 'n \<times> cgfs" where
  "net_Manage N eniIPResource cgResources io n fs =
     (let (eniIPs, globalRouteIPs, hostPaths) = fold (add_net_pod eniIPResource) (cg_PodList cgResources) ([], [], []);
          (n, fs) = (case ni_tc io of
            None \<Rightarrow> (n, fs)
          | Some tc \<Rightarrow>
              let (n, fs, _) = EnsureEgressOfCgroup N tc hostPaths n fs in (fst (EnsureEgressOfIPs N tc globalRouteIPs n), fs));
          n = (case ni_enitc io of None \<Rightarrow> n | Some enitc \<Rightarrow> fst (EnsureEgressOfIPs N enitc eniIPs n))
      in (n, fs))"

section \<open>Moving processes\<close>

text \<open>
  The processes of a group are read by the library; the error \<open>Inl True\<close> says that the group does not
  exist. A process is moved by writing its number to the file of the target.
\<close>

fun write_pids :: "string \<Rightarrow> int list \<Rightarrow> cgfs \<Rightarrow> cgfs \<times> nat" where
  "write_pids target [] fs = (fs, 0)"
| "write_pids target (pid # pids) fs =
     (let (fs, r) = fs_write target (show_int pid) fs; (fs, failed) = write_pids target pids fs
      in (fs, case r of Inl _ \<Rightarrow> failed + 1 | Inr _ \<Rightarrow> failed))"

definition SetMemoryMoveImmigrate :: "string \<Rightarrow> string \<Rightarrow> cgfs \<Rightarrow> cgfs \<times> (fs_error + unit)" where
  "SetMemoryMoveImmigrate pathInRoot v fs =
     WriteFile v (path_Join [fs_root fs, ''memory'', pathInRoot]) ''memory.move_charge_at_immigrate'' fs"

text \<open>The processes moved and the number of errors; \<open>Inl\<close> is the early return on a failed memory setting.\<close>

fun move_subsystems ::
  "(string \<Rightarrow> cgfs \<Rightarrow> bool + int list) \<Rightarrow> string list \<Rightarrow> string \<Rightarrow> string \<Rightarrow> int list \<times> nat \<Rightarrow> cgfs
    \<Rightarrow> cgfs \<times> (int list + int list \<times> nat)" where
  "move_subsystems GetPids [] src tgt acc fs = (fs, Inr acc)"
| "move_subsystems GetPids (sub # subs) src tgt (moved, errs) fs =
     (let (fs, r) = (if sub = ''memory'' then SetMemoryMoveImmigrate tgt ''3'' fs else (fs, Inr ())) in
      case r of
        Inl _ \<Rightarrow> (fs, Inl moved)
      | Inr _ \<Rightarrow>
          (case GetPids (path_Join [fs_root fs, sub, src]) fs of
             Inl notExist \<Rightarrow> move_subsystems GetPids subs src tgt (moved, if notExist then errs else errs + 1) fs
           | Inr pids \<Rightarrow>
               if pids = [] then move_subsystems GetPids subs src tgt (moved, errs) fs
               else let (fs, failed) = write_pids (path_Join [fs_root fs, sub, tgt, ''cgroup.procs'']) pids fs
                    in move_subsystems GetPids subs src tgt (moved @ pids, errs + failed) fs))"

definition MovePids ::
  "(string \<Rightarrow> cgfs \<Rightarrow> bool + int list) \<Rightarrow> string list \<Rightarrow> string \<Rightarrow> string \<Rightarrow> cgfs \<Rightarrow> cgfs \<times> int list \<times> bool" where
  "MovePids GetPids subsystems sourcePath targetPath fs =
     (if subsystems = [] then (fs, [], True)
      else case move_subsystems GetPids subsystems sourcePath targetPath ([], 0) fs of
        (fs, Inl moved) \<Rightarrow> (fs, moved, False)
      | (fs, Inr (moved, errs)) \<Rightarrow> (fs, moved, errs = 0))"

definition moveOfflinePidsTogether :: "(string \<Rightarrow> cgfs \<Rightarrow> bool + int list) \<Rightarrow> string list \<Rightarrow> cgfs \<Rightarrow> cgfs" where
  "moveOfflinePidsTogether GetPids offlineCgs fs =
     fold (\<lambda>cg fs. fst (MovePids GetPids [''devices''] cg CgroupOffline fs)) offlineCgs fs"


section \<open>The manager\<close>

datatype 'q cpu_policy = PolicyFixed cpu_manager | PolicyAdaptive "'q qosCpuAdaptive" | PolicyNil

datatype 'q ResourceQosManager = RmCpu "'q cpu_policy" | RmMemory | RmDiskIO "string list" | RmNetIO qosNetIO

record ComponentConfig =
  cc_Cgroup :: string
  cc_Command :: string

record ResourceIsolateConfig =
  ri_ResourceDisable :: "(string, bool) gomap"
  ri_DiskNames :: "string list"
  ri_EniIface :: string
  ri_Iface :: string
  ri_ManagePolicy :: string
  ri_CpuSetConfig :: CpuSetConfig
  ri_OfflineShare :: "nat option"
  ri_KubeletStatic :: bool
  ri_OnlineType :: string
  ri_OfflineType :: string
  ri_ExternalComponents :: "ComponentConfig list"

record 'q QosK8sManager =
  qm_config :: ResourceIsolateConfig
  qm_eventChan :: "ResourceUpdateEvent list"
  qm_resourceManagers :: "'q ResourceQosManager list"

text \<open>What the outside world tells the module in a period; the libraries are \<open>N\<close> and \<open>GetPids\<close>.\<close>

record ('n, 'q) qos_env =
  qe_cpu :: cpu_env
  qe_net :: "'n net_ops"
  qe_GetPids :: "string \<Rightarrow> cgfs \<Rightarrow> bool + int list"
  qe_pods :: "'q pod list"
  qe_predicted :: "'q resource_list"
  qe_onlineCgroups :: "string list option"
  qe_memUsage :: "float64 option"
  qe_eniIPResource :: string

definition new_cpu_policy :: "ResourceIsolateConfig \<Rightarrow> 'q cpu_policy option" where
  "new_cpu_policy config =
     (if ri_ManagePolicy config = ''bt'' then Some (PolicyFixed (CpuBT (NewQosCpuBT (ri_KubeletStatic config))))
      else if ri_ManagePolicy config = ''cpuset'' then map_option (\<lambda>s. PolicyFixed (CpuSet s)) (NewQosCpuSet (ri_CpuSetConfig config))
      else if ri_ManagePolicy config = ''quota''
      then Some (PolicyFixed (CpuQuota (NewQosCpuQuota (ri_KubeletStatic config) (ri_OfflineShare config))))
      else if ri_ManagePolicy config = ''adaptive'' then Some (PolicyAdaptive (NewQosCpuAdaptive (ri_KubeletStatic config) (ri_CpuSetConfig config)))
      else Some PolicyNil)"

definition new_resource_manager ::
  "bool \<Rightarrow> (string \<Rightarrow> nat) \<Rightarrow> ResourceIsolateConfig \<Rightarrow> string \<Rightarrow> 'q ResourceQosManager option" where
  "new_resource_manager ipsetOk speed config r =
     (if r = ''cpu'' then map_option RmCpu (new_cpu_policy config)
      else if r = ''memory'' then Some RmMemory
      else if r = ''diskio'' then Some (RmDiskIO (ri_DiskNames config))
      else map_option RmNetIO (NewQosNetIO ipsetOk speed (ri_Iface config) (ri_EniIface config)))"

text \<open>\<open>None\<close> when the process ends or does not return while the managers are created.\<close>

definition NewQosK8sManager :: "bool \<Rightarrow> (string \<Rightarrow> nat) \<Rightarrow> ResourceIsolateConfig \<Rightarrow> 'q QosK8sManager option" where
  "NewQosK8sManager ipsetOk speed config =
     map_option (\<lambda>ms. \<lparr>qm_config = config, qm_eventChan = [], qm_resourceManagers = ms\<rparr>)
       (those (map (new_resource_manager ipsetOk speed config)
         (filter (\<lambda>r. map_of (ri_ResourceDisable config) r \<noteq> Some True) [''cpu'', ''memory'', ''diskio'', ''netio''])))"

definition qos_UpdateEvent :: "ResourceUpdateEvent \<Rightarrow> ResourceUpdateEvent list \<Rightarrow> ResourceUpdateEvent list \<times> bool" where
  "qos_UpdateEvent event eventChan = (if length eventChan < 32 then (eventChan @ [event], True) else (eventChan, False))"

definition checkResourceAvailable :: "'q qops \<Rightarrow> 'q resource_list \<Rightarrow> 'q resource_list" where
  "checkResourceAvailable Q res =
     (let minCpu = q_new_milli Q 1000; minMem = q_new Q (2048 * MemUnit);
          res = (case map_of res ResourceCPU of
            None \<Rightarrow> res | Some cpu \<Rightarrow> if q_cmp Q cpu minCpu < 0 then AList.update ResourceCPU minCpu res else res)
      in case map_of res ResourceMemory of
           None \<Rightarrow> res | Some mem \<Rightarrow> if q_cmp Q mem minMem < 0 then AList.update ResourceMemory minMem res else res)"

definition getResourceConfig :: "('n, 'q) qos_env \<Rightarrow> 'q CgroupResourceConfig" where
  "getResourceConfig E =
     (let podList = qe_pods E in
      \<lparr>cg_OnlineCgroups = concat (map (\<lambda>pod. if IsOffline pod then [] else PodCgroupDirs pod) podList) @
         (case qe_onlineCgroups E of None \<Rightarrow> [] | Some cgs \<Rightarrow> cgs),
       cg_OfflineCgroups = concat (map (\<lambda>pod. if IsOffline pod then PodCgroupDirs pod else []) podList),
       cg_Resources = qe_predicted E, cg_PodList = podList\<rparr>)"

text \<open>One manager of the list; its error is only logged. \<open>None\<close>: it panics or does not return.\<close>

definition manage_one ::
  "'q qops \<Rightarrow> ('n, 'q) qos_env \<Rightarrow> 'q CgroupResourceConfig \<Rightarrow> 'q ResourceQosManager \<Rightarrow> cpu_world \<times> 'n
    \<Rightarrow> ('q ResourceQosManager \<times> cpu_world \<times> 'n) option" where
  "manage_one Q E resCfg m = (\<lambda>(w, n).
     (case m of
        RmCpu (PolicyFixed c) \<Rightarrow> map_option (\<lambda>(c, w, _). (RmCpu (PolicyFixed c), w, n)) (cpu_Manage Q (qe_cpu E) resCfg c w)
      | RmCpu (PolicyAdaptive a) \<Rightarrow> map_option (\<lambda>(a, w, _). (RmCpu (PolicyAdaptive a), w, n)) (adaptive_Manage Q (qe_cpu E) resCfg a w)
      | RmCpu PolicyNil \<Rightarrow> None
      | RmMemory \<Rightarrow> Some (m, w\<lparr>w_fs := fst (mem_Manage Q (qe_memUsage E) resCfg (w_fs w))\<rparr>, n)
      | RmDiskIO disks \<Rightarrow> Some (m, w\<lparr>w_fs := fst (disk_Manage disks (w_fs w))\<rparr>, n)
      | RmNetIO io \<Rightarrow>
          let (n, fs) = net_Manage (qe_net E) (qe_eniIPResource E) resCfg io n (w_fs w) in Some (m, w\<lparr>w_fs := fs\<rparr>, n)))"

fun manage_all ::
  "'q qops \<Rightarrow> ('n, 'q) qos_env \<Rightarrow> 'q CgroupResourceConfig \<Rightarrow> 'q ResourceQosManager list \<Rightarrow> cpu_world \<times> 'n
    \<Rightarrow> ('q ResourceQosManager list \<times> cpu_world \<times> 'n) option" where
  "manage_all Q E resCfg [] s = Some ([], s)"
| "manage_all Q E resCfg (m # ms) s =
     (case manage_one Q E resCfg m s of
        None \<Rightarrow> None
      | Some (m, s) \<Rightarrow> map_option (\<lambda>(ms, s). (m # ms, s)) (manage_all Q E resCfg ms s))"

text \<open>What the managers are given: the prediction less the conflicts, at least the minimum.\<close>

definition offline_config :: "'q qops \<Rightarrow> ('n, 'q) qos_env \<Rightarrow> 'q manager \<Rightarrow> 'q manager \<times> 'q CgroupResourceConfig" where
  "offline_config Q E conflict =
     (let resCfg = getResourceConfig E;
          (conflict, offlineResources, _) = CheckAndSubConflictResource Q (cg_Resources resCfg) conflict
      in (conflict, resCfg\<lparr>cg_Resources := checkResourceAvailable Q offlineResources\<rparr>))"

definition UpdateResource ::
  "'q qops \<Rightarrow> ('n, 'q) qos_env \<Rightarrow> 'q QosK8sManager \<Rightarrow> 'q manager \<Rightarrow> cpu_world \<times> 'n
    \<Rightarrow> ('q QosK8sManager \<times> 'q manager \<times> cpu_world \<times> 'n) option" where
  "UpdateResource Q E q conflict = (\<lambda>(w, n).
     (let (conflict, resCfg) = offline_config Q E conflict;
          w = (if ri_OfflineType (qm_config q) = ''k8s''
               then w\<lparr>w_fs := moveOfflinePidsTogether (qe_GetPids E) (cg_OfflineCgroups resCfg) (w_fs w)\<rparr> else w)
      in map_option (\<lambda>(ms, w, n). (q\<lparr>qm_resourceManagers := ms\<rparr>, conflict, w, n))
           (manage_all Q E resCfg (qm_resourceManagers q) (w, n))))"

text \<open>A pass of the main loop, at the ticker or at an event.\<close>

definition qos_step ::
  "'q qops \<Rightarrow> ('n, 'q) qos_env \<Rightarrow> bool \<Rightarrow> 'q QosK8sManager \<Rightarrow> 'q manager \<Rightarrow> cpu_world \<times> 'n
    \<Rightarrow> ('q QosK8sManager \<times> 'q manager \<times> cpu_world \<times> 'n) option" where
  "qos_step Q E tick q conflict s =
     (if tick then UpdateResource Q E q conflict s
      else case qm_eventChan q of
        [] \<Rightarrow> Some (q, conflict, s)
      | event # rest \<Rightarrow> UpdateResource Q E (q\<lparr>qm_eventChan := rest\<rparr>) conflict s)"


section \<open>System components\<close>

text \<open>\<open>cc_Command\<close> is not used by the code yet.\<close>

definition adjust_oom :: "int \<Rightarrow> cgfs \<Rightarrow> cgfs" where
  "adjust_oom pid fs = fst (fs_write (path_Join [''/proc'', show_int pid, ''oom_score_adj'']) ''500'' fs)"

definition moveSystemComponents ::
  "cpu_env \<Rightarrow> (string \<Rightarrow> cgfs \<Rightarrow> bool + int list) \<Rightarrow> ComponentConfig list \<Rightarrow> cgfs \<Rightarrow> cgfs" where
  "moveSystemComponents E GetPids components fs =
     (case EnsureCgroupPath E (CgroupOffline @ ''/system'') fs of
        (fs, Inl _) \<Rightarrow> fs
      | (fs, Inr _) \<Rightarrow>
          let fs = fst (CPUOfflineSet (CgroupOffline @ ''/system'') True fs);
              fs = fold (\<lambda>component fs.
                if cc_Cgroup component \<noteq> []
                then fst (MovePids GetPids [''memory'', ''cpu''] (cc_Cgroup component) (CgroupOffline @ ''/system'') fs) else fs)
                components fs
          in case GetPids (path_Join [fs_root fs, ''memory'', CgroupOffline @ ''/system'']) fs of
               Inl _ \<Rightarrow> fs
             | Inr pids \<Rightarrow> fold adjust_oom pids fs)"

text \<open>Starting the module: a manager whose initialization fails ends the process (\<open>None\<close>).\<close>

definition preinit_one :: "cpu_env \<Rightarrow> 'q ResourceQosManager \<Rightarrow> cpu_world \<Rightarrow> ('q ResourceQosManager \<times> cpu_world) option" where
  "preinit_one E m w =
     (case m of
        RmCpu (PolicyFixed c) \<Rightarrow> (case cpu_PreInit E c w of (w, Inr _) \<Rightarrow> Some (m, w) | (w, Inl _) \<Rightarrow> None)
      | RmCpu (PolicyAdaptive a) \<Rightarrow>
          (case adaptive_PreInit E a w of Some (a, w, Inr _) \<Rightarrow> Some (RmCpu (PolicyAdaptive a), w) | _ \<Rightarrow> None)
      | RmCpu PolicyNil \<Rightarrow> None
      | _ \<Rightarrow> Some (m, w))"

fun preinit_all :: "cpu_env \<Rightarrow> 'q ResourceQosManager list \<Rightarrow> cpu_world \<Rightarrow> ('q ResourceQosManager list \<times> cpu_world) option" where
  "preinit_all E [] w = Some ([], w)"
| "preinit_all E (m # ms) w =
     (case preinit_one E m w of
        None \<Rightarrow> None
      | Some (m, w) \<Rightarrow> map_option (\<lambda>(ms, w). (m # ms, w)) (preinit_all E ms w))"

section \<open>Properties\<close>

lemma wrap64_small: "- (2 ^ 63) \<le> x \<Longrightarrow> x < 2 ^ 63 \<Longrightarrow> wrap64 x = x"
  by (rule wrap64_id) simp_all

lemma GetMemoryCgroupLimit_max:
  assumes "0 \<le> limit" "limit < 2 ^ 62" "minUsage < usage" "usage < 2 ^ 62"
  shows "GetMemoryCgroupLimitByUsage limit usage = max limit (usage + memoryBuffer)"
proof -
  have "wrap64 (limit - usage) = limit - usage" "wrap64 (usage + memoryBuffer) = usage + memoryBuffer"
    using assms by (auto intro!: wrap64_small simp: minUsage_def memoryBuffer_def)
  then show ?thesis using assms(3) by (auto simp: GetMemoryCgroupLimitByUsage_def)
qed

lemma strip_newlines_digits: "strip_newlines (show_nat n) = show_nat n"
proof -
  have "CHR 0x0A \<notin> set (show_nat n)" by (rule digits_no_char [OF show_nat_digits]) (simp add: is_digit_def)
  then show ?thesis unfolding strip_newlines_def by (intro filter_True) auto
qed

text \<open>
  C22. The memory limit of the offline jobs never bites into what they use: when they use more than
  100 MiB, the limit in force after a successful call, as it is read back from the control file, is the
  larger of the amount they may have and their usage with a buffer of 1020 MiB.
\<close>

theorem memory_limit_keeps_buffer:
  assumes "map_of (cg_Resources cg) ResourceMemory = Some qty" and "0 \<le> q_value Q qty" and "q_value Q qty < 2 ^ 62"
    and "minUsage < go_trunc usage" and "go_trunc usage < 2 ^ 62"
    and "fs_root fs = CHR ''/'' # r" and "\<forall>p. \<not> fs_fail fs p"
  shows "snd (mem_Manage Q (Some usage) cg fs) = Inr () \<and>
    GetMemoryLimit CgroupOffline (fst (mem_Manage Q (Some usage) cg fs)) =
      Inr (max (q_value Q qty) (go_trunc usage + memoryBuffer), True)"
proof -
  let ?v = "max (q_value Q qty) (go_trunc usage + memoryBuffer)"
  let ?p = "path_Join [fs_root fs, ''memory'', CgroupOffline, ''memory.limit_in_bytes'']"
  have v: "0 \<le> ?v" "?v < 2 ^ 62 + 2 ^ 30" using assms(2-5) by (auto simp: memoryBuffer_def minUsage_def)
  define k where "k = nat ?v"
  have k: "show_int ?v = show_nat k" "int k = ?v" "k < 2 ^ 63" "k \<noteq> 9223372036854771712"
    using v by (auto simp: show_int_def k_def)
  have a: "atoi (show_nat k) = Some (int k)" using k(3) by (intro atoi_show_nat) simp
  have u: "show_nat k \<noteq> ''9223372036854771712''"
  proof
    assume "show_nat k = ''9223372036854771712''"
    then have "k = dec_val ''9223372036854771712''" using dec_val_show [of k] by simp
    then show False using k(4) by (simp add: dec_val_def digit_val_def)
  qed
  have "mem_Manage Q (Some usage) cg fs = WriteFile (show_nat k) (path_Join [fs_root fs, ''memory'', CgroupOffline]) ''memory.limit_in_bytes'' fs"
    using assms(1) GetMemoryCgroupLimit_max [OF assms(2-5)] k(1) by (simp add: mem_Manage_def SetMemoryLimit_def)
  also have "\<dots> = (fs\<lparr>fs_files := AList.update ?p (show_nat k) (fs_files fs)\<rparr>, Inr ())"
    using path_Join_nested [OF assms(6), of "''memory.limit_in_bytes''" "[''memory'', CgroupOffline]"] assms(7)
    by (simp add: WriteFile_def fs_write_ok)
  finally show ?thesis using a u k(2) by (simp add: GetMemoryLimit_def readMemoryFile_def ReadFile_def strip_newlines_digits)
qed

definition memory_job :: "int CgroupResourceConfig" where
  "memory_job = \<lparr>cg_OnlineCgroups = [], cg_OfflineCgroups = [], cg_Resources = [(''memory'', 3000000000000000000)], cg_PodList = []\<rparr>"

theorem memory_limit_keeps_buffer_witness:
  "GetMemoryLimit CgroupOffline (fst (mem_Manage nanoQ (Some 2500000000) memory_job quiet_fs)) = Inr (3569547520, True)"
proof -
  have t: "go_trunc 2500000000 = 2500000000" by (simp add: go_trunc_def)
  from memory_limit_keeps_buffer [of memory_job 3000000000000000000 nanoQ 2500000000 quiet_fs "''c''"] show ?thesis
    by (simp add: memory_job_def quiet_fs_def nano_ops t minUsage_def memoryBuffer_def)
qed


lemma checkResourceAvailable_amounts:
  assumes "quantity Q amount"
  shows "map_of rl ResourceCPU = Some p \<Longrightarrow>
      \<exists>p'. map_of (checkResourceAvailable Q rl) ResourceCPU = Some p' \<and> amount p' = max 1 (amount p)"
    and "map_of rl ResourceMemory = Some m \<Longrightarrow>
      \<exists>m'. map_of (checkResourceAvailable Q rl) ResourceMemory = Some m' \<and> amount m' = max (2048 * 1024 * 1024) (amount m)"
proof -
  have d: "ResourceCPU \<noteq> ResourceMemory" by simp
  note laws = quantity.cmp_less [OF assms] quantity.amount_new [OF assms] quantity.amount_new_milli [OF assms]
  show "\<exists>p'. map_of (checkResourceAvailable Q rl) ResourceCPU = Some p' \<and> amount p' = max 1 (amount p)"
    if "map_of rl ResourceCPU = Some p"
    using that d
    by (cases "map_of rl ResourceMemory")
       (simp_all add: checkResourceAvailable_def Let_def laws max_def del: map_of_eq_Some_iff)
  show "\<exists>m'. map_of (checkResourceAvailable Q rl) ResourceMemory = Some m' \<and> amount m' = max (2048 * 1024 * 1024) (amount m)"
    if "map_of rl ResourceMemory = Some m"
    using that d
    by (cases "map_of rl ResourceCPU")
       (simp_all add: checkResourceAvailable_def Let_def laws MemUnit_def max_def del: map_of_eq_Some_iff)
qed

text \<open>
  C21. What the managers are told to enforce: the predicted cpu and memory less the whole demand of
  the conflicts, but never less than one core and 2 GiB.
\<close>

theorem offline_config_amounts:
  assumes "quantity Q amount" and "offline_config Q E c = (c', cfg)"
    and "map_of (qe_predicted E) ResourceCPU = Some p" and "0 \<le> amount p"
    and "map_of (qe_predicted E) ResourceMemory = Some m" and "0 \<le> amount m"
  shows "\<exists>p' m'. map_of (cg_Resources cfg) ResourceCPU = Some p' \<and> amount p' = max 1 (amount p + demand Q amount ResourceCPU p c) \<and>
    map_of (cg_Resources cfg) ResourceMemory = Some m' \<and>
    amount m' = max (2048 * 1024 * 1024) (amount m + demand Q amount ResourceMemory m c)"
proof -
  obtain pl cr where s: "CheckAndSubConflictResource Q (qe_predicted E) c = (c', pl, cr)" "cg_Resources cfg = checkResourceAvailable Q pl"
    using assms(2) by (auto simp: offline_config_def getResourceConfig_def Let_def split: prod.splits)
  obtain p1 where p1: "map_of pl ResourceCPU = Some p1" "amount p1 = max 0 (amount p + demand Q amount ResourceCPU p c)"
    using quantity.CheckAndSub_spec(2) [OF assms(1) s(1) assms(3,4)] by blast
  obtain m1 where m1: "map_of pl ResourceMemory = Some m1" "amount m1 = max 0 (amount m + demand Q amount ResourceMemory m c)"
    using quantity.CheckAndSub_spec(2) [OF assms(1) s(1) assms(5,6)] by blast
  have "max 1 (max 0 x) = max 1 x" "max (2048 * 1024 * 1024) (max 0 x) = max (2048 * 1024 * 1024) x" for x :: real by simp_all
  then show ?thesis
    using checkResourceAvailable_amounts [OF assms(1)] p1 m1 unfolding s(2) by metis
qed

definition plain_qos_env :: "(string list, int) qos_env" where
  "plain_qos_env = \<lparr>qe_cpu = \<lparr>ce_Info = None, ce_procs = None, ce_subsystems = None, ce_MkdirAll = (\<lambda>_ fs. fs)\<rparr>, qe_net = plain_net,
     qe_GetPids = (\<lambda>_ _. Inr []), qe_pods = [], qe_predicted = sample_predict, qe_onlineCgroups = None, qe_memUsage = None,
     qe_eniIPResource = []\<rparr>"

theorem offline_config_amounts_witness:
  "\<exists>p' m'. map_of (cg_Resources (snd (offline_config nanoQ plain_qos_env sample_conflicts))) ''cpu'' = Some p' \<and> nano_amount p' = 3 \<and>
     map_of (cg_Resources (snd (offline_config nanoQ plain_qos_env sample_conflicts))) ''memory'' = Some m' \<and> nano_amount m' = 2147483648"
proof -
  obtain c' cfg where e: "offline_config nanoQ plain_qos_env sample_conflicts = (c', cfg)" by (metis surj_pair)
  have d: "demand nanoQ nano_amount ''cpu'' 8000000000 sample_conflicts = - 5"
    "demand nanoQ nano_amount ''memory'' 4000000000 sample_conflicts = - 9"
    by (simp_all add: demand_def sample_conflicts_def entry_demand_def asked_def min0_def entry_name_def nano_amount_def)
  have pr: "map_of (qe_predicted plain_qos_env) ResourceCPU = Some 8000000000"
    "map_of (qe_predicted plain_qos_env) ResourceMemory = Some 4000000000" by (simp_all add: plain_qos_env_def sample_predict_def)
  have am: "nano_amount 8000000000 = 8" "nano_amount 4000000000 = 4" by (simp_all add: nano_amount_def)
  from offline_config_amounts [OF nano.quantity_axioms e pr(1) _ pr(2)] show ?thesis unfolding e snd_conv am d by simp
qed

end
