(* ===== verification/ActionProps.thy ===== *)
theory ActionProps
  imports Action
begin

text \<open>
  Properties of the actions: merging results is, up to the numbers the quantities denote and the
  names of the resources, the join of a semilattice; the name under a key is that of the first result merged. So
  the order in which the checkers' results are merged does not matter when they agree on the names;
  the percentage ratio of an adjust action stays within 0 and 1; a looping adjust action visits
  its resources in turn.
\<close>

section \<open>Merging as a semilattice\<close>

text \<open>What a client of \<^verbatim>\<open>Merge\<close> relies on: results denote elements of a semilattice.\<close>

locale merge_interface = join: semilattice join for join :: "'a \<Rightarrow> 'a \<Rightarrow> 'a" +
  fixes merge :: "'r \<Rightarrow> 'r \<Rightarrow> 'r" and denote :: "'r \<Rightarrow> 'a" and invar :: "'r \<Rightarrow> bool"
  assumes denote_merge: "invar a \<Longrightarrow> invar b \<Longrightarrow> denote (merge a b) = join (denote a) (denote b)"
    and invar_merge: "invar a \<Longrightarrow> invar b \<Longrightarrow> invar (merge a b)"
begin

lemma denote_fold:
  "invar a \<Longrightarrow> \<forall>b \<in> set bs. invar b \<Longrightarrow>
   invar (fold (\<lambda>b a. merge a b) bs a) \<and>
   denote (fold (\<lambda>b a. merge a b) bs a) = fold (\<lambda>x y. join y x) (map denote bs) (denote a)"
  by (induction bs arbitrary: a) (auto simp: invar_merge denote_merge)

lemma fold_join_perm:
  "mset xs = mset ys \<Longrightarrow> fold (\<lambda>x y. join y x) xs z = fold (\<lambda>x y. join y x) ys z"
  by (rule fold_permuted_eq [where P = "\<lambda>_. True"]) (simp_all add: join.assoc join.commute join.left_commute)

text \<open>Merging in any order gives the same denotation.\<close>

lemma merge_order_irrelevant:
  assumes "invar a" and "\<forall>b \<in> set bs. invar b" and "mset bs = mset bs'"
  shows "denote (fold (\<lambda>b a. merge a b) bs a) = denote (fold (\<lambda>b a. merge a b) bs' a)"
proof -
  have "\<forall>b \<in> set bs'. invar b" using assms(2,3) by (metis mset_eq_setD)
  moreover have "mset (map denote bs) = mset (map denote bs')" using assms(3) by simp
  ultimately show ?thesis
    using denote_fold [OF assms(1)] assms(2) fold_join_perm by metis
qed

text \<open>Merging a result again changes nothing.\<close>

lemma merge_idem: "invar a \<Longrightarrow> invar b \<Longrightarrow> denote (merge (merge a b) b) = denote (merge a b)"
  by (simp add: denote_merge invar_merge join.assoc)

end

text \<open>
  What a result demands: whether each resource is unschedulable, which formulas ask for
  which number under each key and whether the key is conflicting, whether an event is to be sent, and the
  sets of messages and pods. This part is a semilattice.
\<close>

type_synonym result_sem =
  "(string \<Rightarrow> bool option) \<times> (string \<Rightarrow> (bool \<times> (formula \<Rightarrow> real option)) option) \<times> bool \<times> string set \<times> string set"

definition opt_join :: "('a \<Rightarrow> 'a \<Rightarrow> 'a) \<Rightarrow> 'a option \<Rightarrow> 'a option \<Rightarrow> 'a option" where
  "opt_join f x y = (case x of None \<Rightarrow> y | Some a \<Rightarrow> (case y of None \<Rightarrow> x | Some b \<Rightarrow> Some (f a b)))"

definition adj_join ::
  "bool \<times> (formula \<Rightarrow> real option) \<Rightarrow> bool \<times> (formula \<Rightarrow> real option) \<Rightarrow> bool \<times> (formula \<Rightarrow> real option)" where
  "adj_join a b = (fst a \<or> fst b, \<lambda>f. opt_join min (snd a f) (snd b f))"

definition result_join :: "result_sem \<Rightarrow> result_sem \<Rightarrow> result_sem" where
  "result_join x y = (case x of (u, a, s, m, p) \<Rightarrow> (case y of (u', a', s', m', p') \<Rightarrow>
     (\<lambda>k. opt_join (\<or>) (u k) (u' k), \<lambda>k. opt_join adj_join (a k) (a' k), s \<or> s', m \<union> m', p \<union> p')))"

definition res_sem :: "('q \<Rightarrow> real) \<Rightarrow> 'q ActionResource \<Rightarrow> bool \<times> (formula \<Rightarrow> real option)" where
  "res_sem amount a = (ar_Conflicting a, \<lambda>f. map_option amount (map_of (ar_ConflictQuantity a) f))"

definition result_demands :: "('q \<Rightarrow> real) \<Rightarrow> 'q ActionResult \<Rightarrow> result_sem" where
  "result_demands amount r =
     (map_of (UnscheduleMap r), \<lambda>k. map_option (res_sem amount) (map_of (AdjustResources r) k),
      SyncEvent r, set (Messages r), pod_key ` set (EvictPods r))"

definition result_wf :: "'q ActionResult \<Rightarrow> bool" where
  "result_wf r \<longleftrightarrow> wf_map (UnscheduleMap r) \<and> wf_map (AdjustResources r)"

lemma opt_join_assoc:
  "(\<And>a b c. f (f a b) c = f a (f b c)) \<Longrightarrow> opt_join f (opt_join f x y) z = opt_join f x (opt_join f y z)"
  by (auto simp: opt_join_def split: option.splits)

lemma opt_join_comm: "(\<And>a b. f a b = f b a) \<Longrightarrow> opt_join f x y = opt_join f y x"
  by (auto simp: opt_join_def split: option.splits)

lemma opt_join_idem: "(\<And>a. f a a = a) \<Longrightarrow> opt_join f x x = x"
  by (auto simp: opt_join_def split: option.splits)

lemma adj_join_laws:
  "adj_join (adj_join a b) c = adj_join a (adj_join b c)" "adj_join a b = adj_join b a" "adj_join a a = a"
proof -
  show "adj_join (adj_join a b) c = adj_join a (adj_join b c)"
    by (simp add: adj_join_def opt_join_assoc min.assoc)
  show "adj_join a b = adj_join b a"
    unfolding adj_join_def by (auto simp: fun_eq_iff intro: opt_join_comm min.commute)
  show "adj_join a a = a"
    by (simp add: adj_join_def opt_join_idem)
qed

interpretation res_join: semilattice result_join
proof (unfold_locales, goal_cases)
  case (1 a b c)
  show ?case
    by (cases a, cases b, cases c)
      (simp add: result_join_def opt_join_assoc [of "(\<or>)"] opt_join_assoc [of adj_join, OF adj_join_laws(1)] Un_assoc)
next
  case (2 a b)
  have "opt_join (\<or>) x y = opt_join (\<or>) y x" for x y by (rule opt_join_comm) auto
  moreover have "opt_join adj_join x y = opt_join adj_join y x" for x y
    by (rule opt_join_comm) (rule adj_join_laws)
  ultimately show ?case
    by (cases a, cases b) (auto simp: result_join_def)
next
  case (3 a)
  show ?case
    by (cases a) (simp add: result_join_def opt_join_idem adj_join_laws)
qed

lemma append_new_loop:
  "set seen = key ` set out \<Longrightarrow>
   key ` set (snd (fold (\<lambda>y (seen, out). if key y \<in> set seen then (seen, out) else (key y # seen, out @ [y]))
          ys (seen, out))) = key ` set out \<union> key ` set ys"
proof (induction ys arbitrary: seen out)
  case Nil
  then show ?case by simp
next
  case (Cons y ys)
  show ?case
  proof (cases "key y \<in> set seen")
    case True
    then have "key y \<in> key ` set out" using Cons.prems by simp
    with True Cons.IH [OF Cons.prems] show ?thesis by auto
  next
    case False
    with Cons.IH [of "key y # seen" "out @ [y]"] Cons.prems show ?thesis by auto
  qed
qed

lemma set_append_new: "key ` set (append_new key xs ys) = key ` set xs \<union> key ` set ys"
  by (simp add: append_new_def append_new_loop)

lemma set_append_new_id [simp]: "set (append_new id xs ys) = set xs \<union> set ys"
  using set_append_new [of id xs ys] by simp

context quantity
begin

lemma res_sem_MergeByLittle:
  "res_sem amount (MergeByLittle Q a b) = adj_join (res_sem amount a) (res_sem amount b)"
  by (auto simp: res_sem_def adj_join_def opt_join_def map_of_MergeByLittle fun_eq_iff split: option.splits)

lemma denote_Merge:
  assumes "result_wf b"
  shows "result_demands amount (ActionResult_Merge Q a b) =
     result_join (result_demands amount a) (result_demands amount b)"
proof -
  have "map_of (merge_unschedule (UnscheduleMap a) (UnscheduleMap b)) k =
      opt_join (\<or>) (map_of (UnscheduleMap a) k) (map_of (UnscheduleMap b) k)" for k
    using assms by (auto simp: map_of_merge_unschedule opt_join_def result_wf_def split: option.splits)
  moreover have "map_option (res_sem amount) (map_of (merge_adjust Q (AdjustResources a) (AdjustResources b)) k)
      = opt_join adj_join (map_option (res_sem amount) (map_of (AdjustResources a) k))
          (map_option (res_sem amount) (map_of (AdjustResources b) k))" for k
    using assms
    by (auto simp: map_of_merge_adjust opt_join_def result_wf_def res_sem_MergeByLittle split: option.splits)
  ultimately show ?thesis
    by (simp add: result_demands_def result_join_def ActionResult_Merge_def set_append_new fun_eq_iff)
qed

lemma wf_Merge: "result_wf a \<Longrightarrow> result_wf (ActionResult_Merge Q a b)"
  by (simp add: result_wf_def ActionResult_Merge_def)

end

sublocale quantity \<subseteq> mi: merge_interface result_join "ActionResult_Merge Q" "result_demands amount" result_wf
  by unfold_locales (auto intro: denote_Merge wf_Merge)

context quantity
begin

lemma merge_any_order:
  "result_wf r \<Longrightarrow> \<forall>b \<in> set rs. result_wf b \<Longrightarrow> mset rs = mset rs' \<Longrightarrow>
   result_demands amount (fold (\<lambda>b a. ActionResult_Merge Q a b) rs r) =
     result_demands amount (fold (\<lambda>b a. ActionResult_Merge Q a b) rs' r)"
  by (rule mi.merge_order_irrelevant)

end

text \<open>
  The name under a key says which resource is lowered. It is not joined: the first result merged that has the key decides.
\<close>

definition result_names :: "'q ActionResult \<Rightarrow> string \<Rightarrow> string option" where
  "result_names r k = map_option ar_Name (map_of (AdjustResources r) k)"

lemma names_Merge:
  assumes "result_wf b"
  shows "result_names (ActionResult_Merge Q a b) k = (case result_names a k of None \<Rightarrow> result_names b k | Some n \<Rightarrow> Some n)"
  using assms by (auto simp: result_names_def ActionResult_Merge_def result_wf_def map_of_merge_adjust split: option.splits)

lemma merge_name_of_first:
  assumes "\<forall>b \<in> set rs. result_wf b"
  shows "result_names (fold (\<lambda>b a. ActionResult_Merge Q a b) rs r) k =
    (case List.map_filter (\<lambda>b. result_names b k) (r # rs) of [] \<Rightarrow> None | n # _ \<Rightarrow> Some n)"
  using assms by (induction rs arbitrary: r) (auto simp: names_Merge List.map_filter_def split: option.splits)

text \<open>The full denotation: the demands and the resource each key lowers.\<close>

definition result_denote :: "('q \<Rightarrow> real) \<Rightarrow> 'q ActionResult \<Rightarrow> result_sem \<times> (string \<Rightarrow> string option)" where
  "result_denote amount r = (result_demands amount r, result_names r)"

definition names_agree :: "'q ActionResult list \<Rightarrow> bool" where
  "names_agree rs \<longleftrightarrow> (\<forall>a \<in> set rs. \<forall>b \<in> set rs. \<forall>k n n'. result_names a k = Some n \<longrightarrow> result_names b k = Some n' \<longrightarrow> n = n')"

lemma agreed_name:
  assumes "names_agree (r # rs)" and "\<forall>b \<in> set rs. result_wf b"
  shows "result_names (fold (\<lambda>b a. ActionResult_Merge Q a b) rs r) k = Some n \<longleftrightarrow> (\<exists>b \<in> set (r # rs). result_names b k = Some n)"
proof -
  define ns where "ns = List.map_filter (\<lambda>b. result_names b k) (r # rs)"
  have ns: "n \<in> set ns \<longleftrightarrow> (\<exists>b \<in> set (r # rs). result_names b k = Some n)" for n
    unfolding ns_def List.map_filter_def by (auto simp: image_iff)
  have one: "x = y" if "x \<in> set ns" "y \<in> set ns" for x y
    using that assms(1) unfolding ns names_agree_def by blast
  have "(case ns of [] \<Rightarrow> None | n # _ \<Rightarrow> Some n) = Some n \<longleftrightarrow> n \<in> set ns"
    using one by (cases ns) auto
  then show ?thesis by (simp only: merge_name_of_first [OF assms(2)] ns_def [symmetric] ns)
qed

lemma names_any_order:
  assumes "names_agree (r # rs)" and "\<forall>b \<in> set rs. result_wf b" and "mset rs = mset rs'"
  shows "result_names (fold (\<lambda>b a. ActionResult_Merge Q a b) rs r) = result_names (fold (\<lambda>b a. ActionResult_Merge Q a b) rs' r)"
proof
  fix k
  have eq: "set rs = set rs'" using assms(3) by (rule mset_eq_setD)
  then have "names_agree (r # rs')" "\<forall>b \<in> set rs'. result_wf b" using assms(1,2) by (simp_all add: names_agree_def)
  then have "result_names (fold (\<lambda>b a. ActionResult_Merge Q a b) rs r) k = Some n \<longleftrightarrow>
      result_names (fold (\<lambda>b a. ActionResult_Merge Q a b) rs' r) k = Some n" for n
    by (simp only: agreed_name [OF assms(1,2)] agreed_name) (simp add: eq)
  then show "result_names (fold (\<lambda>b a. ActionResult_Merge Q a b) rs r) k = result_names (fold (\<lambda>b a. ActionResult_Merge Q a b) rs' r) k"
    by (metis option.exhaust)
qed


definition sample_result :: "int \<Rightarrow> int ActionResult" where
  "sample_result n = emptyResult\<lparr>UnscheduleMap := [(''cpu'', n < 0)],
     AdjustResources := [(''cpu'', \<lparr>ar_Name = ''cpu'', ar_Conflicting = n < 0,
        ar_ConflictQuantity = [(FormulaStep, n)]\<rparr>)]\<rparr>"


text \<open>Results that lower different resources under one key: the order decides which resource is lowered.\<close>

lemma merge_name_depends:
  assumes "wf_map m" and "wf_map m'" and "map_of m k = Some x" and "map_of m' k = Some y" and "ar_Name x \<noteq> ar_Name y"
  shows "result_names (ActionResult_Merge Q (emptyResult\<lparr>AdjustResources := m\<rparr>) (emptyResult\<lparr>AdjustResources := m'\<rparr>)) k \<noteq>
    result_names (ActionResult_Merge Q (emptyResult\<lparr>AdjustResources := m'\<rparr>) (emptyResult\<lparr>AdjustResources := m\<rparr>)) k"
  using assms by (simp add: names_Merge result_wf_def emptyResult_def) (simp add: result_names_def)

section \<open>The percentage ratio\<close>

lemma float64Round_bounds:
  assumes "0 \<le> v" and "v \<le> 1"
  shows "0 \<le> float64Round v \<and> float64Round v \<le> 1"
proof -
  have "of_int 0 \<le> fl (v * 100)" and "fl (v * 100) \<le> of_int 100"
    using assms fl_ge_of_int [of 0 "v * 100"] fl_le_of_int [of "v * 100" 100] by simp_all
  then have "of_int 0 \<le> go_round (fl (v * 100)) \<and> go_round (fl (v * 100)) \<le> of_int 100"
    by (intro go_round_bounds) simp_all
  then have "of_int 0 \<le> go_round (fl (v * 100)) / 100" and "go_round (fl (v * 100)) / 100 \<le> of_int 1"
    by simp_all
  then show ?thesis
    unfolding float64Round_def using fl_ge_of_int [of 0] fl_le_of_int [of _ 1] by fastforce
qed

lemma fl_unit:
  assumes "0 \<le> x" and "x \<le> 1"
  shows "0 \<le> fl x" "fl x \<le> 1"
  using assms fl_nonneg fl_le_of_int [of x 1] by simp_all

lemma ratio_milli_bounds:
  assumes "0 \<le> ratio" and "ratio \<le> 1"
  shows "- 1000 \<le> ratio_milli ratio \<and> ratio_milli ratio \<le> 0"
proof -
  define r where "r = - float64Round (fl (1 - ratio)) * 1000"
  have "0 \<le> float64Round (fl (1 - ratio)) \<and> float64Round (fl (1 - ratio)) \<le> 1"
    by (rule float64Round_bounds) (use assms fl_unit [of "1 - ratio"] in auto)
  then have "of_int (- 1000) \<le> r" and "r \<le> of_int 0" by (auto simp: r_def)
  then have "of_int (- 1000) \<le> fl r" and "fl r \<le> of_int 0"
    using fl_ge_of_int [of "- 1000" r] fl_le_of_int [of r 0] by simp_all
  then show ?thesis unfolding ratio_milli_def r_def [symmetric] by (rule go_trunc_bounds)
qed

definition percent_ok :: "('q, 'w) adjustResource \<Rightarrow> bool" where
  "percent_ok r \<longleftrightarrow> adj_handler r = None \<and> 0 \<le> adj_ratio r \<and> adj_ratio r \<le> 1 \<and>
     (\<forall>p. adj_stepPercent r = Some p \<longrightarrow> 0 \<le> p \<and> p < 1)"

lemma float64Round_nonneg:
  assumes "0 \<le> v"
  shows "0 \<le> float64Round v"
proof -
  have "0 \<le> fl (v * 100)" using assms by (intro fl_nonneg) simp
  then have "0 \<le> go_round (fl (v * 100))" by (simp add: go_round_def)
  then show ?thesis unfolding float64Round_def by (intro fl_nonneg) simp
qed

lemma adj_next_ratio_bounds:
  assumes "0 \<le> ratio" and "ratio \<le> 1" and "0 \<le> p" and "p < 1"
  shows "0 \<le> adj_next_ratio c p ratio \<and> adj_next_ratio c p ratio \<le> 1"
proof -
  have f: "0 \<le> fl (1 - p)" "fl (1 - p) \<le> 1" using fl_unit [of "1 - p"] assms by auto
  have m: "0 \<le> ratio * fl (1 - p)" "ratio * fl (1 - p) \<le> 1"
    using assms f by (simp_all add: mult_le_one)
  have "0 \<le> float64Round (fl (ratio * fl (1 - p))) \<and> float64Round (fl (ratio * fl (1 - p))) \<le> 1"
    using float64Round_bounds fl_unit [OF m] by blast
  moreover have "0 \<le> float64Round (fl (ratio / fl (1 - p)))"
    using assms f by (intro float64Round_nonneg fl_nonneg) simp
  ultimately show ?thesis by (simp add: adj_next_ratio_def Let_def)
qed

definition percent_range :: "('q \<Rightarrow> real) \<Rightarrow> 'q ActionResource \<Rightarrow> bool" where
  "percent_range amount a \<longleftrightarrow>
     (\<forall>q. map_of (ar_ConflictQuantity a) FormulaPercent = Some q \<longrightarrow> - 1 \<le> amount q \<and> amount q \<le> 0)"

context quantity
begin

lemma generate_percent:
  assumes "percent_ok r" and "generateActionResource Q w c r = Some (aRes, r')"
  shows "percent_ok r' \<and> percent_range amount aRes"
proof (cases "q_is_zero Q (adj_step r) \<and> adj_stepPercent r \<noteq> None")
  case True
  then obtain p where p: "adj_stepPercent r = Some p" by auto
  define ratio where "ratio = adj_next_ratio c p (adj_ratio r)"
  have b: "0 \<le> ratio" "ratio \<le> 1"
    using adj_next_ratio_bounds [of "adj_ratio r" p c] assms(1) p
    by (auto simp: ratio_def percent_ok_def)
  have "aRes = \<lparr>ar_Name = adj_resource r, ar_Conflicting = c,
      ar_ConflictQuantity = [(FormulaPercent, q_new_milli Q (ratio_milli ratio))]\<rparr>" "r' = r\<lparr>adj_ratio := ratio\<rparr>"
    using assms True p by (auto simp: generateActionResource_def percent_ok_def Let_def ratio_def)
  then show ?thesis
    using b ratio_milli_bounds [OF b] assms(1) by (auto simp: percent_ok_def percent_range_def)
next
  case False
  with assms show ?thesis
    by (auto simp: generateActionResource_def percent_ok_def percent_range_def Let_def split: option.splits if_splits)
qed

lemma adjust_all_percent:
  assumes "\<forall>r \<in> set rs. percent_ok r" and "adjust_all Q w c resource rs m = Some (m', rs')"
    and "\<forall>k a. map_of m k = Some a \<longrightarrow> percent_range amount a"
  shows "(\<forall>r \<in> set rs'. percent_ok r) \<and> (\<forall>k a. map_of m' k = Some a \<longrightarrow> percent_range amount a)"
  using assms
proof (induction rs arbitrary: m m' rs')
  case Nil
  then show ?case by auto
next
  case (Cons r rs)
  obtain aRes r1 rs1 where g: "generateActionResource Q w c r = Some (aRes, r1)"
    and a: "adjust_all Q w c resource rs (AList.update (resource @ ''_'' @ adj_resource r) aRes m) = Some (m', rs1)"
      "rs' = r1 # rs1"
    using Cons.prems(2) by (auto simp: option_bind_eq_Some)
  let ?m = "AList.update (resource @ ''_'' @ adj_resource r) aRes m"
  have "percent_ok r" using Cons.prems(1) by simp
  note gp = generate_percent [OF this g]
  have "\<forall>k a. map_of ?m k = Some a \<longrightarrow> percent_range amount a"
    using Cons.prems(3) gp by auto
  with Cons.IH [OF _ a(1)] Cons.prems(1) gp a(2) show ?case by auto
qed

lemma Adjust_percent:
  assumes "\<forall>r \<in> set (act_adjustResources a). percent_ok r" and "Adjust_DoAction Q w c msg a = Some (a', res)"
  shows "(\<forall>r \<in> set (act_adjustResources a'). percent_ok r) \<and>
     (\<forall>k x. map_of (AdjustResources res) k = Some x \<longrightarrow> percent_range amount x)"
proof -
  consider (zero) "act_adjResKind a = 0" | (one) "act_adjResKind a = 1"
    | (loop) "act_adjResKind a \<noteq> 0" "act_adjResKind a \<noteq> 1" "act_op a = ''loop''"
    | (all) "act_adjResKind a \<noteq> 0" "act_adjResKind a \<noteq> 1" "act_op a \<noteq> ''loop''" by blast
  then show ?thesis
  proof cases
    case zero
    with assms show ?thesis by (auto simp: Adjust_DoAction_def emptyResult_def Let_def)
  next
    case one
    with assms(2) obtain r rest aRes r' where g: "act_adjustResources a = r # rest"
      "generateActionResource Q w c r = Some (aRes, r')" "act_adjustResources a' = r' # rest"
      "AdjustResources res = [(act_resource a, aRes)]"
      by (auto simp: Adjust_DoAction_def Let_def option_bind_eq_Some split: list.splits)
    with assms(1) generate_percent [OF _ g(2)] show ?thesis by (auto split: if_splits)
  next
    case loop
    with assms(2) obtain aRes r' where g: "act_adjIndex a < length (act_adjustResources a)"
      "generateActionResource Q w c (act_adjustResources a ! act_adjIndex a) = Some (aRes, r')"
      "act_adjustResources a' = (act_adjustResources a)[act_adjIndex a := r']"
      "\<exists>k. AdjustResources res = [(k, aRes)]"
      by (auto simp: Adjust_DoAction_def Let_def option_bind_eq_Some split: if_splits)
    have "percent_ok (act_adjustResources a ! act_adjIndex a)" using assms(1) g(1) by auto
    note gp = generate_percent [OF this g(2)]
    have "set (act_adjustResources a') \<subseteq> insert r' (set (act_adjustResources a))"
      unfolding g(3) by (rule set_update_subset_insert)
    with assms(1) gp g(4) show ?thesis by (auto split: if_splits)
  next
    case all
    with assms(2) obtain m rs' where a: "adjust_all Q w c (act_resource a) (act_adjustResources a) [] = Some (m, rs')"
      "act_adjustResources a' = rs'" "AdjustResources res = m"
      by (auto simp: Adjust_DoAction_def Let_def option_bind_eq_Some split: if_splits)
    from adjust_all_percent [OF assms(1) a(1)] a(2,3) show ?thesis by simp
  qed
qed

end

text \<open>
  C6. The percentage asked of the conflict manager. When every configured resource has a step
  percentage in [0, 1) and no handler of its own, each adjust action asks for a share between
  -1 (everything) and 0 (nothing), whichever way and however often it is triggered: the ratio
  stays in [0, 1] through the float64 roundings, and the next action starts from such a state.
\<close>

theorem adjust_percent_bounded:
  assumes "quantity Q amount" and "\<forall>r \<in> set (act_adjustResources a). percent_ok r"
    and "Adjust_DoAction Q w c msg a = Some (a', res)"
  shows "(\<forall>r \<in> set (act_adjustResources a'). percent_ok r) \<and>
     (\<forall>k x. map_of (AdjustResources res) k = Some x \<longrightarrow> percent_range amount x)"
  using assms by (rule quantity.Adjust_percent)

definition percent_action :: "(int, unit) AdjustResourceAction" where
  "percent_action = \<lparr>act_resource = ''cpu'', act_adjIndex = 0, act_op = ''and'', act_adjResKind = 1,
     act_adjustResources = [\<lparr>adj_resource = ''cpu'', adj_step = 0, adj_negativeStep = 0,
       adj_stepPercent = Some (1/2), adj_ratio = 1, adj_handler = None\<rparr>]\<rparr>"

lemma percent_action_ok: "\<forall>r \<in> set (act_adjustResources percent_action). percent_ok r"
  by (simp add: percent_action_def percent_ok_def)

lemma percent_action_runs:
  "\<exists>a' res x. Adjust_DoAction nanoQ () True ''hot'' percent_action = Some (a', res) \<and>
     map_of (AdjustResources res) ''cpu'' = Some x \<and> map_of (ar_ConflictQuantity x) FormulaPercent \<noteq> None"
  by (simp add: Adjust_DoAction_def percent_action_def generateActionResource_def nanoQ_def Let_def)

theorem adjust_percent_bounded_witness:
  "\<exists>a' res x. Adjust_DoAction nanoQ () True ''hot'' percent_action = Some (a', res) \<and>
     map_of (AdjustResources res) ''cpu'' = Some x \<and> map_of (ar_ConflictQuantity x) FormulaPercent \<noteq> None \<and>
     percent_range nano_amount x"
  using percent_action_runs adjust_percent_bounded [OF nano.quantity_axioms percent_action_ok] by blast

section \<open>Round robin\<close>

text \<open>A sequence of actions: each with the state its handlers read, the direction and the message.\<close>

fun adjust_runs ::
  "'q qops \<Rightarrow> ('w \<times> bool \<times> string) list \<Rightarrow> ('q, 'w) AdjustResourceAction
    \<Rightarrow> (('q, 'w) AdjustResourceAction \<times> 'q ActionResult list) option" where
  "adjust_runs Q [] a = Some (a, [])"
| "adjust_runs Q ((w, c, msg) # is) a = do {
     (a1, r) \<leftarrow> Adjust_DoAction Q w c msg a;
     (a2, rs) \<leftarrow> adjust_runs Q is a1;
     Some (a2, r # rs)
   }"

definition handler_total :: "('q, 'w) adjustResource \<Rightarrow> bool" where
  "handler_total r \<longleftrightarrow> (case adj_handler r of None \<Rightarrow> True | Some h \<Rightarrow> \<forall>w c. h w c \<noteq> None)"

definition loop_ok :: "('q, 'w) AdjustResourceAction \<Rightarrow> bool" where
  "loop_ok a \<longleftrightarrow> act_op a = ''loop'' \<and> 2 \<le> length (act_adjustResources a) \<and>
     act_adjResKind a = length (act_adjustResources a) \<and> act_adjIndex a < length (act_adjustResources a) \<and>
     (\<forall>r \<in> set (act_adjustResources a). handler_total r)"

definition loop_key :: "('q, 'w) AdjustResourceAction \<Rightarrow> nat \<Rightarrow> string" where
  "loop_key a j = act_resource a @ ''_'' @
     adj_resource (act_adjustResources a ! ((act_adjIndex a + j) mod length (act_adjustResources a)))"

lemma generate_keeps_resource:
  "generateActionResource Q w c r = Some (aRes, r') \<Longrightarrow> adj_resource r' = adj_resource r"
  by (auto simp: generateActionResource_def Let_def option_bind_eq_Some split: option.splits if_splits)

lemma generate_keeps_handler:
  "generateActionResource Q w c r = Some (aRes, r') \<Longrightarrow> adj_handler r' = adj_handler r"
  by (auto simp: generateActionResource_def Let_def option_bind_eq_Some split: option.splits if_splits)

lemma generate_total:
  assumes "handler_total r"
  obtains aRes r' where "generateActionResource Q w c r = Some (aRes, r')"
proof -
  obtain self where "(case adj_handler r of None \<Rightarrow> Some None | Some h \<Rightarrow> h w c) = Some self"
    using assms by (cases "adj_handler r") (auto simp: handler_total_def)
  then have "generateActionResource Q w c r \<noteq> None" by (simp add: generateActionResource_def)
  with that show thesis by (metis not_None_eq surj_pair)
qed

lemma loop_step:
  assumes "loop_ok a"
  obtains a' res where "Adjust_DoAction Q w c msg a = Some (a', res)" and "loop_ok a'"
    and "map fst (AdjustResources res) = [loop_key a 0]" and "\<And>j. loop_key a' j = loop_key a (Suc j)"
proof -
  let ?rs = "act_adjustResources a" and ?i = "act_adjIndex a"
  let ?n = "length ?rs"
  have t: "\<forall>r \<in> set ?rs. handler_total r" "?i < ?n" using assms by (auto simp: loop_ok_def)
  then have "handler_total (?rs ! ?i)" by simp
  then obtain aRes r' where g: "generateActionResource Q w c (?rs ! ?i) = Some (aRes, r')" by (rule generate_total)
  have "handler_total r'" using \<open>handler_total (?rs ! ?i)\<close> generate_keeps_handler [OF g] by (simp add: handler_total_def)
  then have t': "\<forall>r \<in> set (?rs[?i := r']). handler_total r" using t set_update_subset_insert [of ?rs ?i r'] by blast
  define a' where "a' = a\<lparr>act_adjIndex := (?i + 1) mod ?n, act_adjustResources := ?rs[?i := r']\<rparr>"
  define res where "res = emptyResult\<lparr>Messages := [msg], AdjustResources := [(act_resource a @ ''_'' @ adj_resource (?rs ! ?i), aRes)]\<rparr>"
  have d: "Adjust_DoAction Q w c msg a = Some (a', res)"
    using assms g by (auto simp: Adjust_DoAction_def loop_ok_def a'_def res_def Let_def)
  have n: "adj_resource (?rs[?i := r'] ! k) = adj_resource (?rs ! k)" if "k < ?n" for k
    using that generate_keeps_resource [OF g] by (cases "k = ?i") auto
  have "0 < ?n" using assms by (auto simp: loop_ok_def)
  then have "loop_key a' j = loop_key a (Suc j)" for j
    by (simp add: loop_key_def a'_def n mod_add_left_eq)
  moreover have "map fst (AdjustResources res) = [loop_key a 0]"
    using assms by (simp add: res_def loop_key_def loop_ok_def)
  moreover have "loop_ok a'" using assms \<open>0 < ?n\<close> t' by (auto simp: loop_ok_def a'_def)
  ultimately show ?thesis using d by (intro that)
qed

text \<open>
  C7. An adjust action with \<^verbatim>\<open>op: "loop"\<close> serves its resources round robin: over any sequence of
  triggers it never panics unless a self-defined handler does, each trigger adjusts exactly one resource, and the j-th trigger
  adjusts the resource j places after the current one, cyclically, so that n consecutive
  triggers serve each of the n resources once.
\<close>

theorem adjust_loop_round_robin:
  assumes "loop_ok a"
  shows "\<exists>a' rs. adjust_runs Q is a = Some (a', rs) \<and> loop_ok a' \<and>
     map (\<lambda>r. map fst (AdjustResources r)) rs = map (\<lambda>j. [loop_key a j]) [0..<length is]"
  using assms
proof (induction "is" arbitrary: a)
  case Nil
  then show ?case by simp
next
  case (Cons i "is")
  obtain w c msg where i: "i = (w, c, msg)" by (cases i)
  obtain a1 res where s: "Adjust_DoAction Q w c msg a = Some (a1, res)" "loop_ok a1"
    "map fst (AdjustResources res) = [loop_key a 0]" "\<And>j. loop_key a1 j = loop_key a (Suc j)"
    using loop_step [OF Cons.prems] by blast
  obtain a2 rs where r: "adjust_runs Q is a1 = Some (a2, rs)" "loop_ok a2"
    "map (\<lambda>r. map fst (AdjustResources r)) rs = map (\<lambda>j. [loop_key a1 j]) [0..<length is]"
    using Cons.IH [OF s(2)] by blast
  have "map (\<lambda>j. [loop_key a j]) [0..<Suc (length is)] = [loop_key a 0] # map (\<lambda>j. [loop_key a1 j]) [0..<length is]"
    by (simp add: s(4) upt_conv_Cons map_Suc_upt [symmetric] comp_def del: upt_Suc map_Suc_upt)
  with s(1,3) r show ?case by (simp add: i)
qed

definition loop_action :: "(int, unit) AdjustResourceAction" where
  "loop_action = \<lparr>act_resource = ''mem'', act_adjIndex = 1, act_op = ''loop'', act_adjResKind = 2,
     act_adjustResources = map (\<lambda>n. \<lparr>adj_resource = n, adj_step = 5, adj_negativeStep = - 5,
       adj_stepPercent = None, adj_ratio = 1, adj_handler = None\<rparr>) [''cpu'', ''memory'']\<rparr>"

lemma loop_action_ok: "loop_ok loop_action"
  by (simp add: loop_ok_def loop_action_def handler_total_def)

lemma loop_action_keys:
  "map (\<lambda>j. [loop_key loop_action j]) [0..<3] = [[''mem_memory''], [''mem_cpu''], [''mem_memory'']]"
  by code_simp

theorem adjust_loop_round_robin_witness:
  "\<exists>a' rs. adjust_runs nanoQ (replicate 3 ((), True, ''m'')) loop_action = Some (a', rs) \<and> loop_ok a' \<and>
     map (\<lambda>r. map fst (AdjustResources r)) rs = [[''mem_memory''], [''mem_cpu''], [''mem_memory'']]"
  using adjust_loop_round_robin [OF loop_action_ok, of nanoQ "replicate 3 ((), True, ''m'')"]
  by (simp only: length_replicate loop_action_keys)

end
