(* ===== verification/Dispatch.thy ===== *)
theory Dispatch
  imports QosManager ActionProps
begin

text \<open>
  \<^verbatim>\<open>healthcheck/dispatcher/dispatcher.go\<close> and the round of \<^verbatim>\<open>rulecheck/rule_check.go\<close>: merging the results of
  the checkers and sending them to the resource manager, the conflict manager and the qos
  manager. The conflict manager is shared with the resource manager; it is passed separately
  here and put back into the resource manager by the round.
\<close>

section \<open>Dispatching a result\<close>

record Dispatcher =
  disp_unschedule :: "(string, bool) gomap"

definition NewDispatcher :: Dispatcher where
  "NewDispatcher = \<lparr>disp_unschedule = []\<rparr>"

text \<open>The managers the dispatcher calls; a nil interface is \<open>None\<close>, the qos manager is its queue of events.\<close>

record 'q managers =
  mg_resource :: "'q offlineManager option"
  mg_qos :: "ResourceUpdateEvent list option"
  mg_conflict :: "'q manager"

definition switch_schedule :: "bool \<Rightarrow> 'q managers \<Rightarrow> 'q managers \<times> 'q effect list" where
  "switch_schedule unschedule g =
     (case mg_resource g of
        None \<Rightarrow> (g, [])
      | Some m \<Rightarrow>
          let (m, effects) = (if unschedule then DisableOfflineSchedule m else EnableOfflineSchedule m)
          in (g\<lparr>mg_resource := Some m\<rparr>, effects))"

definition conflict_names :: "(string, 'q ActionResource) gomap \<Rightarrow> string list" where
  "conflict_names adj = sort (remdups (map (\<lambda>(k, ac). ar_Name ac) (filter (\<lambda>(k, ac). ar_Conflicting ac) adj)))"

definition send_event :: "ResourceUpdateEvent \<Rightarrow> 'q managers \<Rightarrow> 'q managers" where
  "send_event event g =
     g\<lparr>mg_resource := map_option (\<lambda>m. fst (SyncNodeResource event m)) (mg_resource g),
       mg_qos := map_option (\<lambda>evs. fst (qos_UpdateEvent event evs)) (mg_qos g)\<rparr>"

definition HandleActionResult ::
  "'q qops \<Rightarrow> 'q ActionResult \<Rightarrow> Dispatcher \<Rightarrow> 'q managers
    \<Rightarrow> Dispatcher \<times> 'q managers \<times> 'q effect list \<times> ResourceUpdateEvent option" where
  "HandleActionResult Q acRet d g =
     (let d = d\<lparr>disp_unschedule := gmap_put_all (disp_unschedule d) (UnscheduleMap acRet)\<rparr>;
          unschedule = list_ex snd (disp_unschedule d);
          (g, effects) = switch_schedule unschedule g;
          (c, changed) = UpdateConflictList Q (AdjustResources acRet) (mg_conflict g);
          g = g\<lparr>mg_conflict := c\<rparr>
      in if SyncEvent acRet \<or> changed
         then let event = \<lparr>ConflictRes = conflict_names (AdjustResources acRet), Reason = join_with '';'' (Messages acRet)\<rparr>
              in (d, send_event event g, effects, Some event)
         else (d, g, effects, None))"

section \<open>A round of the rule check manager\<close>

definition actionResultAvailable :: "'q ActionResult \<Rightarrow> bool" where
  "actionResultAvailable ac \<longleftrightarrow>
     AdjustResources ac \<noteq> [] \<or> EvictPods ac \<noteq> [] \<or> UnscheduleMap ac \<noteq> [] \<or> SyncEvent ac"

text \<open>The results of the checkers in the order in which they finish.\<close>

definition merge_results :: "'q qops \<Rightarrow> 'q ActionResult list \<Rightarrow> 'q ActionResult" where
  "merge_results Q results = fold (\<lambda>ac finalAC. ActionResult_Merge Q finalAC ac) results emptyResult"

definition run_round ::
  "'q qops \<Rightarrow> 'q ActionResult list \<Rightarrow> Dispatcher \<Rightarrow> 'q managers
    \<Rightarrow> Dispatcher \<times> 'q managers \<times> 'q effect list \<times> ResourceUpdateEvent option" where
  "run_round Q results d g =
     (let finalAC = merge_results Q results
      in if actionResultAvailable finalAC then HandleActionResult Q finalAC d g else (d, g, [], None))"

text \<open>The shared conflict manager.\<close>

definition share_conflict :: "'q managers \<Rightarrow> 'q managers" where
  "share_conflict g = g\<lparr>mg_resource := map_option (\<lambda>m. m\<lparr>om_conflict := mg_conflict g\<rparr>) (mg_resource g)\<rparr>"

section \<open>Properties\<close>

lemma switch_schedule_frame [frame_simps]:
  "mg_conflict (fst (switch_schedule b g)) = mg_conflict g" "mg_qos (fst (switch_schedule b g)) = mg_qos g"
  by (simp_all add: switch_schedule_def Let_def case_prod_unfold split: option.split)

lemma list_ex_snd: "wf_map m \<Longrightarrow> list_ex snd m \<longleftrightarrow> (\<exists>k. map_of m k = Some True)"
  by (force simp: list_ex_iff)

lemma switch_schedule_disabled:
  assumes "mg_resource (fst (switch_schedule b g)) = Some m'" and "mg_resource g = Some m" and "\<not> om_scheduleSilence m"
  shows "kc_extResScheduleDisabled (om_client m') = b"
  using assms by (auto simp: switch_schedule_def DisableOfflineSchedule_def EnableOfflineSchedule_def case_prod_unfold Let_def
      split: if_splits)

lemma SyncNodeResource_queues:
  "event \<in> set (om_eventChan (fst (SyncNodeResource event m))) \<or> 32 \<le> length (om_eventChan (fst (SyncNodeResource event m)))"
  by (simp add: SyncNodeResource_def)

text \<open>
  The schedule switch follows the rules: after a result has been dispatched, and unless
  scheduling is silenced, the switch is off exactly when some schedule rule, by its latest
  verdict, asks for no scheduling; a rule not mentioned in the result keeps its verdict.
\<close>

lemma dispatch_switches_schedule:
  assumes "HandleActionResult Q acRet d g = (d', g', effects, ev)" and "wf_map (disp_unschedule d)" and "wf_map (UnscheduleMap acRet)"
    and "mg_resource g = Some m" and "\<not> om_scheduleSilence m" and "mg_resource g' = Some m'"
  shows "(kc_extResScheduleDisabled (om_client m') \<longleftrightarrow>
      (\<exists>rule. (map_of (disp_unschedule d) ++ map_of (UnscheduleMap acRet)) rule = Some True)) \<and>
     map_of (disp_unschedule d') = map_of (disp_unschedule d) ++ map_of (UnscheduleMap acRet)"
proof -
  let ?u = "gmap_put_all (disp_unschedule d) (UnscheduleMap acRet)"
  have d': "disp_unschedule d' = ?u" and
    m': "\<exists>m1. mg_resource (fst (switch_schedule (list_ex snd ?u) g)) = Some m1 \<and> om_client m' = om_client m1"
    using assms(1,6) by (auto simp: HandleActionResult_def send_event_def SyncNodeResource_def Let_def case_prod_unfold
        split: if_splits)
  have u: "map_of ?u = map_of (disp_unschedule d) ++ map_of (UnscheduleMap acRet)" using assms(3) by (rule map_of_put_all)
  have "wf_map ?u" using assms(2) by (rule wf_map_put_all)
  then have "list_ex snd ?u \<longleftrightarrow> (\<exists>rule. (map_of (disp_unschedule d) ++ map_of (UnscheduleMap acRet)) rule = Some True)"
    unfolding u [symmetric] by (rule list_ex_snd)
  moreover obtain m1 where "mg_resource (fst (switch_schedule (list_ex snd ?u) g)) = Some m1" "om_client m' = om_client m1"
    using m' by blast
  then have "kc_extResScheduleDisabled (om_client m') = list_ex snd ?u"
    using switch_schedule_disabled [OF _ assms(4,5)] by metis
  ultimately show ?thesis unfolding d' u by (intro conjI refl) (rule trans)
qed

definition sample_dispatch :: "Dispatcher \<times> int managers \<times> int effect list \<times> ResourceUpdateEvent option" where
  "sample_dispatch = HandleActionResult nanoQ (emptyResult\<lparr>UnscheduleMap := [(''cpu'', True)]\<rparr>) NewDispatcher
     \<lparr>mg_resource = Some quiet_manager, mg_qos = None, mg_conflict = sample_conflicts\<rparr>"

lemma sample_dispatch_eq:
  "\<exists>d' g' effects ev m'. sample_dispatch = (d', g', effects, ev) \<and> mg_resource g' = Some m'"
  by (simp add: sample_dispatch_def HandleActionResult_def NewDispatcher_def emptyResult_def gmap_put_all_def
      switch_schedule_def DisableOfflineSchedule_def quiet_manager_def k8s_DisableOfflineSchedule_def kill_client_def
      UpdateConflictList_def Let_def)

theorem dispatch_switches_schedule_witness:
  "\<exists>d' g' effects ev m'. sample_dispatch = (d', g', effects, ev) \<and> mg_resource g' = Some m' \<and>
     kc_extResScheduleDisabled (om_client m')"
proof -
  obtain d' g' effects ev m' where e: "sample_dispatch = (d', g', effects, ev)" "mg_resource g' = Some m'"
    using sample_dispatch_eq by blast
  have "kc_extResScheduleDisabled (om_client m')"
    using dispatch_switches_schedule [OF e(1) [unfolded sample_dispatch_def] _ _ _ _ e(2), of quiet_manager]
    by (simp add: NewDispatcher_def emptyResult_def quiet_manager_def)
  with e show ?thesis by blast
qed

text \<open>
  No change goes unnoticed: when a dispatched result sends no event, neither the result asked
  for one nor has the demand of the conflict manager on any resource changed. When it sends
  one, the qos manager and the resource manager get it, each unless its channel is full.
\<close>

lemma dispatch_event_or_unchanged:
  assumes "quantity Q amount" and "conflict_wf (mg_conflict g)" and "HandleActionResult Q acRet d g = (d', g', effects, ev)"
    and "0 \<le> amount p"
  shows "case ev of
      None \<Rightarrow> \<not> SyncEvent acRet \<and> demand Q amount r p (mg_conflict g') = demand Q amount r p (mg_conflict g)
    | Some event \<Rightarrow> (\<forall>evs'. mg_qos g' = Some evs' \<longrightarrow> event \<in> set evs' \<or> 32 \<le> length evs') \<and>
        (\<forall>m'. mg_resource g' = Some m' \<longrightarrow> event \<in> set (om_eventChan m') \<or> 32 \<le> length (om_eventChan m'))"
proof -
  obtain c changed where u: "UpdateConflictList Q (AdjustResources acRet) (mg_conflict g) = (c, changed)" by fastforce
  show ?thesis
  proof (cases "SyncEvent acRet \<or> changed")
    case True
    let ?g1 = "(fst (switch_schedule (list_ex snd (gmap_put_all (disp_unschedule d) (UnscheduleMap acRet))) g))\<lparr>mg_conflict := c\<rparr>"
    from True obtain event where "ev = Some event" "g' = send_event event ?g1"
      using assms(3) by (auto simp: HandleActionResult_def u Let_def case_prod_unfold frame_simps)
    moreover have "event \<in> set evs' \<or> 32 \<le> length evs'" if "mg_qos (send_event event ?g1) = Some evs'" for evs'
      using that by (auto simp: send_event_def qos_UpdateEvent_def)
    moreover have "event \<in> set (om_eventChan m') \<or> 32 \<le> length (om_eventChan m')"
      if "mg_resource (send_event event ?g1) = Some m'" for m'
      using that SyncNodeResource_queues by (auto simp del: fun_upd_apply simp: send_event_def)
    ultimately show ?thesis by simp
  next
    case False
    then have "ev = None" "mg_conflict g' = c" "\<not> SyncEvent acRet" "\<not> changed"
      using assms(3) by (auto simp: HandleActionResult_def u Let_def case_prod_unfold frame_simps)
    moreover have "demand Q amount r p c = demand Q amount r p (mg_conflict g)"
      using quantity.UpdateConflictList_unreported [OF assms(1,2) _ assms(4)] False u by auto
    ultimately show ?thesis by simp
  qed
qed


definition idle_result :: "int ActionResult" where
  "idle_result = emptyResult\<lparr>AdjustResources := sample_idle_update\<rparr>"

definition bare_managers :: "int managers" where
  "bare_managers = \<lparr>mg_resource = None, mg_qos = Some [], mg_conflict = sample_conflicts\<rparr>"

lemma idle_dispatch:
  "HandleActionResult nanoQ idle_result NewDispatcher bare_managers =
     (NewDispatcher, bare_managers\<lparr>mg_conflict := fst (UpdateConflictList nanoQ sample_idle_update sample_conflicts)\<rparr>, [], None)"
  using sample_idle_update_unreported
  by (simp add: HandleActionResult_def idle_result_def bare_managers_def NewDispatcher_def emptyResult_def gmap_put_all_def
      switch_schedule_def Let_def case_prod_unfold) (metis snd_conv)

theorem dispatch_event_or_unchanged_witness:
  "demand nanoQ nano_amount ''memory'' 8000000000 (fst (UpdateConflictList nanoQ sample_idle_update sample_conflicts)) =
     demand nanoQ nano_amount ''memory'' 8000000000 sample_conflicts"
proof -
  have "conflict_wf (mg_conflict bare_managers)" using sample_conflicts_wf by (simp add: bare_managers_def)
  from dispatch_event_or_unchanged [OF nano.quantity_axioms this idle_dispatch, of 8000000000 "''memory''"]
  show ?thesis by (simp add: nano_amount_def bare_managers_def)
qed

end
