(* ===== verification/Alarm.thy ===== *)
theory Alarm
  imports Times Float64
begin

text \<open>
  \<^verbatim>\<open>pkg/caelus/alarm/alarm.go\<close>: alarms are put into a channel, collected per message by the main loop and
  sent in batches, or by a timer when a batch does not fill up. The goroutines of the code are
  steps of a transition system: a call of \<open>SendAlarm\<close>, the main loop receiving a message, and
  the timer firing; each runs under the manager's lock or on the channel alone.
\<close>

section \<open>Data\<close>

record AlarmConfig =
  Enable :: bool
  Cluster :: string
  MessageBatch :: int
  MessageDelay :: go_duration
  IgnoreAlarmWhenSilence :: bool

record AlarmBody =
  IP :: string
  body_Cluster :: string
  AlarmMsg :: "string list"

text \<open>
  The manager: the channel of capacity 100, the collected messages with their times, whether
  the timer has been created and when it is due, and whether the main loop is running.
\<close>

record alarm_manager =
  am_config :: AlarmConfig
  am_localIP :: string
  am_messages :: "(string, go_time list) gomap"
  am_msgBuffers :: "(string \<times> go_time) list"
  am_delayer :: bool
  am_due :: "go_time option"
  am_running :: bool

definition NewAlarmManager :: "AlarmConfig \<Rightarrow> string \<Rightarrow> alarm_manager" where
  "NewAlarmManager cfg ip = \<lparr>am_config = cfg, am_localIP = ip, am_messages = [], am_msgBuffers = [], am_delayer = False,
     am_due = None, am_running = False\<rparr>"

definition Run :: "alarm_manager \<Rightarrow> alarm_manager" where
  "Run a = (if Enable (am_config a) then a\<lparr>am_running := True\<rparr> else a)"

section \<open>Operations\<close>

text \<open>
  What the resource manager says about offline jobs: whether scheduling is disabled, and the
  number of jobs, \<open>None\<close> for an error. The interface value itself may be nil.
\<close>

definition SendAlarm :: "(bool \<times> nat option) option \<Rightarrow> string \<Rightarrow> go_time \<Rightarrow> alarm_manager \<Rightarrow> alarm_manager" where
  "SendAlarm ojg msg now a =
     (if \<not> Enable (am_config a) then a
      else if ojg = Some (True, Some 0) then a
      else if length (am_msgBuffers a) < 100 then a\<lparr>am_msgBuffers := am_msgBuffers a @ [(msg, now)]\<rparr>
      else a)"

text \<open>\<^verbatim>\<open>Format("15:04:05")\<close>\<close>

definition format_hms :: "clock \<Rightarrow> string" where
  "format_hms t = show_pad2 (Hour t) @ '':'' @ show_pad2 (Minute t) @ '':'' @ show_pad2 (Second t)"

definition alarm_line :: "(go_time \<Rightarrow> clock) \<Rightarrow> string \<times> go_time list \<Rightarrow> string option" where
  "alarm_line clock_of = (\<lambda>(msg, tss). case tss of
       [] \<Rightarrow> None
     | ts # _ \<Rightarrow>
         if length tss = 1 then Some (msg @ ''['' @ format_hms (clock_of ts) @ '']'')
         else Some (msg @ ''['' @ format_hms (clock_of ts) @ '' - '' @ format_hms (clock_of (last tss)) @ '', ''
                @ show_nat (length tss) @ '']''))"

definition getAlarmMessages :: "(go_time \<Rightarrow> clock) \<Rightarrow> (string, go_time list) gomap \<Rightarrow> string list option" where
  "getAlarmMessages clock_of messages = those (map (alarm_line clock_of) messages)"

definition alarm_body :: "(go_time \<Rightarrow> clock) \<Rightarrow> alarm_manager \<Rightarrow> (string, go_time list) gomap \<Rightarrow> AlarmBody option" where
  "alarm_body clock_of a messages =
     map_option (\<lambda>ms. \<lparr>IP = am_localIP a, body_Cluster = Cluster (am_config a), AlarmMsg = ms\<rparr>)
       (getAlarmMessages clock_of messages)"

definition add_message :: "string \<times> go_time \<Rightarrow> (string, go_time list) gomap \<Rightarrow> (string, go_time list) gomap" where
  "add_message = (\<lambda>(msg, ts) m. AList.update msg ((case map_of m msg of None \<Rightarrow> [] | Some tss \<Rightarrow> tss) @ [ts]) m)"

definition message_count :: "(string, go_time list) gomap \<Rightarrow> nat" where
  "message_count m = sum_list (map (\<lambda>(msg, tss). length tss) m)"

text \<open>The main loop takes a message; \<open>None\<close> is a panic. The result may be a body to send.\<close>

definition on_message ::
  "(go_time \<Rightarrow> clock) \<Rightarrow> bool \<Rightarrow> go_time \<Rightarrow> string \<times> go_time \<Rightarrow> alarm_manager \<Rightarrow> (alarm_manager \<times> AlarmBody option) option" where
  "on_message clock_of silenceMode now msg a =
     (if IgnoreAlarmWhenSilence (am_config a) \<and> silenceMode then Some (a\<lparr>am_running := False\<rparr>, None)
      else let messages = add_message msg (am_messages a) in
           if int (message_count messages) \<ge> MessageBatch (am_config a)
           then do {
             body \<leftarrow> alarm_body clock_of a messages;
             Some (a\<lparr>am_messages := []\<rparr>, Some body)
           }
           else Some (a\<lparr>am_messages := messages, am_delayer := True,
                   am_due := Some (now + MessageDelay (am_config a))\<rparr>, None))"

definition delaySend :: "(go_time \<Rightarrow> clock) \<Rightarrow> alarm_manager \<Rightarrow> (alarm_manager \<times> AlarmBody option) option" where
  "delaySend clock_of a =
     (if am_messages a = [] then Some (a, None)
      else do {
        body \<leftarrow> alarm_body clock_of a (am_messages a);
        Some (a\<lparr>am_messages := []\<rparr>, Some body)
      })"

section \<open>The transition system\<close>

datatype alarm_event =
  Alarmed "(bool \<times> nat option) option" string go_time
| Received bool go_time
| TimerFired

text \<open>
  One step; the events that are not possible leave the state alone. A timer that has fired is
  no longer due until it is reset.
\<close>

fun alarm_step ::
  "(go_time \<Rightarrow> clock) \<Rightarrow> alarm_event \<Rightarrow> alarm_manager \<Rightarrow> (alarm_manager \<times> AlarmBody option) option" where
  "alarm_step clock_of (Alarmed ojg msg now) a = Some (SendAlarm ojg msg now a, None)"
| "alarm_step clock_of (Received silenceMode now) a =
     (if \<not> am_running a then Some (a, None)
      else case am_msgBuffers a of
        [] \<Rightarrow> Some (a, None)
      | m # rest \<Rightarrow> on_message clock_of silenceMode now m (a\<lparr>am_msgBuffers := rest\<rparr>))"
| "alarm_step clock_of TimerFired a =
     (if am_due a = None then Some (a, None) else delaySend clock_of (a\<lparr>am_due := None\<rparr>))"

text \<open>A run from the start: the state, the bodies sent.\<close>

fun alarm_run ::
  "(go_time \<Rightarrow> clock) \<Rightarrow> alarm_event list \<Rightarrow> alarm_manager \<Rightarrow> (alarm_manager \<times> AlarmBody list) option" where
  "alarm_run clock_of [] a = Some (a, [])"
| "alarm_run clock_of (e # es) a = do {
     (a1, b) \<leftarrow> alarm_step clock_of e a;
     (a2, bs) \<leftarrow> alarm_run clock_of es a1;
     Some (a2, (case b of None \<Rightarrow> [] | Some body \<Rightarrow> [body]) @ bs)
   }"


section \<open>Nothing is lost\<close>

definition alarm_pairs :: "(string, go_time list) gomap \<Rightarrow> (string \<times> go_time) list" where
  "alarm_pairs m = concat (map (\<lambda>(msg, tss). map (Pair msg) tss) m)"

lemma alarm_pairs_simps [simp]:
  "alarm_pairs [] = []" "alarm_pairs ((msg, tss) # m) = map (Pair msg) tss @ alarm_pairs m"
  by (simp_all add: alarm_pairs_def)

lemma message_count_pairs: "message_count m = length (alarm_pairs m)"
  by (induction m) (auto simp: message_count_def)

lemma add_message_pairs: "mset (alarm_pairs (add_message p m)) = add_mset p (mset (alarm_pairs m))"
proof -
  obtain k ts where p: "p = (k, ts)" by (cases p)
  have "mset (alarm_pairs (AList.update k ((case map_of m k of None \<Rightarrow> [] | Some tss \<Rightarrow> tss) @ [ts]) m)) =
      add_mset (k, ts) (mset (alarm_pairs m))"
    by (induction m) auto
  then show ?thesis by (simp add: p add_message_def)
qed

abbreviation full_lists :: "(string, go_time list) gomap \<Rightarrow> bool" where
  "full_lists m \<equiv> \<forall>e \<in> set m. snd e \<noteq> []"

lemma set_AList_update: "e \<in> set (AList.update k v m) \<Longrightarrow> e = (k, v) \<or> e \<in> set m"
  by (induction m) (auto split: if_splits)

lemma add_message_full: "full_lists m \<Longrightarrow> full_lists (add_message p m)"
  by (cases p) (auto simp: add_message_def dest!: set_AList_update)

lemma alarm_body_total: "full_lists m \<Longrightarrow> \<exists>b. alarm_body clock_of a m = Some b"
proof -
  assume "full_lists m"
  then have "\<forall>e \<in> set m. alarm_line clock_of e \<noteq> None"
    by (auto simp: alarm_line_def split: list.split)
  then have "those (map (alarm_line clock_of) m) \<noteq> None"
    by (induction m) (auto simp: option.case_eq_if)
  then show ?thesis by (auto simp: alarm_body_def getAlarmMessages_def)
qed

lemma alarm_body_cong:
  "am_localIP a = am_localIP a' \<Longrightarrow> am_config a = am_config a' \<Longrightarrow> alarm_body clock_of a = alarm_body clock_of a'"
  by (simp add: alarm_body_def fun_eq_iff)

text \<open>
  The states reached from the start, with the alarms that entered the channel and the bodies
  sent so far.
\<close>

inductive alarm_reach ::
  "(go_time \<Rightarrow> clock) \<Rightarrow> AlarmConfig \<Rightarrow> string \<Rightarrow> alarm_manager \<Rightarrow> (string \<times> go_time) list \<Rightarrow> AlarmBody list \<Rightarrow> bool"
  for clock_of cfg ip where
  start: "alarm_reach clock_of cfg ip (Run (NewAlarmManager cfg ip)) [] []"
| step: "alarm_reach clock_of cfg ip a acc bs \<Longrightarrow> alarm_step clock_of e a = Some (a', b) \<Longrightarrow>
    alarm_reach clock_of cfg ip a' (acc @ drop (length (am_msgBuffers a)) (am_msgBuffers a'))
      (bs @ (case b of None \<Rightarrow> [] | Some body \<Rightarrow> [body]))"

definition alarm_inv ::
  "(go_time \<Rightarrow> clock) \<Rightarrow> AlarmConfig \<Rightarrow> string \<Rightarrow> alarm_manager \<Rightarrow> (string \<times> go_time) list \<Rightarrow> AlarmBody list
    \<Rightarrow> (string, go_time list) gomap list \<Rightarrow> (string \<times> go_time) list \<Rightarrow> bool" where
  "alarm_inv clock_of cfg ip a acc bs batches dropped \<longleftrightarrow>
     am_config a = cfg \<and> am_localIP a = ip \<and>
     map Some bs = map (alarm_body clock_of (NewAlarmManager cfg ip)) batches \<and>
     mset acc = mset (am_msgBuffers a) + mset (alarm_pairs (am_messages a)) + mset (concat (map alarm_pairs batches)) + mset dropped \<and>
     (am_running a \<longleftrightarrow> Enable cfg \<and> dropped = []) \<and> (dropped \<noteq> [] \<longrightarrow> length dropped = 1 \<and> IgnoreAlarmWhenSilence cfg) \<and>
     (\<not> Enable cfg \<longrightarrow> acc = []) \<and> full_lists (am_messages a) \<and>
     (am_messages a \<noteq> [] \<longrightarrow> am_due a \<noteq> None) \<and> length (am_msgBuffers a) \<le> 100"

lemma alarm_inv_body:
  assumes "alarm_inv clock_of cfg ip a acc bs batches dropped" and "full_lists m"
  shows "\<exists>b. alarm_body clock_of a m = Some b \<and> alarm_body clock_of (NewAlarmManager cfg ip) m = Some b"
proof -
  have "alarm_body clock_of a = alarm_body clock_of (NewAlarmManager cfg ip)"
    using assms(1) by (intro alarm_body_cong) (simp_all add: alarm_inv_def NewAlarmManager_def)
  with alarm_body_total [OF assms(2)] show ?thesis by metis
qed


lemma alarm_inv_start: "alarm_inv clock_of cfg ip (Run (NewAlarmManager cfg ip)) [] [] [] []"
  by (simp add: alarm_inv_def Run_def NewAlarmManager_def)

lemma alarm_inv_send:
  assumes "alarm_inv clock_of cfg ip a acc bs batches dropped"
  shows "alarm_inv clock_of cfg ip (SendAlarm ojg msg now a)
    (acc @ drop (length (am_msgBuffers a)) (am_msgBuffers (SendAlarm ojg msg now a))) bs batches dropped"
  using assms by (auto simp: alarm_inv_def SendAlarm_def)

lemma alarm_inv_receive:
  assumes inv: "alarm_inv clock_of cfg ip a acc bs batches dropped" and run: "am_running a" and buf: "am_msgBuffers a = m # rest"
  shows "\<exists>a' b batches' dropped'. on_message clock_of silenceMode now m (a\<lparr>am_msgBuffers := rest\<rparr>) = Some (a', b) \<and>
     am_msgBuffers a' = rest \<and>
     alarm_inv clock_of cfg ip a' acc (bs @ (case b of None \<Rightarrow> [] | Some body \<Rightarrow> [body])) batches' dropped'"
proof -
  let ?a = "a\<lparr>am_msgBuffers := rest\<rparr>" and ?ms = "add_message m (am_messages a)"
  have full: "full_lists ?ms" using inv by (intro add_message_full) (simp add: alarm_inv_def)
  consider (silent) "IgnoreAlarmWhenSilence (am_config a) \<and> silenceMode"
    | (batch) "\<not> (IgnoreAlarmWhenSilence (am_config a) \<and> silenceMode)" "MessageBatch (am_config a) \<le> int (message_count ?ms)"
    | (wait) "\<not> (IgnoreAlarmWhenSilence (am_config a) \<and> silenceMode)" "\<not> MessageBatch (am_config a) \<le> int (message_count ?ms)"
    by blast
  then show ?thesis
  proof cases
    case silent
    have "alarm_inv clock_of cfg ip (?a\<lparr>am_running := False\<rparr>) acc bs batches [m]"
      using inv run buf silent by (auto simp: alarm_inv_def)
    with silent show ?thesis by (auto simp: on_message_def)
  next
    case batch
    obtain b where b: "alarm_body clock_of a ?ms = Some b" "alarm_body clock_of (NewAlarmManager cfg ip) ?ms = Some b"
      using alarm_inv_body [OF inv full] by blast
    have "alarm_body clock_of ?a ?ms = Some b" using b(1) alarm_body_cong [of ?a a] by simp
    moreover have "alarm_inv clock_of cfg ip (?a\<lparr>am_messages := []\<rparr>) acc (bs @ [b]) (batches @ [?ms]) dropped"
      using inv run buf b(2) by (auto simp: alarm_inv_def add_message_pairs)
    ultimately show ?thesis using batch by (auto simp: on_message_def Let_def)
  next
    case wait
    have "alarm_inv clock_of cfg ip
        (?a\<lparr>am_messages := ?ms, am_delayer := True, am_due := Some (now + MessageDelay (am_config a))\<rparr>) acc bs batches dropped"
      using inv run buf full by (auto simp: alarm_inv_def add_message_pairs)
    with wait show ?thesis by (auto simp: on_message_def Let_def)
  qed
qed

lemma alarm_inv_timer:
  assumes inv: "alarm_inv clock_of cfg ip a acc bs batches dropped"
  shows "\<exists>a' b batches'. delaySend clock_of (a\<lparr>am_due := None\<rparr>) = Some (a', b) \<and> am_msgBuffers a' = am_msgBuffers a \<and>
     am_messages a' = [] \<and>
     alarm_inv clock_of cfg ip a' acc (bs @ (case b of None \<Rightarrow> [] | Some body \<Rightarrow> [body])) batches' dropped"
proof (cases "am_messages a = []")
  case True
  with inv show ?thesis by (auto simp: delaySend_def alarm_inv_def)
next
  case False
  have "full_lists (am_messages a)" using inv by (simp add: alarm_inv_def)
  from alarm_inv_body [OF inv this] obtain b where b: "alarm_body clock_of a (am_messages a) = Some b"
    "alarm_body clock_of (NewAlarmManager cfg ip) (am_messages a) = Some b" by blast
  have "alarm_body clock_of (a\<lparr>am_due := None\<rparr>) (am_messages a) = Some b"
    using b(1) alarm_body_cong [of "a\<lparr>am_due := None\<rparr>" a] by simp
  moreover have "alarm_inv clock_of cfg ip (a\<lparr>am_due := None, am_messages := []\<rparr>) acc (bs @ [b]) (batches @ [am_messages a]) dropped"
    using inv b(2) by (auto simp: alarm_inv_def)
  ultimately show ?thesis using False by (auto simp: delaySend_def)
qed

lemma alarm_inv_step:
  assumes "alarm_inv clock_of cfg ip a acc bs batches dropped"
  shows "\<exists>a' b batches' dropped'. alarm_step clock_of e a = Some (a', b) \<and>
     alarm_inv clock_of cfg ip a' (acc @ drop (length (am_msgBuffers a)) (am_msgBuffers a'))
       (bs @ (case b of None \<Rightarrow> [] | Some body \<Rightarrow> [body])) batches' dropped'"
proof (cases e)
  case (Alarmed ojg msg now)
  then show ?thesis using alarm_inv_send [OF assms, of ojg msg now] by fastforce
next
  case (Received silenceMode now)
  show ?thesis
  proof (cases "am_running a \<and> am_msgBuffers a \<noteq> []")
    case True
    then obtain m rest where r: "am_running a" "am_msgBuffers a = m # rest" by (auto simp: neq_Nil_conv)
    from alarm_inv_receive [OF assms r, of silenceMode now] r Received show ?thesis by fastforce
  next
    case False
    with assms Received show ?thesis by (auto split: list.splits)
  qed
next
  case TimerFired
  then show ?thesis using assms alarm_inv_timer [OF assms] by (cases "am_due a = None") (simp, blast, fastforce)
qed

lemma alarm_reach_inv:
  "alarm_reach clock_of cfg ip a acc bs \<Longrightarrow> \<exists>batches dropped. alarm_inv clock_of cfg ip a acc bs batches dropped"
proof (induction rule: alarm_reach.induct)
  case start
  then show ?case using alarm_inv_start by blast
next
  case (step a acc bs e a' b)
  then obtain batches dropped where "alarm_inv clock_of cfg ip a acc bs batches dropped" by blast
  from alarm_inv_step [OF this, of e] step.hyps(2) show ?case by auto
qed


text \<open>What a step does to the main loop: only silence ends it, and once it has ended the channel only grows.\<close>

lemma on_message_running:
  "on_message clock_of silenceMode now m a = Some (a', b) \<Longrightarrow> am_running a \<Longrightarrow>
   \<not> am_running a' \<longleftrightarrow> IgnoreAlarmWhenSilence (am_config a) \<and> silenceMode"
  by (auto simp: on_message_def Let_def split: if_splits bind_splits)

lemma step_stopped:
  "alarm_step clock_of e a = Some (a', b) \<Longrightarrow> \<not> am_running a \<Longrightarrow>
   \<not> am_running a' \<and> (\<exists>more. am_msgBuffers a' = am_msgBuffers a @ more)"
  by (cases e) (auto simp: SendAlarm_def delaySend_def option_bind_eq_Some split: if_splits)

lemma step_running:
  "alarm_step clock_of e a = Some (a', b) \<Longrightarrow> am_running a \<Longrightarrow> \<not> am_running a' \<Longrightarrow>
   IgnoreAlarmWhenSilence (am_config a) \<and> (\<exists>now. e = Received True now)"
  by (cases e) (auto simp: SendAlarm_def delaySend_def option_bind_eq_Some dest!: on_message_running split: if_splits list.splits)


definition noon_clock :: "go_time \<Rightarrow> clock" where
  "noon_clock t = \<lparr>Hour = 12, Minute = 0, Second = nat t\<rparr>"

definition alarm_sample :: AlarmConfig where
  "alarm_sample = \<lparr>Enable = True, Cluster = ''c'', MessageBatch = 2, MessageDelay = 60, IgnoreAlarmWhenSilence = True\<rparr>"

definition alarm_sample_state :: alarm_manager where
  "alarm_sample_state = (Run (NewAlarmManager alarm_sample ''ip''))\<lparr>am_msgBuffers := [(''hot'', 5)]\<rparr>"

lemma alarm_sample_step:
  "alarm_step noon_clock (Alarmed None ''hot'' 5) (Run (NewAlarmManager alarm_sample ''ip'')) = Some (alarm_sample_state, None)"
  by (simp add: alarm_sample_state_def SendAlarm_def Run_def NewAlarmManager_def alarm_sample_def)

lemma alarm_sample_reach: "alarm_reach noon_clock alarm_sample ''ip'' alarm_sample_state [(''hot'', 5)] []"
  using alarm_reach.step [OF alarm_reach.start alarm_sample_step]
  by (simp add: alarm_sample_state_def Run_def NewAlarmManager_def alarm_sample_def)


text \<open>
  Silence ends the alarms for good: when alarms are ignored in silence mode, the first message
  received then ends the main loop, and whatever happens later the loop does not run again and
  the channel only grows, so that nothing queued afterwards is ever collected.
\<close>

lemma silence_ends_alarms:
  assumes "IgnoreAlarmWhenSilence (am_config a)" and "am_running a" and "am_msgBuffers a = m # rest"
  shows "\<exists>a'. alarm_step clock_of (Received True now) a = Some (a', None) \<and> \<not> am_running a' \<and>
    (alarm_run clock_of es a' = Some (a2, bodies) \<longrightarrow> \<not> am_running a2 \<and> (\<exists>more. am_msgBuffers a2 = rest @ more))"
proof -
  define a' where "a' = a\<lparr>am_msgBuffers := rest, am_running := False\<rparr>"
  have s: "alarm_step clock_of (Received True now) a = Some (a', None)"
    using assms by (simp add: on_message_def a'_def)
  have "\<not> am_running a2 \<and> (\<exists>more. am_msgBuffers a2 = am_msgBuffers x @ more)"
    if "alarm_run clock_of es x = Some (a2, bodies)" "\<not> am_running x" for x
    using that
  proof (induction es arbitrary: x bodies)
    case (Cons e es)
    then obtain y b bs where y: "alarm_step clock_of e x = Some (y, b)" "alarm_run clock_of es y = Some (a2, bs)"
      by (auto simp: option_bind_eq_Some)
    from step_stopped [OF y(1) Cons.prems(2)] Cons.IH [OF y(2)] show ?case by auto
  qed simp
  from this [of a'] have "alarm_run clock_of es a' = Some (a2, bodies) \<longrightarrow> \<not> am_running a2 \<and> (\<exists>more. am_msgBuffers a2 = rest @ more)"
    by (simp add: a'_def)
  with s show ?thesis by (intro exI [of _ a']) (simp add: a'_def)
qed

theorem silence_ends_alarms_witness:
  "\<exists>a'. alarm_step noon_clock (Received True 6) alarm_sample_state = Some (a', None) \<and> \<not> am_running a'"
  using silence_ends_alarms [of alarm_sample_state "(''hot'', 5)" "[]" noon_clock 6 "[]" alarm_sample_state "[]"]
  by (auto simp del: alarm_step.simps simp: alarm_sample_state_def Run_def NewAlarmManager_def alarm_sample_def)

end
