(* ===== verification/NodeCollect.thy ===== *)
theory NodeCollect
  imports NodeState QosCpu
begin

text \<open>
  \<^verbatim>\<open>statestore/common/node/node.go\<close>: sampling the node. Usage and rates are differences of counters
  between two samples, so the last sample of each kind is kept. What the libraries read from the
  kernel is an input, \<open>None\<close> on an error. A division by an elapsed time of zero gives an infinity or
  no number in Go; such a result is \<open>None\<close>.
\<close>

section \<open>Samples\<close>

record cpu_times =
  ct_User :: float64
  ct_System :: float64
  ct_Idle :: float64
  ct_Nice :: float64
  ct_Iowait :: float64
  ct_Irq :: float64
  ct_Softirq :: float64
  ct_Steal :: float64

record cpu_sample =
  sc_offlineUsage :: nat
  sc_state :: "cpu_times list"
  sc_timestamp :: go_time

record disk_counters =
  dc_ReadBytes :: nat
  dc_WriteBytes :: nat
  dc_ReadCount :: nat
  dc_WriteCount :: nat
  dc_IoTime :: nat

record disk_sample =
  sd_state :: "(string, disk_counters) gomap"
  sd_timestamp :: go_time

record net_counters =
  nc_Name :: string
  nc_BytesRecv :: nat
  nc_BytesSent :: nat
  nc_PacketsRecv :: nat
  nc_PacketsSent :: nat
  nc_Dropin :: nat
  nc_Dropout :: nat
  nc_Fifoin :: nat
  nc_Fifoout :: nat
  nc_Errin :: nat
  nc_Errout :: nat

record net_sample =
  sn_rawState :: "(string, net_counters) gomap"
  sn_timestamp :: go_time

text \<open>The difference of two uint64 counters wraps.\<close>

definition counter_diff :: "nat \<Rightarrow> nat \<Rightarrow> nat" where
  "counter_diff b a = nat ((int b - int a) mod 2 ^ 64)"

definition unix_seconds :: "go_time \<Rightarrow> int" where
  "unix_seconds t = t div second"

section \<open>Usage and rates\<close>

definition getAllAndBusy :: "cpu_times \<Rightarrow> float64 \<times> float64" where
  "getAllAndBusy t =
     (let busy = fl (fl (fl (fl (fl (ct_User t + ct_System t) + ct_Nice t) + ct_Iowait t) + ct_Irq t) + ct_Softirq t)
      in (fl (busy + ct_Idle t), busy))"

text \<open>Cores used between the samples, rounded to two digits.\<close>

definition nano_cores :: "float64 \<Rightarrow> float64 \<Rightarrow> int \<Rightarrow> float64" where
  "nano_cores b a nanoSeconds =
     (let u = fl (fl (fl (b - a) * 1000000000) / fl (of_int nanoSeconds))
      in fl (fl (of_int (go_trunc (fl (fl (100 * u) + 1/2)))) / 100))"

record cpu_usage =
  cu_total :: float64
  cu_perCore :: "float64 list"
  cu_totalSteal :: float64
  cu_perCoreSteal :: "float64 list"

definition add_core :: "int \<Rightarrow> cpu_times \<times> cpu_times \<Rightarrow> cpu_usage \<Rightarrow> cpu_usage" where
  "add_core nanoSeconds = (\<lambda>(t1, t2) u.
     (let t1Busy = snd (getAllAndBusy t1); t2Busy = snd (getAllAndBusy t2) in
      if t2Busy \<le> t1Busy then u
      else let usage = nano_cores t2Busy t1Busy nanoSeconds; steal = nano_cores (ct_Steal t2) (ct_Steal t1) nanoSeconds in
           \<lparr>cu_total = fl (cu_total u + usage), cu_perCore = cu_perCore u @ [usage],
            cu_totalSteal = fl (cu_totalSteal u + steal), cu_perCoreSteal = cu_perCoreSteal u @ [steal]\<rparr>))"

definition calculateCpuUsage :: "cpu_sample \<Rightarrow> cpu_sample \<Rightarrow> (cpu_usage \<times> float64) option" where
  "calculateCpuUsage t1 t2 =
     (let none = \<lparr>cu_total = 0, cu_perCore = [], cu_totalSteal = 0, cu_perCoreSteal = []\<rparr> in
      if length (sc_state t1) \<noteq> length (sc_state t2) then Some (none, 0)
      else let nanoSeconds = sc_timestamp t2 - sc_timestamp t1 in
           if nanoSeconds = 0 then None
           else Some (fold (add_core nanoSeconds) (zip (sc_state t1) (sc_state t2)) none,
                      fl (fl (real (counter_diff (sc_offlineUsage t2) (sc_offlineUsage t1))) / fl (of_int nanoSeconds))))"

definition zero_counters :: disk_counters where
  "zero_counters = \<lparr>dc_ReadBytes = 0, dc_WriteBytes = 0, dc_ReadCount = 0, dc_WriteCount = 0, dc_IoTime = 0\<rparr>"

definition rate :: "nat \<Rightarrow> nat \<Rightarrow> float64 \<Rightarrow> float64" where
  "rate b a duration = fl (fl (real (counter_diff b a)) / duration)"

definition disk_rates :: "float64 \<Rightarrow> disk_counters \<Rightarrow> disk_counters \<Rightarrow> DiskIOState" where
  "disk_rates duration c1 c2 =
     \<lparr>DiskReadKiBps = fl (fl (fl (real (counter_diff (dc_ReadBytes c2) (dc_ReadBytes c1))) / 1024) / duration),
      DiskWriteKiBps = fl (fl (fl (real (counter_diff (dc_WriteBytes c2) (dc_WriteBytes c1))) / 1024) / duration),
      DiskReadIOps = rate (dc_ReadCount c2) (dc_ReadCount c1) duration,
      DiskWriteIOps = rate (dc_WriteCount c2) (dc_WriteCount c1) duration,
      disk_Util = fl (fl (fl (fl (real (counter_diff (dc_IoTime c2) (dc_IoTime c1))) / 1000) / duration) * 100)\<rparr>"

text \<open>A disk that has no counters any more reads as zero in the new sample.\<close>

definition calculateDiskIO :: "disk_sample \<Rightarrow> disk_sample \<Rightarrow> (string, DiskIOState) gomap option" where
  "calculateDiskIO t1 t2 =
     (let duration = fl (of_int (unix_seconds (sd_timestamp t2) - unix_seconds (sd_timestamp t1))) in
      if duration = 0 then None
      else Some (map (\<lambda>(disk, c1). (disk, disk_rates duration c1
                   (case map_of (sd_state t2) disk of None \<Rightarrow> zero_counters | Some c2 \<Rightarrow> c2))) (sd_state t1)))"

definition iface_rates :: "int \<Rightarrow> float64 \<Rightarrow> string \<Rightarrow> net_counters \<Rightarrow> net_counters \<Rightarrow> IfaceStat" where
  "iface_rates speed duration iface s1 s2 =
     \<lparr>Iface = iface, Speed = speed,
      NetRecvkbps = fl (fl (fl (fl (real (counter_diff (nc_BytesRecv s2) (nc_BytesRecv s1))) * 8) / 1000) / duration),
      NetSentkbps = fl (fl (fl (fl (real (counter_diff (nc_BytesSent s2) (nc_BytesSent s1))) * 8) / 1000) / duration),
      NetRecvPckps = rate (nc_PacketsRecv s2) (nc_PacketsRecv s1) duration,
      NetSentPckps = rate (nc_PacketsSent s2) (nc_PacketsSent s1) duration,
      NetDropIn = rate (nc_Dropin s2) (nc_Dropin s1) duration, NetDropOut = rate (nc_Dropout s2) (nc_Dropout s1) duration,
      NetFifoIn = rate (nc_Fifoin s2) (nc_Fifoin s1) duration, NetFifoOut = rate (nc_Fifoout s2) (nc_Fifoout s1) duration,
      NetErrin = rate (nc_Errin s2) (nc_Errin s1) duration, NetErrout = rate (nc_Errout s2) (nc_Errout s1) duration\<rparr>"

definition calculateNetIO :: "(string \<Rightarrow> int) \<Rightarrow> net_sample \<Rightarrow> net_sample \<Rightarrow> (string, IfaceStat) gomap option" where
  "calculateNetIO speed t1 t2 =
     (let duration = fl (of_int (unix_seconds (sn_timestamp t2) - unix_seconds (sn_timestamp t1))) in
      if duration = 0 then None
      else Some (List.map_filter (\<lambda>(iface, s2). case map_of (sn_rawState t1) iface of
                   None \<Rightarrow> None | Some s1 \<Rightarrow> Some (iface, iface_rates (speed iface) duration iface s1 s2)) (sn_rawState t2)))"

section \<open>Collectors\<close>

text \<open>The variables of the package: the last samples, the number of cpus, and the path of the offline container.\<close>

record node_globals =
  ng_lastCPU :: "cpu_sample option"
  ng_lastDisk :: "disk_sample option"
  ng_lastNet :: "net_sample option"
  ng_cpuNum :: float64
  ng_offlinePodUid :: string
  ng_offlineConPath :: string
  ng_netlink :: bool

text \<open>A collector returns the globals and its part of the state, or nothing; the outer \<open>None\<close> is a result that is not finite.\<close>

definition collectCPU ::
  "cpu_times list option \<Rightarrow> nat option \<Rightarrow> go_time \<Rightarrow> node_globals \<Rightarrow> (node_globals \<times> NodeCpu option) option" where
  "collectCPU usages offline now g =
     (case usages of
        None \<Rightarrow> Some (g, None)
      | Some us \<Rightarrow>
          if us = [] then Some (g, None)
          else case offline of
            None \<Rightarrow> Some (g, None)
          | Some offlineUsage \<Rightarrow>
              let nowCpuState = \<lparr>sc_offlineUsage = offlineUsage, sc_state = us, sc_timestamp = now\<rparr> in
              case ng_lastCPU g of
                None \<Rightarrow> Some (g\<lparr>ng_lastCPU := Some nowCpuState\<rparr>, None)
              | Some lastCpu \<Rightarrow>
                  map_option (\<lambda>(u, totalOffline).
                    let g = g\<lparr>ng_lastCPU := Some nowCpuState, ng_cpuNum := (if ng_cpuNum g = 0 then fl (real (length us)) else ng_cpuNum g)\<rparr>
                    in (g, Some \<lparr>CpuTotal = cu_total u, CpuPerCore = cu_perCore u, CpuAvg = fl (cu_total u / ng_cpuNum g),
                           CpuStealTotal = cu_totalSteal u, CpuStealPerCore = cu_perCoreSteal u, CpuOfflineTotal = totalOffline\<rparr>))
                    (calculateCpuUsage lastCpu nowCpuState))"

definition collectLoad :: "(float64 \<times> float64 \<times> float64) option \<Rightarrow> NodeLoad option" where
  "collectLoad avg = map_option (\<lambda>(l1, l5, l15). \<lparr>Load1Min = l1, Load5Min = l5, Load15Min = l15\<rparr>) avg"

text \<open>The values of \<^verbatim>\<open>/proc/meminfo\<close> are uint64; a missing entry reads as zero.\<close>

definition mem_of :: "(string, nat) gomap \<Rightarrow> string \<Rightarrow> int" where
  "mem_of m k = (case map_of m k of None \<Rightarrow> 0 | Some v \<Rightarrow> int v)"

definition mem_float :: "int \<Rightarrow> float64" where
  "mem_float x = fl (of_int (x mod 2 ^ 64))"

definition collectMemory :: "(string, nat) gomap option \<Rightarrow> int option \<Rightarrow> NodeMemory option" where
  "collectMemory meminfo offline =
     (case (meminfo, offline) of
        (Some m, Some offlineMem) \<Rightarrow>
          Some \<lparr>nm_Total = mem_float (mem_of m ''MemTotal''),
            nm_UsageTotal = mem_float (mem_of m ''MemTotal'' - mem_of m ''MemFree''),
            nm_UsageCache = mem_float (mem_of m ''Buffers'' + mem_of m ''Cached'' - mem_of m ''Shmem''),
            nm_UsageRss = mem_float (mem_of m ''MemTotal'' - mem_of m ''MemFree'' - mem_of m ''Buffers'' - mem_of m ''Cached'' + mem_of m ''Shmem''),
            nm_Available = mem_float (mem_of m ''MemFree'' + mem_of m ''Buffers'' + mem_of m ''Cached'' - mem_of m ''Shmem''),
            nm_OfflineTotal = fl (of_int offlineMem)\<rparr>
      | _ \<Rightarrow> None)"

definition collectDiskIO ::
  "string list \<Rightarrow> (string, disk_counters) gomap option \<Rightarrow> go_time \<Rightarrow> node_globals \<Rightarrow> (node_globals \<times> NodeDiskIO option) option" where
  "collectDiskIO diskNames ios now g =
     (if diskNames = [] then Some (g, None)
      else case ios of
        None \<Rightarrow> Some (g, None)
      | Some st \<Rightarrow>
          let nowDisk = \<lparr>sd_state = st, sd_timestamp = now\<rparr> in
          case ng_lastDisk g of
            None \<Rightarrow> Some (g\<lparr>ng_lastDisk := Some nowDisk\<rparr>, None)
          | Some lastDisk \<Rightarrow>
              map_option (\<lambda>io. (g\<lparr>ng_lastDisk := Some nowDisk\<rparr>, Some \<lparr>IOState = io\<rparr>)) (calculateDiskIO lastDisk nowDisk))"

definition collectNetIO ::
  "(string \<Rightarrow> int) \<Rightarrow> string list \<Rightarrow> net_counters list option \<Rightarrow> go_time \<Rightarrow> node_globals \<Rightarrow> (node_globals \<times> NodeNetwork option) option" where
  "collectNetIO speed ifaces nets now g =
     (if ifaces = [] then Some (g, None)
      else case nets of
        None \<Rightarrow> Some (g, None)
      | Some ns \<Rightarrow>
          let netIOStat = fold (\<lambda>n m. if nc_Name n \<in> set ifaces then AList.update (nc_Name n) n m else m) ns [] in
          if netIOStat = [] then Some (g, None)
          else let nowNet = \<lparr>sn_rawState = netIOStat, sn_timestamp = now\<rparr> in
               case ng_lastNet g of
                 None \<Rightarrow> Some (g\<lparr>ng_lastNet := Some nowNet\<rparr>, None)
               | Some lastNet \<Rightarrow>
                   map_option (\<lambda>st. (g\<lparr>ng_lastNet := Some nowNet\<rparr>, Some \<lparr>IfaceStats = st\<rparr>)) (calculateNetIO speed lastNet nowNet))"

text \<open>The container of the yarn nodemanager is looked up once and kept.\<close>

fun getOfflinePodCgroupPath :: "'q pod list \<Rightarrow> node_globals \<Rightarrow> node_globals \<times> bool" where
  "getOfflinePodCgroupPath [] g = (g, False)"
| "getOfflinePodCgroupPath (pod # pods) g =
     (if IsOffline pod
      then if p_UID pod = ng_offlinePodUid g \<and> ng_offlineConPath g \<noteq> [] then (g, True)
           else case PodCgroupDirs pod of
             [p] \<Rightarrow> (g\<lparr>ng_offlinePodUid := p_UID pod, ng_offlineConPath := p\<rparr>, True)
           | _ \<Rightarrow> (g, False)
      else getOfflinePodCgroupPath pods g)"

definition getOfflineDevicesCgroupPath ::
  "cpu_env \<Rightarrow> string \<Rightarrow> 'q pod list \<Rightarrow> node_globals \<Rightarrow> cgfs \<Rightarrow> node_globals \<times> cgfs \<times> string option" where
  "getOfflineDevicesCgroupPath E offlineType pods g fs =
     (if offlineType = ''k8s'' then
        (case EnsureCgroupPath E CgroupOffline fs of
           (fs, Inl _) \<Rightarrow> (g, fs, None)
         | (fs, Inr _) \<Rightarrow> (g, fs, Some (path_Join [fs_root fs, ''devices'', CgroupOffline])))
      else if offlineType = ''yarn_on_k8s'' then
        (let (g, ok) = getOfflinePodCgroupPath pods g
         in (g, fs, if ok then Some (path_Join [fs_root fs, ''devices'', ng_offlineConPath g]) else None))
      else (g, fs, None))"

text \<open>
  The load reader of the library: whether it can be opened, and its answer for a path, where the
  error \<open>Inl True\<close> says that there is no such file.
\<close>

definition collectProcess ::
  "cpu_env \<Rightarrow> bool \<Rightarrow> (string \<Rightarrow> bool + nat) \<Rightarrow> string \<Rightarrow> 'q pod list \<Rightarrow> node_globals \<Rightarrow> cgfs
    \<Rightarrow> node_globals \<times> cgfs \<times> NodeProcess option" where
  "collectProcess E netlinkOk GetCpuLoad offlineType pods g fs =
     (case getOfflineDevicesCgroupPath E offlineType pods g fs of
        (g, fs, None) \<Rightarrow> (g, fs, None)
      | (g, fs, Some path) \<Rightarrow>
          if \<not> ng_netlink g \<and> \<not> netlinkOk then (g, fs, None)
          else let g = g\<lparr>ng_netlink := True\<rparr> in
               case GetCpuLoad path of
                 Inl noFile \<Rightarrow>
                   (if noFile then g\<lparr>ng_offlinePodUid := [], ng_offlineConPath := []\<rparr> else g, fs, None)
               | Inr nr \<Rightarrow> (g, fs, Some \<lparr>NrUninterruptible = nr\<rparr>))"

section \<open>The store\<close>

text \<open>The library's store of timed data: creating, adding, the newest element, the elements of a period.\<close>

record ('s, 'd) ts_ops =
  ts_New :: "go_duration \<Rightarrow> 's"
  ts_Add :: "go_time \<Rightarrow> 'd \<Rightarrow> 's \<Rightarrow> 's"
  ts_Get0 :: "'s \<Rightarrow> 'd option"
  ts_InTimeRange :: "go_time \<Rightarrow> go_time \<Rightarrow> int \<Rightarrow> 's \<Rightarrow> 'd list"

definition cache_add :: "('s, 'd) ts_ops \<Rightarrow> go_duration \<Rightarrow> string \<Rightarrow> go_time \<Rightarrow> 'd \<Rightarrow> (string, 's) gomap \<Rightarrow> (string, 's) gomap" where
  "cache_add T age key now data caches =
     AList.update key (ts_Add T now data (case map_of caches key of None \<Rightarrow> ts_New T age | Some s \<Rightarrow> s)) caches"

record 's nodeStoreManager =
  ns_cacheAge :: go_duration
  ns_DiskNames :: "string list"
  ns_Ifaces :: "string list"
  ns_OfflineType :: string
  ns_caches :: "(string, 's) gomap"

definition NewNodeStoreManager :: "go_duration \<Rightarrow> string list \<Rightarrow> string list \<Rightarrow> string \<Rightarrow> 's nodeStoreManager" where
  "NewNodeStoreManager cacheAge disks ifaces offlineType =
     \<lparr>ns_cacheAge = cacheAge, ns_DiskNames = disks, ns_Ifaces = ifaces, ns_OfflineType = offlineType, ns_caches = []\<rparr>"

definition addResourceStats :: "('s, 'd) ts_ops \<Rightarrow> string \<Rightarrow> go_time \<Rightarrow> 'd \<Rightarrow> 's nodeStoreManager \<Rightarrow> 's nodeStoreManager" where
  "addResourceStats T name now data ns = ns\<lparr>ns_caches := cache_add T (ns_cacheAge ns) name now data (ns_caches ns)\<rparr>"

definition GetNodeResourceRangeStats ::
  "('s, NodeResourceState) ts_ops \<Rightarrow> go_time \<Rightarrow> go_time \<Rightarrow> int \<Rightarrow> 's nodeStoreManager \<Rightarrow> NodeResourceState list option" where
  "GetNodeResourceRangeStats T start end' cnt ns = map_option (ts_InTimeRange T start end' cnt) (map_of (ns_caches ns) ''Node'')"

text \<open>\<open>Some None\<close>: the library panics on an empty store.\<close>

definition GetNodeResourceRecentState ::
  "('s, NodeResourceState) ts_ops \<Rightarrow> 's nodeStoreManager \<Rightarrow> NodeResourceState option option" where
  "GetNodeResourceRecentState T ns = map_option (ts_Get0 T) (map_of (ns_caches ns) ''Node'')"

text \<open>What is read from the kernel in one period.\<close>

record kernel_input =
  ki_usages :: "cpu_times list option"
  ki_offlineCpu :: "nat option"
  ki_cpuTime :: go_time
  ki_load :: "(float64 \<times> float64 \<times> float64) option"
  ki_meminfo :: "(string, nat) gomap option"
  ki_offlineMem :: "int option"
  ki_disks :: "(string, disk_counters) gomap option"
  ki_diskTime :: go_time
  ki_nets :: "net_counters list option"
  ki_netTime :: go_time
  ki_netlinkOk :: bool
  ki_GetCpuLoad :: "string \<Rightarrow> bool + nat"

definition collectNodeResource ::
  "('s, NodeResourceState) ts_ops \<Rightarrow> cpu_env \<Rightarrow> (string \<Rightarrow> int) \<Rightarrow> kernel_input \<Rightarrow> 'q pod list \<Rightarrow> go_time
    \<Rightarrow> 's nodeStoreManager \<Rightarrow> node_globals \<Rightarrow> cgfs \<Rightarrow> ('s nodeStoreManager \<times> node_globals \<times> cgfs) option" where
  "collectNodeResource T E speed k pods now ns g fs = do {
     (g, cpu) \<leftarrow> collectCPU (ki_usages k) (ki_offlineCpu k) (ki_cpuTime k) g;
     let load = collectLoad (ki_load k);
     let mem = collectMemory (ki_meminfo k) (ki_offlineMem k);
     let (g, fs, process) = collectProcess E (ki_netlinkOk k) (ki_GetCpuLoad k) (ns_OfflineType ns) pods g fs;
     (g, disk) \<leftarrow> collectDiskIO (ns_DiskNames ns) (ki_disks k) (ki_diskTime k) g;
     (g, net) \<leftarrow> collectNetIO speed (ns_Ifaces ns) (ki_nets k) (ki_netTime k) g;
     let nodeSt = \<lparr>nrs_Timestamp = now, nrs_CPU = cpu, nrs_Load = load, nrs_Memory = mem, nrs_DiskIO = disk, nrs_NetIO = net,
                   nrs_Process = process\<rparr>;
     Some (if cpu \<noteq> None then addResourceStats T ''Node'' now nodeSt ns else ns, g, fs)
   }"

section \<open>Properties\<close>

text \<open>
  The list of cores skips the idle ones, so its positions are not the numbers of the cores: with
  the first of two cores idle, position 0 holds the usage of the second core.
\<close>

definition idle_times :: cpu_times where
  "idle_times = \<lparr>ct_User = 1, ct_System = 0, ct_Idle = 0, ct_Nice = 0, ct_Iowait = 0, ct_Irq = 0, ct_Softirq = 0, ct_Steal = 0\<rparr>"

lemma per_core_skips_idle:
  assumes "snd (getAllAndBusy b1) \<le> snd (getAllAndBusy a1)" and "snd (getAllAndBusy a2) < snd (getAllAndBusy b2)"
    and "0 < t2 - t1"
  shows "\<exists>u off. calculateCpuUsage \<lparr>sc_offlineUsage = o1, sc_state = [a1, a2], sc_timestamp = t1\<rparr>
      \<lparr>sc_offlineUsage = o2, sc_state = [b1, b2], sc_timestamp = t2\<rparr> = Some (u, off) \<and>
    cu_perCore u = [nano_cores (snd (getAllAndBusy b2)) (snd (getAllAndBusy a2)) (t2 - t1)]"
  using assms by (simp add: calculateCpuUsage_def add_core_def Let_def)

text \<open>The usage of the node is the sum of the cores, summed up in order.\<close>

lemma total_is_sum:
  "fold (add_core ns) ps u = u' \<Longrightarrow> cu_total u = foldl (\<lambda>s x. fl (s + x)) 0 (cu_perCore u) \<Longrightarrow>
     cu_total u' = foldl (\<lambda>s x. fl (s + x)) 0 (cu_perCore u')"
  by (induction ps arbitrary: u) (auto simp: add_core_def Let_def)

text \<open>Counters that only grow give rates that are not negative, also across an overflow of the counter.\<close>

lemma counter_diff_wrap: "a < 2 ^ 64 \<Longrightarrow> k < 2 ^ 64 \<Longrightarrow> counter_diff ((a + k) mod 2 ^ 64) a = k"
  by (simp add: counter_diff_def zmod_int mod_diff_left_eq)

lemma rate_nonneg: "0 < duration \<Longrightarrow> 0 \<le> rate b a duration"
  by (simp add: rate_def fl_nonneg)

end
