(* ===== verification/CgroupStore.thy ===== *)
theory CgroupStore
  imports ContainerCheck NodeCollect
begin

text \<open>
  \<^verbatim>\<open>statestore/cgroup\<close>: the resource usage of containers. The cadvisor library reports for a path the
  containers below it with their last samples, an input (\<open>None\<close> on an error); the code turns two
  samples into usage, finds out which pod and class a path belongs to, and sums up the paths of
  one container. A division by an elapsed time of zero is \<open>None\<close>, as is a panic.
\<close>

section \<open>Data\<close>

record con_iface =
  ci_RxPackets :: nat
  ci_TxPackets :: nat
  ci_RxBytes :: nat
  ci_TxBytes :: nat

record con_stats =
  st_Timestamp :: go_time
  st_CpuTotal :: nat
  st_ThrottledPeriods :: nat
  st_Periods :: nat
  st_LoadAverage :: int
  st_MemUsage :: nat
  st_WorkingSet :: nat
  st_Cache :: nat
  st_TCPAbortOnMemory :: nat
  st_ListenOverflows :: nat
  st_Interfaces :: "con_iface list"

record ContainerInfo =
  in_Labels :: "(string, string) gomap"
  in_HasCpu :: bool
  in_HasMemory :: bool
  in_HasNetwork :: bool
  in_Stats :: "con_stats list"

record 's cgroupStoreManager =
  gm_cgroups :: "string list"
  gm_started :: bool
  gm_cacheAge :: go_duration
  gm_caches :: "(string, 's) gomap"

text \<open>The answers of cadvisor: containers below a path, and the number of cores of the machine.\<close>

record cadvisor =
  ca_ContainerInfoV2 :: "string \<Rightarrow> nat \<Rightarrow> bool \<Rightarrow> (string, ContainerInfo) gomap option"
  ca_NumCores :: "int option"

definition CgroupKubePods :: string where "CgroupKubePods = ''/kubepods''"
definition CgroupNonK8sOnline :: string where "CgroupNonK8sOnline = ''/onlinejobs''"
definition CgroupOfflineSystem :: string where "CgroupOfflineSystem = CgroupOffline @ ''/system''"

section \<open>Which pod a path belongs to\<close>

definition label :: "(string, string) gomap \<Rightarrow> string \<Rightarrow> string" where
  "label labels k = (case map_of labels k of None \<Rightarrow> [] | Some v \<Rightarrow> v)"

definition GetContainerName :: "(string, string) gomap \<Rightarrow> string" where
  "GetContainerName labels = label labels ''io.kubernetes.container.name''"

definition GetPodName :: "(string, string) gomap \<Rightarrow> string" where
  "GetPodName labels = label labels ''io.kubernetes.pod.name''"

definition GetPodUID :: "(string, string) gomap \<Rightarrow> string" where
  "GetPodUID labels = label labels ''io.kubernetes.pod.uid''"

definition GetPodNamespace :: "(string, string) gomap \<Rightarrow> string" where
  "GetPodNamespace labels = label labels ''io.kubernetes.pod.namespace''"

text \<open>A pod uid of less than five bytes panics.\<close>

definition generateK8sCgroupId :: "string \<Rightarrow> string \<Rightarrow> string option" where
  "generateK8sCgroupId podUid containerName =
     (if length podUid < 5 then None else Some (take 5 podUid @ ''_'' @ containerName))"

definition getCgroupId :: "CgroupRef \<Rightarrow> (CgroupRef \<times> string) option" where
  "getCgroupId ref =
     (if ref_PodUid ref \<noteq> [] then map_option (\<lambda>id. (ref, id)) (generateK8sCgroupId (ref_PodUid ref) (ref_ContainerName ref))
      else let id = List.last (split_on (CHR ''/'') (ref_Name ref)) in Some (ref\<lparr>ref_ContainerName := id\<rparr>, id))"

datatype path_error = PathTooLong | InfraContainer | PodDir

definition checkCgroupAvailable :: "string \<Rightarrow> CgroupRef \<Rightarrow> path_error option" where
  "checkCgroupAvailable cgPath ref =
     (if cgPath = CgroupOfflineSystem then None
      else let subs = split_on (CHR ''/'') (strings_TrimChar (CHR ''/'') cgPath);
               yarnPath = (strings_HasPrefix cgPath CgroupOffline \<and>
                 (length subs = 5 \<or> (length subs = 6 \<and> subs ! 5 = ''hadoop-yarn'')))
           in if length subs > 4 \<and> \<not> yarnPath then Some PathTooLong
              else if ref_ContainerName ref = ''POD'' then Some InfraContainer
              else if length (ref_ContainerName ref) = 39 \<and> strings_HasPrefix (ref_ContainerName ref) ''pod'' then Some PodDir
              else None)"

definition isNonK8sOnline :: "string list \<Rightarrow> string \<Rightarrow> bool" where
  "isNonK8sOnline cgroups cgPath \<longleftrightarrow>
     cgPath \<noteq> CgroupNonK8sOnline \<and> cgPath \<noteq> CgroupKubePods \<and>
     (strings_HasPrefix cgPath CgroupNonK8sOnline \<or> cgPath \<in> set cgroups)"

definition assignAppClassFlag :: "'q informer \<Rightarrow> string list \<Rightarrow> string \<Rightarrow> CgroupRef \<Rightarrow> CgroupRef" where
  "assignAppClassFlag pods cgroups cgPath ref =
     ref\<lparr>ref_AppClass :=
       (if cgPath = CgroupOfflineSystem then AppClassOffline
        else if ref_PodName ref \<noteq> [] \<and> ref_PodNamespace ref \<noteq> []
        then (case GetByKey pods (ref_PodNamespace ref) (ref_PodName ref) of
                Some pod \<Rightarrow> GetAppClass pod | None \<Rightarrow> AppClassUnknown)
        else if isNonK8sOnline cgroups cgPath then AppClassOnline else AppClassAggregatedCgroup)\<rparr>"

text \<open>The outer \<open>None\<close> is the panic, the inner error a path that is not a container's.\<close>

definition generateRef :: "'q informer \<Rightarrow> string list \<Rightarrow> string \<Rightarrow> ContainerInfo \<Rightarrow> (path_error + CgroupRef \<times> string) option" where
  "generateRef pods cgroups cgPath con =
     map_option (\<lambda>(ref, key). case checkCgroupAvailable cgPath ref of
         Some err \<Rightarrow> Inl err
       | None \<Rightarrow> Inr (assignAppClassFlag pods cgroups cgPath ref, key))
       (getCgroupId \<lparr>ref_Name = cgPath, ref_ContainerName = GetContainerName (in_Labels con), ref_PodName = GetPodName (in_Labels con),
          ref_PodNamespace = GetPodNamespace (in_Labels con), ref_PodUid = GetPodUID (in_Labels con), ref_AppClass = AppClassUnknown\<rparr>)"

section \<open>Usage\<close>

definition duration_seconds :: "go_duration \<Rightarrow> float64" where
  "duration_seconds d = fl (fl (of_int (d sdiv second)) + fl (fl (of_int (d smod second)) / 1000000000))"

definition generateCgroupStatsCpu :: "int \<Rightarrow> con_stats \<Rightarrow> con_stats \<Rightarrow> bool \<Rightarrow> CgroupStats \<Rightarrow> CgroupStats" where
  "generateCgroupStatsCpu machineCores s0 s1 hasCpu cgSt =
     (if \<not> hasCpu then cgSt
      else if st_CpuTotal s1 \<ge> st_CpuTotal s0 then
        let tot = st_CpuTotal s1 - st_CpuTotal s0; interval = st_Timestamp s1 - st_Timestamp s0;
            usage = fl (of_int (go_trunc (fl (fl (fl (fl (real tot) * 100) / fl (of_int interval)) + 1/2))) / 100)
        in if usage < 0 then cgSt\<lparr>CpuUsage := 0\<rparr>
           else if machineCores \<noteq> 0 \<and> usage > fl (of_int machineCores) then cgSt\<lparr>CpuUsage := fl (of_int machineCores)\<rparr>
           else let nrThrottled = counter_diff (st_ThrottledPeriods s1) (st_ThrottledPeriods s0);
                    nrPeriods = counter_diff (st_Periods s1) (st_Periods s0)
                in cgSt\<lparr>CpuUsage := usage,
                     NrCpuThrottled := (if nrPeriods > 0 then fl (fl (real nrThrottled) / fl (real nrPeriods)) else NrCpuThrottled cgSt),
                     LoadAvg := fl (of_int (st_LoadAverage s1) / 1000)\<rparr>
      else cgSt)"

definition generateCgroupStatsMemory :: "con_stats \<Rightarrow> bool \<Rightarrow> CgroupStats \<Rightarrow> CgroupStats" where
  "generateCgroupStatsMemory s1 hasMemory cgSt =
     (if \<not> hasMemory then cgSt
      else cgSt\<lparr>MemoryTotalUsage := fl (real (st_MemUsage s1)), MemoryWorkingSetUsage := fl (real (st_WorkingSet s1)),
             MemoryCacheUsage := fl (real (st_Cache s1))\<rparr>)"

text \<open>Sums over the interfaces on uint64.\<close>

definition iface_sum :: "(con_iface \<Rightarrow> nat) \<Rightarrow> con_stats \<Rightarrow> nat" where
  "iface_sum f s = sum_list (map f (st_Interfaces s)) mod 2 ^ 64"

definition generateCgroupStatsNetwork :: "con_stats \<Rightarrow> con_stats \<Rightarrow> bool \<Rightarrow> CgroupStats \<Rightarrow> CgroupStats" where
  "generateCgroupStatsNetwork s0 s1 hasNetwork cgSt =
     (if \<not> hasNetwork then cgSt
      else let interval = duration_seconds (st_Timestamp s1 - st_Timestamp s0) in
           cgSt\<lparr>TcpOOM := rate (st_TCPAbortOnMemory s1) (st_TCPAbortOnMemory s0) interval,
             ListenOverflows := rate (st_ListenOverflows s1) (st_ListenOverflows s0) interval,
             RxPps := rate (iface_sum ci_RxPackets s1) (iface_sum ci_RxPackets s0) interval,
             TxPps := rate (iface_sum ci_TxPackets s1) (iface_sum ci_TxPackets s0) interval,
             RxBps := rate (iface_sum ci_RxBytes s1) (iface_sum ci_RxBytes s0) interval,
             TxBps := rate (iface_sum ci_TxBytes s1) (iface_sum ci_TxBytes s0) interval\<rparr>)"

definition zero_stats :: "CgroupRef \<Rightarrow> go_time \<Rightarrow> CgroupStats" where
  "zero_stats ref t = \<lparr>cg_Ref = ref, CpuUsage = 0, NrCpuThrottled = 0, LoadAvg = 0, MemoryTotalUsage = 0, MemoryWorkingSetUsage = 0,
     MemoryCacheUsage = 0, TcpOOM = 0, ListenOverflows = 0, RxBps = 0, RxPps = 0, TxBps = 0, TxPps = 0, cg_Timestamp = t\<rparr>"

text \<open>The number of cores is kept in a variable, 0 until it is known.\<close>

definition machine_cores :: "int option \<Rightarrow> int \<Rightarrow> int" where
  "machine_cores numCores machineCores =
     (if machineCores = 0 then (case numCores of None \<Rightarrow> 0 | Some n \<Rightarrow> n) else machineCores)"

definition generateCgroupStats :: "int \<Rightarrow> con_stats \<Rightarrow> con_stats \<Rightarrow> ContainerInfo \<Rightarrow> CgroupRef \<Rightarrow> CgroupStats option" where
  "generateCgroupStats machineCores s0 s1 v ref =
     (if (in_HasCpu v \<or> in_HasNetwork v) \<and> st_Timestamp s1 = st_Timestamp s0 then None
      else Some (generateCgroupStatsNetwork s0 s1 (in_HasNetwork v)
             (generateCgroupStatsMemory s1 (in_HasMemory v)
               (generateCgroupStatsCpu machineCores s0 s1 (in_HasCpu v) (zero_stats ref (st_Timestamp s1))))))"

definition add_stats :: "CgroupStats \<Rightarrow> CgroupStats \<Rightarrow> CgroupStats" where
  "add_stats cgStat cg =
     cgStat\<lparr>CpuUsage := fl (CpuUsage cgStat + CpuUsage cg), NrCpuThrottled := fl (NrCpuThrottled cgStat + NrCpuThrottled cg),
       MemoryTotalUsage := fl (MemoryTotalUsage cgStat + MemoryTotalUsage cg),
       MemoryCacheUsage := fl (MemoryCacheUsage cgStat + MemoryCacheUsage cg),
       MemoryWorkingSetUsage := fl (MemoryWorkingSetUsage cgStat + MemoryWorkingSetUsage cg),
       TcpOOM := fl (TcpOOM cgStat + TcpOOM cg), ListenOverflows := fl (ListenOverflows cgStat + ListenOverflows cg),
       RxBps := fl (RxBps cgStat + RxBps cg), TxBps := fl (TxBps cgStat + TxBps cg),
       RxPps := fl (RxPps cgStat + RxPps cg), TxPps := fl (TxPps cgStat + TxPps cg)\<rparr>"

section \<open>Listing\<close>

text \<open>One container of an answer; \<open>only\<close> is the pod asked for, \<open>classes\<close> the classes wanted, all when empty.\<close>

definition list_container ::
  "'q informer \<Rightarrow> string list \<Rightarrow> int option \<Rightarrow> (string \<times> string) option \<Rightarrow> AppClass list \<Rightarrow> string \<times> ContainerInfo
    \<Rightarrow> (string, CgroupStats) gomap \<times> int \<Rightarrow> ((string, CgroupStats) gomap \<times> int) option" where
  "list_container pods cgroups numCores only classes = (\<lambda>(k, v) (cgs, machineCores).
     (case in_Stats v of
        [s0, s1] \<Rightarrow>
          if \<not> in_HasCpu v \<and> \<not> in_HasMemory v then Some (cgs, machineCores)
          else (case generateRef pods cgroups k v of
             None \<Rightarrow> None
           | Some (Inl _) \<Rightarrow> Some (cgs, machineCores)
           | Some (Inr (ref, key)) \<Rightarrow>
               if (case only of None \<Rightarrow> False | Some (name, ns) \<Rightarrow> name \<noteq> ref_PodName ref \<or> ns \<noteq> ref_PodNamespace ref) \<or>
                  (classes \<noteq> [] \<and> ref_AppClass ref \<notin> set classes)
               then Some (cgs, machineCores)
               else let machineCores = machine_cores numCores machineCores in
                    map_option (\<lambda>cgStat.
                      (AList.update key (case map_of cgs key of None \<Rightarrow> cgStat | Some cg \<Rightarrow> add_stats cgStat cg) cgs, machineCores))
                      (generateCgroupStats machineCores s0 s1 v ref))
      | _ \<Rightarrow> Some (cgs, machineCores)))"

fun list_containers ::
  "'q informer \<Rightarrow> string list \<Rightarrow> int option \<Rightarrow> (string \<times> string) option \<Rightarrow> AppClass list \<Rightarrow> (string, ContainerInfo) gomap
    \<Rightarrow> (string, CgroupStats) gomap \<times> int \<Rightarrow> ((string, CgroupStats) gomap \<times> int) option" where
  "list_containers pods cgroups numCores only classes [] s = Some s"
| "list_containers pods cgroups numCores only classes (x # xs) s =
     Option.bind (list_container pods cgroups numCores only classes x s) (list_containers pods cgroups numCores only classes xs)"

fun listCgroupStats ::
  "cadvisor \<Rightarrow> 'q informer \<Rightarrow> string list \<Rightarrow> bool \<Rightarrow> string list \<Rightarrow> (string \<times> string) option \<Rightarrow> AppClass list
    \<Rightarrow> (string, CgroupStats) gomap \<times> int \<Rightarrow> ((string, CgroupStats) gomap \<times> int) option" where
  "listCgroupStats ca pods cgroups recur [] only classes s = Some s"
| "listCgroupStats ca pods cgroups recur (cg # cgPaths) only classes s =
     (case ca_ContainerInfoV2 ca cg 2 recur of
        None \<Rightarrow> listCgroupStats ca pods cgroups recur cgPaths only classes s
      | Some infoMap \<Rightarrow>
          Option.bind (list_containers pods cgroups (ca_NumCores ca) only classes infoMap s)
            (listCgroupStats ca pods cgroups recur cgPaths only classes))"

text \<open>The inner \<open>None\<close> is the error that no or more than one container is found.\<close>

definition single :: "(string, CgroupStats) gomap \<Rightarrow> CgroupStats option" where
  "single cgs = (case cgs of [(_, cg)] \<Rightarrow> Some cg | _ \<Rightarrow> None)"

definition GetCgroupResourceRecentState ::
  "cadvisor \<Rightarrow> 'q informer \<Rightarrow> string \<Rightarrow> string \<Rightarrow> int \<Rightarrow> 's cgroupStoreManager \<Rightarrow> CgroupStats option option" where
  "GetCgroupResourceRecentState ca pods podName podNamespace machineCores c =
     map_option (\<lambda>(cgs, _). single cgs)
       (listCgroupStats ca pods (gm_cgroups c) True (gm_cgroups c) (Some (podName, podNamespace)) [] ([], machineCores))"

definition GetCgroupResourceRecentStateByPath ::
  "cadvisor \<Rightarrow> 'q informer \<Rightarrow> string \<Rightarrow> int \<Rightarrow> 's cgroupStoreManager \<Rightarrow> CgroupStats option option" where
  "GetCgroupResourceRecentStateByPath ca pods cgPath machineCores c =
     map_option (\<lambda>(cgs, _). single cgs) (listCgroupStats ca pods (gm_cgroups c) False [cgPath] None [] ([], machineCores))"

definition ListCgroupResourceRecentState ::
  "cadvisor \<Rightarrow> 'q informer \<Rightarrow> AppClass list \<Rightarrow> int \<Rightarrow> 's cgroupStoreManager \<Rightarrow> (string, CgroupStats) gomap option" where
  "ListCgroupResourceRecentState ca pods classes machineCores c =
     map_option fst (listCgroupStats ca pods (gm_cgroups c) True (gm_cgroups c) None classes ([], machineCores))"

text \<open>The references of all containers; later paths replace earlier entries.\<close>

definition add_ref ::
  "'q informer \<Rightarrow> string list \<Rightarrow> AppClass list \<Rightarrow> string \<times> ContainerInfo \<Rightarrow> (string, CgroupRef) gomap \<Rightarrow> (string, CgroupRef) gomap option" where
  "add_ref pods cgroups classes = (\<lambda>(k, v) cgs.
     map_option (\<lambda>r. case r of
         Inl _ \<Rightarrow> cgs
       | Inr (ref, _) \<Rightarrow> if classes \<noteq> [] \<and> ref_AppClass ref \<notin> set classes then cgs else AList.update k ref cgs)
       (generateRef pods cgroups k v))"

fun add_refs ::
  "'q informer \<Rightarrow> string list \<Rightarrow> AppClass list \<Rightarrow> (string, ContainerInfo) gomap \<Rightarrow> (string, CgroupRef) gomap \<Rightarrow> (string, CgroupRef) gomap option" where
  "add_refs pods cgroups classes [] cgs = Some cgs"
| "add_refs pods cgroups classes (x # xs) cgs = Option.bind (add_ref pods cgroups classes x cgs) (add_refs pods cgroups classes xs)"

definition ListAllCgroups ::
  "cadvisor \<Rightarrow> 'q informer \<Rightarrow> AppClass list \<Rightarrow> 's cgroupStoreManager \<Rightarrow> (string, CgroupRef) gomap option" where
  "ListAllCgroups ca pods classes c =
     add_refs pods (gm_cgroups c) classes
       (concat (map (\<lambda>cg. case ca_ContainerInfoV2 ca cg 1 True of None \<Rightarrow> [] | Some m \<Rightarrow> m) (gm_cgroups c))) []"

section \<open>Caches\<close>

definition NewCgroupStoreManager :: "cpu_env \<Rightarrow> string list \<Rightarrow> cgfs \<Rightarrow> (cgfs \<times> 's cgroupStoreManager) option" where
  "NewCgroupStoreManager E cgroups fs =
     map_option (\<lambda>fs. (fs, \<lparr>gm_cgroups = cgroups, gm_started = False, gm_cacheAge = 10 * minute, gm_caches = []\<rparr>))
       (fold (\<lambda>cg r. Option.bind r (\<lambda>fs. case EnsureCgroupPath E cg fs of (fs, Inr _) \<Rightarrow> Some fs | (fs, Inl _) \<Rightarrow> None)) cgroups (Some fs))"

definition collectCgroupStats ::
  "('s, CgroupStats) ts_ops \<Rightarrow> cadvisor \<Rightarrow> 'q informer \<Rightarrow> go_time \<Rightarrow> int \<Rightarrow> 's cgroupStoreManager \<Rightarrow> ('s cgroupStoreManager \<times> int) option" where
  "collectCgroupStats T ca pods now machineCores c =
     map_option (\<lambda>(totalCgStats, machineCores).
        let caches = fold (\<lambda>(k, st) m. cache_add T (gm_cacheAge c) k (cg_Timestamp st) st m) totalCgStats (gm_caches c)
        in (c\<lparr>gm_caches := filter (\<lambda>(k, s). ts_InTimeRange T (now - gm_cacheAge c) now (- 1) s \<noteq> []) caches\<rparr>, machineCores))
       (listCgroupStats ca pods (gm_cgroups c) True (gm_cgroups c) None [] ([], machineCores))"

text \<open>The first cache of the pod; \<open>None\<close> when the library panics on an empty cache, \<open>Some None\<close> when there is none.\<close>

fun find_cache :: "('s, CgroupStats) ts_ops \<Rightarrow> string \<Rightarrow> string \<Rightarrow> (string, 's) gomap \<Rightarrow> 's option option" where
  "find_cache T podName podNamespace [] = Some None"
| "find_cache T podName podNamespace ((k, s) # m) =
     (case ts_Get0 T s of
        None \<Rightarrow> None
      | Some item \<Rightarrow>
          if ref_PodName (cg_Ref item) = podName \<and> ref_PodNamespace (cg_Ref item) = podNamespace then Some (Some s)
          else find_cache T podName podNamespace m)"

definition GetCgroupResourceRangeStats ::
  "('s, CgroupStats) ts_ops \<Rightarrow> string \<Rightarrow> string \<Rightarrow> go_time \<Rightarrow> go_time \<Rightarrow> int \<Rightarrow> 's cgroupStoreManager \<Rightarrow> CgroupStats list option option" where
  "GetCgroupResourceRangeStats T podName podNamespace start end' cnt c =
     map_option (map_option (ts_InTimeRange T start end' cnt)) (find_cache T podName podNamespace (gm_caches c))"

fun range_stats ::
  "('s, CgroupStats) ts_ops \<Rightarrow> go_time \<Rightarrow> go_time \<Rightarrow> int \<Rightarrow> AppClass list \<Rightarrow> (string, 's) gomap \<Rightarrow> (string, CgroupStats list) gomap option" where
  "range_stats T start end' cnt classes [] = Some []"
| "range_stats T start end' cnt classes ((k, s) # m) =
     (if classes = [] then map_option ((#) (k, ts_InTimeRange T start end' cnt s)) (range_stats T start end' cnt classes m)
      else case ts_Get0 T s of
        None \<Rightarrow> None
      | Some item \<Rightarrow>
          if ref_AppClass (cg_Ref item) \<notin> set classes then range_stats T start end' cnt classes m
          else map_option ((#) (k, ts_InTimeRange T start end' cnt s)) (range_stats T start end' cnt classes m))"

definition ListCgroupResourceRangeStats ::
  "('s, CgroupStats) ts_ops \<Rightarrow> go_time \<Rightarrow> go_time \<Rightarrow> int \<Rightarrow> AppClass list \<Rightarrow> 's cgroupStoreManager \<Rightarrow> (string, CgroupStats list) gomap option" where
  "ListCgroupResourceRangeStats T start end' cnt classes c = range_stats T start end' cnt classes (gm_caches c)"

section \<open>More groups\<close>

text \<open>
  The effects on the cadvisor manager: replaced when it has not been started, otherwise stopped,
  replaced and started again. Whether stopping and starting succeed are inputs.
\<close>

datatype cadvisor_call = StopManager | NewManager "string list" | StartManager

definition restartCadvisor :: "bool \<Rightarrow> bool \<Rightarrow> string list \<Rightarrow> cadvisor_call list \<times> bool" where
  "restartCadvisor stopOk startOk cgroups =
     (if \<not> stopOk then ([StopManager], False) else ([StopManager, NewManager cgroups, StartManager], startOk))"

definition new_cgroups :: "string list \<Rightarrow> string list \<Rightarrow> string list" where
  "new_cgroups cgroups extraCgs = fold (\<lambda>cg cgs. if cg \<in> set cgs then cgs else cgs @ [cg]) extraCgs cgroups"

definition AddExtraCgroups :: "bool \<Rightarrow> bool \<Rightarrow> string list \<Rightarrow> 's cgroupStoreManager \<Rightarrow> 's cgroupStoreManager \<times> cadvisor_call list \<times> bool" where
  "AddExtraCgroups stopOk startOk extraCgs c =
     (if extraCgs = [] then (c, [], True)
      else let cgs = new_cgroups (gm_cgroups c) extraCgs; c' = c\<lparr>gm_cgroups := cgs\<rparr> in
           if cgs = gm_cgroups c then (c, [], True)
           else if \<not> gm_started c then (c', [NewManager cgs], True)
           else let (calls, ok) = restartCadvisor stopOk startOk cgs in (c', calls, ok))"


section \<open>Properties\<close>

lemma new_cgroups_set:
  "set (new_cgroups cgs extra) = set cgs \<union> set extra" "distinct cgs \<Longrightarrow> distinct (new_cgroups cgs extra)"
  unfolding new_cgroups_def by (induction extra arbitrary: cgs) auto

lemma new_cgroups_prefix: "\<exists>ys. new_cgroups cgs extra = cgs @ ys"
  unfolding new_cgroups_def
proof (induction extra arbitrary: cgs)
  case (Cons x xs)
  show ?case using Cons [of cgs] Cons [of "cgs @ [x]"] by auto
qed simp

lemma new_cgroups_again: "new_cgroups (new_cgroups cgs extra) extra = new_cgroups cgs extra"
proof -
  have "set extra \<subseteq> set xs \<Longrightarrow> new_cgroups xs extra = xs" for xs
    unfolding new_cgroups_def by (induction extra) auto
  then show ?thesis by (simp add: new_cgroups_set)
qed

text \<open>
  A restart that fails is not repeated: the groups are recorded before cadvisor is stopped, so that the
  same request, made again after the error, finds them recorded and succeeds without a restart.
\<close>

lemma failed_restart_not_retried:
  assumes "gm_started c" and "AddExtraCgroups False startOk extra c = (c', calls, ok)" and "\<not> ok"
  shows "set (gm_cgroups c') = set (gm_cgroups c) \<union> set extra \<and> AddExtraCgroups stopOk' startOk' extra c' = (c', [], True)"
  using assms new_cgroups_again [of "gm_cgroups c" extra]
  by (auto simp: AddExtraCgroups_def restartCadvisor_def Let_def new_cgroups_set split: if_splits)

text \<open>The cpu usage of a container is between zero and the number of cores.\<close>

lemma cpu_usage_bounds:
  assumes "0 \<le> cores" and "cores < 2 ^ 53" and "CpuUsage st = 0"
  shows "0 \<le> CpuUsage (generateCgroupStatsCpu cores s0 s1 hasCpu st) \<and>
    (cores \<noteq> 0 \<longrightarrow> CpuUsage (generateCgroupStatsCpu cores s0 s1 hasCpu st) \<le> of_int cores)"
proof -
  have "fl (of_int cores) = of_int cores" using assms by (intro fl_of_int) simp
  then show ?thesis using assms by (auto simp: generateCgroupStatsCpu_def Let_def)
qed

text \<open>Containers of the same name in pods whose uids agree in the first five bytes share a key.\<close>

lemma cgroup_ids_collide: "generateK8sCgroupId (take 5 u @ v) n = generateK8sCgroupId u n" if "5 \<le> length u"
  using that by (simp add: generateK8sCgroupId_def)

end
