(* ===== verification/Online.thy ===== *)
theory Online
  imports QosManager CgroupStore
begin

text \<open>
  \<^verbatim>\<open>online/online.go\<close> and \<^verbatim>\<open>cgroup.MoveSpecificPids\<close>: online jobs that do not run on kubernetes are
  found by matching the command lines of all processes, and their processes are put into control
  groups. A compiled regular expression is its function \<^verbatim>\<open>FindAllIndex\<close>, from a text to the list of
  begins and ends of its matches; the groups of a process are read by a library.
\<close>

section \<open>Data\<close>

type_synonym regexp = "string \<Rightarrow> (nat \<times> nat) list"

record cgroupSpec =
  sp_fixed :: bool
  sp_pidNum :: int

record jobSpec =
  js_regexp :: regexp
  js_cgroups :: "(string, cgroupSpec) gomap"

record onlineManager =
  ol_BatchNum :: nat
  ol_jobSpecs :: "(string, jobSpec) gomap"

text \<open>What is read from the machine: process numbers, command lines, groups by process and processes by group.\<close>

record machine_procs =
  mp_pids :: "int list"
  mp_cmdline :: "int \<Rightarrow> string option"
  mp_cgroups :: "int \<Rightarrow> (string, string) gomap option"

text \<open>\<open>None\<close>: an invalid expression ends the process.\<close>

definition NewOnlineManager :: "(string \<Rightarrow> regexp option) \<Rightarrow> nat \<Rightarrow> (string \<times> string) list \<Rightarrow> onlineManager option" where
  "NewOnlineManager compile batchNum jobs =
     (if list_all (\<lambda>(_, command). compile command \<noteq> None) jobs
      then Some \<lparr>ol_BatchNum = batchNum,
             ol_jobSpecs = fold (\<lambda>(name, command) m. case compile command of
                 None \<Rightarrow> m | Some rexp \<Rightarrow> AList.update name \<lparr>js_regexp = rexp, js_cgroups = []\<rparr> m) jobs []\<rparr>
      else None)"

definition GetOnlineCgroups :: "onlineManager \<Rightarrow> string list" where
  "GetOnlineCgroups om = sort (remdups (concat (map (\<lambda>(_, spec). map fst (js_cgroups spec)) (ol_jobSpecs om))))"

section \<open>Matching processes\<close>

text \<open>The directory names of \<^verbatim>\<open>/proc\<close> that start with a digit and are numbers.\<close>

definition getMachinePidList :: "string list \<Rightarrow> int list" where
  "getMachinePidList procs =
     List.map_filter (\<lambda>s. case s of
        [] \<Rightarrow> None
      | c # _ \<Rightarrow> if is_digit c then map_option (\<lambda>n. wrap64 (int n)) (parse_uint 64 s) else None) procs"

definition command_line :: "(int \<Rightarrow> string option) \<Rightarrow> int \<Rightarrow> string" where
  "command_line cmdline p =
     (case cmdline p of None \<Rightarrow> [] | Some s \<Rightarrow> map (\<lambda>c. if c = CHR 0x00 then CHR '' '' else c) s)"

text \<open>Where each line begins and ends in the joined text.\<close>

fun line_indexs :: "nat \<Rightarrow> string list \<Rightarrow> (nat \<times> nat) list" where
  "line_indexs i [] = []"
| "line_indexs i (l # ls) = (i, i + length l) # line_indexs (i + length l + 1) ls"

definition batchMatchPidList :: "(int \<Rightarrow> string option) \<Rightarrow> int list \<Rightarrow> regexp \<Rightarrow> int list" where
  "batchMatchPidList cmdline pidList rexp =
     (if pidList = [] then []
      else let cmdLines = map (command_line cmdline) pidList;
               matcheds = rexp (join_with ''+'' cmdLines)
           in map fst (filter (\<lambda>(p, b, e). list_ex (\<lambda>(mb, me). mb \<ge> b \<and> me \<le> e) matcheds)
                (zip pidList (line_indexs 0 cmdLines))))"

text \<open>Batches of a fixed size; a size of zero panics (\<open>None\<close>).\<close>

fun match_batches :: "(int \<Rightarrow> string option) \<Rightarrow> regexp \<Rightarrow> nat \<Rightarrow> nat \<Rightarrow> int list \<Rightarrow> int list \<Rightarrow> int list" where
  "match_batches cmdline rexp n i handling [] = (if handling \<noteq> [] then batchMatchPidList cmdline handling rexp else [])"
| "match_batches cmdline rexp n i handling (p # ps) =
     (if i mod n = 0 then batchMatchPidList cmdline (handling @ [p]) rexp @ match_batches cmdline rexp n (i + 1) [] ps
      else match_batches cmdline rexp n (i + 1) (handling @ [p]) ps)"

definition matchJobPidList :: "(int \<Rightarrow> string option) \<Rightarrow> nat \<Rightarrow> int list \<Rightarrow> regexp \<Rightarrow> int list option" where
  "matchJobPidList cmdline batchNum pidList rexp =
     (if pidList = [] then Some [] else if batchNum = 0 then None else Some (match_batches cmdline rexp batchNum 1 [] pidList))"

section \<open>Groups of a job\<close>

definition cgroupNotFixed :: "string \<Rightarrow> bool" where
  "cgroupNotFixed cgPath \<longleftrightarrow> cgPath = ''/'' \<or> cgPath = ''/user.slice'' \<or> strings_Contains cgPath CgroupNonK8sOnline"

fun move_specific :: "string list \<Rightarrow> int list \<Rightarrow> string \<Rightarrow> nat \<Rightarrow> cgfs \<Rightarrow> cgfs \<times> bool" where
  "move_specific [] pids tgt errs fs = (fs, errs = 0)"
| "move_specific (sub # subs) pids tgt errs fs =
     (let full = path_Join [fs_root fs, sub, tgt, ''cgroup.procs''];
          (fs, r) = (if sub = ''memory'' then SetMemoryMoveImmigrate tgt ''3'' fs else (fs, Inr ())) in
      case r of
        Inl _ \<Rightarrow> (fs, False)
      | Inr _ \<Rightarrow> let (fs, failed) = write_pids full pids fs in move_specific subs pids tgt (errs + failed) fs)"

definition MoveSpecificPids :: "string list \<Rightarrow> int list \<Rightarrow> string \<Rightarrow> cgfs \<Rightarrow> cgfs \<times> bool" where
  "MoveSpecificPids subsystems pids targetPath fs =
     (if subsystems = [] \<or> pids = [] then (fs, True) else move_specific subsystems pids targetPath 0 fs)"

definition moveOnlinePidList :: "cpu_env \<Rightarrow> string \<Rightarrow> int list \<Rightarrow> string list \<Rightarrow> cgfs \<Rightarrow> cgfs" where
  "moveOnlinePidList E cgPath pids subSystem fs =
     (case EnsureCgroupPath E cgPath fs of
        (fs, Inl _) \<Rightarrow> fs
      | (fs, Inr _) \<Rightarrow>
          (case EnsureCpuSetCores cgPath fs of
             (fs, Inl _) \<Rightarrow> fs
           | (fs, Inr _) \<Rightarrow>
               fst (MoveSpecificPids (if subSystem = [] then [''perf_event'', ''memory'', ''cpu'', ''cpuset''] else subSystem) pids cgPath fs)))"

record spec_scan =
  ss_needMove :: "int list"
  ss_target :: string
  ss_systemd :: bool
  ss_cgroups :: "(string, cgroupSpec) gomap"
  ss_added :: bool

definition scan_pid :: "(int \<Rightarrow> (string, string) gomap option) \<Rightarrow> string \<Rightarrow> int \<Rightarrow> spec_scan \<Rightarrow> spec_scan" where
  "scan_pid cgroupsOf nonFixedCgName pid s =
     (case cgroupsOf pid of
        None \<Rightarrow> s
      | Some cgroups \<Rightarrow>
          let memCg = label cgroups ''memory''; notFixed = cgroupNotFixed memCg;
              (s, cgName) =
                (if notFixed then (s\<lparr>ss_needMove := ss_needMove s @ [pid]\<rparr>, nonFixedCgName)
                 else if label cgroups ''cpuset'' \<noteq> memCg
                 then (s\<lparr>ss_needMove := ss_needMove s @ [pid], ss_target := memCg, ss_systemd := True\<rparr>, memCg)
                 else (s, memCg))
          in if gmap_has (ss_cgroups s) cgName then s
             else s\<lparr>ss_cgroups := AList.update cgName \<lparr>sp_fixed = \<not> notFixed, sp_pidNum = - 1\<rparr> (ss_cgroups s), ss_added := True\<rparr>)"

definition updateJobSpec ::
  "cpu_env \<Rightarrow> (int \<Rightarrow> (string, string) gomap option) \<Rightarrow> int list \<Rightarrow> string \<Rightarrow> jobSpec \<Rightarrow> cgfs \<Rightarrow> jobSpec \<times> cgfs \<times> bool" where
  "updateJobSpec E cgroupsOf pidList jobName spec fs =
     (let nonFixedCgName = path_Join [CgroupNonK8sOnline, jobName];
          s = fold (scan_pid cgroupsOf nonFixedCgName) pidList
                \<lparr>ss_needMove = [], ss_target = nonFixedCgName, ss_systemd = False, ss_cgroups = js_cgroups spec, ss_added = False\<rparr>;
          fs = (if ss_needMove s = [] then fs
                else moveOnlinePidList E (ss_target s) (ss_needMove s) (if ss_systemd s then [''cpuset'', ''perf_event''] else []) fs)
      in (spec\<lparr>js_cgroups := ss_cgroups s\<rparr>, fs, ss_added s))"

section \<open>The manager\<close>

text \<open>
  The jobs in the order in which the map is visited. The update is the right operand of a
  short-circuit or: it is not evaluated once a job has added a group.
\<close>

fun update_jobs ::
  "cpu_env \<Rightarrow> machine_procs \<Rightarrow> nat \<Rightarrow> (string, jobSpec) gomap \<Rightarrow> bool \<Rightarrow> cgfs \<Rightarrow> ((string, jobSpec) gomap \<times> cgfs \<times> bool) option" where
  "update_jobs E mp batchNum [] updated fs = Some ([], fs, updated)"
| "update_jobs E mp batchNum ((jobName, spec) # jobs) updated fs =
     (case matchJobPidList (mp_cmdline mp) batchNum (mp_pids mp) (js_regexp spec) of
        None \<Rightarrow> None
      | Some matched \<Rightarrow>
          let (spec, fs, updated) =
                (if matched = [] \<or> updated then (spec, fs, updated)
                 else updateJobSpec E (mp_cgroups mp) matched jobName spec fs)
          in map_option (\<lambda>(js, fs, u). ((jobName, spec) # js, fs, u)) (update_jobs E mp batchNum jobs updated fs))"

definition notifyContainerManager :: "onlineManager \<Rightarrow> string list" where
  "notifyContainerManager om =
     map (\<lambda>cg. if strings_HasPrefix cg CgroupNonK8sOnline then CgroupNonK8sOnline else cg)
       (concat (map (\<lambda>(_, spec). map fst (js_cgroups spec)) (ol_jobSpecs om)))"

definition generateOnlineCgroups ::
  "cpu_env \<Rightarrow> machine_procs \<Rightarrow> bool \<Rightarrow> bool \<Rightarrow> onlineManager \<Rightarrow> 's cgroupStoreManager \<Rightarrow> cgfs
    \<Rightarrow> (onlineManager \<times> 's cgroupStoreManager \<times> cadvisor_call list \<times> cgfs) option" where
  "generateOnlineCgroups E mp stopOk startOk om c fs =
     map_option (\<lambda>(jobs, fs, updated).
        let om = om\<lparr>ol_jobSpecs := jobs\<rparr> in
        if updated then let (c, calls, _) = AddExtraCgroups stopOk startOk (notifyContainerManager om) c in (om, c, calls, fs)
        else (om, c, [], fs))
       (update_jobs E mp (ol_BatchNum om) (ol_jobSpecs om) False fs)"

definition check_cgroup :: "(string \<Rightarrow> cgfs \<Rightarrow> bool + int list) \<Rightarrow> cgfs \<Rightarrow> string \<times> cgroupSpec \<Rightarrow> (string \<times> cgroupSpec) \<times> bool" where
  "check_cgroup GetPids fs = (\<lambda>(cg, sp).
     (if sp_fixed sp then ((cg, sp), False)
      else case GetPids (path_Join [fs_root fs, ''memory'', cg]) fs of
        Inl _ \<Rightarrow> ((cg, sp), False)
      | Inr pids \<Rightarrow>
          if int (length pids) \<noteq> sp_pidNum sp then ((cg, sp\<lparr>sp_pidNum := int (length pids)\<rparr>), True) else ((cg, sp), False)))"

definition checkOnlineCgroupPath :: "(string \<Rightarrow> cgfs \<Rightarrow> bool + int list) \<Rightarrow> cgfs \<Rightarrow> onlineManager \<Rightarrow> onlineManager \<times> bool" where
  "checkOnlineCgroupPath GetPids fs om =
     (let checked = map (\<lambda>(job, spec). (job, spec, map (check_cgroup GetPids fs) (js_cgroups spec))) (ol_jobSpecs om)
      in (om\<lparr>ol_jobSpecs := map (\<lambda>(job, spec, cs). (job, spec\<lparr>js_cgroups := map fst cs\<rparr>)) checked\<rparr>,
          list_ex (\<lambda>(_, _, cs). list_ex snd cs) checked))"


section \<open>Properties\<close>

lemma length_line_indexs [simp]: "length (line_indexs i ls) = length ls"
  by (induction ls arbitrary: i) auto

text \<open>The index of a line locates it in the joined text.\<close>

lemma line_indexs_locate:
  "k < length ls \<Longrightarrow> line_indexs i ls ! k = (b, e) \<Longrightarrow>
     i \<le> b \<and> e = b + length (ls ! k) \<and> take (length (ls ! k)) (drop (b - i) (join_with ''+'' ls)) = ls ! k"
proof (induction ls arbitrary: i k)
  case (Cons l ls)
  show ?case
  proof (cases k)
    case 0
    then show ?thesis using Cons.prems by (cases ls) auto
  next
    case (Suc k')
    then have k: "k' < length ls" "line_indexs (i + length l + 1) ls ! k' = (b, e)" using Cons.prems by simp_all
    note IH = Cons.IH [OF k]
    then obtain d where b: "b = i + length l + 1 + d" using le_Suc_ex by blast
    from k(1) obtain x xs where "ls = x # xs" by (cases ls) auto
    then show ?thesis using IH Suc b by simp
  qed
qed simp

text \<open>A process is matched only when a match of the expression lies in its own command line.\<close>

lemma matched_in_command_line:
  assumes "p \<in> set (batchMatchPidList cmdline pids rexp)"
  shows "\<exists>k b mb me. k < length pids \<and> pids ! k = p \<and> (mb, me) \<in> set (rexp (join_with ''+'' (map (command_line cmdline) pids))) \<and>
    b \<le> mb \<and> me \<le> b + length (command_line cmdline p) \<and>
    take (length (command_line cmdline p)) (drop b (join_with ''+'' (map (command_line cmdline) pids))) = command_line cmdline p"
proof -
  let ?ls = "map (command_line cmdline) pids"
  obtain k b e mb me where k: "k < length pids" "pids ! k = p" "line_indexs 0 ?ls ! k = (b, e)"
    and m: "(mb, me) \<in> set (rexp (join_with ''+'' ?ls))" "b \<le> mb" "me \<le> e"
    using assms by (auto simp: batchMatchPidList_def Let_def in_set_zip list_ex_iff split: if_splits)
  with line_indexs_locate [of k ?ls 0 b e] show ?thesis by (intro exI [of _ k] exI [of _ b] exI [of _ mb] exI [of _ me]) simp
qed

text \<open>
  A match that runs over the end of a command line, as one of an expression that ends in \<^verbatim>\<open>.*\<close> does in
  all but the last line of a batch, counts for no process.
\<close>

lemma long_match_counts_for_none:
  assumes "rexp (join_with ''+'' (map (command_line cmdline) [p, q])) = [(0, me)]" and "length (command_line cmdline p) < me"
  shows "batchMatchPidList cmdline [p, q] rexp = []"
  using assms by (simp add: batchMatchPidList_def Let_def)

text \<open>Once a job has added a group, the jobs after it are left alone in this round, their processes not moved.\<close>

lemma update_jobs_skipped:
  "0 < n \<Longrightarrow> update_jobs E mp n jobs True fs = Some (jobs, fs, True)"
  by (induction jobs) (auto simp: matchJobPidList_def)

lemma later_jobs_skipped:
  assumes "0 < n" and "matchJobPidList (mp_cmdline mp) n (mp_pids mp) (js_regexp spec) = Some matched" and "matched \<noteq> []"
    and "updateJobSpec E (mp_cgroups mp) matched job spec fs = (spec', fs', True)"
  shows "update_jobs E mp n ((job, spec) # jobs) False fs = Some ((job, spec') # jobs, fs', True)"
  using assms update_jobs_skipped [OF assms(1)] by simp

end
