(* ===== verification/Config.thy ===== *)
theory Config
  imports QosManager Alarm
begin

text \<open>
  \<^verbatim>\<open>types/types.go\<close>, \<^verbatim>\<open>types/diskquota.go\<close> and \<^verbatim>\<open>types/predict.go\<close>: completing and checking the
  configuration after it has been decoded. A fatal error or a panic is \<open>None\<close>. The disks and interfaces
  of the machine, the link target of a directory, \<^verbatim>\<open>strconv.ParseFloat\<close> and \<^verbatim>\<open>url.Parse\<close> are inputs.
\<close>

section \<open>Data\<close>

record machine_env =
  me_diskExists :: "string \<Rightarrow> bool"
  me_ifaceUp :: "string \<Rightarrow> bool"
  me_inHostNamespace :: bool
  me_readlink :: "string \<Rightarrow> string"

record TaskTypeConfig =
  tt_OnlineType :: string
  tt_OfflineType :: string

record TimeRangeOverCommit =
  tr_Range :: "SecondsInDay \<times> SecondsInDay"
  tr_OverCommitPercent :: float64

record OverCommit =
  oc_Enable :: bool
  oc_OverCommitPercent :: float64
  oc_Periods :: "TimeRangeOverCommit list"

record YarnDisksConfig =
  yd_RatioToCore :: "int option"
  yd_DisableScheduler :: bool
  yd_DiskCapConservativeValue :: int
  yd_DiskNumConservativeValue :: int
  yd_SpaceCheckPeriod :: go_duration

record YarnNodeResourceConfig =
  yc_CapacityIncInterval :: go_duration
  yc_NMServer :: string
  yc_ScheduleServerPort :: string
  yc_Disks :: YarnDisksConfig
  yc_CpuOverCommit :: OverCommit

record NodeResourceConfig =
  nr_Disable :: bool
  nr_UpdateInterval :: go_duration
  nr_OfflineType :: string
  nr_YarnConfig :: YarnNodeResourceConfig
  nr_SilencePeriods :: "(SecondsInDay \<times> SecondsInDay) list"
  nr_AheadOfUnSchedule :: go_duration

record MetricsNodeConfig =
  mn_CollectInterval :: go_duration
  mn_OfflineType :: string
  mn_IfacesWithProperty :: "string list"
  mn_Ifaces :: "string list"
  mn_DiskNames :: "string list"

record PrometheusData =
  pd_Collect :: "string list"
  pd_NoCollect :: "string list"
  pd_CollectMap :: "string list"
  pd_NoCollectMap :: "string list"

record MetricsCollectConfig =
  mc_Node :: MetricsNodeConfig
  mc_ContainerCgroups :: "string list"
  mc_ContainerCollectInterval :: go_duration
  mc_MaxHousekeepingInterval :: go_duration
  mc_PerfDisable :: bool
  mc_PerfCollectInterval :: go_duration
  mc_PerfCollectDuration :: go_duration
  mc_RdtDisable :: bool
  mc_RdtCommand :: string
  mc_RdtCollectInterval :: go_duration
  mc_RdtCollectDuration :: go_duration
  mc_RdtExecuteInterval :: go_duration
  mc_PrometheusInterval :: go_duration
  mc_PrometheusItems :: "PrometheusData list"

record IsolateSettings = ResourceIsolateConfig +
  rs_Disable :: bool
  rs_UpdatePeriod :: go_duration
  rs_AutoDetect :: bool

record AlarmSettings = AlarmConfig +
  as_ChannelName :: string

record CPIManagerConfig =
  cm_WindowDuration :: go_duration
  cm_PrometheusAddrStr :: string
  cm_MaxJobSpecRange :: go_duration

record MetricsSource =
  mr_CheckInterval :: go_duration
  mr_MetricsCommand :: "string list"
  mr_CmdNeedChroot :: "bool option"
  mr_MetricsURL :: string

record OnlineConfig =
  oo_PidCheckInterval :: go_duration
  oo_CgroupCheckInterval :: go_duration
  oo_BatchNum :: int
  oo_Jobs :: "(string \<times> MetricsSource list) list"
  oo_CustomMetricInterval :: go_duration

record DiskQuotaConfig =
  dq_CheckPeriod :: go_duration
  dq_ContainerRuntime :: string

record PredictSettings = PredictConfig +
  ps_CpuPercentStr :: string
  ps_MemPercentStr :: string

section \<open>Defaults\<close>

definition default_to :: "'a \<Rightarrow> 'a \<Rightarrow> 'a \<Rightarrow> 'a" where
  "default_to unset d x = (if x = unset then d else x)"

lemma default_to_ne [simp]: "d \<noteq> unset \<Longrightarrow> default_to unset d x \<noteq> unset"
  by (simp add: default_to_def)

definition initCheckPointConfig :: "string \<Rightarrow> string" where
  "initCheckPointConfig dir = default_to [] ''/tmp/caeclus'' dir"

definition initTaskType :: "TaskTypeConfig \<Rightarrow> TaskTypeConfig option" where
  "initTaskType config =
     (if tt_OnlineType config \<notin> {''k8s'', ''local''} then None
      else if tt_OfflineType config \<notin> {''k8s'', ''yarn_on_k8s''} then None
      else Some config)"

definition OfflineOnYarn :: "TaskTypeConfig \<Rightarrow> bool" where
  "OfflineOnYarn config \<longleftrightarrow> tt_OfflineType config = ''yarn_on_k8s''"

definition overcommit_ok :: "OverCommit \<Rightarrow> bool" where
  "overcommit_ok c = list_all (\<lambda>p. fst (tr_Range p) < snd (tr_Range p) \<and> 1 \<le> tr_OverCommitPercent p) (oc_Periods c)"

definition init_yarn :: "YarnNodeResourceConfig \<Rightarrow> YarnNodeResourceConfig option" where
  "init_yarn y =
     (if yc_NMServer y = [] then None
      else let y = y\<lparr>yc_ScheduleServerPort := default_to [] ''10010'' (yc_ScheduleServerPort y)\<rparr>; c = yc_CpuOverCommit y in
           if \<not> oc_Enable c then Some y
           else if \<not> overcommit_ok c then None
           else Some (y\<lparr>yc_CpuOverCommit := c\<lparr>oc_OverCommitPercent :=
                  (if oc_OverCommitPercent c < 1 then fl 1.2 else oc_OverCommitPercent c)\<rparr>\<rparr>))"

text \<open>The periods of silence: each begins before it ends, and after the one before it has ended.\<close>

fun silence_ok :: "(SecondsInDay \<times> SecondsInDay) list \<Rightarrow> bool" where
  "silence_ok [] \<longleftrightarrow> True"
| "silence_ok [(a, b)] \<longleftrightarrow> a < b"
| "silence_ok ((a, b) # (c, d) # its) \<longleftrightarrow> a < b \<and> b < c \<and> silence_ok ((c, d) # its)"

definition init_disks :: "YarnDisksConfig \<Rightarrow> YarnDisksConfig option" where
  "init_disks d =
     (if yd_RatioToCore d = Some 0 then None
      else Some (d\<lparr>yd_SpaceCheckPeriod := default_to 0 (30 * minute) (yd_SpaceCheckPeriod d),
             yd_DiskCapConservativeValue := default_to 0 10 (yd_DiskCapConservativeValue d),
             yd_DiskNumConservativeValue := default_to 0 1 (yd_DiskNumConservativeValue d)\<rparr>))"

definition initNodeResourceConfig :: "NodeResourceConfig \<Rightarrow> TaskTypeConfig \<Rightarrow> NodeResourceConfig option" where
  "initNodeResourceConfig config taskType =
     (if nr_Disable config then Some config
      else do {
        let config = config\<lparr>nr_UpdateInterval := default_to 0 (10 * second) (nr_UpdateInterval config),
                            nr_OfflineType := tt_OfflineType taskType\<rparr>;
        y \<leftarrow> (if OfflineOnYarn taskType then init_yarn (nr_YarnConfig config) else Some (nr_YarnConfig config));
        d \<leftarrow> init_disks (yc_Disks y);
        if silence_ok (nr_SilencePeriods config) then Some (config\<lparr>nr_YarnConfig := y\<lparr>yc_Disks := d\<rparr>\<rparr>) else None
      })"

section \<open>Devices and metrics\<close>

definition existDisk :: "machine_env \<Rightarrow> string list \<Rightarrow> string list" where
  "existDisk M diskNames =
     (let devDir = (if me_inHostNamespace M then ''/dev'' else path_Join [''/rootfs'', ''/dev''])
      in filter (\<lambda>disk. me_diskExists M (path_Join [devDir, disk])) diskNames)"

definition existAndUps :: "machine_env \<Rightarrow> string list \<Rightarrow> string list" where
  "existAndUps M ifaces = filter (me_ifaceUp M) ifaces"

definition iface_name :: "string \<Rightarrow> string" where
  "iface_name f = (case strings_Index f (CHR ''_'') of None \<Rightarrow> f | Some index \<Rightarrow> take index f)"

definition init_prometheus_item :: "PrometheusData \<Rightarrow> PrometheusData" where
  "init_prometheus_item p = p\<lparr>pd_CollectMap := remdups (pd_Collect p), pd_NoCollectMap := remdups (pd_NoCollect p)\<rparr>"

definition initMetricsConfig :: "machine_env \<Rightarrow> MetricsCollectConfig \<Rightarrow> TaskTypeConfig \<Rightarrow> MetricsCollectConfig" where
  "initMetricsConfig M config taskType =
     (let node = mc_Node config;
          node = node\<lparr>mn_CollectInterval := default_to 0 (50 * second) (mn_CollectInterval node),
                      mn_OfflineType := tt_OfflineType taskType, mn_DiskNames := existDisk M (mn_DiskNames node),
                      mn_Ifaces := existAndUps M (map iface_name (mn_IfacesWithProperty node))\<rparr>;
          config = config\<lparr>mc_Node := node,
            mc_MaxHousekeepingInterval := default_to 0 (50 * second) (mc_MaxHousekeepingInterval config),
            mc_ContainerCollectInterval := default_to 0 (50 * second) (mc_ContainerCollectInterval config),
            mc_ContainerCgroups := default_to [] [''/kubepods''] (mc_ContainerCgroups config)\<rparr>;
          config = (if mc_PerfDisable config then config
            else config\<lparr>mc_PerfCollectInterval := default_to 0 (50 * second) (mc_PerfCollectInterval config),
                   mc_PerfCollectDuration := default_to 0 (10 * second) (mc_PerfCollectDuration config)\<rparr>);
          config = (if mc_RdtDisable config then config
            else config\<lparr>mc_RdtCommand := default_to [] ''/usr/bin/pqos'' (mc_RdtCommand config),
                   mc_RdtCollectInterval := default_to 0 (50 * second) (mc_RdtCollectInterval config),
                   mc_RdtCollectDuration := default_to 0 second (mc_RdtCollectDuration config),
                   mc_RdtExecuteInterval := default_to 0 second (mc_RdtExecuteInterval config)\<rparr>)
      in config\<lparr>mc_PrometheusInterval := default_to 0 (50 * second) (mc_PrometheusInterval config),
           mc_PrometheusItems := map init_prometheus_item (mc_PrometheusItems config)\<rparr>)"

section \<open>Isolation\<close>

text \<open>A name without an underscore slices to -1 and panics.\<close>

definition assign_iface :: "string \<Rightarrow> string \<times> string \<Rightarrow> (string \<times> string) option" where
  "assign_iface f = (\<lambda>(iface, eni).
     (case strings_Index f (CHR ''_'') of
        None \<Rightarrow> None
      | Some index \<Rightarrow> Some (if strings_Contains f ''_eni'' then (iface, take index f) else (take index f, eni))))"

fun assign_ifaces :: "string list \<Rightarrow> string \<times> string \<Rightarrow> (string \<times> string) option" where
  "assign_ifaces [] s = Some s"
| "assign_ifaces (f # fs) s = Option.bind (assign_iface f s) (assign_ifaces fs)"

definition getCpuManagerFile :: "machine_env \<Rightarrow> string \<Rightarrow> string" where
  "getCpuManagerFile M rootDir =
     (let rootDir = default_to [] ''/data'' rootDir;
          rootDir = (if me_inHostNamespace M then rootDir
            else let rootDir = path_Join [''/rootfs'', rootDir]; linkDir = me_readlink M rootDir
                 in if linkDir \<noteq> [] then path_Join [''/rootfs'', linkDir] else rootDir)
      in path_Join [rootDir, ''cpu_manager_state''])"

definition initCpuManagePolicy ::
  "machine_env \<Rightarrow> IsolateSettings \<Rightarrow> string \<Rightarrow> cgfs \<Rightarrow> bool option \<Rightarrow> (IsolateSettings \<times> bool option) option" where
  "initCpuManagePolicy M config kubeletRootDir fs bt =
     (let (bt, config) = (if rs_AutoDetect config
            then let (bt, supported) = CPUOfflineSupported fs bt in (bt, config\<lparr>ri_ManagePolicy := (if supported then ''bt'' else ''quota'')\<rparr>)
            else (bt, config));
          (bt, config) = (if ri_ManagePolicy config = ''adaptive''
            then let (bt, supported) = CPUOfflineSupported fs bt in (bt, if supported then config else config\<lparr>ri_ManagePolicy := ''quota''\<rparr>)
            else (bt, config))
      in if ri_ManagePolicy config \<notin> {''bt'', ''cpuset'', ''quota'', ''adaptive''} then None
         else let static = (case ReadFile (getCpuManagerFile M kubeletRootDir) fs of Inl _ \<Rightarrow> False | Inr data \<Rightarrow> strings_Contains data ''static'');
                  config = config\<lparr>ri_KubeletStatic := static\<rparr>
              in if static \<and> ri_ManagePolicy config = ''cpuset'' \<and> EnableOnlineIsolate (ri_CpuSetConfig config) then None
                 else Some (config, bt))"

definition initResourceIsolateConfig ::
  "machine_env \<Rightarrow> IsolateSettings \<Rightarrow> MetricsNodeConfig \<Rightarrow> TaskTypeConfig \<Rightarrow> string \<Rightarrow> cgfs \<Rightarrow> bool option
    \<Rightarrow> (IsolateSettings \<times> bool option) option" where
  "initResourceIsolateConfig M config nodeConfig taskType kubeletRootDir fs bt =
     (if rs_Disable config then Some (config, bt)
      else do {
        (iface, eni) \<leftarrow> assign_ifaces (mn_IfacesWithProperty nodeConfig) (ri_Iface config, ri_EniIface config);
        let config = config\<lparr>ri_Iface := iface, ri_EniIface := eni,
              ri_DiskNames := existDisk M (ri_DiskNames config @ mn_DiskNames nodeConfig),
              ri_OnlineType := tt_OnlineType taskType, ri_OfflineType := tt_OfflineType taskType,
              rs_UpdatePeriod := default_to 0 (10 * minute) (rs_UpdatePeriod config)\<rparr>;
        initCpuManagePolicy M config kubeletRootDir fs bt
      })"

section \<open>The other parts\<close>

definition initAlarmConfig :: "AlarmSettings \<Rightarrow> AlarmSettings option" where
  "initAlarmConfig config =
     (if \<not> Enable config then Some config
      else let config = config\<lparr>as_ChannelName := default_to [] ''local'' (as_ChannelName config)\<rparr> in
           if as_ChannelName config \<notin> {''local'', ''remote''} then None
           else Some (config\<lparr>MessageBatch := default_to 0 10 (MessageBatch config), MessageDelay := default_to 0 minute (MessageDelay config)\<rparr>))"

definition initCPIManagerConfig :: "(string \<Rightarrow> bool) \<Rightarrow> CPIManagerConfig \<Rightarrow> CPIManagerConfig option" where
  "initCPIManagerConfig urlOk config =
     (if \<not> urlOk (cm_PrometheusAddrStr config) then None
      else Some (config\<lparr>cm_WindowDuration := default_to 0 (10 * minute) (cm_WindowDuration config),
             cm_MaxJobSpecRange := default_to 0 (24 * 60 * minute) (cm_MaxJobSpecRange config)\<rparr>))"

definition init_source :: "MetricsSource \<Rightarrow> MetricsSource option" where
  "init_source s =
     (let s = s\<lparr>mr_CheckInterval := default_to 0 minute (mr_CheckInterval s)\<rparr> in
      if mr_MetricsURL s \<noteq> [] \<and> mr_MetricsCommand s \<noteq> [] then None
      else Some (if mr_MetricsCommand s \<noteq> [] then s\<lparr>mr_CmdNeedChroot := default_to None (Some True) (mr_CmdNeedChroot s)\<rparr> else s))"

definition initOnlineConfig :: "OnlineConfig \<Rightarrow> OnlineConfig option" where
  "initOnlineConfig config =
     map_option (\<lambda>jobs. config\<lparr>oo_CgroupCheckInterval := default_to 0 (10 * minute) (oo_CgroupCheckInterval config),
         oo_BatchNum := default_to 0 10 (oo_BatchNum config), oo_Jobs := jobs\<rparr>)
       (those (map (\<lambda>(name, sources). map_option (Pair name) (those (map init_source sources))) (oo_Jobs config)))"

definition initDiskQuotaManager :: "DiskQuotaConfig \<Rightarrow> DiskQuotaConfig option" where
  "initDiskQuotaManager config =
     (let config = config\<lparr>dq_CheckPeriod := default_to 0 (5 * minute) (dq_CheckPeriod config),
                          dq_ContainerRuntime := default_to [] ''docker'' (dq_ContainerRuntime config)\<rparr>
      in if dq_ContainerRuntime config \<noteq> ''docker'' then None else Some config)"

section \<open>Prediction\<close>

definition parsePercentage :: "(string \<Rightarrow> float64 option) \<Rightarrow> string \<Rightarrow> float64 option" where
  "parsePercentage ParseFloat input =
     (if input = [] then Some 0
      else map_option (\<lambda>v. fl (v / 100)) (ParseFloat (rev (dropWhile (\<lambda>c. c = CHR ''%'') (rev input)))))"

definition percent_of_string :: "(string \<Rightarrow> float64 option) \<Rightarrow> string \<Rightarrow> float64 option \<Rightarrow> float64 option option" where
  "percent_of_string ParseFloat s old =
     (if s = [] then Some old else map_option Some (parsePercentage ParseFloat s))"

definition InitPredictConfig ::
  "'acs vpa_ops \<Rightarrow> 'q qops \<Rightarrow> (string \<Rightarrow> float64 option) \<Rightarrow> 'q resource_list option \<Rightarrow> PredictSettings \<Rightarrow> PredictSettings option" where
  "InitPredictConfig V Q ParseFloat machineTotal config =
     (let config = (if pc_Disable config then config\<lparr>pc_PredictType := ''local''\<rparr> else config);
          config = config\<lparr>pc_PredictType := default_to [] ''local'' (pc_PredictType config)\<rparr> in
      if pc_PredictType config \<notin> {''local'', ''vpa''} then None
      else if pc_PredictType config = ''vpa'' \<and> pc_PredictServerAddr config = [] then None
      else do {
        let config = (if pc_PredictType config = ''local''
          then PredictConfig.extend (checkLocalPredictType V (PredictConfig.truncate config)) (PredictConfig.more config) else config);
        cpu \<leftarrow> percent_of_string ParseFloat (ps_CpuPercentStr config) (CpuPercent (pc_ReserveResource config));
        mem \<leftarrow> percent_of_string ParseFloat (ps_MemPercentStr config) (MemPercent (pc_ReserveResource config));
        r \<leftarrow> getReservedResource Q machineTotal ((pc_ReserveResource config)\<lparr>CpuPercent := cpu, MemPercent := mem\<rparr>);
        Some (config\<lparr>pc_ReserveResource := r\<rparr>)
      })"

definition metrics_type :: "nat \<Rightarrow> string \<Rightarrow> string" where
  "metrics_type i t =
     (if i = 0 then ''online_predict''
      else if t = [] then ''experiment_online_predict_'' @ show_nat i else t)"

definition initPredictConfigs ::
  "'acs vpa_ops \<Rightarrow> 'q qops \<Rightarrow> (string \<Rightarrow> float64 option) \<Rightarrow> 'q resource_list option \<Rightarrow> PredictSettings list \<Rightarrow> PredictSettings list option" where
  "initPredictConfigs V Q ParseFloat machineTotal configs =
     (if configs = [] then None
      else those (map (\<lambda>(i, config). InitPredictConfig V Q ParseFloat machineTotal
               (config\<lparr>pc_PredictMetricsType := metrics_type i (pc_PredictMetricsType config)\<rparr>)) (zip [0..<length configs] configs)))"

section \<open>The whole configuration\<close>

record CaelusConfig =
  ca_KubeletRootDir :: string
  ca_CheckPointDir :: string
  ca_TaskType :: TaskTypeConfig
  ca_NodeResource :: NodeResourceConfig
  ca_Predicts :: "PredictSettings list"
  ca_Metrics :: MetricsCollectConfig
  ca_ResourceIsolate :: IsolateSettings
  ca_CpiManager :: CPIManagerConfig
  ca_Alarm :: AlarmSettings
  ca_Online :: OnlineConfig
  ca_DiskQuota :: DiskQuotaConfig

record 'acs config_env =
  cv_machine :: machine_env
  cv_vpa :: "'acs vpa_ops"
  cv_ParseFloat :: "string \<Rightarrow> float64 option"
  cv_urlOk :: "string \<Rightarrow> bool"
  cv_fs :: cgfs

definition initJsonConfig ::
  "'acs config_env \<Rightarrow> 'q qops \<Rightarrow> 'q resource_list option \<Rightarrow> bool option \<Rightarrow> CaelusConfig \<Rightarrow> (CaelusConfig \<times> bool option) option" where
  "initJsonConfig E Q machineTotal bt c = do {
     let c = c\<lparr>ca_CheckPointDir := initCheckPointConfig (ca_CheckPointDir c)\<rparr>;
     tt \<leftarrow> initTaskType (ca_TaskType c);
     nr \<leftarrow> initNodeResourceConfig (ca_NodeResource c) tt;
     let ms = initMetricsConfig (cv_machine E) (ca_Metrics c) tt;
     ps \<leftarrow> initPredictConfigs (cv_vpa E) Q (cv_ParseFloat E) machineTotal (ca_Predicts c);
     (ri, bt) \<leftarrow> initResourceIsolateConfig (cv_machine E) (ca_ResourceIsolate c) (mc_Node ms) tt (ca_KubeletRootDir c) (cv_fs E) bt;
     al \<leftarrow> initAlarmConfig (ca_Alarm c);
     cp \<leftarrow> initCPIManagerConfig (cv_urlOk E) (ca_CpiManager c);
     on \<leftarrow> initOnlineConfig (ca_Online c);
     dq \<leftarrow> initDiskQuotaManager (ca_DiskQuota c);
     Some (c\<lparr>ca_TaskType := tt, ca_NodeResource := nr, ca_Predicts := ps, ca_Metrics := ms, ca_ResourceIsolate := ri,
             ca_CpiManager := cp, ca_Alarm := al, ca_Online := on, ca_DiskQuota := dq\<rparr>, bt)
   }"

section \<open>What an accepted configuration promises\<close>

text \<open>Each part on its own.\<close>

lemma initTaskType_some: "initTaskType t = Some t' \<Longrightarrow> t' = t \<and> tt_OnlineType t \<in> {''k8s'', ''local''} \<and> tt_OfflineType t \<in> {''k8s'', ''yarn_on_k8s''}"
  by (auto simp: initTaskType_def split: if_splits)

text \<open>The accepted periods of silence are not empty and follow each other.\<close>

lemma silence_ok_sorted:
  assumes "silence_ok its"
  shows "sorted_wrt (\<lambda>p q. snd p < fst q) its \<and> (\<forall>p \<in> set its. fst p < snd p)"
  using assms
proof (induction its rule: silence_ok.induct)
  case (3 a b c d its)
  then have IH: "sorted_wrt (\<lambda>p q. snd p < fst q) ((c, d) # its)" "\<forall>p \<in> set ((c, d) # its). fst p < snd p" and ab: "a < b" "b < c" by simp_all
  have "b < fst p" if "p \<in> set ((c, d) # its)" for p
  proof -
    from that have "p = (c, d) \<or> d < fst p" using IH(1) by auto
    then show ?thesis using ab IH(2) by (metis fst_conv less_trans list.set_intros(1) snd_conv)
  qed
  then show ?case using IH ab by simp
qed simp_all

definition disks_config_ok :: "YarnDisksConfig \<Rightarrow> bool" where
  "disks_config_ok d \<longleftrightarrow> yd_RatioToCore d \<noteq> Some 0 \<and> yd_SpaceCheckPeriod d \<noteq> 0 \<and> yd_DiskCapConservativeValue d \<noteq> 0 \<and>
     yd_DiskNumConservativeValue d \<noteq> 0"

lemma init_disks_ok: "init_disks d = Some d' \<Longrightarrow> disks_config_ok d'"
  by (auto simp: init_disks_def disks_config_ok_def split: if_splits)

lemma init_yarn_frame: "init_yarn y = Some y' \<Longrightarrow> yc_CapacityIncInterval y' = yc_CapacityIncInterval y"
  by (auto simp: init_yarn_def Let_def split: if_splits)

definition node_config_ok :: "NodeResourceConfig \<Rightarrow> bool" where
  "node_config_ok c \<longleftrightarrow> nr_UpdateInterval c \<noteq> 0 \<and> disks_config_ok (yc_Disks (nr_YarnConfig c)) \<and>
     sorted_wrt (\<lambda>p q. snd p < fst q) (nr_SilencePeriods c) \<and> (\<forall>p \<in> set (nr_SilencePeriods c). fst p < snd p)"

lemma initNodeResource_ok:
  assumes "initNodeResourceConfig c t = Some c'"
  shows "(nr_Disable c' \<or> node_config_ok c') \<and> nr_AheadOfUnSchedule c' = nr_AheadOfUnSchedule c \<and>
    yc_CapacityIncInterval (nr_YarnConfig c') = yc_CapacityIncInterval (nr_YarnConfig c)"
proof (cases "nr_Disable c")
  case True
  then show ?thesis using assms by (simp add: initNodeResourceConfig_def)
next
  case False
  then obtain y d where "init_disks (yc_Disks y) = Some d" "silence_ok (nr_SilencePeriods c)"
    and "yc_CapacityIncInterval y = yc_CapacityIncInterval (nr_YarnConfig c)" and
    "c' = c\<lparr>nr_UpdateInterval := default_to 0 (10 * second) (nr_UpdateInterval c), nr_OfflineType := tt_OfflineType t,
       nr_YarnConfig := y\<lparr>yc_Disks := d\<rparr>\<rparr>"
    using assms by (auto simp: initNodeResourceConfig_def Let_def init_yarn_frame split: if_splits bind_splits)
  then show ?thesis using silence_ok_sorted init_disks_ok by (auto simp: node_config_ok_def)
qed

lemma initCpuManagePolicy_ok:
  assumes "initCpuManagePolicy M c k fs bt = Some (c', bt')"
  shows "ri_ManagePolicy c' \<in> {''bt'', ''cpuset'', ''quota'', ''adaptive''} \<and>
    \<not> (ri_KubeletStatic c' \<and> ri_ManagePolicy c' = ''cpuset'' \<and> EnableOnlineIsolate (ri_CpuSetConfig c')) \<and>
    rs_Disable c' = rs_Disable c \<and> rs_UpdatePeriod c' = rs_UpdatePeriod c"
  using assms
  by (auto simp: initCpuManagePolicy_def Let_def case_prod_unfold split: if_splits)

definition isolate_config_ok :: "IsolateSettings \<Rightarrow> bool" where
  "isolate_config_ok c \<longleftrightarrow> rs_UpdatePeriod c \<noteq> 0 \<and> ri_ManagePolicy c \<in> {''bt'', ''cpuset'', ''quota'', ''adaptive''} \<and>
     \<not> (ri_KubeletStatic c \<and> ri_ManagePolicy c = ''cpuset'' \<and> EnableOnlineIsolate (ri_CpuSetConfig c))"

lemma initResourceIsolate_ok:
  assumes "initResourceIsolateConfig M c n t k fs bt = Some (c', bt')"
  shows "rs_Disable c' \<or> isolate_config_ok c'"
proof (cases "rs_Disable c")
  case True
  then show ?thesis using assms by (simp add: initResourceIsolateConfig_def)
next
  case False
  then obtain c1 where c1: "initCpuManagePolicy M c1 k fs bt = Some (c', bt')" "rs_UpdatePeriod c1 \<noteq> 0"
    using assms by (auto simp: initResourceIsolateConfig_def Let_def split: bind_splits)
  from initCpuManagePolicy_ok [OF c1(1)] c1(2) show ?thesis by (simp add: isolate_config_ok_def)
qed

text \<open>An interface without a property is accepted for the metrics, but makes the isolation panic.\<close>

lemma plain_iface_panics:
  assumes "f \<in> set (mn_IfacesWithProperty n)" and "CHR ''_'' \<notin> set f" and "\<not> rs_Disable c"
  shows "iface_name f = f" and "initResourceIsolateConfig M c n t k fs bt = None"
proof -
  have f: "strings_Index f (CHR ''_'') = None" using assms(2) by (simp add: Index_None)
  then show "iface_name f = f" by (simp add: iface_name_def)
  have "assign_ifaces gs s = None" if "f \<in> set gs" for gs s
    using that f by (induction gs arbitrary: s) (auto simp: assign_iface_def split: option.splits bind_splits)
  then show "initResourceIsolateConfig M c n t k fs bt = None" using assms(1,3) by (simp add: initResourceIsolateConfig_def)
qed


lemma initAlarm_ok:
  "initAlarmConfig c = Some c' \<Longrightarrow>
     Enable c' \<longrightarrow> as_ChannelName c' \<in> {''local'', ''remote''} \<and> MessageBatch c' \<noteq> 0 \<and> MessageDelay c' \<noteq> 0"
  by (auto simp: initAlarmConfig_def Let_def split: if_splits)

definition source_ok :: "MetricsSource \<Rightarrow> bool" where
  "source_ok s \<longleftrightarrow> mr_CheckInterval s \<noteq> 0 \<and> (mr_MetricsURL s = [] \<or> mr_MetricsCommand s = []) \<and>
     (mr_MetricsCommand s \<noteq> [] \<longrightarrow> mr_CmdNeedChroot s \<noteq> None)"

lemma init_source_ok: "init_source s = Some s' \<Longrightarrow> source_ok s'"
  by (auto simp: init_source_def Let_def source_ok_def default_to_def split: if_splits)

lemma those_map_in:
  "those (map f xs) = Some ys \<Longrightarrow> y \<in> set ys \<Longrightarrow> \<exists>x \<in> set xs. f x = Some y"
  by (induction xs arbitrary: ys) (auto split: option.splits)

lemma initOnline_ok:
  assumes "initOnlineConfig c = Some c'"
  shows "oo_PidCheckInterval c' = oo_PidCheckInterval c \<and> oo_CustomMetricInterval c' = oo_CustomMetricInterval c \<and>
    oo_CgroupCheckInterval c' \<noteq> 0 \<and> oo_BatchNum c' \<noteq> 0 \<and> (\<forall>(n, ss) \<in> set (oo_Jobs c'). \<forall>s \<in> set ss. source_ok s)"
proof -
  obtain jobs where j: "those (map (\<lambda>(name, sources). map_option (Pair name) (those (map init_source sources))) (oo_Jobs c)) = Some jobs"
    "oo_Jobs c' = jobs" "oo_CgroupCheckInterval c' \<noteq> 0" "oo_BatchNum c' \<noteq> 0"
    "oo_PidCheckInterval c' = oo_PidCheckInterval c" "oo_CustomMetricInterval c' = oo_CustomMetricInterval c"
    using assms by (auto simp: initOnlineConfig_def)
  have "source_ok s" if "(n, ss) \<in> set jobs" "s \<in> set ss" for n ss s
    using those_map_in [OF j(1) that(1)] that(2) by (auto dest!: those_map_in init_source_ok)
  then show ?thesis using j by auto
qed

lemma initPredicts_nonempty: "initPredictConfigs V Q pf tot cs = Some cs' \<Longrightarrow> cs' \<noteq> []"
  by (cases cs) (auto simp: initPredictConfigs_def upt_conv_Cons simp del: upt_Suc split: option.splits)

definition predict_config_ok :: "PredictSettings \<Rightarrow> bool" where
  "predict_config_ok p \<longleftrightarrow> pc_PredictType p \<in> {''local'', ''vpa''} \<and> (pc_PredictType p = ''vpa'' \<longrightarrow> pc_PredictServerAddr p \<noteq> []) \<and>
     (pc_PredictType p = ''local'' \<longrightarrow> pc_CheckInterval p \<noteq> 0 \<and> pc_PrintInterval p \<noteq> 0)"

lemma checkLocal_intervals:
  "pc_CheckInterval (checkLocalPredictType V c) \<noteq> 0" "pc_PrintInterval (checkLocalPredictType V c) \<noteq> 0"
  "pc_PredictType (checkLocalPredictType V c) = pc_PredictType c"
proof -
  have push: "g (Let x f) = Let x (\<lambda>x. g (f x))" for x :: 'x and f :: "'x \<Rightarrow> PredictConfig" and g :: "PredictConfig \<Rightarrow> 'y"
    by (simp add: Let_def)
  show "pc_CheckInterval (checkLocalPredictType V c) \<noteq> 0"
    unfolding checkLocalPredictType_def push [of pc_CheckInterval] by (simp cong: if_cong)
  show "pc_PrintInterval (checkLocalPredictType V c) \<noteq> 0"
    unfolding checkLocalPredictType_def push [of pc_PrintInterval] by (simp cong: if_cong)
  show "pc_PredictType (checkLocalPredictType V c) = pc_PredictType c"
    unfolding checkLocalPredictType_def push [of pc_PredictType] by (simp cong: if_cong)
qed

lemma InitPredict_ok:
  assumes "InitPredictConfig V Q pf tot p = Some p'"
  shows "predict_config_ok p'"
proof -
  define c where "c = (let c = (if pc_Disable p then p\<lparr>pc_PredictType := ''local''\<rparr> else p) in
    c\<lparr>pc_PredictType := default_to [] ''local'' (pc_PredictType c)\<rparr>)"
  define d where "d = (if pc_PredictType c = ''local''
    then PredictConfig.extend (checkLocalPredictType V (PredictConfig.truncate c)) (PredictConfig.more c) else c)"
  obtain r where p': "p' = d\<lparr>pc_ReserveResource := r\<rparr>" and t: "pc_PredictType c \<in> {''local'', ''vpa''}"
    "pc_PredictType c = ''vpa'' \<Longrightarrow> pc_PredictServerAddr c \<noteq> []"
    using assms unfolding InitPredictConfig_def c_def [symmetric] d_def
    by (auto simp: c_def Let_def split: if_splits bind_splits)
  have "pc_PredictType d = pc_PredictType c" "pc_PredictType c \<noteq> ''local'' \<Longrightarrow> d = c"
    "pc_PredictType c = ''local'' \<Longrightarrow> pc_CheckInterval d \<noteq> 0 \<and> pc_PrintInterval d \<noteq> 0"
    by (simp_all add: d_def PredictConfig.defs checkLocal_intervals)
  with t show ?thesis by (auto simp: predict_config_ok_def p')
qed

lemma initPredicts_ok: "initPredictConfigs V Q pf tot cs = Some cs' \<Longrightarrow> p \<in> set cs' \<Longrightarrow> predict_config_ok p"
  by (auto simp: initPredictConfigs_def dest!: those_map_in InitPredict_ok split: if_splits)

definition metrics_config_ok :: "MetricsCollectConfig \<Rightarrow> bool" where
  "metrics_config_ok c \<longleftrightarrow> mn_CollectInterval (mc_Node c) \<noteq> 0 \<and> mc_ContainerCollectInterval c \<noteq> 0 \<and> mc_MaxHousekeepingInterval c \<noteq> 0 \<and>
     mc_ContainerCgroups c \<noteq> [] \<and> mc_PrometheusInterval c \<noteq> 0 \<and>
     (\<not> mc_PerfDisable c \<longrightarrow> mc_PerfCollectInterval c \<noteq> 0 \<and> mc_PerfCollectDuration c \<noteq> 0) \<and>
     (\<not> mc_RdtDisable c \<longrightarrow> mc_RdtCommand c \<noteq> [] \<and> mc_RdtCollectInterval c \<noteq> 0 \<and> mc_RdtCollectDuration c \<noteq> 0 \<and> mc_RdtExecuteInterval c \<noteq> 0)"

lemma initMetrics_ok: "metrics_config_ok (initMetricsConfig M c t)"
  by (simp add: metrics_config_ok_def initMetricsConfig_def Let_def)

lemma initCPI_ok: "initCPIManagerConfig u c = Some c' \<Longrightarrow> cm_WindowDuration c' \<noteq> 0 \<and> cm_MaxJobSpecRange c' \<noteq> 0"
  by (auto simp: initCPIManagerConfig_def split: if_splits)

definition config_ok :: "CaelusConfig \<Rightarrow> bool" where
  "config_ok c \<longleftrightarrow>
     tt_OnlineType (ca_TaskType c) \<in> {''k8s'', ''local''} \<and> tt_OfflineType (ca_TaskType c) \<in> {''k8s'', ''yarn_on_k8s''} \<and>
     (nr_Disable (ca_NodeResource c) \<or> node_config_ok (ca_NodeResource c)) \<and>
     (rs_Disable (ca_ResourceIsolate c) \<or> isolate_config_ok (ca_ResourceIsolate c)) \<and>
     ca_Predicts c \<noteq> [] \<and> (\<forall>p \<in> set (ca_Predicts c). predict_config_ok p) \<and> metrics_config_ok (ca_Metrics c) \<and>
     cm_WindowDuration (ca_CpiManager c) \<noteq> 0 \<and> cm_MaxJobSpecRange (ca_CpiManager c) \<noteq> 0 \<and>
     (Enable (ca_Alarm c) \<longrightarrow> as_ChannelName (ca_Alarm c) \<in> {''local'', ''remote''} \<and> MessageBatch (ca_Alarm c) \<noteq> 0 \<and> MessageDelay (ca_Alarm c) \<noteq> 0) \<and>
     oo_CgroupCheckInterval (ca_Online c) \<noteq> 0 \<and> oo_BatchNum (ca_Online c) \<noteq> 0 \<and>
     (\<forall>(n, ss) \<in> set (oo_Jobs (ca_Online c)). \<forall>s \<in> set ss. source_ok s) \<and>
     dq_ContainerRuntime (ca_DiskQuota c) = ''docker'' \<and> dq_CheckPeriod (ca_DiskQuota c) \<noteq> 0"

lemma initDiskQuota_ok: "initDiskQuotaManager c = Some c' \<Longrightarrow> dq_ContainerRuntime c' = ''docker'' \<and> dq_CheckPeriod c' \<noteq> 0"
  by (auto simp: initDiskQuotaManager_def Let_def split: if_splits)

text \<open>
  The four intervals the program has no default for: that of the check of process ids, whose zero switches the check off, that of the
  custom metrics, the time of unscheduling ahead of a silence and that between increases of the capacity.
\<close>

definition plain_intervals :: "CaelusConfig \<Rightarrow> go_duration list" where
  "plain_intervals c = [oo_PidCheckInterval (ca_Online c), oo_CustomMetricInterval (ca_Online c), nr_AheadOfUnSchedule (ca_NodeResource c),
     yc_CapacityIncInterval (nr_YarnConfig (ca_NodeResource c))]"



text \<open>A node with two periods of silence, one online job and cpu sets as policy.\<close>

definition sample_machine :: machine_env where
  "sample_machine = \<lparr>me_diskExists = (\<lambda>_. True), me_ifaceUp = (\<lambda>_. True), me_inHostNamespace = True, me_readlink = (\<lambda>_. [])\<rparr>"

definition sample_env :: "(int \<times> int) config_env" where
  "sample_env = \<lparr>cv_machine = sample_machine, cv_vpa = peak_vpa, cv_ParseFloat = (\<lambda>_. None), cv_urlOk = (\<lambda>_. True),
     cv_fs = \<lparr>fs_root = ''/sys/fs/cgroup'', fs_files = [], fs_dirs = [], fs_fail = (\<lambda>_. False)\<rparr>\<rparr>"

definition sample_config :: CaelusConfig where
  "sample_config = \<lparr>ca_KubeletRootDir = [], ca_CheckPointDir = [],
     ca_TaskType = \<lparr>tt_OnlineType = ''local'', tt_OfflineType = ''k8s''\<rparr>,
     ca_NodeResource = \<lparr>nr_Disable = False, nr_UpdateInterval = 0, nr_OfflineType = [],
       nr_YarnConfig = \<lparr>yc_CapacityIncInterval = 0, yc_NMServer = [], yc_ScheduleServerPort = [],
         yc_Disks = \<lparr>yd_RatioToCore = Some 2, yd_DisableScheduler = False, yd_DiskCapConservativeValue = 0,
           yd_DiskNumConservativeValue = 0, yd_SpaceCheckPeriod = 0\<rparr>,
         yc_CpuOverCommit = \<lparr>oc_Enable = False, oc_OverCommitPercent = 1, oc_Periods = []\<rparr>\<rparr>,
       nr_SilencePeriods = [(0, 3600), (7200, 10800)], nr_AheadOfUnSchedule = 0\<rparr>,
     ca_Predicts = [PredictConfig.extend (sample_predict_config\<lparr>pc_PredictType := ''vpa'', pc_PredictServerAddr := ''vpa:80''\<rparr>)
       (PredictSettings.fields [] [])],
     ca_Metrics = \<lparr>mc_Node = \<lparr>mn_CollectInterval = 0, mn_OfflineType = [], mn_IfacesWithProperty = [''eth1_normal''],
         mn_Ifaces = [], mn_DiskNames = [''sda'']\<rparr>,
       mc_ContainerCgroups = [], mc_ContainerCollectInterval = 0, mc_MaxHousekeepingInterval = 0, mc_PerfDisable = True,
       mc_PerfCollectInterval = 0, mc_PerfCollectDuration = 0, mc_RdtDisable = True, mc_RdtCommand = [], mc_RdtCollectInterval = 0,
       mc_RdtCollectDuration = 0, mc_RdtExecuteInterval = 0, mc_PrometheusInterval = 0, mc_PrometheusItems = []\<rparr>,
     ca_ResourceIsolate = \<lparr>ri_ResourceDisable = [], ri_DiskNames = [], ri_EniIface = [], ri_Iface = [], ri_ManagePolicy = ''cpuset'',
       ri_CpuSetConfig = \<lparr>EnableOnlineIsolate = True, ReservedCpus = []\<rparr>, ri_OfflineShare = None, ri_KubeletStatic = False,
       ri_OnlineType = [], ri_OfflineType = [], ri_ExternalComponents = [], rs_Disable = False, rs_UpdatePeriod = 0, rs_AutoDetect = False\<rparr>,
     ca_CpiManager = \<lparr>cm_WindowDuration = 0, cm_PrometheusAddrStr = [], cm_MaxJobSpecRange = 0\<rparr>,
     ca_Alarm = \<lparr>Enable = True, Cluster = [], MessageBatch = 0, MessageDelay = 0, IgnoreAlarmWhenSilence = False, as_ChannelName = []\<rparr>,
     ca_Online = \<lparr>oo_PidCheckInterval = 0, oo_CgroupCheckInterval = 0, oo_BatchNum = 0,
       oo_Jobs = [(''osd'', [\<lparr>mr_CheckInterval = 0, mr_MetricsCommand = [''slo''], mr_CmdNeedChroot = None, mr_MetricsURL = []\<rparr>])], oo_CustomMetricInterval = 0\<rparr>,
     ca_DiskQuota = \<lparr>dq_CheckPeriod = 0, dq_ContainerRuntime = []\<rparr>\<rparr>"

lemmas sample_defs = sample_config_def sample_env_def sample_machine_def sample_predict_config_def PredictConfig.defs PredictSettings.defs

lemma sample_parts:
  "initTaskType (ca_TaskType sample_config) = Some (ca_TaskType sample_config)"
  "\<exists>nr. initNodeResourceConfig (ca_NodeResource sample_config) (ca_TaskType sample_config) = Some nr"
  "\<exists>ps. initPredictConfigs peak_vpa nanoQ (\<lambda>_. None) (Some []) (ca_Predicts sample_config) = Some ps"
  "\<exists>al. initAlarmConfig (ca_Alarm sample_config) = Some al"
  "\<exists>cp. initCPIManagerConfig (\<lambda>_. True) (ca_CpiManager sample_config) = Some cp"
  "\<exists>onl. initOnlineConfig (ca_Online sample_config) = Some onl"
  "\<exists>dq. initDiskQuotaManager (ca_DiskQuota sample_config) = Some dq"
  by (simp_all add: sample_defs initTaskType_def initNodeResourceConfig_def init_disks_def OfflineOnYarn_def
      initPredictConfigs_def InitPredictConfig_def percent_of_string_def getReservedResource_def getReservedValue_def default_to_def
      initAlarmConfig_def initCPIManagerConfig_def initOnlineConfig_def init_source_def initDiskQuotaManager_def metrics_type_def Let_def)

lemma sample_isolate:
  "\<exists>ri. initResourceIsolateConfig sample_machine (ca_ResourceIsolate sample_config)
      (mc_Node (initMetricsConfig sample_machine (ca_Metrics sample_config) (ca_TaskType sample_config)))
      (ca_TaskType sample_config) [] (cv_fs sample_env) None = Some (ri, None)"
  by (simp add: sample_defs initResourceIsolateConfig_def initMetricsConfig_def initCpuManagePolicy_def ReadFile_def assign_iface_def
      default_to_def Let_def)


end
