(* ===== verification/ProjectFile.thy ===== *)
theory ProjectFile
  imports CgroupFs
begin

text \<open>
  \<^verbatim>\<open>diskquota/manager/projectquota/projectfile.go\<close>: the two files in which the project quotas are kept over a
  restart, one line per path (\<^verbatim>\<open>1048579:/data1/test\<close>) and one per name (\<^verbatim>\<open>emptyDir-1048577:1048577\<close>).
  A file that is replaced by renaming a temporary file has either its old or its new content.
\<close>

section \<open>Lines and blanks\<close>

text \<open>\<^verbatim>\<open>strings.TrimSpace\<close> on the blanks of ASCII.\<close>

definition is_space :: "char \<Rightarrow> bool" where
  "is_space c \<longleftrightarrow> c \<in> {CHR 0x09, CHR 0x0A, CHR 0x0B, CHR 0x0C, CHR 0x0D, CHR '' ''}"

definition strings_TrimSpace :: "string \<Rightarrow> string" where
  "strings_TrimSpace s = rev (dropWhile is_space (rev (dropWhile is_space s)))"

text \<open>
  \<^verbatim>\<open>bufio.Scanner\<close> with its default split function: the last line needs no line feed, a carriage
  return before the line feed is dropped, and a line that does not fit into the buffer of 64 KiB ends the scan.
\<close>

definition scan_lines :: "string \<Rightarrow> string list" where
  "scan_lines s =
     (let ls = split_on (CHR 0x0A) s; ls = (if last ls = [] then butlast ls else ls)
      in map (\<lambda>l. if l \<noteq> [] \<and> last l = CHR 0x0D then butlast l else l) (takeWhile (\<lambda>l. length l < 65536) ls))"

section \<open>Reading and writing\<close>

text \<open>A quota id is an int32: the conversion from a larger integer wraps around.\<close>

type_synonym quotaID = int

definition wrap32 :: "int \<Rightarrow> quotaID" where
  "wrap32 x = (x + 2 ^ 31) mod 2 ^ 32 - 2 ^ 31"

definition RootFS :: string where "RootFS = ''/rootfs''"

definition idPathHandle :: "bool \<Rightarrow> string list \<Rightarrow> (quotaID, string list) gomap \<Rightarrow> (quotaID, string list) gomap" where
  "idPathHandle inHost ranges idPaths =
     (case atoi (strings_TrimSpace (ranges ! 0)) of
        None \<Rightarrow> idPaths
      | Some n \<Rightarrow>
          let pathName = strings_TrimSpace (ranges ! 1);
              pathName = (if inHost then pathName else path_Join [RootFS, pathName]);
              paths = (case map_of idPaths (wrap32 n) of Some loadedPaths \<Rightarrow> loadedPaths @ [pathName] | None \<Rightarrow> [pathName])
          in AList.update (wrap32 n) paths idPaths)"

definition idNameHandle :: "string list \<Rightarrow> (quotaID, string) gomap \<Rightarrow> (quotaID, string) gomap" where
  "idNameHandle ranges idNames =
     (case atoi (strings_TrimSpace (ranges ! 1)) of
        None \<Rightarrow> idNames
      | Some n \<Rightarrow> AList.update (wrap32 n) (strings_TrimSpace (ranges ! 0)) idNames)"

text \<open>\<open>None\<close>: the file could not be opened.\<close>

definition dumpProjectsFile :: "string option \<Rightarrow> (string list \<Rightarrow> 'm \<Rightarrow> 'm) \<Rightarrow> 'm \<Rightarrow> 'm" where
  "dumpProjectsFile content handle m =
     (case content of
        None \<Rightarrow> m
      | Some s \<Rightarrow> fold (\<lambda>line m. let ranges = split_on (CHR '':'') line in if length ranges \<noteq> 2 then m else handle ranges m) (scan_lines s) m)"

definition DumpProjectIds ::
  "bool \<Rightarrow> string option \<Rightarrow> string option \<Rightarrow> (quotaID, string list) gomap \<times> (quotaID, string) gomap" where
  "DumpProjectIds inHost projects projid = (dumpProjectsFile projects (idPathHandle inHost) [], dumpProjectsFile projid idNameHandle [])"

definition project_line :: "bool \<Rightarrow> quotaID \<Rightarrow> string \<Rightarrow> string" where
  "project_line inHost n p = show_int n @ '':'' @ (if inHost then p else strings_TrimPrefix p RootFS) @ [CHR 0x0A]"

definition UpdateProjects :: "bool \<Rightarrow> (quotaID, string list) gomap \<Rightarrow> string" where
  "UpdateProjects inHost idPaths = concat (map (\<lambda>(n, paths). concat (map (project_line inHost n) paths)) idPaths)"

definition UpdateProjIds :: "(quotaID, string) gomap \<Rightarrow> string" where
  "UpdateProjIds idNames = concat (map (\<lambda>(n, name). name @ '':'' @ show_int n @ [CHR 0x0A]) idNames)"

text \<open>
  The steps of replacing a file, each of which may fail: creating the temporary file, writing, syncing, closing, renaming. The result
  is the new content of the file, the temporary files left behind, and whether there was an error.
\<close>

record write_steps =
  ws_create :: bool
  ws_write :: bool
  ws_sync :: bool
  ws_close :: bool
  ws_rename :: bool
  ws_remove :: bool

definition writeByTempFile :: "write_steps \<Rightarrow> string \<Rightarrow> string option \<Rightarrow> string option \<times> bool \<times> bool" where
  "writeByTempFile w data old =
     (if \<not> ws_create w then (old, False, True)
      else let failed = \<not> (ws_write w \<and> ws_sync w \<and> ws_close w \<and> ws_rename w)
           in (if failed then old else Some data, failed \<and> \<not> ws_remove w, failed))"

text \<open>A file is in order when it does not exist or is a plain file.\<close>

datatype file_kind = Missing | Regular | OtherKind

definition projFilesAreOK :: "file_kind \<Rightarrow> file_kind \<Rightarrow> bool" where
  "projFilesAreOK projects projid \<longleftrightarrow> projects \<in> {Missing, Regular} \<and> projid \<in> {Missing, Regular}"

definition NewProjectFile :: "bool \<Rightarrow> string \<times> string" where
  "NewProjectFile inHost =
     (if inHost then (''/etc/projects'', ''/etc/projid'')
      else (path_Join [RootFS, ''/etc/projects''], path_Join [RootFS, ''/etc/projid'']))"

section \<open>Reading back what was written\<close>

lemma wrap32_id: "- (2 ^ 31) \<le> x \<Longrightarrow> x < 2 ^ 31 \<Longrightarrow> wrap32 x = x"
  by (simp add: wrap32_def)

lemma atoi_show_int: "- (2 ^ 63) \<le> n \<Longrightarrow> n < 2 ^ 63 \<Longrightarrow> atoi (show_int n) = Some n"
proof (cases "n < 0")
  case True
  moreover assume "- (2 ^ 63) \<le> n" "n < 2 ^ 63"
  ultimately show ?thesis by (simp add: atoi_def show_int_def show_nat_digits)
next
  case False
  moreover assume "- (2 ^ 63) \<le> n" "n < 2 ^ 63"
  ultimately show ?thesis using atoi_show_nat [of "nat n"] by (simp add: show_int_def)
qed

definition number_char :: "char \<Rightarrow> bool" where
  "number_char c \<longleftrightarrow> is_digit c \<or> c = CHR ''-''"

lemma show_int_chars: "list_all number_char (show_int n)"
  using show_nat_digits [of "nat n"] show_nat_digits [of "nat (- n)"]
  by (auto simp: show_int_def number_char_def list_all_iff)

lemma number_char_plain: "number_char c \<Longrightarrow> \<not> is_space c \<and> c \<noteq> CHR '':'' \<and> c \<noteq> CHR 0x0A"
  by (auto simp: number_char_def is_digit_def is_space_def)

lemma show_int_plain: "CHR '':'' \<notin> set (show_int n)" "CHR 0x0A \<notin> set (show_int n)" "list_all (\<lambda>c. \<not> is_space c) (show_int n)"
  using show_int_chars [of n] number_char_plain by (auto simp: list_all_iff)

lemma TrimSpace_plain:
  assumes "s = [] \<or> (\<not> is_space (hd s) \<and> \<not> is_space (last s))"
  shows "strings_TrimSpace s = s"
proof (cases s)
  case (Cons c cs)
  then have "dropWhile is_space s = s" using assms by simp
  moreover have "dropWhile is_space (rev s) = rev s" using assms Cons by (cases "rev s") (auto simp: hd_rev [symmetric])
  ultimately show ?thesis by (simp add: strings_TrimSpace_def)
qed (simp add: strings_TrimSpace_def)

lemma TrimSpace_no_space: "list_all (\<lambda>c. \<not> is_space c) s \<Longrightarrow> strings_TrimSpace s = s"
  by (rule TrimSpace_plain) (auto simp: list_all_iff)

lemma TrimSpace_show_int [simp]: "strings_TrimSpace (show_int n) = show_int n"
  by (rule TrimSpace_no_space) (rule show_int_plain)

text \<open>Lines that were written one by one are scanned one by one.\<close>

definition line_ok :: "string \<Rightarrow> bool" where
  "line_ok l \<longleftrightarrow> CHR 0x0A \<notin> set l \<and> length l < 65536 \<and> (l = [] \<or> last l \<noteq> CHR 0x0D)"

lemma scan_written_lines:
  assumes "\<forall>l \<in> set ls. line_ok l"
  shows "scan_lines (concat (map (\<lambda>l. l @ [CHR 0x0A]) ls)) = ls"
proof -
  have sp: "split_on (CHR 0x0A) (concat (map (\<lambda>l. l @ [CHR 0x0A]) ls)) = ls @ [[]]"
    using assms by (induction ls) (auto simp: line_ok_def split_on_append)
  have tk: "takeWhile (\<lambda>l. length l < 65536) ls = ls" using assms by (auto simp: takeWhile_eq_all_conv line_ok_def)
  have "map (\<lambda>l. if l \<noteq> [] \<and> last l = CHR 0x0D then butlast l else l) ls = ls"
    using assms by (auto simp: line_ok_def intro!: map_idI)
  then show ?thesis by (simp add: scan_lines_def sp tk Let_def)
qed


lemma split_on_two: "CHR '':'' \<notin> set a \<Longrightarrow> CHR '':'' \<notin> set b \<Longrightarrow> split_on (CHR '':'') (a @ '':'' @ b) = [a, b]"
  by (simp add: split_on_append split_on_plain)

definition plain :: "string \<Rightarrow> bool" where
  "plain s \<longleftrightarrow> CHR '':'' \<notin> set s \<and> CHR 0x0A \<notin> set s \<and> length s < 65000 \<and> s \<noteq> [] \<and> \<not> is_space (hd s) \<and> \<not> is_space (last s)"

lemma plain_trim: "plain s \<Longrightarrow> strings_TrimSpace s = s"
  by (rule TrimSpace_plain) (simp add: plain_def)

definition int32_range :: "int \<Rightarrow> bool" where
  "int32_range n \<longleftrightarrow> - (2 ^ 31) \<le> n \<and> n < 2 ^ 31"

lemma int32_atoi: "int32_range n \<Longrightarrow> atoi (show_int n) = Some n \<and> wrap32 n = n"
  using atoi_show_int [of n] wrap32_id [of n] by (simp add: int32_range_def)

lemma show_nat_length: "n < 10 ^ k \<Longrightarrow> 0 < k \<Longrightarrow> length (show_nat n) \<le> k"
proof (induction k arbitrary: n)
  case (Suc k)
  show ?case
  proof (cases "n < 10")
    case False
    then have "0 < k" using Suc.prems by (cases k) auto
    moreover have "n div 10 < 10 ^ k" using Suc.prems by (simp add: less_mult_imp_div_less mult.commute)
    ultimately show ?thesis using False Suc.IH [of "n div 10"] by (subst show_nat.simps) simp
  qed (simp add: show_nat.simps)
qed simp

lemma show_int_length:
  assumes "int32_range n"
  shows "length (show_int n) \<le> 11"
proof -
  have "nat n < 10 ^ 10" "nat (- n) < 10 ^ 10"
    using assms zless_nat_conj [of n "10 ^ 10"] zless_nat_conj [of "- n" "10 ^ 10"] by (simp_all add: int32_range_def)
  then show ?thesis using show_nat_length [of "nat n" 10] show_nat_length [of "nat (- n)" 10] by (simp add: show_int_def)
qed

lemma show_int_last: "\<not> is_space (last (show_int n))"
  using show_int_plain(3) [of n] by (auto simp: list_all_iff show_int_def split: if_splits)

text \<open>What is written for a path, and what makes a path or a name survive: no colon, no line feed, no blank at its ends.\<close>

definition stored :: "bool \<Rightarrow> string \<Rightarrow> string" where
  "stored inHost p = (if inHost then p else strings_TrimPrefix p RootFS)"

definition path_survives :: "bool \<Rightarrow> string \<Rightarrow> bool" where
  "path_survives inHost p \<longleftrightarrow> plain (stored inHost p) \<and> (inHost \<or> path_Join [RootFS, stored inHost p] = p)"

lemma cr_is_space: "is_space (CHR 0x0D)" by (simp add: is_space_def)

lemma path_line_ok:
  assumes "int32_range n" and "path_survives inHost p"
  shows "line_ok (show_int n @ '':'' @ stored inHost p)"
proof -
  have p: "plain (stored inHost p)" using assms(2) by (simp add: path_survives_def)
  moreover have "last (stored inHost p) \<noteq> CHR 0x0D" using p cr_is_space by (auto simp: plain_def)
  ultimately show ?thesis using show_int_plain(2) [of n] show_int_length [OF assms(1)] by (simp add: line_ok_def plain_def)
qed

lemma name_line_ok:
  assumes "int32_range n" and "plain name"
  shows "line_ok (name @ '':'' @ show_int n)"
proof -
  have "show_int n \<noteq> []" by (simp add: show_int_def)
  moreover have "last (show_int n) \<noteq> CHR 0x0D" using show_int_last [of n] cr_is_space by auto
  ultimately show ?thesis using assms(2) show_int_plain(2) [of n] show_int_length [OF assms(1)] by (simp add: line_ok_def plain_def)
qed

lemma update_fresh: "n \<notin> fst ` set m \<Longrightarrow> AList.update n v m = m @ [(n, v)]"
  by (induction m) auto

lemma update_last: "n \<notin> fst ` set m \<Longrightarrow> AList.update n v (m @ [(n, w)]) = m @ [(n, v)]"
  by (induction m) auto

lemma idPathHandle_written:
  assumes "int32_range n" and "path_survives inHost p"
  shows "idPathHandle inHost [show_int n, stored inHost p] m =
    AList.update n ((case map_of m n of Some ps \<Rightarrow> ps | None \<Rightarrow> []) @ [p]) m"
  using assms int32_atoi [OF assms(1)]
  by (auto simp: idPathHandle_def path_survives_def plain_trim Let_def stored_def split: option.split)

abbreviation read_line :: "(string list \<Rightarrow> 'm \<Rightarrow> 'm) \<Rightarrow> string \<Rightarrow> 'm \<Rightarrow> 'm" where
  "read_line handle line m \<equiv> (let ranges = split_on (CHR '':'') line in if length ranges \<noteq> 2 then m else handle ranges m)"

lemma read_group_more:
  assumes "int32_range n" and "\<forall>p \<in> set ps. path_survives inHost p" and "n \<notin> fst ` set m"
  shows "fold (read_line (idPathHandle inHost)) (map (\<lambda>p. show_int n @ '':'' @ stored inHost p) ps) (m @ [(n, qs)]) = m @ [(n, qs @ ps)]"
  using assms(2)
proof (induction ps arbitrary: qs)
  case (Cons p ps)
  have sp: "split_on (CHR '':'') (show_int n @ '':'' @ stored inHost p) = [show_int n, stored inHost p]"
    using Cons.prems show_int_plain(1) by (intro split_on_two) (auto simp: path_survives_def plain_def)
  have "map_of (m @ [(n, qs)]) n = Some qs" using assms(3) by (simp add: map_add_Some_iff map_of_eq_None_iff)
  then show ?case
    using Cons.IH [of "qs @ [p]"] Cons.prems idPathHandle_written [OF assms(1), of inHost p] update_last [OF assms(3)]
    by (simp add: sp [simplified] Let_def)
qed simp

lemma read_group:
  assumes "int32_range n" and "\<forall>p \<in> set ps. path_survives inHost p" and "n \<notin> fst ` set m" and "ps \<noteq> []"
  shows "fold (read_line (idPathHandle inHost)) (map (\<lambda>p. show_int n @ '':'' @ stored inHost p) ps) m = m @ [(n, ps)]"
proof -
  obtain p ps' where ps: "ps = p # ps'" using assms(4) by (cases ps) auto
  have sp: "split_on (CHR '':'') (show_int n @ '':'' @ stored inHost p) = [show_int n, stored inHost p]"
    using assms(2) ps show_int_plain(1) by (intro split_on_two) (auto simp: path_survives_def plain_def)
  have "map_of m n = None" using assms(3) by (simp add: map_of_eq_None_iff)
  then show ?thesis
    using assms(1,2) ps read_group_more [OF assms(1) _ assms(3), of ps' inHost "[p]"] idPathHandle_written [OF assms(1), of inHost p m]
    by (simp add: sp [simplified] Let_def update_fresh [OF assms(3)])
qed

lemma read_all_paths:
  assumes "wf_map (m @ idPaths)" and "\<forall>(n, ps) \<in> set idPaths. int32_range n \<and> ps \<noteq> [] \<and> (\<forall>p \<in> set ps. path_survives inHost p)"
  shows "fold (read_line (idPathHandle inHost)) (concat (map (\<lambda>(n, ps). map (\<lambda>p. show_int n @ '':'' @ stored inHost p) ps) idPaths)) m = m @ idPaths"
  using assms
proof (induction idPaths arbitrary: m)
  case (Cons a idPaths)
  obtain n ps where a: "a = (n, ps)" by (cases a)
  have "n \<notin> fst ` set m" using Cons.prems(1) by (auto simp: a)
  then show ?case
    using Cons.IH [of "m @ [(n, ps)]"] Cons.prems read_group [of n ps inHost m] by (simp add: a del: fold.simps)
qed simp

lemma read_all_names:
  assumes "wf_map (m @ idNames)" and "\<forall>(n, name) \<in> set idNames. int32_range n \<and> plain name"
  shows "fold (read_line idNameHandle) (map (\<lambda>(n, name). name @ '':'' @ show_int n) idNames) m = m @ idNames"
  using assms
proof (induction idNames arbitrary: m)
  case (Cons a idNames)
  obtain n name where a: "a = (n, name)" by (cases a)
  have n: "int32_range n" "plain name" "n \<notin> fst ` set m" using Cons.prems by (auto simp: a)
  have sp: "split_on (CHR '':'') (name @ '':'' @ show_int n) = [name, show_int n]"
    using n show_int_plain(1) by (intro split_on_two) (auto simp: plain_def)
  have "idNameHandle [name, show_int n] m = m @ [(n, name)]"
    using n int32_atoi [OF n(1)] by (simp add: idNameHandle_def plain_trim update_fresh)
  then show ?case using Cons.IH [of "m @ [(n, name)]"] Cons.prems by (simp add: a sp [simplified] Let_def)
qed simp


lemma project_line_eq: "project_line inHost n = (\<lambda>p. show_int n @ '':'' @ stored inHost p @ [CHR 0x0A])"
  by (rule ext) (simp add: project_line_def stored_def)

text \<open>C26. The quota records survive a restart: reading the two files right after they were written gives back
  exactly the recorded paths and names, in the host's name space and in a container's, as long as the ids are int32 numbers and no
  path or name contains a colon or a line feed or has blanks at its ends.\<close>

theorem project_files_roundtrip:
  assumes "wf_map idPaths" and "\<forall>(n, ps) \<in> set idPaths. int32_range n \<and> ps \<noteq> [] \<and> (\<forall>p \<in> set ps. path_survives inHost p)"
    and "wf_map idNames" and "\<forall>(n, name) \<in> set idNames. int32_range n \<and> plain name"
  shows "DumpProjectIds inHost (Some (UpdateProjects inHost idPaths)) (Some (UpdateProjIds idNames)) = (idPaths, idNames)"
proof -
  let ?pl = "concat (map (\<lambda>(n, ps). map (\<lambda>p. show_int n @ '':'' @ stored inHost p) ps) idPaths)"
  let ?nl = "map (\<lambda>(n, name). name @ '':'' @ show_int n) idNames"
  have "UpdateProjects inHost idPaths = concat (map (\<lambda>l. l @ [CHR 0x0A]) ?pl)"
    by (induction idPaths) (auto simp: UpdateProjects_def project_line_eq map_concat comp_def)
  moreover have "\<forall>l \<in> set ?pl. line_ok l" using assms(2) path_line_ok by fastforce
  ultimately have pl: "scan_lines (UpdateProjects inHost idPaths) = ?pl" using scan_written_lines by simp
  have "UpdateProjIds idNames = concat (map (\<lambda>l. l @ [CHR 0x0A]) ?nl)"
    by (simp add: UpdateProjIds_def comp_def case_prod_unfold)
  moreover have "\<forall>l \<in> set ?nl. line_ok l" using assms(4) name_line_ok by fastforce
  ultimately have nl: "scan_lines (UpdateProjIds idNames) = ?nl" using scan_written_lines by metis
  show ?thesis
    using read_all_paths [of "[]" idPaths inHost] read_all_names [of "[]" idNames] assms
    by (simp add: DumpProjectIds_def dumpProjectsFile_def pl nl)
qed

theorem project_files_roundtrip_witness:
  "DumpProjectIds False (Some (UpdateProjects False [(1048577, [''/rootfs/data/a'', ''/rootfs/data/b''])])) (Some (UpdateProjIds [(1048577, ''emptyDir-ns/pod'')])) =
     ([(1048577, [''/rootfs/data/a'', ''/rootfs/data/b''])], [(1048577, ''emptyDir-ns/pod'')])"
proof -
  have "path_survives False ''/rootfs/data/a''" "path_survives False ''/rootfs/data/b''" "plain ''emptyDir-ns/pod''" "int32_range 1048577"
    by (simp_all add: path_survives_def plain_def stored_def strings_TrimPrefix_def strings_HasPrefix_def RootFS_def is_space_def
        path_Join_def path_Clean_def int32_range_def)
  then show ?thesis by (intro project_files_roundtrip) simp_all
qed

text \<open>A path with a colon is written, but its line is skipped when it is read.\<close>

lemma colon_path_forgotten:
  assumes "int32_range n"
  shows "DumpProjectIds True (Some (UpdateProjects True [(n, [''/data/a:b''])])) None = ([], [])"
proof -
  let ?l = "show_int n @ '':/data/a:b''"
  have "line_ok ?l" using show_int_plain(2) [of n] show_int_length [OF assms] by (simp add: line_ok_def)
  then have "scan_lines (UpdateProjects True [(n, [''/data/a:b''])]) = [?l]"
    using scan_written_lines [of "[?l]"] by (simp add: UpdateProjects_def project_line_def)
  moreover have "split_on (CHR '':'') ?l = [show_int n, ''/data/a'', ''b'']"
    using split_on_append [OF show_int_plain(1), of n "''/data/a:b''"] by simp
  ultimately show ?thesis by (simp add: DumpProjectIds_def dumpProjectsFile_def)
qed

end
