(* ===== verification/ProjectQuota.thy ===== *)
theory ProjectQuota
  imports ProjectFile
begin

text \<open>
  \<^verbatim>\<open>diskquota/manager/projectquota/projectquota.go\<close>: a directory is given a project id, and the kernel limits
  what all directories with that id use. The kernel is a state with the project id of each directory and the limits
  of each id on a device; which of its calls fail, what is mounted where and whether a path exists are part of
  it. An id and a limit that were written are read back. Errors of the kernel are told apart by the number that stands for
  the text the code looks for.
\<close>

section \<open>The kernel\<close>

datatype errno = ENOENT | ESRCH | ENOTTY | EPERM | ENOSYS | EOTHER

datatype quota_error = Errno errno | CannotOpenDir | NoMount | NotSupported | WrongGroupName | AllocateFailed

record DiskQuotaSize =
  sz_Quota :: nat
  sz_Inodes :: nat
  sz_QuotaUsed :: nat
  sz_InodesUsed :: nat

record fs_disk_quota =
  d_blk_hardlimit :: nat
  d_ino_hardlimit :: nat
  d_bcount :: nat
  d_icount :: nat

record qkernel =
  k_stat :: "string \<Rightarrow> errno option"
  k_findMount :: "string \<Rightarrow> (string \<times> string) option"
  k_openDir :: "string \<Rightarrow> bool"
  k_projid :: "string \<Rightarrow> errno + int"
  k_setid :: "string \<Rightarrow> errno option"
  k_quota :: "string \<Rightarrow> int \<Rightarrow> errno + fs_disk_quota"
  k_setquota :: "string \<Rightarrow> int \<Rightarrow> errno option"
  k_mknod :: "string \<Rightarrow> errno option"
  k_projects :: "string option"
  k_projidFile :: "string option"
  k_writeProjects :: bool
  k_writeProjid :: bool

definition u32 :: "int \<Rightarrow> int" where
  "u32 n = n mod 2 ^ 32"

definition getProjectID :: "string \<Rightarrow> qkernel \<Rightarrow> quota_error + quotaID" where
  "getProjectID targetPath k =
     (if \<not> k_openDir k targetPath then Inl CannotOpenDir
      else case k_projid k targetPath of Inl e \<Rightarrow> Inl (Errno e) | Inr n \<Rightarrow> Inr (wrap32 n))"

definition setProjectID :: "string \<Rightarrow> quotaID \<Rightarrow> qkernel \<Rightarrow> qkernel \<times> quota_error option" where
  "setProjectID targetPath projectID k =
     (if \<not> k_openDir k targetPath then (k, Some CannotOpenDir)
      else case k_projid k targetPath of
        Inl e \<Rightarrow> (k, Some (Errno e))
      | Inr _ \<Rightarrow> (case k_setid k targetPath of
            Some e \<Rightarrow> (k, Some (Errno e))
          | None \<Rightarrow> (k\<lparr>k_projid := (k_projid k)(targetPath := Inr (u32 projectID))\<rparr>, None)))"

definition getProjectQuota :: "string \<Rightarrow> quotaID \<Rightarrow> qkernel \<Rightarrow> quota_error + DiskQuotaSize" where
  "getProjectQuota backingFsBlockDev projectID k =
     (case k_quota k backingFsBlockDev (u32 projectID) of
        Inl e \<Rightarrow> Inl (Errno e)
      | Inr d \<Rightarrow> Inr \<lparr>sz_Quota = d_blk_hardlimit d * 512 mod 2 ^ 64, sz_Inodes = d_ino_hardlimit d,
                      sz_QuotaUsed = d_bcount d * 512 mod 2 ^ 64, sz_InodesUsed = d_icount d\<rparr>)"

definition setProjectQuota :: "string \<Rightarrow> quotaID \<Rightarrow> DiskQuotaSize \<Rightarrow> qkernel \<Rightarrow> qkernel \<times> quota_error option" where
  "setProjectQuota backingFsBlockDev projectID quota k =
     (case k_setquota k backingFsBlockDev (u32 projectID) of
        Some e \<Rightarrow> (k, Some (Errno e))
      | None \<Rightarrow>
          let used = (case k_quota k backingFsBlockDev (u32 projectID) of Inr d \<Rightarrow> (d_bcount d, d_icount d) | Inl _ \<Rightarrow> (0, 0));
              d = \<lparr>d_blk_hardlimit = sz_Quota quota div 512, d_ino_hardlimit = sz_Inodes quota, d_bcount = fst used, d_icount = snd used\<rparr>
          in (k\<lparr>k_quota := (k_quota k)(backingFsBlockDev := (k_quota k backingFsBlockDev)(u32 projectID := Inr d))\<rparr>, None))"

section \<open>The records\<close>

record backingDev =
  bd_supported :: bool
  bd_device :: string

record projectQuota =
  pq_pathMapBackingDev :: "(string, backingDev) gomap"
  pq_idNames :: "(quotaID, string) gomap"
  pq_idPaths :: "(quotaID, string list) gomap"
  pq_pathIds :: "(string, quotaID) gomap"
  pq_nameIds :: "(string, quotaID) gomap"
  pq_prjFile :: bool

definition noQuotaID :: quotaID where "noQuotaID = 0"
definition firstQuotaID :: quotaID where "firstQuotaID = 1048577"
definition maxSearch :: nat where "maxSearch = 256"

definition IdName :: "quotaID \<Rightarrow> string \<Rightarrow> string" where
  "IdName q pathFlag = pathFlag @ ''-'' @ show_int q"

text \<open>The files are read when the process starts, and written after a change; an error of writing is only logged.\<close>

definition NewProjectQuota :: "bool \<Rightarrow> qkernel \<Rightarrow> projectQuota" where
  "NewProjectQuota inHost k =
     (let (idPaths, idNames) = DumpProjectIds inHost (k_projects k) (k_projidFile k)
      in \<lparr>pq_pathMapBackingDev = [], pq_idNames = idNames, pq_idPaths = idPaths,
          pq_pathIds = fold (\<lambda>(n, paths). fold (\<lambda>p. AList.update p n) paths) idPaths [],
          pq_nameIds = fold (\<lambda>(n, name). AList.update name n) idNames [], pq_prjFile = True\<rparr>)"

definition save_projects :: "bool \<Rightarrow> projectQuota \<Rightarrow> qkernel \<Rightarrow> qkernel" where
  "save_projects inHost p k =
     (if pq_prjFile p \<and> k_writeProjects k then k\<lparr>k_projects := Some (UpdateProjects inHost (pq_idPaths p))\<rparr> else k)"

definition save_projids :: "projectQuota \<Rightarrow> qkernel \<Rightarrow> qkernel" where
  "save_projids p k =
     (if pq_prjFile p \<and> k_writeProjid k then k\<lparr>k_projidFile := Some (UpdateProjIds (pq_idNames p))\<rparr> else k)"

section \<open>Devices\<close>

text \<open>
  The two entries made for a new device share one object, which is completed before the function
  returns. After a failed \<^verbatim>\<open>mknod\<close> they stay, marked as not supported.
\<close>

definition findOrCreateBackingDev :: "string \<Rightarrow> projectQuota \<Rightarrow> qkernel \<Rightarrow> projectQuota \<times> (quota_error + backingDev)" where
  "findOrCreateBackingDev targetPath p k =
     (case map_of (pq_pathMapBackingDev p) targetPath of
        Some dev \<Rightarrow> (p, Inr dev)
      | None \<Rightarrow>
          (case k_stat k targetPath of
             Some e \<Rightarrow> (p, Inl (Errno e))
           | None \<Rightarrow>
               (case k_findMount k targetPath of
                  None \<Rightarrow> (p, Inl NoMount)
                | Some (mountPoint, mountOptions) \<Rightarrow>
                    (case map_of (pq_pathMapBackingDev p) mountPoint of
                       Some dev \<Rightarrow> (p\<lparr>pq_pathMapBackingDev := AList.update targetPath dev (pq_pathMapBackingDev p)\<rparr>, Inr dev)
                     | None \<Rightarrow>
                         let device = path_Join [mountPoint, ''backingFsBlockDev''];
                             put = (\<lambda>dev. p\<lparr>pq_pathMapBackingDev := AList.update targetPath dev (AList.update mountPoint dev (pq_pathMapBackingDev p))\<rparr>);
                             unsupported = \<lparr>bd_supported = False, bd_device = device\<rparr>;
                             supported = \<lparr>bd_supported = True, bd_device = device\<rparr>
                         in if \<not> strings_Contains mountOptions ''prjquota'' then (put unsupported, Inr unsupported)
                            else if getProjectID mountPoint k = Inl (Errno ENOTTY) then (put unsupported, Inr unsupported)
                            else case k_mknod k device of
                              None \<Rightarrow> (put supported, Inr supported)
                            | Some e \<Rightarrow> if e = ENOSYS \<or> e = EPERM then (put unsupported, Inr unsupported)
                                        else (put unsupported, Inl (Errno e))))))"

definition findAvailableBackingDev :: "string \<Rightarrow> projectQuota \<Rightarrow> qkernel \<Rightarrow> projectQuota \<times> (quota_error + backingDev)" where
  "findAvailableBackingDev targetPath p k =
     (case findOrCreateBackingDev targetPath p k of
        (p, Inl e) \<Rightarrow> (p, Inl e)
      | (p, Inr dev) \<Rightarrow> (p, if bd_supported dev then Inr dev else Inl NotSupported))"

section \<open>Ids\<close>

text \<open>
  The search for a free id ends after 257 ids with a limit; ids that are in use do not count, and
  the id wraps around, so with all ids in use it does not end.
\<close>

partial_function (option) allocate_from :: "string \<Rightarrow> quotaID \<Rightarrow> nat \<Rightarrow> projectQuota \<Rightarrow> qkernel \<Rightarrow> (projectQuota \<times> quotaID) option" where
  "allocate_from targetPath n searched p k =
     (if gmap_has (pq_idPaths p) n then allocate_from targetPath (wrap32 (n + 1)) searched p k
      else case findOrCreateBackingDev targetPath p k of
        (p, Inl _) \<Rightarrow> Some (p, noQuotaID)
      | (p, Inr dev) \<Rightarrow>
          if \<not> bd_supported dev then Some (p, noQuotaID)
          else (case getProjectQuota (bd_device dev) n k of
             Inl e \<Rightarrow> Some (p, if e = Errno ENOENT \<or> e = Errno ESRCH then n else noQuotaID)
           | Inr q \<Rightarrow>
               if sz_Quota q = 0 then Some (p, n)
               else if searched + 1 > maxSearch then Some (p, noQuotaID)
               else allocate_from targetPath (wrap32 (n + 1)) (searched + 1) p k))"

definition allocateProjectID :: "string \<Rightarrow> projectQuota \<Rightarrow> qkernel \<Rightarrow> (projectQuota \<times> quotaID) option" where
  "allocateProjectID targetPath p k = allocate_from targetPath firstQuotaID 0 p k"

definition record_id :: "bool \<Rightarrow> string \<Rightarrow> string \<Rightarrow> bool \<Rightarrow> quotaID \<Rightarrow> projectQuota \<Rightarrow> qkernel \<Rightarrow> projectQuota \<times> qkernel" where
  "record_id inHost targetPath pathFlag persist newId p k =
     (let p = p\<lparr>pq_pathIds := AList.update targetPath newId (pq_pathIds p), pq_idPaths := AList.update newId [targetPath] (pq_idPaths p),
                pq_idNames := AList.update newId (IdName newId pathFlag) (pq_idNames p)\<rparr>
      in (p, if persist then save_projids p (save_projects inHost p k) else k))"

text \<open>\<open>None\<close>: the search does not end. The boolean says that the id is new.\<close>

definition findOrCreateProjectId ::
  "bool \<Rightarrow> string \<Rightarrow> string \<Rightarrow> bool \<Rightarrow> bool \<Rightarrow> projectQuota \<Rightarrow> qkernel \<Rightarrow> (projectQuota \<times> qkernel \<times> (quota_error + (quotaID \<times> bool))) option" where
  "findOrCreateProjectId inHost targetPath pathFlag noCreate persist p k =
     (case map_of (pq_pathIds p) targetPath of
        Some prjid \<Rightarrow> Some (p, k, Inr (prjid, False))
      | None \<Rightarrow>
          (case getProjectID targetPath k of
             Inl e \<Rightarrow> Some (p, k, Inl e)
           | Inr idFromSys \<Rightarrow>
               if noCreate then Some (p, k, Inr (idFromSys, True))
               else if idFromSys \<noteq> noQuotaID \<and> \<not> gmap_has (pq_idPaths p) idFromSys
               then let (p, k) = record_id inHost targetPath pathFlag persist idFromSys p k in Some (p, k, Inr (idFromSys, True))
               else (case allocateProjectID targetPath p k of
                  None \<Rightarrow> None
                | Some (p, newId) \<Rightarrow>
                    if newId = noQuotaID then Some (p, k, Inl AllocateFailed)
                    else (case setProjectID targetPath newId k of
                       (k, Some e) \<Rightarrow> Some (p, k, Inl e)
                     | (k, None) \<Rightarrow>
                         let (p, k) = record_id inHost targetPath pathFlag persist newId p k in Some (p, k, Inr (newId, True))))))"

definition bindProjectId :: "string \<Rightarrow> quotaID \<Rightarrow> projectQuota \<Rightarrow> qkernel \<Rightarrow> projectQuota \<times> qkernel \<times> (quota_error + bool)" where
  "bindProjectId targetPath projectId p k =
     (if map_of (pq_pathIds p) targetPath = Some projectId then (p, k, Inr False)
      else case setProjectID targetPath projectId k of
        (k, Some e) \<Rightarrow> (p, k, Inl e)
      | (k, None) \<Rightarrow>
          let paths = (case map_of (pq_idPaths p) projectId of None \<Rightarrow> [targetPath] | Some paths \<Rightarrow> paths @ [targetPath])
          in (p\<lparr>pq_pathIds := AList.update targetPath projectId (pq_pathIds p), pq_idPaths := AList.update projectId paths (pq_idPaths p)\<rparr>, k, Inr True))"

definition findOrCreateSharedProjectId ::
  "bool \<Rightarrow> string \<Rightarrow> string \<Rightarrow> string \<Rightarrow> projectQuota \<Rightarrow> qkernel \<Rightarrow> (projectQuota \<times> qkernel \<times> (quota_error + (quotaID \<times> bool))) option" where
  "findOrCreateSharedProjectId inHost targetPath pathFlag groupName p k =
     (if groupName = [] then Some (p, k, Inl WrongGroupName)
      else let projName = pathFlag @ ''-'' @ groupName in
        case map_of (pq_nameIds p) projName of
          Some prjId \<Rightarrow>
            (case bindProjectId targetPath prjId p k of
               (p, k, Inl e) \<Rightarrow> Some (p, k, Inl e)
             | (p, k, Inr update) \<Rightarrow> Some (p, if update then save_projects inHost p k else k, Inr (prjId, False)))
        | None \<Rightarrow>
            (case findOrCreateProjectId inHost targetPath groupName False False p k of
               None \<Rightarrow> None
             | Some (p, k, Inl e) \<Rightarrow> Some (p, k, Inl e)
             | Some (p, k, Inr (projId, _)) \<Rightarrow>
                 let p = p\<lparr>pq_nameIds := AList.update projName projId (pq_nameIds p), pq_idNames := AList.update projId projName (pq_idNames p)\<rparr>
                 in Some (p, save_projids p (save_projects inHost p k), Inr (projId, True))))"

section \<open>The operations\<close>

definition GetQuota ::
  "bool \<Rightarrow> string \<Rightarrow> projectQuota \<Rightarrow> qkernel \<Rightarrow> (projectQuota \<times> qkernel \<times> (quota_error + DiskQuotaSize)) option" where
  "GetQuota inHost targetPath p k =
     (case findAvailableBackingDev targetPath p k of
        (p, Inl e) \<Rightarrow> Some (p, k, Inl e)
      | (p, Inr dev) \<Rightarrow>
          (case findOrCreateProjectId inHost targetPath [] True False p k of
             None \<Rightarrow> None
           | Some (p, k, Inl e) \<Rightarrow> Some (p, k, Inl e)
           | Some (p, k, Inr (prjId, _)) \<Rightarrow> Some (p, k, getProjectQuota (bd_device dev) prjId k)))"

definition SetQuota ::
  "bool \<Rightarrow> string \<Rightarrow> string \<Rightarrow> DiskQuotaSize option \<Rightarrow> string option \<Rightarrow> projectQuota \<Rightarrow> qkernel
    \<Rightarrow> (projectQuota \<times> qkernel \<times> quota_error option) option" where
  "SetQuota inHost targetPath pathFlag qsize sharedInfo p k =
     (case qsize of
        None \<Rightarrow> Some (p, k, None)
      | Some sz \<Rightarrow>
          if (sz_Quota sz + sz_Inodes sz) mod 2 ^ 64 = 0 then Some (p, k, None)
          else (case findAvailableBackingDev targetPath p k of
             (p, Inl e) \<Rightarrow> Some (p, k, Some e)
           | (p, Inr dev) \<Rightarrow>
               (case (case sharedInfo of
                        Some podName \<Rightarrow> findOrCreateSharedProjectId inHost targetPath pathFlag podName p k
                      | None \<Rightarrow> findOrCreateProjectId inHost targetPath pathFlag False True p k) of
                  None \<Rightarrow> None
                | Some (p, k, Inl e) \<Rightarrow> Some (p, k, Some e)
                | Some (p, k, Inr (prjId, isNewId)) \<Rightarrow>
                    if isNewId then let (k, err) = setProjectQuota (bd_device dev) prjId sz k in Some (p, k, err)
                    else Some (p, k, None))))"

definition forget_path :: "string \<Rightarrow> quotaID \<Rightarrow> projectQuota \<Rightarrow> projectQuota" where
  "forget_path targetPath prjId p =
     p\<lparr>pq_pathIds := AList.delete targetPath (pq_pathIds p), pq_pathMapBackingDev := AList.delete targetPath (pq_pathMapBackingDev p),
       pq_idPaths := AList.delete prjId (pq_idPaths p), pq_idNames := AList.delete prjId (pq_idNames p),
       pq_nameIds := (case map_of (pq_idNames p) prjId of None \<Rightarrow> pq_nameIds p | Some projName \<Rightarrow> AList.delete projName (pq_nameIds p))\<rparr>"

definition ClearQuota :: "bool \<Rightarrow> string \<Rightarrow> projectQuota \<Rightarrow> qkernel \<Rightarrow> (projectQuota \<times> qkernel \<times> quota_error option) option" where
  "ClearQuota inHost targetPath p k =
     (case findAvailableBackingDev targetPath p k of
        (p, Inl e) \<Rightarrow> Some (p, k, Some e)
      | (p, Inr dev) \<Rightarrow>
          (case findOrCreateProjectId inHost targetPath [] True True p k of
             None \<Rightarrow> None
           | Some (p, k, Inl e) \<Rightarrow> Some (p, k, Some e)
           | Some (p, k, Inr (prjId, _)) \<Rightarrow>
               let k = fst (setProjectQuota (bd_device dev) prjId \<lparr>sz_Quota = 0, sz_Inodes = 0, sz_QuotaUsed = 0, sz_InodesUsed = 0\<rparr> k);
                   p = forget_path targetPath prjId p
               in Some (p, save_projids p (save_projects inHost p k), None)))"

text \<open>The recorded paths by volume type, the part of the name before its first dash.\<close>

definition GetAllQuotaPath :: "projectQuota \<Rightarrow> (string, string list) gomap" where
  "GetAllQuotaPath p =
     fold (\<lambda>(n, pathGroup). fold (\<lambda>path m.
         let idName = (case map_of (pq_idNames p) n of None \<Rightarrow> [] | Some s \<Rightarrow> s); pathFlag = hd (split_on (CHR ''-'') idName)
         in AList.update pathFlag (case map_of m pathFlag of None \<Rightarrow> [path] | Some ps \<Rightarrow> List.insert path ps) m) pathGroup) (pq_idPaths p) []"


section \<open>What the helpers leave unchanged\<close>

lemma backing_frame [frame_simps]:
  assumes "findOrCreateBackingDev t p k = (p', r)"
  shows "pq_idNames p' = pq_idNames p" "pq_idPaths p' = pq_idPaths p" "pq_pathIds p' = pq_pathIds p" "pq_nameIds p' = pq_nameIds p"
    "pq_prjFile p' = pq_prjFile p"
  using assms by (auto simp: findOrCreateBackingDev_def Let_def split: option.splits if_splits prod.splits)

lemma available_frame [frame_simps]:
  assumes "findAvailableBackingDev t p k = (p', r)"
  shows "pq_idNames p' = pq_idNames p" "pq_idPaths p' = pq_idPaths p" "pq_pathIds p' = pq_pathIds p" "pq_nameIds p' = pq_nameIds p"
    "pq_prjFile p' = pq_prjFile p"
  using assms backing_frame [of t p k] by (auto simp: findAvailableBackingDev_def split: prod.splits sum.splits)

lemma backing_cached: "findOrCreateBackingDev t p k = (p', Inr dev) \<Longrightarrow> map_of (pq_pathMapBackingDev p') t = Some dev"
  by (auto simp: findOrCreateBackingDev_def Let_def split: option.splits if_splits)

lemma backing_again: "findOrCreateBackingDev t p k = (p', Inr dev) \<Longrightarrow> findOrCreateBackingDev t p' k' = (p', Inr dev)"
  using backing_cached [of t p k p' dev] by (simp add: findOrCreateBackingDev_def [of t p' k'])

lemma available_again:
  assumes "findAvailableBackingDev t p k = (p', Inr dev)"
  shows "findAvailableBackingDev t p' k' = (p', Inr dev)" and "bd_supported dev"
proof -
  have "findOrCreateBackingDev t p k = (p', Inr dev)" and s: "bd_supported dev"
    using assms by (auto simp: findAvailableBackingDev_def split: prod.splits sum.splits if_splits)
  then show "findAvailableBackingDev t p' k' = (p', Inr dev)" "bd_supported dev"
    using backing_again [of t p k p' dev k'] by (simp_all add: findAvailableBackingDev_def)
qed

text \<open>An allocated id is not in use, and has no limit in the kernel.\<close>

definition same_records :: "projectQuota \<Rightarrow> projectQuota \<Rightarrow> bool" where
  "same_records p p' \<longleftrightarrow> pq_idNames p' = pq_idNames p \<and> pq_idPaths p' = pq_idPaths p \<and> pq_pathIds p' = pq_pathIds p \<and>
     pq_nameIds p' = pq_nameIds p \<and> pq_prjFile p' = pq_prjFile p"

lemma allocate_from_free:
  assumes "allocate_from t n searched p k = Some y"
  shows "same_records p (fst y) \<and> (snd y = noQuotaID \<or> map_of (pq_idPaths p) (snd y) = None)"
proof (rule allocate_from.raw_induct [where P = "\<lambda>t n searched p k y. same_records p (fst y) \<and>
    (snd y = noQuotaID \<or> map_of (pq_idPaths p) (snd y) = None)", OF _ assms])
  fix alloc :: "string \<Rightarrow> quotaID \<Rightarrow> nat \<Rightarrow> projectQuota \<Rightarrow> qkernel \<Rightarrow> (projectQuota \<times> quotaID) option"
    and t :: string and n :: quotaID and searched :: nat and p :: projectQuota and k :: qkernel and y :: "projectQuota \<times> quotaID"
  assume ih: "\<And>t n searched p k y. alloc t n searched p k = Some y \<Longrightarrow>
      same_records p (fst y) \<and> (snd y = noQuotaID \<or> map_of (pq_idPaths p) (snd y) = None)"
  assume e: "(if gmap_has (pq_idPaths p) n then alloc t (wrap32 (n + 1)) searched p k
      else case findOrCreateBackingDev t p k of
        (p, Inl _) \<Rightarrow> Some (p, noQuotaID)
      | (p, Inr dev) \<Rightarrow>
          if \<not> bd_supported dev then Some (p, noQuotaID)
          else (case getProjectQuota (bd_device dev) n k of
             Inl e \<Rightarrow> Some (p, if e = Errno ENOENT \<or> e = Errno ESRCH then n else noQuotaID)
           | Inr q \<Rightarrow>
               if sz_Quota q = 0 then Some (p, n)
               else if searched + 1 > maxSearch then Some (p, noQuotaID)
               else alloc t (wrap32 (n + 1)) (searched + 1) p k)) = Some y"
  show "same_records p (fst y) \<and> (snd y = noQuotaID \<or> map_of (pq_idPaths p) (snd y) = None)"
  proof (cases "gmap_has (pq_idPaths p) n")
    case True
    then show ?thesis using e ih by simp
  next
    case False
    obtain q d where q: "findOrCreateBackingDev t p k = (q, d)" by fastforce
    have same: "same_records p q" using backing_frame [OF q] by (simp add: same_records_def)
    have step: "same_records q (fst y) \<and> (snd y = noQuotaID \<or> map_of (pq_idPaths q) (snd y) = None) \<Longrightarrow> ?thesis"
      using same by (simp add: same_records_def)
    show ?thesis using e False q same ih [of t "wrap32 (n + 1)" "searched + 1" q k y] step
      by (auto split: sum.splits if_splits)
  qed
qed


section \<open>The search ends\<close>

lemma allocate_from_returns:
  assumes "m = card {i \<in> fst ` set (pq_idPaths p). n \<le> i} + (257 - searched)" and "- (2 ^ 31) \<le> n" and "n + int m < 2 ^ 31" and "searched \<le> 256"
  shows "\<exists>y. allocate_from t n searched p k = Some y"
  using assms
proof (induction m arbitrary: n searched p rule: less_induct)
  case (less m)
  let ?used = "\<lambda>n p. {i \<in> fst ` set (pq_idPaths p). n \<le> i}"
  have w: "wrap32 (n + 1) = n + 1" if "0 < m" using less.prems that by (intro wrap32_id) simp_all
  have fin: "finite (?used n p)" for n p by simp
  have sub: "?used (n + 1) p \<subseteq> ?used n p" by auto
  have pos: "0 < m" using less.prems by simp
  show ?case
  proof (cases "gmap_has (pq_idPaths p) n")
    case True
    then have "n \<in> ?used n p - ?used (n + 1) p" by (auto simp: map_of_eq_None_iff)
    then have "?used (n + 1) p \<subset> ?used n p" using sub by blast
    then have lt: "card (?used (n + 1) p) < card (?used n p)" using fin by (intro psubset_card_mono) auto
    define m' where "m' = card (?used (n + 1) p) + (257 - searched)"
    have "m' < m" using lt less.prems(1) by (simp add: m'_def)
    moreover have "n + 1 + int m' < 2 ^ 31" using \<open>m' < m\<close> less.prems(3) by linarith
    ultimately have "\<exists>y. allocate_from t (n + 1) searched p k = Some y"
      using less.IH [of m' p "n + 1" searched] less.prems m'_def by simp
    then show ?thesis using True w [OF pos] by (subst allocate_from.simps) simp
  next
    case False
    obtain q d where q: "findOrCreateBackingDev t p k = (q, d)" by fastforce
    have same: "pq_idPaths q = pq_idPaths p" using backing_frame [OF q] by simp
    have more: "\<exists>y. allocate_from t (wrap32 (n + 1)) (searched + 1) q k = Some y" if "searched < 256"
    proof -
      define m' where "m' = card (?used (n + 1) q) + (257 - (searched + 1))"
      have "card (?used (n + 1) q) \<le> card (?used n p)" unfolding same using sub fin by (intro card_mono) auto
      then have "m' < m" using less.prems(1) that by (simp add: m'_def)
      moreover have "n + 1 + int m' < 2 ^ 31" using \<open>m' < m\<close> less.prems(3) by linarith
      ultimately show ?thesis
        using less.IH [of m' q "n + 1" "searched + 1"] less.prems that m'_def w [OF pos] by simp
    qed
    show ?thesis
      using False q more by (subst allocate_from.simps) (auto simp: maxSearch_def split: sum.split)
  qed
qed

text \<open>With fewer than two thousand million recorded ids the search returns.\<close>

lemma allocate_returns:
  assumes "int (length (pq_idPaths p)) < 2 ^ 30"
  shows "\<exists>y. allocateProjectID t p k = Some y"
proof -
  let ?m = "card {i \<in> fst ` set (pq_idPaths p). firstQuotaID \<le> i} + (257 - 0)"
  have "card {i \<in> fst ` set (pq_idPaths p). firstQuotaID \<le> i} \<le> card (fst ` set (pq_idPaths p))" by (intro card_mono) auto
  also have "\<dots> \<le> length (pq_idPaths p)" using card_image_le [of "set (pq_idPaths p)" fst] card_length [of "pq_idPaths p"] by simp
  finally have "firstQuotaID + int ?m < 2 ^ 31" using assms by (simp add: firstQuotaID_def)
  then show ?thesis unfolding allocateProjectID_def by (intro allocate_from_returns [OF refl]) (simp_all add: firstQuotaID_def)
qed

lemma findOrCreate_returns:
  assumes "int (length (pq_idPaths p)) < 2 ^ 30"
  shows "\<exists>y. findOrCreateProjectId inHost t flag nc ps p k = Some y"
  using allocate_returns [OF assms, of t k]
  by (auto simp: findOrCreateProjectId_def Let_def case_prod_unfold split: option.split sum.split)

lemma quota_calls_return:
  assumes "int (length (pq_idPaths p)) < 2 ^ 30"
  shows "(\<exists>y. SetQuota inHost t flag qsize shared p k = Some y) \<and> (\<exists>y. GetQuota inHost t p k = Some y) \<and> (\<exists>y. ClearQuota inHost t p k = Some y)"
proof -
  obtain q r where q: "findAvailableBackingDev t p k = (q, r)" by fastforce
  have small: "int (length (pq_idPaths q)) < 2 ^ 30" using assms available_frame [OF q] by simp
  note ret = findOrCreate_returns [OF small, of inHost t _ _ _ k]
  have sh: "\<exists>y. findOrCreateSharedProjectId inHost t flag g q k = Some y" for g
    using ret [of g False False]
    by (auto simp: findOrCreateSharedProjectId_def Let_def case_prod_unfold split: option.split sum.split)
  show ?thesis
  proof (intro conjI)
    show "\<exists>y. SetQuota inHost t flag qsize shared p k = Some y"
      using sh [of "the shared"] ret [of flag False True]
      by (cases shared) (auto simp: SetQuota_def q Let_def case_prod_unfold split: option.split sum.split)
    show "\<exists>y. GetQuota inHost t p k = Some y"
      using ret [of "[]" True False] by (auto simp: GetQuota_def q case_prod_unfold split: option.split sum.split)
    show "\<exists>y. ClearQuota inHost t p k = Some y"
      using ret [of "[]" True True] by (auto simp: ClearQuota_def q Let_def case_prod_unfold split: option.split sum.split)
  qed
qed


text \<open>C27. No operation of the quota manager hangs: while fewer than \<open>2 ^ 30\<close> ids are recorded, the search for a free id,
  which wraps around at the largest int32, ends, and setting, reading and clearing a quota return.\<close>

theorem quota_operations_return:
  assumes "int (length (pq_idPaths p)) < 2 ^ 30"
  shows "(\<exists>y. SetQuota inHost t flag qsize shared p k = Some y) \<and> (\<exists>y. GetQuota inHost t p k = Some y) \<and> (\<exists>y. ClearQuota inHost t p k = Some y)"
  using assms by (rule quota_calls_return)

section \<open>Exclusive quotas\<close>

text \<open>Each recorded path has an id of its own, and each recorded id one path.\<close>

definition exclusive :: "projectQuota \<Rightarrow> bool" where
  "exclusive p \<longleftrightarrow> (\<forall>q n. map_of (pq_pathIds p) q = Some n \<longleftrightarrow> map_of (pq_idPaths p) n = Some [q]) \<and>
     (\<forall>n ps. map_of (pq_idPaths p) n = Some ps \<longrightarrow> (\<exists>q. ps = [q])) \<and> wf_map (pq_idPaths p)"

lemma exclusive_inj: "exclusive p \<Longrightarrow> map_of (pq_pathIds p) q = Some n \<Longrightarrow> map_of (pq_pathIds p) q' = Some n \<Longrightarrow> q = q'"
  by (auto simp: exclusive_def simp del: map_of_eq_Some_iff)

lemma exclusive_same: "same_records p p' \<Longrightarrow> exclusive p' = exclusive p"
  by (simp add: exclusive_def same_records_def)

lemma exclusive_record:
  assumes "exclusive p" and "map_of (pq_pathIds p) t = None" and "map_of (pq_idPaths p) n = None" and "record_id inHost t flag ps n p k = (p', k')"
  shows "exclusive p'"
proof -
  have m: "map_of (pq_pathIds p') q = (if q = t then Some n else map_of (pq_pathIds p) q)"
    "map_of (pq_idPaths p') i = (if i = n then Some [t] else map_of (pq_idPaths p) i)" for q i
    using assms(4) by (auto simp: record_id_def Let_def)
  have inv: "\<And>q n. map_of (pq_pathIds p) q = Some n \<longleftrightarrow> map_of (pq_idPaths p) n = Some [q]"
    "\<And>n ps. map_of (pq_idPaths p) n = Some ps \<Longrightarrow> \<exists>q. ps = [q]"
    using assms(1) unfolding exclusive_def by blast+
  have wf: "wf_map (pq_idPaths p')" using assms by (auto simp: exclusive_def record_id_def Let_def)
  show ?thesis
    unfolding exclusive_def m
    using inv(2) inv(1) [of _ n] inv(1) [of t] inv(1) assms(2,3) wf by (auto simp del: map_of_eq_Some_iff split: if_splits)
qed

lemma exclusive_forget:
  assumes "exclusive p" and "map_of (pq_pathIds p) t = Some n"
  shows "exclusive (forget_path t n p)"
proof -
  have m: "map_of (pq_pathIds (forget_path t n p)) q = (if q = t then None else map_of (pq_pathIds p) q)"
    "map_of (pq_idPaths (forget_path t n p)) i = (if i = n then None else map_of (pq_idPaths p) i)" for q i
    by (auto simp: forget_path_def)
  have inv: "\<And>q n. map_of (pq_pathIds p) q = Some n \<longleftrightarrow> map_of (pq_idPaths p) n = Some [q]"
    "\<And>n ps. map_of (pq_idPaths p) n = Some ps \<Longrightarrow> \<exists>q. ps = [q]"
    using assms(1) unfolding exclusive_def by blast+
  have wf: "wf_map (pq_idPaths (forget_path t n p))" using assms by (auto simp: exclusive_def forget_path_def)
  have n: "map_of (pq_idPaths p) n = Some [t]" "\<And>i. map_of (pq_idPaths p) i = Some [t] \<Longrightarrow> i = n"
    using inv(1) [of t] assms(2) by (metis option.inject)+
  show ?thesis
    unfolding exclusive_def m
  proof (intro conjI allI impI)
    fix q i
    show "((if q = t then None else map_of (pq_pathIds p) q) = Some i) = ((if i = n then None else map_of (pq_idPaths p) i) = Some [q])"
    proof (cases "q = t")
      case True
      then show ?thesis using n(2) by (cases "i = n") auto
    next
      case False
      then show ?thesis using n(1) inv(1) [of q i] by (cases "i = n") simp_all
    qed
  next
    fix i ps assume "(if i = n then None else map_of (pq_idPaths p) i) = Some ps"
    then show "\<exists>q. ps = [q]" using inv(2) [of i ps] by (cases "i = n") simp_all
  qed (rule wf)
qed

lemma exclusive_findOrCreate:
  assumes "exclusive p" and "findOrCreateProjectId inHost t flag nc ps p k = Some (p', k', r)"
  shows "exclusive p'"
proof (cases "map_of (pq_pathIds p) t")
  case None
  show ?thesis
  proof (cases "\<exists>n. getProjectID t k = Inr n \<and> \<not> nc \<and> (n = noQuotaID \<or> gmap_has (pq_idPaths p) n)")
    case True
    then obtain n where n: "getProjectID t k = Inr n" "\<not> nc" "n = noQuotaID \<or> gmap_has (pq_idPaths p) n" by blast
    obtain q new where a: "allocateProjectID t p k = Some (q, new)"
      using assms(2) None n by (auto simp: findOrCreateProjectId_def split: option.splits)
    have q: "same_records p q" "new = noQuotaID \<or> map_of (pq_idPaths p) new = None"
      using allocate_from_free [OF a [unfolded allocateProjectID_def]] by auto
    then have ex: "exclusive q" using assms(1) exclusive_same by blast
    have fresh: "map_of (pq_pathIds q) t = None" using q None by (simp add: same_records_def)
    obtain k1 e where s: "setProjectID t new k = (k1, e)" by fastforce
    show ?thesis
    proof (cases "new = noQuotaID \<or> e \<noteq> None")
      case True
      then show ?thesis using assms(2) None n a s ex by (auto simp: findOrCreateProjectId_def split: if_splits)
    next
      case False
      obtain p1 k2 where r: "record_id inHost t flag ps new q k1 = (p1, k2)" by fastforce
      then have "p' = p1" using assms(2) None n a s False by (auto simp: findOrCreateProjectId_def)
      moreover have "map_of (pq_idPaths q) new = None" using q False by (simp add: same_records_def)
      ultimately show ?thesis using exclusive_record [OF ex fresh _ r] by simp
    qed
  next
    case False
    then show ?thesis
      using assms None exclusive_record [OF assms(1) None]
      by (auto simp: findOrCreateProjectId_def Let_def split: sum.splits if_splits prod.splits)
  qed
qed (use assms in \<open>auto simp: findOrCreateProjectId_def\<close>)

lemma exclusive_available: "findAvailableBackingDev t p k = (p', r) \<Longrightarrow> exclusive p' = exclusive p"
  using available_frame by (intro exclusive_same) (auto simp: same_records_def)

lemma exclusive_SetQuota:
  assumes "exclusive p" and "SetQuota inHost t flag qsize None p k = Some (p', k', r)"
  shows "exclusive p'"
proof (cases "qsize = None \<or> (sz_Quota (the qsize) + sz_Inodes (the qsize)) mod 2 ^ 64 = 0")
  case False
  then obtain sz where sz: "qsize = Some sz" "(sz_Quota sz + sz_Inodes sz) mod 2 ^ 64 \<noteq> 0" by auto
  obtain q d where q: "findAvailableBackingDev t p k = (q, d)" by fastforce
  then have ex: "exclusive q" using assms(1) exclusive_available by blast
  show ?thesis
  proof (cases d)
    case (Inr dev)
    obtain p1 k1 r1 where f: "findOrCreateProjectId inHost t flag False True q k = Some (p1, k1, r1)"
      using assms(2) sz q Inr by (auto simp: SetQuota_def split: option.splits)
    then have "exclusive p1" using exclusive_findOrCreate [OF ex] by blast
    moreover have "p' = p1"
      using assms(2) sz q Inr f by (auto simp: SetQuota_def Let_def case_prod_unfold split: sum.splits if_splits)
    ultimately show ?thesis by simp
  qed (use assms(2) sz q ex in \<open>auto simp: SetQuota_def\<close>)
qed (use assms in \<open>cases qsize; auto simp: SetQuota_def\<close>)

lemma exclusive_GetQuota:
  assumes "exclusive p" and "GetQuota inHost t p k = Some (p', k', r)"
  shows "exclusive p'"
proof -
  obtain q d where q: "findAvailableBackingDev t p k = (q, d)" by fastforce
  then have ex: "exclusive q" using assms(1) exclusive_available by blast
  show ?thesis
    using assms(2) q ex exclusive_findOrCreate [OF ex, of inHost t "[]" True False k]
    by (auto simp: GetQuota_def split: sum.splits option.splits prod.splits)
qed

lemma exclusive_ClearQuota:
  assumes "exclusive p" and "ClearQuota inHost t p k = Some (p', k', r)" and "map_of (pq_pathIds p) t = Some n"
  shows "exclusive p'"
proof -
  obtain q d where q: "findAvailableBackingDev t p k = (q, d)" by fastforce
  then have ex: "exclusive q" using assms(1) exclusive_available by blast
  have "map_of (pq_pathIds q) t = Some n" using assms(3) available_frame [OF q] by simp
  then have "findOrCreateProjectId inHost t [] True True q k = Some (q, k, Inr (n, False))" "exclusive (forget_path t n q)"
    using exclusive_forget [OF ex] by (simp_all add: findOrCreateProjectId_def)
  then show ?thesis using assms(2) q ex by (auto simp: ClearQuota_def Let_def split: sum.splits)
qed

text \<open>Clearing a recorded path leaves the other paths as they are.\<close>

lemma ClearQuota_others:
  assumes "ClearQuota inHost t p k = Some (p', k', r)" and "map_of (pq_pathIds p) t = Some n" and "t' \<noteq> t"
  shows "map_of (pq_pathIds p') t' = map_of (pq_pathIds p) t'"
proof -
  obtain q d where q: "findAvailableBackingDev t p k = (q, d)" by fastforce
  have same: "pq_pathIds q = pq_pathIds p" using available_frame [OF q] by simp
  then have "findOrCreateProjectId inHost t [] True True q k = Some (q, k, Inr (n, False))" using assms(2) by (simp add: findOrCreateProjectId_def)
  then show ?thesis using assms(1,3) q same by (auto simp: ClearQuota_def Let_def forget_path_def split: sum.splits)
qed

text \<open>
  The calls of the disk quota manager for volumes without a shared quota: setting and reading quotas of any path, and
  clearing the quota of a recorded one. The kernel and the files may change in between.
\<close>

inductive quota_step :: "bool \<Rightarrow> projectQuota \<times> qkernel \<Rightarrow> projectQuota \<times> qkernel \<Rightarrow> bool" for inHost where
  step_set: "SetQuota inHost t flag qsize None p k = Some (p', k', r) \<Longrightarrow> quota_step inHost (p, k) (p', k')"
| step_get: "GetQuota inHost t p k = Some (p', k', r) \<Longrightarrow> quota_step inHost (p, k) (p', k')"
| step_clear: "map_of (pq_pathIds p) t = Some n \<Longrightarrow> ClearQuota inHost t p k = Some (p', k', r) \<Longrightarrow> quota_step inHost (p, k) (p', k')"
| step_kernel: "quota_step inHost (p, k) (p, k')"

lemma exclusive_step: "quota_step inHost s s' \<Longrightarrow> exclusive (fst s) \<Longrightarrow> exclusive (fst s')"
  by (induction rule: quota_step.induct)
    (auto intro: exclusive_SetQuota exclusive_GetQuota exclusive_ClearQuota)

lemma exclusive_steps: "(quota_step inHost)\<^sup>*\<^sup>* s s' \<Longrightarrow> exclusive (fst s) \<Longrightarrow> exclusive (fst s')"
  by (induction rule: rtranclp_induct) (auto intro: exclusive_step)

text \<open>Exclusive quotas are exclusive: starting without records, whatever the kernel answers and in whatever order quotas
  are set, read and cleared, two paths never have the same project id, so no volume uses up the limit of another.\<close>

lemma exclusive_quotas_have_own_ids:
  assumes "k_projects k0 = None" and "k_projidFile k0 = None" and "(quota_step inHost)\<^sup>*\<^sup>* (NewProjectQuota inHost k0, k0) (p, k)"
    and "map_of (pq_pathIds p) t = Some n" and "map_of (pq_pathIds p) t' = Some n"
  shows "t = t'"
proof -
  have "exclusive (NewProjectQuota inHost k0)"
    using assms(1,2) by (simp add: NewProjectQuota_def DumpProjectIds_def dumpProjectsFile_def exclusive_def)
  then have "exclusive p" using exclusive_steps [OF assms(3)] by simp
  then show ?thesis using exclusive_inj assms(4,5) by blast
qed


section \<open>Limits in the kernel\<close>

lemma findOrCreate_records:
  assumes "findOrCreateProjectId inHost t flag False ps p k = Some (p', k', Inr (n, isNew))"
  shows "map_of (pq_pathIds p') t = Some n"
  using assms
  by (auto simp: findOrCreateProjectId_def record_id_def Let_def case_prod_unfold split: option.splits sum.splits if_splits prod.splits)

lemma allocate_from_cached:
  assumes "allocate_from t n searched p k = Some y"
  shows "map_of (pq_pathMapBackingDev p) t = Some dev \<longrightarrow> fst y = p"
proof (rule allocate_from.raw_induct [where P = "\<lambda>t n searched p k y. map_of (pq_pathMapBackingDev p) t = Some dev \<longrightarrow> fst y = p", OF _ assms])
  fix alloc :: "string \<Rightarrow> quotaID \<Rightarrow> nat \<Rightarrow> projectQuota \<Rightarrow> qkernel \<Rightarrow> (projectQuota \<times> quotaID) option"
    and t :: string and n :: quotaID and searched :: nat and p :: projectQuota and k :: qkernel and y :: "projectQuota \<times> quotaID"
  assume ih: "\<And>t n searched p k y. alloc t n searched p k = Some y \<Longrightarrow> map_of (pq_pathMapBackingDev p) t = Some dev \<longrightarrow> fst y = p"
    and e: "(if gmap_has (pq_idPaths p) n then alloc t (wrap32 (n + 1)) searched p k
      else case findOrCreateBackingDev t p k of
        (p, Inl _) \<Rightarrow> Some (p, noQuotaID)
      | (p, Inr dev) \<Rightarrow>
          if \<not> bd_supported dev then Some (p, noQuotaID)
          else (case getProjectQuota (bd_device dev) n k of
             Inl e \<Rightarrow> Some (p, if e = Errno ENOENT \<or> e = Errno ESRCH then n else noQuotaID)
           | Inr q \<Rightarrow>
               if sz_Quota q = 0 then Some (p, n)
               else if searched + 1 > maxSearch then Some (p, noQuotaID)
               else alloc t (wrap32 (n + 1)) (searched + 1) p k)) = Some y"
  show "map_of (pq_pathMapBackingDev p) t = Some dev \<longrightarrow> fst y = p"
  proof
    assume c: "map_of (pq_pathMapBackingDev p) t = Some dev"
    then have "findOrCreateBackingDev t p k = (p, Inr dev)" by (simp add: findOrCreateBackingDev_def)
    then show "fst y = p"
      using e c ih [of t "wrap32 (n + 1)" searched p k y] ih [of t "wrap32 (n + 1)" "searched + 1" p k y]
      by (auto split: if_splits sum.splits)
  qed
qed

lemma findOrCreate_cache:
  assumes "findOrCreateProjectId inHost t flag nc ps p k = Some (p', k', r)" and "map_of (pq_pathMapBackingDev p) t = Some dev"
  shows "map_of (pq_pathMapBackingDev p') t = Some dev"
proof -
  have keep: "q = p" if "allocateProjectID t p k = Some (q, n)" for q n
    using allocate_from_cached [OF that [unfolded allocateProjectID_def]] assms(2) by simp
  show ?thesis
    using assms keep
    by (auto simp: findOrCreateProjectId_def record_id_def Let_def case_prod_unfold
        split: option.splits sum.splits if_splits prod.splits)
qed

text \<open>The steps of a call that reaches the kernel's limits.\<close>

lemma SetQuota_new_id:
  assumes "(sz_Quota sz + sz_Inodes sz) mod 2 ^ 64 \<noteq> 0" and "findAvailableBackingDev t p k = (p1, Inr dev)"
    and "findOrCreateProjectId inHost t flag False True p1 k = Some (p2, k1, Inr (n, True))"
  shows "SetQuota inHost t flag (Some sz) None p k =
    (case setProjectQuota (bd_device dev) n sz k1 of (k2, err) \<Rightarrow> Some (p2, k2, err))"
  using assms by (simp add: SetQuota_def)

lemma available_after:
  assumes "findAvailableBackingDev t p k = (p1, Inr dev)" and "findOrCreateProjectId inHost t flag nc ps p1 k = Some (p2, k1, r)"
  shows "findAvailableBackingDev t p2 k' = (p2, Inr dev)"
proof -
  have s: "bd_supported dev" and c: "map_of (pq_pathMapBackingDev p1) t = Some dev"
    using assms(1) backing_cached [of t p k p1 dev]
    by (auto simp: findAvailableBackingDev_def split: prod.splits sum.splits if_splits)
  from findOrCreate_cache [OF assms(2) c] s show ?thesis by (simp add: findAvailableBackingDev_def findOrCreateBackingDev_def)
qed

text \<open>A limit that was set for a new id is read back in whole blocks of 512 bytes: the size
  rounded down, the number of inodes unchanged. (A size below 512 bytes becomes zero, which means no limit.)\<close>

lemma quota_read_back:
  assumes "(sz_Quota sz + sz_Inodes sz) mod 2 ^ 64 \<noteq> 0" and "sz_Quota sz < 2 ^ 64" and "findAvailableBackingDev t p k = (p1, Inr dev)"
    and "findOrCreateProjectId inHost t flag False True p1 k = Some (p2, k1, Inr (n, True))"
    and "SetQuota inHost t flag (Some sz) None p k = Some (p', k', None)"
  shows "\<exists>q. GetQuota inHost t p' k' = Some (p', k', Inr q) \<and> sz_Quota q = sz_Quota sz - sz_Quota sz mod 512 \<and> sz_Inodes q = sz_Inodes sz"
proof -
  obtain k2 err where s: "setProjectQuota (bd_device dev) n sz k1 = (k2, err)" by fastforce
  then have p': "p' = p2" "k' = k2" "err = None" using SetQuota_new_id [OF assms(1,3,4)] assms(5) by simp_all
  have av: "findAvailableBackingDev t p2 k2 = (p2, Inr dev)" using available_after [OF assms(3,4)] .
  have f: "findOrCreateProjectId inHost t [] True False p2 k2 = Some (p2, k2, Inr (n, False))"
    using findOrCreate_records [OF assms(4)] by (simp add: findOrCreateProjectId_def)
  have "sz_Quota sz div 512 * 512 = sz_Quota sz - sz_Quota sz mod 512" by (simp add: minus_mod_eq_div_mult)
  moreover have "sz_Quota sz div 512 * 512 < 2 ^ 64" using assms(2) by (meson div_times_less_eq_dividend le_less_trans)
  ultimately show ?thesis
    using s p' by (auto simp: GetQuota_def av f setProjectQuota_def getProjectQuota_def Let_def split: option.splits)
qed

text \<open>A limit the kernel refused is not set again: the id is recorded before the limit is written, so
  the next call for the path finds it, writes nothing, and reports success.\<close>

lemma refused_limit_reported_as_set:
  assumes "(sz_Quota sz + sz_Inodes sz) mod 2 ^ 64 \<noteq> 0" and "findAvailableBackingDev t p k = (p1, Inr dev)"
    and "findOrCreateProjectId inHost t flag False True p1 k = Some (p2, k1, Inr (n, True))"
    and "k_setquota k1 (bd_device dev) (u32 n) = Some e"
  shows "SetQuota inHost t flag (Some sz) None p k = Some (p2, k1, Some (Errno e)) \<and>
    (\<forall>k'. SetQuota inHost t flag (Some sz) None p2 k' = Some (p2, k', None))"
proof -
  have f: "findOrCreateProjectId inHost t flag False True p2 k' = Some (p2, k', Inr (n, False))" for k'
    using findOrCreate_records [OF assms(3)] by (simp add: findOrCreateProjectId_def)
  have "SetQuota inHost t flag (Some sz) None p2 k' = Some (p2, k', None)" for k'
    using assms(1) available_after [OF assms(2,3), of k'] f [of k'] by (simp add: SetQuota_def)
  then show ?thesis using SetQuota_new_id [OF assms(1-3)] assms(4) by (simp add: setProjectQuota_def)
qed


section \<open>A node with one data disk\<close>

definition data_disk :: qkernel where
  "data_disk = \<lparr>k_stat = (\<lambda>_. None), k_findMount = (\<lambda>_. Some (''/data'', ''rw,prjquota'')), k_openDir = (\<lambda>_. True),
     k_projid = (\<lambda>_. Inr 0), k_setid = (\<lambda>_. None), k_quota = (\<lambda>_ _. Inl ENOENT), k_setquota = (\<lambda>_ _. None), k_mknod = (\<lambda>_. None),
     k_projects = None, k_projidFile = None, k_writeProjects = False, k_writeProjid = False\<rparr>"

definition data_dev :: backingDev where
  "data_dev = \<lparr>bd_supported = True, bd_device = ''/data/backingFsBlockDev''\<rparr>"

definition no_records :: projectQuota where
  "no_records = \<lparr>pq_pathMapBackingDev = [(''/data'', data_dev), (''/data/a'', data_dev)],
     pq_idNames = [], pq_idPaths = [], pq_pathIds = [], pq_nameIds = [], pq_prjFile = True\<rparr>"

definition one_record :: projectQuota where
  "one_record = no_records\<lparr>pq_idNames := [(1048577, IdName 1048577 ''hostPath'')], pq_idPaths := [(1048577, [''/data/a''])],
     pq_pathIds := [(''/data/a'', 1048577)]\<rparr>"

definition with_id :: qkernel where
  "with_id = data_disk\<lparr>k_projid := (k_projid data_disk)(''/data/a'' := Inr 1048577)\<rparr>"

definition one_gib :: DiskQuotaSize where
  "one_gib = \<lparr>sz_Quota = 1073741825, sz_Inodes = 0, sz_QuotaUsed = 0, sz_InodesUsed = 0\<rparr>"

lemma first_device:
  "findAvailableBackingDev ''/data/a'' (NewProjectQuota True data_disk) data_disk = (no_records, Inr data_dev)"
proof -
  have "path_Join [''/data'', ''backingFsBlockDev''] = ''/data/backingFsBlockDev''" by (simp add: path_Join_def path_Clean_def)
  moreover have "strings_Contains ''rw,prjquota'' ''prjquota''" by (simp add: strings_HasPrefix_def)
  moreover have "getProjectID ''/data'' data_disk \<noteq> Inl (Errno ENOTTY)" by (simp add: getProjectID_def data_disk_def)
  ultimately show ?thesis
    by (simp add: findAvailableBackingDev_def findOrCreateBackingDev_def NewProjectQuota_def DumpProjectIds_def dumpProjectsFile_def
        data_disk_def no_records_def data_dev_def Let_def)
qed

lemma first_allocation: "allocateProjectID ''/data/a'' no_records data_disk = Some (no_records, 1048577)"
  unfolding allocateProjectID_def
  by (subst allocate_from.simps)
    (simp add: no_records_def data_dev_def findOrCreateBackingDev_def getProjectQuota_def data_disk_def firstQuotaID_def)

lemma first_id:
  "findOrCreateProjectId True ''/data/a'' ''hostPath'' False True no_records data_disk = Some (one_record, with_id, Inr (1048577, True))"
proof -
  have g: "getProjectID ''/data/a'' data_disk = Inr 0" by (simp add: getProjectID_def data_disk_def wrap32_def)
  have s: "setProjectID ''/data/a'' 1048577 data_disk = (with_id, None)"
    by (simp add: setProjectID_def with_id_def data_disk_def u32_def)
  have "map_of (pq_pathIds no_records) ''/data/a'' = None" by (simp add: no_records_def)
  moreover have "record_id True ''/data/a'' ''hostPath'' True 1048577 no_records with_id = (one_record, with_id)"
    by (simp add: record_id_def one_record_def no_records_def save_projects_def save_projids_def with_id_def data_disk_def)
  ultimately show ?thesis by (simp add: findOrCreateProjectId_def g s first_allocation noQuotaID_def)
qed

lemma sample_set: "SetQuota True ''/data/a'' ''hostPath'' (Some one_gib) None (NewProjectQuota True data_disk) data_disk =
    Some (one_record, fst (setProjectQuota (bd_device data_dev) 1048577 one_gib with_id), None)"
  using SetQuota_new_id [OF _ first_device first_id, of one_gib]
  by (simp add: one_gib_def setProjectQuota_def with_id_def data_disk_def Let_def)

theorem quota_read_back_witness:
  "\<exists>k' q. SetQuota True ''/data/a'' ''hostPath'' (Some one_gib) None (NewProjectQuota True data_disk) data_disk = Some (one_record, k', None) \<and>
     GetQuota True ''/data/a'' one_record k' = Some (one_record, k', Inr q) \<and> sz_Quota q = 1073741824"
  using quota_read_back [OF _ _ first_device first_id sample_set] sample_set by (auto simp: one_gib_def)

theorem refused_limit_reported_as_set_witness:
  "\<exists>p2 k1. SetQuota True ''/data/a'' ''hostPath'' (Some one_gib) None no_records
       (data_disk\<lparr>k_projid := (k_projid data_disk)(''/data/a'' := Inr 7), k_setquota := (\<lambda>_ _. Some EPERM)\<rparr>) = Some (p2, k1, Some (Errno EPERM)) \<and>
     SetQuota True ''/data/a'' ''hostPath'' (Some one_gib) None p2 k1 = Some (p2, k1, None)"
proof -
  let ?k = "data_disk\<lparr>k_projid := (k_projid data_disk)(''/data/a'' := Inr 7), k_setquota := (\<lambda>_ _. Some EPERM)\<rparr>"
  have d: "findAvailableBackingDev ''/data/a'' no_records ?k = (no_records, Inr data_dev)"
    by (simp add: findAvailableBackingDev_def findOrCreateBackingDev_def no_records_def data_dev_def)
  have g: "getProjectID ''/data/a'' ?k = Inr 7" by (simp add: getProjectID_def data_disk_def wrap32_def)
  obtain p2 k1 where r: "record_id True ''/data/a'' ''hostPath'' True 7 no_records ?k = (p2, k1)" by fastforce
  have f: "findOrCreateProjectId True ''/data/a'' ''hostPath'' False True no_records ?k = Some (p2, k1, Inr (7, True))"
    using r by (simp add: findOrCreateProjectId_def g noQuotaID_def no_records_def)
  have "k_setquota k1 (bd_device data_dev) (u32 7) = Some EPERM"
    using r by (auto simp: record_id_def Let_def save_projects_def save_projids_def data_disk_def)
  from refused_limit_reported_as_set [OF _ d f this, of one_gib] show ?thesis by (auto simp: one_gib_def)
qed

theorem quota_operations_return_witness: "\<exists>y. ClearQuota True ''/data/a'' one_record with_id = Some y"
  using quota_operations_return [of one_record True "''/data/a''" "[]" None None with_id] by (simp add: one_record_def)

theorem exclusive_quotas_have_own_ids_witness:
  "\<exists>p k. (quota_step True)\<^sup>*\<^sup>* (NewProjectQuota True data_disk, data_disk) (p, k) \<and> map_of (pq_pathIds p) ''/data/a'' = Some 1048577 \<and>
     map_of (pq_pathIds p) ''/data/b'' \<noteq> Some 1048577"
proof -
  obtain k where "quota_step True (NewProjectQuota True data_disk, data_disk) (one_record, k)"
    using quota_step.step_set [OF sample_set] by blast
  then have st: "(quota_step True)\<^sup>*\<^sup>* (NewProjectQuota True data_disk, data_disk) (one_record, k)" by (rule r_into_rtranclp)
  have a: "map_of (pq_pathIds one_record) ''/data/a'' = Some 1048577" by (simp add: one_record_def)
  have "map_of (pq_pathIds one_record) ''/data/b'' \<noteq> Some 1048577"
    using exclusive_quotas_have_own_ids [OF _ _ st a, of "''/data/b''"] by (auto simp: data_disk_def)
  then show ?thesis using st a by blast
qed

text \<open>
  Clearing one path of a shared quota forgets the id but not the other paths: they keep the id,
  which the next search can give to a path of another pod.
\<close>

lemma cleared_group_id_reused:
  assumes "map_of (pq_pathIds p) b = Some firstQuotaID" and "a \<noteq> b" and "q = forget_path a firstQuotaID p"
    and "map_of (pq_pathMapBackingDev q) c = Some dev" and "bd_supported dev"
    and "k_quota k (bd_device dev) (u32 firstQuotaID) = Inr d" and "d_blk_hardlimit d = 0"
  shows "map_of (pq_pathIds q) b = Some firstQuotaID \<and> allocateProjectID c q k = Some (q, firstQuotaID)"
  using assms
  by (simp add: allocateProjectID_def allocate_from.simps [of c firstQuotaID] findOrCreateBackingDev_def getProjectQuota_def forget_path_def
      del: map_of_eq_Some_iff)

text \<open>After a restart the quota of a directory that is gone is never cleared: its device is not known any more.\<close>

lemma vanished_path_not_cleared:
  assumes "k_stat k t = Some e"
  shows "ClearQuota inHost t (NewProjectQuota inHost k0) k = Some (NewProjectQuota inHost k0, k, Some (Errno e))"
  using assms by (simp add: ClearQuota_def findAvailableBackingDev_def findOrCreateBackingDev_def NewProjectQuota_def case_prod_unfold Let_def)

end
