(* ===== verification/DiskQuota.thy ===== *)
theory DiskQuota
  imports ProjectQuota Quantity "HOL-Library.List_Lexorder" "HOL-Library.Char_ord"
begin

text \<open>
  \<^verbatim>\<open>diskquota/volumes\<close> and \<^verbatim>\<open>diskquota/diskquota.go\<close>: which directories of a pod get a quota and of what size, and the
  round that sets quotas for new pods, reads usage for old ones and clears quotas of directories that are gone. A panic is
  \<open>None\<close>. The container runtime's answers and the clock are inputs.
\<close>

section \<open>Volumes of a pod\<close>

record 'q EmptyDirSource =
  ed_Medium :: string
  ed_SizeLimit :: "'q option"

record 'q Volume =
  v_Name :: string
  v_HostPath :: "string option"
  v_EmptyDir :: "'q EmptyDirSource option"

record 'q volume_pod = "'q pod" +
  p_Volumes :: "'q Volume list"

record PathInfo =
  pi_Path :: string
  pi_Size :: "DiskQuotaSize option"
  pi_SharedInfo :: "string option"

definition PodAnnotationPrefix :: string where "PodAnnotationPrefix = ''mixer.kubernetes.io/''"

definition no_size :: DiskQuotaSize where
  "no_size = \<lparr>sz_Quota = 0, sz_Inodes = 0, sz_QuotaUsed = 0, sz_InodesUsed = 0\<rparr>"

text \<open>One expression of an annotation such as \<^verbatim>\<open>quota=10Gi,inodes=1000\<close>; a bad one is skipped.\<close>

definition add_expression :: "'q qops \<Rightarrow> string \<Rightarrow> DiskQuotaSize option \<Rightarrow> DiskQuotaSize option" where
  "add_expression Q e quotaSize =
     (let ranges = split_on (CHR ''='') e in
      if length ranges \<noteq> 2 then quotaSize
      else case q_parse Q (strings_TrimSpace (ranges ! 1)) of
        None \<Rightarrow> quotaSize
      | Some qv \<Rightarrow>
          if q_value Q qv < 0 then quotaSize
          else let sz = (case quotaSize of None \<Rightarrow> no_size | Some sz \<Rightarrow> sz); quotaName = strings_TrimSpace (ranges ! 0); v = nat (q_value Q qv)
               in Some (if quotaName = ''quota'' then sz\<lparr>sz_Quota := v\<rparr> else if quotaName = ''inodes'' then sz\<lparr>sz_Inodes := v\<rparr> else sz))"

definition convertDiskQuotaFromAnnotations :: "'q qops \<Rightarrow> (string, string) gomap option \<Rightarrow> string \<Rightarrow> DiskQuotaSize option" where
  "convertDiskQuotaFromAnnotations Q annos key =
     (case Option.bind annos (\<lambda>m. map_of m key) of
        None \<Rightarrow> None
      | Some valueStr \<Rightarrow> fold (add_expression Q) (split_on (CHR '','') valueStr) None)"

definition getVolumeQuotaSize :: "'q qops \<Rightarrow> 'q volume_pod \<Rightarrow> string \<Rightarrow> DiskQuotaSize option \<Rightarrow> DiskQuotaSize option" where
  "getVolumeQuotaSize Q pod quotaKey offlineSize =
     (let quotaSize = convertDiskQuotaFromAnnotations Q (p_Annotations pod) quotaKey
      in if IsOffline (pod.truncate pod) \<and> quotaSize = None then offlineSize else quotaSize)"

definition nilVolumeQuotaSize :: "DiskQuotaSize option \<Rightarrow> bool" where
  "nilVolumeQuotaSize size' = (case size' of None \<Rightarrow> True | Some sz \<Rightarrow> sz_Quota sz = 0 \<and> sz_Inodes sz = 0)"

section \<open>Root file systems\<close>

text \<open>What the runtime says of a container: its status, whether it runs, and its merged directory.\<close>

record ContainerJSON =
  cj_Status :: string
  cj_Running :: bool
  cj_MergedDir :: "string option"

definition strings_TrimSuffix :: "string \<Rightarrow> string \<Rightarrow> string" where
  "strings_TrimSuffix s suf = (if length suf \<le> length s \<and> drop (length s - length suf) s = suf then take (length s - length suf) s else s)"

definition getContainerRootPath :: "(string \<Rightarrow> ContainerJSON option) \<Rightarrow> string \<Rightarrow> string" where
  "getContainerRootPath inspect cid =
     (case inspect cid of
        None \<Rightarrow> []
      | Some conJson \<Rightarrow>
          if cj_Status conJson \<noteq> ''running'' \<or> \<not> cj_Running conJson then []
          else case cj_MergedDir conJson of None \<Rightarrow> [] | Some mergedPath \<Rightarrow> strings_TrimSuffix mergedPath ''/merged'')"

definition getContainerIDs :: "'q volume_pod \<Rightarrow> string list" where
  "getContainerIDs pod = filter (\<lambda>cid. cid \<noteq> []) (map (\<lambda>i. strings_TrimPrefix i ''docker://'') (p_ContainerIDs pod))"

definition in_namespace :: "bool \<Rightarrow> string \<Rightarrow> string" where
  "in_namespace inHost p = (if inHost then p else path_Join [RootFS, p])"

text \<open>A container id of less than twelve bytes panics. The boolean is the error: a container without a root path is tried again.\<close>

fun rootfs_paths ::
  "bool \<Rightarrow> (string \<Rightarrow> ContainerJSON option) \<Rightarrow> DiskQuotaSize option \<Rightarrow> string list \<Rightarrow> (string, PathInfo) gomap \<Rightarrow> bool \<Rightarrow> ((string, PathInfo) gomap \<times> bool) option" where
  "rootfs_paths inHost inspect sz [] paths err = Some (paths, err)"
| "rootfs_paths inHost inspect sz (cid # cids) paths err =
     (let rootPath = getContainerRootPath inspect cid in
      if rootPath = [] then rootfs_paths inHost inspect sz cids paths True
      else if length cid < 12 then None
      else rootfs_paths inHost inspect sz cids
             (AList.update (take 12 cid) \<lparr>pi_Path = in_namespace inHost rootPath, pi_Size = sz, pi_SharedInfo = None\<rparr> paths) err)"

definition rootfs_GetVolumes ::
  "'q qops \<Rightarrow> bool \<Rightarrow> (string \<Rightarrow> ContainerJSON option) \<Rightarrow> DiskQuotaSize option \<Rightarrow> 'q volume_pod \<Rightarrow> ((string, PathInfo) gomap \<times> bool) option" where
  "rootfs_GetVolumes Q inHost inspect offlineSize pod =
     (let sz = getVolumeQuotaSize Q pod (PodAnnotationPrefix @ ''rootfs-diskquota'') offlineSize
      in if nilVolumeQuotaSize sz then Some ([], False) else rootfs_paths inHost inspect sz (getContainerIDs pod) [] False)"

section \<open>Empty directories\<close>

definition emptydir_size ::
  "'q qops \<Rightarrow> DiskQuotaSize option \<Rightarrow> DiskQuotaSize option \<Rightarrow> 'q volume_pod \<Rightarrow> 'q EmptyDirSource \<Rightarrow> (DiskQuotaSize option \<times> string option) option" where
  "emptydir_size Q sz totalSize pod e =
     (let newSize = (case ed_SizeLimit e of
            Some limit \<Rightarrow> Some (no_size\<lparr>sz_Quota := nat (q_value Q limit mod 2 ^ 64), sz_Inodes := (case sz of None \<Rightarrow> 0 | Some s \<Rightarrow> sz_Inodes s)\<rparr>)
          | None \<Rightarrow> sz)
      in if nilVolumeQuotaSize newSize
         then (if nilVolumeQuotaSize totalSize then None else Some (totalSize, Some (p_Namespace pod @ ''/'' @ p_Name pod)))
         else Some (newSize, None))"

definition emptydir_volume ::
  "'q qops \<Rightarrow> bool \<Rightarrow> string \<Rightarrow> DiskQuotaSize option \<Rightarrow> DiskQuotaSize option \<Rightarrow> 'q volume_pod \<Rightarrow> 'q Volume \<Rightarrow> (string, PathInfo) gomap \<Rightarrow> (string, PathInfo) gomap" where
  "emptydir_volume Q inHost kubeletRootDir sz totalSize pod v paths =
     (case v_EmptyDir v of
        None \<Rightarrow> paths
      | Some e \<Rightarrow>
          if ed_Medium e = ''Memory'' then paths
          else case emptydir_size Q sz totalSize pod e of
            None \<Rightarrow> paths
          | Some (newSize, sharedInfo) \<Rightarrow>
              AList.update (v_Name v) \<lparr>pi_Path = in_namespace inHost (path_Join [kubeletRootDir, ''pods'', p_UID pod, ''volumes'',
                  ''kubernetes.io~empty-dir'', v_Name v]), pi_Size = newSize, pi_SharedInfo = sharedInfo\<rparr> paths)"

definition emptydir_GetVolumes ::
  "'q qops \<Rightarrow> bool \<Rightarrow> DiskQuotaSize option \<Rightarrow> string \<Rightarrow> 'q volume_pod \<Rightarrow> (string, PathInfo) gomap" where
  "emptydir_GetVolumes Q inHost offlineSize kubeletRootDir pod =
     (let sz = getVolumeQuotaSize Q pod (PodAnnotationPrefix @ ''emptydir-diskquota'') offlineSize;
          totalSize = getVolumeQuotaSize Q pod (PodAnnotationPrefix @ ''emptydir-diskquota-total'') offlineSize
      in fold (emptydir_volume Q inHost kubeletRootDir sz totalSize pod) (p_Volumes pod) [])"

section \<open>Host paths\<close>

definition rootfsPaths :: "string list" where
  "rootfsPaths = [''/bin'', ''/boot'', ''/dev'', ''/etc'', ''/home'', ''/lib'', ''/lib64'', ''/media'', ''/mnt'', ''/opt'', ''/proc'',
     ''/root'', ''/run'', ''/sbin'', ''/srv'', ''/sys'', ''/tmp'', ''/usr'', ''/var'']"

definition checkHostPathAvailable :: "(string \<Rightarrow> (string \<times> string) option) \<Rightarrow> string \<Rightarrow> bool" where
  "checkHostPathAvailable findMount targetPath =
     (let slices = split_on (CHR ''/'') targetPath in
      if length slices > 1 \<and> ''/'' @ slices ! 1 \<in> set rootfsPaths then False
      else case findMount targetPath of None \<Rightarrow> False | Some (mountPath, _) \<Rightarrow> mountPath \<noteq> targetPath)"

text \<open>\<open>isDirectory\<close>: what \<^verbatim>\<open>os.Stat\<close> says of a path, \<open>None\<close> for an error.\<close>

definition hostpath_volume ::
  "bool \<Rightarrow> (string \<Rightarrow> bool option) \<Rightarrow> (string \<Rightarrow> (string \<times> string) option) \<Rightarrow> DiskQuotaSize option \<Rightarrow> 'q Volume
    \<Rightarrow> (string, PathInfo) gomap \<times> bool \<Rightarrow> (string, PathInfo) gomap \<times> bool" where
  "hostpath_volume inHost isDirectory findMount sz v = (\<lambda>(paths, err).
     (case v_HostPath v of
        None \<Rightarrow> (paths, err)
      | Some p \<Rightarrow>
          let targetPath = in_namespace inHost p in
          case isDirectory targetPath of
            None \<Rightarrow> (paths, True)
          | Some directory \<Rightarrow>
              if \<not> directory \<or> \<not> checkHostPathAvailable findMount targetPath then (paths, err)
              else (AList.update (v_Name v) \<lparr>pi_Path = targetPath, pi_Size = sz, pi_SharedInfo = None\<rparr> paths, err)))"

definition hostpath_GetVolumes ::
  "'q qops \<Rightarrow> bool \<Rightarrow> (string \<Rightarrow> bool option) \<Rightarrow> (string \<Rightarrow> (string \<times> string) option) \<Rightarrow> DiskQuotaSize option \<Rightarrow> 'q volume_pod
    \<Rightarrow> (string, PathInfo) gomap \<times> bool" where
  "hostpath_GetVolumes Q inHost isDirectory findMount offlineSize pod =
     (let sz = getVolumeQuotaSize Q pod (PodAnnotationPrefix @ ''hostpath-diskquota'') offlineSize
      in if nilVolumeQuotaSize sz then ([], False) else fold (hostpath_volume inHost isDirectory findMount sz) (p_Volumes pod) ([], False))"

section \<open>The disk quota manager\<close>

datatype volume_manager = RootFsQuota "DiskQuotaSize option" | EmptyDirQuota "DiskQuotaSize option" string | HostPathQuota "DiskQuotaSize option"

fun vm_Name :: "volume_manager \<Rightarrow> string" where
  "vm_Name (RootFsQuota _) = ''rootFs''"
| "vm_Name (EmptyDirQuota _ _) = ''emptyDir''"
| "vm_Name (HostPathQuota _) = ''hostPath''"

record volume_env =
  ve_inHost :: bool
  ve_inspect :: "string \<Rightarrow> ContainerJSON option"
  ve_isDirectory :: "string \<Rightarrow> bool option"

fun vm_GetVolumes :: "'q qops \<Rightarrow> volume_env \<Rightarrow> qkernel \<Rightarrow> volume_manager \<Rightarrow> 'q volume_pod \<Rightarrow> ((string, PathInfo) gomap \<times> bool) option" where
  "vm_GetVolumes Q E k (RootFsQuota sz) pod = rootfs_GetVolumes Q (ve_inHost E) (ve_inspect E) sz pod"
| "vm_GetVolumes Q E k (EmptyDirQuota sz kubeletRoot) pod = Some (emptydir_GetVolumes Q (ve_inHost E) sz kubeletRoot pod, False)"
| "vm_GetVolumes Q E k (HostPathQuota sz) pod = Some (hostpath_GetVolumes Q (ve_inHost E) (ve_isDirectory E) (k_findMount k) sz pod)"

record PathInfoWrapper = PathInfo +
  pi_setQuotaSuccess :: bool

record VolumeInfo =
  vi_getPathsSuccess :: bool
  vi_setQuotasSuccess :: bool
  vi_Paths :: "(string, PathInfoWrapper) gomap"

record 'q PodVolumes =
  pv_Pod :: "'q volume_pod"
  pv_AppClass :: AppClass
  pv_Volumes :: "(string, VolumeInfo) gomap"
  pv_lastTime :: go_time

record 'q diskQuota =
  dk_volumeManagers :: "volume_manager list"
  dk_handedPods :: "(string, 'q PodVolumes) gomap"


text \<open>Applying a step to every element, from left to right.\<close>

fun mapS :: "('a \<Rightarrow> 's \<Rightarrow> ('b \<times> 's) option) \<Rightarrow> 'a list \<Rightarrow> 's \<Rightarrow> ('b list \<times> 's) option" where
  "mapS f [] s = Some ([], s)"
| "mapS f (x # xs) s = (case f x s of None \<Rightarrow> None | Some (y, s) \<Rightarrow> map_option (\<lambda>(ys, s). (y # ys, s)) (mapS f xs s))"

type_synonym quota_state = "projectQuota \<times> qkernel"

definition NewDiskQuota :: "(string, DiskQuotaSize) gomap \<Rightarrow> string \<Rightarrow> bool \<Rightarrow> qkernel \<Rightarrow> 'q diskQuota \<times> projectQuota" where
  "NewDiskQuota volumeSizes kubeletRootDir inHost k =
     (\<lparr>dk_volumeManagers = [RootFsQuota (map_of volumeSizes ''rootFs''), EmptyDirQuota (map_of volumeSizes ''emptyDir'') kubeletRootDir,
         HostPathQuota (map_of volumeSizes ''hostPath'')],
       dk_handedPods = []\<rparr>, NewProjectQuota inHost k)"

text \<open>Reading the usage: after an error the size is unknown.\<close>

definition getPathQuotaSize :: "bool \<Rightarrow> PathInfoWrapper \<Rightarrow> quota_state \<Rightarrow> (PathInfoWrapper \<times> quota_state) option" where
  "getPathQuotaSize inHost w = (\<lambda>(pq, k).
     (case GetQuota inHost (pi_Path w) pq k of
        None \<Rightarrow> None
      | Some (pq, k, r) \<Rightarrow> Some (w\<lparr>pi_Size := (case r of Inl _ \<Rightarrow> None | Inr sz \<Rightarrow> Some sz)\<rparr>, pq, k)))"

definition updateVolumeQuotaSize :: "bool \<Rightarrow> VolumeInfo \<Rightarrow> quota_state \<Rightarrow> (VolumeInfo \<times> quota_state) option" where
  "updateVolumeQuotaSize inHost v s =
     map_option (\<lambda>(ps, s). (v\<lparr>vi_Paths := ps\<rparr>, s))
       (mapS (\<lambda>(name, w) s. map_option (\<lambda>(w, s). ((name, w), s)) (getPathQuotaSize inHost w s)) (vi_Paths v) s)"

text \<open>A file system without quotas counts as success.\<close>

definition setPathQuota :: "bool \<Rightarrow> string \<Rightarrow> PathInfoWrapper \<Rightarrow> quota_state \<Rightarrow> ((PathInfoWrapper \<times> bool) \<times> quota_state) option" where
  "setPathQuota inHost volumeType w = (\<lambda>(pq, k).
     (case SetQuota inHost (pi_Path w) volumeType (pi_Size w) (pi_SharedInfo w) pq k of
        None \<Rightarrow> None
      | Some (pq, k, err) \<Rightarrow> let ok = (err = None \<or> err = Some NotSupported) in Some ((w\<lparr>pi_setQuotaSuccess := ok\<rparr>, ok), pq, k)))"

definition getPathsInfo :: "'q qops \<Rightarrow> volume_env \<Rightarrow> qkernel \<Rightarrow> volume_manager \<Rightarrow> 'q volume_pod \<Rightarrow> VolumeInfo \<Rightarrow> VolumeInfo option" where
  "getPathsInfo Q E k m pod v =
     (case vm_GetVolumes Q E k m pod of
        None \<Rightarrow> None
      | Some (qPaths, err) \<Rightarrow>
          Some (if err then v\<lparr>vi_getPathsSuccess := False\<rparr>
                else v\<lparr>vi_getPathsSuccess := True,
                   vi_Paths := fold (\<lambda>(name, p). AList.update name (PathInfo.extend p (PathInfoWrapper.fields False))) qPaths (vi_Paths v)\<rparr>))"

text \<open>The first loop over the volume types: sizes of finished volumes are read, paths of new ones looked up.\<close>

definition volume_paths ::
  "'q qops \<Rightarrow> volume_env \<Rightarrow> 'q volume_pod \<Rightarrow> volume_manager \<Rightarrow> (string, VolumeInfo) gomap \<times> quota_state \<Rightarrow> ((string, VolumeInfo) gomap \<times> quota_state) option" where
  "volume_paths Q E pod m = (\<lambda>(vols, s).
     (let v = (case map_of vols (vm_Name m) of
             Some v \<Rightarrow> v
           | None \<Rightarrow> \<lparr>vi_getPathsSuccess = False, vi_setQuotasSuccess = False, vi_Paths = []\<rparr>) in
      if vi_setQuotasSuccess v then map_option (\<lambda>(v, s). (AList.update (vm_Name m) v vols, s)) (updateVolumeQuotaSize (ve_inHost E) v s)
      else if vi_getPathsSuccess v then Some (vols, s)
      else map_option (\<lambda>v. (AList.update (vm_Name m) v vols, s)) (getPathsInfo Q E (snd s) m pod v)))"

text \<open>The second loop: each path of an unfinished volume gets its quota.\<close>

definition set_path :: "bool \<Rightarrow> string \<Rightarrow> string \<times> PathInfoWrapper \<Rightarrow> quota_state \<Rightarrow> (((string \<times> PathInfoWrapper) \<times> bool) \<times> quota_state) option" where
  "set_path inHost volumeType = (\<lambda>(name, w) s.
     (if pi_setQuotaSuccess w then map_option (\<lambda>(w, s). (((name, w), True), s)) (getPathQuotaSize inHost w s)
      else map_option (\<lambda>((w, ok), s). (((name, w), ok), s)) (setPathQuota inHost volumeType w s)))"

definition volume_quotas ::
  "volume_env \<Rightarrow> volume_manager \<Rightarrow> (string, VolumeInfo) gomap \<times> quota_state \<Rightarrow> ((string, VolumeInfo) gomap \<times> quota_state) option" where
  "volume_quotas E m = (\<lambda>(vols, s).
     (case map_of vols (vm_Name m) of
        None \<Rightarrow> None
      | Some v \<Rightarrow>
          if \<not> vi_getPathsSuccess v \<or> vi_setQuotasSuccess v then Some (vols, s)
          else map_option (\<lambda>(ps, s). (AList.update (vm_Name m) (v\<lparr>vi_setQuotasSuccess := list_all snd ps, vi_Paths := map fst ps\<rparr>) vols, s))
                 (mapS (set_path (ve_inHost E) (vm_Name m)) (vi_Paths v) s)))"

definition handlePodDiskQuota ::
  "'q qops \<Rightarrow> volume_env \<Rightarrow> go_time \<Rightarrow> 'q volume_pod \<Rightarrow> 'q diskQuota \<times> quota_state \<Rightarrow> ('q diskQuota \<times> quota_state) option" where
  "handlePodDiskQuota Q E now pod = (\<lambda>(d, s).
     (let podVolume = (case map_of (dk_handedPods d) (p_UID pod) of
             Some pv \<Rightarrow> pv\<lparr>pv_lastTime := now\<rparr>
           | None \<Rightarrow> \<lparr>pv_Pod = pod, pv_AppClass = GetAppClass (pod.truncate pod), pv_Volumes = [], pv_lastTime = now\<rparr>) in
      case foldM (volume_paths Q E pod) (dk_volumeManagers d) (pv_Volumes podVolume, s) of
        None \<Rightarrow> None
      | Some (vols, s) \<Rightarrow>
          (case foldM (volume_quotas E) (dk_volumeManagers d) (vols, s) of
             None \<Rightarrow> None
           | Some (vols, s) \<Rightarrow> Some (d\<lparr>dk_handedPods := AList.update (p_UID pod) (podVolume\<lparr>pv_Volumes := vols\<rparr>) (dk_handedPods d)\<rparr>, s))))"

text \<open>The pods with the time at which each is handled.\<close>

definition handleDiskQuota ::
  "'q qops \<Rightarrow> volume_env \<Rightarrow> (go_time \<times> 'q volume_pod) list \<Rightarrow> 'q diskQuota \<times> quota_state \<Rightarrow> ('q diskQuota \<times> quota_state) option" where
  "handleDiskQuota Q E podList =
     foldM (\<lambda>(now, pod) s. if p_Phase pod \<in> {''Succeeded'', ''Failed''} then Some s else handlePodDiskQuota Q E now pod s) podList"

definition removeExitedPods :: "go_time \<Rightarrow> 'q diskQuota \<Rightarrow> 'q diskQuota" where
  "removeExitedPods lastUpdate d = d\<lparr>dk_handedPods := filter (\<lambda>(uid, pv). \<not> pv_lastTime pv < lastUpdate) (dk_handedPods d)\<rparr>"

definition current_paths :: "'q diskQuota \<Rightarrow> string list" where
  "current_paths d = concat (map (\<lambda>(_, pv). concat (map (\<lambda>(_, v). map (\<lambda>(_, w). pi_Path w) (vi_Paths v)) (pv_Volumes pv))) (dk_handedPods d))"

text \<open>A path is cleared when no pod has it any more (host paths), or when it does not exist (all others).\<close>

definition to_clear :: "'q diskQuota \<Rightarrow> qkernel \<Rightarrow> string \<Rightarrow> string \<Rightarrow> bool" where
  "to_clear d k vType p =
     (if vType = ''hostPath'' then p \<notin> set (current_paths d) else k_stat k p = Some ENOENT)"

definition clear_path :: "'q diskQuota \<Rightarrow> bool \<Rightarrow> string \<Rightarrow> string \<Rightarrow> quota_state \<Rightarrow> quota_state option" where
  "clear_path d inHost vType p = (\<lambda>(pq, k).
     (if to_clear d k vType p then map_option (\<lambda>(pq, k, _). (pq, k)) (ClearQuota inHost p pq k) else Some (pq, k)))"

definition clearDiskQuota :: "bool \<Rightarrow> 'q diskQuota \<Rightarrow> quota_state \<Rightarrow> quota_state option" where
  "clearDiskQuota inHost d s =
     foldM (\<lambda>(vType, paths). foldM (clear_path d inHost vType) (sort paths)) (GetAllQuotaPath (fst s)) s"

definition diskquota_round ::
  "'q qops \<Rightarrow> volume_env \<Rightarrow> go_time \<Rightarrow> (go_time \<times> 'q volume_pod) list \<Rightarrow> 'q diskQuota \<times> quota_state \<Rightarrow> ('q diskQuota \<times> quota_state) option" where
  "diskquota_round Q E lastUpdate podList ds =
     (case handleDiskQuota Q E podList ds of
        None \<Rightarrow> None
      | Some (d, s) \<Rightarrow> let d = removeExitedPods lastUpdate d in map_option (Pair d) (clearDiskQuota (ve_inHost E) d s))"

definition GetPodDiskQuota :: "'q volume_pod \<Rightarrow> 'q diskQuota \<Rightarrow> (string, VolumeInfo) gomap option" where
  "GetPodDiskQuota pod d = map_option pv_Volumes (map_of (dk_handedPods d) (p_UID pod))"

definition GetAllPodsDiskQuota :: "'q diskQuota \<Rightarrow> 'q PodVolumes list" where
  "GetAllPodsDiskQuota d = map snd (dk_handedPods d)"


section \<open>Which pods are tracked\<close>

lemma handlePod_pods:
  assumes "handlePodDiskQuota Q E now pod (d, s) = Some (d', s')"
  shows "\<exists>pv. dk_handedPods d' = AList.update (p_UID pod) pv (dk_handedPods d) \<and> pv_lastTime pv = now" "dk_volumeManagers d' = dk_volumeManagers d"
  using assms by (auto simp: handlePodDiskQuota_def Let_def split: option.splits)

definition runs :: "'q volume_pod \<Rightarrow> bool" where
  "runs pod \<longleftrightarrow> p_Phase pod \<notin> {''Succeeded'', ''Failed''}"

abbreviation running_uids :: "(go_time \<times> 'q volume_pod) list \<Rightarrow> string set" where
  "running_uids podList \<equiv> p_UID ` {pod \<in> snd ` set podList. runs pod}"

lemma handle_tracks:
  assumes "handleDiskQuota Q E podList (d, s) = Some (d', s')" and "\<forall>(now, pod) \<in> set podList. lastUpdate \<le> now" and "wf_map (dk_handedPods d)"
  shows "wf_map (dk_handedPods d') \<and> (\<forall>u. if u \<in> running_uids podList
       then \<exists>pv. map_of (dk_handedPods d') u = Some pv \<and> lastUpdate \<le> pv_lastTime pv else map_of (dk_handedPods d') u = map_of (dk_handedPods d) u)"
  using assms
proof (induction podList arbitrary: d s)
  case (Cons a podList)
  obtain now pod where a: "a = (now, pod)" by (cases a)
  show ?case
  proof (cases "runs pod")
    case False
    then have r: "handleDiskQuota Q E podList (d, s) = Some (d', s')" using Cons.prems(1) by (simp add: handleDiskQuota_def a runs_def)
    have U: "running_uids (a # podList) = running_uids podList" using False by (auto simp: a)
    have "\<forall>(now, pod) \<in> set podList. lastUpdate \<le> now" using Cons.prems(2) by simp
    then show ?thesis unfolding U by (rule Cons.IH [OF r _ Cons.prems(3)])
  next
    case True
    then obtain d1 s1 where h: "handlePodDiskQuota Q E now pod (d, s) = Some (d1, s1)" and r: "handleDiskQuota Q E podList (d1, s1) = Some (d', s')"
      using Cons.prems(1) by (auto simp: handleDiskQuota_def a runs_def split: option.splits)
    obtain pv where pv: "dk_handedPods d1 = AList.update (p_UID pod) pv (dk_handedPods d)" "pv_lastTime pv = now"
      using handlePod_pods(1) [OF h] by blast
    have U: "running_uids (a # podList) = insert (p_UID pod) (running_uids podList)" using True by (auto simp: a)
    have IH: "wf_map (dk_handedPods d')" "if u \<in> running_uids podList
       then \<exists>pv. map_of (dk_handedPods d') u = Some pv \<and> lastUpdate \<le> pv_lastTime pv else map_of (dk_handedPods d') u = map_of (dk_handedPods d1) u" for u
    proof -
      have "wf_map (dk_handedPods d1)" "\<forall>(now, pod) \<in> set podList. lastUpdate \<le> now" using Cons.prems(2,3) pv(1) by auto
      from Cons.IH [OF r this(2,1)] show "wf_map (dk_handedPods d')" "if u \<in> running_uids podList
       then \<exists>pv. map_of (dk_handedPods d') u = Some pv \<and> lastUpdate \<le> pv_lastTime pv else map_of (dk_handedPods d') u = map_of (dk_handedPods d1) u"
        by blast+
    qed
    have "lastUpdate \<le> now" using Cons.prems(2) by (simp add: a)
    then have "if u \<in> insert (p_UID pod) (running_uids podList)
       then \<exists>pv. map_of (dk_handedPods d') u = Some pv \<and> lastUpdate \<le> pv_lastTime pv else map_of (dk_handedPods d') u = map_of (dk_handedPods d) u" for u
      using IH(2) [of u] pv
      by (cases "u \<in> running_uids podList"; cases "u = p_UID pod") (simp_all del: map_of_eq_Some_iff)
    then show ?thesis unfolding U using IH(1) by blast
  qed
qed (simp add: handleDiskQuota_def)

lemma dom_map_of_filter: "wf_map m \<Longrightarrow> dom (map_of (filter P m)) = {u. \<exists>v. map_of m u = Some v \<and> P (u, v)}"
  by (force simp: dom_map_of_conv_image_fst)

text \<open>The manager tracks exactly the pods that run: after a round the pods with records are those that the
  informer lists and that have not ended, whatever was recorded before, as long as the clock does not run backwards.\<close>

lemma round_tracks_running_pods:
  assumes "diskquota_round Q E lastUpdate podList (d, s) = Some (d', s')" and "wf_map (dk_handedPods d)"
    and "\<forall>(now, pod) \<in> set podList. lastUpdate \<le> now" and "\<forall>(u, pv) \<in> set (dk_handedPods d). pv_lastTime pv < lastUpdate"
  shows "dom (map_of (dk_handedPods d')) = running_uids podList"
proof -
  obtain d1 s1 where h: "handleDiskQuota Q E podList (d, s) = Some (d1, s1)" and d': "d' = removeExitedPods lastUpdate d1"
    using assms(1) by (auto simp: diskquota_round_def Let_def split: option.splits)
  have wf: "wf_map (dk_handedPods d1)" and t: "\<And>u. if u \<in> running_uids podList
       then \<exists>pv. map_of (dk_handedPods d1) u = Some pv \<and> lastUpdate \<le> pv_lastTime pv else map_of (dk_handedPods d1) u = map_of (dk_handedPods d) u"
    using handle_tracks [OF h assms(3,2)] by blast+
  have old: "pv_lastTime pv < lastUpdate" if "map_of (dk_handedPods d) u = Some pv" for u pv
    using assms(4) map_of_SomeD [OF that] by auto
  have "u \<in> running_uids podList \<longleftrightarrow> (\<exists>pv. map_of (dk_handedPods d1) u = Some pv \<and> \<not> pv_lastTime pv < lastUpdate)" for u
    using t [of u] old [of u] by (cases "u \<in> running_uids podList") (auto simp del: map_of_eq_Some_iff)
  then show ?thesis by (auto simp: d' removeExitedPods_def dom_map_of_filter [OF wf])
qed


section \<open>Rounds without shared quotas\<close>

lemma mapS_invariant:
  assumes "mapS f xs s = Some (ys, s')" and "P s"
    and "\<And>x s y s'. x \<in> set xs \<Longrightarrow> f x s = Some (y, s') \<Longrightarrow> P s \<Longrightarrow> P s' \<and> R y"
  shows "P s' \<and> (\<forall>y \<in> set ys. R y)"
  using assms
proof (induction xs arbitrary: s ys)
  case (Cons x xs)
  from Cons.prems(1) obtain y s1 zs where s1: "f x s = Some (y, s1)" "mapS f xs s1 = Some (zs, s')" "ys = y # zs"
    by (auto split: option.splits)
  have "P s1 \<and> R y" using Cons.prems(3) [OF _ s1(1) Cons.prems(2)] by simp
  moreover from this have "P s' \<and> (\<forall>y \<in> set zs. R y)"
    using Cons.IH [OF s1(2)] Cons.prems(3) by (meson list.set_intros(2))
  ultimately show ?case using s1(3) by simp
qed simp

lemma set_update: "x \<in> set (AList.update k v m) \<Longrightarrow> x = (k, v) \<or> x \<in> set m"
  by (induction m) (auto split: if_splits)

definition unshared :: "(string, VolumeInfo) gomap \<Rightarrow> bool" where
  "unshared vols \<longleftrightarrow> (\<forall>(_, v) \<in> set vols. \<forall>(_, w) \<in> set (vi_Paths v). pi_SharedInfo w = None)"

definition unshared_pod :: "'q qops \<Rightarrow> volume_env \<Rightarrow> volume_manager list \<Rightarrow> 'q volume_pod \<Rightarrow> bool" where
  "unshared_pod Q E ms pod \<longleftrightarrow>
     (\<forall>m \<in> set ms. \<forall>k paths err. vm_GetVolumes Q E k m pod = Some (paths, err) \<longrightarrow> (\<forall>(_, p) \<in> set paths. pi_SharedInfo p = None))"

lemma unshared_update:
  "unshared vols \<Longrightarrow> (\<And>n w. (n, w) \<in> set (vi_Paths v) \<Longrightarrow> pi_SharedInfo w = None) \<Longrightarrow> unshared (AList.update name v vols)"
  unfolding unshared_def by (auto dest!: set_update)

lemma unshared_found: "unshared vols \<Longrightarrow> map_of vols name = Some v \<Longrightarrow> (n, w) \<in> set (vi_Paths v) \<Longrightarrow> pi_SharedInfo w = None"
  unfolding unshared_def by (fastforce dest: map_of_SomeD simp del: map_of_eq_Some_iff)

lemma getPathQuotaSize_exclusive:
  assumes "getPathQuotaSize inHost w s = Some (w', s')" and "exclusive (fst s)"
  shows "exclusive (fst s') \<and> pi_SharedInfo w' = pi_SharedInfo w"
  using assms exclusive_GetQuota by (fastforce simp: getPathQuotaSize_def split: prod.splits option.splits)

lemma set_path_exclusive:
  assumes "set_path inHost vt x s = Some (y, s')" and "exclusive (fst s)" and "pi_SharedInfo (snd x) = None"
  shows "exclusive (fst s') \<and> pi_SharedInfo (snd (fst y)) = None"
proof -
  obtain name w where x: "x = (name, w)" by (cases x)
  show ?thesis
  proof (cases "pi_setQuotaSuccess w")
    case True
    then obtain w' where "getPathQuotaSize inHost w s = Some (w', s')" "y = ((name, w'), True)"
      using assms(1) by (auto simp: set_path_def x)
    then show ?thesis using getPathQuotaSize_exclusive assms(2,3) x by fastforce
  next
    case False
    then obtain w' ok where "setPathQuota inHost vt w s = Some ((w', ok), s')" "y = ((name, w'), ok)"
      using assms(1) by (auto simp: set_path_def x)
    then show ?thesis
      using assms(2,3) x exclusive_SetQuota by (fastforce simp: setPathQuota_def Let_def split: prod.splits option.splits)
  qed
qed

definition round_inv :: "(string, VolumeInfo) gomap \<times> quota_state \<Rightarrow> bool" where
  "round_inv vs \<longleftrightarrow> unshared (fst vs) \<and> exclusive (fst (snd vs))"

lemma volume_paths_inv:
  assumes "volume_paths Q E pod m vs = Some vs'" and "round_inv vs" and "unshared_pod Q E ms pod" and "m \<in> set ms"
  shows "round_inv vs'"
proof -
  obtain vols s where vs: "vs = (vols, s)" by (cases vs)
  define v where "v = (case map_of vols (vm_Name m) of Some v \<Rightarrow> v | None \<Rightarrow> \<lparr>vi_getPathsSuccess = False, vi_setQuotasSuccess = False, vi_Paths = []\<rparr>)"
  have un: "unshared vols" and ex: "exclusive (fst s)" using assms(2) by (simp_all add: round_inv_def vs)
  have v: "pi_SharedInfo w = None" if "(n, w) \<in> set (vi_Paths v)" for n w
    using that unshared_found [OF un] by (auto simp: v_def simp del: map_of_eq_Some_iff split: option.splits)
  consider (old) v' s' where "updateVolumeQuotaSize (ve_inHost E) v s = Some (v', s')" "vs' = (AList.update (vm_Name m) v' vols, s')"
    | (same) "vs' = vs" | (new) v' where "getPathsInfo Q E (snd s) m pod v = Some v'" "vs' = (AList.update (vm_Name m) v' vols, s)"
    using assms(1) by (auto simp: volume_paths_def vs v_def [symmetric] Let_def split: if_splits)
  then show ?thesis
  proof cases
    case old
    then obtain ps where ps: "mapS (\<lambda>(name, w) s. map_option (\<lambda>(w, s). ((name, w), s)) (getPathQuotaSize (ve_inHost E) w s)) (vi_Paths v) s = Some (ps, s')"
      "vi_Paths v' = ps" by (auto simp: updateVolumeQuotaSize_def)
    have "exclusive (fst s') \<and> (\<forall>y \<in> set ps. pi_SharedInfo (snd y) = None)"
      by (rule mapS_invariant [OF ps(1), where P = "\<lambda>s. exclusive (fst s)"]) (use ex v getPathQuotaSize_exclusive in fastforce)+
    then show ?thesis using old(2) ps(2) un by (auto simp: round_inv_def intro!: unshared_update)
  next
    case new
    obtain qPaths err where q: "vm_GetVolumes Q E (snd s) m pod = Some (qPaths, err)"
      using new(1) by (auto simp: getPathsInfo_def split: option.splits)
    then have sh: "pi_SharedInfo p = None" if "(n, p) \<in> set qPaths" for n p
      using assms(3,4) that unfolding unshared_pod_def by blast
    have "pi_SharedInfo w = None" if "(n, w) \<in> set (fold (\<lambda>(name, p). AList.update name (PathInfo.extend p (PathInfoWrapper.fields False))) qs m)"
      and "\<forall>(n, p) \<in> set qs. pi_SharedInfo p = None" and "\<forall>(n, w) \<in> set m. pi_SharedInfo w = None" for n w qs and m :: "(string, PathInfoWrapper) gomap"
      using that
    proof (induction qs arbitrary: m)
      case (Cons a qs)
      then show ?case by (force simp: PathInfo.defs PathInfoWrapper.defs dest!: set_update)
    qed auto
    then have "pi_SharedInfo w = None" if "(n, w) \<in> set (vi_Paths v')" for n w
      using new(1) q that sh v by (fastforce simp: getPathsInfo_def split: if_splits)
    then show ?thesis using new(2) un ex by (auto simp: round_inv_def intro!: unshared_update)
  qed (use assms(2) in simp)
qed

lemma volume_quotas_inv:
  assumes "volume_quotas E m vs = Some vs'" and "round_inv vs"
  shows "round_inv vs'"
proof -
  obtain vols s where vs: "vs = (vols, s)" by (cases vs)
  have un: "unshared vols" and ex: "exclusive (fst s)" using assms(2) by (simp_all add: round_inv_def vs)
  obtain v where v: "map_of vols (vm_Name m) = Some v" using assms(1) by (auto simp: volume_quotas_def vs split: option.splits)
  show ?thesis
  proof (cases "\<not> vi_getPathsSuccess v \<or> vi_setQuotasSuccess v")
    case True
    then show ?thesis using assms v by (auto simp: volume_quotas_def vs)
  next
    case False
    then obtain ps s' where ps: "mapS (set_path (ve_inHost E) (vm_Name m)) (vi_Paths v) s = Some (ps, s')"
      "vs' = (AList.update (vm_Name m) (v\<lparr>vi_setQuotasSuccess := list_all snd ps, vi_Paths := map fst ps\<rparr>) vols, s')"
      using assms(1) v by (auto simp: volume_quotas_def vs)
    have "exclusive (fst s') \<and> (\<forall>y \<in> set ps. pi_SharedInfo (snd (fst y)) = None)"
    proof (rule mapS_invariant [OF ps(1), where P = "\<lambda>s. exclusive (fst s)"])
      fix x s y s' assume "x \<in> set (vi_Paths v)" "set_path (ve_inHost E) (vm_Name m) x s = Some (y, s')" "exclusive (fst s)"
      moreover have "pi_SharedInfo (snd x) = None" using unshared_found [OF un v, of "fst x" "snd x"] \<open>x \<in> set (vi_Paths v)\<close> by simp
      ultimately show "exclusive (fst s') \<and> pi_SharedInfo (snd (fst y)) = None" using set_path_exclusive by blast
    qed (rule ex)
    then show ?thesis using ps(2) un by (fastforce simp: round_inv_def intro!: unshared_update)
  qed
qed


definition unshared_manager :: "'q diskQuota \<Rightarrow> bool" where
  "unshared_manager d \<longleftrightarrow> (\<forall>(_, pv) \<in> set (dk_handedPods d). unshared (pv_Volumes pv))"

lemma handlePod_inv:
  assumes "handlePodDiskQuota Q E now pod (d, s) = Some (d', s')" and "unshared_manager d" and "exclusive (fst s)"
    and "unshared_pod Q E (dk_volumeManagers d) pod"
  shows "unshared_manager d' \<and> exclusive (fst s')"
proof -
  define pv where "pv = (case map_of (dk_handedPods d) (p_UID pod) of
             Some pv \<Rightarrow> pv\<lparr>pv_lastTime := now\<rparr>
           | None \<Rightarrow> \<lparr>pv_Pod = pod, pv_AppClass = GetAppClass (pod.truncate pod), pv_Volumes = [], pv_lastTime = now\<rparr>)"
  have "unshared (pv_Volumes pv)"
    using assms(2) by (fastforce simp: pv_def unshared_manager_def unshared_def dest: map_of_SomeD simp del: map_of_eq_Some_iff split: option.split)
  then have start: "round_inv (pv_Volumes pv, s)" using assms(3) by (simp add: round_inv_def)
  obtain vs1 vs2 where f: "foldM (volume_paths Q E pod) (dk_volumeManagers d) (pv_Volumes pv, s) = Some vs1"
    "foldM (volume_quotas E) (dk_volumeManagers d) vs1 = Some vs2"
    "dk_handedPods d' = AList.update (p_UID pod) (pv\<lparr>pv_Volumes := fst vs2\<rparr>) (dk_handedPods d)" "s' = snd vs2"
    using assms(1) by (fastforce simp: handlePodDiskQuota_def pv_def [symmetric] Let_def split: option.splits)
  have "round_inv vs1"
    by (rule foldM_invariant [where P = round_inv, OF f(1)]) (use start volume_paths_inv [OF _ _ assms(4)] in blast)+
  then have "round_inv vs2" by (rule foldM_invariant [where P = round_inv, OF f(2)]) (use volume_quotas_inv in blast)
  then show ?thesis using f(3,4) assms(2) by (auto simp: unshared_manager_def round_inv_def dest!: set_update)
qed

lemma handle_inv:
  assumes "handleDiskQuota Q E podList (d, s) = Some (d', s')" and "unshared_manager d" and "exclusive (fst s)"
    and "\<forall>(_, pod) \<in> set podList. unshared_pod Q E (dk_volumeManagers d) pod"
  shows "unshared_manager d' \<and> exclusive (fst s') \<and> dk_volumeManagers d' = dk_volumeManagers d"
proof -
  define P where "P = (\<lambda>ds :: 'a diskQuota \<times> quota_state. unshared_manager (fst ds) \<and> exclusive (fst (snd ds)) \<and> dk_volumeManagers (fst ds) = dk_volumeManagers d)"
  have "P (d', s')"
  proof (rule foldM_invariant [where P = P, OF assms(1) [unfolded handleDiskQuota_def]])
    show "P (d, s)" using assms(2,3) by (simp add: P_def)
    fix x and ds ds' :: "'a diskQuota \<times> quota_state"
    assume x: "x \<in> set podList" and P: "P ds"
      and st: "(case x of (now, pod) \<Rightarrow> \<lambda>s. if p_Phase pod \<in> {''Succeeded'', ''Failed''} then Some s else handlePodDiskQuota Q E now pod s) ds = Some ds'"
    obtain now pod where xp: "x = (now, pod)" by (cases x)
    obtain d1 s1 d2 s2 where ds: "ds = (d1, s1)" "ds' = (d2, s2)" by (cases ds; cases ds')
    show "P ds'"
    proof (cases "p_Phase pod \<in> {''Succeeded'', ''Failed''}")
      case True
      then show ?thesis using st P xp by simp
    next
      case False
      then have h: "handlePodDiskQuota Q E now pod (d1, s1) = Some (d2, s2)" using st xp ds by simp
      have "unshared_pod Q E (dk_volumeManagers d1) pod" using assms(4) x xp P ds by (auto simp: P_def)
      then show ?thesis using handlePod_inv [OF h] handlePod_pods(2) [OF h] P ds by (simp add: P_def)
    qed
  qed
  then show ?thesis by (simp add: P_def)
qed

text \<open>The list of recorded paths has each path of an exclusive state once.\<close>

definition add_path :: "string \<Rightarrow> string \<Rightarrow> (string, string list) gomap \<Rightarrow> (string, string list) gomap" where
  "add_path f path m = AList.update f (case map_of m f of None \<Rightarrow> [path] | Some ps \<Rightarrow> List.insert path ps) m"

lemma add_path_eta: "add_path f = (\<lambda>path m. AList.update f (case map_of m f of None \<Rightarrow> [path] | Some ps \<Rightarrow> List.insert path ps) m)"
  by (intro ext) (simp add: add_path_def)

lemma add_path_mset:
  assumes "wf_map m" and "path \<notin> set (concat (map snd m))"
  shows "wf_map (add_path f path m) \<and> mset (concat (map snd (add_path f path m))) = add_mset path (mset (concat (map snd m)))"
proof
  show "wf_map (add_path f path m)" using assms(1) by (simp add: add_path_def)
  show "mset (concat (map snd (add_path f path m))) = add_mset path (mset (concat (map snd m)))"
    using assms
  proof (induction m)
    case (Cons a m)
    obtain g ps where a: "a = (g, ps)" by (cases a)
    show ?case
    proof (cases "g = f")
      case True
      then show ?thesis using Cons.prems by (simp add: a add_path_def)
    next
      case False
      then have "add_path f path (a # m) = a # add_path f path m" by (simp add: a add_path_def)
      then show ?thesis using Cons by (simp add: a)
    qed
  qed (simp add: add_path_def)
qed

lemma add_paths_mset:
  "wf_map m \<Longrightarrow> distinct (map snd xs) \<Longrightarrow> set (map snd xs) \<inter> set (concat (map snd m)) = {} \<Longrightarrow>
     wf_map (fold (\<lambda>(f, p). add_path f p) xs m) \<and> mset (concat (map snd (fold (\<lambda>(f, p). add_path f p) xs m))) = mset (map snd xs) + mset (concat (map snd m))"
proof (induction xs arbitrary: m)
  case (Cons a xs)
  obtain f p where a: "a = (f, p)" by (cases a)
  have p: "p \<notin> set (concat (map snd m))" using Cons.prems(3) by (auto simp: a)
  note ap = add_path_mset [OF Cons.prems(1) p, of f]
  have "set (concat (map snd (add_path f p m))) = insert p (set (concat (map snd m)))"
    using ap by (metis set_mset_add_mset_insert set_mset_mset)
  then have "set (map snd xs) \<inter> set (concat (map snd (add_path f p m))) = {}" using Cons.prems(2,3) by (auto simp: a)
  then show ?case using Cons.IH [of "add_path f p m"] ap Cons.prems(2) by (simp add: a)
qed simp


definition type_of_id :: "projectQuota \<Rightarrow> quotaID \<Rightarrow> string" where
  "type_of_id p n = hd (split_on (CHR ''-'') (case map_of (pq_idNames p) n of None \<Rightarrow> [] | Some s \<Rightarrow> s))"

lemma GetAllQuotaPath_fold:
  "GetAllQuotaPath p = fold (\<lambda>(f, path). add_path f path) (concat (map (\<lambda>(n, ps). map (Pair (type_of_id p n)) ps) (pq_idPaths p))) []"
proof -
  have "fold (\<lambda>(n, pathGroup). fold (\<lambda>path m.
         let idName = (case map_of (pq_idNames p) n of None \<Rightarrow> [] | Some s \<Rightarrow> s); pathFlag = hd (split_on (CHR ''-'') idName)
         in AList.update pathFlag (case map_of m pathFlag of None \<Rightarrow> [path] | Some ps \<Rightarrow> List.insert path ps) m) pathGroup) xs m =
      fold (\<lambda>(f, path). add_path f path) (concat (map (\<lambda>(n, ps). map (Pair (type_of_id p n)) ps) xs)) m" for xs m
    by (induction xs arbitrary: m) (auto simp: fold_map comp_def add_path_eta type_of_id_def Let_def)
  then show ?thesis by (simp add: GetAllQuotaPath_def)
qed

lemma exclusive_paths:
  assumes "exclusive p"
  shows "distinct (concat (map snd (pq_idPaths p)))" and "q \<in> set (concat (map snd (pq_idPaths p))) \<Longrightarrow> \<exists>n. map_of (pq_pathIds p) q = Some n"
proof -
  have wf: "wf_map (pq_idPaths p)" and one: "\<And>n ps. (n, ps) \<in> set (pq_idPaths p) \<Longrightarrow> \<exists>q. ps = [q] \<and> map_of (pq_pathIds p) q = Some n"
    using assms unfolding exclusive_def by (metis map_of_is_SomeI)+
  show "\<exists>n. map_of (pq_pathIds p) q = Some n" if "q \<in> set (concat (map snd (pq_idPaths p)))" using that one by fastforce
  have "distinct (concat (map snd xs))" if "wf_map xs" "\<And>n ps. (n, ps) \<in> set xs \<Longrightarrow> \<exists>q. ps = [q] \<and> map_of (pq_pathIds p) q = Some n" for xs
    using that
  proof (induction xs)
    case (Cons a xs)
    obtain n ps where a: "a = (n, ps)" by (cases a)
    then obtain q where q: "ps = [q]" "map_of (pq_pathIds p) q = Some n" using Cons.prems(2) by auto
    have "q \<notin> set (concat (map snd xs))"
    proof
      assume "q \<in> set (concat (map snd xs))"
      then obtain m qs where m: "(m, qs) \<in> set xs" "q \<in> set qs" by auto
      then have "m = n" using Cons.prems(2) [of m qs] q by auto
      then show False using Cons.prems(1) m(1) by (force simp: a)
    qed
    moreover have "distinct (concat (map snd xs))" using Cons by simp
    ultimately show ?case using q a by simp
  qed simp
  then show "distinct (concat (map snd (pq_idPaths p)))" using wf one by blast
qed

lemma recorded_once:
  assumes "exclusive p"
  shows "distinct (concat (map snd (GetAllQuotaPath p))) \<and> set (concat (map snd (GetAllQuotaPath p))) = set (concat (map snd (pq_idPaths p)))"
proof -
  let ?xs = "concat (map (\<lambda>(n, ps). map (Pair (type_of_id p n)) ps) (pq_idPaths p))"
  have xs: "map snd ?xs = concat (map snd (pq_idPaths p))" by (simp add: map_concat comp_def case_prod_unfold)
  have "mset (concat (map snd (GetAllQuotaPath p))) = mset (concat (map snd (pq_idPaths p)))"
    using add_paths_mset [of "[]" ?xs] exclusive_paths(1) [OF assms] by (simp add: GetAllQuotaPath_fold xs)
  then show ?thesis using exclusive_paths(1) [OF assms] by (metis mset_eq_imp_distinct_iff mset_eq_setD)
qed

lemma clear_flat:
  "foldM (\<lambda>(vType, paths). foldM (clear_path d inHost vType) (sort paths)) m s =
     foldM (\<lambda>(vType, p). clear_path d inHost vType p) (concat (map (\<lambda>(vType, paths). map (Pair vType) (sort paths)) m)) s"
proof (induction m arbitrary: s)
  case (Cons a m)
  have "foldM (clear_path d inHost v) ps s = foldM (\<lambda>(vType, p). clear_path d inHost vType p) (map (Pair v) ps) s" for v ps s
    by (induction ps arbitrary: s) (auto split: option.split)
  then show ?case using Cons by (cases a) (auto simp: foldM_append split: option.split)
qed simp

lemma clear_work:
  assumes "foldM (\<lambda>(vType, p). clear_path d inHost vType p) wl (pq, k) = Some (pq', k')" and "exclusive pq" and "distinct (map snd wl)"
    and "\<forall>(v, p) \<in> set wl. \<exists>n. map_of (pq_pathIds pq) p = Some n"
  shows "exclusive pq'"
  using assms
proof (induction wl arbitrary: pq k)
  case (Cons a wl)
  obtain v p where a: "a = (v, p)" by (cases a)
  obtain n where n: "map_of (pq_pathIds pq) p = Some n" using Cons.prems(4) by (auto simp: a)
  show ?case
  proof (cases "to_clear d k v p")
    case False
    then show ?thesis using Cons by (simp add: a clear_path_def)
  next
    case True
    then obtain pq1 k1 r where c: "ClearQuota inHost p pq k = Some (pq1, k1, r)"
      and rest: "foldM (\<lambda>(vType, p). clear_path d inHost vType p) wl (pq1, k1) = Some (pq', k')"
      using Cons.prems(1) by (auto simp: a clear_path_def split: option.splits)
    have "exclusive pq1" using exclusive_ClearQuota [OF Cons.prems(2) c n] .
    moreover have "\<exists>n. map_of (pq_pathIds pq1) q = Some n" if "(w, q) \<in> set wl" for w q
    proof -
      have "q \<noteq> p" using Cons.prems(3) that by (force simp: a)
      then show ?thesis using ClearQuota_others [OF c n] Cons.prems(4) that by fastforce
    qed
    ultimately show ?thesis using Cons.IH [OF rest] Cons.prems(3) by auto
  qed
qed simp

lemma clear_inv:
  assumes "clearDiskQuota inHost d s = Some s'" and "exclusive (fst s)"
  shows "exclusive (fst s')"
proof -
  let ?wl = "concat (map (\<lambda>(vType, paths). map (Pair vType) (sort paths)) (GetAllQuotaPath (fst s)))"
  have e: "mset (map snd ?wl) = mset (concat (map snd (GetAllQuotaPath (fst s))))"
    by (simp add: map_concat comp_def case_prod_unfold mset_concat)
  have dist: "distinct (map snd ?wl)" using mset_eq_imp_distinct_iff [OF e] recorded_once [OF assms(2)] by simp
  have st: "set (map snd ?wl) = set (concat (map snd (pq_idPaths (fst s))))"
    unfolding mset_eq_setD [OF e] using recorded_once [OF assms(2)] by simp
  have rec: "\<forall>(v, p) \<in> set ?wl. \<exists>n. map_of (pq_pathIds (fst s)) p = Some n"
  proof clarify
    fix v p assume "(v, p) \<in> set ?wl"
    from imageI [OF this, of snd] have "p \<in> set (map snd ?wl)" unfolding set_map snd_conv .
    then show "\<exists>n. map_of (pq_pathIds (fst s)) p = Some n" using st exclusive_paths(2) [OF assms(2)] by blast
  qed
  show ?thesis
    using clear_work [of d inHost ?wl "fst s" "snd s" "fst s'" "snd s'"] assms dist rec
    by (simp add: clearDiskQuota_def clear_flat)
qed

text \<open>C25. One id per volume, over any number of rounds: while no pod asks for a quota shared by its empty directories, every
  round keeps the ids of different directories different, whatever the kernel answers: the round clears only what
  is recorded, and each once.\<close>

theorem rounds_keep_ids_apart:
  assumes "foldM (\<lambda>(E, lastUpdate, podList). diskquota_round Q E lastUpdate podList) rounds (d, s) = Some (d', s')"
    and "unshared_manager d" and "exclusive (fst s)"
    and "\<forall>(E, lastUpdate, podList) \<in> set rounds. \<forall>(now, pod) \<in> set podList. unshared_pod Q E (dk_volumeManagers d) pod"
  shows "exclusive (fst s')"
proof -
  define P where "P = (\<lambda>ds :: 'a diskQuota \<times> quota_state. unshared_manager (fst ds) \<and> exclusive (fst (snd ds)) \<and> dk_volumeManagers (fst ds) = dk_volumeManagers d)"
  have "P (d', s')"
  proof (rule foldM_invariant [where P = P, OF assms(1)])
    show "P (d, s)" using assms(2,3) by (simp add: P_def)
    fix x and ds ds' :: "'a diskQuota \<times> quota_state"
    assume x: "x \<in> set rounds" and P: "P ds"
      and st: "(case x of (E, lastUpdate, podList) \<Rightarrow> diskquota_round Q E lastUpdate podList) ds = Some ds'"
    obtain E lastUpdate podList where xp: "x = (E, lastUpdate, podList)" by (cases x)
    obtain d1 s1 where ds: "ds = (d1, s1)" by (cases ds)
    obtain d2 s2 s3 where h: "handleDiskQuota Q E podList (d1, s1) = Some (d2, s2)" "ds' = (removeExitedPods lastUpdate d2, s3)"
      "clearDiskQuota (ve_inHost E) (removeExitedPods lastUpdate d2) s2 = Some s3"
      using st by (auto simp: xp ds diskquota_round_def Let_def split: option.splits)
    have "\<forall>(now, pod) \<in> set podList. unshared_pod Q E (dk_volumeManagers d1) pod" using assms(4) x P by (fastforce simp: xp ds P_def)
    with handle_inv [OF h(1)] P have "unshared_manager d2" "exclusive (fst s2)" "dk_volumeManagers d2 = dk_volumeManagers d"
      by (auto simp: P_def ds)
    then show "P ds'" using clear_inv [OF h(3)] h(2) by (auto simp: P_def unshared_manager_def removeExitedPods_def)
  qed
  then show ?thesis by (simp add: P_def)
qed


section \<open>Which pods get a quota\<close>

text \<open>Online pods are limited only where they ask for it: for a pod that is not offline and has no quota annotation no quota
  is set on its root file systems and host paths, and on an empty directory only when the pod gives its size limit,
  which is then the quota.\<close>

lemma online_pods_limited_by_own_limits:
  assumes "\<not> IsOffline (pod.truncate pod)"
    and "\<forall>key \<in> {''rootfs-diskquota'', ''emptydir-diskquota'', ''emptydir-diskquota-total'', ''hostpath-diskquota''}.
           Option.bind (p_Annotations pod) (\<lambda>m. map_of m (PodAnnotationPrefix @ key)) = None"
    and "vm_GetVolumes Q E k m pod = Some (paths, err)" and "(name, p) \<in> set paths"
  shows "\<exists>sz root v e limit. m = EmptyDirQuota sz root \<and> v \<in> set (p_Volumes pod) \<and> v_Name v = name \<and> v_EmptyDir v = Some e \<and> ed_SizeLimit e = Some limit \<and>
     pi_Size p = Some (no_size\<lparr>sz_Quota := nat (q_value Q limit mod 2 ^ 64)\<rparr>)"
proof -
  have sz: "getVolumeQuotaSize Q pod (PodAnnotationPrefix @ key) off = None"
    if "key \<in> {''rootfs-diskquota'', ''emptydir-diskquota'', ''emptydir-diskquota-total'', ''hostpath-diskquota''}" for key off
    using assms(1,2) that by (auto simp: getVolumeQuotaSize_def convertDiskQuotaFromAnnotations_def)
  show ?thesis
  proof (cases m)
    case (EmptyDirQuota off root)
    let ?P = "\<lambda>(name, p). \<exists>v e limit. v \<in> set (p_Volumes pod) \<and> v_Name v = name \<and> v_EmptyDir v = Some e \<and> ed_SizeLimit e = Some limit \<and>
      pi_Size p = Some (no_size\<lparr>sz_Quota := nat (q_value Q limit mod 2 ^ 64)\<rparr>)"
    have step: "\<forall>x \<in> set (emptydir_volume Q (ve_inHost E) root None None pod v acc). ?P x"
      if v: "v \<in> set (p_Volumes pod)" and acc: "\<forall>x \<in> set acc. ?P x" for v and acc :: "(string, PathInfo) gomap"
    proof (cases "\<exists>e newSize sh. v_EmptyDir v = Some e \<and> ed_Medium e \<noteq> ''Memory'' \<and> emptydir_size Q None None pod e = Some (newSize, sh)")
      case True
      then obtain e newSize sh where e: "v_EmptyDir v = Some e" "ed_Medium e \<noteq> ''Memory''" "emptydir_size Q None None pod e = Some (newSize, sh)" by blast
      then obtain limit where l: "ed_SizeLimit e = Some limit" "newSize = Some (no_size\<lparr>sz_Quota := nat (q_value Q limit mod 2 ^ 64)\<rparr>)"
        by (auto simp: emptydir_size_def nilVolumeQuotaSize_def no_size_def Let_def split: option.splits if_splits)
      have "?P (v_Name v, \<lparr>pi_Path = pt, pi_Size = newSize, pi_SharedInfo = sh\<rparr>)" for pt using v e(1) l by auto
      then show ?thesis using acc e set_update by (fastforce simp: emptydir_volume_def)
    next
      case False
      then show ?thesis using acc by (auto simp: emptydir_volume_def split: option.split)
    qed
    have "\<forall>x \<in> set (fold (emptydir_volume Q (ve_inHost E) root None None pod) (p_Volumes pod) []). ?P x"
      by (rule fold_invariant [where Q = "\<lambda>v. v \<in> set (p_Volumes pod)" and P = "\<lambda>acc. \<forall>x \<in> set acc. ?P x"]) (use step in simp_all)
    then have "?P (name, p)"
      using assms(3,4) sz [of "''emptydir-diskquota''"] sz [of "''emptydir-diskquota-total''"]
      by (auto simp: EmptyDirQuota emptydir_GetVolumes_def Let_def)
    then show ?thesis using EmptyDirQuota by auto
  qed (use assms(3,4) sz in \<open>auto simp: rootfs_GetVolumes_def hostpath_GetVolumes_def nilVolumeQuotaSize_def\<close>)
qed

text \<open>
  In a container's name space all paths begin with \<^verbatim>\<open>/rootfs\<close>, so the list of system directories that must not get a quota has no effect.
\<close>

lemma system_paths_not_protected:
  assumes "findMount (''/rootfs/var'' @ rest) = Some (m, opts)" and "m \<noteq> ''/rootfs/var'' @ rest"
  shows "checkHostPathAvailable findMount (''/rootfs/var'' @ rest)"
proof -
  have "split_on (CHR ''/'') (''/rootfs/var'' @ rest) = [] # ''rootfs'' # split_on (CHR ''/'') (''var'' @ rest)" by simp
  then show ?thesis using assms by (simp add: checkHostPathAvailable_def rootfsPaths_def Let_def)
qed


section \<open>A round on the node with one data disk\<close>

definition batch_pod :: "int volume_pod" where
  "batch_pod = \<lparr>p_Name = ''batch'', p_Namespace = ''ns'', p_UID = ''u1'', p_Annotations = Some [(''mixer.kubernetes.io/app-class'', ''greedy'')],
     p_Priority = None, p_Phase = ''Running'', p_StartTime = None, p_QOSClass = ''BestEffort'', p_Containers = [], p_ContainerIDs = [],
     p_HostNetwork = False, p_PodIP = [], p_Volumes = [\<lparr>v_Name = ''logs'', v_HostPath = Some ''/data/a'', v_EmptyDir = None\<rparr>]\<rparr>"

definition disk_env :: volume_env where
  "disk_env = \<lparr>ve_inHost = True, ve_inspect = (\<lambda>_. None), ve_isDirectory = (\<lambda>_. Some True)\<rparr>"

definition fresh_manager :: "int diskQuota" where
  "fresh_manager = fst (NewDiskQuota [(''hostPath'', one_gib)] ''/data'' True data_disk)"

definition gone_pod :: "int PodVolumes" where
  "gone_pod = \<lparr>pv_Pod = batch_pod, pv_AppClass = AppClassOffline, pv_Volumes = [], pv_lastTime = 3\<rparr>"

lemma batch_offline: "IsOffline (pod.truncate batch_pod)"
  by (simp add: IsOffline_def pod.defs batch_pod_def AnnotationOfflineKey_def AnnotationOfflineValue_def)

lemma batch_size: "getVolumeQuotaSize Q batch_pod (PodAnnotationPrefix @ key) off = off"
  if "key \<in> {''rootfs-diskquota'', ''emptydir-diskquota'', ''emptydir-diskquota-total'', ''hostpath-diskquota''}"
proof -
  have "map_of [(''mixer.kubernetes.io/app-class'', ''greedy'')] (PodAnnotationPrefix @ key) = None"
    using that by (auto simp: PodAnnotationPrefix_def)
  then show ?thesis
    by (simp add: getVolumeQuotaSize_def batch_offline convertDiskQuotaFromAnnotations_def) (simp add: batch_pod_def)
qed

lemma batch_volumes:
  "vm_GetVolumes Q disk_env k (RootFsQuota None) batch_pod = Some ([], False)"
  "vm_GetVolumes Q disk_env k (EmptyDirQuota None ''/data'') batch_pod = Some ([], False)"
  "vm_GetVolumes Q disk_env k (HostPathQuota (Some one_gib)) batch_pod =
     Some (if checkHostPathAvailable (k_findMount k) ''/data/a'' then [(''logs'', \<lparr>pi_Path = ''/data/a'', pi_Size = Some one_gib, pi_SharedInfo = None\<rparr>)] else [], False)"
proof -
  note sizes = batch_size [of "''rootfs-diskquota''"] batch_size [of "''emptydir-diskquota''"] batch_size [of "''emptydir-diskquota-total''"]
    batch_size [of "''hostpath-diskquota''"]
  have g: "\<not> nilVolumeQuotaSize (Some one_gib)" by (simp add: nilVolumeQuotaSize_def one_gib_def)
  have vs: "p_Volumes batch_pod = [\<lparr>v_Name = ''logs'', v_HostPath = Some ''/data/a'', v_EmptyDir = None\<rparr>]" by (simp add: batch_pod_def)
  show "vm_GetVolumes Q disk_env k (RootFsQuota None) batch_pod = Some ([], False)"
    "vm_GetVolumes Q disk_env k (EmptyDirQuota None ''/data'') batch_pod = Some ([], False)"
    "vm_GetVolumes Q disk_env k (HostPathQuota (Some one_gib)) batch_pod =
     Some (if checkHostPathAvailable (k_findMount k) ''/data/a'' then [(''logs'', \<lparr>pi_Path = ''/data/a'', pi_Size = Some one_gib, pi_SharedInfo = None\<rparr>)] else [], False)"
    using sizes
    by (simp_all add: rootfs_GetVolumes_def nilVolumeQuotaSize_def [of None] emptydir_GetVolumes_def hostpath_GetVolumes_def g vs emptydir_volume_def
        hostpath_volume_def disk_env_def in_namespace_def)
qed

lemma fresh_managers: "dk_volumeManagers fresh_manager = [RootFsQuota None, EmptyDirQuota None ''/data'', HostPathQuota (Some one_gib)]"
  by (simp add: fresh_manager_def NewDiskQuota_def)

lemma batch_unshared: "unshared_pod Q disk_env (dk_volumeManagers fresh_manager) batch_pod"
  unfolding unshared_pod_def fresh_managers by (auto simp: batch_volumes simp del: vm_GetVolumes.simps split: if_splits)

lemma host_path_ok: "checkHostPathAvailable (k_findMount data_disk) ''/data/a''"
  by (simp add: checkHostPathAvailable_def rootfsPaths_def data_disk_def Let_def)

lemma batch_round:
  assumes "dk_volumeManagers d = dk_volumeManagers fresh_manager" and "map_of (dk_handedPods d) ''u1'' = None"
  shows "\<exists>d' s'. diskquota_round nanoQ disk_env 5 [(6, batch_pod)] (d, NewProjectQuota True data_disk, data_disk) = Some (d', s')"
proof -
  let ?s = "(NewProjectQuota True data_disk, data_disk)"
  let ?k = "fst (setProjectQuota (bd_device data_dev) 1048577 one_gib with_id)"
  let ?none = "\<lparr>vi_getPathsSuccess = True, vi_setQuotasSuccess = False, vi_Paths = []\<rparr>"
  let ?w = "\<lparr>pi_Path = ''/data/a'', pi_Size = Some one_gib, pi_SharedInfo = None, pi_setQuotaSuccess = False\<rparr>"
  have u: "p_UID batch_pod = ''u1''" "p_Phase batch_pod = ''Running''" by (simp_all add: batch_pod_def)
  have paths: "foldM (volume_paths nanoQ disk_env batch_pod) (dk_volumeManagers fresh_manager) ([], ?s) =
      Some ([(''rootFs'', ?none), (''emptyDir'', ?none), (''hostPath'', ?none\<lparr>vi_Paths := [(''logs'', ?w)]\<rparr>)], ?s)"
    unfolding fresh_managers
    by (simp add: volume_paths_def getPathsInfo_def batch_volumes host_path_ok PathInfo.defs PathInfoWrapper.defs del: vm_GetVolumes.simps)
  have set: "setPathQuota True ''hostPath'' ?w ?s = Some ((?w\<lparr>pi_setQuotaSuccess := True\<rparr>, True), one_record, ?k)"
    using sample_set by (simp add: setPathQuota_def)
  have inH: "ve_inHost disk_env" by (simp add: disk_env_def)
  have quotas: "foldM (volume_quotas disk_env) (dk_volumeManagers fresh_manager)
      ([(''rootFs'', ?none), (''emptyDir'', ?none), (''hostPath'', ?none\<lparr>vi_Paths := [(''logs'', ?w)]\<rparr>)], ?s) =
      Some ([(''rootFs'', ?none\<lparr>vi_setQuotasSuccess := True\<rparr>), (''emptyDir'', ?none\<lparr>vi_setQuotasSuccess := True\<rparr>),
        (''hostPath'', \<lparr>vi_getPathsSuccess = True, vi_setQuotasSuccess = True, vi_Paths = [(''logs'', ?w\<lparr>pi_setQuotaSuccess := True\<rparr>)]\<rparr>)], one_record, ?k)"
    unfolding fresh_managers using set by (simp add: volume_quotas_def set_path_def inH)
  obtain d1 where h: "handleDiskQuota nanoQ disk_env [(6, batch_pod)] (d, ?s) = Some (d1, one_record, ?k)"
    using paths quotas assms by (simp add: handleDiskQuota_def handlePodDiskQuota_def u)
  have small: "\<exists>y. ClearQuota inHost t one_record k = Some y" for inHost t k
    using quota_calls_return [of one_record inHost t "[]" None None k] by (simp add: one_record_def)
  have "GetAllQuotaPath one_record = [(hd (split_on (CHR ''-'') (IdName 1048577 ''hostPath'')), [''/data/a''])]"
    by (simp add: GetAllQuotaPath_def one_record_def)
  then have "\<exists>s'. clearDiskQuota True (removeExitedPods 5 d1) (one_record, ?k) = Some s'"
    using small [of True "''/data/a''" ?k] by (auto simp: clearDiskQuota_def clear_path_def)
  then show ?thesis using h inH by (auto simp: diskquota_round_def)
qed

theorem round_tracks_running_pods_witness:
  "\<exists>d' s'. diskquota_round nanoQ disk_env 5 [(6, batch_pod)]
       (fresh_manager\<lparr>dk_handedPods := [(''u0'', gone_pod)]\<rparr>, NewProjectQuota True data_disk, data_disk) = Some (d', s') \<and>
     dom (map_of (dk_handedPods d')) = {''u1''}"
proof -
  let ?d = "fresh_manager\<lparr>dk_handedPods := [(''u0'', gone_pod)]\<rparr>"
  obtain d' s' where r: "diskquota_round nanoQ disk_env 5 [(6, batch_pod)] (?d, NewProjectQuota True data_disk, data_disk) = Some (d', s')"
    using batch_round [of ?d] by auto
  have "{pod. pod = batch_pod \<and> runs pod} = {batch_pod}" by (auto simp: runs_def batch_pod_def)
  then have "p_UID ` {pod. pod = batch_pod \<and> runs pod} = {''u1''}" by (simp add: batch_pod_def)
  then show ?thesis using round_tracks_running_pods [OF r] r by (auto simp: gone_pod_def)
qed

theorem rounds_keep_ids_apart_witness:
  "\<exists>d' s'. foldM (\<lambda>(E, lastUpdate, podList). diskquota_round nanoQ E lastUpdate podList) [(disk_env, 5, [(6, batch_pod)])]
       (fresh_manager, NewProjectQuota True data_disk, data_disk) = Some (d', s') \<and> exclusive (fst s')"
proof -
  obtain d' s' where "diskquota_round nanoQ disk_env 5 [(6, batch_pod)] (fresh_manager, NewProjectQuota True data_disk, data_disk) = Some (d', s')"
    using batch_round [of fresh_manager] by (auto simp: fresh_manager_def NewDiskQuota_def)
  then have r: "foldM (\<lambda>(E, lastUpdate, podList). diskquota_round nanoQ E lastUpdate podList) [(disk_env, 5, [(6, batch_pod)])]
       (fresh_manager, NewProjectQuota True data_disk, data_disk) = Some (d', s')" by simp
  have "unshared_manager fresh_manager" "exclusive (NewProjectQuota True data_disk)"
    by (simp_all add: unshared_manager_def fresh_manager_def NewDiskQuota_def exclusive_def NewProjectQuota_def DumpProjectIds_def dumpProjectsFile_def data_disk_def)
  then have "exclusive (fst s')" using rounds_keep_ids_apart [OF r] batch_unshared by simp
  then show ?thesis using r by blast
qed


definition online_pod :: "int volume_pod" where
  "online_pod = batch_pod\<lparr>p_Annotations := None, p_Volumes := [\<lparr>v_Name = ''tmp'', v_HostPath = None,
     v_EmptyDir = Some \<lparr>ed_Medium = [], ed_SizeLimit = Some 1000000000\<rparr>\<rparr>]\<rparr>"

theorem online_pods_limited_by_own_limits_witness:
  "\<exists>p. vm_GetVolumes nanoQ disk_env data_disk (EmptyDirQuota (Some one_gib) ''/data'') online_pod = Some ([(''tmp'', p)], False) \<and>
     pi_Size p = Some (no_size\<lparr>sz_Quota := 1\<rparr>)"
proof -
  have off: "\<not> IsOffline (pod.truncate online_pod)" by (simp add: IsOffline_def pod.defs online_pod_def batch_pod_def)
  have no: "p_Annotations online_pod = None" by (simp add: online_pod_def)
  have sz: "getVolumeQuotaSize nanoQ online_pod key o' = None" for key o'
    by (simp add: getVolumeQuotaSize_def off convertDiskQuotaFromAnnotations_def no)
  have v: "q_value nanoQ 1000000000 = 1" by (simp add: nano_ops)
  have vs: "p_Volumes online_pod = [\<lparr>v_Name = ''tmp'', v_HostPath = None, v_EmptyDir = Some \<lparr>ed_Medium = [], ed_SizeLimit = Some 1000000000\<rparr>\<rparr>]"
    by (simp add: online_pod_def)
  obtain p where p: "vm_GetVolumes nanoQ disk_env data_disk (EmptyDirQuota (Some one_gib) ''/data'') online_pod = Some ([(''tmp'', p)], False)"
    by (simp add: emptydir_GetVolumes_def sz vs emptydir_volume_def emptydir_size_def v nilVolumeQuotaSize_def no_size_def)
  from online_pods_limited_by_own_limits [OF off _ p, of "''tmp''" p] show ?thesis using p by (auto simp: no vs v)
qed

end
