(* ===== verification/TimeSeries.thy ===== *)
theory TimeSeries
  imports Float64 Prelude
begin

text \<open>
  \<^verbatim>\<open>cpi/time_series.go\<close>: samples by time, with a sorted list of the times that is searched by
  bisection (\<^verbatim>\<open>sort.Search\<close>). Times are nanoseconds. A nil pointer is \<open>None\<close>.
\<close>

section \<open>Bisection\<close>

text \<open>\<^verbatim>\<open>sort.Search\<close>: the loop keeps a range \<open>i..j\<close> and asks at its middle.\<close>

function search_range :: "(nat \<Rightarrow> bool) \<Rightarrow> nat \<Rightarrow> nat \<Rightarrow> nat" where
  "search_range f i j =
     (if i < j then let h = (i + j) div 2 in if \<not> f h then search_range f (h + 1) j else search_range f i h else i)"
  by pat_completeness auto
termination
  by (relation "measure (\<lambda>(f, i, j). j - i)") auto

declare search_range.simps [simp del]

definition sort_Search :: "nat \<Rightarrow> (nat \<Rightarrow> bool) \<Rightarrow> nat" where
  "sort_Search n f = search_range f 0 n"

text \<open>For a predicate that stays true once it is true the result is the first index where it is.\<close>

definition first_index :: "nat \<Rightarrow> (nat \<Rightarrow> bool) \<Rightarrow> nat \<Rightarrow> bool" where
  "first_index n f r \<longleftrightarrow> r \<le> n \<and> (\<forall>a < r. \<not> f a) \<and> (\<forall>a. r \<le> a \<and> a < n \<longrightarrow> f a)"

lemma search_range_first:
  assumes mono: "\<And>a b. a \<le> b \<Longrightarrow> b < n \<Longrightarrow> f a \<Longrightarrow> f b"
    and "i \<le> j" and "j \<le> n" and "\<forall>a < i. \<not> f a" and "\<forall>a. j \<le> a \<and> a < n \<longrightarrow> f a"
  shows "first_index n f (search_range f i j)"
  using assms(2-5)
proof (induction "j - i" arbitrary: i j rule: less_induct)
  case less
  show ?case
  proof (cases "i < j")
    case True
    define h where "h = (i + j) div 2"
    have h: "i \<le> h" "h < j" using True by (auto simp: h_def)
    show ?thesis
    proof (cases "f h")
      case True
      then have "first_index n f (search_range f i h)" using less h mono by (intro less.hyps) auto
      then show ?thesis using \<open>i < j\<close> True by (subst search_range.simps) (simp add: h_def [symmetric])
    next
      case False
      have "\<not> f a" if "a < h + 1" for a
        using mono [of a h] h(2) less.prems(2) that False by linarith
      then have "\<forall>a < h + 1. \<not> f a" by blast
      then have "first_index n f (search_range f (h + 1) j)" using less h by (intro less.hyps) auto
      then show ?thesis using \<open>i < j\<close> False by (subst search_range.simps) (simp add: h_def [symmetric])
    qed
  next
    case False
    then show ?thesis using less.prems by (subst search_range.simps) (simp add: first_index_def)
  qed
qed

lemma sort_Search_first: "(\<And>a b. a \<le> b \<Longrightarrow> b < n \<Longrightarrow> f a \<Longrightarrow> f b) \<Longrightarrow> first_index n f (sort_Search n f)"
  unfolding sort_Search_def by (rule search_range_first) auto

section \<open>Series\<close>

record timeSeries =
  ts_timeline :: "int list"
  ts_data :: "(int, float64) gomap"

definition newTimeSeries :: timeSeries where
  "newTimeSeries = \<lparr>ts_timeline = [], ts_data = []\<rparr>"

text \<open>A time that is added twice stands twice in the time line.\<close>

definition ts_add :: "float64 \<Rightarrow> go_time \<Rightarrow> timeSeries \<Rightarrow> timeSeries" where
  "ts_add v timestamp t = t\<lparr>ts_data := AList.update timestamp v (ts_data t), ts_timeline := sort (ts_timeline t @ [timestamp])\<rparr>"

definition getByUnixNano :: "timeSeries \<Rightarrow> int \<Rightarrow> float64 option" where
  "getByUnixNano t nano = map_of (ts_data t) nano"

definition index_from :: "timeSeries \<Rightarrow> go_time \<Rightarrow> nat" where
  "index_from t x = sort_Search (length (ts_timeline t)) (\<lambda>i. ts_timeline t ! i \<ge> x)"

definition rangeSearch :: "go_time \<Rightarrow> go_time \<Rightarrow> timeSeries \<Rightarrow> timeSeries option" where
  "rangeSearch start stop t =
     (if stop < start then None
      else let startIndex = index_from t start in
        if startIndex = length (ts_timeline t) then None
        else let endIndex = index_from t stop;
                 endIndex = (if endIndex < length (ts_timeline t) \<and> ts_timeline t ! endIndex = stop then endIndex + 1 else endIndex);
                 timeRange = take (endIndex - startIndex) (drop startIndex (ts_timeline t))
             in Some (fold (\<lambda>ts ret. case map_of (ts_data t) ts of None \<Rightarrow> ret | Some v \<Rightarrow> ts_add v ts ret) timeRange newTimeSeries))"

text \<open>
  The values divided by their sum. The sum is taken in the order of the map. When it is zero every value is not a number,
  which \<open>None\<close> stands for (the values are usages, and not negative).
\<close>

definition normalize :: "timeSeries \<Rightarrow> (int, float64 option) gomap" where
  "normalize t =
     (let s = fold (\<lambda>(_, v) s. fl (s + v)) (ts_data t) 0
      in map (\<lambda>(tl, v). (tl, if s = 0 then None else Some (fl (v / s)))) (ts_data t))"

definition expire :: "go_time \<Rightarrow> timeSeries \<Rightarrow> timeSeries" where
  "expire before t =
     (let i = index_from t before; expired = take i (ts_timeline t)
      in t\<lparr>ts_timeline := drop i (ts_timeline t), ts_data := fold AList.delete expired (ts_data t)\<rparr>)"

section \<open>What the operations do to the samples\<close>

definition ts_inv :: "timeSeries \<Rightarrow> bool" where
  "ts_inv t \<longleftrightarrow> sorted (ts_timeline t) \<and> set (ts_timeline t) = dom (map_of (ts_data t)) \<and> wf_map (ts_data t)"

lemma ts_inv_new [simp]: "ts_inv newTimeSeries"
  by (simp add: ts_inv_def newTimeSeries_def)

lemma ts_inv_add [wf_intros]: "ts_inv t \<Longrightarrow> ts_inv (ts_add v x t)"
  by (auto simp: ts_inv_def ts_add_def)

lemma index_from_first:
  assumes "ts_inv t"
  shows "first_index (length (ts_timeline t)) (\<lambda>i. ts_timeline t ! i \<ge> x) (index_from t x)"
  unfolding index_from_def
proof (rule sort_Search_first)
  fix a b assume "a \<le> b" "b < length (ts_timeline t)" "x \<le> ts_timeline t ! a"
  then show "x \<le> ts_timeline t ! b" using assms sorted_nth_mono [of "ts_timeline t" a b] by (auto simp: ts_inv_def)
qed

lemma index_from_le: "ts_inv t \<Longrightarrow> index_from t x \<le> length (ts_timeline t)"
  using index_from_first by (simp add: first_index_def)

lemma take_index: "ts_inv t \<Longrightarrow> set (take (index_from t x) (ts_timeline t)) = {y \<in> set (ts_timeline t). y < x}"
  and drop_index: "ts_inv t \<Longrightarrow> set (drop (index_from t x) (ts_timeline t)) = {y \<in> set (ts_timeline t). x \<le> y}"
proof -
  assume t: "ts_inv t"
  note f = index_from_first [OF t, of x, unfolded first_index_def]
  have lo: "y < x" if "y \<in> set (take (index_from t x) (ts_timeline t))" for y
    using that f by (force simp: in_set_conv_nth)
  have hi: "x \<le> y" if "y \<in> set (drop (index_from t x) (ts_timeline t))" for y
    using that f by (force simp: in_set_conv_nth)
  have "set (ts_timeline t) = set (take (index_from t x) (ts_timeline t)) \<union> set (drop (index_from t x) (ts_timeline t))"
    by (metis append_take_drop_id set_append)
  then show "set (take (index_from t x) (ts_timeline t)) = {y \<in> set (ts_timeline t). y < x}"
    "set (drop (index_from t x) (ts_timeline t)) = {y \<in> set (ts_timeline t). x \<le> y}"
    using lo hi by force+
qed


lemma copy_samples:
  assumes "ts_inv r"
  shows "ts_inv (fold (\<lambda>x r. case map_of d x of None \<Rightarrow> r | Some v \<Rightarrow> ts_add v x r) xs r)"
    and "map_of (ts_data (fold (\<lambda>x r. case map_of d x of None \<Rightarrow> r | Some v \<Rightarrow> ts_add v x r) xs r)) x =
      (if x \<in> set xs \<and> gmap_has d x then map_of d x else map_of (ts_data r) x)"
  using assms
proof (induction xs arbitrary: r)
  case (Cons a xs)
  { case 1 then show ?case using Cons.IH(1) by (auto intro: ts_inv_add split: option.split) }
  { case 2
    have "ts_inv (case map_of d a of None \<Rightarrow> r | Some v \<Rightarrow> ts_add v a r)"
      using 2 by (auto intro: ts_inv_add split: option.split)
    from Cons.IH(2) [OF this] show ?case by (auto simp: ts_add_def split: option.split) }
qed auto

text \<open>The part of the time line that is copied holds the times of the interval.\<close>

lemma interval_times:
  assumes t: "ts_inv t" and "start \<le> stop" and e: "e = (if index_from t stop < length (ts_timeline t) \<and>
      ts_timeline t ! index_from t stop = stop then index_from t stop + 1 else index_from t stop)"
  shows "set (take (e - index_from t start) (drop (index_from t start) (ts_timeline t))) =
    {x \<in> set (ts_timeline t). start \<le> x \<and> x \<le> stop}" (is "set ?r = ?s")
proof (intro set_eqI iffI)
  let ?l = "ts_timeline t"
  note a = index_from_first [OF t, of start, unfolded first_index_def]
  note b = index_from_first [OF t, of stop, unfolded first_index_def]
  have el: "e \<le> length ?l" using b by (auto simp: e)
  fix x
  {
    assume "x \<in> set ?r"
    then obtain i where i: "i < length ?r" "x = ?r ! i" by (auto simp: in_set_conv_nth)
    then have k: "index_from t start + i < e" "x = ?l ! (index_from t start + i)" using el by auto
    then have "start \<le> x" using a el by auto
    moreover have "x \<le> stop"
    proof (cases "index_from t start + i < index_from t stop")
      case True
      then have "\<not> stop \<le> x" using b k by auto
      then show ?thesis by simp
    next
      case False
      then have "index_from t start + i = index_from t stop" "?l ! index_from t stop = stop" using k(1) by (auto simp: e split: if_splits)
      then show ?thesis using k(2) by simp
    qed
    ultimately show "x \<in> ?s" using k el by (metis (no_types, lifting) mem_Collect_eq nth_mem order_less_le_trans)
  next
    assume x: "x \<in> ?s"
    have "\<exists>j < e. ?l ! j = x"
    proof (cases "x = stop")
      case True
      have "stop \<in> set (drop (index_from t stop) ?l)" using x True drop_index [OF t, of stop] by auto
      then have n: "index_from t stop < length ?l" by (metis drop_all empty_iff linorder_not_less list.set(1))
      have "?l ! index_from t stop = stop"
      proof -
        obtain k where k: "k < length ?l" "?l ! k = stop" using x True by (auto simp: in_set_conv_nth)
        then have "index_from t stop \<le> k" using b by (metis linorder_not_less order_refl)
        then have "?l ! index_from t stop \<le> stop" using t k sorted_nth_mono [of ?l "index_from t stop" k] by (simp add: ts_inv_def)
        then show ?thesis using b n by (metis order_antisym order_refl)
      qed
      then show ?thesis using True n by (intro exI [of _ "index_from t stop"]) (simp add: e)
    next
      case False
      then have "x \<in> set (take (index_from t stop) ?l)" using x take_index [OF t, of stop] by auto
      then obtain j where "j < index_from t stop" "?l ! j = x" by (auto simp: in_set_conv_nth)
      then show ?thesis by (intro exI [of _ j]) (simp add: e)
    qed
    then obtain j where j: "j < e" "?l ! j = x" by blast
    then have "index_from t start \<le> j" using a x by (metis (no_types, lifting) linorder_not_less mem_Collect_eq)
    then have "?r ! (j - index_from t start) = x" "j - index_from t start < length ?r" using j el by auto
    then show "x \<in> set ?r" by (metis nth_mem)
  }
qed

lemma rangeSearch_None: "ts_inv t \<Longrightarrow>
    rangeSearch start stop t = None \<longleftrightarrow> stop < start \<or> (\<forall>x \<in> set (ts_timeline t). x < start)"
proof -
  assume t: "ts_inv t"
  have "index_from t start = length (ts_timeline t) \<longleftrightarrow> (\<forall>x \<in> set (ts_timeline t). x < start)"
    using drop_index [OF t, of start] index_from_le [OF t, of start]
    by (auto simp: set_eq_iff drop_eq_Nil dest: spec [of _ "ts_timeline t ! index_from t start"])
       (metis (mono_tags, lifting) append_Nil2 append_take_drop_id drop_eq_Nil le_antisym length_greater_0_conv linorder_not_le list.set_sel(1) mem_Collect_eq nth_mem)
  then show ?thesis by (auto simp: rangeSearch_def Let_def)
qed

lemma rangeSearch_Some:
  assumes t: "ts_inv t" and r: "rangeSearch start stop t = Some r"
  shows "ts_inv r" and "map_of (ts_data r) x = (if start \<le> x \<and> x \<le> stop then map_of (ts_data t) x else None)"
proof -
  have ss: "start \<le> stop" using r by (auto simp: rangeSearch_def split: if_splits)
  note times = interval_times [OF t ss refl]
  show "ts_inv r" using r copy_samples(1) [OF ts_inv_new] by (auto simp: rangeSearch_def Let_def split: if_splits)
  obtain xs where xs: "set xs = {x \<in> set (ts_timeline t). start \<le> x \<and> x \<le> stop}"
    "r = fold (\<lambda>ts ret. case map_of (ts_data t) ts of None \<Rightarrow> ret | Some v \<Rightarrow> ts_add v ts ret) xs newTimeSeries"
    using r times by (auto simp: rangeSearch_def Let_def split: if_splits)
  show "map_of (ts_data r) x = (if start \<le> x \<and> x \<le> stop then map_of (ts_data t) x else None)"
    unfolding xs(2) copy_samples(2) [OF ts_inv_new] using t xs(1)
    by (auto simp: newTimeSeries_def ts_inv_def simp del: map_of_eq_Some_iff map_of_eq_None_iff)
qed

lemma delete_all: "map_of (fold AList.delete xs d) x = (if x \<in> set xs then None else map_of d x)"
  by (induction xs arbitrary: d) auto

lemma wf_map_delete_all [wf_intros]: "wf_map d \<Longrightarrow> wf_map (fold AList.delete xs d)"
  by (induction xs arbitrary: d) auto

lemma expire_data: "ts_inv t \<Longrightarrow> map_of (ts_data (expire before t)) x = (if x < before then None else map_of (ts_data t) x)"
  by (auto simp: expire_def Let_def delete_all take_index ts_inv_def map_of_eq_None_iff set_eq_iff dom_def)

lemma ts_inv_expire [wf_intros]: "ts_inv t \<Longrightarrow> ts_inv (expire before t)"
proof -
  assume t: "ts_inv t"
  have "dom (map_of (ts_data (expire before t))) = {x \<in> set (ts_timeline t). before \<le> x}"
    using t by (auto simp: dom_def expire_data ts_inv_def)
  then show ?thesis using t drop_index [OF t, of before]
    by (simp add: ts_inv_def expire_def Let_def wf_map_delete_all sorted_wrt_drop)
qed

text \<open>
  The bisection over the time line computes the reference: the samples of the series restricted to the interval, both ends included. Nil is
  returned exactly for an empty interval and when every sample lies before it.
\<close>

lemma rangeSearch_restricts:
  assumes "ts_inv t"
  shows "case rangeSearch start stop t of
      None \<Rightarrow> stop < start \<or> (\<forall>x. gmap_has (ts_data t) x \<longrightarrow> x < start)
    | Some r \<Rightarrow> start \<le> stop \<and> (\<exists>x \<ge> start. gmap_has (ts_data t) x) \<and> ts_inv r \<and> map_of (ts_data r) = map_of (ts_data t) |` {start..stop}"
proof (cases "rangeSearch start stop t")
  case None
  then have "stop < start \<or> (\<forall>x \<in> set (ts_timeline t). x < start)" using rangeSearch_None [OF assms] by blast
  then show ?thesis using assms unfolding None option.case ts_inv_def by blast
next
  case (Some r)
  then have "start \<le> stop" "\<exists>x \<in> set (ts_timeline t). start \<le> x"
    using rangeSearch_None [OF assms, of start stop] by (auto simp: not_less)
  moreover have "map_of (ts_data r) = map_of (ts_data t) |` {start..stop}"
    using rangeSearch_Some(2) [OF assms Some] by (auto simp: fun_eq_iff restrict_map_def)
  moreover have "\<exists>x \<ge> start. gmap_has (ts_data t) x" using calculation(2) assms unfolding ts_inv_def by blast
  ultimately show ?thesis using rangeSearch_Some(1) [OF assms Some] unfolding Some option.case by blast
qed

theorem rangeSearch_restricts_witness:
  "\<exists>r. rangeSearch 3 5 \<lparr>ts_timeline = [1, 4, 6], ts_data = [(4, 8), (1, 7), (6, 9)]\<rparr> = Some r \<and> map_of (ts_data r) = [4 \<mapsto> 8]"
proof -
  let ?t = "\<lparr>ts_timeline = [1, 4, 6], ts_data = [(4, 8), (1, 7), (6, 9)]\<rparr> :: timeSeries"
  have "ts_inv ?t" by (auto simp: ts_inv_def)
  note r = rangeSearch_restricts [OF this, where start = 3 and stop = 5]
  show ?thesis
  proof (cases "rangeSearch 3 5 ?t")
    case None
    then show ?thesis using r by (auto dest: spec [of _ 4])
  next
    case (Some s)
    then have "map_of (ts_data s) = map_of (ts_data ?t) |` {3..5}" using r unfolding Some option.case by blast
    then show ?thesis using Some by (auto simp: restrict_map_def fun_eq_iff simp del: map_of_eq_Some_iff)
  qed
qed

end
