(* ===== verification/Cpi.thy ===== *)
theory Cpi
  imports TimeSeries Durations
begin

text \<open>
  \<^verbatim>\<open>cpi/manager.go\<close>: the manager that compares the cycles per instruction of the tasks on the node with the
  mean and deviation of their job, which it reads from prometheus, and looks for tasks whose cpu usage goes along with a bad
  value. The prometheus client is the parameter \<open>api\<close>, the printing and parsing of a sample's value the parameter \<open>conv\<close>. A
  result \<open>None\<close> of an operation is a panic; a correlation \<open>None\<close> is a number that is not finite.
\<close>

section \<open>Data\<close>

record TaskMeta =
  tm_JobName :: string
  tm_TaskName :: string

record JobSpec =
  js_JobName :: string
  js_CPIMean :: float64
  js_CPIStdDev :: float64
  js_ExpiredAt :: go_time

record Antagonist =
  an_TaskMeta :: TaskMeta
  an_correlation :: "float64 option"

record CPIManager =
  cm_window :: go_duration
  cm_jobSpecQueryRange :: go_duration
  cm_cpiCache :: "(TaskMeta, timeSeries) gomap"
  cm_cpuCache :: "(TaskMeta, timeSeries) gomap"
  cm_jobSpecCache :: "(string, JobSpec) gomap"

text \<open>What a query gives back: a matrix of series with their labels, or something else.\<close>

record SamplePair =
  sp_Timestamp :: go_time
  sp_Value :: float64

record SampleStream =
  ss_Metric :: "(string, string) gomap"
  ss_Values :: "SamplePair list"

record sampleWithTTL =
  sw_metric :: "(string, string) gomap"
  sw_sample :: SamplePair
  sw_expiredAt :: go_time

datatype api_result = Matrix "SampleStream list" | OtherResult

datatype cpi_error = ClientFailed | QueryFailed | NotMatrix string | ParseTTLFailed string | ParseMeanFailed | ParseStdDevFailed

definition outlierThreshold :: "JobSpec \<Rightarrow> float64" where
  "outlierThreshold s = fl (js_CPIMean s + fl (2 * js_CPIStdDev s))"

section \<open>Names\<close>

definition strings_LastIndex :: "string \<Rightarrow> char \<Rightarrow> nat option" where
  "strings_LastIndex s c = map_option (\<lambda>i. length s - 1 - i) (strings_Index (rev s) c)"

definition getJobName :: "string \<Rightarrow> string \<Rightarrow> string" where
  "getJobName podName containerName =
     (if podName \<noteq> [] then (case strings_LastIndex podName (CHR ''-'') of None \<Rightarrow> containerName | Some i \<Rightarrow> take i podName)
      else containerName)"

definition getTaskName :: "string \<Rightarrow> string \<Rightarrow> string" where
  "getTaskName podName containerName = (if podName \<noteq> [] then podName else containerName)"

section \<open>Job specifications\<close>

text \<open>The leftmost match of \<^verbatim>\<open>[0-9]*[a-zA-Z]\<close>.\<close>

definition is_letter :: "char \<Rightarrow> bool" where
  "is_letter c \<longleftrightarrow> (let n = (of_char c :: nat) in (65 \<le> n \<and> n \<le> 90) \<or> (97 \<le> n \<and> n \<le> 122))"

fun reg_Find :: "string \<Rightarrow> string" where
  "reg_Find [] = []"
| "reg_Find (c # s) =
     (case dropWhile is_digit (c # s) of
        x # _ \<Rightarrow> if is_letter x then takeWhile is_digit (c # s) @ [x] else reg_Find s
      | [] \<Rightarrow> reg_Find s)"

definition truncDuration :: "go_duration \<Rightarrow> string" where
  "truncDuration dur = reg_Find (Duration_String dur)"

text \<open>\<^verbatim>\<open>%q\<close> on printable ASCII text.\<close>

definition strconv_Quote :: "string \<Rightarrow> string" where
  "strconv_Quote s = [CHR 0x22] @ concat (map (\<lambda>c. if c = CHR 0x22 \<or> c = CHR 0x5C then [CHR 0x5C, c] else [c]) s) @ [CHR 0x22]"

definition spec_query :: "string \<Rightarrow> string \<Rightarrow> go_duration \<Rightarrow> string" where
  "spec_query metric job rng = metric @ ''{job_name='' @ strconv_Quote job @ ''}['' @ truncDuration rng @ '']''"

definition query :: "(string \<Rightarrow> api_result option) \<Rightarrow> string \<Rightarrow> cpi_error + SampleStream list" where
  "query api q =
     (case api q of None \<Rightarrow> Inl QueryFailed
      | Some OtherResult \<Rightarrow> Inl (NotMatrix q)
      | Some (Matrix m) \<Rightarrow> Inr m)"

text \<open>A series without values makes \<^verbatim>\<open>s.Values[len(s.Values)-1]\<close> panic.\<close>

fun latest_from :: "SampleStream list \<Rightarrow> sampleWithTTL option \<Rightarrow> (cpi_error + sampleWithTTL option) option" where
  "latest_from [] min_s = Some (Inr min_s)"
| "latest_from (s # m) min_s =
     (let raw = (case map_of (ss_Metric s) ''ttl'' of None \<Rightarrow> [] | Some v \<Rightarrow> v)
      in case ParseDuration raw of
           None \<Rightarrow> Some (Inl (ParseTTLFailed raw))
         | Some ttl \<Rightarrow>
             if ss_Values s = [] then None
             else let latestSample = last (ss_Values s); createdAt = sp_Timestamp latestSample;
                      newer = (case min_s of None \<Rightarrow> True | Some x \<Rightarrow> createdAt > sp_Timestamp (sw_sample x))
                  in latest_from m
                       (if newer then Some \<lparr>sw_metric = ss_Metric s, sw_sample = latestSample, sw_expiredAt = createdAt + ttl\<rparr> else min_s))"

definition getLatestSample :: "SampleStream list \<Rightarrow> (cpi_error + sampleWithTTL option) option" where
  "getLatestSample m = latest_from m None"

definition merge_samples :: "(float64 \<Rightarrow> float64 option) \<Rightarrow> sampleWithTTL \<Rightarrow> sampleWithTTL \<Rightarrow> cpi_error + JobSpec option" where
  "merge_samples conv meanSample stddevSample =
     (if sp_Timestamp (sw_sample meanSample) \<noteq> sp_Timestamp (sw_sample stddevSample) then Inr None
      else case conv (sp_Value (sw_sample meanSample)) of None \<Rightarrow> Inl ParseMeanFailed
        | Some mean \<Rightarrow>
            (case conv (sp_Value (sw_sample stddevSample)) of None \<Rightarrow> Inl ParseStdDevFailed
             | Some stddev \<Rightarrow>
                 Inr (Some \<lparr>js_JobName = (case map_of (sw_metric meanSample) ''job_name'' of None \<Rightarrow> [] | Some v \<Rightarrow> v),
                   js_CPIMean = mean, js_CPIStdDev = stddev, js_ExpiredAt = sw_expiredAt meanSample\<rparr>)))"

definition makeJobSpec ::
  "(float64 \<Rightarrow> float64 option) \<Rightarrow> SampleStream list \<Rightarrow> SampleStream list \<Rightarrow> (cpi_error + JobSpec option) option" where
  "makeJobSpec conv meanMatrix stddevMatrix =
     (case getLatestSample meanMatrix of None \<Rightarrow> None
      | Some (Inl e) \<Rightarrow> Some (Inl e)
      | Some (Inr None) \<Rightarrow> Some (Inr None)
      | Some (Inr (Some meanSample)) \<Rightarrow>
          (case getLatestSample stddevMatrix of None \<Rightarrow> None
           | Some (Inl e) \<Rightarrow> Some (Inl e)
           | Some (Inr None) \<Rightarrow> Some (Inr None)
           | Some (Inr (Some stddevSample)) \<Rightarrow> Some (merge_samples conv meanSample stddevSample)))"

text \<open>The body of the loop that refreshes the specifications: one task of the cache.\<close>

definition refresh_spec ::
  "(string \<Rightarrow> api_result option) \<Rightarrow> (float64 \<Rightarrow> float64 option) \<Rightarrow> (TaskMeta \<Rightarrow> go_time) \<Rightarrow> go_duration
     \<Rightarrow> TaskMeta \<Rightarrow> (string, JobSpec) gomap \<Rightarrow> (string, JobSpec) gomap option" where
  "refresh_spec api conv clk rng task specs =
     (let job = tm_JobName task;
          fresh = (case map_of specs job of None \<Rightarrow> False | Some spec \<Rightarrow> \<not> js_ExpiredAt spec < clk task)
      in if fresh then Some specs
         else case query api (spec_query ''cpi_spec_mean'' job rng) of Inl _ \<Rightarrow> Some specs
           | Inr meanMatrix \<Rightarrow>
               if meanMatrix = [] then Some specs
               else case query api (spec_query ''cpi_spec_stddev'' job rng) of Inl _ \<Rightarrow> Some specs
                 | Inr stddevMatrix \<Rightarrow>
                     if stddevMatrix = [] then Some specs
                     else case makeJobSpec conv meanMatrix stddevMatrix of None \<Rightarrow> None
                       | Some (Inr (Some jobSpec)) \<Rightarrow> Some (AList.update job jobSpec specs)
                       | Some _ \<Rightarrow> Some specs)"

section \<open>Outliers and antagonists\<close>

text \<open>A sample counts when the task used a quarter of a core and its value reaches the threshold.\<close>

definition abnormal :: "timeSeries \<Rightarrow> float64 \<Rightarrow> int \<times> float64 \<Rightarrow> bool" where
  "abnormal cpu threshold p =
     (case getByUnixNano cpu (fst p) of None \<Rightarrow> False | Some cpuUsage \<Rightarrow> \<not> cpuUsage < 1 / 4 \<and> snd p \<ge> threshold)"

definition judge ::
  "(TaskMeta, timeSeries) gomap \<Rightarrow> (string, JobSpec) gomap \<Rightarrow> go_time \<Rightarrow> TaskMeta \<times> timeSeries \<Rightarrow> TaskMeta list \<Rightarrow> TaskMeta list option" where
  "judge cpuCache specs now mt outlier =
     (case map_of specs (tm_JobName (fst mt)) of
        None \<Rightarrow> Some outlier
      | Some jobSpec \<Rightarrow>
          (case rangeSearch (now - 5 * minute) now (snd mt) of
             None \<Rightarrow> None
           | Some cpiValues \<Rightarrow>
               (case map_of cpuCache (fst mt) of
                  None \<Rightarrow> if ts_data cpiValues = [] then Some outlier else None
                | Some cpu \<Rightarrow>
                    let abnormalCnt = length (filter (abnormal cpu (outlierThreshold jobSpec)) (ts_data cpiValues))
                    in Some (if abnormalCnt \<ge> 3 then outlier @ [fst mt] else outlier))))"

definition findOutlier ::
  "(TaskMeta, timeSeries) gomap \<Rightarrow> (TaskMeta, timeSeries) gomap \<Rightarrow> (string, JobSpec) gomap \<Rightarrow> go_time \<Rightarrow> TaskMeta list option" where
  "findOutlier cpiCache cpuCache specs now = foldM (judge cpuCache specs now) cpiCache []"

text \<open>Division that may leave the finite numbers.\<close>

definition go_div :: "float64 \<Rightarrow> float64 \<Rightarrow> float64 option" where
  "go_div x y = (if y = 0 then None else Some (fl (x / y)))"

definition correlate :: "timeSeries \<Rightarrow> (int, float64 option) gomap \<Rightarrow> float64 \<Rightarrow> int \<Rightarrow> float64 option \<Rightarrow> float64 option" where
  "correlate victimCPI suspectCPU threshold t correlation =
     (let u = (case map_of suspectCPU t of None \<Rightarrow> Some 0 | Some u \<Rightarrow> u);
          c = (case getByUnixNano victimCPI t of None \<Rightarrow> 0 | Some c \<Rightarrow> c);
          factor = (if c > threshold then map_option (\<lambda>q. fl (1 - q)) (go_div threshold c)
                    else map_option (\<lambda>q. fl (q - 1)) (go_div c threshold))
      in case (u, factor, correlation) of
           (Some u, Some f, Some k) \<Rightarrow> Some (fl (k + fl (u * f)))
         | _ \<Rightarrow> None)"

definition suspects ::
  "(TaskMeta, timeSeries) gomap \<Rightarrow> timeSeries \<Rightarrow> float64 \<Rightarrow> go_time \<Rightarrow> go_time \<Rightarrow> Antagonist list option" where
  "suspects cpuCache victimCPI threshold windowStart now =
     foldM (\<lambda>(suspect, vs) anta.
        case rangeSearch windowStart now vs of None \<Rightarrow> None
        | Some r \<Rightarrow> Some (anta @ [\<lparr>an_TaskMeta = suspect,
            an_correlation = fold (correlate victimCPI (normalize r) threshold) (ts_timeline victimCPI) (Some 0)\<rparr>])) cpuCache []"

text \<open>
  The loop over the outliers. An outlier stands in both caches; the pointer of its series is nil when the window holds no sample, which
  only the loop over the suspects reads.
\<close>

definition victim_step ::
  "CPIManager \<Rightarrow> go_time \<Rightarrow> TaskMeta \<Rightarrow> (TaskMeta \<times> Antagonist list) list \<Rightarrow> (TaskMeta \<times> Antagonist list) list option" where
  "victim_step m now v antagonists =
     (let threshold = (case map_of (cm_jobSpecCache m) (tm_JobName v) of None \<Rightarrow> 0 | Some s \<Rightarrow> outlierThreshold s);
          windowStart = now - cm_window m
      in case map_of (cm_cpiCache m) v of None \<Rightarrow> None
         | Some ts \<Rightarrow>
             (case rangeSearch windowStart now ts of
                None \<Rightarrow> if cm_cpuCache m = [] then Some antagonists else None
              | Some victimCPI \<Rightarrow>
                  (case suspects (cm_cpuCache m) victimCPI threshold windowStart now of None \<Rightarrow> None
                   | Some anta \<Rightarrow> Some (if anta = [] then antagonists else antagonists @ [(v, anta)]))))"

text \<open>The manager after the round and the alarms, a pair of victim and antagonist each.\<close>

definition identifyAntagonists ::
  "(string \<Rightarrow> api_result option) \<Rightarrow> (float64 \<Rightarrow> float64 option) \<Rightarrow> (TaskMeta \<Rightarrow> go_time) \<Rightarrow> go_time \<Rightarrow> go_time
     \<Rightarrow> CPIManager \<Rightarrow> (CPIManager \<times> (TaskMeta \<times> Antagonist) list) option" where
  "identifyAntagonists api conv clk now now' m =
     (case foldM (refresh_spec api conv clk (cm_jobSpecQueryRange m)) (map fst (cm_cpiCache m)) (cm_jobSpecCache m) of
        None \<Rightarrow> None
      | Some specs \<Rightarrow>
          let m = m\<lparr>cm_jobSpecCache := specs\<rparr>
          in case findOutlier (cm_cpiCache m) (cm_cpuCache m) specs now of None \<Rightarrow> None
             | Some outliers \<Rightarrow>
                 if outliers = [] then Some (m, [])
                 else case foldM (victim_step m now') outliers [] of None \<Rightarrow> None
                   | Some antagonists \<Rightarrow> Some (m, concat (map (\<lambda>(v, anta). map (Pair v) anta) antagonists)))"

section \<open>Keeping the caches\<close>

record perf_metrics =
  pm_PodName :: string
  pm_ContainerName :: string
  pm_CPI :: float64
  pm_CPUUsage :: float64
  pm_Timestamp :: go_time

definition cache_record :: "TaskMeta \<Rightarrow> float64 \<Rightarrow> go_time \<Rightarrow> (TaskMeta, timeSeries) gomap \<Rightarrow> (TaskMeta, timeSeries) gomap" where
  "cache_record t v timestamp cache =
     AList.update t (ts_add v timestamp (case map_of cache t of None \<Rightarrow> newTimeSeries | Some s \<Rightarrow> s)) cache"

definition pm_task :: "perf_metrics \<Rightarrow> TaskMeta" where
  "pm_task cp = \<lparr>tm_JobName = getJobName (pm_PodName cp) (pm_ContainerName cp), tm_TaskName = getTaskName (pm_PodName cp) (pm_ContainerName cp)\<rparr>"

definition add_record :: "perf_metrics \<Rightarrow> CPIManager \<Rightarrow> CPIManager" where
  "add_record cp m =
     m\<lparr>cm_cpiCache := cache_record (pm_task cp) (pm_CPI cp) (pm_Timestamp cp) (cm_cpiCache m),
       cm_cpuCache := cache_record (pm_task cp) (pm_CPUUsage cp) (pm_Timestamp cp) (cm_cpuCache m)\<rparr>"

definition addRecords :: "perf_metrics list option \<Rightarrow> CPIManager \<Rightarrow> CPIManager" where
  "addRecords stats m = (case stats of None \<Rightarrow> m | Some cps \<Rightarrow> fold add_record cps m)"

definition expire_cache :: "go_time \<Rightarrow> (TaskMeta, timeSeries) gomap \<Rightarrow> (TaskMeta, timeSeries) gomap" where
  "expire_cache deadline cache = filter (\<lambda>(_, s). ts_data s \<noteq> []) (map (\<lambda>(t, s). (t, expire deadline s)) cache)"

definition deleteExpiredCache :: "go_time \<Rightarrow> CPIManager \<Rightarrow> CPIManager" where
  "deleteExpiredCache now m =
     (let deadline = now - 2 * cm_window m;
          cpi = expire_cache deadline (cm_cpiCache m);
          jobSet = map (\<lambda>(t, _). tm_JobName t) cpi
      in m\<lparr>cm_cpiCache := cpi, cm_cpuCache := expire_cache deadline (cm_cpuCache m),
           cm_jobSpecCache := filter (\<lambda>(jobName, _). jobName \<in> set jobSet) (cm_jobSpecCache m)\<rparr>)"

text \<open>The package's manager is set once; \<open>client_ok\<close> tells whether the address of prometheus is accepted.\<close>

definition InitManager :: "bool \<Rightarrow> go_duration \<Rightarrow> go_duration \<Rightarrow> CPIManager option \<Rightarrow> cpi_error + CPIManager" where
  "InitManager client_ok windowDuration maxJobSpecRange defaultManager =
     (case defaultManager of Some m \<Rightarrow> Inr m
      | None \<Rightarrow>
          if \<not> client_ok then Inl ClientFailed
          else Inr \<lparr>cm_window = windowDuration, cm_jobSpecQueryRange = maxJobSpecRange, cm_cpiCache = [], cm_cpuCache = [],
             cm_jobSpecCache = []\<rparr>)"

section \<open>The two caches stay aligned\<close>

text \<open>Both caches hold the same tasks, and for a task the same times.\<close>

definition twins :: "timeSeries \<Rightarrow> timeSeries \<Rightarrow> bool" where
  "twins a b \<longleftrightarrow> ts_inv a \<and> ts_inv b \<and> ts_timeline a = ts_timeline b"

definition aligned :: "(TaskMeta, timeSeries) gomap \<Rightarrow> (TaskMeta, timeSeries) gomap \<Rightarrow> bool" where
  "aligned cpi cpu \<longleftrightarrow> wf_map cpi \<and> wf_map cpu \<and> (\<forall>t. rel_option twins (map_of cpi t) (map_of cpu t))"

lemma twins_new [simp]: "twins newTimeSeries newTimeSeries"
  by (simp add: twins_def)

lemma twins_add: "twins a b \<Longrightarrow> twins (ts_add v x a) (ts_add w x b)"
  by (simp add: twins_def ts_inv_add) (simp add: ts_add_def)

lemma index_from_cong: "ts_timeline a = ts_timeline b \<Longrightarrow> index_from a x = index_from b x"
  by (simp add: index_from_def)

lemma twins_expire: "twins a b \<Longrightarrow> twins (expire d a) (expire d b)"
  using index_from_cong [of a b d] by (auto simp: twins_def intro: ts_inv_expire) (simp add: expire_def Let_def)

lemma ts_empty: "ts_inv t \<Longrightarrow> ts_data t = [] \<longleftrightarrow> ts_timeline t = []"
  unfolding ts_inv_def by (metis dom_map_of_conv_image_fst image_is_empty set_empty)

lemma expire_cache_simps:
  "expire_cache d [] = []"
  "expire_cache d ((t, s) # c) = (if ts_data (expire d s) = [] then expire_cache d c else (t, expire d s) # expire_cache d c)"
  by (simp_all add: expire_cache_def)

lemma expire_cache_keys: "fst ` set (expire_cache d c) \<subseteq> fst ` set c"
  unfolding expire_cache_def by force

lemma map_of_expire_cache:
  assumes "wf_map c"
  shows "map_of (expire_cache d c) t =
    (case map_of c t of None \<Rightarrow> None | Some s \<Rightarrow> if ts_data (expire d s) = [] then None else Some (expire d s))"
  using assms
proof (induction c)
  case (Cons p c)
  obtain k s where p: "p = (k, s)" by (cases p)
  have "map_of (expire_cache d c) k = None" using Cons.prems expire_cache_keys [of d c] p by (auto simp: map_of_eq_None_iff)
  then show ?case using Cons by (simp add: p expire_cache_simps)
qed (simp add: expire_cache_simps)

lemma wf_map_expire_cache: "wf_map c \<Longrightarrow> wf_map (expire_cache d c)"
proof (induction c)
  case (Cons p c)
  then show ?case using expire_cache_keys [of d c] by (cases p) (auto simp: expire_cache_simps)
qed (simp add: expire_cache_simps)

lemma aligned_add: "aligned cpi cpu \<Longrightarrow> aligned (cache_record t v x cpi) (cache_record t w x cpu)"
proof -
  assume a: "aligned cpi cpu"
  then have "rel_option twins (map_of cpi t) (map_of cpu t)" by (simp add: aligned_def)
  then have "twins (case map_of cpi t of None \<Rightarrow> newTimeSeries | Some s \<Rightarrow> s) (case map_of cpu t of None \<Rightarrow> newTimeSeries | Some s \<Rightarrow> s)"
    by (auto elim: option.rel_cases)
  then show ?thesis using a by (auto simp: aligned_def cache_record_def intro: twins_add)
qed

lemma aligned_expire: "aligned cpi cpu \<Longrightarrow> aligned (expire_cache d cpi) (expire_cache d cpu)"
proof -
  assume a: "aligned cpi cpu"
  then have w: "wf_map cpi" "wf_map cpu" and r: "rel_option twins (map_of cpi t) (map_of cpu t)" for t by (auto simp: aligned_def)
  have "rel_option twins (map_of (expire_cache d cpi) t) (map_of (expire_cache d cpu) t)" for t
    using r [of t]
  proof cases
    case None
    then show ?thesis by (simp add: map_of_expire_cache w)
  next
    case (Some x y)
    then have e: "twins (expire d x) (expire d y)" by (simp add: twins_expire)
    then have "ts_data (expire d x) = [] \<longleftrightarrow> ts_data (expire d y) = []" by (simp add: twins_def ts_empty)
    then show ?thesis using Some e by (simp add: map_of_expire_cache w)
  qed
  then show ?thesis using w by (simp add: aligned_def wf_map_expire_cache)
qed

definition cm_inv :: "CPIManager \<Rightarrow> bool" where
  "cm_inv m \<longleftrightarrow> aligned (cm_cpiCache m) (cm_cpuCache m) \<and> wf_map (cm_jobSpecCache m)"

lemma cm_inv_addRecords [wf_intros]: "cm_inv m \<Longrightarrow> cm_inv (addRecords stats m)"
proof -
  have "cm_inv m \<Longrightarrow> cm_inv (fold add_record cps m)" for cps
    by (induction cps arbitrary: m) (auto simp: cm_inv_def add_record_def aligned_add)
  then show "cm_inv m \<Longrightarrow> cm_inv (addRecords stats m)" by (auto simp: addRecords_def split: option.split)
qed

lemma cm_inv_deleteExpiredCache [wf_intros]: "cm_inv m \<Longrightarrow> cm_inv (deleteExpiredCache now m)"
  by (simp add: cm_inv_def deleteExpiredCache_def Let_def aligned_expire distinct_map_filter)

lemma refresh_spec_wf:
  assumes "refresh_spec api conv clk rng task specs = Some specs'" and "wf_map specs"
  shows "wf_map specs'"
  using assms by (auto simp: refresh_spec_def Let_def split: if_splits option.splits sum.splits)

lemma identifyAntagonists_frame:
  assumes "identifyAntagonists api conv clk now now' m = Some (m', alarms)"
  shows "\<exists>specs. m' = m\<lparr>cm_jobSpecCache := specs\<rparr> \<and>
    foldM (refresh_spec api conv clk (cm_jobSpecQueryRange m)) (map fst (cm_cpiCache m)) (cm_jobSpecCache m) = Some specs"
  using assms by (auto simp: identifyAntagonists_def Let_def split: option.splits if_splits)

lemma cm_inv_identifyAntagonists [wf_intros]:
  assumes "identifyAntagonists api conv clk now now' m = Some (m', alarms)" and "cm_inv m"
  shows "cm_inv m'"
proof -
  obtain specs where s: "m' = m\<lparr>cm_jobSpecCache := specs\<rparr>"
    "foldM (refresh_spec api conv clk (cm_jobSpecQueryRange m)) (map fst (cm_cpiCache m)) (cm_jobSpecCache m) = Some specs"
    using identifyAntagonists_frame [OF assms(1)] by blast
  have "wf_map specs" using assms(2) by (intro foldM_invariant [OF s(2), where P = wf_map]) (auto simp: cm_inv_def intro: refresh_spec_wf)
  then show ?thesis using assms(2) s(1) by (simp add: cm_inv_def)
qed

text \<open>The three periodic tasks run one at a time, in any order.\<close>

inductive cpi_step :: "CPIManager \<Rightarrow> CPIManager \<Rightarrow> bool" where
  step_add: "cpi_step m (addRecords stats m)"
| step_identify: "identifyAntagonists api conv clk now now' m = Some (m', alarms) \<Longrightarrow> cpi_step m m'"
| step_expire: "cpi_step m (deleteExpiredCache now m)"

inductive_cases cpi_stepE: "cpi_step m m'"

inductive cpi_reachable :: "CPIManager \<Rightarrow> bool" where
  reach_init: "InitManager ok w r None = Inr m \<Longrightarrow> cpi_reachable m"
| reach_step: "cpi_reachable m \<Longrightarrow> cpi_step m m' \<Longrightarrow> cpi_reachable m'"

lemma cpi_reachable_inv: "cpi_reachable m \<Longrightarrow> cm_inv m"
proof (induction rule: cpi_reachable.induct)
  case (reach_init ok w r m)
  then show ?case by (auto simp: InitManager_def cm_inv_def aligned_def split: if_splits)
next
  case (reach_step m m')
  from reach_step.hyps(2) reach_step.IH show ?case
    by (cases rule: cpi_step.cases) (auto intro: wf_intros)
qed

section \<open>Which tasks are outliers\<close>

lemma length_filter_map:
  assumes "wf_map d"
  shows "length (filter P d) = card {x. \<exists>v. map_of d x = Some v \<and> P (x, v)}"
proof -
  have d: "distinct (map fst (filter P d))" using assms by (simp add: distinct_map_filter)
  have "length (filter P d) = card (fst ` set (filter P d))"
    using d distinct_card [of "map fst (filter P d)"] by simp
  also have "fst ` set (filter P d) = {x. \<exists>v. map_of d x = Some v \<and> P (x, v)}"
    using assms by force
  finally show ?thesis .
qed

text \<open>The times in the last five minutes at which a task was busy and slow.\<close>

definition slow_times :: "timeSeries \<Rightarrow> timeSeries \<Rightarrow> float64 \<Rightarrow> go_time \<Rightarrow> go_time set" where
  "slow_times cpi cpu threshold now =
     {x. now - 5 * minute \<le> x \<and> x \<le> now \<and>
        (\<exists>c u. map_of (ts_data cpi) x = Some c \<and> map_of (ts_data cpu) x = Some u \<and> 1 / 4 \<le> u \<and> threshold \<le> c)}"

definition is_outlier :: "CPIManager \<Rightarrow> go_time \<Rightarrow> TaskMeta \<Rightarrow> bool" where
  "is_outlier m now t \<longleftrightarrow>
     (\<exists>spec cpi cpu. map_of (cm_jobSpecCache m) (tm_JobName t) = Some spec \<and> map_of (cm_cpiCache m) t = Some cpi \<and>
        map_of (cm_cpuCache m) t = Some cpu \<and> 3 \<le> card (slow_times cpi cpu (outlierThreshold spec) now))"

text \<open>A task whose job is known and whose samples are all older than five minutes.\<close>

definition gone_quiet :: "CPIManager \<Rightarrow> go_time \<Rightarrow> TaskMeta \<Rightarrow> bool" where
  "gone_quiet m now t \<longleftrightarrow>
     gmap_has (cm_jobSpecCache m) (tm_JobName t) \<and>
     (\<exists>cpi. map_of (cm_cpiCache m) t = Some cpi \<and> (\<forall>x. gmap_has (ts_data cpi) x \<longrightarrow> x < now - 5 * minute))"

lemma abnormal_count:
  assumes "ts_inv cpi" and "rangeSearch (now - 5 * minute) now cpi = Some r"
  shows "length (filter (abnormal cpu threshold) (ts_data r)) = card (slow_times cpi cpu threshold now)"
proof -
  have "wf_map (ts_data r)" using rangeSearch_Some(1) [OF assms] by (simp add: ts_inv_def)
  moreover have "{x. \<exists>v. map_of (ts_data r) x = Some v \<and> abnormal cpu threshold (x, v)} = slow_times cpi cpu threshold now"
    unfolding slow_times_def rangeSearch_Some(2) [OF assms]
    by (auto simp: abnormal_def getByUnixNano_def split: if_splits option.splits simp del: map_of_eq_Some_iff)
  ultimately show ?thesis by (simp only: length_filter_map)
qed

lemma times_of_series: "ts_inv s \<Longrightarrow> (\<forall>x \<in> set (ts_timeline s). P x) \<longleftrightarrow> (\<forall>x. gmap_has (ts_data s) x \<longrightarrow> P x)"
  unfolding ts_inv_def by blast

lemma judge_result:
  assumes inv: "cm_inv m" and mt: "(t, cpi) \<in> set (cm_cpiCache m)"
  shows "judge (cm_cpuCache m) (cm_jobSpecCache m) now (t, cpi) out =
    (if gone_quiet m now t then None else Some (if is_outlier m now t then out @ [t] else out))"
proof -
  have k: "map_of (cm_cpiCache m) t = Some cpi" using inv mt by (simp add: cm_inv_def aligned_def)
  then obtain cpu where cpu: "map_of (cm_cpuCache m) t = Some cpu" "ts_inv cpi"
    using inv unfolding cm_inv_def aligned_def by (metis option_rel_Some1 twins_def)
  show ?thesis
  proof (cases "map_of (cm_jobSpecCache m) (tm_JobName t)")
    case None
    then show ?thesis by (simp add: judge_def gone_quiet_def is_outlier_def)
  next
    case (Some spec)
    have q: "gone_quiet m now t \<longleftrightarrow> rangeSearch (now - 5 * minute) now cpi = None"
      unfolding rangeSearch_None [OF cpu(2)] times_of_series [OF cpu(2)] using Some k by (simp add: gone_quiet_def)
    have o: "is_outlier m now t \<longleftrightarrow> 3 \<le> card (slow_times cpi cpu (outlierThreshold spec) now)"
      using Some k cpu(1) by (simp add: is_outlier_def)
    show ?thesis using Some cpu q o abnormal_count [OF cpu(2), of now]
      by (cases "rangeSearch (now - 5 * minute) now cpi") (simp_all add: judge_def)
  qed
qed

lemma foldM_select:
  assumes "\<And>x out. x \<in> set xs \<Longrightarrow> f x out = (if bad x then None else Some (if good x then out @ [g x] else out))"
  shows "foldM f xs out = (if \<exists>x \<in> set xs. bad x then None else Some (out @ map g (filter good xs)))"
  using assms by (induction xs arbitrary: out) auto

lemma findOutlier_select:
  assumes "cm_inv m"
  shows "findOutlier (cm_cpiCache m) (cm_cpuCache m) (cm_jobSpecCache m) now =
    (if \<exists>t. gone_quiet m now t then None else Some (filter (is_outlier m now) (map fst (cm_cpiCache m))))"
proof -
  have q: "(\<exists>x \<in> set (cm_cpiCache m). gone_quiet m now (fst x)) \<longleftrightarrow> (\<exists>t. gone_quiet m now t)"
  proof
    assume "\<exists>t. gone_quiet m now t"
    then obtain t cpi where "gone_quiet m now t" "map_of (cm_cpiCache m) t = Some cpi" unfolding gone_quiet_def by blast
    then show "\<exists>x \<in> set (cm_cpiCache m). gone_quiet m now (fst x)" by (metis fst_conv map_of_SomeD)
  qed blast
  have "findOutlier (cm_cpiCache m) (cm_cpuCache m) (cm_jobSpecCache m) now =
      (if \<exists>x \<in> set (cm_cpiCache m). gone_quiet m now (fst x) then None
       else Some ([] @ map fst (filter (\<lambda>x. is_outlier m now (fst x)) (cm_cpiCache m))))"
    unfolding findOutlier_def by (rule foldM_select) (use judge_result [OF assms] in auto)
  then show ?thesis unfolding q by (simp add: filter_map o_def)
qed

text \<open>
  C39. The search for outliers: a task is reported exactly when its job has a specification and in the last five minutes there are at
  least three times at which the task used a quarter of a core or more and its cycles per instruction reached mean plus
  two deviations. The search panics (\<open>None\<close>) as soon as the cache holds a task of a known job whose samples are all older than five
  minutes: \<^verbatim>\<open>rangeSearch\<close> then returns nil and the code reads its data.
\<close>

theorem findOutlier_exact:
  assumes "cm_inv m"
  shows "findOutlier (cm_cpiCache m) (cm_cpuCache m) (cm_jobSpecCache m) now =
    (if \<exists>t. gone_quiet m now t then None else Some (filter (is_outlier m now) (map fst (cm_cpiCache m))))"
  using assms by (rule findOutlier_select)

text \<open>A task that stopped ten minutes ago; its samples are kept for twice the window.\<close>

definition stopped_task :: TaskMeta where
  "stopped_task = \<lparr>tm_JobName = ''web'', tm_TaskName = ''web-1''\<rparr>"

definition quiet_manager :: CPIManager where
  "quiet_manager = \<lparr>cm_window = 60 * minute, cm_jobSpecQueryRange = 60 * minute,
     cm_cpiCache = [(stopped_task, \<lparr>ts_timeline = [0], ts_data = [(0, 1)]\<rparr>)],
     cm_cpuCache = [(stopped_task, \<lparr>ts_timeline = [0], ts_data = [(0, 2)]\<rparr>)],
     cm_jobSpecCache = [(''web'', \<lparr>js_JobName = ''web'', js_CPIMean = 1, js_CPIStdDev = 0, js_ExpiredAt = 0\<rparr>)]\<rparr>"

lemma quiet_manager_inv: "cm_inv quiet_manager"
  by (auto simp: cm_inv_def aligned_def quiet_manager_def twins_def ts_inv_def)

theorem findOutlier_exact_witness:
  "findOutlier (cm_cpiCache quiet_manager) (cm_cpuCache quiet_manager) (cm_jobSpecCache quiet_manager) (10 * minute) = None"
proof -
  have "gone_quiet quiet_manager (10 * minute) stopped_task" by (simp add: gone_quiet_def quiet_manager_def stopped_task_def)
  then show ?thesis unfolding findOutlier_exact [OF quiet_manager_inv] by auto
qed

text \<open>
  Whatever the order of the three periodic tasks, the two caches hold the same tasks and, for each task, samples at the same times, so
  the cpu usage that belongs to a sample is always found.
\<close>

lemma cpi_caches_aligned:
  assumes "cpi_reachable m"
  shows "gmap_has (cm_cpiCache m) t = gmap_has (cm_cpuCache m) t \<and>
    (\<forall>cpi cpu x. map_of (cm_cpiCache m) t = Some cpi \<and> map_of (cm_cpuCache m) t = Some cpu \<longrightarrow>
       gmap_has (ts_data cpi) x = gmap_has (ts_data cpu) x)"
proof -
  have "rel_option twins (map_of (cm_cpiCache m) t) (map_of (cm_cpuCache m) t)"
    using cpi_reachable_inv [OF assms] by (simp add: cm_inv_def aligned_def)
  then show ?thesis
  proof cases
    case None
    then show ?thesis by simp
  next
    case (Some a b)
    then have "dom (map_of (ts_data a)) = dom (map_of (ts_data b))" unfolding twins_def ts_inv_def by metis
    then show ?thesis using Some by (auto simp: dom_def set_eq_iff simp del: map_of_eq_Some_iff)
  qed
qed

definition first_record :: perf_metrics where
  "first_record = \<lparr>pm_PodName = ''web-1'', pm_ContainerName = ''nginx'', pm_CPI = 2, pm_CPUUsage = 1, pm_Timestamp = 7\<rparr>"

definition started_manager :: CPIManager where
  "started_manager = addRecords (Some [first_record])
     \<lparr>cm_window = minute, cm_jobSpecQueryRange = minute, cm_cpiCache = [], cm_cpuCache = [], cm_jobSpecCache = []\<rparr>"

lemma started_reachable: "cpi_reachable started_manager"
  unfolding started_manager_def
  by (rule reach_step [OF reach_init [of True minute minute] step_add]) (simp add: InitManager_def)

lemma first_task: "pm_task first_record = stopped_task"
  by (simp add: pm_task_def first_record_def stopped_task_def getJobName_def getTaskName_def strings_LastIndex_def)

theorem cpi_caches_aligned_witness:
  "gmap_has (cm_cpiCache started_manager) stopped_task \<and> gmap_has (cm_cpuCache started_manager) stopped_task"
proof -
  have "gmap_has (cm_cpiCache started_manager) stopped_task"
    by (simp add: started_manager_def addRecords_def add_record_def cache_record_def first_task)
  then show ?thesis using cpi_caches_aligned [OF started_reachable, of stopped_task] by blast
qed

section \<open>Expiry\<close>

definition sample_at :: "(TaskMeta, timeSeries) gomap \<Rightarrow> TaskMeta \<Rightarrow> go_time \<Rightarrow> float64 option" where
  "sample_at cache t x = (case map_of cache t of None \<Rightarrow> None | Some s \<Rightarrow> map_of (ts_data s) x)"

lemma sample_at_expire:
  assumes "wf_map c" and "\<And>s. map_of c t = Some s \<Longrightarrow> ts_inv s"
  shows "sample_at (expire_cache d c) t x = (if x < d then None else sample_at c t x)"
proof (cases "map_of c t")
  case (Some s)
  then have e: "map_of (ts_data (expire d s)) x = (if x < d then None else map_of (ts_data s) x)" using assms(2) expire_data by blast
  have "map_of (ts_data (expire d s)) x = None" if "ts_data (expire d s) = []" using that by simp
  then show ?thesis using Some e by (auto simp: sample_at_def map_of_expire_cache [OF assms(1)] simp del: map_of_eq_Some_iff)
qed (simp add: sample_at_def map_of_expire_cache assms(1))

lemma map_of_filter_keys: "map_of (filter (\<lambda>(k, _). P k) m) k = (if P k then map_of m k else None)"
  by (induction m) auto

text \<open>
  Expiry drops the samples that are older than twice the window and no others, leaves no task without
  samples, and keeps the specification of a job exactly while one of its tasks is left.
\<close>

lemma deleteExpiredCache_exact:
  assumes "cm_inv m"
  shows "sample_at (cm_cpiCache (deleteExpiredCache now m)) t x =
      (if x < now - 2 * cm_window m then None else sample_at (cm_cpiCache m) t x) \<and>
    sample_at (cm_cpuCache (deleteExpiredCache now m)) t x =
      (if x < now - 2 * cm_window m then None else sample_at (cm_cpuCache m) t x) \<and>
    (gmap_has (cm_cpiCache (deleteExpiredCache now m)) t \<longrightarrow> (\<exists>y. sample_at (cm_cpiCache (deleteExpiredCache now m)) t y \<noteq> None)) \<and>
    map_of (cm_jobSpecCache (deleteExpiredCache now m)) j =
      (if \<exists>t. tm_JobName t = j \<and> gmap_has (cm_cpiCache (deleteExpiredCache now m)) t then map_of (cm_jobSpecCache m) j else None)"
proof -
  let ?d = "now - 2 * cm_window m"
  let ?c = "expire_cache ?d (cm_cpiCache m)"
  have w: "wf_map (cm_cpiCache m)" "wf_map (cm_cpuCache m)" and r: "rel_option twins (map_of (cm_cpiCache m) t) (map_of (cm_cpuCache m) t)" for t
    using assms by (auto simp: cm_inv_def aligned_def)
  have i: "map_of (cm_cpiCache m) t = Some s \<Longrightarrow> ts_inv s" "map_of (cm_cpuCache m) t = Some s \<Longrightarrow> ts_inv s" for t s
    using r [of t] by (auto simp: twins_def option_rel_Some1 option_rel_Some2)
  have ne: "\<exists>y. sample_at ?c t y \<noteq> None" if "gmap_has ?c t"
  proof -
    from that obtain s where s: "map_of ?c t = Some s" "ts_data s \<noteq> []"
      by (auto simp: map_of_expire_cache [OF w(1)] simp del: map_of_eq_Some_iff split: option.splits if_splits)
    then show ?thesis by (cases "ts_data s") (auto simp: sample_at_def simp del: map_of_eq_Some_iff intro!: exI [of _ "fst (hd (ts_data s))"])
  qed
  have k: "j \<in> set (map (\<lambda>(t, _). tm_JobName t) ?c) \<longleftrightarrow> (\<exists>t. tm_JobName t = j \<and> gmap_has ?c t)"
    by (force simp: map_of_eq_None_iff)
  show ?thesis
    using sample_at_expire [OF w(1) i(1)] sample_at_expire [OF w(2) i(2)] ne k
    by (simp add: deleteExpiredCache_def Let_def map_of_filter_keys del: not_None_eq)
qed

theorem deleteExpiredCache_exact_witness:
  "sample_at (cm_cpiCache (deleteExpiredCache (200 * minute) quiet_manager)) stopped_task 0 = None \<and>
   sample_at (cm_cpiCache (deleteExpiredCache (60 * minute) quiet_manager)) stopped_task 0 = Some 1"
  using deleteExpiredCache_exact [OF quiet_manager_inv, of "200 * minute" stopped_task 0]
    deleteExpiredCache_exact [OF quiet_manager_inv, of "60 * minute" stopped_task 0]
  by (simp add: quiet_manager_def sample_at_def)

section \<open>The time range of a query\<close>

lemma reg_Find_digits:
  assumes "list_all is_digit ds" and "is_letter c" and "\<not> is_digit c"
  shows "reg_Find (ds @ c # r) = ds @ [c]"
proof -
  have "takeWhile is_digit (ds @ c # r) = ds" "dropWhile is_digit (ds @ c # r) = c # r"
    using assms by (auto simp: list_all_iff)
  then show ?thesis using assms by (cases ds) auto
qed

text \<open>Of a range of an hour or more only the whole hours are asked for.\<close>

lemma truncDuration_hours:
  assumes "3600 * second \<le> d"
  shows "truncDuration d = show_nat (nat d div 10 ^ 9 div 60 div 60) @ ''h''"
proof -
  let ?w = "nat d div 10 ^ 9"
  have big: "3600 * 10 ^ 9 \<le> nat d" using assms by simp
  then have "3600 * 10 ^ 9 div 10 ^ 9 \<le> nat d div 10 ^ 9" by (rule div_le_mono)
  then have "3600 div 60 \<le> ?w div 60" by (intro div_le_mono) simp
  moreover from this have "60 div 60 \<le> ?w div 60 div 60" by (intro div_le_mono) simp
  ultimately have n0: "?w div 60 \<noteq> 0" "?w div 60 div 60 \<noteq> 0" by simp_all
  obtain frac where f: "fmtFrac 9 (nat d) False [] = (frac, ?w)" using snd_fmtFrac [of 9 "nat d"] by (metis prod.collapse)
  have "Duration_String d = fmt_clock (nat d)" using assms big by (simp add: Duration_String_def Let_def)
  also have "\<exists>r. fmt_clock (nat d) = show_nat (?w div 60 div 60) @ CHR ''h'' # r"
    using n0 unfolding fmt_clock_def f by (auto simp: Let_def)
  finally obtain r where "Duration_String d = show_nat (?w div 60 div 60) @ CHR ''h'' # r" by blast
  then show ?thesis using reg_Find_digits [OF show_nat_digits, of "CHR ''h''" "?w div 60 div 60" r]
    by (simp add: truncDuration_def is_letter_def is_digit_def)
qed

lemma trunc_drops_minutes: "truncDuration (119 * minute) = truncDuration (60 * minute)"
  by (simp add: truncDuration_hours)

end
