(* ===== verification/YarnInit.thy ===== *)
theory YarnInit
  imports CgroupFs Config Resource
begin

text \<open>
  The client of the nodemanager operator (\<^verbatim>\<open>resource/yarn/ginit.go\<close>, \<^verbatim>\<open>port.go\<close>, \<^verbatim>\<open>container_sort.go\<close>, \<^verbatim>\<open>utils.go\<close>)
  and its data (\<^verbatim>\<open>pkg/types/types_yarn.go\<close>). The HTTP library with the operator behind it is the parameter \<open>http\<close>: for the
  number of an attempt, a method, a path and a body it gives the answer. The requests that change the nodemanager are collected in
  program order. Ports, process groups and the node's address are parameters too.
\<close>

section \<open>Single precision\<close>

text \<open>\<^verbatim>\<open>float32\<close>: 24 significant bits, and no exponent below \<open>- 149\<close>; a value is a \<open>real\<close>.\<close>

type_synonym float32 = real

definition fexp32 :: "real \<Rightarrow> int" where
  "fexp32 x = max (- 149) (bitlen \<lfloor>\<bar>x\<bar> * 2 ^ 149\<rfloor> - 149 - 24)"

definition fl32 :: "real \<Rightarrow> float32" where
  "fl32 x = of_int (round_even (x / 2 powi fexp32 x)) * 2 powi fexp32 x"

section \<open>Data\<close>

record NMCapacity =
  nc_Vcores :: int
  nc_Millcores :: int
  nc_MemoryMB :: int

record ContainerState =
  cs_UsedMemMB :: float32
  cs_UsedCPU :: float32
  cs_StartTime :: go_time

record NMContainer =
  co_ID :: string
  co_State :: string
  co_TotalMemoryNeededMB :: int
  co_TotalVCoresNeeded :: float32
  co_UsedMemoryMB :: float32
  co_UsedVCores :: float32
  co_IsAM :: bool
  co_Pid :: int
  co_StartTime :: go_time

record commonResource =
  cr_vcores :: float32
  cr_memoryMB :: float32

datatype nm_body =
  NoBody
| KeysBody string "string list" bool
| PropertyBody string "(string, string) gomap" bool bool
| CapacityBody NMCapacity
| IdsBody "string list"

datatype nm_reply =
  NoReply
| PropertyReply "(string, string) gomap"
| CapacityReply int int
| ContainersReply "NMContainer list"
| StatsReply "(string, ContainerState) gomap"
| PartitionsReply "string list"
| StatusReply string

record http_answer =
  ha_failed :: bool
  ha_StatusCode :: nat
  ha_reply :: nm_reply

type_synonym nm_http = "nat \<Rightarrow> string \<Rightarrow> string \<Rightarrow> nm_body \<Rightarrow> http_answer"

type_synonym nm_sent = "(string \<times> nm_body) list"

datatype ginit_error =
  InvalidAction string
| UnsupportedMethod
| RequestFailed string
| BadStatus string nat
| NoUnusedPort string
| SetPortFailed string
| KeyNotFound
| TooManyOfflinePods

text \<open>The client, with the package's variables \<^verbatim>\<open>minCapacity\<close>, \<^verbatim>\<open>defaultPort\<close> and \<^verbatim>\<open>DiskSpaceLimited\<close>. The map of extra properties may be nil.\<close>

record GInit =
  gi_PortAutoDetect :: bool
  gi_EnableYarnQOS :: bool
  gi_Properties :: "(string, string) gomap option"
  gi_disableKillIfNormal :: bool
  gi_onlyKillIfIncompressibleRes :: bool
  gi_metricsPortChan :: "int list option"
  gi_minCapacity :: "NMCapacity option"
  gi_defaultPort :: "(string, int) gomap"
  gi_DiskSpaceLimited :: bool

section \<open>Requests\<close>

definition actionURL :: "string \<Rightarrow> ginit_error + string" where
  "actionURL action =
     (case map_of
        [(''start'', ''/v1/nm/start''), (''stop'', ''/v1/nm/stop''), (''containers'', ''/v1/nm/containers''),
         (''containerstats'', ''/v1/nm/containerstats''), (''property'', ''/v1/nm/property''), (''capacity'', ''/v1/nm/capacity''),
         (''scheduleDisable'', ''/v1/nm/schedule/disable''), (''scheduleEnable'', ''/v1/nm/schedule/enable''),
         (''capacityUpdate'', ''/v1/nm/capacity/update''), (''capacityForceUpdate'', ''/v1/nm/capacity/update/force''),
         (''kill'', ''/v1/nm/kill''), (''diskPartitions'', ''/v1/nm/diskpartitions'')] action of
        None \<Rightarrow> Inl (InvalidAction action)
      | Some url \<Rightarrow> Inr url)"

text \<open>The error, if any, and the body, which is decoded before the status is looked at.\<close>

definition sendRequest :: "nm_http \<Rightarrow> nat \<Rightarrow> string \<Rightarrow> string \<Rightarrow> nm_body \<Rightarrow> ginit_error option \<times> nm_reply" where
  "sendRequest http n action method body =
     (case actionURL action of
        Inl e \<Rightarrow> (Some e, NoReply)
      | Inr url \<Rightarrow>
          if method \<noteq> ''GET'' \<and> method \<noteq> ''POST'' then (Some UnsupportedMethod, NoReply)
          else let a = http n method url body in
            if ha_failed a then (Some (RequestFailed action), ha_reply a)
            else if ha_StatusCode a \<noteq> 200 then (Some (BadStatus action (ha_StatusCode a)), ha_reply a)
            else (None, ha_reply a))"

definition GetStatus :: "nm_http \<Rightarrow> ginit_error + bool" where
  "GetStatus http =
     (let a = http 0 ''GET'' ''/v1/nm/status'' NoBody in
      if ha_failed a then Inl (RequestFailed ''status'')
      else if ha_StatusCode a \<noteq> 200 then Inl (BadStatus ''status'' (ha_StatusCode a))
      else Inr (case ha_reply a of StatusReply s \<Rightarrow> s \<noteq> ''DOWN'' | _ \<Rightarrow> True))"

definition post :: "nm_http \<Rightarrow> string \<Rightarrow> nm_body \<Rightarrow> ginit_error option \<times> nm_sent" where
  "post http action body = (fst (sendRequest http 0 action ''POST'' body), [(action, body)])"

definition StopNodemanager :: "nm_http \<Rightarrow> ginit_error option \<times> nm_sent" where
  "StopNodemanager http = post http ''stop'' NoBody"

definition YarnSite :: string where
  "YarnSite = ''yarn-site.xml''"

definition GetProperty :: "nm_http \<Rightarrow> string \<Rightarrow> string list \<Rightarrow> bool \<Rightarrow> (string, string) gomap \<times> ginit_error option" where
  "GetProperty http fileName keys allKeys =
     (let (err, reply) = sendRequest http 0 ''property'' ''GET'' (KeysBody fileName keys allKeys)
      in (case reply of PropertyReply m \<Rightarrow> m | _ \<Rightarrow> [], err))"

definition SetProperty :: "nm_http \<Rightarrow> string \<Rightarrow> (string, string) gomap \<Rightarrow> bool \<Rightarrow> bool \<Rightarrow> ginit_error option \<times> nm_sent" where
  "SetProperty http fileName properties addNewKeys delNonExistedKeys =
     post http ''property'' (PropertyBody fileName properties addNewKeys delNonExistedKeys)"

text \<open>\<^verbatim>\<open>m[k]\<close> of a map of strings.\<close>

definition prop_get :: "(string, string) gomap \<Rightarrow> string \<Rightarrow> string" where
  "prop_get m k = (case map_of m k of None \<Rightarrow> [] | Some v \<Rightarrow> v)"

definition GetCapacity :: "nm_http \<Rightarrow> NMCapacity \<times> ginit_error option" where
  "GetCapacity http =
     (let (err, reply) = sendRequest http 0 ''capacity'' ''GET'' NoBody;
          (v, m) = (case reply of CapacityReply v m \<Rightarrow> (v, m) | _ \<Rightarrow> (0, 0))
      in (\<lparr>nc_Vcores = v, nc_Millcores = (if err = None then v * 1000 else 0), nc_MemoryMB = m\<rparr>, err))"

definition SetCapacity :: "nm_http \<Rightarrow> NMCapacity \<Rightarrow> ginit_error option \<times> nm_sent" where
  "SetCapacity http capacity =
     SetProperty http YarnSite [(''yarn.nodemanager.resource.memory-mb'', show_int (nc_MemoryMB capacity)),
       (''yarn.nodemanager.resource.cpu-vcores'', show_int (nc_Vcores capacity))] False False"

text \<open>The minimum is kept once it has been read; a value that is no number ends the process.\<close>

definition GetMinCapacity :: "nm_http \<Rightarrow> GInit \<Rightarrow> (NMCapacity \<times> GInit) option" where
  "GetMinCapacity http g =
     (case gi_minCapacity g of
        Some c \<Rightarrow> Some (c, g)
      | None \<Rightarrow>
          let cap = \<lparr>nc_Vcores = 0, nc_Millcores = 0, nc_MemoryMB = 1024\<rparr>;
              (m, err) = GetProperty http YarnSite [''yarn.scheduler.minimum-allocation-mb''] False
          in if err \<noteq> None then Some (cap, g)
             else let raw = prop_get m ''yarn.scheduler.minimum-allocation-mb'' in
               if raw = [] then Some (cap, g\<lparr>gi_minCapacity := Some cap\<rparr>)
               else case atoi raw of None \<Rightarrow> None
                 | Some memMB \<Rightarrow>
                     let cap = (if memMB > nc_MemoryMB cap then cap\<lparr>nc_MemoryMB := memMB\<rparr> else cap)
                     in Some (cap, g\<lparr>gi_minCapacity := Some cap\<rparr>))"

definition DisableSchedule :: "nm_http \<Rightarrow> ginit_error option \<times> nm_sent" where
  "DisableSchedule http = post http ''scheduleDisable'' NoBody"

definition EnableSchedule :: "nm_http \<Rightarrow> ginit_error option \<times> nm_sent" where
  "EnableSchedule http = post http ''scheduleEnable'' NoBody"

text \<open>The goroutine that sends the capacity: a second attempt after a failure, and no third.\<close>

definition UpdateNodeCapacity :: "nm_http \<Rightarrow> NMCapacity \<Rightarrow> bool \<Rightarrow> nm_sent" where
  "UpdateNodeCapacity http capacity force =
     (let action = (if force then ''capacityForceUpdate'' else ''capacityUpdate'')
      in replicate (if fst (sendRequest http 0 action ''POST'' (CapacityBody capacity)) = None then 1 else 2) (action, CapacityBody capacity))"

definition getNMContainers :: "nm_http \<Rightarrow> NMContainer list \<times> ginit_error option" where
  "getNMContainers http =
     (let (err, reply) = sendRequest http 0 ''containers'' ''GET'' NoBody in (case reply of ContainersReply cs \<Rightarrow> cs | _ \<Rightarrow> [], err))"

definition getNMContainersState :: "nm_http \<Rightarrow> string list \<Rightarrow> (string, ContainerState) gomap \<times> ginit_error option" where
  "getNMContainersState http cids =
     (let (err, reply) = sendRequest http 0 ''containerstats'' ''GET'' (IdsBody cids) in (case reply of StatsReply m \<Rightarrow> m | _ \<Rightarrow> [], err))"

definition requestKillNMContainers :: "nm_http \<Rightarrow> string list \<Rightarrow> ginit_error option \<times> nm_sent" where
  "requestKillNMContainers http cids = post http ''kill'' (IdsBody cids)"

definition GetDiskPartitions :: "nm_http \<Rightarrow> string list \<times> ginit_error option" where
  "GetDiskPartitions http =
     (let (err, reply) = sendRequest http 0 ''diskPartitions'' ''GET'' NoBody in (case reply of PartitionsReply ps \<Rightarrow> ps | _ \<Rightarrow> [], err))"

section \<open>Containers\<close>

definition runningStats :: "string \<Rightarrow> bool" where
  "runningStats s \<longleftrightarrow> s = ''RUNNING''"

definition initingStats :: "string \<Rightarrow> bool" where
  "initingStats s \<longleftrightarrow> s \<in> set [''NEW'', ''LOCALIZING'', ''LOCALIZED'']"

definition GetAllocatedJobs :: "nm_http \<Rightarrow> string list \<times> ginit_error option" where
  "GetAllocatedJobs http =
     (let (conList, err) = getNMContainers http
      in if err \<noteq> None then ([], err)
         else (map co_ID (filter (\<lambda>con. runningStats (co_State con) \<or> initingStats (co_State con)) conList), None))"

text \<open>The orders in which containers are killed: application masters last.\<close>

definition am_order :: "(NMContainer \<Rightarrow> NMContainer \<Rightarrow> bool) \<Rightarrow> NMContainer \<Rightarrow> NMContainer \<Rightarrow> bool" where
  "am_order lt a b =
     (if co_IsAM a \<and> \<not> co_IsAM b then False
      else if \<not> co_IsAM a \<and> co_IsAM b then True
      else lt a b)"

definition byAmAndTime :: "NMContainer \<Rightarrow> NMContainer \<Rightarrow> bool" where
  "byAmAndTime = am_order (\<lambda>a b. co_StartTime a > co_StartTime b)"

definition byAmAndCPU :: "NMContainer \<Rightarrow> NMContainer \<Rightarrow> bool" where
  "byAmAndCPU = am_order (\<lambda>a b. if co_UsedVCores a = co_UsedVCores b then co_StartTime a > co_StartTime b else co_UsedVCores a > co_UsedVCores b)"

definition byAmAndMemory :: "NMContainer \<Rightarrow> NMContainer \<Rightarrow> bool" where
  "byAmAndMemory =
     am_order (\<lambda>a b. if co_UsedMemoryMB a = co_UsedMemoryMB b then co_StartTime a > co_StartTime b else co_UsedMemoryMB a > co_UsedMemoryMB b)"

text \<open>What the containers were given and what they use; the usage is filled in from the states.\<close>

definition fill_state :: "(string, ContainerState) gomap \<Rightarrow> NMContainer \<Rightarrow> NMContainer" where
  "fill_state contsState con =
     (case map_of contsState (co_ID con) of
        None \<Rightarrow> con
      | Some st \<Rightarrow> con\<lparr>co_UsedMemoryMB := cs_UsedMemMB st, co_UsedVCores := cs_UsedCPU st, co_StartTime := cs_StartTime st\<rparr>)"

definition add_resource :: "float32 \<Rightarrow> float32 \<Rightarrow> commonResource \<Rightarrow> commonResource" where
  "add_resource mem vcores r = r\<lparr>cr_memoryMB := fl32 (cr_memoryMB r + mem), cr_vcores := fl32 (cr_vcores r + vcores)\<rparr>"

definition zero_resource :: commonResource where
  "zero_resource = \<lparr>cr_vcores = 0, cr_memoryMB = 0\<rparr>"

definition getContainerResource ::
  "NMContainer list \<Rightarrow> (string, ContainerState) gomap \<Rightarrow> commonResource \<times> commonResource \<times> NMContainer list" where
  "getContainerResource containers contsState =
     (let allocated = filter (\<lambda>con. runningStats (co_State con) \<or> initingStats (co_State con)) containers;
          runningContainers = map (fill_state contsState) (filter (\<lambda>con. runningStats (co_State con)) containers)
      in (fold (\<lambda>con. add_resource (fl32 (of_int (co_TotalMemoryNeededMB con))) (co_TotalVCoresNeeded con)) allocated zero_resource,
          fold (\<lambda>con. add_resource (co_UsedMemoryMB con) (co_UsedVCores con)) runningContainers zero_resource,
          runningContainers))"

definition sort_containers :: "string \<Rightarrow> NMContainer list \<Rightarrow> NMContainer list" where
  "sort_containers conflictingResource =
     (if conflictingResource = ResourceMemory then sort_by byAmAndMemory
      else if conflictingResource = ResourceCPU then sort_by byAmAndCPU
      else sort_by byAmAndTime)"

definition resources_fit :: "NMCapacity option \<Rightarrow> commonResource \<Rightarrow> commonResource \<Rightarrow> bool" where
  "resources_fit expect allocatedRes usedRes =
     (case expect of None \<Rightarrow> True
      | Some e \<Rightarrow> cr_memoryMB allocatedRes \<le> fl32 (of_int (nc_MemoryMB e)) \<and> cr_vcores allocatedRes \<le> fl32 (of_int (nc_Vcores e)) \<and>
          cr_memoryMB usedRes \<le> fl32 (of_int (nc_MemoryMB e)) \<and> cr_vcores usedRes \<le> fl32 (of_int (nc_Vcores e)))"

definition release :: "NMContainer \<Rightarrow> commonResource \<times> commonResource \<Rightarrow> commonResource \<times> commonResource" where
  "release c = (\<lambda>(allocatedRes, usedRes).
     (allocatedRes\<lparr>cr_memoryMB := fl32 (cr_memoryMB allocatedRes - fl32 (of_int (co_TotalMemoryNeededMB c))),
        cr_vcores := fl32 (cr_vcores allocatedRes - co_TotalVCoresNeeded c)\<rparr>,
      usedRes\<lparr>cr_memoryMB := fl32 (cr_memoryMB usedRes - co_UsedMemoryMB c), cr_vcores := fl32 (cr_vcores usedRes - co_UsedVCores c)\<rparr>))"

text \<open>The loop that picks containers; \<open>gpid_of\<close> is the process group of a container.\<close>

fun pick_containers ::
  "(string \<Rightarrow> int) \<Rightarrow> NMCapacity option \<Rightarrow> string \<Rightarrow> NMContainer list \<Rightarrow> commonResource \<times> commonResource \<Rightarrow> NMContainer list \<Rightarrow> NMContainer list" where
  "pick_containers gpid_of expect conflictingResource [] res picked = picked"
| "pick_containers gpid_of expect conflictingResource (c # cs) res picked =
     (if resources_fit expect (fst res) (snd res) \<and> (conflictingResource = [] \<or> picked \<noteq> []) then picked
      else if gpid_of (co_ID c) \<le> 1 then pick_containers gpid_of expect conflictingResource cs res picked
      else pick_containers gpid_of expect conflictingResource cs (release c res) (picked @ [c\<lparr>co_Pid := gpid_of (co_ID c)\<rparr>]))"

text \<open>The list of ids grows with every container, and is sent each time.\<close>

definition kill_requests :: "nm_http \<Rightarrow> NMContainer list \<Rightarrow> nm_sent" where
  "kill_requests http picked = concat (map (\<lambda>n. snd (requestKillNMContainers http (map co_ID (take n picked)))) [1..<length picked + 1])"

definition picked_containers ::
  "(string \<Rightarrow> int) \<Rightarrow> NMContainer list \<Rightarrow> (string, ContainerState) gomap \<Rightarrow> NMCapacity option \<Rightarrow> string \<Rightarrow> NMContainer list" where
  "picked_containers gpid_of containers contsState expect conflictingResource =
     (let (allocatedRes, usedRes, runningContainers) = getContainerResource containers contsState
      in pick_containers gpid_of expect conflictingResource (sort_containers conflictingResource runningContainers) (allocatedRes, usedRes) [])"

definition killContainersWithStats ::
  "nm_http \<Rightarrow> (string \<Rightarrow> int) \<Rightarrow> NMContainer list \<Rightarrow> (string, ContainerState) gomap \<Rightarrow> NMCapacity option \<Rightarrow> string \<Rightarrow> nm_sent" where
  "killContainersWithStats http gpid_of containers contsState expect conflictingResource =
     kill_requests http (picked_containers gpid_of containers contsState expect conflictingResource)"

definition killContainers ::
  "nm_http \<Rightarrow> (string \<Rightarrow> int) \<Rightarrow> NMCapacity option \<Rightarrow> string \<Rightarrow> ginit_error option \<times> nm_sent" where
  "killContainers http gpid_of expect conflictingResource =
     (let (containers, err) = getNMContainers http
      in if err \<noteq> None then (err, [])
         else let (contsState, err) = getNMContainersState http (map co_ID containers);
                  contsState = (if err \<noteq> None then [] else contsState)
              in (None, killContainersWithStats http gpid_of containers contsState expect conflictingResource))"

definition KillContainer :: "nm_http \<Rightarrow> (string \<Rightarrow> int) \<Rightarrow> string \<Rightarrow> nm_sent" where
  "KillContainer http gpid_of conflictingResource = snd (killContainers http gpid_of None conflictingResource)"

definition EnsureCapacity ::
  "nm_http \<Rightarrow> (string \<Rightarrow> int) \<Rightarrow> NMCapacity \<Rightarrow> string list \<Rightarrow> bool \<Rightarrow> bool \<Rightarrow> GInit \<Rightarrow> nm_sent" where
  "EnsureCapacity http gpid_of expect conflicting decreaseCap scheduleDisabled g =
     (let nodeCap = (if scheduleDisabled then expect\<lparr>nc_Vcores := 0\<rparr> else expect);
          updates = UpdateNodeCapacity http nodeCap False
      in if conflicting = [] \<and> gi_disableKillIfNormal g then updates
         else if conflicting \<noteq> [] \<and> gi_onlyKillIfIncompressibleRes g \<and> AllResCompressible conflicting then updates
         else if conflicting \<noteq> [] \<or> decreaseCap
         then updates @ snd (killContainers http gpid_of (Some expect) (case conflicting of [] \<Rightarrow> [] | r # _ \<Rightarrow> r))
         else updates)"

section \<open>Process groups\<close>

definition getOfflinePod :: "'q pod list \<Rightarrow> ginit_error + 'q pod option" where
  "getOfflinePod podList =
     (case filter IsOffline podList of
        [] \<Rightarrow> Inr None
      | [p] \<Rightarrow> Inr (Some p)
      | _ \<Rightarrow> Inl TooManyOfflinePods)"

definition getYarnCgroupPath :: "'q pod list \<Rightarrow> string" where
  "getYarnCgroupPath podList =
     (case getOfflinePod podList of
        Inr (Some pod) \<Rightarrow> (case PodCgroupDirs pod of [p] \<Rightarrow> p | _ \<Rightarrow> [])
      | _ \<Rightarrow> [])"

text \<open>\<open>pids\<close> lists the processes of a group (\<open>None\<close> is an error), \<open>pgid\<close> is \<^verbatim>\<open>syscall.Getpgid\<close>.\<close>

definition getContainerProcessGroupId :: "(string \<Rightarrow> int list option) \<Rightarrow> (int \<Rightarrow> int option) \<Rightarrow> string \<Rightarrow> string \<Rightarrow> string \<Rightarrow> int" where
  "getContainerProcessGroupId pids pgid cgRoot parentCgPath conID =
     (if parentCgPath = [] \<or> conID = [] then 0
      else case pids (path_Join [cgRoot, ''cpu'', parentCgPath, ''hadoop-yarn'', conID]) of
             Some (p # _) \<Rightarrow> (case pgid p of None \<Rightarrow> 0 | Some g \<Rightarrow> g)
           | _ \<Rightarrow> 0)"

section \<open>Ports\<close>

definition portNames :: "string list" where
  "portNames = [''yarn.nodemanager.address'', ''yarn.nodemanager.localizer.address'', ''yarn.nodemanager.webapp.address'']"

definition defaultPorts :: "(string, int) gomap" where
  "defaultPorts = zip portNames [10002, 18040, 10001]"

definition metricsPortKey :: string where
  "metricsPortKey = ''yarn.nodemanager.webapp.address''"

definition NewGInit :: "bool \<Rightarrow> bool \<Rightarrow> bool \<Rightarrow> bool \<Rightarrow> (string, string) gomap option \<Rightarrow> GInit" where
  "NewGInit disableKillIfNormal onlyKillIfIncompressibleRes portAutoDetect enableYarnQOS properties =
     \<lparr>gi_PortAutoDetect = portAutoDetect, gi_EnableYarnQOS = enableYarnQOS, gi_Properties = properties,
      gi_disableKillIfNormal = disableKillIfNormal, gi_onlyKillIfIncompressibleRes = onlyKillIfIncompressibleRes,
      gi_metricsPortChan = None, gi_minCapacity = None, gi_defaultPort = defaultPorts, gi_DiskSpaceLimited = False\<rparr>"

text \<open>\<open>unused\<close> tells whether a port can be opened.\<close>

definition FindUnusedPort :: "(int \<Rightarrow> bool) \<Rightarrow> int \<Rightarrow> int list \<Rightarrow> int option" where
  "FindUnusedPort unused start blackList = find (\<lambda>i. i \<notin> set blackList \<and> unused i) [start..29999]"

definition WatchForMetricsPort :: "GInit \<Rightarrow> GInit" where
  "WatchForMetricsPort g = (if gi_metricsPortChan g = None then g\<lparr>gi_metricsPortChan := Some []\<rparr> else g)"

definition send_port :: "int \<Rightarrow> GInit \<Rightarrow> GInit" where
  "send_port port g = g\<lparr>gi_metricsPortChan := map_option (\<lambda>c. c @ [port]) (gi_metricsPortChan g)\<rparr>"

text \<open>A port that is no number is dropped without an error: the error of \<^verbatim>\<open>Atoi\<close> is a variable of the inner block.\<close>

definition GetNMWebappPort :: "nm_http \<Rightarrow> string \<Rightarrow> ginit_error + int option" where
  "GetNMWebappPort http nodeIP =
     (let (m, err) = GetProperty http YarnSite [metricsPortKey] False
      in case err of Some e \<Rightarrow> Inl e
         | None \<Rightarrow>
             (case map_of m metricsPortKey of
                None \<Rightarrow> Inl KeyNotFound
              | Some v \<Rightarrow> Inr (atoi (strings_TrimPrefix v (nodeIP @ '':'')))))"

definition sendMetricsPort :: "nm_http \<Rightarrow> string \<Rightarrow> GInit \<Rightarrow> GInit" where
  "sendMetricsPort http nodeIP g =
     (if gi_metricsPortChan g = None then g
      else case GetNMWebappPort http nodeIP of Inr (Some p) \<Rightarrow> send_port p g | _ \<Rightarrow> g)"

definition restorePortsCheckpoint :: "(string, int) gomap option \<Rightarrow> GInit \<Rightarrow> GInit" where
  "restorePortsCheckpoint pcp g =
     (case pcp of None \<Rightarrow> g
      | Some ports \<Rightarrow>
          g\<lparr>gi_defaultPort := fold (\<lambda>k m. case map_of ports k of Some v \<Rightarrow> if v > 0 then AList.update k v m else m | None \<Rightarrow> m)
              portNames (gi_defaultPort g)\<rparr>)"

definition choose_port :: "(int \<Rightarrow> bool) \<Rightarrow> int \<Rightarrow> int \<Rightarrow> int list \<Rightarrow> (int \<times> int) option" where
  "choose_port unused preferred startPort usedPorts =
     (if preferred \<in> set usedPorts \<or> \<not> unused preferred
      then map_option (\<lambda>p. (p, p + 1)) (FindUnusedPort unused startPort usedPorts)
      else Some (preferred, startPort))"

definition set_port :: "nm_http \<Rightarrow> string \<Rightarrow> string \<Rightarrow> int \<Rightarrow> GInit \<Rightarrow> ginit_error option \<times> GInit \<times> nm_sent" where
  "set_port http nodeIP k port g =
     (let v = nodeIP @ '':'' @ show_int port;
          g = (if k = metricsPortKey then send_port port g else g);
          (m, err) = GetProperty http YarnSite [k] False
      in if err = None \<and> prop_get m k = v then (None, g, [])
         else let (err', sent) = SetProperty http YarnSite [(k, v)] (err = None \<and> prop_get m k = []) False
              in if err' \<noteq> None then (Some (SetPortFailed k), g, sent)
                 else (None, g\<lparr>gi_defaultPort := AList.update k port (gi_defaultPort g)\<rparr>, sent))"

text \<open>The loop over the names, with the ports it has used.\<close>

fun ensure_ports ::
  "nm_http \<Rightarrow> string \<Rightarrow> (int \<Rightarrow> bool) \<Rightarrow> string list \<Rightarrow> int \<Rightarrow> int list \<Rightarrow> GInit \<Rightarrow> nm_sent \<Rightarrow> ginit_error option \<times> GInit \<times> nm_sent \<times> int list" where
  "ensure_ports http nodeIP unused [] startPort usedPorts g sent = (None, g, sent, usedPorts)"
| "ensure_ports http nodeIP unused (k # ks) startPort usedPorts g sent =
     (case choose_port unused (gmap_get0 (gi_defaultPort g) k) startPort usedPorts of
        None \<Rightarrow> (Some (NoUnusedPort k), g, sent, usedPorts)
      | Some (port, startPort) \<Rightarrow>
          (case set_port http nodeIP k port g of
             (Some e, g, s) \<Rightarrow> (Some e, g, sent @ s, usedPorts @ [port])
           | (None, g, s) \<Rightarrow> ensure_ports http nodeIP unused ks startPort (usedPorts @ [port]) g (sent @ s)))"

definition ensurePort ::
  "nm_http \<Rightarrow> string \<Rightarrow> (int \<Rightarrow> bool) \<Rightarrow> (string, int) gomap option \<Rightarrow> GInit \<Rightarrow> ginit_error option \<times> GInit \<times> nm_sent \<times> int list" where
  "ensurePort http nodeIP unused pcp g = ensure_ports http nodeIP unused portNames 8082 [] (restorePortsCheckpoint pcp g) []"

section \<open>Starting\<close>

definition qos_properties :: "(string, string) gomap" where
  "qos_properties = [(''yarn.nodemanager.resource.percentage-physical-cpu-limit'', ''100''),
     (''yarn.nodemanager.resource.memory.enabled'', ''false'')]"

text \<open>The extra properties; writing the limit for small disks into a nil map panics.\<close>

definition start_properties :: "GInit \<Rightarrow> GInit option" where
  "start_properties g =
     (case (if gi_DiskSpaceLimited g
            then map_option (\<lambda>m. g\<lparr>gi_Properties := Some (AList.update ''yarn.nodemanager.disk-health-checker.min-free-space-per-disk-mb'' ''10240000'' m)\<rparr>)
                   (gi_Properties g)
            else Some g) of
        None \<Rightarrow> None
      | Some g \<Rightarrow>
          Some (if gi_EnableYarnQOS g then g
                else g\<lparr>gi_Properties := Some (case gi_Properties g of
                         Some m \<Rightarrow> if m \<noteq> [] then gmap_put_all m qos_properties else qos_properties
                       | None \<Rightarrow> qos_properties)\<rparr>))"

definition StartNodemanager ::
  "nm_http \<Rightarrow> string \<Rightarrow> (int \<Rightarrow> bool) \<Rightarrow> (string, int) gomap option \<Rightarrow> GInit \<Rightarrow> (ginit_error option \<times> GInit \<times> nm_sent) option" where
  "StartNodemanager http nodeIP unused pcp g =
     (let (err, g, sent) = (if gi_PortAutoDetect g
            then let (err, g, sent, _) = ensurePort http nodeIP unused pcp g in (err, g, sent)
            else (None, sendMetricsPort http nodeIP g, []))
      in if err \<noteq> None then Some (err, g, sent)
         else case start_properties g of None \<Rightarrow> None
           | Some g \<Rightarrow>
               let props = (case gi_Properties g of None \<Rightarrow> [] | Some m \<Rightarrow> m);
                   (err, s) = (if props \<noteq> [] then SetProperty http YarnSite props True False else (None, []))
               in if err \<noteq> None then Some (err, g, sent @ s)
                  else let (err, s') = post http ''start'' NoBody in Some (err, g, sent @ s @ s'))"

end
