(* ===== verification/YarnMetrics.thy ===== *)
theory YarnMetrics
  imports YarnInit
begin

text \<open>
  \<^verbatim>\<open>resource/yarn/metrics.go\<close>: the metrics of the nodemanager, read over HTTP, the resources they report and the alarm about failing jobs. The parameter
  \<open>get\<close> is the HTTP library: what a URL gives, \<open>None\<close> for an error or a status other than 200.
\<close>

record NMMetrics =
  mt_ContainersLaunched :: int
  mt_ContainersCompleted :: int
  mt_ContainersFailed :: int
  mt_ContainersKilled :: int
  mt_ContainersIniting :: int
  mt_ContainersRunning :: int
  mt_AllocatedVCores :: int
  mt_AvailableVCores :: int
  mt_AllocatedGB :: int
  mt_AvailableGB :: int

record NMNodeInfo =
  ni_NodeHealthy :: bool
  ni_NodeHealthyFloat :: float64

datatype metrics_reply = JmxResp "NMMetrics list" | NodeStatusResp "bool option" | ContainersResp "NMContainer list"

record YarnMetrics =
  ym_nodeName :: string
  ym_url :: "string option"
  ym_metrics :: "NMMetrics option"
  ym_nodeStatus :: "NMNodeInfo option"
  ym_lastFailed :: int
  ym_lastKilled :: int
  ym_lastCompleted :: int
  ym_lastWarning :: go_time
  ym_failedCount :: int

definition warningPeriod :: go_duration where
  "warningPeriod = 10 * minute"

definition resetMetricUrl :: "int \<Rightarrow> YarnMetrics \<Rightarrow> YarnMetrics" where
  "resetMetricUrl metricsPort y =
     (let url = ''http://'' @ ym_nodeName y @ '':'' @ show_int metricsPort
      in if ym_url y = Some url then y else y\<lparr>ym_url := Some url\<rparr>)"

definition NewYarnMetrics :: "string \<Rightarrow> go_time \<Rightarrow> int option \<Rightarrow> YarnMetrics" where
  "NewYarnMetrics nodeIP now metricsPort =
     (let m = \<lparr>ym_nodeName = nodeIP, ym_url = None, ym_metrics = None, ym_nodeStatus = None, ym_lastFailed = 0, ym_lastKilled = 0, ym_lastCompleted = 0,
          ym_lastWarning = now - warningPeriod, ym_failedCount = 0\<rparr>
      in case metricsPort of None \<Rightarrow> m | Some p \<Rightarrow> resetMetricUrl p m)"

definition requestUrl :: "(string \<Rightarrow> metrics_reply option) \<Rightarrow> string \<Rightarrow> YarnMetrics \<Rightarrow> metrics_reply option" where
  "requestUrl get urlSuffix y = (case ym_url y of None \<Rightarrow> None | Some url \<Rightarrow> get (url @ urlSuffix))"

definition getMetrics :: "(string \<Rightarrow> metrics_reply option) \<Rightarrow> YarnMetrics \<Rightarrow> NMMetrics option" where
  "getMetrics get y =
     (case requestUrl get ''/jmx?qry=Hadoop:service=NodeManager,name=NodeManagerMetrics'' y of
        Some (JmxResp (b # _)) \<Rightarrow> Some b
      | _ \<Rightarrow> None)"

text \<open>An answer without \<^verbatim>\<open>nodeInfo\<close> leaves a nil pointer that is read at once: a panic, \<open>None\<close>.\<close>

definition getNodeStatus :: "(string \<Rightarrow> metrics_reply option) \<Rightarrow> YarnMetrics \<Rightarrow> NMNodeInfo option" where
  "getNodeStatus get y =
     map_option (\<lambda>h. \<lparr>ni_NodeHealthy = h, ni_NodeHealthyFloat = (if h then 1 else 0)\<rparr>)
       (case requestUrl get ''/ws/v1/node/info'' y of
          None \<Rightarrow> Some False
        | Some (NodeStatusResp info) \<Rightarrow> info
        | Some _ \<Rightarrow> None)"

definition getContainerState :: "(string \<Rightarrow> metrics_reply option) \<Rightarrow> YarnMetrics \<Rightarrow> NMContainer list" where
  "getContainerState get y =
     (case requestUrl get ''/ws/v1/node/containers'' y of Some (ContainersResp cs) \<Rightarrow> cs | _ \<Rightarrow> [])"

text \<open>The allocated resources and, when there are metrics, the capacity.\<close>

definition uploadNodeMetrics :: "'q qops \<Rightarrow> (string \<Rightarrow> metrics_reply option) \<Rightarrow> YarnMetrics \<Rightarrow> 'q resource_list \<times> 'q resource_list option" where
  "uploadNodeMetrics Q get y =
     (let cs = filter (\<lambda>con. runningStats (co_State con) \<or> initingStats (co_State con)) (getContainerState get y);
          cpu = sum_list (map (\<lambda>con. go_trunc (co_TotalVCoresNeeded con)) cs);
          mem = sum_list (map co_TotalMemoryNeededMB cs)
      in ([(ResourceCPU, q_new_milli Q (cpu * 1000)), (ResourceMemory, q_new Q (mem * MemUnit))],
          map_option (\<lambda>m. [(ResourceCPU, q_new_milli Q ((mt_AvailableVCores m + mt_AllocatedVCores m) * 1000)),
            (ResourceMemory, q_new Q ((mt_AvailableGB m + mt_AllocatedGB m) * 1024 * MemUnit))]) (ym_metrics y)))"

text \<open>Three bad rounds in a row give an alarm, but not more than one in ten minutes.\<close>

definition too_many_failed :: "int \<Rightarrow> int \<Rightarrow> int \<Rightarrow> bool" where
  "too_many_failed failed killed completed \<longleftrightarrow> failed > 1 \<and> failed > killed \<and> failed > completed"

definition job_differences :: "NMMetrics \<Rightarrow> YarnMetrics \<Rightarrow> int \<times> int \<times> int" where
  "job_differences m y =
     (let failed = mt_ContainersFailed m - ym_lastFailed y; killed = mt_ContainersKilled m - ym_lastKilled y;
          completed = mt_ContainersCompleted m - ym_lastCompleted y
      in if killed < 0 \<or> completed < 0 then (mt_ContainersFailed m, mt_ContainersKilled m, mt_ContainersCompleted m)
         else (failed, killed, completed))"

definition checkAbnormalFailed :: "go_time \<Rightarrow> YarnMetrics \<Rightarrow> YarnMetrics \<times> bool" where
  "checkAbnormalFailed now y =
     (case ym_metrics y of
        None \<Rightarrow> (y, False)
      | Some m \<Rightarrow>
          let (failed, killed, completed) = job_differences m y;
              bad = too_many_failed failed killed completed;
              y = y\<lparr>ym_failedCount := (if bad then ym_failedCount y + 1 else 0)\<rparr>;
              alarm = bad \<and> ym_failedCount y \<ge> 3 \<and> ym_lastWarning y + warningPeriod < now;
              y = (if alarm then y\<lparr>ym_lastWarning := now\<rparr> else y)
          in (y\<lparr>ym_lastFailed := mt_ContainersFailed m, ym_lastKilled := mt_ContainersKilled m, ym_lastCompleted := mt_ContainersCompleted m\<rparr>, alarm))"

text \<open>A round of the collector: the metrics, the status, and whether an alarm is sent.\<close>

definition metrics_round :: "(string \<Rightarrow> metrics_reply option) \<Rightarrow> go_time \<Rightarrow> YarnMetrics \<Rightarrow> (YarnMetrics \<times> bool) option" where
  "metrics_round get now y =
     (let y = y\<lparr>ym_metrics := getMetrics get y\<rparr>
      in case getNodeStatus get y of None \<Rightarrow> None
         | Some st \<Rightarrow> Some (checkAbnormalFailed now (y\<lparr>ym_nodeStatus := Some st\<rparr>)))"

definition Collect_yarn :: "YarnMetrics \<Rightarrow> (string \<times> float64) list" where
  "Collect_yarn y =
     (case ym_metrics y of None \<Rightarrow> []
      | Some m \<Rightarrow> map (\<lambda>(k, f). (k, fl (of_int (f m))))
          [(''launched'', mt_ContainersLaunched), (''completed'', mt_ContainersCompleted), (''failed'', mt_ContainersFailed),
           (''killed'', mt_ContainersKilled), (''running'', mt_ContainersRunning), (''initing'', mt_ContainersIniting)]) @
     (case ym_nodeStatus y of None \<Rightarrow> [] | Some s \<Rightarrow> [(''healthy'', ni_NodeHealthyFloat s)])"

section \<open>Alarms\<close>

fun metrics_rounds :: "((string \<Rightarrow> metrics_reply option) \<times> go_time) list \<Rightarrow> YarnMetrics \<Rightarrow> (YarnMetrics \<times> go_time list) option" where
  "metrics_rounds [] y = Some (y, [])"
| "metrics_rounds ((get, now) # rs) y =
     (case metrics_round get now y of None \<Rightarrow> None
      | Some (y, alarm) \<Rightarrow> map_option (\<lambda>(y, ts). (y, (if alarm then now # ts else ts))) (metrics_rounds rs y))"

lemma metrics_round_warning:
  assumes "metrics_round get now y = Some (y', alarm)"
  shows "if alarm then ym_lastWarning y + warningPeriod < now \<and> ym_lastWarning y' = now \<and> 3 \<le> ym_failedCount y' else ym_lastWarning y' = ym_lastWarning y"
  using assms by (auto simp: metrics_round_def checkAbnormalFailed_def Let_def split: option.splits prod.splits if_splits)

lemma alarms_spaced:
  assumes "metrics_rounds rs y = Some (y', ts)"
  shows "sorted_wrt (\<lambda>a b. a + warningPeriod < b) (ym_lastWarning y # ts)"
  using assms
proof (induction rs arbitrary: y ts)
  case (Cons r rs)
  obtain get now where r: "r = (get, now)" by (cases r)
  obtain y1 alarm ts1 where s: "metrics_round get now y = Some (y1, alarm)" "metrics_rounds rs y1 = Some (y', ts1)"
    "ts = (if alarm then now # ts1 else ts1)"
    using Cons.prems r by (auto split: option.splits)
  have ih: "sorted_wrt (\<lambda>a b. a + warningPeriod < b) (ym_lastWarning y1 # ts1)" by (rule Cons.IH [OF s(2)])
  have p: "0 < warningPeriod" by (simp add: warningPeriod_def)
  show ?case using ih s(3) metrics_round_warning [OF s(1)] p by (auto split: if_splits)
qed simp

end
