(* ===== verification/YarnAdapt.thy ===== *)
theory YarnAdapt
  imports YarnInit "HOL-Library.Signed_Division"
begin

text \<open>
  \<^verbatim>\<open>resource/yarn/adapter.go\<close> and \<^verbatim>\<open>disks.go\<close>: the steps that turn the offline resources into the capacity of the nodemanager, and the
  disks that limit its cores and close its schedule. The mount table, the file system statistics and \<^verbatim>\<open>strconv.ParseFloat\<close>
  are inputs. A result \<open>None\<close> is the end of the process or a panic.
\<close>

section \<open>Data\<close>

record RoundOffResource =
  ro_CPUMilli :: float64
  ro_MemMB :: float64

record nm_reserve =
  nv_CpuMilli :: "float64 option"
  nv_MemMB :: "float64 option"

record PartitionInfo =
  pi_MountPoint :: string
  pi_TotalSize :: int

text \<open>With the package's variable \<^verbatim>\<open>diskSpaceCores\<close>.\<close>

record 'q DiskManager =
  dm_config :: YarnDisksConfig
  dm_availablePartitions :: "PartitionInfo list"
  dm_firstCheck :: bool
  dm_diskSpaceCores :: "'q option"

record statfs_t =
  sf_Blocks :: int
  sf_Bfree :: int
  sf_Bsize :: int

record DiskPartitionStats =
  ds_TotalSize :: int
  ds_UsedSize :: int
  ds_FreeSize :: int

record disk_env =
  de_http :: nm_http
  de_mounts :: "string list option"
  de_statfs :: "string \<Rightarrow> statfs_t option"
  de_InHostNamespace :: bool
  de_ParseFloat :: "string \<Rightarrow> float64 option"

definition GetDiskPartitionStats :: "disk_env \<Rightarrow> string \<Rightarrow> DiskPartitionStats option" where
  "GetDiskPartitionStats env partitionName =
     map_option (\<lambda>s. let t = sf_Blocks s * sf_Bsize s; f = sf_Bfree s * sf_Bsize s in \<lparr>ds_TotalSize = t, ds_UsedSize = t - f, ds_FreeSize = f\<rparr>)
       (de_statfs env partitionName)"

text \<open>\<^verbatim>\<open>types.DiskUnit\<close>, as it stands in the code.\<close>

definition DiskUnit :: int where
  "DiskUnit = 1024 * 1020 * 1024"

definition CPUUnit :: int where
  "CPUUnit = 1000"

section \<open>Partitions\<close>

text \<open>Reading the mount table up to a partition: its mount point and the lines that are left.\<close>

fun scan_mount :: "string \<Rightarrow> string list \<Rightarrow> (string option \<times> string list) option" where
  "scan_mount diskPartition [] = Some (None, [])"
| "scan_mount diskPartition (txt # rest) =
     (let parts = split_on (CHR '' '') txt in
      if strings_TrimSpace (hd parts) = diskPartition then (if length parts < 2 then None else Some (Some (parts ! 1), rest))
      else scan_mount diskPartition rest)"

text \<open>All partitions are looked for with one scanner, which never starts again.\<close>

fun mount_points :: "string list \<Rightarrow> string list \<Rightarrow> string list option" where
  "mount_points [] mounts = Some []"
| "mount_points (p # ps) mounts =
     (case scan_mount p mounts of None \<Rightarrow> None
      | Some (found, rest) \<Rightarrow> map_option (\<lambda>ms. (case found of None \<Rightarrow> ms | Some m \<Rightarrow> m # ms)) (mount_points ps rest))"

definition getMountPoints :: "disk_env \<Rightarrow> string list \<Rightarrow> string list option" where
  "getMountPoints env diskPartitions = (case de_mounts env of None \<Rightarrow> None | Some mounts \<Rightarrow> mount_points diskPartitions mounts)"

definition getPartitionsInfos :: "disk_env \<Rightarrow> string list \<Rightarrow> PartitionInfo list option" where
  "getPartitionsInfos env diskPartitions =
     (if diskPartitions = [] then Some []
      else map_option (\<lambda>partitions. concat (map (\<lambda>partition. case GetDiskPartitionStats env partition of
               None \<Rightarrow> [] | Some stats \<Rightarrow> [\<lparr>pi_MountPoint = partition, pi_TotalSize = ds_TotalSize stats\<rparr>]) partitions))
             (getMountPoints env diskPartitions))"

text \<open>An old operator does not know the request (404): then the partition of \<^verbatim>\<open>/data\<close> is taken.\<close>

definition fillAvailablePartitions :: "disk_env \<Rightarrow> 'q DiskManager \<Rightarrow> GInit \<Rightarrow> ('q DiskManager \<times> GInit) option" where
  "fillAvailablePartitions env d g =
     (case GetDiskPartitions (de_http env) of
        (_, Some (BadStatus _ n)) \<Rightarrow>
          if n = 404
          then let mountPoint = (if de_InHostNamespace env then ''/data'' else path_Join [''/rootfs'', ''/data'']) in
               (case GetDiskPartitionStats env mountPoint of
                  None \<Rightarrow> Some (d, g)
                | Some stats \<Rightarrow>
                    Some (d\<lparr>dm_availablePartitions := [\<lparr>pi_MountPoint = mountPoint, pi_TotalSize = ds_TotalSize stats\<rparr>]\<rparr>,
                      if ds_TotalSize stats \<le> 50 * DiskUnit then g\<lparr>gi_DiskSpaceLimited := True\<rparr> else g))
          else Some (d, g)
      | (_, Some _) \<Rightarrow> Some (d, g)
      | (diskPartitions, None) \<Rightarrow>
          map_option (\<lambda>ps. (d\<lparr>dm_availablePartitions := ps\<rparr>, g)) (getPartitionsInfos env diskPartitions))"

definition NewDiskManager :: "disk_env \<Rightarrow> YarnDisksConfig \<Rightarrow> GInit \<Rightarrow> ('q DiskManager \<times> GInit) option" where
  "NewDiskManager env config g =
     fillAvailablePartitions env \<lparr>dm_config = config, dm_availablePartitions = [], dm_firstCheck = False, dm_diskSpaceCores = None\<rparr> g"

definition refill :: "disk_env \<Rightarrow> 'q DiskManager \<Rightarrow> GInit \<Rightarrow> ('q DiskManager \<times> GInit) option" where
  "refill env d g = (if dm_availablePartitions d = [] then fillAvailablePartitions env d g else Some (d, g))"

text \<open>The cores for the disks, computed once; \<open>Inl\<close> when there is no partition.\<close>

definition DiskSpaceToCores :: "'q qops \<Rightarrow> disk_env \<Rightarrow> int \<Rightarrow> 'q DiskManager \<Rightarrow> GInit \<Rightarrow> ((unit + 'q) \<times> 'q DiskManager \<times> GInit) option" where
  "DiskSpaceToCores Q env ratio d g =
     (case dm_diskSpaceCores d of
        Some q \<Rightarrow> Some (Inr q, d, g)
      | None \<Rightarrow>
          map_option (\<lambda>(d, g).
            if dm_availablePartitions d = [] then (Inl (), d, g)
            else let totalSize = sum_list (map pi_TotalSize (dm_availablePartitions d));
                     cores = go_trunc (fl (fl (fl (of_int totalSize) / fl (of_int (ratio * DiskUnit))) + 1 / 2));
                     q = q_new_milli Q (cores * CPUUnit)
                 in (Inr q, d\<lparr>dm_diskSpaceCores := Some q\<rparr>, g)) (refill env d g))"

section \<open>The disk check\<close>

text \<open>\<^verbatim>\<open>float64(x)/float64(y) >= p\<close>: with \<open>y = 0\<close> the quotient is an infinity or not a number.\<close>

definition quotient_ge :: "int \<Rightarrow> int \<Rightarrow> float64 \<Rightarrow> bool" where
  "quotient_ge x y p = (if y = 0 then x > 0 else fl (fl (of_int x) / fl (of_int y)) \<ge> p)"

text \<open>The percentage is divided by 100 as an integer.\<close>

definition disk_healthy :: "YarnDisksConfig \<Rightarrow> int \<Rightarrow> int \<Rightarrow> DiskPartitionStats \<Rightarrow> bool" where
  "disk_healthy c minFreeMb maxUsedPer st \<longleftrightarrow>
     \<not> (ds_FreeSize st - yd_DiskCapConservativeValue c * DiskUnit \<le> minFreeMb * MemUnit \<or>
        quotient_ge (ds_UsedSize st + yd_DiskCapConservativeValue c * DiskUnit) (ds_TotalSize st) (of_int (maxUsedPer sdiv 100)))"

definition healthy_disks :: "disk_env \<Rightarrow> int \<Rightarrow> int \<Rightarrow> 'q DiskManager \<Rightarrow> int" where
  "healthy_disks env minFreeMb maxUsedPer d =
     int (length (filter (\<lambda>p. case GetDiskPartitionStats env (pi_MountPoint p) of None \<Rightarrow> False
        | Some st \<Rightarrow> disk_healthy (dm_config d) minFreeMb maxUsedPer st) (dm_availablePartitions d)))"

definition disks_full :: "disk_env \<Rightarrow> int \<Rightarrow> int \<Rightarrow> float64 \<Rightarrow> 'q DiskManager \<Rightarrow> bool" where
  "disks_full env minFreeMb maxUsedPer minHealthyPer d \<longleftrightarrow>
     (let healthyDiskNum = healthy_disks env minFreeMb maxUsedPer d; n = length (dm_availablePartitions d)
      in healthyDiskNum = 0 \<or>
         n > 1 \<and> fl (fl (of_int (healthyDiskNum - yd_DiskNumConservativeValue (dm_config d))) / fl (of_nat n)) \<le> minHealthyPer)"

definition disk_keys :: "string list" where
  "disk_keys = [''yarn.nodemanager.disk-health-checker.min-free-space-per-disk-mb'',
     ''yarn.nodemanager.disk-health-checker.max-disk-utilization-per-disk-percentage'',
     ''yarn.nodemanager.disk-health-checker.min-healthy-disks'']"

text \<open>
  \<^verbatim>\<open>scheduleDisabled\<close> is a local variable that is false when it is read. The effects are the alarm and the requests.
\<close>

definition switch_schedule :: "disk_env \<Rightarrow> bool \<Rightarrow> 'q DiskManager \<Rightarrow> 'q DiskManager \<times> nm_sent \<times> string list" where
  "switch_schedule env full d =
     (let scheduleDisabled = False in
      if full
      then if \<not> scheduleDisabled
           then (d, snd (DisableSchedule (de_http env)), [''schedule is closing, the reason is that disks is full''])
           else (d, [], [])
      else if dm_firstCheck d \<or> scheduleDisabled
           then let (err, sent) = EnableSchedule (de_http env)
                in (if err \<noteq> None then d else d\<lparr>dm_firstCheck := False\<rparr>, sent, [])
           else (d, [], []))"

definition checkDiskSpace :: "disk_env \<Rightarrow> 'q DiskManager \<Rightarrow> GInit \<Rightarrow> (('q DiskManager \<times> GInit) \<times> nm_sent \<times> string list) option" where
  "checkDiskSpace env d g =
     (let (m, err) = GetProperty (de_http env) YarnSite disk_keys False in
      if err \<noteq> None then Some ((d, g), [], [])
      else case (atoi (prop_get m (disk_keys ! 0)), atoi (prop_get m (disk_keys ! 1)), de_ParseFloat env (prop_get m (disk_keys ! 2))) of
             (Some minFreeMb, Some maxUsedPer, Some minHealthyPer) \<Rightarrow>
               map_option (\<lambda>(d, g).
                 if dm_availablePartitions d = [] then ((d, g), [], [])
                 else let (d, sent, alarms) = switch_schedule env (disks_full env minFreeMb maxUsedPer minHealthyPer d) d
                      in ((d, g), sent, alarms)) (refill env d g)
           | _ \<Rightarrow> Some ((d, g), [], []))"

section \<open>Adapters\<close>

definition compareAndReplaceMinCapacity :: "'q qops \<Rightarrow> NMCapacity \<Rightarrow> 'q resource_list \<Rightarrow> 'q resource_list \<times> bool" where
  "compareAndReplaceMinCapacity Q minCap res =
     (let mem = q_value Q (rl_get Q res ResourceMemory) sdiv MemUnit \<le> nc_MemoryMB minCap;
          res = (if mem then AList.update ResourceMemory (q_new Q (nc_MemoryMB minCap * MemUnit)) res else res);
          cpu = q_milli Q (rl_get Q res ResourceCPU) \<le> nc_Millcores minCap;
          res = (if cpu then AList.update ResourceCPU (q_new_milli Q (nc_Millcores minCap)) res else res)
      in (res, mem \<or> cpu))"

datatype adapter = MinCompare | OverCommitCpu OverCommit | Reserve nm_reserve | RoundOff RoundOffResource | DiskCpu

definition reserve_step :: "'q qops \<Rightarrow> nm_reserve \<Rightarrow> 'q resource_list \<Rightarrow> 'q resource_list" where
  "reserve_step Q reserve res =
     (let res = (case nv_MemMB reserve of None \<Rightarrow> res
          | Some mb \<Rightarrow> AList.update ResourceMemory (q_new Q (q_value Q (rl_get Q res ResourceMemory) - go_trunc mb * MemUnit)) res)
      in case nv_CpuMilli reserve of None \<Rightarrow> res
         | Some c \<Rightarrow> AList.update ResourceCPU (q_new_milli Q (q_milli Q (rl_get Q res ResourceCPU) - go_trunc c)) res)"

definition overcommit_percent :: "clock \<Rightarrow> OverCommit \<Rightarrow> float64" where
  "overcommit_percent now c =
     (case find (\<lambda>p. IsTimeInSecondsDay now (tr_Range p)) (oc_Periods c) of
        None \<Rightarrow> oc_OverCommitPercent c | Some p \<Rightarrow> tr_OverCommitPercent p)"

definition overcommit_step :: "'q qops \<Rightarrow> clock \<Rightarrow> OverCommit \<Rightarrow> 'q resource_list \<Rightarrow> 'q resource_list" where
  "overcommit_step Q now c res =
     (let overcommitCpu = fl (fl (of_int (q_milli Q (rl_get Q res ResourceCPU))) * overcommit_percent now c)
      in AList.update ResourceCPU (q_new_milli Q (go_trunc overcommitCpu)) res)"

definition round_to :: "float64 \<Rightarrow> int \<Rightarrow> int" where
  "round_to r x = (if r \<noteq> 0 then go_trunc (fl (fl (of_int x) / r)) * go_trunc r else x)"

definition roundoff_step :: "'q qops \<Rightarrow> RoundOffResource \<Rightarrow> 'q resource_list \<Rightarrow> 'q resource_list" where
  "roundoff_step Q r res =
     (let memMb = round_to (ro_MemMB r) (q_value Q (rl_get Q res ResourceMemory) sdiv MemUnit);
          cpu = round_to (ro_CPUMilli r) (q_milli Q (rl_get Q res ResourceCPU))
      in AList.update ResourceMemory (q_new Q (memMb * MemUnit)) (AList.update ResourceCPU (q_new_milli Q cpu) res))"

definition disk_step :: "'q qops \<Rightarrow> disk_env \<Rightarrow> 'q resource_list \<Rightarrow> 'q DiskManager \<Rightarrow> GInit \<Rightarrow> ('q resource_list \<times> 'q DiskManager \<times> GInit) option" where
  "disk_step Q env res d g =
     (case yd_RatioToCore (dm_config d) of
        None \<Rightarrow> Some (res, d, g)
      | Some ratio \<Rightarrow>
          map_option (\<lambda>(r, d, g). case r of
              Inl _ \<Rightarrow> (res, d, g)
            | Inr diskCpus \<Rightarrow>
                (if q_cmp Q (rl_get Q res ResourceCPU) diskCpus > 0 then AList.update ResourceCPU diskCpus res else res, d, g))
            (DiskSpaceToCores Q env ratio d g))"

text \<open>The resources, whether the minimum is reached, and the disk manager. \<open>minCap\<close> is what \<^verbatim>\<open>GetMinCapacity\<close> gives.\<close>

definition ResourceAdapt ::
  "'q qops \<Rightarrow> disk_env \<Rightarrow> clock \<Rightarrow> NMCapacity \<Rightarrow> adapter \<Rightarrow> 'q resource_list \<Rightarrow> 'q DiskManager \<Rightarrow> GInit
     \<Rightarrow> ('q resource_list \<times> bool \<times> 'q DiskManager \<times> GInit) option" where
  "ResourceAdapt Q env now minCap a res d g =
     (case a of
        MinCompare \<Rightarrow> (let (res, r) = compareAndReplaceMinCapacity Q minCap res in Some (res, r, d, g))
      | Reserve reserve \<Rightarrow> (let (res, r) = compareAndReplaceMinCapacity Q minCap (reserve_step Q reserve res) in Some (res, r, d, g))
      | OverCommitCpu c \<Rightarrow>
          if \<not> oc_Enable c then Some (res, False, d, g)
          else (let (res, r) = compareAndReplaceMinCapacity Q minCap (overcommit_step Q now c res) in Some (res, r, d, g))
      | RoundOff ro \<Rightarrow> (let (res, r) = compareAndReplaceMinCapacity Q minCap (roundoff_step Q ro res) in Some (res, r, d, g))
      | DiskCpu \<Rightarrow>
          map_option (\<lambda>(res, d, g). let (res, r) = compareAndReplaceMinCapacity Q minCap res in (res, r, d, g)) (disk_step Q env res d g))"

text \<open>The loop of \<^verbatim>\<open>beCapacity\<close>: it ends with the adapter that reaches the minimum. The adapters ask for the minimum again each time; here it is the same for the whole loop.\<close>

fun adapt_all ::
  "'q qops \<Rightarrow> disk_env \<Rightarrow> clock \<Rightarrow> NMCapacity \<Rightarrow> adapter list \<Rightarrow> 'q resource_list \<Rightarrow> 'q DiskManager \<Rightarrow> GInit
     \<Rightarrow> ('q resource_list \<times> bool \<times> 'q DiskManager \<times> GInit) option" where
  "adapt_all Q env now minCap [] res d g = Some (res, False, d, g)"
| "adapt_all Q env now minCap (a # as) res d g =
     (case ResourceAdapt Q env now minCap a res d g of None \<Rightarrow> None
      | Some (res, reachMin, d, g) \<Rightarrow>
          if reachMin then Some (res, True, d, g) else adapt_all Q env now minCap as res d g)"

end
