(* ===== verification/HadoopConf.thy ===== *)
theory HadoopConf
  imports YarnAdapt
begin

text \<open>
  \<^verbatim>\<open>nm-operator/hadoop/hadoop_conf.go\<close>: the configuration files of the nodemanager and the capacity that is kept in them. A file is the list of
  properties that \<^verbatim>\<open>encoding/xml\<close> reads from and writes to it, with its mode and owner; \<open>None\<close> is a text that cannot be decoded. The
  parameter \<open>io\<close> tells which steps of writing succeed. \<^verbatim>\<open>os.Rename\<close> replaces a file at once.
\<close>

section \<open>Data\<close>

record PropertyData =
  pr_Name :: string
  pr_Value :: string
  pr_Description :: string

type_synonym ConfData = "PropertyData list"

record fileInfo =
  fi_mode :: nat
  fi_uid :: nat
  fi_gid :: nat

record conf_file =
  cf_conf :: "ConfData option"
  cf_info :: fileInfo

text \<open>The files and the variables of the package.\<close>

record hadoop =
  hd_files :: "(string, conf_file) gomap"
  hd_fileInfos :: "(string, fileInfo) gomap"
  hd_cacheCapacity :: "NMCapacity option"
  hd_resourcemanagerAddress :: string
  hd_nodemanagerAddress :: string
  hd_nodemanagerWebAddress :: string

datatype hadoop_error = OpenFailed string | DecodeFailed string | StatFailed string | WriteStepFailed string

section \<open>Properties\<close>

fun conf_Get :: "ConfData \<Rightarrow> string \<Rightarrow> string" where
  "conf_Get [] key = []"
| "conf_Get (p # ps) key = (if pr_Name p = key then pr_Value p else conf_Get ps key)"

text \<open>A key may stand several times; every value is set.\<close>

definition conf_Set :: "string \<Rightarrow> string \<Rightarrow> ConfData \<Rightarrow> ConfData" where
  "conf_Set key v conf = map (\<lambda>p. if pr_Name p = key then p\<lparr>pr_Value := v\<rparr> else p) conf"

text \<open>Writing a list of properties as XML and reading it gives the list again; the names and values are free of control characters, which XML replaces.\<close>

definition conf_SetAdd :: "string \<Rightarrow> string \<Rightarrow> ConfData \<Rightarrow> ConfData" where
  "conf_SetAdd key v conf =
     (if list_ex (\<lambda>p. pr_Name p = key) conf then conf_Set key v conf
      else conf @ [\<lparr>pr_Name = key, pr_Value = v, pr_Description = []\<rparr>])"

section \<open>Files\<close>

definition LoadConfDataFromFile :: "string \<Rightarrow> hadoop \<Rightarrow> hadoop_error + ConfData" where
  "LoadConfDataFromFile filename h =
     (case map_of (hd_files h) filename of
        None \<Rightarrow> Inl (OpenFailed filename)
      | Some f \<Rightarrow> (case cf_conf f of None \<Rightarrow> Inl (DecodeFailed filename) | Some c \<Rightarrow> Inr c))"

definition getConfData :: "string \<Rightarrow> (string, string) gomap \<Rightarrow> bool \<Rightarrow> bool \<Rightarrow> bool \<Rightarrow> hadoop \<Rightarrow> hadoop_error + ConfData" where
  "getConfData fileName properties change add del h =
     (case LoadConfDataFromFile fileName h of
        Inl e \<Rightarrow> Inl e
      | Inr conf \<Rightarrow>
          let conf = (if change then fold (\<lambda>(k, v). conf_Set k v) properties conf else conf);
              conf = (if add then fold (\<lambda>(k, v). conf_SetAdd k v) properties conf else conf)
          in Inr (if del then filter (\<lambda>p. gmap_has properties (pr_Name p)) conf else conf))"

text \<open>Mode and owner are read once per file.\<close>

definition getFileInfo :: "string \<Rightarrow> hadoop \<Rightarrow> (hadoop_error + fileInfo) \<times> hadoop" where
  "getFileInfo fileName h =
     (case map_of (hd_fileInfos h) fileName of
        Some f \<Rightarrow> (Inr f, h)
      | None \<Rightarrow>
          (case map_of (hd_files h) fileName of
             None \<Rightarrow> (Inl (StatFailed fileName), h)
           | Some f \<Rightarrow> (Inr (cf_info f), h\<lparr>hd_fileInfos := AList.update fileName (cf_info f) (hd_fileInfos h)\<rparr>)))"

definition write_steps :: "string list" where
  "write_steps = [''temp'', ''chmod'', ''chown'', ''save'', ''sync'', ''close'', ''rename'']"

text \<open>The new file is written beside the old one and takes its place in the last step.\<close>

definition writeConfDataToFile ::
  "(string \<Rightarrow> bool) \<Rightarrow> string \<Rightarrow> (string, string) gomap \<Rightarrow> bool \<Rightarrow> bool \<Rightarrow> bool \<Rightarrow> hadoop \<Rightarrow> hadoop_error option \<times> hadoop" where
  "writeConfDataToFile io fileName properties change add del h =
     (if properties = [] then (None, h)
      else case getConfData fileName properties change add del h of
             Inl e \<Rightarrow> (Some e, h)
           | Inr conf \<Rightarrow>
               (case getFileInfo fileName h of
                  (Inl e, h) \<Rightarrow> (Some e, h)
                | (Inr f, h) \<Rightarrow>
                    (case find (\<lambda>s. \<not> io s) write_steps of
                       Some s \<Rightarrow> (Some (WriteStepFailed s), h)
                     | None \<Rightarrow> (None, h\<lparr>hd_files := AList.update fileName \<lparr>cf_conf = Some conf, cf_info = f\<rparr> (hd_files h)\<rparr>))))"

definition SetMultipleConfDataToFile :: "(string \<Rightarrow> bool) \<Rightarrow> string \<Rightarrow> (string, string) gomap \<Rightarrow> hadoop \<Rightarrow> hadoop_error option \<times> hadoop" where
  "SetMultipleConfDataToFile io xmlfile properties h = writeConfDataToFile io xmlfile properties True False False h"

definition SetAddDelMultipleConfDataToFile ::
  "(string \<Rightarrow> bool) \<Rightarrow> string \<Rightarrow> (string, string) gomap \<Rightarrow> bool \<Rightarrow> bool \<Rightarrow> hadoop \<Rightarrow> hadoop_error option \<times> hadoop" where
  "SetAddDelMultipleConfDataToFile io xmlfile properties add del h = writeConfDataToFile io xmlfile properties False add del h"

definition GetConfDataFromFile :: "string \<Rightarrow> string \<Rightarrow> hadoop \<Rightarrow> string" where
  "GetConfDataFromFile xmlfile key h = (case LoadConfDataFromFile xmlfile h of Inl _ \<Rightarrow> [] | Inr conf \<Rightarrow> conf_Get conf key)"

definition GetConfig :: "string \<Rightarrow> string list \<Rightarrow> hadoop \<Rightarrow> hadoop_error + (string, string) gomap" where
  "GetConfig fileName keys h =
     (case LoadConfDataFromFile fileName h of Inl e \<Rightarrow> Inl e
      | Inr conf \<Rightarrow> Inr (fold (\<lambda>k m. AList.update k (conf_Get conf k) m) keys []))"

text \<open>Of a key that stands several times the last value is returned here, and the first by \<open>conf_Get\<close>.\<close>

definition GetAllConfig :: "string \<Rightarrow> hadoop \<Rightarrow> hadoop_error + (string, string) gomap" where
  "GetAllConfig fileName h =
     (case LoadConfDataFromFile fileName h of Inl e \<Rightarrow> Inl e
      | Inr conf \<Rightarrow> Inr (fold (\<lambda>p m. AList.update (pr_Name p) (pr_Value p) m) conf []))"

section \<open>Capacity\<close>

abbreviation (input) memory_key :: string where
  "memory_key \<equiv> ''yarn.nodemanager.resource.memory-mb''"

abbreviation (input) vcores_key :: string where
  "vcores_key \<equiv> ''yarn.nodemanager.resource.cpu-vcores''"

definition atoi_or :: "int \<Rightarrow> string \<Rightarrow> int" where
  "atoi_or d s = (case atoi s of None \<Rightarrow> d | Some n \<Rightarrow> n)"

definition hadoop_GetCapacity :: "hadoop \<Rightarrow> hadoop_error + NMCapacity" where
  "hadoop_GetCapacity h =
     (case hd_cacheCapacity h of
        Some c \<Rightarrow> Inr \<lparr>nc_Vcores = nc_Vcores c, nc_Millcores = 0, nc_MemoryMB = nc_MemoryMB c\<rparr>
      | None \<Rightarrow>
          (case LoadConfDataFromFile YarnSite h of Inl e \<Rightarrow> Inl e
           | Inr conf \<Rightarrow> Inr \<lparr>nc_Vcores = atoi_or (- 1) (conf_Get conf vcores_key), nc_Millcores = 0,
               nc_MemoryMB = atoi_or (- 1) (conf_Get conf memory_key)\<rparr>))"

text \<open>The cache takes the capacity as it is; the file never gets a zero, with which the nodemanager does not start.\<close>

definition hadoop_SetCapacity :: "(string \<Rightarrow> bool) \<Rightarrow> NMCapacity \<Rightarrow> hadoop \<Rightarrow> hadoop_error option \<times> hadoop" where
  "hadoop_SetCapacity io capacity h =
     (let h = h\<lparr>hd_cacheCapacity := Some \<lparr>nc_Vcores = nc_Vcores capacity,
            nc_Millcores = (case hd_cacheCapacity h of None \<Rightarrow> 0 | Some c \<Rightarrow> nc_Millcores c), nc_MemoryMB = nc_MemoryMB capacity\<rparr>\<rparr>
      in SetMultipleConfDataToFile io YarnSite
           [(memory_key, if nc_MemoryMB capacity = 0 then ''1024'' else show_int (nc_MemoryMB capacity)),
            (vcores_key, if nc_Vcores capacity = 0 then ''1'' else show_int (nc_Vcores capacity))] h)"

section \<open>Addresses\<close>

text \<open>The text before and after the last \<open>sep\<close>.\<close>

definition cut_last :: "string \<Rightarrow> string \<Rightarrow> (string \<times> string) option" where
  "cut_last sep s = map_option (\<lambda>(a, b). (rev b, rev a)) (cut_first (rev sep) (rev s))"

text \<open>The expression \<^verbatim>\<open>\${(.*)}:(.*)\<close> on a text of one line.\<close>

definition property_match :: "string \<Rightarrow> (string \<times> string) option" where
  "property_match s = (case cut_first ''${'' s of None \<Rightarrow> None | Some (_, r) \<Rightarrow> cut_last ''}:'' r)"

definition getRealResourceManagerAddress :: "string \<Rightarrow> hadoop \<Rightarrow> string" where
  "getRealResourceManagerAddress rmAddr h =
     (if \<not> strings_Contains rmAddr ''${'' then rmAddr
      else case property_match rmAddr of None \<Rightarrow> []
        | Some (k, port) \<Rightarrow> GetConfDataFromFile YarnSite k h @ '':'' @ port)"

definition GetResourceManagerAddress :: "bool \<Rightarrow> hadoop \<Rightarrow> string \<times> hadoop" where
  "GetResourceManagerAddress cacheAddress h =
     (if cacheAddress \<and> hd_resourcemanagerAddress h \<noteq> [] then (hd_resourcemanagerAddress h, h)
      else let rmAddr = GetConfDataFromFile YarnSite ''yarn.resourcemanager.webapp.address'' h in
        if rmAddr \<noteq> []
        then let a = getRealResourceManagerAddress rmAddr h in (a, h\<lparr>hd_resourcemanagerAddress := a\<rparr>)
        else let rm1 = getRealResourceManagerAddress (GetConfDataFromFile YarnSite ''yarn.resourcemanager.webapp.address.rm1'' h) h in
          if rm1 = [] then ([], h)
          else let rm2 = getRealResourceManagerAddress (GetConfDataFromFile YarnSite ''yarn.resourcemanager.webapp.address.rm2'' h) h in
            if rm2 = [] then ([], h)
            else let a = rm1 @ '','' @ rm2 in (a, h\<lparr>hd_resourcemanagerAddress := a\<rparr>))"

definition GetNodeManagerAddress :: "bool \<Rightarrow> hadoop \<Rightarrow> string \<times> hadoop" where
  "GetNodeManagerAddress cacheAddress h =
     (if cacheAddress \<and> hd_nodemanagerAddress h \<noteq> [] then (hd_nodemanagerAddress h, h)
      else let a = GetConfDataFromFile YarnSite ''yarn.nodemanager.address'' h in (a, h\<lparr>hd_nodemanagerAddress := a\<rparr>))"

definition GetNodeManagerWebAddress :: "bool \<Rightarrow> hadoop \<Rightarrow> string \<times> hadoop" where
  "GetNodeManagerWebAddress cacheAddress h =
     (if cacheAddress \<and> hd_nodemanagerWebAddress h \<noteq> [] then (hd_nodemanagerWebAddress h, h)
      else let a = GetConfDataFromFile YarnSite ''yarn.nodemanager.webapp.address'' h in (a, h\<lparr>hd_nodemanagerWebAddress := a\<rparr>))"

definition GetYarnNodeManagerLocalDirs :: "hadoop \<Rightarrow> string" where
  "GetYarnNodeManagerLocalDirs h = GetConfDataFromFile YarnSite ''yarn.nodemanager.local-dirs'' h"

section \<open>What is written is read\<close>

text \<open>A store of values by key, as a client of the configuration sees it.\<close>

locale property_store =
  fixes get :: "'s \<Rightarrow> string \<Rightarrow> string" and put :: "string \<Rightarrow> string \<Rightarrow> 's \<Rightarrow> 's"
  assumes get_put: "get (put k v s) k' = (if k' = k then v else get s k')"
begin

lemma get_put_all:
  "wf_map m \<Longrightarrow> get (fold (\<lambda>(k, v). put k v) m s) k' = (case map_of m k' of None \<Rightarrow> get s k' | Some v \<Rightarrow> v)"
proof (induction m arbitrary: s)
  case (Cons p m)
  obtain k v where p: "p = (k, v)" by (cases p)
  have "map_of m k = None" using Cons.prems p by (simp add: map_of_eq_None_iff)
  then show ?case using Cons by (auto simp: p get_put split: option.splits)
qed simp

end

definition has_key :: "ConfData \<Rightarrow> string \<Rightarrow> bool" where
  "has_key conf k \<longleftrightarrow> (\<exists>p \<in> set conf. pr_Name p = k)"

lemma conf_Get_Set: "conf_Get (conf_Set k v conf) k' = (if k' = k \<and> has_key conf k then v else conf_Get conf k')"
  by (induction conf) (auto simp: conf_Set_def has_key_def)

lemma has_key_Set [simp]: "has_key (conf_Set k v conf) k' = has_key conf k'"
  by (induction conf) (auto simp: has_key_def conf_Set_def)

lemma conf_Get_absent: "\<not> has_key conf k \<Longrightarrow> conf_Get conf k = []"
  by (induction conf) (auto simp: has_key_def)

lemma conf_Get_append: "conf_Get (conf @ [p]) k = (if has_key conf k then conf_Get conf k else if pr_Name p = k then pr_Value p else [])"
  by (induction conf) (auto simp: has_key_def)

interpretation conf: property_store conf_Get conf_SetAdd
proof
  fix k v conf k'
  show "conf_Get (conf_SetAdd k v conf) k' = (if k' = k then v else conf_Get conf k')"
    by (auto simp: conf_SetAdd_def conf_Get_Set conf_Get_append list_ex_iff has_key_def conf_Get_absent)
qed

lemma conf_Set_all:
  "wf_map m \<Longrightarrow> conf_Get (fold (\<lambda>(k, v). conf_Set k v) m conf) k' =
     (case map_of m k' of Some v \<Rightarrow> if has_key conf k' then v else [] | None \<Rightarrow> conf_Get conf k')"
proof (induction m arbitrary: conf)
  case (Cons p m)
  obtain k v where p: "p = (k, v)" by (cases p)
  have "map_of m k = None" using Cons.prems p by (simp add: map_of_eq_None_iff)
  then show ?case using Cons by (auto simp: p conf_Get_Set conf_Get_absent split: option.splits)
qed (auto split: option.splits)

lemma conf_Get_filter: "conf_Get (filter (\<lambda>p. P (pr_Name p)) conf) k = (if P k then conf_Get conf k else [])"
  by (induction conf) auto

lemma getFileInfo_frame: "getFileInfo f h = (r, h') \<Longrightarrow> hd_files h' = hd_files h \<and> hd_cacheCapacity h' = hd_cacheCapacity h"
  by (auto simp: getFileInfo_def split: option.splits)

lemma write_result:
  assumes "writeConfDataToFile io f props change add del h = (None, h')" and "props \<noteq> []"
  shows "\<exists>conf. getConfData f props change add del h = Inr conf \<and> LoadConfDataFromFile f h' = Inr conf \<and>
    (\<forall>g. g \<noteq> f \<longrightarrow> LoadConfDataFromFile g h' = LoadConfDataFromFile g h) \<and> hd_cacheCapacity h' = hd_cacheCapacity h"
proof -
  obtain conf where c: "getConfData f props change add del h = Inr conf"
    using assms by (auto simp: writeConfDataToFile_def split: sum.splits)
  obtain i h1 where i: "getFileInfo f h = (Inr i, h1)"
    using assms c by (auto simp: writeConfDataToFile_def split: sum.splits prod.splits)
  have h': "h' = h1\<lparr>hd_files := AList.update f \<lparr>cf_conf = Some conf, cf_info = i\<rparr> (hd_files h1)\<rparr>"
    using assms c i by (auto simp: writeConfDataToFile_def split: option.splits)
  show ?thesis using c getFileInfo_frame [OF i] by (auto simp: h' LoadConfDataFromFile_def)
qed

text \<open>A write that fails leaves every file as it was.\<close>

lemma failed_write_keeps_files:
  assumes "writeConfDataToFile io f props change add del h = (Some e, h')"
  shows "hd_files h' = hd_files h"
  using assms getFileInfo_frame
  by (fastforce simp: writeConfDataToFile_def split: if_splits sum.splits prod.splits option.splits)

text \<open>Adding writes all values; with deletion, everything else goes.\<close>

lemma added_config_is_read:
  assumes "SetAddDelMultipleConfDataToFile io f props True del h = (None, h')" and "wf_map props" and "props \<noteq> []"
  shows "GetConfDataFromFile f k h' = (case map_of props k of Some v \<Rightarrow> v | None \<Rightarrow> if del then [] else GetConfDataFromFile f k h)"
proof -
  obtain conf where c: "getConfData f props False True del h = Inr conf" "LoadConfDataFromFile f h' = Inr conf"
    using write_result [OF assms(1) [unfolded SetAddDelMultipleConfDataToFile_def] assms(3)] by blast
  then obtain c0 where c0: "LoadConfDataFromFile f h = Inr c0"
    "conf = (let x = fold (\<lambda>(k, v). conf_SetAdd k v) props c0 in if del then filter (\<lambda>p. gmap_has props (pr_Name p)) x else x)"
    by (auto simp: getConfData_def Let_def split: sum.splits)
  show ?thesis
    using conf.get_put_all [OF assms(2), of c0 k] conf_Get_filter [of "gmap_has props" "fold (\<lambda>(k, v). conf_SetAdd k v) props c0" k]
    by (auto simp: GetConfDataFromFile_def c(2) c0 Let_def split: option.splits simp del: map_of_eq_Some_iff)
qed

lemma changed_config_is_read:
  assumes "SetMultipleConfDataToFile io f props h = (None, h')" and "wf_map props" and "props \<noteq> []" and "LoadConfDataFromFile f h = Inr c0"
  shows "GetConfDataFromFile f k h' = (case map_of props k of Some v \<Rightarrow> if has_key c0 k then v else [] | None \<Rightarrow> GetConfDataFromFile f k h)"
proof -
  obtain conf where c: "getConfData f props True False False h = Inr conf" "LoadConfDataFromFile f h' = Inr conf"
    using write_result [OF assms(1) [unfolded SetMultipleConfDataToFile_def] assms(3)] by blast
  then have "conf = fold (\<lambda>(k, v). conf_Set k v) props c0" using assms(4) by (simp add: getConfData_def)
  then show ?thesis using conf_Set_all [OF assms(2), of c0 k] assms(4) c(2) by (simp add: GetConfDataFromFile_def split: option.split)
qed

end
