(* ===== verification/NmUtil.thy ===== *)
theory NmUtil
  imports HadoopConf
begin

text \<open>
  \<^verbatim>\<open>nm-operator/util/util.go\<close>: the commands, control groups and disks of the nodemanager operator. What the operator does to the node
  is the list of \<open>op_effect\<close>s, each with its outcome; \<open>oe_ok\<close> decides the outcomes, and its first argument counts the attempts of a
  call that is repeated. Environment variables, the user database, processes, mounts and cadvisor are inputs. A variable that is not set is empty.
\<close>

section \<open>The node\<close>

datatype op_effect =
  YarnCmd "string list" nat nat string
| Mkdir string nat
| Chmod string nat
| Chown string string string
| Signal int string

datatype stat_result = StatMissing | StatError | StatMode nat

record cad_stat =
  ct_cpu :: int
  ct_time :: go_time
  ct_workingset :: int

record cad_info =
  ci_HasCpu :: bool
  ci_HasMemory :: bool
  ci_Stats :: "cad_stat list"
  ci_CreationTime :: go_time

record op_env =
  oe_getenv :: "string \<Rightarrow> string"
  oe_id :: "string \<Rightarrow> string \<Rightarrow> string option"
  oe_ok :: "nat \<Rightarrow> op_effect \<Rightarrow> bool"
  oe_io :: "string \<Rightarrow> bool"
  oe_stat :: "string \<Rightarrow> stat_result"
  oe_read :: "string \<Rightarrow> string option"
  oe_pids :: "string \<Rightarrow> int list option"
  oe_pgid :: "int \<Rightarrow> int option"
  oe_disk :: disk_env
  oe_cadvisor_starts :: bool
  oe_cinfo :: "string \<Rightarrow> (string, cad_info) gomap option"
  oe_web :: "nat \<Rightarrow> string \<Rightarrow> http_answer"
  oe_rm :: "nat \<Rightarrow> string \<Rightarrow> string option"

type_synonym op_log = "(op_effect \<times> bool) list"

datatype op_error = NoUser string | BadId string | CmdFailed | HadoopFailed hadoop_error | SysFailed op_effect | StatFailedAt string | NoMounts | NoStatfs string

definition perform :: "op_env \<Rightarrow> nat \<Rightarrow> op_effect \<Rightarrow> op_error option \<times> op_log" where
  "perform env n e = (if oe_ok env n e then None else Some (SysFailed e), [(e, oe_ok env n e)])"

section \<open>Control groups\<close>

text \<open>One sub system, with the mode 0750, which is 488; an outer \<open>None\<close> is the end of the process when the owner cannot be changed.\<close>

definition init_subsys :: "op_env \<Rightarrow> string \<Rightarrow> string \<Rightarrow> string \<Rightarrow> (op_error option \<times> op_log) option" where
  "init_subsys env user grp hadoopPath =
     (let (err, acts) =
        (case oe_stat env hadoopPath of
           StatMissing \<Rightarrow> perform env 0 (Mkdir hadoopPath 488)
         | StatError \<Rightarrow> (Some (StatFailedAt hadoopPath), [])
         | StatMode m \<Rightarrow> if m \<noteq> 488 then perform env 0 (Chmod hadoopPath 488) else (None, []))
      in if err \<noteq> None then Some (err, acts)
         else let c = Chown user grp hadoopPath in if oe_ok env 0 c then Some (None, acts @ [(c, True)]) else None)"

fun init_subsystems :: "op_env \<Rightarrow> string \<Rightarrow> string \<Rightarrow> string list \<Rightarrow> (op_error option \<times> op_log) option" where
  "init_subsystems env user grp [] = Some (None, [])"
| "init_subsystems env user grp (p # ps) =
     (case init_subsys env user grp p of None \<Rightarrow> None
      | Some (Some e, acts) \<Rightarrow> Some (Some e, acts)
      | Some (None, acts) \<Rightarrow> map_option (\<lambda>(e, acts'). (e, acts @ acts')) (init_subsystems env user grp ps))"

abbreviation (input) mount_path_key :: string where
  "mount_path_key \<equiv> ''yarn.nodemanager.linux-container-executor.cgroups.mount-path''"

abbreviation (input) hierarchy_key :: string where
  "hierarchy_key \<equiv> ''yarn.nodemanager.linux-container-executor.cgroups.hierarchy''"

definition InitCgroup :: "op_env \<Rightarrow> string \<Rightarrow> string \<Rightarrow> string \<Rightarrow> hadoop \<Rightarrow> (op_error option \<times> hadoop \<times> op_log) option" where
  "InitCgroup env user grp envCgroupPath h =
     (if oe_getenv env ''CONTAINER_EXECUTOR'' \<noteq> ''org.apache.hadoop.yarn.server.nodemanager.LinuxContainerExecutor'' then Some (None, h, [])
      else let cgroupPath = GetConfDataFromFile YarnSite mount_path_key h; p = oe_getenv env envCgroupPath;
               (err, h) = (if p \<noteq> [] \<and> p \<noteq> cgroupPath then SetMultipleConfDataToFile (oe_io env) YarnSite [(mount_path_key, p)] h else (None, h));
               cgroupPath = (if p \<noteq> [] \<and> p \<noteq> cgroupPath then p else cgroupPath)
           in case err of Some e \<Rightarrow> Some (Some (HadoopFailed e), h, [])
              | None \<Rightarrow>
                  let hierarchy = GetConfDataFromFile YarnSite hierarchy_key h
                  in map_option (\<lambda>(e, acts). (e, h, acts))
                       (init_subsystems env user grp (map (\<lambda>sub. path_Join [cgroupPath, sub, hierarchy]) [''cpu'', ''memory'', ''net_cls''])))"

section \<open>Containers\<close>

definition HadoopPath :: string where
  "HadoopPath = ''/hadoop-yarn''"

definition CgroupRoot :: string where
  "CgroupRoot = ''/sys/fs/cgroup''"

definition empty_info :: cad_info where
  "empty_info = \<lparr>ci_HasCpu = False, ci_HasMemory = False, ci_Stats = [], ci_CreationTime = 0\<rparr>"

text \<open>The counters are unsigned, and the times of the last two samples differ.\<close>

definition used_cpu :: "cad_stat \<Rightarrow> cad_stat \<Rightarrow> float32" where
  "used_cpu a b =
     (let tot = (ct_cpu b - ct_cpu a) mod 2 ^ 64; interval = ct_time b - ct_time a
      in fl32 (fl32 (of_int (go_trunc (fl (fl (fl (fl (of_int tot) * 100) / fl (of_int interval)) + 1 / 2)))) / 100))"

definition getConState :: "op_env \<Rightarrow> string \<Rightarrow> ContainerState" where
  "getConState env cid =
     (let cPath = path_Join [HadoopPath, cid]; usage = \<lparr>cs_UsedMemMB = 0, cs_UsedCPU = 0, cs_StartTime = 0\<rparr>
      in case oe_cinfo env cPath of
           None \<Rightarrow> usage
         | Some infos \<Rightarrow>
             if infos = [] then usage
             else let info = (case map_of infos cPath of None \<Rightarrow> empty_info | Some i \<Rightarrow> i);
                      st = ci_Stats info; n = length st;
                      usage = (if ci_HasCpu info \<and> 1 < n then usage\<lparr>cs_UsedCPU := used_cpu (st ! (n - 2)) (st ! (n - 1))\<rparr> else usage);
                      usage = (if ci_HasMemory info \<and> 0 < n
                        then usage\<lparr>cs_UsedMemMB := fl32 (fl32 (of_int (ct_workingset (st ! (n - 1)))) / 1048576)\<rparr> else usage)
                  in usage\<lparr>cs_StartTime := ci_CreationTime info\<rparr>)"

definition util_GetContainersState :: "op_env \<Rightarrow> string list \<Rightarrow> (string, ContainerState) gomap" where
  "util_GetContainersState env cids = fold (\<lambda>cid m. AList.update cid (getConState env cid) m) cids []"

definition GetContainerProcessGroupId :: "op_env \<Rightarrow> string \<Rightarrow> int" where
  "GetContainerProcessGroupId env cID =
     (case oe_pids env (path_Join [CgroupRoot, ''cpu'', HadoopPath, cID]) of
        Some (pid # _) \<Rightarrow> (case oe_pgid env pid of None \<Rightarrow> 0 | Some g \<Rightarrow> g)
      | _ \<Rightarrow> 0)"

definition CheckPidAlive :: "op_env \<Rightarrow> int \<Rightarrow> bool" where
  "CheckPidAlive env pid = (oe_stat env (''/proc/'' @ show_int pid) \<noteq> StatMissing)"

section \<open>Commands\<close>

definition ExecuteYarnCMD :: "op_env \<Rightarrow> nat \<Rightarrow> string list \<Rightarrow> string \<Rightarrow> op_error option \<times> op_log" where
  "ExecuteYarnCMD env n cmds user =
     (case oe_id env ''-u'' user of None \<Rightarrow> (Some (NoUser user), [])
      | Some uidStr \<Rightarrow>
          (case atoi (strings_TrimChar (CHR 0x0A) uidStr) of None \<Rightarrow> (Some (BadId uidStr), [])
           | Some uid \<Rightarrow>
               (case oe_id env ''-g'' user of None \<Rightarrow> (Some (NoUser user), [])
                | Some gidStr \<Rightarrow>
                    (case atoi (strings_TrimChar (CHR 0x0A) gidStr) of None \<Rightarrow> (Some (BadId gidStr), [])
                     | Some gid \<Rightarrow> perform env n (YarnCmd cmds (nat (uid mod 2 ^ 32)) (nat (gid mod 2 ^ 32)) user)))))"

definition update_cmd :: "string \<Rightarrow> string \<Rightarrow> string \<Rightarrow> string \<Rightarrow> string list" where
  "update_cmd yarnBinPath nmAddress mems cores = [yarnBinPath, ''rmadmin'', ''-updateNodeResource'', nmAddress, mems, cores]"

definition ExecuteYarnUpdateNodeResource ::
  "op_env \<Rightarrow> string \<Rightarrow> string \<Rightarrow> string \<Rightarrow> string \<Rightarrow> hadoop \<Rightarrow> op_error option \<times> hadoop \<times> op_log" where
  "ExecuteYarnUpdateNodeResource env yarnBinPath user mems cores h =
     (let (a, h) = GetNodeManagerAddress True h; (err, acts) = ExecuteYarnCMD env 0 (update_cmd yarnBinPath a mems cores) user
      in if err = None then (None, h, acts)
         else let (a, h) = GetNodeManagerAddress False h; (err, acts') = ExecuteYarnCMD env 1 (update_cmd yarnBinPath a mems cores) user
              in (err, h, acts @ acts'))"

section \<open>Disks\<close>

definition GetYarnLocalDirs :: "hadoop \<Rightarrow> string list" where
  "GetYarnLocalDirs h = split_on (CHR '','') (GetYarnNodeManagerLocalDirs h)"

text \<open>The order of strings by bytes, and the sorted list of a set of them.\<close>

fun str_less :: "string \<Rightarrow> string \<Rightarrow> bool" where
  "str_less _ [] = False"
| "str_less [] (_ # _) = True"
| "str_less (a # s) (b # t) = ((of_char a :: nat) < of_char b \<or> a = b \<and> str_less s t)"

definition sets_List :: "string list \<Rightarrow> string list" where
  "sets_List s = sort_by str_less (remdups s)"

text \<open>The partitions of one line of the mount table; \<open>None\<close> is the panic on a line without a blank.\<close>

definition line_partitions :: "string list \<Rightarrow> string \<Rightarrow> string list option" where
  "line_partitions dirs txt =
     (let parts = split_on (CHR '' '') txt in
      if length parts < 2 then (if dirs = [] then Some [] else None)
      else Some (map (\<lambda>_. strings_TrimSpace (parts ! 0)) (filter (\<lambda>dir. strings_HasPrefix dir (parts ! 1)) dirs)))"

definition GetDiskPartitionsName :: "op_env \<Rightarrow> hadoop \<Rightarrow> (op_error + string list) option" where
  "GetDiskPartitionsName env h =
     (let dirs = GetYarnLocalDirs h in
      case de_mounts (oe_disk env) of
        None \<Rightarrow> Some (Inl NoMounts)
      | Some ls \<Rightarrow>
          map_option (\<lambda>s. Inr (sets_List s))
            (foldM (\<lambda>txt acc. map_option (\<lambda>ps. acc @ ps) (line_partitions dirs txt)) ls []))"

fun find_mount :: "string \<Rightarrow> string list \<Rightarrow> string option" where
  "find_mount localDir [] = Some []"
| "find_mount localDir (txt # rest) =
     (let parts = split_on (CHR '' '') txt in
      if length parts < 2 then None
      else if strings_HasPrefix localDir (parts ! 1) then Some (strings_TrimSpace (parts ! 1))
      else find_mount localDir rest)"

definition JudgePartitionCapForDataPath :: "op_env \<Rightarrow> int \<Rightarrow> string \<Rightarrow> hadoop \<Rightarrow> (op_error option \<times> hadoop) option" where
  "JudgePartitionCapForDataPath env diskMinCapGb localDir h =
     (case de_mounts (oe_disk env) of
        None \<Rightarrow> Some (Some NoMounts, h)
      | Some ls \<Rightarrow>
          (case find_mount localDir ls of None \<Rightarrow> None
           | Some mountPoint \<Rightarrow>
               (case GetDiskPartitionStats (oe_disk env) mountPoint of
                  None \<Rightarrow> Some (Some (NoStatfs mountPoint), h)
                | Some pStat \<Rightarrow>
                    if ds_TotalSize pStat < wrap64 (diskMinCapGb * DiskUnit)
                    then let (err, h) = SetMultipleConfDataToFile (oe_io env) YarnSite
                           [(''yarn.nodemanager.disk-health-checker.min-free-space-per-disk-mb'', ''10240000'')] h
                         in Some (map_option HadoopFailed err, h)
                    else Some (None, h))))"

end
