(* ===== verification/NmOperator.thy ===== *)
theory NmOperator
  imports NmUtil
begin

text \<open>
  \<^verbatim>\<open>nm-operator/nmoperator/nm_operator.go\<close>: the server beside the nodemanager that starts and stops it, edits its configuration, tells the
  resourcemanager its capacity and kills its containers. A handler takes the request's body and returns the answer, the operator's state and what was done on
  the node. A body that cannot be decoded is \<open>NoBody\<close>; the fields of another request's body are ignored, as the JSON decoder does.
\<close>

section \<open>The operator\<close>

text \<open>With the variables and files of package \<^verbatim>\<open>hadoop\<close>.\<close>

record NMOperator =
  no_user :: string
  no_group :: string
  no_cadvisorManager :: bool
  no_yarnBin :: string
  no_yarnDaemonBin :: string
  no_scheduleDisabled :: bool
  no_hadoop :: hadoop

text \<open>A container with its application.\<close>

record op_container = NMContainer +
  co_AppID :: string

type_synonym op_result = "http_answer \<times> NMOperator \<times> op_log"

definition WriteAsJson :: "nm_reply \<Rightarrow> http_answer" where
  "WriteAsJson r = \<lparr>ha_failed = False, ha_StatusCode = 200, ha_reply = r\<rparr>"

definition WriteServiceError :: "nat \<Rightarrow> http_answer" where
  "WriteServiceError code = \<lparr>ha_failed = False, ha_StatusCode = code, ha_reply = NoReply\<rparr>"

text \<open>A handler that panics: the server closes the connection.\<close>

definition aborted :: http_answer where
  "aborted = \<lparr>ha_failed = True, ha_StatusCode = 0, ha_reply = NoReply\<rparr>"

definition NewNMOperator :: "op_env \<Rightarrow> bool \<Rightarrow> hadoop \<Rightarrow> (NMOperator \<times> op_log) option" where
  "NewNMOperator env enableCadvisor h =
     (let user = (if oe_getenv env ''USER'' = [] then ''root'' else oe_getenv env ''USER'');
          grp = (if oe_getenv env ''GROUP'' = [] then ''root'' else oe_getenv env ''GROUP'')
      in case InitCgroup env user grp ''CGROUP_PATH'' h of
           Some (None, h, acts) \<Rightarrow>
             if enableCadvisor \<and> \<not> oe_cadvisor_starts env then None
             else let yarnHome = oe_getenv env ''HADOOP_YARN_HOME'';
                      diskMinCapGb = atoi_or 100 (oe_getenv env ''DISK_MIN_CAP'');
                      op = \<lparr>no_user = user, no_group = grp, no_cadvisorManager = enableCadvisor, no_yarnBin = yarnHome @ ''/bin/yarn'',
                        no_yarnDaemonBin = yarnHome @ ''/sbin/yarn-daemon.sh'', no_scheduleDisabled = False, no_hadoop = h\<rparr>
                  in (case GetYarnLocalDirs h of
                        [dir] \<Rightarrow> (case JudgePartitionCapForDataPath env diskMinCapGb dir h of
                                     Some (None, h) \<Rightarrow> Some (op\<lparr>no_hadoop := h\<rparr>, acts)
                                   | _ \<Rightarrow> None)
                      | _ \<Rightarrow> Some (op, acts))
         | _ \<Rightarrow> None)"

section \<open>The process\<close>

definition answer :: "op_error option \<Rightarrow> http_answer" where
  "answer err = (if err = None then WriteAsJson NoReply else WriteServiceError 500)"

definition op_StartNodeManager :: "op_env \<Rightarrow> NMOperator \<Rightarrow> op_result" where
  "op_StartNodeManager env op =
     (let (err, acts) = ExecuteYarnCMD env 0 [no_yarnDaemonBin op, ''start'', ''nodemanager''] (no_user op) in (answer err, op, acts))"

definition op_StopNodeManager :: "op_env \<Rightarrow> NMOperator \<Rightarrow> op_result" where
  "op_StopNodeManager env op =
     (let (err, acts) = ExecuteYarnCMD env 0 [no_yarnDaemonBin op, ''stop'', ''nodemanager''] (no_user op) in (answer err, op, acts))"

definition is_trimmed :: "char \<Rightarrow> bool" where
  "is_trimmed c \<longleftrightarrow> c \<in> set [CHR 0x0A, CHR 0x0D, CHR 0x09, CHR '' '']"

definition nm_running :: "op_env \<Rightarrow> bool" where
  "nm_running env =
     (let pidfile = (if oe_getenv env ''PID_FILE'' = [] then ''/tmp/yarn--nodemanager.pid'' else oe_getenv env ''PID_FILE'') in
      case oe_read env pidfile of None \<Rightarrow> False
      | Some dat \<Rightarrow>
          (case atoi (rev (dropWhile is_trimmed (rev (dropWhile is_trimmed dat)))) of None \<Rightarrow> False
           | Some pid \<Rightarrow>
               (case oe_stat env (''/proc/'' @ show_int pid) of
                  StatMode _ \<Rightarrow> (case oe_read env (''/proc/'' @ show_int pid @ ''/cmdline'') of None \<Rightarrow> False
                                | Some dat \<Rightarrow> strings_Contains dat ''NodeManager'')
                | _ \<Rightarrow> False)))"

definition op_GetStatus :: "op_env \<Rightarrow> NMOperator \<Rightarrow> op_result" where
  "op_GetStatus env op = (WriteAsJson (StatusReply (if nm_running env then ''UP'' else ''DOWN'')), op, [])"

section \<open>Capacity and properties\<close>

definition op_GetCapacity :: "op_env \<Rightarrow> NMOperator \<Rightarrow> op_result" where
  "op_GetCapacity env op =
     (case hadoop_GetCapacity (no_hadoop op) of
        Inl _ \<Rightarrow> (WriteServiceError 500, op, [])
      | Inr c \<Rightarrow> (WriteAsJson (CapacityReply (nc_Vcores c) (nc_MemoryMB c)), op, []))"

text \<open>The request's body as a capacity; milli cores are not sent.\<close>

definition read_capacity :: "nm_body \<Rightarrow> NMCapacity option" where
  "read_capacity body =
     (case body of NoBody \<Rightarrow> None | CapacityBody c \<Rightarrow> Some (c\<lparr>nc_Millcores := 0\<rparr>)
      | _ \<Rightarrow> Some \<lparr>nc_Vcores = 0, nc_Millcores = 0, nc_MemoryMB = 0\<rparr>)"

definition op_setCapacity :: "op_env \<Rightarrow> nm_body \<Rightarrow> NMOperator \<Rightarrow> (nat + NMCapacity) \<times> NMOperator" where
  "op_setCapacity env body op =
     (case read_capacity body of None \<Rightarrow> (Inl 400, op)
      | Some capacity \<Rightarrow>
          let (err, h) = hadoop_SetCapacity (oe_io env) capacity (no_hadoop op)
          in (if err = None then Inr capacity else Inl 500, op\<lparr>no_hadoop := h\<rparr>))"

definition op_SetCapacity :: "op_env \<Rightarrow> nm_body \<Rightarrow> NMOperator \<Rightarrow> op_result" where
  "op_SetCapacity env body op =
     (case op_setCapacity env body op of
        (Inl code, op) \<Rightarrow> (WriteServiceError code, op, [])
      | (Inr _, op) \<Rightarrow> (WriteAsJson NoReply, op, []))"

definition read_keys :: "nm_body \<Rightarrow> (string \<times> string list \<times> bool) option" where
  "read_keys body =
     (case body of NoBody \<Rightarrow> None | KeysBody f ks a \<Rightarrow> Some (f, ks, a) | PropertyBody f _ _ _ \<Rightarrow> Some (f, [], False) | _ \<Rightarrow> Some ([], [], False))"

definition op_GetProperty :: "op_env \<Rightarrow> nm_body \<Rightarrow> NMOperator \<Rightarrow> op_result" where
  "op_GetProperty env body op =
     (case read_keys body of None \<Rightarrow> (WriteServiceError 400, op, [])
      | Some (f, ks, configAll) \<Rightarrow>
          (case (if configAll then GetAllConfig f (no_hadoop op) else GetConfig f ks (no_hadoop op)) of
             Inl _ \<Rightarrow> (WriteServiceError 500, op, [])
           | Inr v \<Rightarrow> (WriteAsJson (PropertyReply v), op, [])))"

definition read_property :: "nm_body \<Rightarrow> (string \<times> (string, string) gomap \<times> bool \<times> bool) option" where
  "read_property body =
     (case body of NoBody \<Rightarrow> None | PropertyBody f m a d \<Rightarrow> Some (f, m, a, d) | KeysBody f _ _ \<Rightarrow> Some (f, [], False, False)
      | _ \<Rightarrow> Some ([], [], False, False))"

definition op_SetProperty :: "op_env \<Rightarrow> nm_body \<Rightarrow> NMOperator \<Rightarrow> op_result" where
  "op_SetProperty env body op =
     (case read_property body of None \<Rightarrow> (WriteServiceError 400, op, [])
      | Some (f, m, add, del) \<Rightarrow>
          let (err, h) = (if \<not> add \<and> \<not> del then SetMultipleConfDataToFile (oe_io env) f m (no_hadoop op)
                 else SetAddDelMultipleConfDataToFile (oe_io env) f m add del (no_hadoop op))
          in (if err = None then WriteAsJson NoReply else WriteServiceError 500, op\<lparr>no_hadoop := h\<rparr>, []))"

section \<open>Schedule\<close>

definition op_ScheduleDisable :: "op_env \<Rightarrow> NMOperator \<Rightarrow> op_result" where
  "op_ScheduleDisable env op =
     (let (err, h, acts) = ExecuteYarnUpdateNodeResource env (no_yarnBin op) (no_user op) ''0'' ''0'' (no_hadoop op);
          op = op\<lparr>no_hadoop := h\<rparr>
      in (answer err, if err = None then op\<lparr>no_scheduleDisabled := True\<rparr> else op, acts))"

definition op_ScheduleEnable :: "op_env \<Rightarrow> NMOperator \<Rightarrow> op_result" where
  "op_ScheduleEnable env op =
     (case hadoop_GetCapacity (no_hadoop op) of
        Inl _ \<Rightarrow> (WriteServiceError 500, op, [])
      | Inr c \<Rightarrow>
          let (err, h, acts) = ExecuteYarnUpdateNodeResource env (no_yarnBin op) (no_user op) (show_int (nc_MemoryMB c)) (show_int (nc_Vcores c)) (no_hadoop op);
              op = op\<lparr>no_hadoop := h\<rparr>
          in (answer err, if err = None then op\<lparr>no_scheduleDisabled := False\<rparr> else op, acts))"

definition op_updateNodeCapacity :: "op_env \<Rightarrow> nm_body \<Rightarrow> bool \<Rightarrow> NMOperator \<Rightarrow> op_result" where
  "op_updateNodeCapacity env body force op =
     (case op_setCapacity env body op of
        (Inl code, op) \<Rightarrow> (WriteServiceError code, op, [])
      | (Inr c, op) \<Rightarrow>
          if force \<or> \<not> no_scheduleDisabled op
          then let (err, h, acts) = ExecuteYarnUpdateNodeResource env (no_yarnBin op) (no_user op) (show_int (nc_MemoryMB c)) (show_int (nc_Vcores c)) (no_hadoop op)
               in (answer err, op\<lparr>no_hadoop := h\<rparr>, acts)
          else (WriteAsJson NoReply, op, []))"

definition op_UpdateCapacity :: "op_env \<Rightarrow> nm_body \<Rightarrow> NMOperator \<Rightarrow> op_result" where
  "op_UpdateCapacity env body op = op_updateNodeCapacity env body False op"

definition op_ForceUpdateCapacity :: "op_env \<Rightarrow> nm_body \<Rightarrow> NMOperator \<Rightarrow> op_result" where
  "op_ForceUpdateCapacity env body op = op_updateNodeCapacity env body True op"


section \<open>Containers\<close>

definition op_GetContainersState :: "op_env \<Rightarrow> nm_body \<Rightarrow> NMOperator \<Rightarrow> op_result" where
  "op_GetContainersState env body op =
     (if \<not> no_cadvisorManager op then (WriteServiceError 500, op, [])
      else case body of NoBody \<Rightarrow> (WriteServiceError 500, op, [])
           | IdsBody cids \<Rightarrow> (WriteAsJson (StatsReply (util_GetContainersState env cids)), op, [])
           | _ \<Rightarrow> (WriteAsJson (StatsReply []), op, []))"

definition strings_SplitN :: "string \<Rightarrow> char \<Rightarrow> nat \<Rightarrow> string list" where
  "strings_SplitN s c n =
     (let ps = split_on c s in if length ps \<le> n then ps else take (n - 1) ps @ [join_with [c] (drop (n - 1) ps)])"

text \<open>An id without an underscore makes the assignment panic.\<close>

definition getAppIDFromContainerID :: "string \<Rightarrow> string option" where
  "getAppIDFromContainerID containerID =
     (let tokens = strings_SplitN containerID (CHR ''_'') 5 in
      if length tokens < 2 then None else Some (join_with ''_'' (butlast (''application'' # drop 2 tokens))))"

definition getContainerIDFromAmLogDir :: "string \<Rightarrow> string" where
  "getContainerIDFromAmLogDir klogdir =
     (case cut_first ''container_'' klogdir of None \<Rightarrow> []
      | Some (_, r) \<Rightarrow> takeWhile (\<lambda>c. c \<noteq> CHR ''/'') (''container_'' @ r))"

text \<open>The addresses in turn: whether one answered, and the container of the first that names one.\<close>

fun ask_rm :: "(string \<Rightarrow> string option) \<Rightarrow> string \<Rightarrow> string list \<Rightarrow> bool \<Rightarrow> bool \<times> string" where
  "ask_rm get appID [] requestOK = (requestOK, [])"
| "ask_rm get appID (addr # addrs) requestOK =
     (case get (''http://'' @ addr @ ''/ws/v1/cluster/apps/'' @ appID) of
        None \<Rightarrow> ask_rm get appID addrs requestOK
      | Some amLogs \<Rightarrow> if amLogs \<noteq> [] then (True, getContainerIDFromAmLogDir amLogs) else ask_rm get appID addrs True)"

definition getAmContainer :: "op_env \<Rightarrow> string \<Rightarrow> hadoop \<Rightarrow> string \<times> hadoop" where
  "getAmContainer env appID h =
     (let (a, h) = GetResourceManagerAddress True h; (ok, am) = ask_rm (oe_rm env 0) appID (split_on (CHR '','') a) False
      in if ok then (am, h)
         else let (a, h) = GetResourceManagerAddress False h in (snd (ask_rm (oe_rm env 1) appID (split_on (CHR '','') a) False), h))"

definition request_containers :: "op_env \<Rightarrow> nat \<Rightarrow> string \<Rightarrow> NMContainer list option" where
  "request_containers env n addr =
     (let a = oe_web env n (''http://'' @ addr @ ''/ws/v1/node/containers'') in
      if ha_failed a \<or> ha_StatusCode a \<noteq> 200 then None
      else Some (case ha_reply a of ContainersReply cs \<Rightarrow> cs | _ \<Rightarrow> []))"

definition get_nm_containers :: "op_env \<Rightarrow> hadoop \<Rightarrow> NMContainer list option \<times> hadoop" where
  "get_nm_containers env h =
     (let (a, h) = GetNodeManagerWebAddress True h in
      case request_containers env 0 a of
        Some cs \<Rightarrow> (Some cs, h)
      | None \<Rightarrow> let (a, h) = GetNodeManagerWebAddress False h in (request_containers env 1 a, h))"

text \<open>The containers with their applications, and the applications' masters; \<open>None\<close> is the panic on an id.\<close>

definition with_app :: "NMContainer \<Rightarrow> op_container option" where
  "with_app c = map_option (\<lambda>a. NMContainer.extend c (op_container.fields a)) (getAppIDFromContainerID (co_ID c))"

definition app_masters :: "op_env \<Rightarrow> op_container list \<Rightarrow> hadoop \<Rightarrow> (string, string) gomap \<times> hadoop" where
  "app_masters env cs h =
     (let apps = fold (\<lambda>c m. AList.update (co_AppID c) [] m) cs []
      in fold (\<lambda>(app, _) (m, h). let (am, h) = getAmContainer env app h in (AList.update app am m, h)) apps (apps, h))"

definition mark_master :: "(string, string) gomap \<Rightarrow> op_container \<Rightarrow> op_container" where
  "mark_master apps c = (if co_ID c = prop_get apps (co_AppID c) then c\<lparr>co_IsAM := True\<rparr> else c)"

definition op_GetContainers :: "op_env \<Rightarrow> NMOperator \<Rightarrow> op_result" where
  "op_GetContainers env op =
     (let (r, h) = get_nm_containers env (no_hadoop op); op = op\<lparr>no_hadoop := h\<rparr> in
      case r of
        None \<Rightarrow> (WriteServiceError 500, op, [])
      | Some cs \<Rightarrow>
          (case those (map with_app cs) of
             None \<Rightarrow> (aborted, op, [])
           | Some cs \<Rightarrow>
               let (apps, h) = app_masters env cs h
               in (WriteAsJson (ContainersReply (map (\<lambda>c. NMContainer.truncate (mark_master apps c)) cs)), op\<lparr>no_hadoop := h\<rparr>, [])))"

text \<open>The signals for one container; the containers are handled at the same time.\<close>

definition kill_container :: "op_env \<Rightarrow> string \<Rightarrow> op_log" where
  "kill_container env cid =
     (let gpid = GetContainerProcessGroupId env cid; signal = (\<lambda>s. (Signal (- gpid) s, oe_ok env 0 (Signal (- gpid) s)))
      in if gpid \<le> 1 then []
         else if CheckPidAlive env gpid then [signal ''SIGTERM'', signal ''SIGKILL''] else [signal ''SIGTERM''])"

definition op_KillContainers :: "op_env \<Rightarrow> nm_body \<Rightarrow> NMOperator \<Rightarrow> op_result" where
  "op_KillContainers env body op =
     (case body of NoBody \<Rightarrow> (WriteServiceError 500, op, [])
      | IdsBody cids \<Rightarrow> (WriteAsJson NoReply, op, concat (map (kill_container env) cids))
      | _ \<Rightarrow> (WriteAsJson NoReply, op, []))"

definition op_DiskPartitions :: "op_env \<Rightarrow> NMOperator \<Rightarrow> op_result" where
  "op_DiskPartitions env op =
     (case GetDiskPartitionsName env (no_hadoop op) of
        None \<Rightarrow> (aborted, op, [])
      | Some (Inl _) \<Rightarrow> (WriteServiceError 500, op, [])
      | Some (Inr ps) \<Rightarrow> (WriteAsJson (PartitionsReply ps), op, []))"

section \<open>Routes\<close>

text \<open>The routes below \<^verbatim>\<open>/v1/nm\<close>. A path of no route is not found; a path of a route with another method is not allowed.\<close>

definition op_routes :: "((string \<times> string) \<times> (op_env \<Rightarrow> nm_body \<Rightarrow> NMOperator \<Rightarrow> op_result)) list" where
  "op_routes =
     [((''GET'', ''/v1/nm/status''), \<lambda>env b. op_GetStatus env), ((''GET'', ''/v1/nm/capacity''), \<lambda>env b. op_GetCapacity env),
      ((''POST'', ''/v1/nm/capacity''), op_SetCapacity), ((''GET'', ''/v1/nm/containers''), \<lambda>env b. op_GetContainers env),
      ((''GET'', ''/v1/nm/containerstats''), op_GetContainersState), ((''POST'', ''/v1/nm/kill''), op_KillContainers),
      ((''GET'', ''/v1/nm/property''), op_GetProperty), ((''POST'', ''/v1/nm/property''), op_SetProperty),
      ((''POST'', ''/v1/nm/start''), \<lambda>env b. op_StartNodeManager env), ((''POST'', ''/v1/nm/stop''), \<lambda>env b. op_StopNodeManager env),
      ((''POST'', ''/v1/nm/schedule/disable''), \<lambda>env b. op_ScheduleDisable env),
      ((''POST'', ''/v1/nm/schedule/enable''), \<lambda>env b. op_ScheduleEnable env),
      ((''POST'', ''/v1/nm/capacity/update''), op_UpdateCapacity), ((''POST'', ''/v1/nm/capacity/update/force''), op_ForceUpdateCapacity),
      ((''GET'', ''/v1/nm/diskpartitions''), \<lambda>env b. op_DiskPartitions env)]"

definition serve :: "op_env \<Rightarrow> string \<Rightarrow> string \<Rightarrow> nm_body \<Rightarrow> NMOperator \<Rightarrow> op_result" where
  "serve env verb path body op =
     (case map_of op_routes (verb, path) of
        Some handler \<Rightarrow> handler env body op
      | None \<Rightarrow> (WriteServiceError (if path \<in> set (map (snd \<circ> fst) op_routes) then 405 else 404), op, []))"

end
