(* ===== verification/Yarn.thy ===== *)
theory Yarn
  imports YarnAdapt
begin

text \<open>
  \<^verbatim>\<open>resource/resource_yarn.go\<close>: the client of the resource manager for offline jobs on YARN. It shapes the offline
  resources with the adapters, tells the nodemanager its capacity, kills containers that no longer fit, switches the schedule and keeps the
  nodemanager running. What it does is a list of effects in program order.
\<close>

section \<open>Data\<close>

record RangeState =
  rg_Min :: float64
  rg_Max :: float64
  rg_Ratio :: float64

record RangeResource =
  rr_CPUMilli :: RangeState
  rr_MemMB :: RangeState

record 'q yarnClient =
  yk_scheduleDisabled :: bool
  yk_lastCapIncTimestamp :: go_time
  yk_CapacityIncInterval :: go_duration
  yk_ResourceRange :: RangeResource
  yk_resourceHandlers :: "adapter list"
  yk_ginit :: GInit
  yk_disk :: "'q DiskManager"

datatype yarn_effect = NmRequest string nm_body | YarnAlarm string | StoreCheckpoint bool

text \<open>The outside of one round: the clock, the disks and the operator, the operator after a restart, the process groups, ports and the checkpoint of ports.\<close>

record yarn_env =
  ye_disk :: disk_env
  ye_now :: go_time
  ye_clock :: "go_time \<Rightarrow> clock"
  ye_restarted :: nm_http
  ye_gpid :: "string \<Rightarrow> int"
  ye_nodeIP :: string
  ye_unused :: "int \<Rightarrow> bool"
  ye_ports :: "(string, int) gomap option"

abbreviation ye_http :: "yarn_env \<Rightarrow> nm_http" where
  "ye_http env \<equiv> de_http (ye_disk env)"

definition nm_effects :: "nm_sent \<Rightarrow> yarn_effect list" where
  "nm_effects = map (\<lambda>(a, b). NmRequest a b)"

section \<open>Schedule switches\<close>

definition yarn_DisableOfflineSchedule :: "nm_http \<Rightarrow> 'q yarnClient \<Rightarrow> 'q yarnClient \<times> yarn_effect list \<times> ginit_error option" where
  "yarn_DisableOfflineSchedule http y =
     (if yk_scheduleDisabled y then (y, [], None)
      else let (err, sent) = DisableSchedule http; e = YarnAlarm ''schedule is closing'' # nm_effects sent
           in if err \<noteq> None then (y, e, err)
              else (y\<lparr>yk_scheduleDisabled := True\<rparr>, e @ [StoreCheckpoint True], None))"

definition yarn_EnableOfflineSchedule :: "nm_http \<Rightarrow> 'q yarnClient \<Rightarrow> 'q yarnClient \<times> yarn_effect list \<times> ginit_error option" where
  "yarn_EnableOfflineSchedule http y =
     (if \<not> yk_scheduleDisabled y then (y, [], None)
      else let (err, sent) = EnableSchedule http
           in if err \<noteq> None then (y, nm_effects sent, err)
              else (y\<lparr>yk_scheduleDisabled := False\<rparr>, nm_effects sent @ [StoreCheckpoint False], None))"

definition yarn_OfflineScheduleDisabled :: "'q yarnClient \<Rightarrow> bool" where
  "yarn_OfflineScheduleDisabled y = yk_scheduleDisabled y"

definition yarn_KillOfflineJob :: "yarn_env \<Rightarrow> string \<Rightarrow> yarn_effect list" where
  "yarn_KillOfflineJob env conflictingResource = nm_effects (KillContainer (ye_http env) (ye_gpid env) conflictingResource)"

text \<open>The check point is looked at without its time, so the switch is closed and the delayed call to open it is due.\<close>

definition yarn_CheckPoint :: "nm_http \<Rightarrow> NodeResourceCheckPoint option \<Rightarrow> 'q yarnClient \<Rightarrow> 'q yarnClient \<times> yarn_effect list \<times> bool" where
  "yarn_CheckPoint http nodeCheckpoint y =
     (case nodeCheckpoint of
        Some cp \<Rightarrow> if ScheduleDisable cp then (let (y, e, _) = yarn_DisableOfflineSchedule http y in (y, e, True)) else (y, [], False)
      | None \<Rightarrow> (y, [], False))"

section \<open>Capacity\<close>

definition range_of :: "int \<Rightarrow> RangeState \<Rightarrow> float64" where
  "range_of cap r =
     (let x = fl (fl (of_int cap) * rg_Ratio r);
          x = (if rg_Min r \<noteq> 0 \<and> x < rg_Min r then rg_Min r else x)
      in if x > rg_Max r then rg_Max r else x)"

definition getRangeResource :: "RangeResource \<Rightarrow> NMCapacity \<Rightarrow> float64 \<times> float64" where
  "getRangeResource resRange cap =
     (if fl (rg_Ratio (rr_CPUMilli resRange) + rg_Ratio (rr_MemMB resRange)) = 0 then (0, 0)
      else (range_of (nc_Millcores cap) (rr_CPUMilli resRange), range_of (nc_MemoryMB cap) (rr_MemMB resRange)))"

text \<open>Whether the capacity changes and whether it grows, from the shaped resources.\<close>

definition capacity_change ::
  "'q qops \<Rightarrow> nm_http \<Rightarrow> RangeResource \<Rightarrow> NMCapacity \<Rightarrow> bool \<Rightarrow> bool \<Rightarrow> 'q resource_list \<Rightarrow> bool \<times> bool" where
  "capacity_change Q http resRange minCap conflicting reachMin res =
     (if conflicting then (True, False)
      else let (cap, err) = GetCapacity http in
        if err \<noteq> None then (True, True)
        else if reachMin
        then if nc_Vcores cap = nc_Vcores minCap \<or> nc_Millcores cap = nc_Millcores minCap \<or> nc_MemoryMB cap = nc_MemoryMB minCap
             then (False, False) else (True, False)
        else let cpu = q_milli Q (rl_get Q res ResourceCPU); memMb = q_value Q (rl_get Q res ResourceMemory) sdiv MemUnit;
                 (rangeCPU, rangeMem) = getRangeResource resRange cap
             in if \<bar>fl (of_int (cpu - nc_Millcores cap))\<bar> \<le> rangeCPU \<and> \<bar>fl (of_int (memMb - nc_MemoryMB cap))\<bar> \<le> rangeMem
                then (False, False)
                else (True, cpu > nc_Millcores cap \<and> memMb > nc_MemoryMB cap))"

definition beCapacity ::
  "'q qops \<Rightarrow> yarn_env \<Rightarrow> 'q resource_list \<Rightarrow> bool \<Rightarrow> 'q yarnClient \<Rightarrow> ((bool \<times> bool) \<times> 'q resource_list \<times> 'q yarnClient) option" where
  "beCapacity Q env res conflicting y =
     (case GetMinCapacity (ye_http env) (yk_ginit y) of None \<Rightarrow> None
      | Some (minCap, g) \<Rightarrow>
          (case adapt_all Q (ye_disk env) (ye_clock env (ye_now env)) minCap (yk_resourceHandlers y) res (yk_disk y) g of None \<Rightarrow> None
           | Some (res, reachMin, d, g) \<Rightarrow>
               Some (capacity_change Q (ye_http env) (yk_ResourceRange y) minCap conflicting reachMin res, res, y\<lparr>yk_ginit := g, yk_disk := d\<rparr>)))"

definition expected_capacity :: "'q qops \<Rightarrow> 'q resource_list \<Rightarrow> NMCapacity" where
  "expected_capacity Q res =
     \<lparr>nc_Vcores = q_milli Q (rl_get Q res ResourceCPU) sdiv CPUUnit, nc_Millcores = 0,
      nc_MemoryMB = q_value Q (rl_get Q res ResourceMemory) sdiv MemUnit\<rparr>"

definition updateCapacity ::
  "'q qops \<Rightarrow> yarn_env \<Rightarrow> 'q resource_list \<Rightarrow> string list \<Rightarrow> 'q yarnClient \<Rightarrow> ('q yarnClient \<times> yarn_effect list) option" where
  "updateCapacity Q env res conflicting y =
     (case beCapacity Q env res (conflicting \<noteq> []) y of None \<Rightarrow> None
      | Some ((capChanged, capIncrease), res, y) \<Rightarrow>
          if \<not> capChanged then Some (y, [])
          else let expectCap = expected_capacity Q res in
            if capIncrease
            then if yk_lastCapIncTimestamp y + yk_CapacityIncInterval y > ye_now env then Some (y, [])
                 else Some (y\<lparr>yk_lastCapIncTimestamp := ye_now env\<rparr>,
                        nm_effects (EnsureCapacity (ye_http env) (ye_gpid env) expectCap conflicting False (yk_scheduleDisabled y) (yk_ginit y)))
            else Some (y, nm_effects (EnsureCapacity (ye_http env) (ye_gpid env) expectCap conflicting True (yk_scheduleDisabled y) (yk_ginit y))))"

section \<open>The nodemanager process\<close>

definition checkNMContainerReady :: "nm_http \<Rightarrow> bool" where
  "checkNMContainerReady http = (case GetStatus http of Inl _ \<Rightarrow> False | Inr _ \<Rightarrow> True)"

definition startAndCheckNMProcess :: "yarn_env \<Rightarrow> GInit \<Rightarrow> (bool \<times> GInit \<times> yarn_effect list) option" where
  "startAndCheckNMProcess env g =
     (case GetStatus (ye_http env) of
        Inl _ \<Rightarrow> Some (False, g, [])
      | Inr True \<Rightarrow> Some (False, g, [])
      | Inr False \<Rightarrow>
          (case StartNodemanager (ye_http env) (ye_nodeIP env) (ye_unused env) (ye_ports env) g of None \<Rightarrow> None
           | Some (err, g, sent) \<Rightarrow>
               Some (True, g, nm_effects sent @
                 (if err = None \<and> GetStatus (ye_restarted env) = Inr False
                  then [YarnAlarm ''nodemanager restart successfully, while not running after 10s''] else []))))"

definition yarn_AdaptAndUpdateOfflineResource ::
  "'q qops \<Rightarrow> yarn_env \<Rightarrow> 'q resource_list \<Rightarrow> string list \<Rightarrow> 'q yarnClient \<Rightarrow> ('q yarnClient \<times> yarn_effect list) option" where
  "yarn_AdaptAndUpdateOfflineResource Q env offlineList conflicting y =
     (case updateCapacity Q env offlineList conflicting y of None \<Rightarrow> None
      | Some (y, e1) \<Rightarrow>
          (case startAndCheckNMProcess env (yk_ginit y) of None \<Rightarrow> None
           | Some (restart, g, e2) \<Rightarrow>
               let y = y\<lparr>yk_ginit := g\<rparr> in
               if \<not> restart then Some (y, e1 @ e2)
               else let scheduleDisabled = yk_scheduleDisabled y; y = y\<lparr>yk_scheduleDisabled := False\<rparr> in
                 if scheduleDisabled
                 then let (y, e3, _) = yarn_DisableOfflineSchedule (ye_restarted env) y in Some (y, e1 @ e2 @ e3)
                 else Some (y, e1 @ e2)))"

section \<open>Construction\<close>

record yarn_config =
  yn_DisableKillIfNormal :: bool
  yn_OnlyKillIfIncompressibleRes :: bool
  yn_PortAutoDetect :: bool
  yn_EnableYarnQOS :: bool
  yn_Properties :: "(string, string) gomap option"
  yn_CapacityIncInterval :: go_duration
  yn_NMReserve :: nm_reserve
  yn_ResourceRoundOff :: RoundOffResource
  yn_ResourceRange :: RangeResource
  yn_Disks :: YarnDisksConfig
  yn_CpuOverCommit :: OverCommit

text \<open>The adapters work in this order. The client watches the port of the web application.\<close>

definition newYarnClient :: "disk_env \<Rightarrow> go_time \<Rightarrow> yarn_config \<Rightarrow> 'q yarnClient option" where
  "newYarnClient env now c =
     (let g = NewGInit (yn_DisableKillIfNormal c) (yn_OnlyKillIfIncompressibleRes c) (yn_PortAutoDetect c) (yn_EnableYarnQOS c) (yn_Properties c)
      in map_option (\<lambda>(d, g).
           \<lparr>yk_scheduleDisabled = False, yk_lastCapIncTimestamp = now - yn_CapacityIncInterval c,
            yk_CapacityIncInterval = yn_CapacityIncInterval c, yk_ResourceRange = yn_ResourceRange c,
            yk_resourceHandlers = [MinCompare, OverCommitCpu (yn_CpuOverCommit c), Reserve (yn_NMReserve c), RoundOff (yn_ResourceRoundOff c), DiskCpu],
            yk_ginit = WatchForMetricsPort g, yk_disk = d\<rparr>) (NewDiskManager env (yn_Disks c) g))"

end
