(* ===== verification/YarnProps.thy ===== *)
theory YarnProps
  imports Yarn
begin

text \<open>
  What the YARN client achieves: the capacity it asks for, which containers it kills and when it stops, the ports it picks, the schedule after a restart,
  and what the disk check does.
\<close>

section \<open>The capacity is never below the minimum\<close>

definition at_least :: "'q qops \<Rightarrow> NMCapacity \<Rightarrow> 'q resource_list \<Rightarrow> bool" where
  "at_least Q minCap res \<longleftrightarrow>
     nc_MemoryMB minCap \<le> q_value Q (rl_get Q res ResourceMemory) sdiv MemUnit \<and> nc_Millcores minCap \<le> q_milli Q (rl_get Q res ResourceCPU)"

lemma sdiv_mult: "(x * m) sdiv m = x" if "0 < m" for x m :: int
  using that by (simp add: signed_divide_int_def sgn_mult abs_mult sgn_mult_abs)

lemma rl_get_update: "rl_get Q (AList.update k v rl) k' = (if k' = k then v else rl_get Q rl k')"
  by (simp add: rl_get_def)

context quantity
begin

lemma compare_at_least:
  assumes "compareAndReplaceMinCapacity Q minCap res = (res', r)"
  shows "at_least Q minCap res'"
  using assms by (auto simp: compareAndReplaceMinCapacity_def at_least_def Let_def rl_get_update sdiv_mult MemUnit_def)

lemma ResourceAdapt_at_least:
  assumes "ResourceAdapt Q env now minCap a res d g = Some (res', r, d', g')" and "at_least Q minCap res"
  shows "at_least Q minCap res'"
  using assms compare_at_least
  by (cases a; cases "compareAndReplaceMinCapacity Q minCap res'")
     (auto simp: ResourceAdapt_def split: prod.splits if_splits option.splits, metis surj_pair)

lemma MinCompare_at_least: "ResourceAdapt Q env now minCap MinCompare res d g = Some (res', r, d', g') \<Longrightarrow> at_least Q minCap res'"
  using compare_at_least by (auto simp: ResourceAdapt_def split: prod.splits)

lemma adapt_all_at_least:
  "adapt_all Q env now minCap as res d g = Some (res', r, d', g') \<Longrightarrow> at_least Q minCap res \<Longrightarrow> at_least Q minCap res'"
proof (induction as arbitrary: res d g)
  case (Cons a as)
  then show ?case using ResourceAdapt_at_least [of env now minCap a res d g]
    by (auto split: option.splits if_splits)
qed simp

lemma adapted_at_least:
  assumes "adapt_all Q env now minCap (MinCompare # as) res d g = Some (res', r, d', g')"
  shows "at_least Q minCap res'"
proof -
  obtain x q d1 g1 where a: "ResourceAdapt Q env now minCap MinCompare res d g = Some (x, q, d1, g1)"
    using assms by (auto split: option.splits)
  then have "at_least Q minCap x" by (rule MinCompare_at_least)
  then show ?thesis using assms a adapt_all_at_least by (auto split: if_splits)
qed

end

lemma handlers_of_new: "newYarnClient env now c = Some y \<Longrightarrow> \<exists>as. yk_resourceHandlers y = MinCompare # as"
  by (auto simp: newYarnClient_def)

section \<open>Which containers are killed\<close>

lemma am_order_weak:
  assumes "strict_weak_order lt"
  shows "strict_weak_order (am_order lt)"
proof (unfold_locales, goal_cases)
  case (1 x y)
  then show ?case using strict_weak_order.less_asym [OF assms, of x y] by (auto simp: am_order_def split: if_splits)
next
  case (2 y x z)
  then show ?case using strict_weak_order.not_less_trans [OF assms, of y x z] by (auto simp: am_order_def split: if_splits)
qed

interpretation by_time: strict_weak_order byAmAndTime
  unfolding byAmAndTime_def by (rule am_order_weak) (unfold_locales, auto)

interpretation by_cpu: strict_weak_order byAmAndCPU
  unfolding byAmAndCPU_def by (rule am_order_weak) (unfold_locales, auto split: if_splits)

interpretation by_memory: strict_weak_order byAmAndMemory
  unfolding byAmAndMemory_def by (rule am_order_weak) (unfold_locales, auto split: if_splits)

text \<open>A container can be killed when its process group is known.\<close>

definition killable :: "(string \<Rightarrow> int) \<Rightarrow> NMContainer list \<Rightarrow> NMContainer list" where
  "killable gp cs = filter (\<lambda>c. 1 < gp (co_ID c)) cs"

definition fits_after :: "NMCapacity option \<Rightarrow> commonResource \<times> commonResource \<Rightarrow> NMContainer list \<Rightarrow> bool" where
  "fits_after expect res cs = (let r = fold release cs res in resources_fit expect (fst r) (snd r))"

lemma pick_containers_prefix:
  "\<exists>n \<le> length (killable gp cs).
     pick_containers gp expect cr cs res picked = picked @ map (\<lambda>c. c\<lparr>co_Pid := gp (co_ID c)\<rparr>) (take n (killable gp cs)) \<and>
     (\<forall>m < n. \<not> (fits_after expect res (take m (killable gp cs)) \<and> (cr = [] \<or> picked \<noteq> [] \<or> 0 < m))) \<and>
     (n < length (killable gp cs) \<longrightarrow> fits_after expect res (take n (killable gp cs)) \<and> (cr = [] \<or> picked \<noteq> [] \<or> 0 < n))"
proof (induction cs arbitrary: res picked)
  case Nil
  show ?case by (simp add: killable_def)
next
  case (Cons c cs)
  let ?ks = "killable gp cs"
  consider (stop) "resources_fit expect (fst res) (snd res) \<and> (cr = [] \<or> picked \<noteq> [])"
    | (skip) "\<not> (resources_fit expect (fst res) (snd res) \<and> (cr = [] \<or> picked \<noteq> []))" "gp (co_ID c) \<le> 1"
    | (pick) "\<not> (resources_fit expect (fst res) (snd res) \<and> (cr = [] \<or> picked \<noteq> []))" "1 < gp (co_ID c)" by linarith
  then show ?case
  proof cases
    case stop
    then show ?thesis by (intro exI [of _ 0]) (auto simp: fits_after_def)
  next
    case skip
    then have "killable gp (c # cs) = ?ks" "pick_containers gp expect cr (c # cs) res picked = pick_containers gp expect cr cs res picked"
      by (auto simp: killable_def)
    then show ?thesis using Cons.IH [of res picked] by simp
  next
    case pick
    let ?p = "picked @ [c\<lparr>co_Pid := gp (co_ID c)\<rparr>]"
    from Cons.IH [of "release c res" ?p] obtain n where n: "n \<le> length ?ks"
      "pick_containers gp expect cr cs (release c res) ?p = ?p @ map (\<lambda>c. c\<lparr>co_Pid := gp (co_ID c)\<rparr>) (take n ?ks)"
      "\<forall>m < n. \<not> fits_after expect (release c res) (take m ?ks)" "n < length ?ks \<longrightarrow> fits_after expect (release c res) (take n ?ks)"
      by auto
    have k: "killable gp (c # cs) = c # ?ks" using pick(2) by (simp add: killable_def)
    have r: "pick_containers gp expect cr (c # cs) res picked = pick_containers gp expect cr cs (release c res) ?p" using pick by auto
    have s: "fits_after expect res (take (Suc m) (c # ?ks)) = fits_after expect (release c res) (take m ?ks)" for m
      by (simp add: fits_after_def)
    have z: "\<not> (fits_after expect res (take 0 (c # ?ks)) \<and> (cr = [] \<or> picked \<noteq> []))" using pick(1) by (simp add: fits_after_def)
    have "\<not> (fits_after expect res (take m (c # ?ks)) \<and> (cr = [] \<or> picked \<noteq> [] \<or> 0 < m))" if "m < Suc n" for m
      using that n(3) s z by (cases m) auto
    then show ?thesis unfolding k r using n s by (intro exI [of _ "Suc n"]) auto
  qed
qed

lemma sort_containers_props:
  "set (sort_containers r cs) = set cs" "sorted_wrt (\<lambda>a b. \<not> (co_IsAM a \<and> \<not> co_IsAM b)) (sort_containers r cs)"
proof -
  show "set (sort_containers r cs) = set cs" by (simp add: sort_containers_def)
  have "sorted_wrt (\<lambda>a b. \<not> (co_IsAM a \<and> \<not> co_IsAM b)) (sort_by byAmAndTime cs)"
    by (rule sorted_wrt_mono_rel [OF _ by_time.sort_by_sorted]) (auto simp: byAmAndTime_def am_order_def split: if_splits)
  moreover have "sorted_wrt (\<lambda>a b. \<not> (co_IsAM a \<and> \<not> co_IsAM b)) (sort_by byAmAndCPU cs)"
    by (rule sorted_wrt_mono_rel [OF _ by_cpu.sort_by_sorted]) (auto simp: byAmAndCPU_def am_order_def split: if_splits)
  moreover have "sorted_wrt (\<lambda>a b. \<not> (co_IsAM a \<and> \<not> co_IsAM b)) (sort_by byAmAndMemory cs)"
    by (rule sorted_wrt_mono_rel [OF _ by_memory.sort_by_sorted]) (auto simp: byAmAndMemory_def am_order_def split: if_splits)
  ultimately show "sorted_wrt (\<lambda>a b. \<not> (co_IsAM a \<and> \<not> co_IsAM b)) (sort_containers r cs)" by (simp add: sort_containers_def)
qed

text \<open>The running containers that can be killed, in the order of killing.\<close>

definition victims :: "(string \<Rightarrow> int) \<Rightarrow> NMContainer list \<Rightarrow> (string, ContainerState) gomap \<Rightarrow> string \<Rightarrow> NMContainer list" where
  "victims gp containers stats cr = killable gp (sort_containers cr (snd (snd (getContainerResource containers stats))))"

definition loads :: "NMContainer list \<Rightarrow> (string, ContainerState) gomap \<Rightarrow> commonResource \<times> commonResource" where
  "loads containers stats = (let (a, u, _) = getContainerResource containers stats in (a, u))"

lemma sorted_wrt_prefix_closed:
  assumes "sorted_wrt R (xs @ ys)" and "x \<in> set xs" and "y \<in> set ys"
  shows "R x y"
  using assms by (simp add: sorted_wrt_append)


definition worker :: "string \<Rightarrow> bool \<Rightarrow> NMContainer" where
  "worker i am = \<lparr>co_ID = i, co_State = ''RUNNING'', co_TotalMemoryNeededMB = 1024, co_TotalVCoresNeeded = 1, co_UsedMemoryMB = 512, co_UsedVCores = 1,
     co_IsAM = am, co_Pid = 0, co_StartTime = 0\<rparr>"

lemma two_victims: "victims (\<lambda>_. 7) [worker ''a'' True, worker ''b'' False] [] ''cpu'' = [worker ''b'' False, worker ''a'' True]"
  by (simp add: victims_def getContainerResource_def worker_def runningStats_def fill_state_def killable_def sort_containers_def sort_by_def
      byAmAndCPU_def am_order_def)


text \<open>
  C29. The capacity the client asks for is never below the minimum of the nodemanager, whatever the prediction, the reserve, the rounding and the disks
  say, because every adapter ends by raising the resources to the minimum.
\<close>

theorem capacity_at_least_minimum:
  assumes "quantity Q amount" and "newYarnClient denv t c = Some y0" and "yk_resourceHandlers y = yk_resourceHandlers y0"
    and "beCapacity Q env res conflicting y = Some (ch, res', y')"
  shows "\<exists>minCap g. GetMinCapacity (ye_http env) (yk_ginit y) = Some (minCap, g) \<and>
    nc_MemoryMB minCap \<le> nc_MemoryMB (expected_capacity Q res') \<and> nc_Millcores minCap \<le> q_milli Q (rl_get Q res' ResourceCPU)"
proof -
  obtain as where as: "yk_resourceHandlers y = MinCompare # as" using handlers_of_new [OF assms(2)] assms(3) by auto
  obtain minCap g r d' g' where m: "GetMinCapacity (ye_http env) (yk_ginit y) = Some (minCap, g)"
    "adapt_all Q (ye_disk env) (ye_clock env (ye_now env)) minCap (MinCompare # as) res (yk_disk y) g = Some (res', r, d', g')"
    using assms(4) unfolding beCapacity_def as by (auto split: option.splits)
  have "at_least Q minCap res'" by (rule quantity.adapted_at_least [OF assms(1) m(2)])
  then show ?thesis using m(1) by (auto simp: at_least_def expected_capacity_def)
qed

definition ok_http :: "nm_reply \<Rightarrow> nm_http" where
  "ok_http reply n method url body = \<lparr>ha_failed = False, ha_StatusCode = 200, ha_reply = reply\<rparr>"

definition plain_disk_env :: disk_env where
  "plain_disk_env = \<lparr>de_http = ok_http NoReply, de_mounts = None, de_statfs = (\<lambda>_. None), de_InHostNamespace = True, de_ParseFloat = (\<lambda>_. None)\<rparr>"

definition plain_yarn_env :: yarn_env where
  "plain_yarn_env = \<lparr>ye_disk = plain_disk_env, ye_now = 0, ye_clock = (\<lambda>_. \<lparr>Hour = 0, Minute = 0, Second = 0\<rparr>), ye_restarted = ok_http NoReply,
     ye_gpid = (\<lambda>_. 7), ye_nodeIP = ''10.0.0.1'', ye_unused = (\<lambda>_. True), ye_ports = None\<rparr>"

definition plain_range :: RangeState where
  "plain_range = \<lparr>rg_Min = 0, rg_Max = 0, rg_Ratio = 0\<rparr>"

definition plain_yarn_config :: yarn_config where
  "plain_yarn_config = \<lparr>yn_DisableKillIfNormal = False, yn_OnlyKillIfIncompressibleRes = False, yn_PortAutoDetect = True, yn_EnableYarnQOS = False,
     yn_Properties = None, yn_CapacityIncInterval = 0, yn_NMReserve = \<lparr>nv_CpuMilli = None, nv_MemMB = None\<rparr>,
     yn_ResourceRoundOff = \<lparr>ro_CPUMilli = 0, ro_MemMB = 0\<rparr>, yn_ResourceRange = \<lparr>rr_CPUMilli = plain_range, rr_MemMB = plain_range\<rparr>,
     yn_Disks = \<lparr>yd_RatioToCore = None, yd_DisableScheduler = False, yd_DiskCapConservativeValue = 10, yd_DiskNumConservativeValue = 1, yd_SpaceCheckPeriod = 0\<rparr>,
     yn_CpuOverCommit = \<lparr>oc_Enable = False, oc_OverCommitPercent = 1, oc_Periods = []\<rparr>\<rparr>"

definition plain_client :: "int yarnClient" where
  "plain_client = the (newYarnClient plain_disk_env 0 plain_yarn_config)"

lemmas plain_defs = plain_client_def plain_yarn_config_def plain_range_def plain_yarn_env_def plain_disk_env_def ok_http_def

lemma actionURL_known: "actionURL ''property'' = Inr ''/v1/nm/property''" "actionURL ''capacity'' = Inr ''/v1/nm/capacity''"
  "actionURL ''diskPartitions'' = Inr ''/v1/nm/diskpartitions''" "actionURL ''scheduleDisable'' = Inr ''/v1/nm/schedule/disable''"
  "actionURL ''start'' = Inr ''/v1/nm/start''"
  by (simp_all add: actionURL_def)

lemmas request_simps = sendRequest_def actionURL_known GetProperty_def SetProperty_def post_def prop_get_def

lemma plain_client_new: "newYarnClient plain_disk_env 0 plain_yarn_config = Some plain_client"
  by (simp add: plain_defs newYarnClient_def NewDiskManager_def fillAvailablePartitions_def GetDiskPartitions_def request_simps
      getPartitionsInfos_def)

lemma plain_min: "GetMinCapacity (ye_http plain_yarn_env) (yk_ginit plain_client) =
    Some (\<lparr>nc_Vcores = 0, nc_Millcores = 0, nc_MemoryMB = 1024\<rparr>, (yk_ginit plain_client)\<lparr>gi_minCapacity := Some \<lparr>nc_Vcores = 0, nc_Millcores = 0, nc_MemoryMB = 1024\<rparr>\<rparr>)"
proof -
  have "gi_minCapacity (yk_ginit plain_client) = None"
    by (simp add: plain_defs newYarnClient_def NewDiskManager_def fillAvailablePartitions_def GetDiskPartitions_def request_simps
      getPartitionsInfos_def NewGInit_def WatchForMetricsPort_def)
  then show ?thesis by (simp add: GetMinCapacity_def request_simps plain_yarn_env_def plain_disk_env_def ok_http_def Let_def)
qed

theorem capacity_at_least_minimum_witness:
  "\<exists>ch res' y'. beCapacity nanoQ plain_yarn_env [] False plain_client = Some (ch, res', y') \<and> 1024 \<le> nc_MemoryMB (expected_capacity nanoQ res')"
proof -
  obtain as where as: "yk_resourceHandlers plain_client = MinCompare # as" using handlers_of_new [OF plain_client_new] by blast
  have "\<exists>ch res' y'. beCapacity nanoQ plain_yarn_env [] False plain_client = Some (ch, res', y')"
    unfolding beCapacity_def plain_min option.case prod.case as
    by (simp add: ResourceAdapt_def compareAndReplaceMinCapacity_def rl_get_def nano_ops MemUnit_def)
  then obtain ch res' y' where e: "beCapacity nanoQ plain_yarn_env [] False plain_client = Some (ch, res', y')" by blast
  then show ?thesis
    using capacity_at_least_minimum [OF nano.quantity_axioms plain_client_new refl e] unfolding plain_min by auto
qed

section \<open>Ports\<close>

text \<open>The operator has the port under the key, or has been told to write it.\<close>

definition has_port :: "nm_http \<Rightarrow> string \<Rightarrow> nm_sent \<Rightarrow> string \<Rightarrow> int \<Rightarrow> bool" where
  "has_port http ip sent k p \<longleftrightarrow>
     (let v = ip @ '':'' @ show_int p; (m, err) = GetProperty http YarnSite [k] False
      in err = None \<and> prop_get m k = v \<or> (\<exists>add. (''property'', PropertyBody YarnSite [(k, v)] add False) \<in> set sent))"

lemma choose_port_free:
  assumes "choose_port unused preferred start used = Some (p, start')"
  shows "p \<notin> set used" "unused p"
  using assms by (auto simp: choose_port_def FindUnusedPort_def find_Some_iff split: if_splits)

lemma set_port_has:
  assumes "set_port http ip k p g = (None, g', s)"
  shows "has_port http ip s k p"
  using assms unfolding set_port_def has_port_def Let_def SetProperty_def post_def by (auto split: prod.splits if_splits)

lemma has_port_mono: "has_port http ip s k p \<Longrightarrow> set s \<subseteq> set s' \<Longrightarrow> has_port http ip s' k p"
  unfolding has_port_def Let_def by (auto split: prod.splits)

lemma ensure_ports_distinct:
  assumes "ensure_ports http ip unused ks start used g sent = (None, g', sent', used')" and "distinct used"
  shows "\<exists>ps. used' = used @ ps \<and> length ps = length ks \<and> distinct used' \<and> (\<forall>p \<in> set ps. unused p) \<and> set sent \<subseteq> set sent' \<and>
    (\<forall>(k, p) \<in> set (zip ks ps). has_port http ip sent' k p)"
  using assms
proof (induction ks arbitrary: start used g sent)
  case (Cons k ks)
  obtain p start' where c: "choose_port unused (gmap_get0 (gi_defaultPort g) k) start used = Some (p, start')"
    using Cons.prems(1) by (auto split: option.splits)
  obtain g1 s where s: "set_port http ip k p g = (None, g1, s)"
    using Cons.prems(1) c by (cases "set_port http ip k p g") (auto split: option.splits)
  have r: "ensure_ports http ip unused ks start' (used @ [p]) g1 (sent @ s) = (None, g', sent', used')" using Cons.prems(1) c s by simp
  obtain ps where ps: "used' = (used @ [p]) @ ps" "length ps = length ks" "distinct used'" "\<forall>q \<in> set ps. unused q" "set (sent @ s) \<subseteq> set sent'"
    "\<forall>(k, q) \<in> set (zip ks ps). has_port http ip sent' k q"
    using Cons.IH [OF r] Cons.prems(2) choose_port_free [OF c] by auto
  have "has_port http ip sent' k p" using set_port_has [OF s] ps(5) by (auto intro: has_port_mono)
  then show ?case using ps choose_port_free(2) [OF c] by (intro exI [of _ "p # ps"]) auto
qed auto

text \<open>
  Choosing ports before the nodemanager starts: when it succeeds, the three addresses of the nodemanager have three different ports, each
  free at that time, and the configuration holds each of them or has been told to.
\<close>

lemma ports_are_distinct:
  assumes "ensurePort http ip unused pcp g = (None, g', sent, ports)"
  shows "length ports = 3 \<and> distinct ports \<and> (\<forall>p \<in> set ports. unused p) \<and> (\<forall>(k, p) \<in> set (zip portNames ports). has_port http ip sent k p)"
proof -
  obtain ps where ps: "ports = [] @ ps" "length ps = length portNames" "distinct ports" "\<forall>p \<in> set ps. unused p"
    "\<forall>(k, p) \<in> set (zip portNames ps). has_port http ip sent k p"
    using ensure_ports_distinct [OF assms [unfolded ensurePort_def]] by auto
  then show ?thesis by (simp add: portNames_def)
qed

lemma set_port_plain:
  "set_port (ok_http (PropertyReply [])) (c # ip) k p g =
     (None, (if k = metricsPortKey then send_port p g else g)\<lparr>gi_defaultPort := AList.update k p (gi_defaultPort g)\<rparr>,
      [(''property'', PropertyBody YarnSite [(k, (c # ip) @ '':'' @ show_int p)] True False)])"
  by (simp add: set_port_def request_simps ok_http_def Let_def send_port_def)

lemma plain_ports: "\<exists>g' sent. ensurePort (ok_http (PropertyReply [])) ''10.0.0.1'' (\<lambda>p. p \<noteq> 10002) None (NewGInit False False True False None) =
    (None, g', sent, [8082, 18040, 10001])"
proof -
  have f: "FindUnusedPort (\<lambda>p. p \<noteq> 10002) 8082 [] = Some 8082"
  proof -
    have "[8082..29999] = (8082::int) # [8082 + 1..29999]" by (rule upto_rec1) simp
    then show ?thesis unfolding FindUnusedPort_def by (simp del: upto_rec_numeral)
  qed
  show ?thesis
    by (simp add: ensurePort_def restorePortsCheckpoint_def portNames_def NewGInit_def defaultPorts_def gmap_get0_def choose_port_def f set_port_plain
        metricsPortKey_def send_port_def)
qed

theorem ports_are_distinct_witness:
  "\<exists>ports. distinct ports \<and> (8082::int) \<in> set ports \<and>
     (\<exists>g' sent. ensurePort (ok_http (PropertyReply [])) ''10.0.0.1'' (\<lambda>p. p \<noteq> 10002) None (NewGInit False False True False None) = (None, g', sent, ports))"
proof -
  obtain g' sent where e: "ensurePort (ok_http (PropertyReply [])) ''10.0.0.1'' (\<lambda>p. p \<noteq> 10002) None (NewGInit False False True False None) =
    (None, g', sent, [8082, 18040, 10001])" using plain_ports by blast
  then show ?thesis using ports_are_distinct [OF e] by (intro exI [of _ "[8082, 18040, 10001]"]) auto
qed

section \<open>Disks\<close>

text \<open>Rounds of the disk check, each with its own state of the disks and the operator.\<close>

fun disk_rounds :: "disk_env list \<Rightarrow> 'q DiskManager \<times> GInit \<Rightarrow> (('q DiskManager \<times> GInit) \<times> nm_sent) option" where
  "disk_rounds [] s = Some (s, [])"
| "disk_rounds (env # envs) s =
     (case checkDiskSpace env (fst s) (snd s) of None \<Rightarrow> None
      | Some (s', sent, _) \<Rightarrow> map_option (\<lambda>(s'', sent'). (s'', sent @ sent')) (disk_rounds envs s'))"

lemma fill_frame:
  "fillAvailablePartitions env d g = Some (d', g') \<Longrightarrow> dm_firstCheck d' = dm_firstCheck d \<and> dm_config d' = dm_config d"
  unfolding fillAvailablePartitions_def Let_def
  by (auto split: prod.splits option.splits ginit_error.splits if_splits)

lemma refill_frame:
  "refill env d g = Some (d', g') \<Longrightarrow> dm_firstCheck d' = dm_firstCheck d \<and> dm_config d' = dm_config d"
  by (auto simp: refill_def fill_frame split: if_splits)

lemma checkDiskSpace_cases:
  assumes "checkDiskSpace env d g = Some ((d', g'), sent, alarms)"
  shows "d' = d \<and> sent = [] \<or>
    (\<exists>x. refill env d g = Some (x, g') \<and> (d' = x \<and> sent = [] \<or> (\<exists>full. switch_schedule env full x = (d', sent, alarms))))"
proof (cases "GetProperty (de_http env) YarnSite disk_keys False")
  case (Pair m err)
  show ?thesis
  proof (cases "err = None \<and> (\<exists>a b c. (atoi (prop_get m (disk_keys ! 0)), atoi (prop_get m (disk_keys ! 1)),
      de_ParseFloat env (prop_get m (disk_keys ! 2))) = (Some a, Some b, Some c))")
    case True
    then obtain a b c where t: "err = None" "atoi (prop_get m (disk_keys ! 0)) = Some a" "atoi (prop_get m (disk_keys ! 1)) = Some b"
      "de_ParseFloat env (prop_get m (disk_keys ! 2)) = Some c" by blast
    obtain x gx where "refill env d g = Some (x, gx)" using assms t Pair by (auto simp: checkDiskSpace_def)
    then show ?thesis using assms t Pair by (auto simp: checkDiskSpace_def split: if_splits prod.splits)
  next
    case False
    then show ?thesis using assms Pair by (auto simp: checkDiskSpace_def split: if_splits option.splits)
  qed
qed

lemma checkDiskSpace_no_enable:
  assumes "checkDiskSpace env d g = Some ((d', g'), sent, alarms)" and "\<not> dm_firstCheck d"
  shows "\<not> dm_firstCheck d' \<and> (\<forall>b. (''scheduleEnable'', b) \<notin> set sent)"
proof -
  have sw: "\<not> dm_firstCheck x \<Longrightarrow> switch_schedule env full x = (x', s, al) \<Longrightarrow> \<not> dm_firstCheck x' \<and> (\<forall>b. (''scheduleEnable'', b) \<notin> set s)" for full x x' s al
    by (auto simp: switch_schedule_def DisableSchedule_def post_def Let_def split: if_splits)
  from checkDiskSpace_cases [OF assms(1)] show ?thesis
  proof
    assume "\<exists>x. refill env d g = Some (x, g') \<and> (d' = x \<and> sent = [] \<or> (\<exists>full. switch_schedule env full x = (d', sent, alarms)))"
    then obtain x where x: "refill env d g = Some (x, g')" "d' = x \<and> sent = [] \<or> (\<exists>full. switch_schedule env full x = (d', sent, alarms))" by blast
    have n: "\<not> dm_firstCheck x" using refill_frame [OF x(1)] assms(2) by simp
    from x(2) show ?thesis using n sw [OF n] by auto
  qed (use assms(2) in simp)
qed

lemma low_limit_closes:
  assumes "GetProperty (de_http env) YarnSite disk_keys False = (m, None)" and "atoi (prop_get m (disk_keys ! 0)) = Some minFree"
    and "atoi (prop_get m (disk_keys ! 1)) = Some maxUsed" and "0 \<le> maxUsed" and "maxUsed < 100"
    and "de_ParseFloat env (prop_get m (disk_keys ! 2)) = Some minHealthy"
    and "dm_availablePartitions d \<noteq> []" and "0 \<le> yd_DiskCapConservativeValue (dm_config d)"
    and "\<And>p st. GetDiskPartitionStats env p = Some st \<Longrightarrow> 0 \<le> ds_UsedSize st \<and> 0 < ds_TotalSize st"
  shows "checkDiskSpace env d g =
    Some ((d, g), [(''scheduleDisable'', NoBody)], [''schedule is closing, the reason is that disks is full''])"
proof -
  have "maxUsed sdiv 100 = 0" using assms(4,5) by (simp add: signed_divide_int_def)
  then have "\<not> disk_healthy (dm_config d) minFree maxUsed st" if "GetDiskPartitionStats env p = Some st" for p st
    using assms(8) assms(9) [OF that] by (auto simp: disk_healthy_def quotient_ge_def DiskUnit_def intro!: fl_nonneg divide_nonneg_nonneg)
  then have "healthy_disks env minFree maxUsed d = 0"
    unfolding healthy_disks_def by (auto simp: filter_empty_conv split: option.splits)
  then have "disks_full env minFree maxUsed minHealthy d" by (simp add: disks_full_def)
  then show ?thesis using assms(1-3,6,7)
    by (simp add: checkDiskSpace_def refill_def switch_schedule_def DisableSchedule_def post_def)
qed

text \<open>
  The disk check never opens the schedule again: the flag that should remember that it was closed is a local variable, and the flag for the
  first check is never set. So whatever the disks do after the manager has been made, no request to enable the schedule is sent.
\<close>

lemma disk_check_never_reopens:
  assumes "NewDiskManager env0 c g0 = Some (d, g)" and "disk_rounds envs (d, g) = Some (s, sent)"
  shows "(''scheduleEnable'', b) \<notin> set sent"
proof -
  have "\<not> dm_firstCheck d" using fill_frame assms(1) by (fastforce simp: NewDiskManager_def)
  with assms(2) show ?thesis
  proof (induction envs arbitrary: d g sent)
    case (Cons env envs)
    obtain d1 g1 s1 al s2 where r: "checkDiskSpace env d g = Some ((d1, g1), s1, al)" "disk_rounds envs (d1, g1) = Some (s, s2)" "sent = s1 @ s2"
      using Cons.prems(1) by (auto split: option.splits)
    then show ?case using Cons.IH [OF r(2)] checkDiskSpace_no_enable [OF r(1) Cons.prems(2)] by auto
  qed simp
qed

text \<open>A node with one empty disk of a tebibyte and the default limits.\<close>

definition disk_http :: nm_http where
  "disk_http n method url body =
     \<lparr>ha_failed = False, ha_StatusCode = 200, ha_reply = (if url = ''/v1/nm/diskpartitions'' then PartitionsReply [''/dev/sda'']
        else PropertyReply (zip disk_keys [''100'', ''90'', ''0.25'']))\<rparr>"

definition empty_disk :: disk_env where
  "empty_disk = \<lparr>de_http = disk_http, de_mounts = Some [''/dev/sda /data ext4''], de_statfs = (\<lambda>_. Some \<lparr>sf_Blocks = 2 ^ 20, sf_Bfree = 2 ^ 20, sf_Bsize = 2 ^ 20\<rparr>),
     de_InHostNamespace = True, de_ParseFloat = (\<lambda>s. if s = ''0.25'' then Some (1 / 4) else None)\<rparr>"

definition disk_defaults :: YarnDisksConfig where
  "disk_defaults = \<lparr>yd_RatioToCore = None, yd_DisableScheduler = True, yd_DiskCapConservativeValue = 10, yd_DiskNumConservativeValue = 1, yd_SpaceCheckPeriod = minute\<rparr>"

definition empty_disk_manager :: "int DiskManager" where
  "empty_disk_manager = \<lparr>dm_config = disk_defaults, dm_availablePartitions = [\<lparr>pi_MountPoint = ''/data'', pi_TotalSize = 2 ^ 40\<rparr>], dm_firstCheck = False, dm_diskSpaceCores = None\<rparr>"

lemma empty_disk_new: "NewDiskManager empty_disk disk_defaults g = Some (empty_disk_manager, g)"
  by (simp add: NewDiskManager_def fillAvailablePartitions_def GetDiskPartitions_def request_simps empty_disk_def disk_http_def getPartitionsInfos_def
      getMountPoints_def strings_TrimSpace_def is_space_def GetDiskPartitionStats_def empty_disk_manager_def)

lemma empty_disk_props:
  "GetProperty (de_http empty_disk) YarnSite disk_keys False = (zip disk_keys [''100'', ''90'', ''0.25''], None)"
  "atoi (prop_get (zip disk_keys [''100'', ''90'', ''0.25'']) (disk_keys ! 0)) = Some 100"
  "atoi (prop_get (zip disk_keys [''100'', ''90'', ''0.25'']) (disk_keys ! 1)) = Some 90"
  "de_ParseFloat empty_disk (prop_get (zip disk_keys [''100'', ''90'', ''0.25'']) (disk_keys ! 2)) = Some (1 / 4)"
  "dm_availablePartitions empty_disk_manager \<noteq> []" "0 \<le> yd_DiskCapConservativeValue (dm_config empty_disk_manager)"
  "GetDiskPartitionStats empty_disk p = Some st \<Longrightarrow> 0 \<le> ds_UsedSize st \<and> 0 < ds_TotalSize st"
  by (auto simp: request_simps empty_disk_def disk_http_def disk_keys_def atoi_def is_digit_def dec_val_def digit_val_def empty_disk_manager_def
      disk_defaults_def GetDiskPartitionStats_def)

theorem disk_check_never_reopens_witness:
  "\<exists>s sent. disk_rounds [empty_disk] (empty_disk_manager, NewGInit False False True False None) = Some (s, sent) \<and>
     (''scheduleDisable'', NoBody) \<in> set sent \<and> (''scheduleEnable'', NoBody) \<notin> set sent"
proof -
  let ?g = "NewGInit False False True False None"
  have "checkDiskSpace empty_disk empty_disk_manager ?g =
      Some ((empty_disk_manager, ?g), [(''scheduleDisable'', NoBody)], [''schedule is closing, the reason is that disks is full''])"
    by (rule low_limit_closes [OF empty_disk_props(1-3) _ _ empty_disk_props(4-7)]) simp_all
  then have r: "disk_rounds [empty_disk] (empty_disk_manager, ?g) = Some ((empty_disk_manager, ?g), [(''scheduleDisable'', NoBody)])" by simp
  show ?thesis using disk_check_never_reopens [OF empty_disk_new r, of NoBody] r by auto
qed

text \<open>
  With the limit of disk usage that the nodemanager has by default, 90 percent, or any other below 100, the check takes every
  disk for full, since the percentage is divided by 100 as an integer: the schedule is closed although the disks are empty.
\<close>

lemma disk_limit_below_hundred_closes:
  assumes "GetProperty (de_http env) YarnSite disk_keys False = (m, None)" and "atoi (prop_get m (disk_keys ! 0)) = Some minFree"
    and "atoi (prop_get m (disk_keys ! 1)) = Some maxUsed" and "0 \<le> maxUsed" and "maxUsed < 100"
    and "de_ParseFloat env (prop_get m (disk_keys ! 2)) = Some minHealthy"
    and "dm_availablePartitions d \<noteq> []" and "0 \<le> yd_DiskCapConservativeValue (dm_config d)"
    and "\<And>p st. GetDiskPartitionStats env p = Some st \<Longrightarrow> 0 \<le> ds_UsedSize st \<and> 0 < ds_TotalSize st"
  shows "checkDiskSpace env d g =
    Some ((d, g), [(''scheduleDisable'', NoBody)], [''schedule is closing, the reason is that disks is full''])"
  by (rule low_limit_closes [OF assms])

theorem disk_limit_below_hundred_closes_witness:
  "checkDiskSpace empty_disk empty_disk_manager (NewGInit False False True False None) =
     Some ((empty_disk_manager, NewGInit False False True False None), [(''scheduleDisable'', NoBody)], [''schedule is closing, the reason is that disks is full''])"
  by (rule disk_limit_below_hundred_closes [OF empty_disk_props(1-3) _ _ empty_disk_props(4-7)]) simp_all

text \<open>Every request repeats the containers of the requests before it.\<close>

lemma kill_requests_repeat:
  "kill_requests http [a, b] = [(''kill'', IdsBody [co_ID a]), (''kill'', IdsBody [co_ID a, co_ID b])]"
  by (simp add: kill_requests_def requestKillNMContainers_def post_def upt_rec)

section \<open>The nodemanager is restarted\<close>

lemma updateCapacity_schedule:
  assumes "updateCapacity Q env res conflicting y = Some (y', e)"
  shows "yk_scheduleDisabled y' = yk_scheduleDisabled y"
  using assms by (auto simp: updateCapacity_def beCapacity_def Let_def split: option.splits if_splits)

text \<open>
  A nodemanager that is found down is started, and when scheduling was disabled before, the request to disable it is sent again after the start,
  to the new process; when it is accepted, the client's state and the check point say disabled as before.
\<close>

lemma restart_disables_schedule_again:
  assumes "yarn_AdaptAndUpdateOfflineResource Q env res conflicting y = Some (y', e)" and "yk_scheduleDisabled y"
    and "GetStatus (ye_http env) = Inr False" and "fst (DisableSchedule (ye_restarted env)) = None"
  shows "yk_scheduleDisabled y' \<and>
    (\<exists>e0 s err g. StartNodemanager (ye_http env) (ye_nodeIP env) (ye_unused env) (ye_ports env) g = Some (err, yk_ginit y', s) \<and>
       (\<exists>e1. e = e0 @ nm_effects s @ e1 @ [YarnAlarm ''schedule is closing'', NmRequest ''scheduleDisable'' NoBody, StoreCheckpoint True]))"
proof -
  obtain y1 e1 where u: "updateCapacity Q env res conflicting y = Some (y1, e1)"
    using assms(1) by (auto simp: yarn_AdaptAndUpdateOfflineResource_def split: option.splits)
  have d1: "yk_scheduleDisabled y1" using updateCapacity_schedule [OF u] assms(2) by simp
  obtain err g s where st: "StartNodemanager (ye_http env) (ye_nodeIP env) (ye_unused env) (ye_ports env) (yk_ginit y1) = Some (err, g, s)"
    using assms(1,3) u by (auto simp: yarn_AdaptAndUpdateOfflineResource_def startAndCheckNMProcess_def split: option.splits)
  obtain w where w: "startAndCheckNMProcess env (yk_ginit y1) = Some (True, g, nm_effects s @ w)"
    using assms(3) st by (simp add: startAndCheckNMProcess_def)
  have "snd (DisableSchedule (ye_restarted env)) = [(''scheduleDisable'', NoBody)]" by (simp add: DisableSchedule_def post_def)
  then have ds: "DisableSchedule (ye_restarted env) = (None, [(''scheduleDisable'', NoBody)])" using assms(4) by (simp add: prod_eq_iff)
  have r: "y' = y1\<lparr>yk_ginit := g, yk_scheduleDisabled := True\<rparr>"
    "e = e1 @ (nm_effects s @ w) @ [YarnAlarm ''schedule is closing'', NmRequest ''scheduleDisable'' NoBody, StoreCheckpoint True]"
    using assms(1) d1 by (simp_all add: yarn_AdaptAndUpdateOfflineResource_def u w yarn_DisableOfflineSchedule_def ds nm_effects_def Let_def)
  then have g: "yk_ginit y' = g" "yk_scheduleDisabled y'" by simp_all
  show ?thesis unfolding g(1)
    by (intro conjI g(2) exI [of _ e1] exI [of _ s] exI [of _ err] exI [of _ "yk_ginit y1"] exI [of _ w] st) (simp add: r(2))
qed

definition down_http :: nm_http where
  "down_http n method url body = \<lparr>ha_failed = False, ha_StatusCode = 200, ha_reply = StatusReply ''DOWN''\<rparr>"

definition down_env :: yarn_env where
  "down_env = plain_yarn_env\<lparr>ye_disk := plain_disk_env\<lparr>de_http := down_http\<rparr>\<rparr>"

definition closed_client :: "int yarnClient" where
  "closed_client = plain_client\<lparr>yk_scheduleDisabled := True, yk_ginit := NewGInit False False False True None\<rparr>"

lemma closed_update: "\<exists>y' e. updateCapacity nanoQ down_env [] [] closed_client = Some (y', e) \<and> \<not> gi_DiskSpaceLimited (yk_ginit y') \<and> \<not> gi_PortAutoDetect (yk_ginit y')"
proof -
  obtain as where as: "yk_resourceHandlers closed_client = MinCompare # as"
    using handlers_of_new [OF plain_client_new] by (auto simp: closed_client_def)
  have g: "yk_ginit closed_client = NewGInit False False False True None" by (simp add: closed_client_def)
  have m: "GetMinCapacity (ye_http down_env) (NewGInit False False False True None) = Some (\<lparr>nc_Vcores = 0, nc_Millcores = 0, nc_MemoryMB = 1024\<rparr>,
      (NewGInit False False False True None)\<lparr>gi_minCapacity := Some \<lparr>nc_Vcores = 0, nc_Millcores = 0, nc_MemoryMB = 1024\<rparr>\<rparr>)"
    by (simp add: GetMinCapacity_def NewGInit_def request_simps down_env_def down_http_def Let_def)
  have "\<exists>ch res'. beCapacity nanoQ down_env [] False closed_client = Some (ch, res', closed_client\<lparr>yk_ginit :=
      (NewGInit False False False True None)\<lparr>gi_minCapacity := Some \<lparr>nc_Vcores = 0, nc_Millcores = 0, nc_MemoryMB = 1024\<rparr>\<rparr>, yk_disk := yk_disk closed_client\<rparr>)"
    unfolding beCapacity_def g m option.case prod.case as
    by (simp add: ResourceAdapt_def compareAndReplaceMinCapacity_def rl_get_def nano_ops MemUnit_def)
  then show ?thesis by (auto simp: updateCapacity_def NewGInit_def Let_def split: prod.splits)
qed

lemma sendMetricsPort_frame:
  "gi_DiskSpaceLimited (sendMetricsPort http ip g) = gi_DiskSpaceLimited g" "gi_Properties (sendMetricsPort http ip g) = gi_Properties g"
  by (auto simp: sendMetricsPort_def send_port_def split: sum.split option.split)

lemma start_returns:
  assumes "\<not> gi_DiskSpaceLimited g" and "\<not> gi_PortAutoDetect g"
  shows "\<exists>r. StartNodemanager http ip unused pcp g = Some r"
proof -
  let ?g = "sendMetricsPort http ip g"
  obtain g' where "start_properties ?g = Some g'" using assms(1) by (auto simp: start_properties_def sendMetricsPort_frame)
  then show ?thesis using assms(2) unfolding StartNodemanager_def Let_def by (auto split: prod.splits)
qed

theorem restart_disables_schedule_again_witness:
  "\<exists>y' e. yarn_AdaptAndUpdateOfflineResource nanoQ down_env [] [] closed_client = Some (y', e) \<and> yk_scheduleDisabled y' \<and>
     NmRequest ''scheduleDisable'' NoBody \<in> set e"
proof -
  have down: "GetStatus (ye_http down_env) = Inr False" by (simp add: GetStatus_def down_env_def down_http_def)
  have ok: "fst (DisableSchedule (ye_restarted down_env)) = None"
    by (simp add: DisableSchedule_def request_simps down_env_def plain_yarn_env_def ok_http_def)
  have cl: "yk_scheduleDisabled closed_client" by (simp add: closed_client_def)
  obtain y1 e1 where u: "updateCapacity nanoQ down_env [] [] closed_client = Some (y1, e1)" "\<not> gi_DiskSpaceLimited (yk_ginit y1)" "\<not> gi_PortAutoDetect (yk_ginit y1)"
    using closed_update by blast
  obtain err g s where st: "StartNodemanager (ye_http down_env) (ye_nodeIP down_env) (ye_unused down_env) (ye_ports down_env) (yk_ginit y1) = Some (err, g, s)"
    using start_returns [OF u(2,3)] by (metis prod_cases3)
  have "\<exists>r. yarn_AdaptAndUpdateOfflineResource nanoQ down_env [] [] closed_client = Some r"
    by (simp add: yarn_AdaptAndUpdateOfflineResource_def u(1) startAndCheckNMProcess_def down st Let_def split: prod.split)
  then obtain y' e where r: "yarn_AdaptAndUpdateOfflineResource nanoQ down_env [] [] closed_client = Some (y', e)" by (metis surj_pair)
  then show ?thesis using restart_disables_schedule_again [OF r cl down ok] by auto
qed

text \<open>On a node with a small disk and without extra properties the start panics.\<close>

lemma small_disk_start_panics:
  assumes "\<not> gi_PortAutoDetect g" and "gi_DiskSpaceLimited g" and "gi_Properties g = None"
  shows "StartNodemanager http ip unused pcp g = None"
  using assms by (simp add: StartNodemanager_def start_properties_def sendMetricsPort_frame)

end
