(* ===== verification/NmProps.thy ===== *)
theory NmProps
  imports NmOperator ProjectFile YarnProps
begin

text \<open>
  What the nodemanager operator promises. An observer who sees only requests and answers knows the capacity the operator holds, whether the schedule is
  disabled and what the resourcemanager was told (\<open>operator_refines_spec\<close>). What is written into the configuration is read back, also by an
  operator that starts again, and kills reach only process groups of the containers that were named.
\<close>

section \<open>Single operations\<close>

lemma show_atoi_or: "- (2 ^ 63) \<le> n \<Longrightarrow> n < 2 ^ 63 \<Longrightarrow> atoi_or d (show_int n) = n"
  by (simp add: atoi_or_def atoi_show_int)

text \<open>Addresses are looked up without a change of files or capacity.\<close>

lemma GetNodeManagerAddress_frame:
  "GetNodeManagerAddress b h = (a, h') \<Longrightarrow> hd_files h' = hd_files h \<and> hd_cacheCapacity h' = hd_cacheCapacity h"
  by (auto simp: GetNodeManagerAddress_def Let_def split: if_splits)

lemma GetNodeManagerWebAddress_frame:
  "GetNodeManagerWebAddress b h = (a, h') \<Longrightarrow> hd_files h' = hd_files h \<and> hd_cacheCapacity h' = hd_cacheCapacity h"
  by (auto simp: GetNodeManagerWebAddress_def Let_def split: if_splits)

lemma GetResourceManagerAddress_frame:
  "GetResourceManagerAddress b h = (a, h') \<Longrightarrow> hd_files h' = hd_files h \<and> hd_cacheCapacity h' = hd_cacheCapacity h"
  by (auto simp: GetResourceManagerAddress_def Let_def split: if_splits)

lemma write_keeps_capacity: "writeConfDataToFile io f m c a d h = (e, h') \<Longrightarrow> hd_cacheCapacity h' = hd_cacheCapacity h"
  using getFileInfo_frame
  by (fastforce simp: writeConfDataToFile_def split: if_splits sum.splits prod.splits option.splits)

section \<open>What the resourcemanager is told\<close>

fun told :: "op_log \<Rightarrow> (string \<times> string) option \<Rightarrow> (string \<times> string) option" where
  "told [] m = m"
| "told ((YarnCmd [_, _, sub, _, mems, cores] _ _ _, True) # acts) m =
     told acts (if sub = ''-updateNodeResource'' then Some (mems, cores) else m)"
| "told (_ # acts) m = told acts m"

lemma told_append [simp]: "told (a @ b) m = told b (told a m)"
  by (induction a m rule: told.induct) auto

lemma told_update_cmd [simp]:
  "told [(YarnCmd (update_cmd bin a mems cores) u g usr, ok)] m = (if ok then Some (mems, cores) else m)"
  by (cases ok) (simp_all add: update_cmd_def)

lemma told_perform_update:
  "ExecuteYarnCMD env n (update_cmd bin a mems cores) usr = (err, acts) \<Longrightarrow> told acts m = (if err = None then Some (mems, cores) else m)"
  by (auto simp: ExecuteYarnCMD_def perform_def split: option.splits if_splits)

lemma update_resource_told:
  assumes "ExecuteYarnUpdateNodeResource env bin usr mems cores h = (err, h', acts)"
  shows "told acts m = (if err = None then Some (mems, cores) else m)" "hd_files h' = hd_files h" "hd_cacheCapacity h' = hd_cacheCapacity h"
proof -
  obtain a h1 where a: "GetNodeManagerAddress True h = (a, h1)" by (metis surj_pair)
  obtain e1 l1 where e1: "ExecuteYarnCMD env 0 (update_cmd bin a mems cores) usr = (e1, l1)" by (metis surj_pair)
  obtain b h2 where b: "GetNodeManagerAddress False h1 = (b, h2)" by (metis surj_pair)
  obtain e2 l2 where e2: "ExecuteYarnCMD env 1 (update_cmd bin b mems cores) usr = (e2, l2)" by (metis surj_pair)
  note frames = GetNodeManagerAddress_frame [OF a] GetNodeManagerAddress_frame [OF b]
  have r: "(err, h', acts) = (if e1 = None then (None, h1, l1) else (e2, h2, l1 @ l2))"
    using assms by (auto simp: ExecuteYarnUpdateNodeResource_def a e1 b e2 simp del: One_nat_def split: if_splits)
  show "told acts m = (if err = None then Some (mems, cores) else m)"
    using r told_perform_update [OF e1] told_perform_update [OF e2] by (auto split: if_splits)
  show "hd_files h' = hd_files h" "hd_cacheCapacity h' = hd_cacheCapacity h" using r frames by (auto split: if_splits)
qed


section \<open>The abstract operator\<close>

text \<open>The capacity as cores and memory, the switch, and the resourcemanager's view.\<close>

record nm_spec =
  sp_cap :: "int \<times> int"
  sp_disabled :: bool
  sp_master :: "(string \<times> string) option"

definition told_capacity :: "int \<times> int \<Rightarrow> string \<times> string" where
  "told_capacity c = (show_int (snd c), show_int (fst c))"

definition body_capacity :: "nm_body \<Rightarrow> (int \<times> int) option" where
  "body_capacity body = map_option (\<lambda>c. (nc_Vcores c, nc_MemoryMB c)) (read_capacity body)"

text \<open>What a request and the status of its answer tell.\<close>

definition spec_step :: "string \<Rightarrow> string \<Rightarrow> nm_body \<Rightarrow> nat \<Rightarrow> nm_spec \<Rightarrow> nm_spec" where
  "spec_step verb path body code s =
     (let ok = (code = 200); s' = (case body_capacity body of None \<Rightarrow> s | Some c \<Rightarrow> s\<lparr>sp_cap := c\<rparr>) in
      if (verb, path) = (''POST'', ''/v1/nm/capacity'') then s'
      else if (verb, path) = (''POST'', ''/v1/nm/capacity/update'')
      then if ok \<and> \<not> sp_disabled s then s'\<lparr>sp_master := Some (told_capacity (sp_cap s'))\<rparr> else s'
      else if (verb, path) = (''POST'', ''/v1/nm/capacity/update/force'')
      then if ok then s'\<lparr>sp_master := Some (told_capacity (sp_cap s'))\<rparr> else s'
      else if (verb, path) = (''POST'', ''/v1/nm/schedule/disable'')
      then if ok then s\<lparr>sp_disabled := True, sp_master := Some (''0'', ''0'')\<rparr> else s
      else if (verb, path) = (''POST'', ''/v1/nm/schedule/enable'')
      then if ok then s\<lparr>sp_disabled := False, sp_master := Some (told_capacity (sp_cap s))\<rparr> else s
      else s)"

definition spec_of :: "NMOperator \<Rightarrow> (string \<times> string) option \<Rightarrow> nm_spec" where
  "spec_of op m =
     \<lparr>sp_cap = (case hd_cacheCapacity (no_hadoop op) of None \<Rightarrow> (0, 0) | Some c \<Rightarrow> (nc_Vcores c, nc_MemoryMB c)),
      sp_disabled = no_scheduleDisabled op, sp_master = m\<rparr>"

definition cached :: "NMOperator \<Rightarrow> bool" where
  "cached op \<longleftrightarrow> hd_cacheCapacity (no_hadoop op) \<noteq> None"

text \<open>A step that touches neither the switch nor the capacity.\<close>

definition silent :: "NMOperator \<Rightarrow> op_result \<Rightarrow> bool" where
  "silent op r \<longleftrightarrow> (case r of (a, op', acts) \<Rightarrow>
     no_scheduleDisabled op' = no_scheduleDisabled op \<and> hd_cacheCapacity (no_hadoop op') = hd_cacheCapacity (no_hadoop op) \<and> (\<forall>m. told acts m = m))"

lemma silentD: "silent op (a, op', acts) \<Longrightarrow> spec_of op' (told acts m) = spec_of op m \<and> cached op' = cached op"
  by (simp add: silent_def spec_of_def cached_def)

lemma SetCapacity_cache:
  assumes "hadoop_SetCapacity io c h = (err, h')"
  shows "\<exists>d. hd_cacheCapacity h' = Some d \<and> nc_Vcores d = nc_Vcores c \<and> nc_MemoryMB d = nc_MemoryMB c"
proof -
  have "hd_cacheCapacity h' = Some \<lparr>nc_Vcores = nc_Vcores c, nc_Millcores = (case hd_cacheCapacity h of None \<Rightarrow> 0 | Some c \<Rightarrow> nc_Millcores c), nc_MemoryMB = nc_MemoryMB c\<rparr>"
    using write_keeps_capacity [OF assms [unfolded hadoop_SetCapacity_def SetMultipleConfDataToFile_def Let_def]] by simp
  then show ?thesis by simp
qed

lemma setCapacity_spec:
  assumes "op_setCapacity env body op = (r, op')"
  shows "spec_of op' m = (case body_capacity body of None \<Rightarrow> spec_of op m | Some c \<Rightarrow> (spec_of op m)\<lparr>sp_cap := c\<rparr>) \<and>
     cached op' = (body_capacity body \<noteq> None \<or> cached op) \<and>
     (\<forall>c. r = Inr c \<longrightarrow> body_capacity body = Some (nc_Vcores c, nc_MemoryMB c)) \<and> (\<forall>code. r = Inl code \<longrightarrow> code \<noteq> 200)"
proof (cases "read_capacity body")
  case None
  then show ?thesis using assms by (auto simp: op_setCapacity_def body_capacity_def)
next
  case (Some c)
  obtain err h where e: "hadoop_SetCapacity (oe_io env) c (no_hadoop op) = (err, h)" by (metis surj_pair)
  from SetCapacity_cache [OF e] show ?thesis
    using assms Some e by (auto simp: op_setCapacity_def body_capacity_def spec_of_def cached_def split: if_splits)
qed

lemma answer_status [simp]: "ha_StatusCode (answer err) = 200 \<longleftrightarrow> err = None" "ha_StatusCode (WriteServiceError code) = code"
  "ha_StatusCode (WriteAsJson r) = 200"
  by (simp_all add: answer_def WriteAsJson_def WriteServiceError_def)

lemma updated_spec [simp]:
  "hd_cacheCapacity h = hd_cacheCapacity (no_hadoop op) \<Longrightarrow> spec_of (op\<lparr>no_hadoop := h\<rparr>) m = spec_of op m"
  "hd_cacheCapacity h = hd_cacheCapacity (no_hadoop op) \<Longrightarrow> cached (op\<lparr>no_hadoop := h\<rparr>) = cached op"
  by (simp_all add: spec_of_def cached_def)


lemma update_spec:
  assumes "op_updateNodeCapacity env body force op = (a, op', acts)"
  shows "cached op \<Longrightarrow> cached op'"
    and "spec_of op' (told acts m) =
      (let s = spec_of op m; s' = (case body_capacity body of None \<Rightarrow> s | Some c \<Rightarrow> s\<lparr>sp_cap := c\<rparr>)
       in if ha_StatusCode a = 200 \<and> (force \<or> \<not> sp_disabled s) then s'\<lparr>sp_master := Some (told_capacity (sp_cap s'))\<rparr> else s')"
proof -
  obtain r op1 where s: "op_setCapacity env body op = (r, op1)" by (metis surj_pair)
  note spec = setCapacity_spec [OF s]
  have *: "(cached op \<longrightarrow> cached op') \<and> spec_of op' (told acts m) =
      (let s = spec_of op m; s' = (case body_capacity body of None \<Rightarrow> s | Some c \<Rightarrow> s\<lparr>sp_cap := c\<rparr>)
       in if ha_StatusCode a = 200 \<and> (force \<or> \<not> sp_disabled s) then s'\<lparr>sp_master := Some (told_capacity (sp_cap s'))\<rparr> else s')"
  proof (cases r)
    case (Inl code)
    then show ?thesis using assms s spec [of m] by (auto simp: op_updateNodeCapacity_def Let_def split: option.splits)
  next
    case (Inr c)
    then have b: "body_capacity body = Some (nc_Vcores c, nc_MemoryMB c)" using spec by blast
    have d: "no_scheduleDisabled op1 = sp_disabled (spec_of op m)" using spec [of m] b by (simp add: spec_of_def)
    obtain err h acts' where u: "ExecuteYarnUpdateNodeResource env (no_yarnBin op1) (no_user op1) (show_int (nc_MemoryMB c)) (show_int (nc_Vcores c)) (no_hadoop op1) = (err, h, acts')"
      by (metis prod_cases3)
    have m: "spec_of op1 x = (spec_of op1 y)\<lparr>sp_master := x\<rparr>" for x y by (simp add: spec_of_def)
    show ?thesis
      using assms s Inr spec [of m] b d update_resource_told [OF u] u m [of "told acts' m" m]
      by (auto simp: op_updateNodeCapacity_def told_capacity_def Let_def split: if_splits)
  qed
  show "cached op \<Longrightarrow> cached op'" using * by blast
  show "spec_of op' (told acts m) =
      (let s = spec_of op m; s' = (case body_capacity body of None \<Rightarrow> s | Some c \<Rightarrow> s\<lparr>sp_cap := c\<rparr>)
       in if ha_StatusCode a = 200 \<and> (force \<or> \<not> sp_disabled s) then s'\<lparr>sp_master := Some (told_capacity (sp_cap s'))\<rparr> else s')"
    using * by blast
qed

lemma disable_spec:
  assumes "op_ScheduleDisable env op = (a, op', acts)"
  shows "cached op' = cached op" "spec_of op' (told acts m) =
     (if ha_StatusCode a = 200 then (spec_of op m)\<lparr>sp_disabled := True, sp_master := Some (''0'', ''0'')\<rparr> else spec_of op m)"
proof -
  obtain err h acts' where u: "ExecuteYarnUpdateNodeResource env (no_yarnBin op) (no_user op) ''0'' ''0'' (no_hadoop op) = (err, h, acts')"
    by (metis prod_cases3)
  show "cached op' = cached op" "spec_of op' (told acts m) =
     (if ha_StatusCode a = 200 then (spec_of op m)\<lparr>sp_disabled := True, sp_master := Some (''0'', ''0'')\<rparr> else spec_of op m)"
    using assms update_resource_told [OF u] by (auto simp: op_ScheduleDisable_def Let_def u spec_of_def cached_def split: if_splits)
qed

lemma enable_spec:
  assumes "op_ScheduleEnable env op = (a, op', acts)" and "cached op"
  shows "cached op'" "spec_of op' (told acts m) =
     (if ha_StatusCode a = 200 then (spec_of op m)\<lparr>sp_disabled := False, sp_master := Some (told_capacity (sp_cap (spec_of op m)))\<rparr> else spec_of op m)"
proof -
  obtain c where c: "hd_cacheCapacity (no_hadoop op) = Some c" using assms(2) by (auto simp: cached_def)
  obtain err h acts' where u: "ExecuteYarnUpdateNodeResource env (no_yarnBin op) (no_user op) (show_int (nc_MemoryMB c)) (show_int (nc_Vcores c)) (no_hadoop op) = (err, h, acts')"
    by (metis prod_cases3)
  show "cached op'" "spec_of op' (told acts m) =
     (if ha_StatusCode a = 200 then (spec_of op m)\<lparr>sp_disabled := False, sp_master := Some (told_capacity (sp_cap (spec_of op m)))\<rparr> else spec_of op m)"
    using assms update_resource_told [OF u] c by (auto simp: op_ScheduleEnable_def Let_def hadoop_GetCapacity_def u spec_of_def cached_def told_capacity_def split: if_splits)
qed


section \<open>Requests that touch neither capacity nor switch\<close>

lemma ask_masters_frame:
  assumes "getAmContainer env app h = (am, h')"
  shows "hd_files h' = hd_files h \<and> hd_cacheCapacity h' = hd_cacheCapacity h"
proof -
  obtain a h1 where a: "GetResourceManagerAddress True h = (a, h1)" by (metis surj_pair)
  obtain b h2 where b: "GetResourceManagerAddress False h1 = (b, h2)" by (metis surj_pair)
  show ?thesis using assms GetResourceManagerAddress_frame [OF a] GetResourceManagerAddress_frame [OF b]
    by (auto simp: getAmContainer_def a b split: prod.splits if_splits)
qed

lemma fold_keeps:
  assumes "\<And>x s. f (g x s) = f s"
  shows "f (fold g xs s) = f s"
  by (induction xs arbitrary: s) (simp_all add: assms)

lemma app_masters_frame:
  assumes "app_masters env cs h = (apps, h')"
  shows "hd_cacheCapacity h' = hd_cacheCapacity h"
proof -
  let ?apps = "fold (\<lambda>c m. AList.update (co_AppID c) [] m) cs [] :: (string \<times> string) list"
  let ?g = "\<lambda>(app, _) (m, h). let (am, h) = getAmContainer env app h in (AList.update app am m, h)"
  have keep: "hd_cacheCapacity (snd (?g x s)) = hd_cacheCapacity (snd s)" for x :: "string \<times> string" and s
    using ask_masters_frame by (fastforce simp: Let_def split: prod.splits)
  have "fold ?g ?apps (?apps, h) = (apps, h')" using assms unfolding app_masters_def Let_def .
  then show ?thesis using fold_keeps [where f = "\<lambda>s. hd_cacheCapacity (snd s)" and g = ?g and xs = ?apps and s = "(?apps, h)", OF keep] by simp
qed

lemma get_nm_containers_frame:
  assumes "get_nm_containers env h = (r, h')"
  shows "hd_cacheCapacity h' = hd_cacheCapacity h"
proof -
  obtain a h1 where a: "GetNodeManagerWebAddress True h = (a, h1)" by (metis surj_pair)
  obtain b h2 where b: "GetNodeManagerWebAddress False h1 = (b, h2)" by (metis surj_pair)
  show ?thesis using assms GetNodeManagerWebAddress_frame [OF a] GetNodeManagerWebAddress_frame [OF b]
    by (auto simp: get_nm_containers_def a b split: option.splits)
qed

lemma told_short [simp]: "told [(YarnCmd [a, b, c] u g usr, ok)] m = m" "told [(Signal p s, ok)] m = m"
  "told [(Signal p s, ok), (Signal p t, ok')] m = m"
  by simp_all

lemma told_kill [simp]: "told (concat (map (kill_container env) cids)) m = m"
proof (induction cids)
  case (Cons cid cids)
  have "told (kill_container env cid) m = m" for m by (simp add: kill_container_def Let_def)
  then show ?case using Cons by simp
qed simp

lemma daemon_silent:
  assumes "ExecuteYarnCMD env 0 [a, b, c] usr = (err, acts)"
  shows "told acts m = m"
  using assms by (auto simp: ExecuteYarnCMD_def perform_def split: option.splits if_splits)

lemma silent_handlers:
  "silent op (op_GetStatus env op)" "silent op (op_GetCapacity env op)" "silent op (op_GetContainersState env body op)"
  "silent op (op_KillContainers env body op)" "silent op (op_GetProperty env body op)" "silent op (op_DiskPartitions env op)"
  by (auto simp: silent_def op_GetStatus_def op_GetCapacity_def op_GetContainersState_def op_KillContainers_def op_GetProperty_def op_DiskPartitions_def
      split: sum.splits nm_body.splits option.splits prod.splits)

lemma silent_process: "silent op (op_StartNodeManager env op)" "silent op (op_StopNodeManager env op)"
  using daemon_silent by (auto simp: silent_def op_StartNodeManager_def op_StopNodeManager_def split: prod.splits)

lemma silent_SetProperty: "silent op (op_SetProperty env body op)"
  using write_keeps_capacity
  by (auto simp: silent_def op_SetProperty_def SetMultipleConfDataToFile_def SetAddDelMultipleConfDataToFile_def Let_def split: option.splits prod.splits if_splits)

lemma silent_GetContainers: "silent op (op_GetContainers env op)"
proof -
  obtain r h where g: "get_nm_containers env (no_hadoop op) = (r, h)" by (metis surj_pair)
  show ?thesis using get_nm_containers_frame [OF g] app_masters_frame
    by (auto simp: silent_def op_GetContainers_def g Let_def split: option.splits prod.splits)
qed

lemmas silents = silent_handlers silent_process silent_SetProperty silent_GetContainers


section \<open>Refinement\<close>

definition capacity_paths :: "string list" where
  "capacity_paths = [''/v1/nm/capacity'', ''/v1/nm/capacity/update'', ''/v1/nm/capacity/update/force'', ''/v1/nm/schedule/disable'', ''/v1/nm/schedule/enable'']"

lemma serve_capacity:
  "serve env ''POST'' ''/v1/nm/capacity'' body op = op_SetCapacity env body op"
  "serve env ''POST'' ''/v1/nm/capacity/update'' body op = op_updateNodeCapacity env body False op"
  "serve env ''POST'' ''/v1/nm/capacity/update/force'' body op = op_updateNodeCapacity env body True op"
  "serve env ''POST'' ''/v1/nm/schedule/disable'' body op = op_ScheduleDisable env op"
  "serve env ''POST'' ''/v1/nm/schedule/enable'' body op = op_ScheduleEnable env op"
  by (simp_all add: serve_def op_routes_def op_UpdateCapacity_def op_ForceUpdateCapacity_def)

lemma routes_silent:
  "list_all (\<lambda>((verb, path), h). verb = ''POST'' \<and> path \<in> set capacity_paths \<or> (\<forall>env body op. silent op (h env body op))) op_routes"
  by (simp add: op_routes_def capacity_paths_def silents)

lemma serve_silent:
  assumes "verb \<noteq> ''POST'' \<or> path \<notin> set capacity_paths"
  shows "silent op (serve env verb path body op)"
proof (cases "map_of op_routes (verb, path)")
  case None
  then show ?thesis by (simp add: serve_def silent_def)
next
  case (Some handler)
  then have "((verb, path), handler) \<in> set op_routes" by (rule map_of_SomeD)
  then have "silent op (handler env body op)" using routes_silent assms by (fastforce simp: list_all_iff)
  then show ?thesis using Some by (simp add: serve_def)
qed

lemma serve_spec:
  assumes "serve env verb path body op = (a, op', acts)" and "cached op"
  shows "cached op' \<and> spec_of op' (told acts m) = spec_step verb path body (ha_StatusCode a) (spec_of op m)"
proof (cases "verb \<noteq> ''POST'' \<or> path \<notin> set capacity_paths")
  case True
  then have "list_all (\<lambda>p. (verb, path) \<noteq> (''POST'', p)) capacity_paths" by (auto simp: list_all_iff)
  note ne = this [unfolded capacity_paths_def list.pred_inject]
  have "spec_step verb path body (ha_StatusCode a) (spec_of op m) = spec_of op m"
    unfolding spec_step_def Let_def using ne by (simp only: if_False simp_thms)
  moreover have "silent op (a, op', acts)" using serve_silent [OF True, of op env body] assms(1) by (simp only:)
  ultimately show ?thesis using silentD [of op a op' acts m] assms(2) by (simp only:)
next
  case False
  then have m: "verb = ''POST''" by simp
  from False have "path \<in> set capacity_paths" by blast
  then consider "path = ''/v1/nm/capacity''" | "path = ''/v1/nm/capacity/update''" | "path = ''/v1/nm/capacity/update/force''"
    | "path = ''/v1/nm/schedule/disable''" | "path = ''/v1/nm/schedule/enable''"
    unfolding capacity_paths_def list.set insert_iff empty_iff by blast
  then show ?thesis
  proof cases
    case 1
    obtain r op1 where s: "op_setCapacity env body op = (r, op1)" by (metis surj_pair)
    then show ?thesis using assms setCapacity_spec [OF s, of m]
      by (cases r) (auto simp: m 1 serve_capacity op_SetCapacity_def spec_step_def Let_def)
  next
    case 2
    then show ?thesis using assms update_spec [of env body False op a op' acts] by (auto simp: m serve_capacity spec_step_def Let_def)
  next
    case 3
    then show ?thesis using assms update_spec [of env body True op a op' acts] by (auto simp: m serve_capacity spec_step_def Let_def)
  next
    case 4
    then show ?thesis using assms disable_spec [of env op a op' acts] by (auto simp: m serve_capacity spec_step_def)
  next
    case 5
    then show ?thesis using assms enable_spec [of env op a op' acts] by (auto simp: m serve_capacity spec_step_def)
  qed
qed


text \<open>A sequence of requests, each with the state of the node at its time.\<close>

type_synonym op_request = "op_env \<times> string \<times> string \<times> nm_body"

fun serve_all :: "op_request list \<Rightarrow> NMOperator \<Rightarrow> http_answer list \<times> NMOperator \<times> op_log" where
  "serve_all [] op = ([], op, [])"
| "serve_all ((env, verb, path, body) # rs) op =
     (let (a, op, acts) = serve env verb path body op; (as, op, acts') = serve_all rs op in (a # as, op, acts @ acts'))"

fun spec_all :: "op_request list \<Rightarrow> http_answer list \<Rightarrow> nm_spec \<Rightarrow> nm_spec" where
  "spec_all ((env, verb, path, body) # rs) (a # as) s = spec_all rs as (spec_step verb path body (ha_StatusCode a) s)"
| "spec_all _ _ s = s"

lemma serve_all_spec:
  "serve_all rs op = (as, op', acts) \<Longrightarrow> cached op \<Longrightarrow> cached op' \<and> spec_of op' (told acts m) = spec_all rs as (spec_of op m)"
proof (induction rs arbitrary: op as acts m)
  case (Cons r rs)
  obtain env verb path body where r: "r = (env, verb, path, body)" by (metis surj_pair)
  obtain a op1 acts1 where s: "serve env verb path body op = (a, op1, acts1)" by (metis prod_cases3)
  obtain as2 acts2 where t: "serve_all rs op1 = (as2, op', acts2)" "as = a # as2" "acts = acts1 @ acts2"
    using Cons.prems by (auto simp: r s split: prod.splits)
  from serve_spec [OF s Cons.prems(2), of m] Cons.IH [OF t(1), of "told acts1 m"] show ?case by (simp add: r t)
qed simp

text \<open>
  C31. The nodemanager operator, seen from outside: from the requests and the status codes of the answers alone, whatever fails on the node, an
  observer knows the capacity the operator holds and reports, whether it counts the schedule as disabled, and the resources the resourcemanager was last
  told: a capacity is held as soon as it is decoded, it reaches the resourcemanager only with a success and, unless forced,
  while the schedule is enabled; disabling tells zero, enabling the capacity held.
\<close>

theorem operator_refines_spec:
  assumes "serve_all rs op = (as, op', acts)" and "cached op" and "s = spec_all rs as (spec_of op m)"
  shows "spec_of op' (told acts m) = s \<and>
    serve env ''GET'' ''/v1/nm/capacity'' body op' = (WriteAsJson (CapacityReply (fst (sp_cap s)) (snd (sp_cap s))), op', [])"
proof -
  have s: "cached op'" "spec_of op' (told acts m) = s" using serve_all_spec [OF assms(1,2), of m] assms(3) by simp_all
  moreover have "serve env ''GET'' ''/v1/nm/capacity'' body op' = op_GetCapacity env op'" by (simp add: serve_def op_routes_def)
  ultimately show ?thesis by (auto simp: op_GetCapacity_def hadoop_GetCapacity_def cached_def spec_of_def)
qed

text \<open>A node on which everything succeeds, and an operator on it.\<close>

definition plain_env :: op_env where
  "plain_env = \<lparr>oe_getenv = (\<lambda>_. []), oe_id = (\<lambda>_ _. Some ''0''), oe_ok = (\<lambda>_ _. True), oe_io = (\<lambda>_. True), oe_stat = (\<lambda>_. StatMode 488),
     oe_read = (\<lambda>_. None), oe_pids = (\<lambda>_. None), oe_pgid = (\<lambda>_. None),
     oe_disk = \<lparr>de_http = (\<lambda>_ _ _ _. aborted), de_mounts = None, de_statfs = (\<lambda>_. None), de_InHostNamespace = True, de_ParseFloat = (\<lambda>_. None)\<rparr>,
     oe_cadvisor_starts = True, oe_cinfo = (\<lambda>_. None), oe_web = (\<lambda>_ _. aborted), oe_rm = (\<lambda>_ _. None)\<rparr>"

definition plain_conf :: ConfData where
  "plain_conf = [\<lparr>pr_Name = memory_key, pr_Value = ''2048'', pr_Description = []\<rparr>, \<lparr>pr_Name = vcores_key, pr_Value = ''2'', pr_Description = []\<rparr>]"

definition plain_hadoop :: hadoop where
  "plain_hadoop = \<lparr>hd_files = [(YarnSite, \<lparr>cf_conf = Some plain_conf, cf_info = \<lparr>fi_mode = 420, fi_uid = 0, fi_gid = 0\<rparr>\<rparr>)], hd_fileInfos = [],
     hd_cacheCapacity = Some \<lparr>nc_Vcores = 2, nc_Millcores = 0, nc_MemoryMB = 2048\<rparr>, hd_resourcemanagerAddress = [],
     hd_nodemanagerAddress = ''node:8041'', hd_nodemanagerWebAddress = []\<rparr>"

definition plain_operator :: NMOperator where
  "plain_operator = \<lparr>no_user = ''yarn'', no_group = ''yarn'', no_cadvisorManager = False, no_yarnBin = ''/bin/yarn'',
     no_yarnDaemonBin = ''/sbin/yarn-daemon.sh'', no_scheduleDisabled = False, no_hadoop = plain_hadoop\<rparr>"

theorem operator_refines_spec_witness:
  "\<exists>op' acts. serve_all [(plain_env, ''POST'', ''/v1/nm/schedule/disable'', NoBody)] plain_operator = ([WriteAsJson NoReply], op', acts) \<and>
     no_scheduleDisabled op' \<and> told acts None = Some (''0'', ''0'')"
proof -
  have "fst (serve_all [(plain_env, ''POST'', ''/v1/nm/schedule/disable'', NoBody)] plain_operator) = [WriteAsJson NoReply]"
    by (simp add: serve_capacity op_ScheduleDisable_def ExecuteYarnUpdateNodeResource_def GetNodeManagerAddress_def ExecuteYarnCMD_def perform_def
        plain_operator_def plain_hadoop_def plain_env_def atoi_def strings_TrimChar_def is_digit_def dec_val_def digit_val_def answer_def Let_def)
  then obtain op' acts where e: "serve_all [(plain_env, ''POST'', ''/v1/nm/schedule/disable'', NoBody)] plain_operator = ([WriteAsJson NoReply], op', acts)"
    by (metis fst_conv surj_pair)
  have "cached plain_operator" by (simp add: cached_def plain_operator_def plain_hadoop_def)
  from operator_refines_spec [OF e this refl, where m = None and env = plain_env and body = NoBody]
  have "spec_of op' (told acts None) = (spec_of plain_operator None)\<lparr>sp_disabled := True, sp_master := Some (''0'', ''0'')\<rparr>"
    by (simp add: spec_step_def)
  then show ?thesis using e by (auto simp: spec_of_def)
qed


section \<open>The client and the operator\<close>

text \<open>The requests of the client, one after the other.\<close>

definition deliver :: "op_env \<Rightarrow> nm_sent \<Rightarrow> NMOperator \<Rightarrow> NMOperator" where
  "deliver env sent op =
     fold (\<lambda>(action, body) op. case actionURL action of Inl _ \<Rightarrow> op | Inr url \<Rightarrow> fst (snd (serve env ''POST'' url body op))) sent op"

lemma deliver_append: "deliver env (a @ b) op = deliver env b (deliver env a op)"
  by (simp add: deliver_def)

lemma action_urls: "actionURL ''capacityUpdate'' = Inr ''/v1/nm/capacity/update''" "actionURL ''kill'' = Inr ''/v1/nm/kill''"
  "actionURL ''capacity'' = Inr ''/v1/nm/capacity''"
  by (simp_all add: actionURL_def)

definition holds :: "int \<times> int \<Rightarrow> NMOperator \<Rightarrow> bool" where
  "holds c op \<longleftrightarrow> cached op \<and> sp_cap (spec_of op None) = c"

lemma update_holds:
  assumes "op_updateNodeCapacity env (CapacityBody c) force op = (a, op', acts)"
  shows "holds (nc_Vcores c, nc_MemoryMB c) op'"
proof -
  obtain r op1 where s: "op_setCapacity env (CapacityBody c) op = (r, op1)" by (metis surj_pair)
  have h: "holds (nc_Vcores c, nc_MemoryMB c) op1" using setCapacity_spec [OF s, of None] by (simp add: holds_def body_capacity_def read_capacity_def)
  have u: "holds x (op1\<lparr>no_hadoop := h\<rparr>) = holds x op1"
    if "ExecuteYarnUpdateNodeResource env b us me co (no_hadoop op1) = (err, h, l)" for x b us me co err h l
    using update_resource_told(3) [OF that] by (simp add: holds_def spec_of_def cached_def)
  show ?thesis using assms s h u by (auto simp: op_updateNodeCapacity_def split: sum.splits if_splits prod.splits)
qed

lemma deliver_update_holds:
  "0 < n \<Longrightarrow> holds (nc_Vcores c, nc_MemoryMB c) (deliver env (replicate n (''capacityUpdate'', CapacityBody c)) op)"
proof (induction n arbitrary: op)
  case (Suc n)
  let ?r = "serve env ''POST'' ''/v1/nm/capacity/update'' (CapacityBody c) op"
  have one: "deliver env [(''capacityUpdate'', CapacityBody c)] op = fst (snd ?r)" by (simp add: deliver_def action_urls)
  have "deliver env (replicate (Suc n) (''capacityUpdate'', CapacityBody c)) op =
      deliver env (replicate n (''capacityUpdate'', CapacityBody c)) (fst (snd ?r))"
    using deliver_append [of env "[(''capacityUpdate'', CapacityBody c)]" _ op] one by simp
  moreover have "holds (nc_Vcores c, nc_MemoryMB c) (fst (snd ?r))"
    using update_holds [of env c False op] by (cases ?r) (simp add: serve_capacity)
  ultimately show ?case using Suc.IH [of "fst (snd ?r)"] by (cases "n = 0") (simp_all add: deliver_def)
qed simp

lemma deliver_kills: "deliver env (snd (killContainers http gp e r)) op = op"
proof -
  have k: "fst (snd (serve env ''POST'' ''/v1/nm/kill'' b op)) = op" for b op
    by (auto simp: serve_def op_routes_def op_KillContainers_def split: nm_body.split)
  have "deliver env sent op = op" if "list_all (\<lambda>(a, b). a = ''kill'') sent" for sent
    using that by (induction sent arbitrary: op) (auto simp: deliver_def action_urls k)
  moreover have "list_all (\<lambda>(a, b). a = ''kill'') (snd (killContainers http gp e r))"
    by (auto simp: killContainers_def killContainersWithStats_def kill_requests_def requestKillNMContainers_def post_def list_all_iff split: prod.splits if_splits)
  ultimately show ?thesis by blast
qed

lemma ensured_capacity_held:
  assumes "c = (if disabled then expect\<lparr>nc_Vcores := 0\<rparr> else expect)"
  shows "holds (nc_Vcores c, nc_MemoryMB c) (deliver env (EnsureCapacity http gp expect conflicting dec disabled g) op)"
proof -
  have "holds (nc_Vcores c, nc_MemoryMB c) (deliver env (UpdateNodeCapacity http c False) op)"
    by (simp add: UpdateNodeCapacity_def Let_def deliver_update_holds del: replicate.simps)
  then show ?thesis by (auto simp: EnsureCapacity_def Let_def assms deliver_append deliver_kills)
qed


text \<open>The client asks for its minimum at most once, and the minimum has no cores.\<close>

definition min_without_cores :: "GInit \<Rightarrow> bool" where
  "min_without_cores g \<longleftrightarrow> (case gi_minCapacity g of None \<Rightarrow> True | Some c \<Rightarrow> nc_Vcores c = 0)"

lemma GetMinCapacity_no_cores:
  assumes "GetMinCapacity http g = Some (c, g')" and "min_without_cores g"
  shows "nc_Vcores c = 0 \<and> min_without_cores g'"
  using assms by (auto simp: GetMinCapacity_def min_without_cores_def Let_def split: option.splits prod.splits if_splits)

text \<open>
  C32. The client and the operator together: when the client sets the capacity while the schedule is disabled, the operator holds zero
  cores. Enabling the schedule then tells the resourcemanager zero cores, and as long as the resources stay at their minimum, the rounds of the
  client that follow send no other capacity, however many cores the prediction offers: no new container can start.
\<close>

theorem zero_cores_after_enable:
  assumes "op1 = deliver env (EnsureCapacity http gp expect conflicting dec True g) op"
    and "serve env' ''POST'' ''/v1/nm/schedule/enable'' NoBody op1 = (a, op2, acts)" and "ha_StatusCode a = 200"
    and "ye_http yenv = (\<lambda>n verb path body. fst (serve env'' verb path body op2))" and "min_without_cores (yk_ginit y)"
    and "GetMinCapacity (ye_http yenv) (yk_ginit y) = Some (minCap, g1)"
    and "adapt_all Q (ye_disk yenv) (ye_clock yenv (ye_now yenv)) minCap (yk_resourceHandlers y) res (yk_disk y) g1 = Some (res', True, d, g2)"
  shows "told acts m = Some (show_int (nc_MemoryMB expect), ''0'') \<and>
    updateCapacity Q yenv res [] y = Some (y\<lparr>yk_ginit := g2, yk_disk := d\<rparr>, [])"
proof -
  have h: "holds (0, nc_MemoryMB expect) op1"
    using ensured_capacity_held [where expect = expect and disabled = True, OF refl] unfolding assms(1) by simp
  have e: "op_ScheduleEnable env' op1 = (a, op2, acts)" using assms(2) by (simp add: serve_capacity)
  have t: "cached op2" "spec_of op2 (told acts m) = (spec_of op1 m)\<lparr>sp_disabled := False, sp_master := Some (told_capacity (sp_cap (spec_of op1 m)))\<rparr>"
    using enable_spec(1) [OF e] enable_spec(2) [OF e, of m] h assms(3) by (simp_all add: holds_def)
  have c: "sp_cap (spec_of op1 m) = (0, nc_MemoryMB expect)" using h by (simp add: holds_def spec_of_def)
  have master: "told acts m = Some (show_int (nc_MemoryMB expect), ''0'')"
    using arg_cong [OF t(2), of sp_master] c by (simp add: spec_of_def told_capacity_def show_int_def show_nat_0)
  have "sp_cap (spec_of op2 m) = (0, nc_MemoryMB expect)" using arg_cong [OF t(2), of sp_cap] c by (simp add: spec_of_def)
  then have "ye_http yenv 0 ''GET'' ''/v1/nm/capacity'' NoBody = WriteAsJson (CapacityReply 0 (nc_MemoryMB expect))"
    using t(1) by (auto simp: assms(4) serve_def op_routes_def op_GetCapacity_def hadoop_GetCapacity_def cached_def spec_of_def)
  then have "GetCapacity (ye_http yenv) = (\<lparr>nc_Vcores = 0, nc_Millcores = 0, nc_MemoryMB = nc_MemoryMB expect\<rparr>, None)"
    by (simp add: GetCapacity_def sendRequest_def action_urls WriteAsJson_def)
  then have "capacity_change Q (ye_http yenv) (yk_ResourceRange y) minCap False True res' = (False, False)"
    using GetMinCapacity_no_cores [OF assms(6,5)] by (simp add: capacity_change_def)
  then show ?thesis using master by (simp add: updateCapacity_def beCapacity_def assms(6,7))
qed


text \<open>Memory at its minimum, cores for four, and a client that has read its minimum.\<close>

definition low_memory :: NMCapacity where
  "low_memory = \<lparr>nc_Vcores = 4, nc_Millcores = 0, nc_MemoryMB = 1024\<rparr>"

definition low_client :: "int yarnClient" where
  "low_client = plain_client\<lparr>yk_ginit := (yk_ginit plain_client)\<lparr>gi_minCapacity := Some \<lparr>nc_Vcores = 0, nc_Millcores = 0, nc_MemoryMB = 1024\<rparr>\<rparr>\<rparr>"

definition closed_operator :: NMOperator where
  "closed_operator = deliver plain_env (EnsureCapacity (\<lambda>_ _ _ _. aborted) (\<lambda>_. 0) low_memory [] False True (yk_ginit low_client)) plain_operator"

definition opened_operator :: NMOperator where
  "opened_operator = fst (snd (serve plain_env ''POST'' ''/v1/nm/schedule/enable'' NoBody closed_operator))"

definition opened_env :: yarn_env where
  "opened_env = plain_yarn_env\<lparr>ye_disk := plain_disk_env\<lparr>de_http := (\<lambda>n verb path body. fst (serve plain_env verb path body opened_operator))\<rparr>\<rparr>"

lemma plain_command: "ExecuteYarnCMD plain_env n cmds usr = (None, [(YarnCmd cmds 0 0 usr, True)])"
  by (simp add: ExecuteYarnCMD_def perform_def plain_env_def atoi_def strings_TrimChar_def is_digit_def dec_val_def digit_val_def Let_def)

lemma plain_enable: "cached op \<Longrightarrow> ha_StatusCode (fst (serve plain_env ''POST'' ''/v1/nm/schedule/enable'' NoBody op)) = 200"
  by (auto simp: serve_capacity op_ScheduleEnable_def ExecuteYarnUpdateNodeResource_def plain_command hadoop_GetCapacity_def cached_def Let_def split: prod.splits)

lemma low_reaches_min:
  "\<exists>res' d g. adapt_all nanoQ (ye_disk env) now \<lparr>nc_Vcores = 0, nc_Millcores = 0, nc_MemoryMB = 1024\<rparr> (yk_resourceHandlers low_client) [] (yk_disk low_client)
     (yk_ginit low_client) = Some (res', True, d, g)"
proof -
  obtain as where "yk_resourceHandlers low_client = MinCompare # as" using handlers_of_new [OF plain_client_new] by (auto simp: low_client_def)
  then show ?thesis by (simp add: ResourceAdapt_def compareAndReplaceMinCapacity_def rl_get_def nano_ops MemUnit_def)
qed

theorem zero_cores_after_enable_witness:
  "\<exists>acts y. serve plain_env ''POST'' ''/v1/nm/schedule/enable'' NoBody closed_operator = (WriteAsJson NoReply, opened_operator, acts) \<and>
     told acts None = Some (show_int 1024, ''0'') \<and>
     updateCapacity nanoQ opened_env [] [] low_client = Some (y, [])"
proof -
  let ?env = opened_env
  have "cached closed_operator"
    using ensured_capacity_held [where expect = low_memory and disabled = True, OF refl] by (auto simp: closed_operator_def holds_def)
  note ok = plain_enable [OF this]
  obtain a acts where e: "serve plain_env ''POST'' ''/v1/nm/schedule/enable'' NoBody closed_operator = (a, opened_operator, acts)"
    by (metis opened_operator_def prod.collapse)
  then have a: "a = WriteAsJson NoReply" using ok
    by (auto simp: serve_capacity op_ScheduleEnable_def answer_def WriteServiceError_def Let_def split: sum.splits prod.splits if_splits)
  obtain res' d g where r: "adapt_all nanoQ (ye_disk ?env) (ye_clock ?env (ye_now ?env)) \<lparr>nc_Vcores = 0, nc_Millcores = 0, nc_MemoryMB = 1024\<rparr>
      (yk_resourceHandlers low_client) [] (yk_disk low_client) (yk_ginit low_client) = Some (res', True, d, g)"
    using low_reaches_min by blast
  have m: "GetMinCapacity (ye_http ?env) (yk_ginit low_client) = Some (\<lparr>nc_Vcores = 0, nc_Millcores = 0, nc_MemoryMB = 1024\<rparr>, yk_ginit low_client)"
    "min_without_cores (yk_ginit low_client)"
    by (simp_all add: GetMinCapacity_def low_client_def min_without_cores_def)
  have s: "ha_StatusCode a = 200" using a by simp
  have h: "ye_http ?env = (\<lambda>n verb path body. fst (serve plain_env verb path body opened_operator))" by (simp add: opened_env_def)
  show ?thesis
    using zero_cores_after_enable [OF closed_operator_def e s h m(2,1) r, of None] e by (auto simp: a low_memory_def)
qed


section \<open>Configuration\<close>

text \<open>
  C33. A capacity that the operator accepted survives its restart: an operator that starts with an empty cache reads the same cores and memory from
  the configuration file, where a zero became the least value with which the nodemanager starts. The file must name both
  properties, since the operator changes values and adds none.
\<close>

theorem capacity_survives_restart:
  assumes "serve env ''POST'' ''/v1/nm/capacity'' (CapacityBody c) op = (a, op', acts)" and "ha_StatusCode a = 200"
    and "LoadConfDataFromFile YarnSite (no_hadoop op) = Inr conf" and "has_key conf memory_key" and "has_key conf vcores_key"
    and "nc_Vcores c \<in> {- (2 ^ 63)..<2 ^ 63}" and "nc_MemoryMB c \<in> {- (2 ^ 63)..<2 ^ 63}"
  shows "hadoop_GetCapacity ((no_hadoop op')\<lparr>hd_cacheCapacity := None\<rparr>) =
    Inr \<lparr>nc_Vcores = (if nc_Vcores c = 0 then 1 else nc_Vcores c), nc_Millcores = 0, nc_MemoryMB = (if nc_MemoryMB c = 0 then 1024 else nc_MemoryMB c)\<rparr>"
proof -
  define cc where "cc = Some \<lparr>nc_Vcores = nc_Vcores c, nc_Millcores = (case hd_cacheCapacity (no_hadoop op) of None \<Rightarrow> 0 | Some c \<Rightarrow> nc_Millcores c), nc_MemoryMB = nc_MemoryMB c\<rparr>"
  let ?props = "[(memory_key, if nc_MemoryMB c = 0 then ''1024'' else show_int (nc_MemoryMB c)),
                 (vcores_key, if nc_Vcores c = 0 then ''1'' else show_int (nc_Vcores c))]"
  obtain h where h: "SetMultipleConfDataToFile (oe_io env) YarnSite ?props ((no_hadoop op)\<lparr>hd_cacheCapacity := cc\<rparr>) = (None, h)" "no_hadoop op' = h"
    using assms(1,2) by (auto simp: serve_capacity op_SetCapacity_def op_setCapacity_def read_capacity_def hadoop_SetCapacity_def cc_def
        split: prod.splits if_splits)
  have load: "LoadConfDataFromFile YarnSite ((no_hadoop op)\<lparr>hd_cacheCapacity := cc\<rparr>) = Inr conf"
    using assms(3) by (simp add: LoadConfDataFromFile_def)
  have get: "GetConfDataFromFile YarnSite memory_key h = (if nc_MemoryMB c = 0 then ''1024'' else show_int (nc_MemoryMB c))"
    "GetConfDataFromFile YarnSite vcores_key h = (if nc_Vcores c = 0 then ''1'' else show_int (nc_Vcores c))"
    using changed_config_is_read [OF h(1) _ _ load] assms(4,5) by simp_all
  obtain conf' where c': "LoadConfDataFromFile YarnSite h = Inr conf'"
    using write_result [OF h(1) [unfolded SetMultipleConfDataToFile_def]] by auto
  have "atoi_or (- 1) ''1024'' = 1024" "atoi_or (- 1) ''1'' = 1" by code_simp+
  then show ?thesis using get c' assms(6,7) show_atoi_or
    by (simp add: h(2) hadoop_GetCapacity_def GetConfDataFromFile_def LoadConfDataFromFile_def)
qed

theorem capacity_survives_restart_witness:
  "\<exists>op' acts. serve plain_env ''POST'' ''/v1/nm/capacity'' (CapacityBody (low_memory\<lparr>nc_Vcores := 0\<rparr>)) plain_operator = (WriteAsJson NoReply, op', acts) \<and>
     hadoop_GetCapacity ((no_hadoop op')\<lparr>hd_cacheCapacity := None\<rparr>) = Inr \<lparr>nc_Vcores = 1, nc_Millcores = 0, nc_MemoryMB = 1024\<rparr>"
proof -
  let ?r = "serve plain_env ''POST'' ''/v1/nm/capacity'' (CapacityBody (low_memory\<lparr>nc_Vcores := 0\<rparr>)) plain_operator"
  have load: "LoadConfDataFromFile YarnSite (no_hadoop plain_operator) = Inr plain_conf"
    by (simp add: LoadConfDataFromFile_def plain_operator_def plain_hadoop_def)
  have "fst ?r = WriteAsJson NoReply"
    by (simp add: serve_capacity op_SetCapacity_def op_setCapacity_def read_capacity_def hadoop_SetCapacity_def SetMultipleConfDataToFile_def
        writeConfDataToFile_def getConfData_def LoadConfDataFromFile_def getFileInfo_def write_steps_def plain_operator_def plain_hadoop_def plain_env_def)
  then obtain op' acts where e: "?r = (WriteAsJson NoReply, op', acts)" by (metis prod.collapse)
  have "has_key plain_conf memory_key" "has_key plain_conf vcores_key" by (simp_all add: has_key_def plain_conf_def)
  from capacity_survives_restart [OF e _ load this] e show ?thesis by (simp add: low_memory_def)
qed

text \<open>
  C34. Properties written with the flag to add them are read back: after a success, the operator answers a request for any keys of that file with the new
  values, and with the old values for all other keys, or none where the others were to be deleted.
\<close>

theorem written_properties_are_read:
  assumes "serve env ''POST'' ''/v1/nm/property'' (PropertyBody f props True del) op = (a, op', acts)" and "ha_StatusCode a = 200"
    and "wf_map props" and "props \<noteq> []"
  shows "\<exists>m. serve env' ''GET'' ''/v1/nm/property'' (KeysBody f ks False) op' = (WriteAsJson (PropertyReply m), op', []) \<and>
    (\<forall>k \<in> set ks. map_of m k =
       Some (case map_of props k of Some v \<Rightarrow> v | None \<Rightarrow> if del then [] else GetConfDataFromFile f k (no_hadoop op)))"
proof -
  have routes: "serve env ''POST'' ''/v1/nm/property'' b op = op_SetProperty env b op"
    "serve env' ''GET'' ''/v1/nm/property'' b op' = op_GetProperty env' b op'" for b by (simp_all add: serve_def op_routes_def)
  obtain h where h: "SetAddDelMultipleConfDataToFile (oe_io env) f props True del (no_hadoop op) = (None, h)" "no_hadoop op' = h"
    using assms(1,2) by (auto simp: routes op_SetProperty_def read_property_def split: prod.splits if_splits)
  obtain conf where c: "LoadConfDataFromFile f h = Inr conf"
    using write_result [OF h(1) [unfolded SetAddDelMultipleConfDataToFile_def] assms(4)] by blast
  have fold_get: "map_of (fold (\<lambda>k m. AList.update k (g k) m) ks m0) k = (if k \<in> set ks then Some (g k) else map_of m0 k)"
    for g :: "string \<Rightarrow> string" and m0 k by (induction ks arbitrary: m0) auto
  have "conf_Get conf k = (case map_of props k of Some v \<Rightarrow> v | None \<Rightarrow> if del then [] else GetConfDataFromFile f k (no_hadoop op))" for k
    using added_config_is_read [OF h(1) assms(3,4), of k] c by (simp add: GetConfDataFromFile_def)
  then have "\<forall>k \<in> set ks. map_of (fold (\<lambda>k m. AList.update k (conf_Get conf k) m) ks []) k =
      Some (case map_of props k of Some v \<Rightarrow> v | None \<Rightarrow> if del then [] else GetConfDataFromFile f k (no_hadoop op))"
    by (simp only: fold_get if_True ball_simps) simp
  moreover have "serve env' ''GET'' ''/v1/nm/property'' (KeysBody f ks False) op' =
      (WriteAsJson (PropertyReply (fold (\<lambda>k m. AList.update k (conf_Get conf k) m) ks [])), op', [])"
    by (simp add: routes op_GetProperty_def read_keys_def GetConfig_def h(2) c)
  ultimately show ?thesis by blast
qed

theorem written_properties_are_read_witness:
  "\<exists>op' acts m. serve plain_env ''POST'' ''/v1/nm/property'' (PropertyBody YarnSite [(''a'', ''1'')] True False) plain_operator = (WriteAsJson NoReply, op', acts) \<and>
     serve plain_env ''GET'' ''/v1/nm/property'' (KeysBody YarnSite [''a''] False) op' = (WriteAsJson (PropertyReply m), op', []) \<and> map_of m ''a'' = Some ''1''"
proof -
  let ?r = "serve plain_env ''POST'' ''/v1/nm/property'' (PropertyBody YarnSite [(''a'', ''1'')] True False) plain_operator"
  have "fst ?r = WriteAsJson NoReply"
    by (simp add: serve_def op_routes_def op_SetProperty_def read_property_def SetAddDelMultipleConfDataToFile_def
        writeConfDataToFile_def getConfData_def LoadConfDataFromFile_def getFileInfo_def write_steps_def plain_operator_def plain_hadoop_def plain_env_def)
  then obtain op' acts where e: "?r = (WriteAsJson NoReply, op', acts)" by (metis prod.collapse)
  from written_properties_are_read [OF e, where ks = "[''a'']" and env' = plain_env] show ?thesis using e by auto
qed


text \<open>A capacity whose write fails is refused, and held all the same.\<close>

lemma refused_capacity_is_held:
  assumes "serve env ''POST'' ''/v1/nm/capacity'' (CapacityBody c) op = (a, op', acts)"
  shows "holds (nc_Vcores c, nc_MemoryMB c) op'"
proof -
  obtain r op1 where s: "op_setCapacity env (CapacityBody c) op = (r, op1)" by (metis surj_pair)
  then show ?thesis using assms setCapacity_spec [OF s, of None]
    by (cases r) (auto simp: serve_capacity op_SetCapacity_def holds_def body_capacity_def read_capacity_def)
qed

section \<open>Kills, disks and names\<close>

text \<open>
  Signals go to process groups, never to the group of the caller or of the first process, and only to groups of the
  first process of a container that was named; SIGKILL only after SIGTERM, and only to a group that is still there.
\<close>

lemma kills_only_named:
  assumes "op_KillContainers env (IdsBody cids) op = (a, op', acts)" and "(Signal p s, ok) \<in> set acts"
  shows "\<exists>cid \<in> set cids. \<exists>pid pids. oe_pids env (path_Join [CgroupRoot, ''cpu'', HadoopPath, cid]) = Some (pid # pids) \<and> oe_pgid env pid = Some (- p) \<and>
    p < - 1 \<and> (s = ''SIGTERM'' \<or> s = ''SIGKILL'' \<and> CheckPidAlive env (- p))"
proof -
  obtain cid where c: "cid \<in> set cids" "(Signal p s, ok) \<in> set (kill_container env cid)" using assms by (auto simp: op_KillContainers_def)
  then have g: "p = - GetContainerProcessGroupId env cid" "p < - 1" "s = ''SIGTERM'' \<or> s = ''SIGKILL'' \<and> CheckPidAlive env (- p)"
    by (auto simp: kill_container_def Let_def split: if_splits)
  then obtain pid pids where "oe_pids env (path_Join [CgroupRoot, ''cpu'', HadoopPath, cid]) = Some (pid # pids)" "oe_pgid env pid = Some (- p)"
    by (auto simp: GetContainerProcessGroupId_def split: option.splits list.splits)
  then show ?thesis using c g by blast
qed

text \<open>The table of mounts starts with the root, and its mount point is a prefix of every absolute path: the size of the root is judged, whatever disk the directory is on.\<close>

lemma root_is_judged:
  assumes "split_on (CHR '' '') line = dev # ''/'' # rest"
  shows "find_mount (CHR ''/'' # dir) (line # ls) = Some ''/''"
  using assms by (simp add: strings_HasPrefix_def NetIO.strings_TrimSpace_def NetIO.is_space_def Let_def)

text \<open>Ids with an epoch give the application, ids without one do not.\<close>

lemma app_id_epoch:
  "getAppIDFromContainerID ''container_e03_1505269670687_0001_01_000001'' = Some ''application_1505269670687_0001''"
  by code_simp

lemma app_id_without_epoch:
  "getAppIDFromContainerID ''container_1505269670687_0001_01_000001'' = Some ''application_0001_01''"
  by code_simp

lemma app_id_panics: "CHR ''_'' \<notin> set cid \<Longrightarrow> getAppIDFromContainerID cid = None"
  by (simp add: getAppIDFromContainerID_def strings_SplitN_def split_on_plain Let_def)

text \<open>An application id is found again in its container ids.\<close>

lemma app_id_general:
  assumes "\<forall>s \<in> set [epoch, cluster, app, attempt, n]. CHR ''_'' \<notin> set s"
  shows "getAppIDFromContainerID (join_with ''_'' [''container'', epoch, cluster, app, attempt, n]) = Some (''application_'' @ cluster @ ''_'' @ app)"
proof -
  have "split_on (CHR ''_'') (join_with ''_'' [''container'', epoch, cluster, app, attempt, n]) = [''container'', epoch, cluster, app, attempt, n]"
    using assms by (intro split_join) auto
  then show ?thesis by (simp only: getAppIDFromContainerID_def strings_SplitN_def Let_def) simp
qed

text \<open>Without local directories in the configuration, the operator does not start, unless the empty path can be measured.\<close>

lemma no_local_dirs_no_start:
  assumes "InitCgroup env u g ''CGROUP_PATH'' h = Some (None, h', acts)" and "GetYarnNodeManagerLocalDirs h' = []"
    and "de_statfs (oe_disk env) [] = None" and "\<forall>l \<in> set (case de_mounts (oe_disk env) of None \<Rightarrow> [] | Some ls \<Rightarrow> ls). \<not> (\<exists>p \<in> set (tl (split_on (CHR '' '') l)). p = [])"
    and "u = (if oe_getenv env ''USER'' = [] then ''root'' else oe_getenv env ''USER'')" and "g = (if oe_getenv env ''GROUP'' = [] then ''root'' else oe_getenv env ''GROUP'')"
  shows "NewNMOperator env cad h = None"
proof -
  have f: "find_mount [] ls = None \<or> find_mount [] ls = Some []" if "\<forall>l \<in> set ls. \<not> (\<exists>p \<in> set (tl (split_on (CHR '' '') l)). p = [])" for ls
    using that
  proof (induction ls)
    case (Cons l ls)
    let ?p = "split_on (CHR '' '') l"
    have "\<not> strings_HasPrefix [] (?p ! 1)" if "\<not> length ?p < 2"
      using that Cons.prems by (cases ?p; cases "tl ?p") (auto simp: strings_HasPrefix_def)
    then show ?case using Cons by (simp add: Let_def)
  qed simp
  have "JudgePartitionCapForDataPath env n [] h' \<noteq> Some (None, h2)" for n h2
  proof (cases "de_mounts (oe_disk env)")
    case (Some ls)
    then show ?thesis using f [of ls] assms(3,4) by (auto simp: JudgePartitionCapForDataPath_def GetDiskPartitionStats_def)
  qed (simp add: JudgePartitionCapForDataPath_def)
  then show ?thesis using assms(1,2,5,6)
    by (auto simp: NewNMOperator_def GetYarnLocalDirs_def Let_def split: option.splits prod.splits)
qed

end
