(* ===== verification/Hook.thy ===== *)
theory Hook
  imports Pods
begin

text \<open>
  \<^verbatim>\<open>contrib/lighthouse\<close>: a proxy before the docker daemon. Requests that match a configured stage are sent to plugins, which may patch the body before the
  daemon sees it (pre hooks) or patch the daemon's answer (post hooks). JSON and its patches are the parameter \<open>J\<close>; sockets, the router, the
  plugins' answers and the daemon are the parameter \<open>env\<close>. A body is its text. The result \<open>None\<close> is the end of the process.
\<close>

section \<open>Configuration\<close>

record HookStage =
  hs_Method :: string
  hs_URLPattern :: string
  hs_Type :: string

record HookConfigurationItem =
  hi_Name :: string
  hi_Endpoint :: string
  hi_FailurePolicy :: string
  hi_Stages :: "HookStage list"

record HookConfiguration =
  hf_Timeout :: int
  hf_ListenAddress :: string
  hf_RemoteEndpoint :: string
  hf_WebHooks :: "HookConfigurationItem list"

definition PolicyFail :: string where
  "PolicyFail = ''Fail''"

definition PolicyIgnore :: string where
  "PolicyIgnore = ''Ignore''"

definition PreHookType :: string where
  "PreHookType = ''PreHook''"

definition PostHookType :: string where
  "PostHookType = ''PostHook''"

definition SetDefaults_HookStage :: "HookStage \<Rightarrow> HookStage" where
  "SetDefaults_HookStage obj = (if hs_Method obj = [] then obj\<lparr>hs_Method := ''POST''\<rparr> else obj)"

definition SetDefaults_HookConfigurationItem :: "HookConfigurationItem \<Rightarrow> HookConfigurationItem" where
  "SetDefaults_HookConfigurationItem obj = (if hi_FailurePolicy obj = [] then obj\<lparr>hi_FailurePolicy := PolicyFail\<rparr> else obj)"

definition SetDefaults_HookConfiguration :: "HookConfiguration \<Rightarrow> HookConfiguration" where
  "SetDefaults_HookConfiguration obj =
     (let obj = (if hf_Timeout obj = 0 then obj\<lparr>hf_Timeout := 5\<rparr> else obj)
      in if hf_RemoteEndpoint obj = [] then obj\<lparr>hf_RemoteEndpoint := ''unix:///var/run/docker.sock''\<rparr> else obj)"

section \<open>Messages\<close>

record PatchData =
  pd_PatchType :: string
  pd_PatchData :: "string option"

record hook_request =
  rq_Method :: string
  rq_Path :: string
  rq_Body :: "string option"
  rq_ContentLength :: int

record hook_response =
  hr_Code :: nat
  hr_Header :: "(string, string list) gomap"
  hr_Body :: string

text \<open>The recorder of \<^verbatim>\<open>net/http/httptest\<close>: the status can be written once, and writing a body writes the status 200.\<close>

record recorder =
  rc_wrote :: bool
  rc_Code :: nat
  rc_Header :: "(string, string list) gomap"
  rc_Body :: string

definition rec_WriteHeader :: "nat \<Rightarrow> recorder \<Rightarrow> recorder" where
  "rec_WriteHeader code w = (if rc_wrote w then w else w\<lparr>rc_wrote := True, rc_Code := code\<rparr>)"

definition rec_Write :: "string \<Rightarrow> recorder \<Rightarrow> recorder" where
  "rec_Write data w = (let w = rec_WriteHeader 200 w in w\<lparr>rc_Body := rc_Body w @ data\<rparr>)"

record plugin_response =
  pl_StatusCode :: nat
  pl_Body :: string

text \<open>JSON: decoding of a plugin's answer, the two kinds of patches, the wrapping of the daemon's answer (decoded over the values that are there).\<close>

record json_ops =
  js_decode_patch :: "string \<Rightarrow> PatchData option"
  js_encode_patch :: "PatchData \<Rightarrow> string"
  js_DecodePatch :: "string \<Rightarrow> bool"
  js_Apply :: "string \<Rightarrow> string \<Rightarrow> string option"
  js_MergePatch :: "string \<Rightarrow> string \<Rightarrow> string option"
  js_CreateMergePatch :: "string \<Rightarrow> string \<Rightarrow> string option"
  js_marshal_post :: "nat \<Rightarrow> string \<Rightarrow> string option"
  js_unmarshal_post :: "string \<Rightarrow> nat \<times> string \<Rightarrow> (nat \<times> string) option"

record hook_env =
  he_json :: json_ops
  he_valid_request :: "string \<Rightarrow> string \<Rightarrow> bool"
  he_plugin :: "string \<Rightarrow> string \<Rightarrow> string \<Rightarrow> string \<Rightarrow> plugin_response option"
  he_route :: "string \<Rightarrow> string \<Rightarrow> string \<Rightarrow> string \<Rightarrow> bool"
  he_backend :: "hook_request \<Rightarrow> hook_response"
  he_pprof :: "hook_request \<Rightarrow> hook_response"
  he_error_text :: "string \<Rightarrow> string"
  he_remove :: "string \<Rightarrow> bool"

datatype hook_error = MalformedSocket | SocketTooLong | BadRequest | PluginUnreachable | PluginStatus nat | PatchUndecodable | PatchFailed
  | UnknownPatchType string | BodyUnreadable | RemoveFailed string | PostDataUndecodable

section \<open>Connectors\<close>

text \<open>The path of a unix socket has 108 bytes.\<close>

definition GetProtoAndAddress :: "string \<Rightarrow> hook_error + string \<times> string" where
  "GetProtoAndAddress endpoint =
     (case cut_first ''://'' endpoint of None \<Rightarrow> Inl MalformedSocket
      | Some (proto, addr) \<Rightarrow> if length addr > 108 then Inl SocketTooLong else Inr (proto, addr))"

definition UnixProto :: string where
  "UnixProto = ''unix''"

definition BuildClientOrDie :: "string \<Rightarrow> unit option" where
  "BuildClientOrDie endpoint =
     (case GetProtoAndAddress endpoint of Inl _ \<Rightarrow> None | Inr (proto, _) \<Rightarrow> if proto \<noteq> UnixProto then None else Some ())"

record hookerConnector =
  hc_name :: string
  hc_endpoint :: string
  hc_failurePolicy :: string

definition newHookConnector :: "string \<Rightarrow> string \<Rightarrow> string \<Rightarrow> hookerConnector option" where
  "newHookConnector name endpoint failurePolicy =
     (if \<not> strings_HasPrefix endpoint ''unix://'' then None
      else map_option (\<lambda>_. \<lparr>hc_name = name, hc_endpoint = endpoint, hc_failurePolicy = failurePolicy\<rparr>) (BuildClientOrDie endpoint))"

definition allowFailure :: "hookerConnector \<Rightarrow> bool" where
  "allowFailure hc = (hc_failurePolicy hc = PolicyIgnore)"

definition to_lower :: "char \<Rightarrow> char" where
  "to_lower c = (if 65 \<le> (of_char c :: nat) \<and> (of_char c :: nat) \<le> 90 then char_of (of_char c + 32 :: nat) else c)"

definition HookPath :: "string \<Rightarrow> string \<Rightarrow> string" where
  "HookPath hookType path = map to_lower (''/'' @ hookType @ path)"

text \<open>\<^verbatim>\<open>fixUnexpectedEscape\<close>: the escapes of the angle brackets, as texts of six bytes.\<close>

definition fixUnexpectedEscape :: "string \<Rightarrow> string" where
  "fixUnexpectedEscape d = strings_ReplaceAll (strings_ReplaceAll d (CHR 0x5C # ''u003c'') ''<'') (CHR 0x5C # ''u003e'') ''>''"

definition empty_patch :: PatchData where
  "empty_patch = \<lparr>pd_PatchType = [], pd_PatchData = None\<rparr>"

text \<open>The patch a plugin answers with. An answer that is there is decoded, whatever its status, where failures are allowed.\<close>

definition performHook :: "hook_env \<Rightarrow> hookerConnector \<Rightarrow> string \<Rightarrow> string \<Rightarrow> string \<Rightarrow> hook_error + PatchData" where
  "performHook env hc meth path body =
     (if \<not> he_valid_request env meth (''http://'' @ hc_endpoint hc) then (if allowFailure hc then Inr empty_patch else Inl BadRequest)
      else case he_plugin env (hc_endpoint hc) meth path body of
             None \<Rightarrow> if allowFailure hc then Inr empty_patch else Inl PluginUnreachable
           | Some resp \<Rightarrow>
               if pl_StatusCode resp \<noteq> 200 \<and> pl_StatusCode resp \<noteq> 201 \<and> \<not> allowFailure hc then Inl (PluginStatus (pl_StatusCode resp))
               else case js_decode_patch (he_json env) (pl_Body resp) of None \<Rightarrow> Inl PatchUndecodable | Some p \<Rightarrow> Inr p)"

definition PreHook :: "hook_env \<Rightarrow> hookerConnector \<Rightarrow> string \<Rightarrow> string \<Rightarrow> string \<Rightarrow> hook_error + PatchData" where
  "PreHook env hc meth path body = performHook env hc meth (HookPath PreHookType path) body"

definition PostHook :: "hook_env \<Rightarrow> hookerConnector \<Rightarrow> string \<Rightarrow> string \<Rightarrow> string \<Rightarrow> hook_error + PatchData" where
  "PostHook env hc meth path body = performHook env hc meth (HookPath PostHookType path) body"


section \<open>The hook manager\<close>

definition JSONPatchType :: string where
  "JSONPatchType = ''application/json-patch+json''"

definition MergePatchType :: string where
  "MergePatchType = ''application/merge-patch+json''"

text \<open>One handler: the body after its patch.\<close>

definition apply_one :: "hook_env \<Rightarrow> string \<Rightarrow> string \<Rightarrow> string \<Rightarrow> hookerConnector \<Rightarrow> string \<Rightarrow> hook_error + string" where
  "apply_one env hookType meth path h body =
     (case (if hookType = PreHookType then PreHook env h meth path body
            else if hookType = PostHookType then PostHook env h meth path body else Inr empty_patch) of
        Inl e \<Rightarrow> Inl e
      | Inr patch \<Rightarrow>
          (case pd_PatchData patch of
             None \<Rightarrow> Inr body
           | Some p \<Rightarrow>
               if pd_PatchType patch = JSONPatchType
               then (if \<not> js_DecodePatch (he_json env) p then Inl PatchUndecodable
                     else case js_Apply (he_json env) p body of None \<Rightarrow> Inl PatchFailed | Some b \<Rightarrow> Inr b)
               else if pd_PatchType patch = MergePatchType
               then (case js_MergePatch (he_json env) body p of None \<Rightarrow> Inl PatchFailed | Some b \<Rightarrow> Inr b)
               else Inl (UnknownPatchType (pd_PatchType patch))))"

fun applyHook :: "hook_env \<Rightarrow> hookerConnector list \<Rightarrow> string \<Rightarrow> string \<Rightarrow> string \<Rightarrow> string \<Rightarrow> hook_error + string" where
  "applyHook env [] hookType meth path body = Inr body"
| "applyHook env (h # hs) hookType meth path body =
     (case apply_one env hookType meth path h body of Inl e \<Rightarrow> Inl e | Inr body \<Rightarrow> applyHook env hs hookType meth path body)"

text \<open>An error answers the client; otherwise the request goes on with the patched body.\<close>

definition preHook_chain :: "hook_env \<Rightarrow> hookerConnector list \<Rightarrow> hook_request \<Rightarrow> hook_response + hook_request" where
  "preHook_chain env handlers r =
     (case rq_Body r of
        None \<Rightarrow> Inl \<lparr>hr_Code = 400, hr_Header = [], hr_Body = []\<rparr>
      | Some body \<Rightarrow>
          (case applyHook env handlers PreHookType (rq_Method r) (rq_Path r) body of
             Inl e \<Rightarrow> Inl \<lparr>hr_Code = 500, hr_Header = [], hr_Body = he_error_text env (rq_Path r)\<rparr>
           | Inr b \<Rightarrow> let b = fixUnexpectedEscape b in Inr (r\<lparr>rq_Body := Some b, rq_ContentLength := int (length b)\<rparr>)))"

definition postHook_chain :: "hook_env \<Rightarrow> hookerConnector list \<Rightarrow> hook_request \<Rightarrow> recorder \<Rightarrow> recorder" where
  "postHook_chain env handlers r w =
     (let data = (rc_Code w, rc_Body w); w = w\<lparr>rc_Body := []\<rparr>; err = (\<lambda>code. rec_Write (he_error_text env (rq_Path r)) (rec_WriteHeader code w)) in
      case js_marshal_post (he_json env) (fst data) (snd data) of
        None \<Rightarrow> err 400
      | Some bodyBytes \<Rightarrow>
          (case applyHook env handlers PostHookType (rq_Method r) (rq_Path r) bodyBytes of
             Inl e \<Rightarrow> err 500
           | Inr b \<Rightarrow>
               (case js_unmarshal_post (he_json env) (fixUnexpectedEscape b) data of
                  None \<Rightarrow> err 500
                | Some (_, body) \<Rightarrow> rec_Write body w)))"

record hookHandleData =
  hd_preHooks :: "hookerConnector list"
  hd_postHooks :: "hookerConnector list"

text \<open>Headers are set value by value, so that one with several values keeps the last.\<close>

definition set_headers :: "(string, string list) gomap \<Rightarrow> (string, string list) gomap" where
  "set_headers hs = fold (\<lambda>(k, vs) m. fold (\<lambda>v m. AList.update k [v] m) vs m) hs []"

text \<open>The daemon's answer in the recorder; the proxy always writes the status.\<close>

definition record_backend :: "hook_env \<Rightarrow> hook_request \<Rightarrow> recorder" where
  "record_backend env r = (let a = he_backend env r in \<lparr>rc_wrote = True, rc_Code = hr_Code a, rc_Header = hr_Header a, rc_Body = hr_Body a\<rparr>)"

definition handle_hooked :: "hook_env \<Rightarrow> hookHandleData \<Rightarrow> hook_request \<Rightarrow> hook_response" where
  "handle_hooked env v r =
     (case preHook_chain env (hd_preHooks v) r of
        Inl a \<Rightarrow> a
      | Inr r \<Rightarrow>
          let w = postHook_chain env (hd_postHooks v) r (record_backend env r)
          in \<lparr>hr_Code = rc_Code w, hr_Header = set_headers (rc_Header w), hr_Body = rc_Body w\<rparr>)"

record hookManager =
  hm_timeout :: int
  hm_listenAddress :: string
  hm_mux :: "((string \<times> string) \<times> hookHandleData) list"

definition add_stage :: "hookerConnector \<Rightarrow> HookStage \<Rightarrow> (string \<times> string, hookHandleData) gomap \<Rightarrow> (string \<times> string, hookHandleData) gomap" where
  "add_stage hc fp m =
     (let key = (hs_Method fp, hs_URLPattern fp);
          d = (case map_of m key of None \<Rightarrow> \<lparr>hd_preHooks = [], hd_postHooks = []\<rparr> | Some d \<Rightarrow> d)
      in if hs_Type fp = PreHookType then AList.update key (d\<lparr>hd_preHooks := hd_preHooks d @ [hc]\<rparr>) m
         else if hs_Type fp = PostHookType then AList.update key (d\<lparr>hd_postHooks := hd_postHooks d @ [hc]\<rparr>) m
         else m)"

definition add_webhook :: "HookConfigurationItem \<Rightarrow> (string \<times> string, hookHandleData) gomap \<Rightarrow> (string \<times> string, hookHandleData) gomap option" where
  "add_webhook r m =
     (case newHookConnector (hi_Name r) (hi_Endpoint r) (hi_FailurePolicy r) of None \<Rightarrow> None
      | Some hc \<Rightarrow> Some (fold (add_stage hc) (hi_Stages r) m))"

definition newReverseProxy :: "string \<Rightarrow> string option" where
  "newReverseProxy remoteEndpoint = (case GetProtoAndAddress remoteEndpoint of Inl _ \<Rightarrow> None | Inr (_, addr) \<Rightarrow> Some addr)"

definition InitFromConfig :: "HookConfiguration \<Rightarrow> hookManager option" where
  "InitFromConfig config =
     (case newReverseProxy (hf_RemoteEndpoint config) of None \<Rightarrow> None
      | Some _ \<Rightarrow>
          map_option (\<lambda>m. \<lparr>hm_timeout = wrap64 (hf_Timeout config * 1000000000), hm_listenAddress = hf_ListenAddress config, hm_mux = m\<rparr>)
            (foldM add_webhook (hf_WebHooks config) []))"

definition hook_ServeHTTP :: "hook_env \<Rightarrow> hookManager \<Rightarrow> hook_request \<Rightarrow> hook_response" where
  "hook_ServeHTTP env hm req =
     (case find (\<lambda>((m, p), _). he_route env m p (rq_Method req) (rq_Path req)) (hm_mux hm) of
        Some (_, v) \<Rightarrow> handle_hooked env v req
      | None \<Rightarrow> if strings_HasPrefix (rq_Path req) ''/debug/pprof'' then he_pprof env req else he_backend env req)"

text \<open>Where the manager listens: an old socket is removed, and an abstract one ends the process.\<close>

definition hook_listen :: "hook_env \<Rightarrow> hookManager \<Rightarrow> (hook_error + string \<times> string) option" where
  "hook_listen env hm =
     (case GetProtoAndAddress (hm_listenAddress hm) of Inl e \<Rightarrow> Some (Inl e)
      | Inr (proto, addr) \<Rightarrow>
          if proto = UnixProto
          then (if strings_HasPrefix addr ''@'' then None else if he_remove env addr then Some (Inr (proto, addr)) else Some (Inl (RemoveFailed addr)))
          else Some (Inr (proto, addr)))"

end
