(* ===== verification/HookPlugin.thy ===== *)
theory HookPlugin
  imports Hook
begin

text \<open>
  \<^verbatim>\<open>contrib/lighthouse-plugin\<close>: the plugins that change requests of kubernetes to docker. For offline pods the control group of a new container is
  moved below \<open>offline\<close> and kubernetes may not set its cores; other plugins pass options from pod annotations to docker. A thread removes
  the control groups of offline pods that are gone. Docker, the control group mounts and their directories, feature gates and the decoding of
  container configurations are inputs; of docker's structures the fields the plugins read or change are modelled one by one and the others
  together as one opaque value. What is encoded is the structure: a key of the request that it does not know is not encoded, and the merge patch removes it. A handler that panics closes the connection (\<open>None\<close>).
\<close>

section \<open>Data\<close>

type_synonym labels = "(string, string) gomap"

record HostConfig =
  ho_CgroupParent :: string
  ho_UTSMode :: string
  ho_StorageOpt :: "(string, string) gomap option"
  ho_PidsLimit :: "int option"
  ho_other :: string

text \<open>Both parts are pointers that a request may leave nil.\<close>

record ContainerConfigWrapper =
  cw_Config :: "labels option option"
  cw_HostConfig :: "HostConfig option"
  cw_other :: string

record UpdateConfig =
  uc_CpusetCpus :: string
  uc_other :: string

record PodMetadata =
  pm_PodName :: string
  pm_PodUID :: string
  pm_SandBoxID :: string
  pm_Namespace :: string
  pm_ContainerName :: string
  pm_ContainerType :: string

record docker_container =
  dk_Labels :: "labels option"
  dk_Status :: string

datatype inspect_result = NoSuchContainer | InspectError | Inspected docker_container

record walk_entry =
  we_path :: string
  we_info :: "(string \<times> bool) option"

record plugin_env =
  pe_json :: json_ops
  pe_enabled :: "string \<Rightarrow> bool"
  pe_inspect :: "string \<Rightarrow> inspect_result"
  pe_list :: "labels list option"
  pe_mounts :: "string list option"
  pe_walk :: "string \<Rightarrow> walk_entry list"
  pe_pids_cgroup :: bool
  pe_route :: "string \<Rightarrow> string \<Rightarrow> (string, string) gomap option"
  pe_remove :: "string \<Rightarrow> bool"
  pe_decode_create :: "string \<Rightarrow> ContainerConfigWrapper option"
  pe_encode_create :: "ContainerConfigWrapper \<Rightarrow> string option"
  pe_decode_update :: "string \<Rightarrow> UpdateConfig option"
  pe_encode_update :: "UpdateConfig \<Rightarrow> string option"

record offlineMutator =
  om_started :: bool
  om_allCgroups :: "string list"

record pluginServer =
  ps_listenAddress :: string
  ps_ignoredNamespaces :: "string list"
  ps_offline :: offlineMutator

definition PodAnnotationPrefix :: string where
  "PodAnnotationPrefix = ''annotation.mixer.kubernetes.io/''"

definition label :: "labels \<Rightarrow> string \<Rightarrow> string" where
  "label m k = (case map_of m k of None \<Rightarrow> [] | Some v \<Rightarrow> v)"

definition GetPodMetadata :: "labels \<Rightarrow> PodMetadata" where
  "GetPodMetadata m =
     \<lparr>pm_PodName = label m ''io.kubernetes.pod.name'', pm_PodUID = label m ''io.kubernetes.pod.uid'',
      pm_SandBoxID = label m ''io.kubernetes.sandbox.id'', pm_Namespace = label m ''io.kubernetes.pod.namespace'',
      pm_ContainerName = label m ''io.kubernetes.container.name'', pm_ContainerType = label m ''io.kubernetes.docker.type''\<rparr>"

section \<open>Sub plugins\<close>

definition hook_IsOffline :: "labels option \<Rightarrow> bool" where
  "hook_IsOffline ls = (case ls of None \<Rightarrow> False | Some m \<Rightarrow> map_of m (PodAnnotationPrefix @ ''app-class'') = Some ''greedy'')"

text \<open>What a sub plugin makes of the configuration: \<open>None\<close> is a panic, \<open>Inl ()\<close> an error.\<close>

type_synonym 'c modified = "(unit + 'c) option"

definition offline_parent :: "string \<Rightarrow> string option" where
  "offline_parent oldCgroupParent =
     (let splits = split_on (CHR ''/'') oldCgroupParent in
      if length splits < 3 then None
      else Some (''/'' @ join_with ''/'' ([splits ! 1, ''offline''] @ drop 2 splits)))"

text \<open>The first call starts the thread that cleans up; its \<^verbatim>\<open>sync.Once\<close> is used up even when it panics.\<close>

definition start_cleanup :: "plugin_env \<Rightarrow> offlineMutator \<Rightarrow> bool \<times> offlineMutator" where
  "start_cleanup env om =
     (if om_started om then (True, om)
      else case pe_mounts env of
             None \<Rightarrow> (False, om\<lparr>om_started := True\<rparr>)
           | Some ms \<Rightarrow> (True, om\<lparr>om_started := True, om_allCgroups := ms\<rparr>))"

definition offline_mutate_config :: "plugin_env \<Rightarrow> ContainerConfigWrapper \<Rightarrow> PodMetadata \<Rightarrow> ContainerConfigWrapper modified" where
  "offline_mutate_config env c metadata =
     (if pm_ContainerType metadata \<noteq> ''container'' then Some (Inr c)
      else case pe_inspect env (pm_SandBoxID metadata) of
             Inspected j \<Rightarrow>
               if \<not> hook_IsOffline (dk_Labels j) then Some (Inr c)
               else (case cw_HostConfig c of None \<Rightarrow> None
                     | Some h \<Rightarrow>
                         (case offline_parent (ho_CgroupParent h) of
                            None \<Rightarrow> Some (Inr c)
                          | Some p \<Rightarrow> Some (Inr (c\<lparr>cw_HostConfig := Some (h\<lparr>ho_CgroupParent := p\<rparr>)\<rparr>))))
           | _ \<Rightarrow> Some (Inl ()))"

definition offline_mutate :: "plugin_env \<Rightarrow> ContainerConfigWrapper \<Rightarrow> PodMetadata \<Rightarrow> offlineMutator \<Rightarrow> ContainerConfigWrapper modified \<times> offlineMutator" where
  "offline_mutate env c metadata om =
     (if \<not> pe_enabled env ''DockerOfflineMutate'' then (Some (Inr c), om)
      else let (ok, om) = start_cleanup env om in (if ok then offline_mutate_config env c metadata else None, om))"

definition offline_update :: "plugin_env \<Rightarrow> UpdateConfig \<Rightarrow> PodMetadata \<Rightarrow> string \<Rightarrow> unit + UpdateConfig" where
  "offline_update env u metadata containerStatus =
     (if \<not> pe_enabled env ''DockerOfflineMutate'' \<or> pm_ContainerType metadata \<noteq> ''container'' then Inr u
      else case pe_inspect env (pm_SandBoxID metadata) of
             Inspected j \<Rightarrow>
               if \<not> hook_IsOffline (dk_Labels j) then Inr u
               else Inr (u\<lparr>uc_CpusetCpus := (if containerStatus = ''created'' then ''0'' else [])\<rparr>)
           | _ \<Rightarrow> Inl ())"

text \<open>The frame of the other sub plugins: a change of the host configuration by the labels of the sandbox.\<close>

definition with_sandbox ::
  "plugin_env \<Rightarrow> string \<Rightarrow> (labels \<Rightarrow> HostConfig option \<Rightarrow> HostConfig option option) \<Rightarrow> ContainerConfigWrapper \<Rightarrow> PodMetadata \<Rightarrow> ContainerConfigWrapper modified" where
  "with_sandbox env feature change c metadata =
     (if \<not> pe_enabled env feature \<or> pm_ContainerType metadata \<noteq> ''container'' then Some (Inr c)
      else case pe_inspect env (pm_SandBoxID metadata) of
             Inspected j \<Rightarrow>
               map_option (\<lambda>h. Inr (c\<lparr>cw_HostConfig := h\<rparr>)) (change (case dk_Labels j of None \<Rightarrow> [] | Some m \<Rightarrow> m) (cw_HostConfig c))
           | _ \<Rightarrow> Some (Inl ()))"

definition pidsLimit_handle :: "plugin_env \<Rightarrow> ContainerConfigWrapper \<Rightarrow> PodMetadata \<Rightarrow> ContainerConfigWrapper modified" where
  "pidsLimit_handle env =
     with_sandbox env ''DockerPidsLimit''
       (\<lambda>m h. case map_of m (PodAnnotationPrefix @ ''pids-limit'') of None \<Rightarrow> Some h
         | Some v \<Rightarrow> (case atoi v of None \<Rightarrow> Some h | Some n \<Rightarrow> map_option (\<lambda>h. Some (h\<lparr>ho_PidsLimit := Some n\<rparr>)) h))"

definition utsMode_handle :: "plugin_env \<Rightarrow> ContainerConfigWrapper \<Rightarrow> PodMetadata \<Rightarrow> ContainerConfigWrapper modified" where
  "utsMode_handle env =
     with_sandbox env ''DockerUTSMode''
       (\<lambda>m h. case map_of m (PodAnnotationPrefix @ ''uts-mode'') of None \<Rightarrow> Some h
         | Some v \<Rightarrow> map_option (\<lambda>h. Some (h\<lparr>ho_UTSMode := v\<rparr>)) h)"

definition set_option :: "string \<times> string \<Rightarrow> (string, string) gomap \<Rightarrow> (string, string) gomap" where
  "set_option = (\<lambda>(k, v) opts.
     let p = PodAnnotationPrefix @ ''storage-opt-''; optKey = strings_TrimPrefix k p
     in if strings_HasPrefix k p \<and> optKey \<noteq> [] then AList.update optKey v opts else opts)"

text \<open>The map of options is made before the sandbox is looked up.\<close>

definition storageOption_handle :: "plugin_env \<Rightarrow> ContainerConfigWrapper \<Rightarrow> PodMetadata \<Rightarrow> ContainerConfigWrapper modified" where
  "storageOption_handle env c metadata =
     (if \<not> pe_enabled env ''DockerStorageOption'' \<or> pm_ContainerType metadata \<noteq> ''container'' then Some (Inr c)
      else case cw_HostConfig c of None \<Rightarrow> None
        | Some h \<Rightarrow>
            (case pe_inspect env (pm_SandBoxID metadata) of
               Inspected j \<Rightarrow>
                 let opts = fold set_option (case dk_Labels j of None \<Rightarrow> [] | Some m \<Rightarrow> m) (case ho_StorageOpt h of None \<Rightarrow> [] | Some m \<Rightarrow> m)
                 in Some (Inr (c\<lparr>cw_HostConfig := Some (h\<lparr>ho_StorageOpt := Some opts\<rparr>)\<rparr>))
             | _ \<Rightarrow> Some (Inl ())))"

section \<open>Requests\<close>

definition groupPatchData :: "json_ops \<Rightarrow> string option \<Rightarrow> string \<Rightarrow> string option" where
  "groupPatchData J newBodyBytes bodyBytes = (case newBodyBytes of None \<Rightarrow> None | Some b \<Rightarrow> js_CreateMergePatch J bodyBytes b)"

text \<open>The sub plugins in the order in which their packages are initialised; the first error or panic ends the sequence.\<close>

definition then_handle :: "ContainerConfigWrapper modified \<Rightarrow> (ContainerConfigWrapper \<Rightarrow> ContainerConfigWrapper modified) \<Rightarrow> ContainerConfigWrapper modified" where
  "then_handle r f = (case r of Some (Inr c) \<Rightarrow> f c | _ \<Rightarrow> r)"

definition run_handlers :: "plugin_env \<Rightarrow> ContainerConfigWrapper \<Rightarrow> PodMetadata \<Rightarrow> offlineMutator \<Rightarrow> ContainerConfigWrapper modified \<times> offlineMutator" where
  "run_handlers env c metadata om =
     (let (r, om) = offline_mutate env c metadata om;
          r = (if pe_pids_cgroup env then then_handle r (\<lambda>c. pidsLimit_handle env c metadata) else r);
          r = then_handle r (\<lambda>c. storageOption_handle env c metadata)
      in (then_handle r (\<lambda>c. utsMode_handle env c metadata), om))"

definition plugin_ok :: "json_ops \<Rightarrow> string option \<Rightarrow> plugin_response" where
  "plugin_ok J p = \<lparr>pl_StatusCode = 200, pl_Body = js_encode_patch J \<lparr>pd_PatchType = MergePatchType, pd_PatchData = p\<rparr>\<rparr>"

definition plugin_error :: "nat \<Rightarrow> plugin_response" where
  "plugin_error code = \<lparr>pl_StatusCode = code, pl_Body = []\<rparr>"

definition handle_create :: "plugin_env \<Rightarrow> string option \<Rightarrow> pluginServer \<Rightarrow> plugin_response option \<times> pluginServer" where
  "handle_create env body s =
     (case body of None \<Rightarrow> (Some (plugin_error 502), s)
      | Some bodyBytes \<Rightarrow>
          (case pe_decode_create env bodyBytes of None \<Rightarrow> (Some (plugin_error 400), s)
           | Some c \<Rightarrow>
               (case cw_Config c of
                  None \<Rightarrow> (None, s)
                | Some None \<Rightarrow> (Some (plugin_ok (pe_json env) None), s)
                | Some (Some m) \<Rightarrow>
                    let metadata = GetPodMetadata m in
                    if pm_Namespace metadata \<in> set (ps_ignoredNamespaces s) then (Some (plugin_ok (pe_json env) None), s)
                    else let (r, om) = run_handlers env c metadata (ps_offline s); s = s\<lparr>ps_offline := om\<rparr>
                         in (case r of None \<Rightarrow> None
                             | Some (Inl _) \<Rightarrow> Some (plugin_error 500)
                             | Some (Inr c) \<Rightarrow>
                                 (case groupPatchData (pe_json env) (pe_encode_create env c) bodyBytes of
                                    None \<Rightarrow> Some (plugin_error 500)
                                  | Some p \<Rightarrow> Some (plugin_ok (pe_json env) (Some p))), s))))"

definition no_change :: plugin_response where
  "no_change = \<lparr>pl_StatusCode = 200, pl_Body = ''{}''\<rparr>"

definition generateContainerData :: "plugin_env \<Rightarrow> string list \<Rightarrow> string \<Rightarrow> plugin_response + PodMetadata \<times> string" where
  "generateContainerData env ignored conName =
     (case pe_inspect env conName of
        NoSuchContainer \<Rightarrow> Inl no_change
      | InspectError \<Rightarrow> Inl (plugin_error 500)
      | Inspected j \<Rightarrow>
          (case dk_Labels j of None \<Rightarrow> Inl no_change
           | Some m \<Rightarrow> if pm_Namespace (GetPodMetadata m) \<in> set ignored then Inl no_change else Inr (GetPodMetadata m, dk_Status j)))"

definition handle_update :: "plugin_env \<Rightarrow> (string, string) gomap \<Rightarrow> string option \<Rightarrow> pluginServer \<Rightarrow> plugin_response" where
  "handle_update env vars body s =
     (case body of None \<Rightarrow> plugin_error 502
      | Some bodyBytes \<Rightarrow>
          (case pe_decode_update env bodyBytes of None \<Rightarrow> plugin_error 400
           | Some u \<Rightarrow>
               (case generateContainerData env (ps_ignoredNamespaces s) (label vars ''name'') of
                  Inl a \<Rightarrow> a
                | Inr (metadata, status) \<Rightarrow>
                    (case offline_update env u metadata status of
                       Inl _ \<Rightarrow> plugin_error 500
                     | Inr u \<Rightarrow>
                         (case groupPatchData (pe_json env) (pe_encode_update env u) bodyBytes of
                            None \<Rightarrow> plugin_error 500
                          | Some p \<Rightarrow> plugin_ok (pe_json env) (Some p))))))"


section \<open>The server\<close>

definition create_path :: string where
  "create_path = ''/prehook/containers/create''"

definition versioned_create_path :: string where
  "versioned_create_path = ''/prehook/{id:v[.0-9]+}/containers/create''"

definition update_path :: string where
  "update_path = ''/prehook/containers/{name:.*}/update''"

text \<open>A request that no plugin handles is answered with nothing, which is the status 200.\<close>

definition plugin_ServeHTTP ::
  "plugin_env \<Rightarrow> string \<Rightarrow> string \<Rightarrow> string option \<Rightarrow> pluginServer \<Rightarrow> plugin_response option \<times> pluginServer" where
  "plugin_ServeHTTP env meth path body s =
     (if meth = ''POST'' \<and> (pe_route env create_path path \<noteq> None \<or> pe_route env versioned_create_path path \<noteq> None) then handle_create env body s
      else case (if meth = ''POST'' then pe_route env update_path path else None) of
             Some vars \<Rightarrow> (Some (handle_update env vars body s), s)
           | None \<Rightarrow> (Some (plugin_error 200), s))"

definition NewPluginServer :: "string \<Rightarrow> string list \<Rightarrow> pluginServer" where
  "NewPluginServer addr ignoredNamespaces =
     \<lparr>ps_listenAddress = addr, ps_ignoredNamespaces = ignoredNamespaces, ps_offline = \<lparr>om_started = False, om_allCgroups = []\<rparr>\<rparr>"

definition plugin_getProtoAndAddress :: "plugin_env \<Rightarrow> string \<Rightarrow> hook_error + string \<times> string" where
  "plugin_getProtoAndAddress env endpoint =
     (case GetProtoAndAddress endpoint of Inl e \<Rightarrow> Inl e
      | Inr (proto, addr) \<Rightarrow>
          if proto \<noteq> UnixProto then Inl MalformedSocket
          else if \<not> strings_HasPrefix addr ''@'' \<and> \<not> pe_remove env addr then Inl (RemoveFailed addr)
          else Inr (proto, addr))"

section \<open>Cleaning up\<close>

definition checkCleaningCgroupAvailable :: "string \<Rightarrow> string \<Rightarrow> string \<Rightarrow> bool" where
  "checkCleaningCgroupAvailable name path mountPoint =
     (length name = 39 \<and> strings_HasPrefix name ''pod'' \<and> strings_Contains path ''offline'' \<and>
      (let splits = split_on (CHR ''/'') (strings_TrimPrefix path mountPoint) in length splits > 3 \<and> splits ! 2 = ''offline''))"

definition existed_uids :: "labels list \<Rightarrow> string list" where
  "existed_uids cs = List.map_filter (\<lambda>m. map_of m ''io.kubernetes.pod.uid'') cs"

text \<open>One directory entry of the walk; an entry that cannot be read has no information, and asking for it panics.\<close>

definition visit_entry :: "string list \<Rightarrow> string \<Rightarrow> walk_entry \<Rightarrow> string list \<Rightarrow> string list option" where
  "visit_entry uids mountPoint e cleanPaths =
     (case we_info e of None \<Rightarrow> None
      | Some (name, isDir) \<Rightarrow>
          Some (if isDir \<and> checkCleaningCgroupAvailable name (we_path e) mountPoint \<and> strings_TrimPrefix name ''pod'' \<notin> set uids
                then cleanPaths @ [we_path e] else cleanPaths))"

text \<open>The paths passed to \<^verbatim>\<open>os.RemoveAll\<close>, whose errors are only logged; \<open>None\<close> is the end of the process. The list of containers is that of all, running or not.\<close>

definition cleanupEmptyCgroup :: "plugin_env \<Rightarrow> offlineMutator \<Rightarrow> string list option" where
  "cleanupEmptyCgroup env om =
     (case pe_list env of None \<Rightarrow> None
      | Some cs \<Rightarrow> foldM (\<lambda>m acc. foldM (visit_entry (existed_uids cs) m) (pe_walk env m) acc) (om_allCgroups om) [])"

end
