(* ===== verification/HookProps.thy ===== *)
theory HookProps
  imports HookPlugin "HOL-Library.Countable"
begin

text \<open>
  The lighthouse proxy and its plugins: hooks that decline are invisible, a container of an offline pod reaches the docker daemon with its
  control group below \<open>offline\<close>, and the cleanup removes exactly the directories of offline pods that are gone. Failures: a plugin's error refuses the
  request even where failures are to be ignored, and a failing post hook keeps the daemon's status.
\<close>

section \<open>Strings\<close>

lemma Contains_iff: "strings_Contains s x \<longleftrightarrow> (\<exists>a b. s = a @ x @ b)"
proof (induction s)
  case (Cons c s)
  have "strings_HasPrefix (c # s) x \<longleftrightarrow> (\<exists>b. c # s = x @ b)"
    unfolding strings_HasPrefix_def by (metis append_eq_conv_conj append_take_drop_id)
  moreover have "(\<exists>a b. c # s = a @ x @ b) \<longleftrightarrow> (\<exists>b. c # s = x @ b) \<or> (\<exists>a b. s = a @ x @ b)"
    by (metis append_Cons append_Nil list.inject neq_Nil_conv)
  ultimately show ?case using Cons by simp
qed simp

lemma split_part: "x \<in> set (split_on c s) \<Longrightarrow> \<exists>a b. s = a @ x @ b"
proof (induction s arbitrary: x)
  case (Cons y s)
  obtain z zs where z: "split_on c s = z # zs" by (cases "split_on c s") simp_all
  show ?case
  proof (cases "y = c")
    case True
    then show ?thesis using Cons by (auto simp: z) (metis append_Cons)+
  next
    case False
    then consider "x = y # z" | "x \<in> set zs" using Cons.prems by (auto simp: z)
    then show ?thesis
    proof cases
      case 1
      have "\<exists>b. s = z @ b"
        using z
      proof (induction s arbitrary: z zs)
        case (Cons w s)
        then show ?case by (cases "w = c"; cases "split_on c s") auto
      qed simp
      then show ?thesis using 1 by (metis append_Cons append_Nil)
    next
      case 2
      then show ?thesis using Cons.IH [of x] z by (metis append_Cons list.set_intros(2))
    qed
  qed
qed simp

lemma TrimPrefix_suffix: "\<exists>a. s = a @ strings_TrimPrefix s p"
  unfolding strings_TrimPrefix_def by (metis append_Nil append_take_drop_id)

lemma fix_plain: "\<not> strings_Contains t (CHR 0x5C # ''u003c'') \<Longrightarrow> \<not> strings_Contains t (CHR 0x5C # ''u003e'') \<Longrightarrow> fixUnexpectedEscape t = t"
  by (simp add: fixUnexpectedEscape_def ReplaceAll_absent)

section \<open>Cleanup\<close>

text \<open>The path of a pod's control group below \<open>offline\<close>: something, the root of the pods, \<open>offline\<close> and more.\<close>

definition offline_path :: "string \<Rightarrow> string \<Rightarrow> bool" where
  "offline_path m p \<longleftrightarrow> (\<exists>a b c rest. split_on (CHR ''/'') (strings_TrimPrefix p m) = a # b # ''offline'' # c # rest)"

lemma four_parts: "3 < length xs \<and> xs ! 2 = y \<longleftrightarrow> (\<exists>a b c rest. xs = a # b # y # c # rest)"
proof
  assume l: "3 < length xs \<and> xs ! 2 = y"
  then obtain a b d c rest where "xs = a # b # d # c # rest"
    by (cases xs; cases "tl xs"; cases "tl (tl xs)"; cases "tl (tl (tl xs))") auto
  then show "\<exists>a b c rest. xs = a # b # y # c # rest" using l by auto
qed auto

lemma available_iff: "checkCleaningCgroupAvailable name p m \<longleftrightarrow> (\<exists>uid. name = ''pod'' @ uid \<and> length uid = 36) \<and> offline_path m p"
proof -
  have n: "length name = 39 \<and> strings_HasPrefix name ''pod'' \<longleftrightarrow> (\<exists>uid. name = ''pod'' @ uid \<and> length uid = 36)"
    unfolding strings_HasPrefix_def
  proof
    assume l: "length name = 39 \<and> take (length ''pod'') name = ''pod''"
    then have "name = ''pod'' @ drop 3 name" using append_take_drop_id [of "length ''pod''" name] by (simp add: numeral_3_eq_3)
    moreover have "length (drop 3 name) = 36" using l by simp
    ultimately show "\<exists>uid. name = ''pod'' @ uid \<and> length uid = 36" by blast
  qed auto
  have o: "strings_Contains p ''offline''" if "offline_path m p"
  proof -
    have "''offline'' \<in> set (split_on (CHR ''/'') (strings_TrimPrefix p m))" using that by (auto simp: offline_path_def)
    then obtain a b where "strings_TrimPrefix p m = a @ ''offline'' @ b" using split_part by blast
    moreover obtain d where "p = d @ strings_TrimPrefix p m" using TrimPrefix_suffix by blast
    ultimately have "p = (d @ a) @ ''offline'' @ b" by simp
    then show ?thesis unfolding Contains_iff by blast
  qed
  show ?thesis unfolding checkCleaningCgroupAvailable_def Let_def four_parts using n o by (auto simp: offline_path_def)
qed

lemma visit_all:
  assumes "foldM (visit_entry uids m) es acc = Some paths"
  shows "set paths = set acc \<union> {we_path e | e uid. e \<in> set es \<and> we_info e = Some (''pod'' @ uid, True) \<and> length uid = 36 \<and> offline_path m (we_path e) \<and> uid \<notin> set uids}"
  using assms
proof (induction es arbitrary: acc)
  case (Cons e es)
  obtain name isDir where i: "we_info e = Some (name, isDir)" using Cons.prems by (auto simp: visit_entry_def split: option.splits)
  define acc' where "acc' = (if isDir \<and> checkCleaningCgroupAvailable name (we_path e) m \<and> strings_TrimPrefix name ''pod'' \<notin> set uids then acc @ [we_path e] else acc)"
  have "visit_entry uids m e acc = Some acc'" by (simp add: visit_entry_def acc'_def i)
  then have "foldM (visit_entry uids m) es acc' = Some paths" using Cons.prems by simp
  note IH = Cons.IH [OF this]
  have t: "strings_TrimPrefix (''pod'' @ u) ''pod'' = u" for u by (rule TrimPrefix_append)
  have "set acc' = set acc \<union> {we_path e' | e' uid. e' = e \<and> we_info e' = Some (''pod'' @ uid, True) \<and> length uid = 36 \<and> offline_path m (we_path e') \<and> uid \<notin> set uids}"
    unfolding acc'_def available_iff using i t by auto
  then show ?case unfolding IH by auto
qed simp


text \<open>
  C35. The cleanup removes exactly the directories of dead offline pods: a directory under a control group mount is removed if and only if it is named after a pod
  uid, lies below the \<open>offline\<close> group, and no container, running or not, carries that uid; the groups of online pods and of pods with
  containers are left alone.
\<close>

theorem cleanup_removes_dead_offline_pods:
  assumes "cleanupEmptyCgroup env om = Some paths" and "pe_list env = Some cs"
  shows "p \<in> set paths \<longleftrightarrow>
    (\<exists>m \<in> set (om_allCgroups om). \<exists>e \<in> set (pe_walk env m). \<exists>uid. we_path e = p \<and> we_info e = Some (''pod'' @ uid, True) \<and> length uid = 36 \<and>
       offline_path m p \<and> (\<forall>c \<in> set cs. map_of c ''io.kubernetes.pod.uid'' \<noteq> Some uid))"
proof -
  let ?dead = "\<lambda>m. {we_path e | e uid. e \<in> set (pe_walk env m) \<and> we_info e = Some (''pod'' @ uid, True) \<and> length uid = 36 \<and> offline_path m (we_path e) \<and>
      uid \<notin> set (existed_uids cs)}"
  have walk: "set ps = set acc \<union> (\<Union>m \<in> set ms. ?dead m)"
    if "foldM (\<lambda>m acc. foldM (visit_entry (existed_uids cs) m) (pe_walk env m) acc) ms acc = Some ps" for ms acc ps
    using that
  proof (induction ms arbitrary: acc)
    case (Cons m ms)
    then obtain acc' where a: "foldM (visit_entry (existed_uids cs) m) (pe_walk env m) acc = Some acc'" by (auto split: option.splits)
    then show ?case using Cons visit_all [OF a] by auto
  qed simp
  have "set paths = (\<Union>m \<in> set (om_allCgroups om). ?dead m)"
    using assms walk [of "om_allCgroups om" "[]" paths] by (simp add: cleanupEmptyCgroup_def)
  moreover have "uid \<notin> set (existed_uids cs) \<longleftrightarrow> (\<forall>c \<in> set cs. map_of c ''io.kubernetes.pod.uid'' \<noteq> Some uid)" for uid
    by (force simp: existed_uids_def List.map_filter_def simp del: map_of_eq_Some_iff)
  ultimately show ?thesis by auto
qed

text \<open>A node with the directory of an offline pod.\<close>

definition no_json :: json_ops where
  "no_json = \<lparr>js_decode_patch = (\<lambda>_. None), js_encode_patch = (\<lambda>_. []), js_DecodePatch = (\<lambda>_. False), js_Apply = (\<lambda>_ _. None), js_MergePatch = (\<lambda>_ _. None),
     js_CreateMergePatch = (\<lambda>_ _. None), js_marshal_post = (\<lambda>_ _. None), js_unmarshal_post = (\<lambda>_ _. None)\<rparr>"

definition sample_uid :: string where
  "sample_uid = ''f8f39b96-8198-43da-ac67-40f339d8441a''"

definition sample_dir :: string where
  "sample_dir = ''/cpu/kubepods/offline/besteffort/podf8f39b96-8198-43da-ac67-40f339d8441a''"

definition sample_plugin :: plugin_env where
  "sample_plugin = \<lparr>pe_json = no_json, pe_enabled = (\<lambda>f. f = ''DockerOfflineMutate''), pe_inspect = (\<lambda>_. InspectError), pe_list = Some [],
     pe_mounts = Some [''/cpu''], pe_walk = (\<lambda>_. [\<lparr>we_path = sample_dir, we_info = Some (''pod'' @ sample_uid, True)\<rparr>]), pe_pids_cgroup = True,
     pe_route = (\<lambda>pat path. if pat = path then Some [] else None), pe_remove = (\<lambda>_. True), pe_decode_create = (\<lambda>_. None), pe_encode_create = (\<lambda>_. None),
     pe_decode_update = (\<lambda>_. None), pe_encode_update = (\<lambda>_. None)\<rparr>"

lemma sample_cleanup: "cleanupEmptyCgroup sample_plugin \<lparr>om_started = True, om_allCgroups = [''/cpu'']\<rparr> = Some [sample_dir]"
  by code_simp

theorem cleanup_removes_dead_offline_pods_witness:
  "offline_path ''/cpu'' sample_dir \<and> (\<exists>uid. length uid = 36 \<and> ''pod'' @ uid = ''pod'' @ sample_uid)"
  using cleanup_removes_dead_offline_pods [OF sample_cleanup, of "[]" sample_dir] by (simp add: sample_plugin_def)


section \<open>Offline containers\<close>

text \<open>The control group of a pod, moved below \<open>offline\<close>, is one that the cleanup recognises.\<close>

lemma offline_parent_form:
  assumes "\<forall>s \<in> set (base # rest). CHR ''/'' \<notin> set s" and "rest \<noteq> []"
  shows "offline_parent (''/'' @ join_with ''/'' (base # rest)) = Some (''/'' @ join_with ''/'' (base # ''offline'' # rest))"
    and "offline_path m (m @ ''/'' @ join_with ''/'' (base # ''offline'' # rest))"
proof -
  have s: "split_on (CHR ''/'') (''/'' @ join_with ''/'' xs) = [] # xs" if "xs \<noteq> []" "\<forall>s \<in> set xs. CHR ''/'' \<notin> set s" for xs
    using split_join [OF that] by simp
  have t: "split_on (CHR ''/'') (''/'' @ join_with ''/'' (base # rest)) = [] # base # rest" using s [of "base # rest"] assms(1) by simp
  show "offline_parent (''/'' @ join_with ''/'' (base # rest)) = Some (''/'' @ join_with ''/'' (base # ''offline'' # rest))"
    unfolding offline_parent_def Let_def t using assms(2) by (cases rest) simp_all
  obtain c rest' where r: "rest = c # rest'" using assms(2) by (cases rest) auto
  have "split_on (CHR ''/'') (''/'' @ join_with ''/'' (base # ''offline'' # rest)) = [] # base # ''offline'' # rest"
    using s [of "base # ''offline'' # rest"] assms(1) by simp
  then show "offline_path m (m @ ''/'' @ join_with ''/'' (base # ''offline'' # rest))"
    unfolding offline_path_def TrimPrefix_append r by simp
qed

text \<open>
  What the plugin and the proxy rely on in JSON: an answer is decoded as it was encoded, every configuration is encoded to a text that is decoded to it again, and for two
  such texts there is a merge patch, which leads from one to the other.
\<close>

definition create_json :: "plugin_env \<Rightarrow> bool" where
  "create_json env \<longleftrightarrow>
     (\<forall>d. js_decode_patch (pe_json env) (js_encode_patch (pe_json env) \<lparr>pd_PatchType = MergePatchType, pd_PatchData = d\<rparr>) =
        Some \<lparr>pd_PatchType = MergePatchType, pd_PatchData = d\<rparr>) \<and>
     (\<forall>c. \<exists>t. pe_encode_create env c = Some t \<and> pe_decode_create env t = Some c) \<and>
     (\<forall>b c c' t. pe_decode_create env b = Some c \<longrightarrow> cw_Config c \<noteq> None \<longrightarrow> pe_encode_create env c' = Some t \<longrightarrow>
        (\<exists>p t'. js_CreateMergePatch (pe_json env) b t = Some p \<and> js_MergePatch (pe_json env) b p = Some t' \<and>
           pe_decode_create env t' = pe_decode_create env t))"

text \<open>The proxy's plugin is the plugin server.\<close>

definition connected :: "hook_env \<Rightarrow> plugin_env \<Rightarrow> pluginServer \<Rightarrow> bool" where
  "connected henv env s \<longleftrightarrow> he_json henv = pe_json env \<and> (\<forall>meth url. he_valid_request henv meth url) \<and>
     (\<forall>e meth path b. he_plugin henv e meth path b = fst (plugin_ServeHTTP env meth path (Some b) s))"

text \<open>The request of kubernetes for a container of an offline pod, with the plugin for offline pods enabled and others perhaps too.\<close>

definition offline_create :: "plugin_env \<Rightarrow> pluginServer \<Rightarrow> ContainerConfigWrapper \<Rightarrow> HostConfig \<Rightarrow> bool" where
  "offline_create env s c h \<longleftrightarrow>
     (case cw_Config c of Some (Some m) \<Rightarrow>
        pm_Namespace (GetPodMetadata m) \<notin> set (ps_ignoredNamespaces s) \<and> pm_ContainerType (GetPodMetadata m) = ''container'' \<and>
        (case pe_inspect env (pm_SandBoxID (GetPodMetadata m)) of Inspected j \<Rightarrow> hook_IsOffline (dk_Labels j) | _ \<Rightarrow> False)
      | _ \<Rightarrow> False) \<and>
     cw_HostConfig c = Some h \<and> pe_enabled env ''DockerOfflineMutate'' \<and> (om_started (ps_offline s) \<or> pe_mounts env \<noteq> None)"

text \<open>What the plugins beside the one for offline pods may do to the host configuration: each its own field, and only when it is enabled.\<close>

definition host_frame :: "plugin_env \<Rightarrow> HostConfig \<Rightarrow> HostConfig \<Rightarrow> bool" where
  "host_frame env h h' \<longleftrightarrow> ho_CgroupParent h' = ho_CgroupParent h \<and> ho_other h' = ho_other h \<and>
     (pe_enabled env ''DockerPidsLimit'' \<or> ho_PidsLimit h' = ho_PidsLimit h) \<and>
     (pe_enabled env ''DockerStorageOption'' \<or> ho_StorageOpt h' = ho_StorageOpt h) \<and>
     (pe_enabled env ''DockerUTSMode'' \<or> ho_UTSMode h' = ho_UTSMode h)"

lemma option_plugins:
  assumes "pe_inspect env (pm_SandBoxID md) = Inspected j" and "cw_HostConfig c = Some h"
  shows "\<exists>h'. pidsLimit_handle env c md = Some (Inr (c\<lparr>cw_HostConfig := Some h'\<rparr>)) \<and> host_frame env h h'"
    and "\<exists>h'. storageOption_handle env c md = Some (Inr (c\<lparr>cw_HostConfig := Some h'\<rparr>)) \<and> host_frame env h h'"
    and "\<exists>h'. utsMode_handle env c md = Some (Inr (c\<lparr>cw_HostConfig := Some h'\<rparr>)) \<and> host_frame env h h'"
proof -
  have c: "c\<lparr>cw_HostConfig := Some h\<rparr> = c" using assms(2) by simp
  let ?m = "case dk_Labels j of None \<Rightarrow> [] | Some m \<Rightarrow> m"
  let ?on = "\<lambda>f h'. if pe_enabled env f \<and> pm_ContainerType md = ''container'' then h' else h"
  let ?pids = "?on ''DockerPidsLimit'' (case map_of ?m (PodAnnotationPrefix @ ''pids-limit'') of None \<Rightarrow> h
    | Some v \<Rightarrow> (case atoi v of None \<Rightarrow> h | Some n \<Rightarrow> h\<lparr>ho_PidsLimit := Some n\<rparr>))"
  have "pidsLimit_handle env c md = Some (Inr (c\<lparr>cw_HostConfig := Some ?pids\<rparr>)) \<and> host_frame env h ?pids"
    using assms c by (simp add: pidsLimit_handle_def with_sandbox_def host_frame_def del: map_of_eq_Some_iff split: option.split)
  then show "\<exists>h'. pidsLimit_handle env c md = Some (Inr (c\<lparr>cw_HostConfig := Some h'\<rparr>)) \<and> host_frame env h h'" by blast
  let ?opt = "?on ''DockerStorageOption'' (h\<lparr>ho_StorageOpt := Some (fold set_option ?m (case ho_StorageOpt h of None \<Rightarrow> [] | Some m \<Rightarrow> m))\<rparr>)"
  have "storageOption_handle env c md = Some (Inr (c\<lparr>cw_HostConfig := Some ?opt\<rparr>)) \<and> host_frame env h ?opt"
    using assms c by (simp add: storageOption_handle_def host_frame_def Let_def)
  then show "\<exists>h'. storageOption_handle env c md = Some (Inr (c\<lparr>cw_HostConfig := Some h'\<rparr>)) \<and> host_frame env h h'" by blast
  let ?uts = "?on ''DockerUTSMode'' (case map_of ?m (PodAnnotationPrefix @ ''uts-mode'') of None \<Rightarrow> h | Some v \<Rightarrow> h\<lparr>ho_UTSMode := v\<rparr>)"
  have "utsMode_handle env c md = Some (Inr (c\<lparr>cw_HostConfig := Some ?uts\<rparr>)) \<and> host_frame env h ?uts"
    using assms c by (simp add: utsMode_handle_def with_sandbox_def host_frame_def del: map_of_eq_Some_iff split: option.split)
  then show "\<exists>h'. utsMode_handle env c md = Some (Inr (c\<lparr>cw_HostConfig := Some h'\<rparr>)) \<and> host_frame env h h'" by blast
qed

lemma host_frame_trans: "host_frame env h h' \<Longrightarrow> host_frame env h' h'' \<Longrightarrow> host_frame env h h''"
  by (auto simp: host_frame_def)

lemma offline_handlers:
  assumes "offline_create env s c h" and "cw_Config c = Some (Some m)" and "offline_parent (ho_CgroupParent h) = Some parent"
  shows "\<exists>h'. fst (run_handlers env c (GetPodMetadata m) (ps_offline s)) = Some (Inr (c\<lparr>cw_HostConfig := Some h'\<rparr>)) \<and>
     host_frame env (h\<lparr>ho_CgroupParent := parent\<rparr>) h'"
proof -
  let ?md = "GetPodMetadata m" and ?h0 = "h\<lparr>ho_CgroupParent := parent\<rparr>"
  obtain j where j: "pe_inspect env (pm_SandBoxID ?md) = Inspected j" using assms(1,2) by (auto simp: offline_create_def split: inspect_result.splits)
  have ok: "fst (start_cleanup env (ps_offline s))" using assms(1) by (auto simp: offline_create_def start_cleanup_def split: option.splits)
  have o: "offline_mutate_config env c ?md = Some (Inr (c\<lparr>cw_HostConfig := Some ?h0\<rparr>))"
    using assms by (auto simp: offline_create_def offline_mutate_config_def split: inspect_result.splits)
  then have 0: "fst (offline_mutate env c ?md (ps_offline s)) = Some (Inr (c\<lparr>cw_HostConfig := Some ?h0\<rparr>))"
    using ok assms(1) by (auto simp: offline_mutate_def offline_create_def Let_def split: prod.splits)
  note p = option_plugins [OF j, of "c\<lparr>cw_HostConfig := Some x\<rparr>" x for x, simplified]
  obtain h1 where h1: "(if pe_pids_cgroup env then pidsLimit_handle env (c\<lparr>cw_HostConfig := Some ?h0\<rparr>) ?md else Some (Inr (c\<lparr>cw_HostConfig := Some ?h0\<rparr>))) =
      Some (Inr (c\<lparr>cw_HostConfig := Some h1\<rparr>))" "host_frame env ?h0 h1"
    using p(1) [of ?h0] by (cases "pe_pids_cgroup env") (auto simp: host_frame_def)
  obtain h2 where h2: "storageOption_handle env (c\<lparr>cw_HostConfig := Some h1\<rparr>) ?md = Some (Inr (c\<lparr>cw_HostConfig := Some h2\<rparr>))" "host_frame env h1 h2"
    using p(2) [of h1] by blast
  obtain h3 where h3: "utsMode_handle env (c\<lparr>cw_HostConfig := Some h2\<rparr>) ?md = Some (Inr (c\<lparr>cw_HostConfig := Some h3\<rparr>))" "host_frame env h2 h3"
    using p(3) [of h2] by blast
  have "fst (run_handlers env c ?md (ps_offline s)) = Some (Inr (c\<lparr>cw_HostConfig := Some h3\<rparr>))"
    using 0 h1(1) h2(1) h3(1) by (auto simp: run_handlers_def then_handle_def case_prod_unfold Let_def split: if_splits)
  with h1(2) h2(2) h3(2) host_frame_trans show ?thesis by blast
qed



text \<open>An encoding of configurations as texts, for which the laws hold.\<close>

definition config_parts :: "ContainerConfigWrapper \<Rightarrow> labels option option \<times> (string \<times> string \<times> labels option \<times> int option \<times> string) option \<times> string" where
  "config_parts c = (cw_Config c, map_option (\<lambda>h. (ho_CgroupParent h, ho_UTSMode h, ho_StorageOpt h, ho_PidsLimit h, ho_other h)) (cw_HostConfig c), cw_other c)"

definition config_of_parts :: "labels option option \<times> (string \<times> string \<times> labels option \<times> int option \<times> string) option \<times> string \<Rightarrow> ContainerConfigWrapper" where
  "config_of_parts = (\<lambda>(l, h, x). \<lparr>cw_Config = l, cw_HostConfig = map_option (\<lambda>(p, u, s, n, y). \<lparr>ho_CgroupParent = p, ho_UTSMode = u, ho_StorageOpt = s, ho_PidsLimit = n, ho_other = y\<rparr>) h,
     cw_other = x\<rparr>)"

lemma parts_inverse: "config_of_parts (config_parts c) = c"
  by (cases "cw_HostConfig c") (simp_all add: config_parts_def config_of_parts_def)

definition config_text :: "ContainerConfigWrapper \<Rightarrow> string" where
  "config_text c = replicate (to_nat (config_parts c)) (CHR ''x'')"

definition text_json :: json_ops where
  "text_json = no_json\<lparr>js_decode_patch := (\<lambda>t. if t = [] then None else Some \<lparr>pd_PatchType = MergePatchType, pd_PatchData = if hd t = CHR ''n'' then None else Some (tl t)\<rparr>),
     js_encode_patch := (\<lambda>p. case pd_PatchData p of None \<Rightarrow> ''n'' | Some t \<Rightarrow> CHR ''p'' # t), js_MergePatch := (\<lambda>b p. Some p), js_CreateMergePatch := (\<lambda>b t. Some t)\<rparr>"

lemma config_text_plain: "fixUnexpectedEscape (config_text c) = config_text c"
proof -
  have "strings_HasPrefix (replicate (Suc n) (CHR ''x'')) (CHR 0x5C # s) = False" for n s by (simp add: strings_HasPrefix_def)
  then have "\<not> strings_Contains (replicate n (CHR ''x'')) (CHR 0x5C # s)" for n s by (induction n) simp_all
  then show ?thesis unfolding config_text_def by (intro fix_plain) blast+
qed


definition kubernetes_labels :: labels where
  "kubernetes_labels = [(''io.kubernetes.docker.type'', ''container''), (''io.kubernetes.sandbox.id'', ''s1'')]"

definition kubernetes_host :: HostConfig where
  "kubernetes_host = \<lparr>ho_CgroupParent = ''/kubepods/besteffort/pod1'', ho_UTSMode = [], ho_StorageOpt = None, ho_PidsLimit = None, ho_other = ''memory''\<rparr>"

definition kubernetes_config :: ContainerConfigWrapper where
  "kubernetes_config = \<lparr>cw_Config = Some (Some kubernetes_labels), cw_HostConfig = Some kubernetes_host, cw_other = ''image''\<rparr>"

definition text_plugin :: plugin_env where
  "text_plugin = sample_plugin\<lparr>pe_json := text_json, pe_inspect := (\<lambda>_. Inspected \<lparr>dk_Labels = Some [(PodAnnotationPrefix @ ''app-class'', ''greedy'')], dk_Status = ''running''\<rparr>),
     pe_decode_create := (\<lambda>t. Some (config_of_parts (from_nat (length t)))), pe_encode_create := (\<lambda>c. Some (config_text c))\<rparr>"

definition text_proxy :: hook_env where
  "text_proxy = \<lparr>he_json = text_json, he_valid_request = (\<lambda>_ _. True),
     he_plugin = (\<lambda>_ meth path b. fst (plugin_ServeHTTP text_plugin meth path (Some b) (NewPluginServer ''unix:///p.sock'' []))),
     he_route = (\<lambda>m p meth path. m = meth \<and> p = path), he_backend = (\<lambda>_. \<lparr>hr_Code = 201, hr_Header = [], hr_Body = []\<rparr>),
     he_pprof = (\<lambda>_. \<lparr>hr_Code = 200, hr_Header = [], hr_Body = []\<rparr>), he_error_text = (\<lambda>_. ''error''), he_remove = (\<lambda>_. True)\<rparr>"



section \<open>Failures\<close>

text \<open>
  The policy to ignore failures does not cover a plugin that answers with an error and no body: when the sandbox of a container cannot be
  inspected, the plugin answers 500 without a body, which is not JSON; the proxy takes this for an error, refuses the request with 500 and does not ask the
  daemon, also under the policy Ignore. A plugin that does not answer at all is ignored, and an answer
  with an error status is taken for a success when its body can be decoded.
\<close>

lemma ignored_failures_refuse:
  assumes "connected henv env s" and "js_decode_patch (pe_json env) [] = None" and "hc_failurePolicy hc = PolicyIgnore"
    and "pe_route env create_path (HookPath PreHookType path) \<noteq> None" and "pe_decode_create env body = Some c" and "cw_Config c = Some (Some m)"
    and "pm_Namespace (GetPodMetadata m) \<notin> set (ps_ignoredNamespaces s)" and "pm_ContainerType (GetPodMetadata m) = ''container''"
    and "pe_inspect env (pm_SandBoxID (GetPodMetadata m)) = InspectError" and "pe_enabled env ''DockerOfflineMutate''"
    and "om_started (ps_offline s) \<or> pe_mounts env \<noteq> None"
  shows "handle_hooked henv \<lparr>hd_preHooks = [hc], hd_postHooks = posts\<rparr> \<lparr>rq_Method = ''POST'', rq_Path = path, rq_Body = Some body, rq_ContentLength = n\<rparr> =
      \<lparr>hr_Code = 500, hr_Header = [], hr_Body = he_error_text henv path\<rparr> \<and>
    (he_plugin henv' (hc_endpoint hc) ''POST'' (HookPath PreHookType path) body = None \<longrightarrow> PreHook henv' hc ''POST'' path body \<in> {Inr empty_patch, Inl BadRequest})"
proof -
  have ok: "fst (start_cleanup env (ps_offline s))" using assms(11) by (auto simp: start_cleanup_def split: option.splits)
  have "fst (run_handlers env c (GetPodMetadata m) (ps_offline s)) = Some (Inl ())"
    using ok assms(8-10)
    by (auto simp: run_handlers_def offline_mutate_def offline_mutate_config_def then_handle_def Let_def split: prod.splits)
  then have "fst (handle_create env (Some body) s) = Some (plugin_error 500)"
    using assms(5-7) by (auto simp: handle_create_def Let_def split: prod.splits)
  then have "he_plugin henv e ''POST'' (HookPath PreHookType path) body = Some (plugin_error 500)" for e
    using assms(1,4) by (auto simp: connected_def plugin_ServeHTTP_def)
  then have "PreHook henv hc ''POST'' path body = Inl PatchUndecodable"
    using assms(1-3) by (simp add: PreHook_def performHook_def connected_def plugin_error_def allowFailure_def)
  then have "handle_hooked henv \<lparr>hd_preHooks = [hc], hd_postHooks = posts\<rparr> \<lparr>rq_Method = ''POST'', rq_Path = path, rq_Body = Some body, rq_ContentLength = n\<rparr> =
      \<lparr>hr_Code = 500, hr_Header = [], hr_Body = he_error_text henv path\<rparr>"
    by (simp add: handle_hooked_def preHook_chain_def apply_one_def)
  moreover have "he_plugin henv' (hc_endpoint hc) ''POST'' (HookPath PreHookType path) body = None \<longrightarrow> PreHook henv' hc ''POST'' path body \<in> {Inr empty_patch, Inl BadRequest}"
    using assms(3) by (simp add: PreHook_def performHook_def allowFailure_def)
  ultimately show ?thesis by blast
qed

lemma ignored_failures_refuse_witness:
  "hr_Code (handle_hooked (text_proxy\<lparr>he_plugin := (\<lambda>_ meth path b. fst (plugin_ServeHTTP (text_plugin\<lparr>pe_inspect := (\<lambda>_. InspectError)\<rparr>) meth path (Some b)
       (NewPluginServer ''unix:///p.sock'' [])))\<rparr>)
     \<lparr>hd_preHooks = [\<lparr>hc_name = ''plugin'', hc_endpoint = ''unix:///p.sock'', hc_failurePolicy = PolicyIgnore\<rparr>], hd_postHooks = []\<rparr>
     \<lparr>rq_Method = ''POST'', rq_Path = ''/containers/create'', rq_Body = Some (config_text kubernetes_config), rq_ContentLength = 0\<rparr>) = 500"
proof -
  let ?env = "text_plugin\<lparr>pe_inspect := (\<lambda>_. InspectError)\<rparr>" and ?s = "NewPluginServer ''unix:///p.sock'' []"
  let ?p = "text_proxy\<lparr>he_plugin := (\<lambda>_ meth path b. fst (plugin_ServeHTTP ?env meth path (Some b) ?s))\<rparr>"
  have conn: "connected ?p ?env ?s" by (simp add: connected_def text_proxy_def text_plugin_def)
  have dec: "pe_decode_create ?env (config_text kubernetes_config) = Some kubernetes_config" "cw_Config kubernetes_config = Some (Some kubernetes_labels)"
    by (simp_all add: text_plugin_def config_text_def parts_inverse kubernetes_config_def)
  have route: "pe_route ?env create_path (HookPath PreHookType ''/containers/create'') \<noteq> None"
    by (simp add: text_plugin_def sample_plugin_def) code_simp
  have rest: "js_decode_patch (pe_json ?env) [] = None" "pe_inspect ?env x = InspectError" "pe_enabled ?env ''DockerOfflineMutate''" "pe_mounts ?env \<noteq> None"
    "pm_Namespace (GetPodMetadata kubernetes_labels) \<notin> set (ps_ignoredNamespaces ?s)" "pm_ContainerType (GetPodMetadata kubernetes_labels) = ''container''" for x
    by (simp_all add: text_plugin_def sample_plugin_def text_json_def NewPluginServer_def GetPodMetadata_def kubernetes_labels_def label_def)
  let ?hc = "\<lparr>hc_name = ''plugin'', hc_endpoint = ''unix:///p.sock'', hc_failurePolicy = PolicyIgnore\<rparr>"
  show ?thesis
    using ignored_failures_refuse [OF conn rest(1) _ route dec rest(5,6,2,3), of ?hc "[]" 0 text_proxy] rest(4) by simp
qed

text \<open>The status of the daemon stays, whatever a post hook does.\<close>

lemma posthook_keeps_status: "rc_wrote w \<Longrightarrow> rc_Code (postHook_chain env handlers r w) = rc_Code w"
  by (simp add: postHook_chain_def Let_def rec_Write_def rec_WriteHeader_def split: option.splits sum.splits prod.splits)

text \<open>Of a header with several values the last is sent on.\<close>

lemma last_header_value: "set_headers [(k, vs @ [v])] = AList.update k [v] (set_headers [(k, vs)])"
  by (simp add: set_headers_def)

text \<open>An escaped backslash before a text that looks like an escape is taken apart.\<close>

lemma escape_broken: "fixUnexpectedEscape (CHR 0x22 # CHR 0x5C # CHR 0x5C # ''u003c'' @ [CHR 0x22]) = [CHR 0x22, CHR 0x5C, CHR ''<'', CHR 0x22]"
  by code_simp

text \<open>The path is sent to the plugins in lower case, the name of the container included.\<close>

lemma path_lowered: "HookPath PreHookType ''/containers/Web/update'' = ''/prehook/containers/web/update''"
  by code_simp

text \<open>A directory that vanishes during the walk ends the process.\<close>

lemma vanished_directory_panics:
  assumes "pe_walk env m = \<lparr>we_path = p, we_info = None\<rparr> # es" and "pe_list env = Some cs" and "om_allCgroups om = m # ms"
  shows "cleanupEmptyCgroup env om = None"
  using assms by (simp add: cleanupEmptyCgroup_def visit_entry_def)

text \<open>A parent that does not start with a slash loses its first element.\<close>

lemma relative_parent_cut: "offline_parent ''a/b/c'' = Some ''/b/offline/c''"
  by code_simp


section \<open>Hooks that decline, and the order of hooks\<close>

definition declines :: "hook_env \<Rightarrow> string \<Rightarrow> string \<Rightarrow> string \<Rightarrow> string \<Rightarrow> hookerConnector \<Rightarrow> bool" where
  "declines env hookType meth path body h \<longleftrightarrow> apply_one env hookType meth path h body = Inr body"

lemma applyHook_declined: "\<forall>h \<in> set hs. declines env ht meth path body h \<Longrightarrow> applyHook env hs ht meth path body = Inr body"
  by (induction hs) (simp_all add: declines_def)

lemma no_patch_declines:
  assumes "PreHook env h meth path body = Inr p" and "pd_PatchData p = None"
  shows "declines env PreHookType meth path body h"
  using assms by (simp add: declines_def apply_one_def)

lemma applyHook_append:
  "applyHook env (hs @ hs') ht meth path body =
     (case applyHook env hs ht meth path body of Inl e \<Rightarrow> Inl e | Inr b \<Rightarrow> applyHook env hs' ht meth path b)"
  by (induction hs arbitrary: body) (simp_all split: sum.splits)

text \<open>
  Hooks that decline are invisible: when no hook of a matched stage sends a patch, the daemon gets the request with its body, and the client gets the daemon's
  status and body, provided the body has no escapes of angle brackets and the daemon's answer survives its way through JSON.
\<close>

lemma declining_hooks_are_invisible:
  assumes "\<forall>h \<in> set (hd_preHooks v). declines env PreHookType (rq_Method r) (rq_Path r) body h"
    and "rq_Body r = Some body" and "rq_ContentLength r = int (length body)" and "fixUnexpectedEscape body = body"
    and "js_marshal_post (he_json env) (hr_Code (he_backend env r)) (hr_Body (he_backend env r)) = Some t" and "fixUnexpectedEscape t = t"
    and "js_unmarshal_post (he_json env) t (hr_Code (he_backend env r), hr_Body (he_backend env r)) = Some (code, hr_Body (he_backend env r))"
    and "\<forall>h \<in> set (hd_postHooks v). declines env PostHookType (rq_Method r) (rq_Path r) t h"
  shows "handle_hooked env v r =
    \<lparr>hr_Code = hr_Code (he_backend env r), hr_Header = set_headers (hr_Header (he_backend env r)), hr_Body = hr_Body (he_backend env r)\<rparr>"
proof -
  have "preHook_chain env (hd_preHooks v) r = Inr r"
    using assms(2-4) applyHook_declined [OF assms(1)] by (simp add: preHook_chain_def)
  moreover have "postHook_chain env (hd_postHooks v) r (record_backend env r) = record_backend env r"
    using assms(5-7) applyHook_declined [OF assms(8)]
    by (simp add: postHook_chain_def record_backend_def rec_Write_def rec_WriteHeader_def Let_def)
  ultimately show ?thesis by (simp add: handle_hooked_def record_backend_def Let_def)
qed

definition quiet_proxy :: hook_env where
  "quiet_proxy = text_proxy\<lparr>he_json := text_json\<lparr>js_marshal_post := (\<lambda>code b. Some b), js_unmarshal_post := (\<lambda>t d. Some (fst d, t))\<rparr>, he_plugin := (\<lambda>_ _ _ _. None),
     he_backend := (\<lambda>r. \<lparr>hr_Code = 201, hr_Header = [], hr_Body = ''made''\<rparr>)\<rparr>"

lemma declining_hooks_are_invisible_witness:
  "handle_hooked quiet_proxy \<lparr>hd_preHooks = [\<lparr>hc_name = ''p'', hc_endpoint = ''unix:///p'', hc_failurePolicy = PolicyIgnore\<rparr>], hd_postHooks = []\<rparr>
     \<lparr>rq_Method = ''POST'', rq_Path = ''/containers/create'', rq_Body = Some ''ask'', rq_ContentLength = 3\<rparr> = \<lparr>hr_Code = 201, hr_Header = [], hr_Body = ''made''\<rparr>"
proof -
  let ?v = "\<lparr>hd_preHooks = [\<lparr>hc_name = ''p'', hc_endpoint = ''unix:///p'', hc_failurePolicy = PolicyIgnore\<rparr>], hd_postHooks = []\<rparr>"
  let ?r = "\<lparr>rq_Method = ''POST'', rq_Path = ''/containers/create'', rq_Body = Some ''ask'', rq_ContentLength = 3\<rparr>"
  have plain: "fixUnexpectedEscape ''ask'' = ''ask''" "fixUnexpectedEscape ''made'' = ''made''" by code_simp+
  have d: "\<forall>h \<in> set (hd_preHooks ?v). declines quiet_proxy PreHookType (rq_Method ?r) (rq_Path ?r) ''ask'' h"
    by (simp add: declines_def apply_one_def PreHook_def performHook_def allowFailure_def quiet_proxy_def text_proxy_def empty_patch_def)
  show ?thesis
    using declining_hooks_are_invisible [OF d, where t = "''made''" and code = 201] plain by (simp add: quiet_proxy_def set_headers_def)
qed

text \<open>The hooks of a stage stand in the order of the configuration.\<close>

definition stage_hooks :: "string \<Rightarrow> string \<times> string \<Rightarrow> HookConfigurationItem \<Rightarrow> hookerConnector list" where
  "stage_hooks ht key r =
     map (\<lambda>_. \<lparr>hc_name = hi_Name r, hc_endpoint = hi_Endpoint r, hc_failurePolicy = hi_FailurePolicy r\<rparr>)
       (filter (\<lambda>fp. (hs_Method fp, hs_URLPattern fp) = key \<and> hs_Type fp = ht) (hi_Stages r))"

definition hooks_of :: "(hookHandleData \<Rightarrow> hookerConnector list) \<Rightarrow> (string \<times> string, hookHandleData) gomap \<Rightarrow> string \<times> string \<Rightarrow> hookerConnector list" where
  "hooks_of sel m key = (case map_of m key of None \<Rightarrow> [] | Some d \<Rightarrow> sel d)"

lemma stages_added:
  "hooks_of hd_preHooks (fold (add_stage hc) fps m) key =
     hooks_of hd_preHooks m key @ map (\<lambda>_. hc) (filter (\<lambda>fp. (hs_Method fp, hs_URLPattern fp) = key \<and> hs_Type fp = PreHookType) fps)"
  "hooks_of hd_postHooks (fold (add_stage hc) fps m) key =
     hooks_of hd_postHooks m key @ map (\<lambda>_. hc) (filter (\<lambda>fp. (hs_Method fp, hs_URLPattern fp) = key \<and> hs_Type fp = PostHookType) fps)"
  by (induction fps arbitrary: m) (auto simp: add_stage_def hooks_of_def Let_def PreHookType_def PostHookType_def split: option.splits)

lemma hooks_in_order:
  assumes "InitFromConfig config = Some hm"
  shows "hooks_of hd_preHooks (hm_mux hm) key = concat (map (stage_hooks PreHookType key) (hf_WebHooks config))"
    "hooks_of hd_postHooks (hm_mux hm) key = concat (map (stage_hooks PostHookType key) (hf_WebHooks config))"
proof -
  have f: "foldM add_webhook (hf_WebHooks config) [] = Some (hm_mux hm)" using assms by (auto simp: InitFromConfig_def split: option.splits)
  have c: "newHookConnector n e p = Some hc \<Longrightarrow> hc = \<lparr>hc_name = n, hc_endpoint = e, hc_failurePolicy = p\<rparr>" for n e p hc
    by (auto simp: newHookConnector_def split: if_splits)
  have g: "hooks_of hd_preHooks m' key = hooks_of hd_preHooks m key @ concat (map (stage_hooks PreHookType key) ws) \<and>
      hooks_of hd_postHooks m' key = hooks_of hd_postHooks m key @ concat (map (stage_hooks PostHookType key) ws)"
    if "foldM add_webhook ws m = Some m'" for ws m m'
    using that
  proof (induction ws arbitrary: m)
    case (Cons w ws)
    then obtain hc where hc: "newHookConnector (hi_Name w) (hi_Endpoint w) (hi_FailurePolicy w) = Some hc"
      by (auto simp: add_webhook_def split: option.splits)
    then have "add_webhook w m = Some (fold (add_stage hc) (hi_Stages w) m)" by (simp add: add_webhook_def)
    then have "foldM add_webhook ws (fold (add_stage hc) (hi_Stages w) m) = Some m'" using Cons.prems by simp
    from Cons.IH [OF this] show ?case by (simp add: stages_added stage_hooks_def c [OF hc])
  qed simp
  show "hooks_of hd_preHooks (hm_mux hm) key = concat (map (stage_hooks PreHookType key) (hf_WebHooks config))"
    "hooks_of hd_postHooks (hm_mux hm) key = concat (map (stage_hooks PostHookType key) (hf_WebHooks config))"
    using g [OF f] by (simp_all add: hooks_of_def)
qed

text \<open>Kubernetes cannot set the cores of a running offline container.\<close>

lemma offline_cores_cleared:
  assumes "pe_enabled env ''DockerOfflineMutate''" and "pm_ContainerType md = ''container''" and "pe_inspect env (pm_SandBoxID md) = Inspected j"
    and "hook_IsOffline (dk_Labels j)" and "status \<noteq> ''created''"
  shows "offline_update env u md status = Inr (u\<lparr>uc_CpusetCpus := []\<rparr>)"
  using assms by (simp add: offline_update_def)

end
