(* ===== verification/Notify.thy ===== *)
theory Notify
  imports HealthConfig CgroupFs
begin

text \<open>
  \<^verbatim>\<open>healthcheck/cgroupnotify\<close>: kills of offline jobs on events of the kernel's memory groups, beside the periodic checks. One notifier counts events of memory
  pressure, another waits after the usage has crossed a threshold below the limit and first drops the page cache. Events, the times the clock gives, and what dropping
  the cache does to the files are inputs; the result \<open>None\<close> is the end of the process.
\<close>

section \<open>Configuration\<close>

record MemoryPressureNotifyConfig =
  mp_Cgroups :: "string list"
  mp_PressureLevel :: string
  mp_Duration :: go_duration
  mp_Count :: int

record MemoryUsageNotifyConfig =
  mu_Cgroups :: "string list"
  mu_MarginMb :: int
  mu_Duration :: go_duration

record MemoryNotifyConfig =
  mf_Pressures :: "MemoryPressureNotifyConfig list"
  mf_Usages :: "MemoryUsageNotifyConfig list"

section \<open>Events of the kernel\<close>

text \<open>The calls that register an event, in order; the first that fails is the error.\<close>

definition notify_calls :: "string \<Rightarrow> string \<Rightarrow> string \<Rightarrow> string list" where
  "notify_calls p attribute notifyStr = [p @ ''/'' @ attribute, p @ ''/cgroup.event_control'', ''eventfd'', ''epoll_create'', ''write '' @ notifyStr]"

definition newCgroupNotify :: "(string \<Rightarrow> bool) \<Rightarrow> string \<Rightarrow> string \<Rightarrow> string \<Rightarrow> bool" where
  "newCgroupNotify sys p attribute notifyStr = list_all sys (notify_calls p attribute notifyStr)"

datatype epoll_result = EpollError | EpollInterrupted | EpollEvents "(int \<times> bool) list"

text \<open>Whether the eventfd is to be read; an event is its descriptor and whether it is a wakeup. At most six events can be recorded.\<close>

definition notify_wait :: "int \<Rightarrow> epoll_result \<Rightarrow> bool option" where
  "notify_wait eventfd r =
     (case r of
        EpollError \<Rightarrow> None
      | EpollInterrupted \<Rightarrow> Some False
      | EpollEvents es \<Rightarrow> if length es > 6 then None else Some (list_ex (\<lambda>(fd, wakeup). fd = eventfd \<and> wakeup) es))"

text \<open>The loop until the notifier is stopped: how many events are passed on. Each round is what epoll gives and whether the eventfd can be read.\<close>

fun notify_loop :: "int \<Rightarrow> (epoll_result \<times> bool) list \<Rightarrow> nat" where
  "notify_loop eventfd [] = 0"
| "notify_loop eventfd ((r, readable) # rs) =
     (case notify_wait eventfd r of
        None \<Rightarrow> 0
      | Some False \<Rightarrow> notify_loop eventfd rs
      | Some True \<Rightarrow> if readable then Suc (notify_loop eventfd rs) else 0)"

definition notify_start :: "bool \<Rightarrow> int \<Rightarrow> (epoll_result \<times> bool) list \<Rightarrow> nat" where
  "notify_start added eventfd rs = (if added then notify_loop eventfd rs else 0)"

section \<open>Memory pressure\<close>

record cgroupPressureNotifier =
  pn_cgroup :: string
  pn_duration :: go_duration
  pn_count :: int

text \<open>The local variables of the loop.\<close>

record pressure_state =
  ps_count :: int
  ps_lastTick :: "go_time option"

definition pressure_init :: pressure_state where
  "pressure_init = \<lparr>ps_count = 0, ps_lastTick = None\<rparr>"

text \<open>One event, with the three readings of the clock: against the old window, as the start of a new one, and against the duration.\<close>

definition pressure_event :: "cgroupPressureNotifier \<Rightarrow> go_time \<times> go_time \<times> go_time \<Rightarrow> pressure_state \<Rightarrow> pressure_state \<times> bool" where
  "pressure_event p = (\<lambda>(now1, now2, now3) st.
     let (tick, n) = (case ps_lastTick st of
           None \<Rightarrow> (now2, 0)
         | Some t \<Rightarrow> if t + (pn_duration p + pn_duration p) < now1 then (now2, 0) else (t, ps_count st));
         n = n + 1
     in if tick + pn_duration p > now3 then (\<lparr>ps_count = n, ps_lastTick = Some tick\<rparr>, False)
        else (\<lparr>ps_count = n, ps_lastTick = None\<rparr>, \<not> n < pn_count p))"

text \<open>The loop over the events: which of them call the handle function.\<close>

fun pressure_loop :: "cgroupPressureNotifier \<Rightarrow> (go_time \<times> go_time \<times> go_time) list \<Rightarrow> pressure_state \<Rightarrow> bool list" where
  "pressure_loop p [] st = []"
| "pressure_loop p (e # es) st = (let (st, handled) = pressure_event p e st in handled # pressure_loop p es st)"

section \<open>Memory usage\<close>

definition MemoryForceEmpty :: "bool \<Rightarrow> string \<Rightarrow> cgfs \<Rightarrow> cgfs \<times> (fs_error + bool)" where
  "MemoryForceEmpty write_error pathInRoot fs =
     (case WriteFile ''0'' (path_Join [fs_root fs, ''memory'', pathInRoot]) ''memory.force_empty'' fs of
        (fs, Inl e) \<Rightarrow> (fs, if write_error then Inr False else Inl e)
      | (fs, Inr _) \<Rightarrow> (fs, Inr True))"

definition minDroppedCache :: int where
  "minDroppedCache = 5120 * MemUnit"

record cgroupUsageNotifier =
  un_cgroup :: string
  un_duration :: go_duration
  un_threshold :: int

text \<open>What happens when the timer fires: the files after it, and whether the handle function is called. The parameter \<open>drop_cache\<close> is the kernel's work on \<^verbatim>\<open>memory.force_empty\<close>.\<close>

definition handleFuncWrapper :: "bool \<Rightarrow> (cgfs \<Rightarrow> cgfs) \<Rightarrow> cgroupUsageNotifier \<Rightarrow> cgfs \<Rightarrow> cgfs \<times> bool" where
  "handleFuncWrapper write_error drop_cache u fs =
     (case GetMemoryUsage (un_cgroup u) fs of
        Inl _ \<Rightarrow> (fs, False)
      | Inr currentUsage \<Rightarrow>
          if currentUsage < un_threshold u then (fs, False)
          else case MemoryForceEmpty write_error (un_cgroup u) fs of
                 (fs, Inr True) \<Rightarrow>
                   let fs = drop_cache fs in
                   (case GetMemoryUsage (un_cgroup u) fs of
                      Inl _ \<Rightarrow> (fs, True)
                    | Inr newestUsage \<Rightarrow>
                        if newestUsage \<ge> un_threshold u then (fs, True)
                        else (fs, \<not> (currentUsage - newestUsage > minDroppedCache \<or> newestUsage \<le> currentUsage div 2)))
               | (fs, _) \<Rightarrow> (fs, True))"

text \<open>The timer: every event sets it anew, and it fires once.\<close>

datatype usage_step = UsageEvent go_time | TimerAt go_time

definition usage_timer :: "cgroupUsageNotifier \<Rightarrow> usage_step \<Rightarrow> go_time option \<Rightarrow> go_time option \<times> bool" where
  "usage_timer u s timer =
     (case s of
        UsageEvent now \<Rightarrow> (Some (now + un_duration u), False)
      | TimerAt now \<Rightarrow> (case timer of None \<Rightarrow> (None, False) | Some t \<Rightarrow> if t \<le> now then (None, True) else (timer, False)))"

fun usage_loop :: "cgroupUsageNotifier \<Rightarrow> usage_step list \<Rightarrow> go_time option \<Rightarrow> bool list" where
  "usage_loop u [] timer = []"
| "usage_loop u (s # ss) timer = (let (timer, fired) = usage_timer u s timer in fired # usage_loop u ss timer)"

section \<open>The manager\<close>

datatype cgroupNotifier = PressureNotifier cgroupPressureNotifier | UsageNotifier cgroupUsageNotifier

definition generateMemoryPressureNotifier :: "(string \<Rightarrow> bool) \<Rightarrow> string \<Rightarrow> MemoryPressureNotifyConfig list \<Rightarrow> cgroupNotifier list" where
  "generateMemoryPressureNotifier sys cgRootPath cfgs =
     concat (map (\<lambda>c. map (\<lambda>cg. PressureNotifier \<lparr>pn_cgroup = cg, pn_duration = mp_Duration c, pn_count = mp_Count c\<rparr>)
       (filter (\<lambda>cg. newCgroupNotify sys (path_Join [cgRootPath, ''memory'', cg]) ''memory.pressure_level'' (mp_PressureLevel c)) (mp_Cgroups c))) cfgs)"

definition usage_notifier :: "(string \<Rightarrow> bool) \<Rightarrow> cgfs \<Rightarrow> string \<Rightarrow> MemoryUsageNotifyConfig \<Rightarrow> string \<Rightarrow> cgroupNotifier list option" where
  "usage_notifier sys fs cgRootPath c cg =
     (case GetMemoryLimit cg fs of
        Inl _ \<Rightarrow> Some []
      | Inr (limitSize, limited) \<Rightarrow>
          if \<not> limited then Some []
          else let threshold = wrap64 (limitSize - mu_MarginMb c * MemUnit) in
            if threshold \<le> 0 then None
            else if newCgroupNotify sys (path_Join [cgRootPath, ''memory'', cg]) ''memory.usage_in_bytes'' (show_int threshold)
            then Some [UsageNotifier \<lparr>un_cgroup = cg, un_duration = mu_Duration c, un_threshold = threshold\<rparr>] else Some [])"

definition generateMemoryUsageNotifier :: "(string \<Rightarrow> bool) \<Rightarrow> cgfs \<Rightarrow> string \<Rightarrow> MemoryUsageNotifyConfig list \<Rightarrow> cgroupNotifier list option" where
  "generateMemoryUsageNotifier sys fs cgRootPath cfgs =
     foldM (\<lambda>(c, cg) acc. map_option (\<lambda>ns. acc @ ns) (usage_notifier sys fs cgRootPath c cg)) (concat (map (\<lambda>c. map (\<lambda>cg. (c, cg)) (mu_Cgroups c)) cfgs)) []"

definition newMemoryNotifier :: "(string \<Rightarrow> bool) \<Rightarrow> cgfs \<Rightarrow> MemoryNotifyConfig \<Rightarrow> cgroupNotifier list option" where
  "newMemoryNotifier sys fs cfg =
     map_option (\<lambda>us. generateMemoryPressureNotifier sys (fs_root fs) (mf_Pressures cfg) @ us) (generateMemoryUsageNotifier sys fs (fs_root fs) (mf_Usages cfg))"

definition NewNotifyManager :: "(string \<Rightarrow> bool) \<Rightarrow> cgfs \<Rightarrow> MemoryNotifyConfig option \<Rightarrow> cgroupNotifier list option" where
  "NewNotifyManager sys fs cfg = (case cfg of None \<Rightarrow> Some [] | Some m \<Rightarrow> newMemoryNotifier sys fs m)"


section \<open>When offline jobs are killed\<close>

fun pressure_after :: "cgroupPressureNotifier \<Rightarrow> (go_time \<times> go_time \<times> go_time) list \<Rightarrow> pressure_state \<Rightarrow> pressure_state" where
  "pressure_after p [] st = st"
| "pressure_after p (e # es) st = pressure_after p es (fst (pressure_event p e st))"

lemma length_pressure_loop [simp]: "length (pressure_loop p es st) = length es"
  by (induction es arbitrary: st) (simp_all split: prod.splits)

lemma pressure_loop_snoc:
  "pressure_loop p (es @ [e]) st = pressure_loop p es st @ [snd (pressure_event p e (pressure_after p es st))]"
  "pressure_after p (es @ [e]) st = fst (pressure_event p e (pressure_after p es st))"
  by (induction es arbitrary: st) (simp_all split: prod.splits)

text \<open>The open window: its first event \<open>k\<close>, the events since, and no kill among them.\<close>

definition in_window :: "cgroupPressureNotifier \<Rightarrow> (go_time \<times> go_time \<times> go_time) list \<Rightarrow> nat \<Rightarrow> pressure_state \<Rightarrow> bool" where
  "in_window p es k st \<longleftrightarrow> k < length es \<and> ps_lastTick st = Some (fst (snd (es ! k))) \<and> ps_count st = int (length es - k) \<and>
     (\<forall>j. k < j \<and> j < length es \<longrightarrow> fst (es ! j) \<le> fst (snd (es ! k)) + 2 * pn_duration p) \<and>
     (\<forall>j. k \<le> j \<and> j < length es \<longrightarrow> \<not> pressure_loop p es pressure_init ! j)"

lemma window_open: "ps_lastTick (pressure_after p es pressure_init) = None \<or> (\<exists>k. in_window p es k (pressure_after p es pressure_init))"
proof (induction es rule: rev_induct)
  case (snoc e es)
  obtain n1 n2 n3 where e: "e = (n1, n2, n3)" by (metis prod_cases3)
  define st where "st = pressure_after p es pressure_init"
  show ?case
  proof (cases "snd (pressure_event p e st) \<or> ps_lastTick (fst (pressure_event p e st)) = None")
    case True
    then have "ps_lastTick (fst (pressure_event p e st)) = None" by (auto simp: pressure_event_def e Let_def split: prod.splits if_splits)
    then show ?thesis by (simp add: pressure_loop_snoc st_def)
  next
    case False
    show ?thesis
    proof (cases "ps_lastTick st = None \<or> the (ps_lastTick st) + 2 * pn_duration p < n1")
      case True
      then have "fst (pressure_event p e st) = \<lparr>ps_count = 1, ps_lastTick = Some n2\<rparr>"
        using False by (auto simp: pressure_event_def e Let_def split: option.splits if_splits)
      then have "in_window p (es @ [e]) (length es) (pressure_after p (es @ [e]) pressure_init)"
        using False by (auto simp: in_window_def pressure_loop_snoc st_def [symmetric] e nth_append less_Suc_eq)
      then show ?thesis by blast
    next
      case old: False
      then obtain k where k: "in_window p es k st" using snoc by (auto simp: st_def)
      then have "fst (pressure_event p e st) = \<lparr>ps_count = ps_count st + 1, ps_lastTick = ps_lastTick st\<rparr>"
        using False old by (auto simp: pressure_event_def e Let_def in_window_def split: option.splits if_splits)
      then have "in_window p (es @ [e]) k (pressure_after p (es @ [e]) pressure_init)"
        using False old k by (auto simp: in_window_def pressure_loop_snoc st_def [symmetric] e nth_append less_Suc_eq)
      then show ?thesis by blast
    qed
  qed
qed (simp add: pressure_init_def)

text \<open>
  C30. Offline jobs are killed for memory pressure only when it is sustained: a kill at an event ends a window of events, the first of which lies at least the configured
  duration and at most twice that duration back, in which as many events were received as configured; no other kill falls into the window, so that every kill needs new events.
\<close>

theorem pressure_kills_when_sustained:
  assumes "i < length es" and "pressure_loop p es pressure_init ! i"
  shows "\<exists>k \<le> i. pn_count p \<le> int (i - k + 1) \<and> fst (snd (es ! k)) + pn_duration p \<le> snd (snd (es ! i)) \<and>
    (k < i \<longrightarrow> fst (es ! i) \<le> fst (snd (es ! k)) + 2 * pn_duration p) \<and>
    (\<forall>j. k \<le> j \<and> j < i \<longrightarrow> \<not> pressure_loop p es pressure_init ! j)"
proof -
  define pre where "pre = take i es"
  define st where "st = pressure_after p pre pressure_init"
  obtain n1 n2 n3 where e: "es ! i = (n1, n2, n3)" by (metis prod_cases3)
  have split: "es = pre @ es ! i # drop (Suc i) es" using assms(1) by (simp add: pre_def id_take_nth_drop)
  have loop_append: "pressure_loop p (xs @ ys) s = pressure_loop p xs s @ pressure_loop p ys (pressure_after p xs s)" for xs ys s
    by (induction xs arbitrary: s) (simp_all split: prod.splits)
  have l: "length pre = i" using assms(1) by (simp add: pre_def)
  have before: "pressure_loop p es pressure_init ! j = pressure_loop p pre pressure_init ! j" if "j < i" for j
    using that l loop_append [of pre "es ! i # drop (Suc i) es" pressure_init] split by (metis length_pressure_loop nth_append)
  have "pressure_loop p es pressure_init ! i = snd (pressure_event p (es ! i) st)"
    using loop_append [of pre "es ! i # drop (Suc i) es" pressure_init] split l unfolding st_def
    by (metis (no_types, lifting) case_prod_unfold length_pressure_loop nth_append_length pressure_loop.simps(2))
  then have h: "snd (pressure_event p (n1, n2, n3) st)" using assms(2) e by simp
  show ?thesis
  proof (cases "ps_lastTick st = None \<or> the (ps_lastTick st) + 2 * pn_duration p < n1")
    case True
    then have "pn_count p \<le> 1 \<and> n2 + pn_duration p \<le> n3"
      using h by (auto simp: pressure_event_def Let_def split: option.splits if_splits)
    then show ?thesis by (intro exI [of _ i]) (auto simp: e)
  next
    case False
    then obtain k where k: "in_window p pre k st" using window_open [of p pre] by (auto simp: st_def)
    then have ek: "es ! k = pre ! k" "k < i" using l by (auto simp: in_window_def pre_def)
    have "pn_count p \<le> int (i - k + 1) \<and> fst (snd (es ! k)) + pn_duration p \<le> n3 \<and> n1 \<le> fst (snd (es ! k)) + 2 * pn_duration p"
      using h False k l ek by (auto simp: pressure_event_def Let_def in_window_def split: option.splits if_splits)
    then show ?thesis using k before ek l by (intro exI [of _ k]) (auto simp: e in_window_def)
  qed
qed


theorem pressure_kills_when_sustained_witness:
  "let p = \<lparr>pn_cgroup = ''/offline'', pn_duration = 10, pn_count = 2\<rparr>; es = [(0, 0, 0), (4, 4, 4), (11, 11, 11)] in
     pressure_loop p es pressure_init = [False, False, True] \<and>
     (\<exists>k \<le> 2. pn_count p \<le> int (2 - k + 1) \<and> fst (snd (es ! k)) + pn_duration p \<le> 11)"
proof -
  let ?p = "\<lparr>pn_cgroup = ''/offline'', pn_duration = 10, pn_count = 2\<rparr>" and ?es = "[(0, 0, 0), (4, 4, 4), (11, 11, 11)] :: (int \<times> int \<times> int) list"
  have l: "pressure_loop ?p ?es pressure_init = [False, False, True]" by (simp add: pressure_init_def pressure_event_def)
  then have "\<exists>k \<le> 2. pn_count ?p \<le> int (2 - k + 1) \<and> fst (snd (?es ! k)) + pn_duration ?p \<le> 11"
    using pressure_kills_when_sustained [of 2 ?es ?p] by auto
  with l show ?thesis by (simp only: Let_def)
qed

text \<open>Pressure that lasts is handled: the first event at or after the duration, within twice the duration, if enough events came.\<close>

lemma quiet_window:
  assumes "\<forall>e \<in> set es. snd (snd e) < t + pn_duration p \<and> fst e \<le> t + 2 * pn_duration p"
  shows "pressure_after p es \<lparr>ps_count = n, ps_lastTick = Some t\<rparr> = \<lparr>ps_count = n + int (length es), ps_lastTick = Some t\<rparr>"
  using assms
proof (induction es arbitrary: n)
  case (Cons e es)
  obtain a b c where e: "e = (a, b, c)" by (metis prod_cases3)
  have "fst (pressure_event p e \<lparr>ps_count = n, ps_lastTick = Some t\<rparr>) = \<lparr>ps_count = n + 1, ps_lastTick = Some t\<rparr>"
    using Cons.prems by (auto simp: pressure_event_def e)
  then show ?case using Cons by simp
qed simp

lemma lasting_pressure_is_handled:
  assumes "\<forall>e \<in> set es. snd (snd e) < t + pn_duration p \<and> fst e \<le> t + 2 * pn_duration p" and "pn_count p \<le> n + int (length es) + 1"
    and "t + pn_duration p \<le> c" and "a \<le> t + 2 * pn_duration p"
  shows "snd (pressure_event p (a, b, c) (pressure_after p es \<lparr>ps_count = n, ps_lastTick = Some t\<rparr>))"
  using assms(2-4) by (simp add: quiet_window [OF assms(1)] pressure_event_def)

text \<open>On high usage the kill is spared only when dropping the cache helped: the usage fell below the threshold and by more than the least amount or by half.\<close>

lemma usage_handled_iff:
  assumes "GetMemoryUsage (un_cgroup u) fs = Inr now" and "MemoryForceEmpty we (un_cgroup u) fs = (fs1, Inr True)"
    and "GetMemoryUsage (un_cgroup u) (drop_cache fs1) = Inr later"
  shows "snd (handleFuncWrapper we drop_cache u fs) \<longleftrightarrow>
    un_threshold u \<le> now \<and> \<not> (later < un_threshold u \<and> (now - later > minDroppedCache \<or> later \<le> now div 2))"
  using assms by (auto simp: handleFuncWrapper_def Let_def)

text \<open>Events that keep coming before the duration is over postpone the handling for as long as they come.\<close>

lemma events_postpone_handling:
  assumes "gap < un_duration u"
  shows "\<not> list_ex id (usage_loop u (concat (map (\<lambda>t. [UsageEvent t, TimerAt (t + gap)]) ts)) timer)"
  using assms by (induction ts arbitrary: timer) (simp_all add: usage_timer_def)

text \<open>A threshold is positive and the margin below the limit, in 64 bits.\<close>

lemma usage_thresholds:
  assumes "usage_notifier sys fs r c cg = Some ns" and "UsageNotifier u \<in> set ns"
  shows "\<exists>limit. GetMemoryLimit cg fs = Inr (limit, True) \<and> un_threshold u = wrap64 (limit - mu_MarginMb c * MemUnit) \<and> 0 < un_threshold u"
  using assms by (auto simp: usage_notifier_def Let_def split: sum.splits if_splits)

end
