(* ===== verification/HealthManager.thy ===== *)
theory HealthManager
  imports Notify
begin

text \<open>
  \<^verbatim>\<open>healthcheck/health_check.go\<close> and the reading of its file (\<^verbatim>\<open>types/health_check.go\<close>): the health manager starts the rule checker and the notifiers of its configuration
  and replaces them when the file changes. The content of the file, its decoding and the hash function are inputs; \<open>None\<close> is the end of the process.
\<close>

section \<open>The configuration file\<close>

record HealthCheckConfig =
  hcc_Disable :: bool
  hcc_RuleNodes :: "string list"
  hcc_ContainerRules :: "RuleCheckConfig option list"
  hcc_NodeRules :: "RuleCheckConfig option list"
  hcc_AppRules :: "RuleCheckConfig option list"
  hcc_MemoryCgroup :: "MemoryNotifyConfig option"

definition pressureLevel :: "string list" where
  "pressureLevel = [''low'', ''medium'', ''critical'']"

text \<open>Whether the process goes on.\<close>

definition initNotifyConfig :: "MemoryNotifyConfig option \<Rightarrow> bool" where
  "initNotifyConfig cfg =
     (case cfg of None \<Rightarrow> True
      | Some m \<Rightarrow> list_all (\<lambda>p. mp_Cgroups p = [] \<or> mp_PressureLevel p \<in> set pressureLevel) (mf_Pressures m))"

text \<open>The rules of one kind; a nil pointer stays nil.\<close>

definition rules_available :: "decoders \<Rightarrow> int \<Rightarrow> Devices \<Rightarrow> Resource \<Rightarrow> RuleCheckConfig option list \<Rightarrow> RuleCheckConfig option list option" where
  "rules_available J totalMilli dev reserved rules =
     those (map (\<lambda>r. case r of None \<Rightarrow> Some None | Some rc \<Rightarrow> map_option Some (ruleCheckAvailable J totalMilli dev reserved rc)) rules)"

text \<open>\<open>Some (Inl _)\<close> is an error: the file cannot be read or decoded.\<close>

definition InitHealthCheckConfigFunc ::
  "decoders \<Rightarrow> int \<Rightarrow> Devices \<Rightarrow> Resource \<Rightarrow> (string \<Rightarrow> HealthCheckConfig option) \<Rightarrow> string option \<Rightarrow> (unit + HealthCheckConfig) option" where
  "InitHealthCheckConfigFunc J totalMilli dev reserved decode content =
     (case content of
        None \<Rightarrow> Some (Inl ())
      | Some b \<Rightarrow>
          (case decode b of
             None \<Rightarrow> Some (Inl ())
           | Some config \<Rightarrow> do {
               nodeRules \<leftarrow> rules_available J totalMilli dev reserved (hcc_NodeRules config);
               containerRules \<leftarrow> rules_available J totalMilli dev reserved (hcc_ContainerRules config);
               appRules \<leftarrow> rules_available J totalMilli dev reserved (hcc_AppRules config);
               if initNotifyConfig (hcc_MemoryCgroup config)
               then Some (Inr (config\<lparr>hcc_NodeRules := nodeRules, hcc_ContainerRules := containerRules, hcc_AppRules := appRules\<rparr>)) else None
             }))"

section \<open>The manager\<close>

text \<open>What the manager calls: the reading of the configuration, the hash of the content, the address of the node, and the kernel's answers when notifiers are made.\<close>

record health_env =
  he_config :: "string option \<Rightarrow> (unit + HealthCheckConfig) option"
  he_hash :: "string \<Rightarrow> string"
  he_NodeIP :: string
  he_sys :: "string \<Rightarrow> bool"
  he_fs :: cgfs

text \<open>The field \<open>hm_running\<close> lists the configurations whose rule checker and notifiers run; \<open>hm_watching\<close> tells that the file is watched.\<close>

record health_manager =
  hm_config :: HealthCheckConfig
  hm_notifiers :: "cgroupNotifier list"
  hm_configHash :: string
  hm_running :: "HealthCheckConfig list"
  hm_watching :: bool

definition hashFile :: "(string \<Rightarrow> string) \<Rightarrow> string option \<Rightarrow> string option" where
  "hashFile h content = map_option h content"

text \<open>The file is read twice, once for the configuration and once for the hash.\<close>

definition NewHealthManager :: "health_env \<Rightarrow> string option \<Rightarrow> string option \<Rightarrow> health_manager option" where
  "NewHealthManager E content content' =
     (case he_config E content of
        Some (Inr config) \<Rightarrow>
          (case hashFile (he_hash E) content' of
             None \<Rightarrow> None
           | Some h \<Rightarrow> map_option (\<lambda>ns. \<lparr>hm_config = config, hm_notifiers = ns, hm_configHash = h, hm_running = [], hm_watching = False\<rparr>)
               (NewNotifyManager (he_sys E) (he_fs E) (hcc_MemoryCgroup config)))
      | _ \<Rightarrow> None)"

definition health_Run :: "health_manager \<Rightarrow> health_manager" where
  "health_Run hm = (if hcc_Disable (hm_config hm) then hm else hm\<lparr>hm_running := hm_config hm # hm_running hm, hm_watching := True\<rparr>)"

text \<open>Here the first read is for the hash. \<open>Some None\<close>: nothing to do.\<close>

definition checkNeedReload :: "health_env \<Rightarrow> string option \<Rightarrow> string option \<Rightarrow> health_manager \<Rightarrow> (string \<times> HealthCheckConfig) option option" where
  "checkNeedReload E content content' hm =
     (case hashFile (he_hash E) content of
        None \<Rightarrow> Some None
      | Some h \<Rightarrow>
          if h = hm_configHash hm then Some None
          else (case he_config E content' of
                  Some (Inr config) \<Rightarrow>
                    if hcc_RuleNodes config \<noteq> [] \<and> he_NodeIP E \<notin> set (hcc_RuleNodes config) then Some None else Some (Some (h, config))
                | _ \<Rightarrow> None))"

definition reload :: "health_env \<Rightarrow> string option \<Rightarrow> string option \<Rightarrow> health_manager \<Rightarrow> health_manager option" where
  "reload E content content' hm =
     (case checkNeedReload E content content' hm of
        None \<Rightarrow> None
      | Some None \<Rightarrow> Some hm
      | Some (Some (h, config)) \<Rightarrow>
          map_option (\<lambda>ns. hm\<lparr>hm_configHash := h, hm_config := config, hm_notifiers := ns, hm_running := config # remove1 (hm_config hm) (hm_running hm)\<rparr>)
            (NewNotifyManager (he_sys E) (he_fs E) (hcc_MemoryCgroup config)))"

text \<open>The watcher: every event of the directory, with what the two reads of the file find.\<close>

definition configWatcher :: "health_env \<Rightarrow> (string option \<times> string option) list \<Rightarrow> health_manager \<Rightarrow> health_manager option" where
  "configWatcher E events hm = (if hm_watching hm then foldM (\<lambda>(c, c'). reload E c c') events hm else Some hm)"

section \<open>Properties\<close>

text \<open>A configuration that is read has complete rules and known levels of pressure.\<close>

lemma rules_available_complete:
  assumes "rules_available J t dev pr rules = Some rules'" and "Some rc \<in> set rules'"
  shows "rc_CheckInterval rc \<noteq> 0 \<and> rc_HandleInterval rc \<noteq> 0 \<and> rc_RecoverInterval rc \<noteq> 0 \<and> rules_complete (rc_Rules rc) \<and> rules_complete (rc_RecoverRules rc)"
  using assms unfolding rules_available_def
proof (induction rules arbitrary: rules')
  case (Cons r rules)
  then show ?case by (cases r) (auto dest: ruleCheckAvailable_completes split: option.splits)
qed simp

lemma health_config_is_complete:
  assumes "InitHealthCheckConfigFunc J t dev pr decode content = Some (Inr config)"
    and "Some rc \<in> set (hcc_ContainerRules config @ hcc_NodeRules config @ hcc_AppRules config)"
  shows "rc_CheckInterval rc \<noteq> 0 \<and> rc_HandleInterval rc \<noteq> 0 \<and> rc_RecoverInterval rc \<noteq> 0 \<and> rules_complete (rc_Rules rc) \<and> rules_complete (rc_RecoverRules rc)"
proof -
  obtain n c a b where "rules_available J t dev pr n = Some (hcc_NodeRules config)" "rules_available J t dev pr c = Some (hcc_ContainerRules config)"
    "rules_available J t dev pr a = Some (hcc_AppRules config)"
    using assms(1) by (auto simp: InitHealthCheckConfigFunc_def option_bind_eq_Some split: option.splits if_splits)
  with assms(2) rules_available_complete show ?thesis by auto
qed

text \<open>Exactly one rule checker runs, that of the configuration.\<close>

definition health_inv :: "health_manager \<Rightarrow> bool" where
  "health_inv hm \<longleftrightarrow> hm_running hm = [hm_config hm] \<and> hm_watching hm"

lemma reload_inv: "health_inv hm \<Longrightarrow> reload E c c' hm = Some hm' \<Longrightarrow> health_inv hm'"
  by (auto simp: reload_def health_inv_def split: option.splits)

lemma reloads_inv: "health_inv hm \<Longrightarrow> foldM (\<lambda>(c, c'). reload E c c') events hm = Some hm' \<Longrightarrow> health_inv hm'"
  by (induction events arbitrary: hm) (auto split: option.splits dest: reload_inv)

lemma Run_inv:
  assumes "NewHealthManager E c c' = Some hm" and "\<not> hcc_Disable (hm_config hm)"
  shows "health_inv (health_Run hm)"
  using assms by (auto simp: NewHealthManager_def health_Run_def health_inv_def split: option.splits sum.splits)



definition sample_health :: "bool \<Rightarrow> HealthCheckConfig" where
  "sample_health disable = \<lparr>hcc_Disable = disable, hcc_RuleNodes = [''10.0.0.1''], hcc_ContainerRules = [], hcc_NodeRules = [], hcc_AppRules = [], hcc_MemoryCgroup = None\<rparr>"

text \<open>A file that holds \<^verbatim>\<open>a\<close> decodes to an enabled configuration, one that holds \<^verbatim>\<open>b\<close> to a disabled one, and nothing else can be decoded.\<close>

definition sample_health_env :: health_env where
  "sample_health_env = \<lparr>he_config = InitHealthCheckConfigFunc sample_decoders 8000 \<lparr>Ifaces = [], DiskNames = []\<rparr>
       \<lparr>CpuMilli = None, MemMB = None, CpuPercent = None, MemPercent = None\<rparr>
       (\<lambda>b. if b = ''a'' then Some (sample_health False) else if b = ''b'' then Some (sample_health True) else None),
     he_hash = (\<lambda>s. s), he_NodeIP = ''10.0.0.1'', he_sys = (\<lambda>_. True), he_fs = \<lparr>fs_root = ''/sys/fs/cgroup'', fs_files = [], fs_dirs = [], fs_fail = (\<lambda>_. False)\<rparr>\<rparr>"

definition sample_health_manager :: "string \<Rightarrow> HealthCheckConfig \<Rightarrow> health_manager" where
  "sample_health_manager h config = \<lparr>hm_config = config, hm_notifiers = [], hm_configHash = h, hm_running = [config], hm_watching = True\<rparr>"

lemma sample_config:
  "he_config sample_health_env (Some b) = Some (if b = ''a'' then Inr (sample_health False) else if b = ''b'' then Inr (sample_health True) else Inl ())"
  by (simp add: sample_health_env_def InitHealthCheckConfigFunc_def sample_health_def rules_available_def initNotifyConfig_def)

lemmas sample_health_simps = sample_config reload_def checkNeedReload_def hashFile_def sample_health_manager_def NewNotifyManager_def

lemma sample_started: "NewHealthManager sample_health_env (Some ''a'') (Some ''a'') =
    Some \<lparr>hm_config = sample_health False, hm_notifiers = [], hm_configHash = ''a'', hm_running = [], hm_watching = False\<rparr>"
  by (simp add: NewHealthManager_def hashFile_def sample_config NewNotifyManager_def) (simp add: sample_health_def sample_health_env_def)

lemma sample_run: "health_Run \<lparr>hm_config = sample_health False, hm_notifiers = [], hm_configHash = ''a'', hm_running = [], hm_watching = False\<rparr> =
    sample_health_manager ''a'' (sample_health False)"
  by (simp add: health_Run_def sample_health_def sample_health_manager_def)

text \<open>A configuration that disables the health checks is put into use like any other: its rules run.\<close>

lemma reload_ignores_disable:
  "reload sample_health_env (Some ''b'') (Some ''b'') (sample_health_manager ''a'' (sample_health False)) = Some (sample_health_manager ''b'' (sample_health True))"
  by (simp add: sample_health_simps) (simp add: sample_health_env_def sample_health_def)


text \<open>An edit that cannot be decoded, such as a file that is half written, ends the process.\<close>

lemma bad_edit_ends_process:
  assumes "he_config E (Some c) = Some (Inl ())" and "he_hash E c \<noteq> hm_configHash hm"
  shows "reload E (Some c) (Some c) hm = None"
  using assms by (simp add: reload_def checkNeedReload_def hashFile_def)

text \<open>At the start the list of nodes is not looked at.\<close>

lemma rule_nodes_ignored_at_start:
  assumes "he_config E (Some c) = Some (Inr config)" and "hcc_MemoryCgroup config = None" and "he_NodeIP E \<notin> set (hcc_RuleNodes config)" and "\<not> hcc_Disable config"
  shows "\<exists>hm. NewHealthManager E (Some c) (Some c) = Some hm \<and> hm_running (health_Run hm) = [config]"
  using assms by (simp add: NewHealthManager_def hashFile_def NewNotifyManager_def health_Run_def)

end
