(* ===== verification/MetricStores.thy ===== *)
theory MetricStores
  imports CgroupStore Durations ProjectFile
begin

text \<open>
  The stores of hardware counters (\<^verbatim>\<open>statestore/common/perf\<close>), of cache monitoring (\<^verbatim>\<open>rdt\<close>), of outer prometheus metrics (\<^verbatim>\<open>prometheus\<close>) and of metrics the online jobs
  report themselves (\<^verbatim>\<open>customize\<close>), with the readings behind them. The kernel's counters, the output of the monitoring command, the answers of
  servers and commands and the library's timed store \<open>T\<close> are inputs. A result \<open>None\<close> is a panic.
\<close>

section \<open>Hardware counters\<close>

record PerfData =
  pf_Instructions :: float64
  pf_Cycles :: float64
  pf_CPI :: float64
  pf_CPUUsage :: float64
  pf_CacheMisses :: float64
  pf_CacheReference :: float64
  pf_LLCOccupancy :: float64
  pf_Timestamp :: go_time

text \<open>The C structure, with unsigned counters of 64 bits.\<close>

record collectdatas =
  cd_instructions :: nat
  cd_cycles :: nat
  cd_cpi :: float64
  cd_cachemisses :: nat
  cd_cachereferences :: nat
  cd_llcoccupancy :: nat

definition no_data :: collectdatas where
  "no_data = \<lparr>cd_instructions = 0, cd_cycles = 0, cd_cpi = 0, cd_cachemisses = 0, cd_cachereferences = 0, cd_llcoccupancy = 0\<rparr>"

record core_values =
  cv_cycles :: nat
  cv_instructions :: nat
  cv_references :: nat
  cv_misses :: nat
  cv_llc :: nat

text \<open>The cores of the text: the parts that are plain numbers. \<^verbatim>\<open>strtok\<close> skips empty parts, and an array of 256 elements takes the numbers and an end mark.\<close>

definition parse_cores :: "string \<Rightarrow> nat list" where
  "parse_cores cpu_str = map dec_val (filter (\<lambda>t. t \<noteq> [] \<and> list_all is_digit t) (split_on (CHR '','') cpu_str))"

definition add64 :: "nat \<Rightarrow> nat \<Rightarrow> nat" where
  "add64 a b = (a + b) mod 2 ^ 64"

text \<open>The occupancy of one core with its scale; zero is not counted.\<close>

definition llc_of :: "bool \<Rightarrow> int \<Rightarrow> core_values \<Rightarrow> nat" where
  "llc_of collect_llc llc_scale v =
     (if collect_llc \<and> cv_llc v > 0 then (if llc_scale > 0 then (cv_llc v * nat llc_scale) mod 2 ^ 64 else cv_llc v) else 0)"

definition add_counters :: "bool \<Rightarrow> int \<Rightarrow> core_values \<Rightarrow> collectdatas \<times> nat \<Rightarrow> collectdatas \<times> nat" where
  "add_counters collect_llc llc_scale v = (\<lambda>(d, llc_count).
     (d\<lparr>cd_instructions := add64 (cd_instructions d) (cv_instructions v), cd_cycles := add64 (cd_cycles d) (cv_cycles v),
        cd_cachereferences := add64 (cd_cachereferences d) (cv_references v), cd_cachemisses := add64 (cd_cachemisses d) (cv_misses v),
        cd_llcoccupancy := add64 (cd_llcoccupancy d) (llc_of collect_llc llc_scale v)\<rparr>,
      if collect_llc \<and> cv_llc v > 0 then llc_count + 1 else llc_count))"

text \<open>Whether the call succeeds, and the data. The group must open, then the events of every core, and then every core must be readable; what was added before a failed read stays.\<close>

fun read_cores :: "bool \<Rightarrow> int \<Rightarrow> core_values option list \<Rightarrow> collectdatas \<times> nat \<Rightarrow> bool \<times> collectdatas \<times> nat" where
  "read_cores collect_llc llc_scale [] acc = (True, acc)"
| "read_cores collect_llc llc_scale (None # vs) acc = (False, acc)"
| "read_cores collect_llc llc_scale (Some v # vs) acc = read_cores collect_llc llc_scale vs (add_counters collect_llc llc_scale v acc)"

definition get_cpi :: "bool \<Rightarrow> (nat \<Rightarrow> bool) \<Rightarrow> (nat \<Rightarrow> core_values option) \<Rightarrow> bool \<Rightarrow> int \<Rightarrow> string \<Rightarrow> bool \<times> collectdatas" where
  "get_cpi group_opens opens reads collect_llc llc_scale cpu_str =
     (let cores = parse_cores cpu_str in
      if \<not> group_opens \<or> \<not> list_all opens cores then (False, no_data)
      else let (ok, d, llc_count) = read_cores collect_llc llc_scale (map reads cores) (no_data, 0)
           in if \<not> ok then (False, d)
              else let d = (if llc_count \<noteq> 0 then d\<lparr>cd_llcoccupancy := cd_llcoccupancy d div llc_count\<rparr> else d)
                   in (True, if cd_instructions d \<noteq> 0
                             then d\<lparr>cd_cpi := fl (fl (of_nat (cd_cycles d)) / fl (of_nat (cd_instructions d)))\<rparr> else d))"

definition GetPMUValue :: "bool \<times> collectdatas \<Rightarrow> go_time \<Rightarrow> PerfData" where
  "GetPMUValue r now =
     (let pc = snd r in
      \<lparr>pf_Instructions = fl (of_nat (cd_instructions pc)), pf_Cycles = fl (of_nat (cd_cycles pc)),
       pf_CPI = fl (fl (of_int (go_trunc (fl (fl (cd_cpi pc * 1000) + 1 / 2)))) / 1000), pf_CPUUsage = 0,
       pf_CacheMisses = fl (of_nat (cd_cachemisses pc)), pf_CacheReference = fl (of_nat (cd_cachereferences pc)),
       pf_LLCOccupancy = fl (fl (of_nat (cd_llcoccupancy pc div 1024)) / 1024), pf_Timestamp = now\<rparr>)"

text \<open>Whether the cache monitor of the processor is there; asked once.\<close>

definition checkIntelCqmSupported :: "bool \<Rightarrow> bool \<Rightarrow> bool \<times> bool \<Rightarrow> bool \<times> bool" where
  "checkIntelCqmSupported path_exists config_ok = (\<lambda>(checked, supported). if checked then (checked, supported) else (True, path_exists \<and> config_ok))"

section \<open>Stores by key\<close>

text \<open>The fields \<^verbatim>\<open>caches\<close> and \<^verbatim>\<open>maxAge\<close> of the four managers.\<close>

record 's metric_store =
  sm_caches :: "(string, 's) gomap"
  sm_maxAge :: go_duration

definition ten_minutes :: go_duration where
  "ten_minutes = 600000000000"

definition store_add :: "('s, 'd) ts_ops \<Rightarrow> string \<Rightarrow> go_time \<Rightarrow> 'd \<Rightarrow> 's metric_store \<Rightarrow> 's metric_store" where
  "store_add T key now d sm = sm\<lparr>sm_caches := cache_add T (sm_maxAge sm) key now d (sm_caches sm)\<rparr>"

definition store_expire :: "('s, 'd) ts_ops \<Rightarrow> go_time \<Rightarrow> 's metric_store \<Rightarrow> 's metric_store" where
  "store_expire T now sm = sm\<lparr>sm_caches := filter (\<lambda>(k, s). ts_InTimeRange T (now - ten_minutes) now (- 1) s \<noteq> []) (sm_caches sm)\<rparr>"

text \<open>The reads that the managers share; \<open>Some None\<close>: the library panics on an empty store.\<close>

definition store_range :: "('s, 'd) ts_ops \<Rightarrow> string \<Rightarrow> go_time \<Rightarrow> go_time \<Rightarrow> int \<Rightarrow> 's metric_store \<Rightarrow> 'd list option" where
  "store_range T key start end' cnt sm = map_option (ts_InTimeRange T start end' cnt) (map_of (sm_caches sm) key)"

definition store_recent :: "('s, 'd) ts_ops \<Rightarrow> string \<Rightarrow> 's metric_store \<Rightarrow> 'd option option" where
  "store_recent T key sm = map_option (ts_Get0 T) (map_of (sm_caches sm) key)"

definition store_ranges :: "('s, 'd) ts_ops \<Rightarrow> go_time \<Rightarrow> go_time \<Rightarrow> int \<Rightarrow> 's metric_store \<Rightarrow> (string, 'd list) gomap" where
  "store_ranges T start end' cnt sm = map (\<lambda>(k, s). (k, ts_InTimeRange T start end' cnt s)) (sm_caches sm)"

definition store_recents :: "('s, 'd) ts_ops \<Rightarrow> 's metric_store \<Rightarrow> (string, 'd) gomap option" where
  "store_recents T sm = those (map (\<lambda>(k, s). map_option (Pair k) (ts_Get0 T s)) (sm_caches sm))"

definition new_store :: "go_duration \<Rightarrow> 's metric_store" where
  "new_store cacheTTL = \<lparr>sm_caches = [], sm_maxAge = cacheTTL\<rparr>"

section \<open>The perf store\<close>

record PerfMetrics =
  px_Spec :: CgroupRef
  px_Value :: PerfData

definition addContainerPerf :: "('s, PerfMetrics) ts_ops \<Rightarrow> string \<Rightarrow> go_time \<Rightarrow> PerfMetrics \<Rightarrow> 's metric_store \<Rightarrow> 's metric_store" where
  "addContainerPerf T container now d sm = store_add T container now d sm"

definition delContainerPerfs :: "('s, PerfMetrics) ts_ops \<Rightarrow> go_time \<Rightarrow> 's metric_store \<Rightarrow> 's metric_store" where
  "delContainerPerfs T now sm = store_expire T now sm"

definition GetPerfResourceRangeStats :: "('s, PerfMetrics) ts_ops \<Rightarrow> string \<Rightarrow> go_time \<Rightarrow> go_time \<Rightarrow> int \<Rightarrow> 's metric_store \<Rightarrow> PerfMetrics list option" where
  "GetPerfResourceRangeStats T key start end' cnt sm = store_range T key start end' cnt sm"

definition GetPerfResourceRecentState :: "('s, PerfMetrics) ts_ops \<Rightarrow> string \<Rightarrow> 's metric_store \<Rightarrow> PerfMetrics option option" where
  "GetPerfResourceRecentState T key sm = store_recent T key sm"

definition ListPerfResourceRangeStats :: "('s, PerfMetrics) ts_ops \<Rightarrow> go_time \<Rightarrow> go_time \<Rightarrow> int \<Rightarrow> 's metric_store \<Rightarrow> (string, PerfMetrics list) gomap" where
  "ListPerfResourceRangeStats T start end' cnt sm = store_ranges T start end' cnt sm"

definition ListPerfResourceRecentStats :: "('s, PerfMetrics) ts_ops \<Rightarrow> 's metric_store \<Rightarrow> PerfMetrics list option" where
  "ListPerfResourceRecentStats T sm = map_option (map snd) (store_recents T sm)"

definition checkSubCgroup :: "string \<Rightarrow> string \<Rightarrow> bool" where
  "checkSubCgroup parent child = strings_HasPrefix child parent"

text \<open>What one measurement finds: processes and cores of the group, the counters of processor time around it, the perf data and the time it took.\<close>

record perf_input =
  pi_pids :: "int list option"
  pi_cpus :: "string list option"
  pi_startTotal :: "nat option"
  pi_pmu :: PerfData
  pi_endTotal :: "nat option"
  pi_elapsed :: int

definition measure_perf :: "perf_input \<Rightarrow> PerfData option" where
  "measure_perf i =
     (case (pi_pids i, pi_cpus i, pi_startTotal i, pi_endTotal i) of
        (Some (_ # _), Some (_ # _), Some s, Some e) \<Rightarrow>
          Some ((pi_pmu i)\<lparr>pf_CPUUsage := fl (fl (of_int ((int e - int s) mod 2 ^ 64)) / fl (of_int (pi_elapsed i)))\<rparr>)
      | _ \<Rightarrow> None)"

definition perf_step :: "('s, PerfMetrics) ts_ops \<Rightarrow> (string \<Rightarrow> perf_input) \<Rightarrow> string list \<Rightarrow> string \<times> CgroupRef \<Rightarrow> 's metric_store \<Rightarrow> 's metric_store" where
  "perf_step T inp ignored = (\<lambda>(cg, ref) sm.
     if list_ex (\<lambda>i. checkSubCgroup i cg) ignored then sm
     else case measure_perf (inp cg) of None \<Rightarrow> sm
          | Some d \<Rightarrow> addContainerPerf T cg (pf_Timestamp d) \<lparr>px_Spec = ref, px_Value = d\<rparr> sm)"

text \<open>The groups are measured at the same time; each has a store of its own.\<close>

definition perf_collect ::
  "('s, PerfMetrics) ts_ops \<Rightarrow> (string \<Rightarrow> perf_input) \<Rightarrow> string list \<Rightarrow> (string, CgroupRef) gomap option \<Rightarrow> go_time \<Rightarrow> 's metric_store \<Rightarrow> 's metric_store" where
  "perf_collect T inp ignored allCgroups now sm =
     (case allCgroups of None \<Rightarrow> sm | Some cgs \<Rightarrow> delContainerPerfs T now (fold (perf_step T inp ignored) cgs sm))"

section \<open>The rdt tool\<close>

record RdtFeature =
  MonitorLLC :: bool
  MonitorMBM :: bool
  MonitorIPC :: bool
  MonitorCacheMiss :: bool
  AllocateCAT :: bool

record RdtData =
  rd_Cores :: string
  rd_IPC :: float64
  rd_Missees :: float64
  rd_LLC :: float64
  rd_MBL :: float64
  rd_MBR :: float64
  rd_Timestamp :: go_time

text \<open>The mode of the command file, if it is there; the command is kept when the owner may execute it (bit 6).\<close>

definition InitRdtCommand :: "nat option \<Rightarrow> string \<Rightarrow> string option" where
  "InitRdtCommand mode rdtCmd = (case mode of None \<Rightarrow> None | Some m \<Rightarrow> if odd (m div 64) then Some rdtCmd else None)"

text \<open>The parameter \<open>run\<close> gives whether the command succeeds and what it prints.\<close>

definition SupportRdtFunction :: "(string list \<Rightarrow> bool \<times> string) \<Rightarrow> RdtFeature" where
  "SupportRdtFunction run =
     (let supported = \<lparr>MonitorLLC = True, MonitorMBM = False, MonitorIPC = False, MonitorCacheMiss = False, AllocateCAT = False\<rparr>;
          (ok, out) = run [''-d'']
      in if \<not> ok then supported
         else supported\<lparr>MonitorLLC := MonitorLLC supported \<or> strings_Contains out ''LLC Occupancy'',
           MonitorMBM := strings_Contains out ''Total Memory Bandwidth'', MonitorCacheMiss := strings_Contains out [],
           MonitorIPC := strings_Contains out ''Instructions/Clock'', AllocateCAT := strings_Contains out []\<rparr>)"

text \<open>The lines after the last heading.\<close>

definition retItems :: "string list \<Rightarrow> string list" where
  "retItems ls = snd (foldl (\<lambda>(startRecord, items) l.
     if strings_Contains l ''CORE'' then (True, []) else if startRecord then (startRecord, items @ [l]) else (startRecord, items)) (False, []) ls)"

text \<open>A number, or the value of a quantity such as \<^verbatim>\<open>12k\<close>; the library's \<open>MustParse\<close> panics on anything else.\<close>

definition rdt_number :: "(string \<Rightarrow> float64 option) \<Rightarrow> (string \<Rightarrow> int option) \<Rightarrow> string \<Rightarrow> float64 option" where
  "rdt_number ParseFloat MustParse v = (case ParseFloat v of Some x \<Rightarrow> Some x | None \<Rightarrow> map_option (\<lambda>i. fl (of_int i)) (MustParse v))"

definition rdt_line :: "(string \<Rightarrow> float64 option) \<Rightarrow> (string \<Rightarrow> int option) \<Rightarrow> go_time \<Rightarrow> string \<Rightarrow> RdtData option" where
  "rdt_line ParseFloat MustParse now item =
     (let parts = filter (\<lambda>v. v \<noteq> []) (split_on (CHR '' '') item);
          cores = (case parts of [] \<Rightarrow> [] | c # _ \<Rightarrow> c)
      in case those (map (rdt_number ParseFloat MustParse) (drop 1 parts)) of
           None \<Rightarrow> None
         | Some xs \<Rightarrow>
             if length xs < 2 then None
             else Some \<lparr>rd_Cores = cores, rd_IPC = xs ! 0, rd_Missees = xs ! 1, rd_LLC = (if length xs > 2 then xs ! 2 else 0),
               rd_MBL = (if length xs > 4 then xs ! 3 else 0), rd_MBR = (if length xs > 4 then xs ! 4 else 0), rd_Timestamp = now\<rparr>)"

text \<open>\<open>None\<close> is a panic, \<open>Inl\<close> an error.\<close>

definition StaticMonitor ::
  "(string \<Rightarrow> float64 option) \<Rightarrow> (string \<Rightarrow> int option) \<Rightarrow> (string list \<Rightarrow> bool \<times> string) \<Rightarrow> go_time \<Rightarrow> string list \<Rightarrow> go_duration \<Rightarrow> go_duration
    \<Rightarrow> (unit + RdtData list) option" where
  "StaticMonitor ParseFloat MustParse run now monitors monInterval monTime =
     (if monitors = [] then Some (Inl ())
      else let (ok, out) = run [''-m'', join_with '';'' monitors, ''-i'', show_int (go_trunc (duration_seconds monInterval) * 10), ''-t'', show_int (go_trunc (duration_seconds monTime)), ''--static-mode'']
           in if \<not> ok then Some (Inl ()) else map_option Inr (those (map (rdt_line ParseFloat MustParse now) (retItems (scan_lines out)))))"

section \<open>The rdt store\<close>

record RdtMetrics =
  rx_Spec :: CgroupRef
  rx_Value :: RdtData

definition addContainerRdt :: "('s, RdtMetrics) ts_ops \<Rightarrow> string \<Rightarrow> go_time \<Rightarrow> RdtMetrics \<Rightarrow> 's metric_store \<Rightarrow> 's metric_store" where
  "addContainerRdt T container now d sm = store_add T container now d sm"

definition delContainerRdts :: "('s, RdtMetrics) ts_ops \<Rightarrow> go_time \<Rightarrow> 's metric_store \<Rightarrow> 's metric_store" where
  "delContainerRdts T now sm = store_expire T now sm"

definition GetRDTResourceRangeStats :: "('s, RdtMetrics) ts_ops \<Rightarrow> string \<Rightarrow> go_time \<Rightarrow> go_time \<Rightarrow> int \<Rightarrow> 's metric_store \<Rightarrow> RdtMetrics list option" where
  "GetRDTResourceRangeStats T key start end' cnt sm = store_range T key start end' cnt sm"

definition GetRDTResourceRecentState :: "('s, RdtMetrics) ts_ops \<Rightarrow> string \<Rightarrow> 's metric_store \<Rightarrow> RdtMetrics option option" where
  "GetRDTResourceRecentState T key sm = store_recent T key sm"

definition ListRDTResourceRangeStats :: "('s, RdtMetrics) ts_ops \<Rightarrow> go_time \<Rightarrow> go_time \<Rightarrow> int \<Rightarrow> 's metric_store \<Rightarrow> (string, RdtMetrics list) gomap" where
  "ListRDTResourceRangeStats T start end' cnt sm = store_ranges T start end' cnt sm"

definition ListRDTResourceRecentStats :: "('s, RdtMetrics) ts_ops \<Rightarrow> 's metric_store \<Rightarrow> RdtMetrics list option" where
  "ListRDTResourceRecentStats T sm = map_option (map snd) (store_recents T sm)"

text \<open>What one group gives: its processes, its cores, and the monitor's answer for \<^verbatim>\<open>all:[cores]\<close>.\<close>

record rdt_input =
  ri_pids :: "int list option"
  ri_cpus :: "string list option"

definition rdt_step ::
  "('s, RdtMetrics) ts_ops \<Rightarrow> (string \<Rightarrow> rdt_input) \<Rightarrow> (string list \<Rightarrow> (unit + RdtData list) option) \<Rightarrow> string \<times> CgroupRef \<Rightarrow> 's metric_store \<Rightarrow> 's metric_store option" where
  "rdt_step T inp monitor = (\<lambda>(k, ref) sm.
     if strings_Contains k ''burstable'' then Some sm
     else case (ri_pids (inp k), ri_cpus (inp k)) of
            (Some (_ # _), Some (cpu # _)) \<Rightarrow>
              (case monitor [''all:['' @ cpu @ '']''] of
                 None \<Rightarrow> None
               | Some (Inr (ret # _)) \<Rightarrow> Some (addContainerRdt T k (rd_Timestamp ret) \<lparr>rx_Spec = ref, rx_Value = ret\<rparr> sm)
               | Some _ \<Rightarrow> Some sm)
          | _ \<Rightarrow> Some sm)"

definition rdt_collect ::
  "('s, RdtMetrics) ts_ops \<Rightarrow> (string \<Rightarrow> rdt_input) \<Rightarrow> (string list \<Rightarrow> (unit + RdtData list) option) \<Rightarrow> (string, CgroupRef) gomap option \<Rightarrow> go_time
    \<Rightarrow> 's metric_store \<Rightarrow> 's metric_store option" where
  "rdt_collect T inp monitor allCgroups now sm =
     (case allCgroups of None \<Rightarrow> Some sm | Some cgs \<Rightarrow> map_option (delContainerRdts T now) (foldM (rdt_step T inp monitor) cgs sm))"

text \<open>The start: without the command or without monitoring of the cache the process ends.\<close>

definition rdt_Run :: "nat option \<Rightarrow> string \<Rightarrow> (string list \<Rightarrow> bool \<times> string) \<Rightarrow> bool" where
  "rdt_Run mode rdtCmd run = (InitRdtCommand mode rdtCmd \<noteq> None \<and> MonitorLLC (SupportRdtFunction run))"

section \<open>The prometheus store\<close>

datatype prom_type = PromCounter | PromGauge | PromSummary | PromUntyped | PromHistogram

text \<open>A metric of the library with the values of its labels in order; the value of a counter or gauge it does not have is zero.\<close>

record prom_metric =
  pm_Labels :: "string list"
  pm_Counter :: float64
  pm_Gauge :: float64

record MetricFamily =
  mf_Type :: prom_type
  mf_Metric :: "prom_metric list"

record prom_item =
  pri_Address :: string
  pri_CollectMap :: "string list"
  pri_NoCollectMap :: "string list"

definition prom_metricValue :: "prom_type \<Rightarrow> prom_metric \<Rightarrow> float64" where
  "prom_metricValue mType m = (case mType of PromCounter \<Rightarrow> pm_Counter m | PromGauge \<Rightarrow> pm_Gauge m | _ \<Rightarrow> 0)"

definition filterPromMetrics :: "string list \<Rightarrow> string list \<Rightarrow> (string, MetricFamily) gomap \<Rightarrow> (string, MetricFamily) gomap" where
  "filterPromMetrics coll noCollect families =
     (if coll = [] \<and> noCollect = [] then families
      else filter (\<lambda>(k, _). \<not> (coll \<noteq> [] \<and> k \<notin> set coll) \<and> \<not> (noCollect \<noteq> [] \<and> k \<in> set noCollect)) families)"

text \<open>The parameter \<open>scrape\<close> is the request to an address and the library's parser of the answer.\<close>

definition fetchPromMetrics :: "(string \<Rightarrow> (string, MetricFamily) gomap option) \<Rightarrow> prom_item \<Rightarrow> (string, MetricFamily) gomap option" where
  "fetchPromMetrics scrape prom =
     (if pri_Address prom = [] then None
      else map_option (filterPromMetrics (pri_CollectMap prom) (pri_NoCollectMap prom)) (scrape (pri_Address prom)))"

definition fetchAllPromDirectMetrics :: "(string \<Rightarrow> (string, MetricFamily) gomap option) \<Rightarrow> prom_item list \<Rightarrow> (string, MetricFamily) gomap" where
  "fetchAllPromDirectMetrics scrape items =
     fold (\<lambda>prom families. case fetchPromMetrics scrape prom of None \<Rightarrow> families | Some mf \<Rightarrow> fold (\<lambda>(k, v). AList.update k v) mf families) items []"

definition GetPromDirectMetrics :: "bool \<Rightarrow> (string \<Rightarrow> (string, MetricFamily) gomap option) \<Rightarrow> prom_item list \<Rightarrow> (string, MetricFamily) gomap" where
  "GetPromDirectMetrics disableShow scrape items = (if disableShow then [] else fetchAllPromDirectMetrics scrape items)"

definition addPromStats :: "('s, float64) ts_ops \<Rightarrow> go_time \<Rightarrow> string \<Rightarrow> float64 \<Rightarrow> 's metric_store \<Rightarrow> 's metric_store" where
  "addPromStats T now name v sm = store_add T name now v sm"

definition prom_key :: "string \<Rightarrow> prom_metric \<Rightarrow> string" where
  "prom_key mName m = foldl (\<lambda>key l. key @ ''_'' @ l) mName (pm_Labels m)"

text \<open>One family: the branch of an empty family reads its first metric, which panics.\<close>

definition prom_family :: "('s, float64) ts_ops \<Rightarrow> go_time \<Rightarrow> string \<times> MetricFamily \<Rightarrow> 's metric_store \<Rightarrow> 's metric_store option" where
  "prom_family T now = (\<lambda>(mName, metrics) sm.
     if mf_Type metrics \<noteq> PromCounter \<and> mf_Type metrics \<noteq> PromGauge then Some sm
     else if mf_Metric metrics = [] then None
     else Some (fold (\<lambda>m. addPromStats T now (prom_key mName m) (prom_metricValue (mf_Type metrics) m)) (mf_Metric metrics) sm))"

definition prom_collect ::
  "('s, float64) ts_ops \<Rightarrow> (string \<Rightarrow> (string, MetricFamily) gomap option) \<Rightarrow> prom_item list \<Rightarrow> go_time \<Rightarrow> 's metric_store \<Rightarrow> 's metric_store option" where
  "prom_collect T scrape items now sm =
     (if items = [] then Some sm else foldM (prom_family T now) (fetchAllPromDirectMetrics scrape items) sm)"

definition GetPromRangeMetrics :: "('s, float64) ts_ops \<Rightarrow> string \<Rightarrow> go_time \<Rightarrow> go_time \<Rightarrow> int \<Rightarrow> 's metric_store \<Rightarrow> float64 list option" where
  "GetPromRangeMetrics T key start end' cnt sm = store_range T key start end' cnt sm"

definition GetPromRecentMetrics :: "('s, float64) ts_ops \<Rightarrow> string \<Rightarrow> 's metric_store \<Rightarrow> float64 option option" where
  "GetPromRecentMetrics T key sm = store_recent T key sm"

section \<open>Metrics the online jobs report\<close>

record Metric =
  me_JobName :: string
  me_Values :: "(string, float64) gomap"
  me_Ts :: go_time

record MetricResponseList =
  ml_JobName :: string
  ml_MetricName :: string
  ml_Values :: "(string, float64) gomap"

text \<open>The object that is encoded; \<^verbatim>\<open>encoding/json\<close> prints and reads objects.\<close>

definition MetricResponseList_MarshalJSON :: "MetricResponseList \<Rightarrow> (string, json_value) gomap" where
  "MetricResponseList_MarshalJSON m =
     fold (\<lambda>(k, v). AList.update k (JNumber v)) (ml_Values m) [(''job_name'', JString (ml_JobName m)), (''metric_name'', JString (ml_MetricName m))]"

definition json_string :: "(string, json_value) gomap \<Rightarrow> string \<Rightarrow> string option" where
  "json_string obj k = (case map_of obj k of Some (JString s) \<Rightarrow> Some s | _ \<Rightarrow> None)"

text \<open>The loop looks for the names among the values.\<close>

definition unmarshal_field :: "string \<times> json_value \<Rightarrow> MetricResponseList \<Rightarrow> MetricResponseList" where
  "unmarshal_field = (\<lambda>(k, v) m.
     case v of
       JString vv \<Rightarrow> (let m = (if vv = ''job_name'' then m\<lparr>ml_JobName := vv\<rparr> else m) in if vv = ''metric_name'' then m\<lparr>ml_MetricName := vv\<rparr> else m)
     | JNumber vv \<Rightarrow> m\<lparr>ml_Values := AList.update k vv (ml_Values m)\<rparr>
     | JOther \<Rightarrow> m)"

definition MetricResponseList_UnmarshalJSON :: "(string, json_value) gomap \<Rightarrow> MetricResponseList \<Rightarrow> MetricResponseList" where
  "MetricResponseList_UnmarshalJSON obj m =
     (let m = (case json_string obj ''job_name'' of None \<Rightarrow> m | Some s \<Rightarrow> m\<lparr>ml_JobName := s\<rparr>);
          m = (case json_string obj ''metric_name'' of None \<Rightarrow> m | Some s \<Rightarrow> m\<lparr>ml_MetricName := s\<rparr>)
      in fold unmarshal_field obj m)"

record MetricsResponseData =
  mrd_Code :: int
  mrd_Data :: "MetricResponseList list"

text \<open>A body as the library decodes it: the code, and the objects of the list.\<close>

definition decode_response :: "(string \<Rightarrow> (int \<times> (string, json_value) gomap list) option) \<Rightarrow> string \<Rightarrow> MetricsResponseData option" where
  "decode_response decode body =
     map_option (\<lambda>(c, objs). \<lparr>mrd_Code = c,
       mrd_Data = map (\<lambda>obj. MetricResponseList_UnmarshalJSON obj \<lparr>ml_JobName = [], ml_MetricName = [], ml_Values = []\<rparr>) objs\<rparr>) (decode body)"

definition generateStoreKey :: "string \<Rightarrow> string \<Rightarrow> string" where
  "generateStoreKey jobName metricName = jobName @ ''-'' @ (if metricName = [] then ''latency'' else metricName)"

definition generatePodStoreKey :: "string \<Rightarrow> string \<Rightarrow> string \<Rightarrow> string" where
  "generatePodStoreKey namespace podName metricName = generateStoreKey (namespace @ ''/'' @ podName) metricName"

text \<open>The parameter \<open>run\<close> starts a program with arguments and gives its output.\<close>

definition getMetricsFromCommand ::
  "(string \<Rightarrow> string list \<Rightarrow> string option) \<Rightarrow> (string \<Rightarrow> (int \<times> (string, json_value) gomap list) option) \<Rightarrow> string list \<Rightarrow> bool \<Rightarrow> MetricsResponseData option" where
  "getMetricsFromCommand run decode metricsCmd needChroot =
     (case if needChroot then run ''chroot'' (''/rootfs'' # metricsCmd) else run (hd metricsCmd) (tl metricsCmd) of
        None \<Rightarrow> None | Some out \<Rightarrow> decode_response decode out)"

definition getMetricsFromURL ::
  "(string \<Rightarrow> (nat \<times> string) option) \<Rightarrow> (string \<Rightarrow> (int \<times> (string, json_value) gomap list) option) \<Rightarrow> string \<Rightarrow> MetricsResponseData option" where
  "getMetricsFromURL http decode url =
     (case http url of None \<Rightarrow> None | Some (status, body) \<Rightarrow> if status \<noteq> 200 then None else decode_response decode body)"

definition AddMetricsData :: "('s, Metric) ts_ops \<Rightarrow> string \<Rightarrow> go_time \<Rightarrow> Metric \<Rightarrow> 's metric_store \<Rightarrow> 's metric_store" where
  "AddMetricsData T key now metric sm = store_add T key now metric sm"

definition delMetricsData :: "('s, Metric) ts_ops \<Rightarrow> go_time \<Rightarrow> 's metric_store \<Rightarrow> 's metric_store" where
  "delMetricsData T now sm = store_expire T now sm"

definition response_key :: "string \<Rightarrow> string \<Rightarrow> MetricResponseList \<Rightarrow> string" where
  "response_key job metric d =
     generateStoreKey (if ml_JobName d = [] then job else ml_JobName d) (if ml_MetricName d = [] then metric else ml_MetricName d)"

definition add_response :: "('s, Metric) ts_ops \<Rightarrow> string \<Rightarrow> string \<Rightarrow> go_time \<Rightarrow> MetricResponseList \<Rightarrow> 's metric_store \<Rightarrow> 's metric_store" where
  "add_response T job metric now d =
     (let key = response_key job metric d in AddMetricsData T key now \<lparr>me_JobName = key, me_Values = ml_Values d, me_Ts = now\<rparr>)"

record metric_source =
  ms_MetricsCommand :: "string list"
  ms_CmdNeedChroot :: "bool option"
  ms_MetricsURL :: string

text \<open>One period of one metric of a job; without an answer \<open>Some None\<close>, and \<open>None\<close> where the pointer \<^verbatim>\<open>CmdNeedChroot\<close> is nil.\<close>

definition source_data ::
  "(string \<Rightarrow> string list \<Rightarrow> string option) \<Rightarrow> (string \<Rightarrow> (nat \<times> string) option) \<Rightarrow> (string \<Rightarrow> (int \<times> (string, json_value) gomap list) option) \<Rightarrow> metric_source
    \<Rightarrow> MetricsResponseData option option" where
  "source_data run http decode src =
     (if ms_MetricsCommand src \<noteq> [] then map_option (getMetricsFromCommand run decode (ms_MetricsCommand src)) (ms_CmdNeedChroot src)
      else if ms_MetricsURL src \<noteq> [] then Some (getMetricsFromURL http decode (ms_MetricsURL src)) else Some None)"

definition customize_collect ::
  "('s, Metric) ts_ops \<Rightarrow> (string \<Rightarrow> string list \<Rightarrow> string option) \<Rightarrow> (string \<Rightarrow> (nat \<times> string) option) \<Rightarrow> (string \<Rightarrow> (int \<times> (string, json_value) gomap list) option)
    \<Rightarrow> string \<Rightarrow> string \<Rightarrow> metric_source \<Rightarrow> go_time \<Rightarrow> 's metric_store \<Rightarrow> 's metric_store option" where
  "customize_collect T run http decode job metric src now sm =
     map_option (\<lambda>r. case r of
         None \<Rightarrow> sm
       | Some datas \<Rightarrow> if mrd_Code datas \<noteq> 0 then sm else fold (add_response T job metric now) (mrd_Data datas) sm) (source_data run http decode src)"

record podMetric =
  po_PodName :: string
  po_Namespace :: string
  po_MetricName :: string
  po_Slo :: float64
  po_Value :: float64

text \<open>The server of pod metrics; the time of these metrics is the zero time.\<close>

definition pod_metrics_collect ::
  "('s, Metric) ts_ops \<Rightarrow> (string \<Rightarrow> (nat \<times> string) option) \<Rightarrow> (string \<Rightarrow> podMetric list option) \<Rightarrow> go_time \<Rightarrow> string \<Rightarrow> go_time \<Rightarrow> 's metric_store \<Rightarrow> 's metric_store" where
  "pod_metrics_collect T http decode zero_time addr now sm =
     (if addr = [] then sm
      else case http addr of
        None \<Rightarrow> sm
      | Some (status, body) \<Rightarrow>
          if status \<noteq> 200 then sm
          else case decode body of
            None \<Rightarrow> sm
          | Some rs \<Rightarrow> fold (\<lambda>r. let key = generatePodStoreKey (po_Namespace r) (po_PodName r) (po_MetricName r)
                         in AddMetricsData T key now \<lparr>me_JobName = key, me_Values = [(''value'', po_Value r), (''slo'', po_Slo r)], me_Ts = zero_time\<rparr>) rs sm)"

definition GetCustomizeResourceRecentState :: "('s, Metric) ts_ops \<Rightarrow> string \<Rightarrow> string \<Rightarrow> 's metric_store \<Rightarrow> Metric option option" where
  "GetCustomizeResourceRecentState T jobName metricName sm = store_recent T (generateStoreKey jobName metricName) sm"

definition GetCustomizeResourceRangeStats ::
  "('s, Metric) ts_ops \<Rightarrow> string \<Rightarrow> string \<Rightarrow> go_time \<Rightarrow> go_time \<Rightarrow> int \<Rightarrow> 's metric_store \<Rightarrow> Metric list option" where
  "GetCustomizeResourceRangeStats T jobName metricName start end' cnt sm = store_range T (generateStoreKey jobName metricName) start end' cnt sm"

definition ListCustomizeResourceRecentState :: "('s, Metric) ts_ops \<Rightarrow> 's metric_store \<Rightarrow> (string, Metric) gomap option" where
  "ListCustomizeResourceRecentState T sm = store_recents T sm"

definition ListCustomizeResourceRangeStats :: "('s, Metric) ts_ops \<Rightarrow> go_time \<Rightarrow> go_time \<Rightarrow> int \<Rightarrow> 's metric_store \<Rightarrow> (string, Metric list) gomap" where
  "ListCustomizeResourceRangeStats T start end' cnt sm = filter (\<lambda>(_, ms). ms \<noteq> []) (store_ranges T start end' cnt sm)"

section \<open>What the library's store promises\<close>

text \<open>An element that is not older than the others is the one at index 0; \<open>latest\<close> is the time of the newest element.\<close>

locale timed_store =
  fixes T :: "('s, 'd) ts_ops" and latest :: "'s \<Rightarrow> go_time option"
  assumes latest_New: "latest (ts_New T a) = None"
    and Add_Get0: "(\<And>u. latest s = Some u \<Longrightarrow> u \<le> t) \<Longrightarrow> ts_Get0 T (ts_Add T t d s) = Some d"
    and Add_latest: "(\<And>u. latest s = Some u \<Longrightarrow> u \<le> t) \<Longrightarrow> latest (ts_Add T t d s) = Some t"

definition no_later :: "('s \<Rightarrow> go_time option) \<Rightarrow> go_time \<Rightarrow> 's metric_store \<Rightarrow> bool" where
  "no_later latest t sm \<longleftrightarrow> (\<forall>k s u. map_of (sm_caches sm) k = Some s \<longrightarrow> latest s = Some u \<longrightarrow> u \<le> t)"

definition store_adds :: "('s, 'd) ts_ops \<Rightarrow> go_time \<Rightarrow> (string \<times> 'd) list \<Rightarrow> 's metric_store \<Rightarrow> 's metric_store" where
  "store_adds T now xs sm = fold (\<lambda>(k, d). store_add T k now d) xs sm"

lemma store_recent_add_other: "k \<noteq> key \<Longrightarrow> store_recent T k (store_add T key now d sm) = store_recent T k sm"
  by (simp add: store_recent_def store_add_def cache_add_def update_conv')

context timed_store
begin

lemma add_recent:
  assumes "no_later latest now sm"
  shows "store_recent T key (store_add T key now d sm) = Some (Some d)" and "no_later latest now (store_add T key now d sm)"
proof -
  define s where "s = (case map_of (sm_caches sm) key of None \<Rightarrow> ts_New T (sm_maxAge sm) | Some s \<Rightarrow> s)"
  have *: "u \<le> now" if "latest s = Some u" for u
    using assms that by (auto simp: s_def no_later_def latest_New split: option.splits)
  have caches: "map_of (sm_caches (store_add T key now d sm)) = (map_of (sm_caches sm))(key \<mapsto> ts_Add T now d s)"
    by (simp add: store_add_def cache_add_def update_conv' s_def)
  show "store_recent T key (store_add T key now d sm) = Some (Some d)" by (simp add: store_recent_def caches Add_Get0 [OF *])
  show "no_later latest now (store_add T key now d sm)"
    using assms Add_latest [of s now d] * by (auto simp: no_later_def caches split: if_splits)
qed

lemma adds_recent:
  assumes "no_later latest now sm"
  shows "store_recent T k (store_adds T now xs sm) = (case map_of (rev xs) k of None \<Rightarrow> store_recent T k sm | Some d \<Rightarrow> Some (Some d))"
  using assms
proof (induction xs arbitrary: sm)
  case (Cons x xs)
  obtain key d where x: "x = (key, d)" by force
  have "store_recent T k (store_adds T now (x # xs) sm) = store_recent T k (store_adds T now xs (store_add T key now d sm))"
    by (simp add: store_adds_def x)
  also have "\<dots> = (case map_of (rev xs) k of None \<Rightarrow> store_recent T k (store_add T key now d sm) | Some d \<Rightarrow> Some (Some d))"
    using Cons.IH [OF add_recent(2) [OF Cons.prems]] .
  also have "store_recent T k (store_add T key now d sm) = (if k = key then Some (Some d) else store_recent T k sm)"
    using add_recent(1) [OF Cons.prems] by (simp add: store_recent_add_other)
  finally show ?case by (simp add: x map_add_def split: option.splits)
qed (simp add: store_adds_def)

end

text \<open>An instance: a list of elements, the newest first, without the elements that are too old.\<close>

definition list_store :: "(go_duration \<times> (go_time \<times> 'd) list, 'd) ts_ops" where
  "list_store = \<lparr>ts_New = (\<lambda>age. (age, [])),
     ts_Add = (\<lambda>t d (age, xs). (age, filter (\<lambda>(u, _). t - age \<le> u \<or> t \<le> u) (takeWhile (\<lambda>(u, _). t < u) xs @ (t, d) # dropWhile (\<lambda>(u, _). t < u) xs))),
     ts_Get0 = (\<lambda>(age, xs). case xs of [] \<Rightarrow> None | (_, d) # _ \<Rightarrow> Some d),
     ts_InTimeRange = (\<lambda>start end' cnt (age, xs). let ys = map snd (filter (\<lambda>(u, _). start \<le> u \<and> u \<le> end') xs) in rev (if cnt < 0 then ys else take (nat cnt) ys))\<rparr>"

definition list_latest :: "go_duration \<times> (go_time \<times> 'd) list \<Rightarrow> go_time option" where
  "list_latest = (\<lambda>(age, xs). case xs of [] \<Rightarrow> None | (u, _) # _ \<Rightarrow> Some u)"

lemma list_add_newest:
  assumes "\<And>u. list_latest s = Some u \<Longrightarrow> u \<le> t"
  shows "\<exists>ys. ts_Add list_store t d s = (fst s, (t, d) # ys)"
proof -
  have "takeWhile (\<lambda>(u, _). t < u) (snd s) = []"
    using assms by (cases "snd s") (force simp: list_latest_def case_prod_unfold)+
  then show ?thesis by (cases s) (simp add: list_store_def)
qed

interpretation listed: timed_store list_store list_latest
proof
  show "list_latest (ts_New list_store a) = None" for a by (simp add: list_store_def list_latest_def)
next
  fix s :: "go_duration \<times> (go_time \<times> 'd) list" and t d
  assume "\<And>u. list_latest s = Some u \<Longrightarrow> u \<le> t"
  then have "\<exists>ys. ts_Add list_store t d s = (fst s, (t, d) # ys)" by (rule list_add_newest)
  then obtain ys where ys: "ts_Add list_store t d s = (fst s, (t, d) # ys)" ..
  show "ts_Get0 list_store (ts_Add list_store t d s) = Some d" and "list_latest (ts_Add list_store t d s) = Some t"
    unfolding ys by (simp_all add: list_latest_def list_store_def)
qed

section \<open>Reported metrics\<close>

lemma customize_collect_adds:
  assumes "source_data run http decode src = Some (Some datas)" and "mrd_Code datas = 0"
  shows "customize_collect T run http decode job metric src now sm =
    Some (store_adds T now (map (\<lambda>d. (response_key job metric d, \<lparr>me_JobName = response_key job metric d, me_Values = ml_Values d, me_Ts = now\<rparr>)) (mrd_Data datas)) sm)"
proof -
  have "add_response T job metric now = (\<lambda>d. store_add T (response_key job metric d) now
      \<lparr>me_JobName = response_key job metric d, me_Values = ml_Values d, me_Ts = now\<rparr>)"
    by (simp add: fun_eq_iff add_response_def AddMetricsData_def Let_def)
  then show ?thesis using assms by (simp add: customize_collect_def store_adds_def fold_map comp_def)
qed

lemma map_of_rev_split:
  assumes "k \<notin> fst ` set ys"
  shows "map_of (rev (xs @ (k, d) # ys)) k = Some d"
proof -
  have "map_of (rev ys) k = None" using assms by (simp add: map_of_eq_None_iff)
  then show ?thesis by (simp add: map_add_def)
qed

text \<open>
  C38. What an online job reports is what the health checks read: after a period whose answer is not an error, the newest state of each reported metric, under the name the answer
  gives or else the name of the configuration, holds the values of its last entry in the answer, and every metric that is not in the answer stays as it was.
\<close>

theorem reported_metrics_are_read:
  assumes "timed_store T latest" and "no_later latest now sm" and "source_data run http decode src = Some (Some datas)" and "mrd_Code datas = 0"
    and "mrd_Data datas = xs @ d # ys" and "\<forall>e \<in> set ys. response_key job metric e \<noteq> response_key job metric d"
  shows "\<exists>sm'. customize_collect T run http decode job metric src now sm = Some sm' \<and>
    GetCustomizeResourceRecentState T (if ml_JobName d = [] then job else ml_JobName d) (if ml_MetricName d = [] then metric else ml_MetricName d) sm' =
      Some (Some \<lparr>me_JobName = response_key job metric d, me_Values = ml_Values d, me_Ts = now\<rparr>) \<and>
    (\<forall>j m. generateStoreKey j m \<notin> response_key job metric ` set (mrd_Data datas) \<longrightarrow>
      GetCustomizeResourceRecentState T j m sm' = GetCustomizeResourceRecentState T j m sm)"
proof -
  let ?f = "\<lambda>d. (response_key job metric d, \<lparr>me_JobName = response_key job metric d, me_Values = ml_Values d, me_Ts = now\<rparr>)"
  note read = timed_store.adds_recent [OF assms(1,2)]
  have "map_of (rev (map ?f (mrd_Data datas))) (response_key job metric d) = Some (snd (?f d))"
    using map_of_rev_split [of "response_key job metric d" "map ?f ys" "map ?f xs" "snd (?f d)"] assms(5,6) by fastforce
  moreover have "map_of (rev (map ?f (mrd_Data datas))) k = None" if "k \<notin> response_key job metric ` set (mrd_Data datas)" for k
    using that by (auto simp: map_of_eq_None_iff image_image)
  ultimately show ?thesis
    by (auto simp: customize_collect_adds [OF assms(3,4)] GetCustomizeResourceRecentState_def read response_key_def [symmetric])
qed


definition sample_response :: "(int \<times> (string, json_value) gomap list) option" where
  "sample_response = Some (0, [[(''metric_name'', JString ''qps''), (''value'', JNumber 7)]])"

theorem reported_metrics_are_read_witness:
  "\<exists>sm'. customize_collect list_store (\<lambda>_ _. None) (\<lambda>_. Some (200, [])) (\<lambda>_. sample_response) ''osd'' ''latency''
      \<lparr>ms_MetricsCommand = [], ms_CmdNeedChroot = None, ms_MetricsURL = ''http://osd''\<rparr> 5 (new_store 60) = Some sm' \<and>
    GetCustomizeResourceRecentState list_store ''osd'' ''qps'' sm' = Some (Some \<lparr>me_JobName = ''osd-qps'', me_Values = [(''value'', 7)], me_Ts = 5\<rparr>)"
proof -
  let ?src = "\<lparr>ms_MetricsCommand = [], ms_CmdNeedChroot = None, ms_MetricsURL = ''http://osd''\<rparr>"
  let ?d = "\<lparr>ml_JobName = [], ml_MetricName = ''qps'', ml_Values = [(''value'', 7)]\<rparr>"
  have src: "source_data (\<lambda>_ _. None) (\<lambda>_. Some (200, [])) (\<lambda>_. sample_response) ?src = Some (Some \<lparr>mrd_Code = 0, mrd_Data = [?d]\<rparr>)"
    by (simp add: source_data_def getMetricsFromURL_def decode_response_def sample_response_def MetricResponseList_UnmarshalJSON_def json_string_def unmarshal_field_def)
  have empty: "no_later list_latest 5 (new_store 60)" by (simp add: no_later_def new_store_def)
  have key: "response_key ''osd'' ''latency'' ?d = ''osd-qps''" by (simp add: response_key_def generateStoreKey_def)
  from reported_metrics_are_read [OF listed.timed_store_axioms empty src, of "[]" ?d "[]" "''osd''" "''latency''"]
  show ?thesis by (simp add: key) blast
qed

text \<open>Job and metric names share a separator, so that different pairs can have the same key.\<close>

lemma store_keys_collide: "generateStoreKey ''a-b'' ''c'' = generateStoreKey ''a'' ''b-c''"
  by (simp add: generateStoreKey_def)

text \<open>An answer that is encoded and decoded keeps its names and values, unless a name or a key is one of the two field names.\<close>

lemma fold_update_fresh:
  assumes "distinct (map fst xs)" and "fst ` set xs \<inter> fst ` set ys = {}"
  shows "fold (\<lambda>(k, v). AList.update k (f v)) xs ys = ys @ map (\<lambda>(k, v). (k, f v)) xs"
  using assms
proof (induction xs arbitrary: ys)
  case (Cons x xs)
  obtain k v where x: "x = (k, v)" by force
  have "AList.update k (f v) zs = zs @ [(k, f v)]" if "k \<notin> fst ` set zs" for zs using that by (induction zs) auto
  then have "AList.update k (f v) ys = ys @ [(k, f v)]" using Cons.prems x by auto
  moreover have "fst ` set xs \<inter> fst ` set (ys @ [(k, f v)]) = {}" using Cons.prems x by auto
  ultimately show ?case using Cons.IH [of "ys @ [(k, f v)]"] Cons.prems x by simp
qed simp

lemma unmarshal_numbers:
  "fold unmarshal_field (map (\<lambda>(k, v). (k, JNumber v)) xs) m = m\<lparr>ml_Values := fold (\<lambda>(k, v). AList.update k v) xs (ml_Values m)\<rparr>"
  by (induction xs arbitrary: m) (auto simp: unmarshal_field_def)

lemma response_roundtrip:
  assumes "distinct (map fst (ml_Values m))" and "{''job_name'', ''metric_name''} \<inter> ({ml_JobName m, ml_MetricName m} \<union> fst ` set (ml_Values m)) = {}"
  shows "MetricResponseList_UnmarshalJSON (MetricResponseList_MarshalJSON m) \<lparr>ml_JobName = [], ml_MetricName = [], ml_Values = []\<rparr> = m"
proof -
  have obj: "MetricResponseList_MarshalJSON m = [(''job_name'', JString (ml_JobName m)), (''metric_name'', JString (ml_MetricName m))] @ map (\<lambda>(k, v). (k, JNumber v)) (ml_Values m)"
    unfolding MetricResponseList_MarshalJSON_def using assms by (intro fold_update_fresh) auto
  have field: "unmarshal_field (k, JString v) n = n" if "v \<notin> {''job_name'', ''metric_name''}" for k v n
    using that by (simp add: unmarshal_field_def)
  have names: "ml_JobName m \<notin> {''job_name'', ''metric_name''}" "ml_MetricName m \<notin> {''job_name'', ''metric_name''}" using assms(2) by auto
  have vals: "fold (\<lambda>(k, v). AList.update k v) (ml_Values m) [] = ml_Values m"
    using fold_update_fresh [OF assms(1), of "[]" "\<lambda>x. x"] by (simp add: case_prod_eta)
  show ?thesis
    by (simp add: MetricResponseList_UnmarshalJSON_def obj json_string_def field [OF names(1)] field [OF names(2)] unmarshal_numbers vals)
qed

text \<open>A metric that is called like a field changes the name of the job.\<close>

lemma field_name_as_metric:
  "ml_JobName (MetricResponseList_UnmarshalJSON [(''job_name'', JString ''osd''), (''metric_name'', JString ''job_name'')]
     \<lparr>ml_JobName = [], ml_MetricName = [], ml_Values = []\<rparr>) = ''job_name''"
  by (simp add: MetricResponseList_UnmarshalJSON_def json_string_def unmarshal_field_def)

section \<open>Outer prometheus metrics\<close>

text \<open>The filter: a family is kept if it is to be collected, by a list or without one, and not excluded.\<close>

lemma map_of_filterPromMetrics:
  "map_of (filterPromMetrics coll noCollect families) k =
     (if (coll = [] \<or> k \<in> set coll) \<and> k \<notin> set noCollect then map_of families k else None)"
proof -
  have *: "map_of (filter (\<lambda>(k, _). P k) families) k = (if P k then map_of families k else None)" for P by (induction families) auto
  show ?thesis by (auto simp: filterPromMetrics_def *)
qed

text \<open>The numbers of a family by key.\<close>

definition family_values :: "string \<times> MetricFamily \<Rightarrow> (string \<times> float64) list" where
  "family_values = (\<lambda>(mName, f).
     if mf_Type f = PromCounter \<or> mf_Type f = PromGauge then map (\<lambda>m. (prom_key mName m, prom_metricValue (mf_Type f) m)) (mf_Metric f) else [])"

definition empty_family :: "MetricFamily \<Rightarrow> bool" where
  "empty_family f \<longleftrightarrow> (mf_Type f = PromCounter \<or> mf_Type f = PromGauge) \<and> mf_Metric f = []"

lemma addPromStats_eq: "addPromStats T now k v = store_add T k now v"
  by (simp add: fun_eq_iff addPromStats_def)

lemma prom_family_adds: "prom_family T now f sm = (if empty_family (snd f) then None else Some (store_adds T now (family_values f) sm))"
  by (auto simp: prom_family_def empty_family_def family_values_def store_adds_def addPromStats_eq fold_map comp_def split: prod.splits)

lemma prom_families_add:
  "foldM (prom_family T now) fs sm = (if list_ex (\<lambda>f. empty_family (snd f)) fs then None else Some (store_adds T now (concat (map family_values fs)) sm))"
  by (induction fs arbitrary: sm) (auto simp: prom_family_adds store_adds_def)

text \<open>After a round, the newest value under a key is the last one the servers gave; the round panics exactly on a counter or gauge without metrics.\<close>

lemma prom_values_are_read:
  assumes "timed_store T latest" and "no_later latest now sm" and "items \<noteq> []"
    and "\<not> list_ex (\<lambda>f. empty_family (snd f)) (fetchAllPromDirectMetrics scrape items)"
    and "map_of (rev (concat (map family_values (fetchAllPromDirectMetrics scrape items)))) key = Some v"
  shows "\<exists>sm'. prom_collect T scrape items now sm = Some sm' \<and> GetPromRecentMetrics T key sm' = Some (Some v)"
  using assms(3-5) timed_store.adds_recent [OF assms(1,2)]
  by (auto simp: prom_collect_def prom_families_add GetPromRecentMetrics_def)

lemma prom_collect_panics_iff:
  assumes "items \<noteq> []"
  shows "prom_collect T scrape items now sm = None \<longleftrightarrow> list_ex (\<lambda>f. empty_family (snd f)) (fetchAllPromDirectMetrics scrape items)"
  using assms by (simp add: prom_collect_def prom_families_add)

section \<open>Hardware\<close>

text \<open>The last table of the tool's output counts.\<close>

lemma retItems_last_table:
  assumes "strings_Contains heading ''CORE''" and "list_all (\<lambda>l. \<not> strings_Contains l ''CORE'') ls"
  shows "retItems (pre @ heading # ls) = ls"
proof -
  let ?step = "\<lambda>(startRecord, items) l. if strings_Contains l ''CORE'' then (True, []) else if startRecord then (startRecord, items @ [l]) else (startRecord, items)"
  have "foldl ?step (True, items) ls = (True, items @ ls)" for items using assms(2) by (induction ls arbitrary: items) auto
  moreover have "?step p heading = (True, [])" for p using assms(1) by (simp add: case_prod_unfold)
  ultimately show ?thesis by (simp add: retItems_def)
qed

text \<open>A line with fewer than two numbers panics.\<close>

lemma short_line_panics:
  assumes "length (filter (\<lambda>v. v \<noteq> []) (split_on (CHR '' '') item)) \<le> 2"
  shows "rdt_line ParseFloat MustParse now item = None"
proof -
  have len: "length ys = length xs" if "those (map f xs) = Some ys" for f :: "string \<Rightarrow> float64 option" and xs ys
    using that by (induction xs arbitrary: ys) (auto split: option.splits)
  show ?thesis
    using assms by (auto simp: rdt_line_def Let_def split: option.splits dest: len)
qed

text \<open>The cache monitor is always taken to be there, so that the check at the start never fails.\<close>

lemma llc_always_supported: "MonitorLLC (SupportRdtFunction run)"
  by (simp add: SupportRdtFunction_def Let_def split: prod.splits)

text \<open>Groups whose names only begin like an ignored group are ignored.\<close>

lemma sibling_ignored: "checkSubCgroup ''/kubepods/best'' ''/kubepods/besteffort''"
  by (simp add: checkSubCgroup_def strings_HasPrefix_def)

text \<open>A measurement that fails before the first reading is stored as zeros.\<close>

lemma failed_measurement_is_stored:
  assumes "timed_store T latest" and "no_later latest (pf_Timestamp (pi_pmu i)) sm"
    and "pi_pids i = Some (p # ps)" and "pi_cpus i = Some (c # cs)" and "pi_startTotal i = Some s" and "pi_endTotal i = Some e"
    and "pi_pmu i = GetPMUValue (get_cpi False opens reads llc scale cpu) now"
    and "\<not> list_ex (\<lambda>g. checkSubCgroup g cg) ignored" and "inp cg = i"
  shows "\<exists>d. GetPerfResourceRecentState T cg (perf_step T inp ignored (cg, ref) sm) = Some (Some d) \<and> pf_Instructions (px_Value d) = fl 0 \<and> pf_Cycles (px_Value d) = fl 0"
  using assms timed_store.add_recent(1) [OF assms(1), of now sm cg]
  by (auto simp: perf_step_def measure_perf_def addContainerPerf_def GetPerfResourceRecentState_def GetPMUValue_def get_cpi_def no_data_def Let_def)

text \<open>Without an overflow the counters are the sums over the cores.\<close>

lemma read_cores_sums:
  assumes "snd (snd (read_cores llc scale (map Some vs) (d, n))) = m" and "cd_instructions d + sum_list (map cv_instructions vs) < 2 ^ 64"
    and "cd_cycles d + sum_list (map cv_cycles vs) < 2 ^ 64"
  shows "\<exists>d'. read_cores llc scale (map Some vs) (d, n) = (True, d', m) \<and> cd_instructions d' = cd_instructions d + sum_list (map cv_instructions vs) \<and>
    cd_cycles d' = cd_cycles d + sum_list (map cv_cycles vs)"
  using assms
proof (induction vs arbitrary: d n)
  case (Cons v vs)
  obtain d1 n1 where step: "add_counters llc scale v (d, n) = (d1, n1)" by force
  then have "cd_instructions d1 = cd_instructions d + cv_instructions v" "cd_cycles d1 = cd_cycles d + cv_cycles v"
    using Cons.prems by (auto simp: add_counters_def add64_def)
  then show ?case using Cons.IH [of d1 n1] Cons.prems step by auto
qed auto

end
