(* ===== verification/Spec2Isabelle.thy ===== *)
theory Spec2Isabelle
  imports Times Durations Dispatch Alarm Predict QosManager Online Config DiskQuota Cpi YarnMetrics NmProps HookProps HealthManager MetricStores
begin

text \<open>
  A verification development of Caelus (\<^verbatim>\<open>Tencent/caelus\<close>), the node agent that runs offline (batch)
  jobs beside online (latency sensitive) jobs.

  \<^bold>\<open>The program.\<close> A \<^emph>\<open>predictor\<close> estimates what the online jobs will need and offers the rest of the
  node to the offline jobs. \<^emph>\<open>Health checkers\<close> for the node, for the online applications and for
  containers feed metrics into \<^emph>\<open>anomaly detectors\<close>; a rule whose detectors fire runs \<^emph>\<open>actions\<close>, which ask for
  less of a resource, for no scheduling, or for a pod to be evicted. The \<^emph>\<open>rule check manager\<close> merges
  the results, and the \<^emph>\<open>dispatcher\<close> hands them to the \<^emph>\<open>conflict manager\<close>, which keeps the demands, and wakes
  two consumers: the \<^emph>\<open>resource manager\<close>, which writes the prediction less the demands to the kubernetes
  node and kills offline pods that no longer fit, and the \<^emph>\<open>qos manager\<close>, which writes control groups,
  traffic classes and cpu sets so that the offline jobs cannot use more. The \<^emph>\<open>alarm manager\<close> batches messages
  on the way out.

  \<^bold>\<open>Theories and sources\<close> (paths below \<^verbatim>\<open>src/pkg/caelus\<close> unless they start with \<^verbatim>\<open>src\<close>).

  \<^item> \<open>Prelude\<close>, \<open>Float64\<close>, \<open>GoStrings\<close>: Go maps as association lists (\<open>gomap\<close>), insertion sort by a
    comparison, 64 bit floating point numbers as reals with rounding (\<open>fl\<close>), the standard string and number functions.
  \<^item> \<open>Times\<close>, \<open>Durations\<close>: \<^verbatim>\<open>src/pkg/util/times\<close>, with the durations of package \<^verbatim>\<open>time\<close>. \<open>Quantity\<close>: the interface of the library's resource quantities (a locale).
  \<^item> \<open>Ring\<close>, \<open>Detection\<close>, \<open>DetectionProps\<close>: \<^verbatim>\<open>detection\<close>, the ring buffer and the detectors.
  \<^item> \<open>Action\<close>, \<open>ActionProps\<close>: \<^verbatim>\<open>healthcheck/action\<close>. \<open>Conflict\<close>, \<open>ConflictProps\<close>: \<^verbatim>\<open>healthcheck/conflict\<close>.
  \<^item> \<open>HealthConfig\<close>: \<^verbatim>\<open>types/health_check.go\<close>. \<open>RuleCheck\<close>, \<open>RuleCheckProps\<close>: \<^verbatim>\<open>healthcheck/rulecheck/common.go\<close>.
  \<^item> \<open>NodeState\<close>, \<open>NodeCheck\<close>, \<open>AppCheck\<close>, \<open>ContainerCheck\<close>: the node state (\<^verbatim>\<open>statestore/common/node/type.go\<close>) and the
    three checkers with the correlation analysis (\<^verbatim>\<open>healthcheck/rulecheck\<close>).
  \<^item> \<open>Pods\<close>, \<open>Resource\<close>, \<open>ResourceProps\<close>: \<^verbatim>\<open>util/appclass\<close>, \<^verbatim>\<open>util/sets\<close>, \<^verbatim>\<open>resource/k8s\<close> and the offline
    resource manager (\<^verbatim>\<open>resource\<close>).
  \<^item> \<open>Predict\<close>: \<^verbatim>\<open>predict\<close> and \<^verbatim>\<open>types/predict.go\<close>. \<open>Alarm\<close>: \<^verbatim>\<open>alarm\<close>.
  \<^item> \<open>CgroupFs\<close>, \<open>Topology\<close>: \<^verbatim>\<open>util/cgroup\<close>, the control group files and the choice of cores.
  \<^item> \<open>QosCpu\<close>, \<open>QosCpuProps\<close>, \<open>NetIO\<close>, \<open>QosManager\<close>: \<^verbatim>\<open>qos\<close>, the cpu policies, traffic shaping, and the manager.
  \<^item> \<open>NodeCollect\<close>, \<open>CgroupStore\<close>: \<^verbatim>\<open>statestore/common/node/node.go\<close> and \<^verbatim>\<open>statestore/cgroup\<close>, the samples of the
    node and of the containers. \<open>Online\<close>: \<^verbatim>\<open>online\<close>, online jobs outside kubernetes. \<open>Config\<close>: the checks and defaults of the
    configuration (\<^verbatim>\<open>types/types.go\<close>, \<^verbatim>\<open>types/diskquota.go\<close>).
  \<^item> \<open>ProjectFile\<close>, \<open>ProjectQuota\<close>, \<open>DiskQuota\<close>: \<^verbatim>\<open>diskquota\<close>, the disk quotas of pods: the files, the project ids and limits, and the
    manager with its kinds of volumes.
  \<^item> \<open>TimeSeries\<close>, \<open>Cpi\<close>: \<^verbatim>\<open>cpi\<close>, the search for tasks that slow others down.
  \<^item> \<open>YarnInit\<close>, \<open>YarnAdapt\<close>, \<open>Yarn\<close>, \<open>YarnProps\<close>, \<open>YarnMetrics\<close>: \<^verbatim>\<open>resource/resource_yarn.go\<close> and \<^verbatim>\<open>resource/yarn\<close>, offline jobs on YARN: the requests to the
    nodemanager operator, ports and the choice of containers to kill; adapters and disks; the client; the nodemanager's metrics.
  \<^item> \<open>HadoopConf\<close>, \<open>NmUtil\<close>, \<open>NmOperator\<close>, \<open>NmProps\<close>: \<^verbatim>\<open>src/pkg/nm-operator\<close>, the nodemanager operator, a server beside the nodemanager: its configuration files,
    the commands it runs, its handlers and routes, and the client and the operator together.
  \<^item> \<open>Hook\<close>, \<open>HookPlugin\<close>, \<open>HookProps\<close>: \<^verbatim>\<open>src/contrib/lighthouse\<close> and \<^verbatim>\<open>src/contrib/lighthouse-plugin\<close>, the proxy before the docker daemon and the
    plugins that move containers of offline pods into control groups of their own.
  \<^item> \<open>Notify\<close>: \<^verbatim>\<open>healthcheck/cgroupnotify\<close>, kills of offline jobs on events of the kernel's memory groups. \<open>HealthManager\<close>: \<^verbatim>\<open>healthcheck/health_check.go\<close>,
    which reads the rules file and follows its changes. \<open>MetricStores\<close>: \<^verbatim>\<open>statestore/common\<close>, the stores of hardware counters (\<^verbatim>\<open>perf\<close>, \<^verbatim>\<open>rdt\<close>), of outer prometheus metrics and of what online jobs report.
  \<^item> \<open>Dispatch\<close>: \<^verbatim>\<open>healthcheck/dispatcher\<close> and the round of \<^verbatim>\<open>healthcheck/rulecheck/rule_check.go\<close>.
  \<^item> \<open>Spec2Isabelle\<close>: properties across components.

  \<^bold>\<open>Conventions.\<close> A Go struct is a record with a prefix of its own on the fields, an operation one
  definition that takes the state and returns it updated. The result \<open>None\<close> of an operation that \<open>return\<close>s in
  Go is a panic, the end of the process (\<^verbatim>\<open>klog.Fatalf\<close>), or a loop that does not end; an error result is
  \<open>Inl\<close>. A nil pointer, map or interface is \<open>None\<close> where the code tests for it. Maps are association
  lists, so that iteration has an order: the theorems hold for every order, as the lists are arbitrary.
  Machine integers are \<open>int\<close> with \<open>wrap64\<close> or \<open>mod\<close> written out where a computation can leave their range.
  Floating point numbers are reals rounded after every operation; NaN and the infinities do not occur.
  Times and durations are nanoseconds. Log lines and prometheus counters are left out. Locks are
  modelled by running the operations one after another.

  \<^bold>\<open>Code outside the repository\<close> is a parameter: \<open>Q\<close> the resource quantities, \<open>M\<close> the moving average, \<open>E\<close>
  the expression evaluator (in the detectors), \<open>V\<close> the vertical pod autoscaler's estimators, \<open>N\<close> netlink, ipset and
  \<^verbatim>\<open>tc\<close>, \<open>ext\<close> and \<open>key\<close> the kubernetes helpers, \<open>api\<close> the prometheus client, \<open>http\<close> and \<open>get\<close> the HTTP client; what the code relies on in them is a locale or a named predicate
  (\<open>quantity\<close>, \<open>ipset_laws\<close>), with an instance that shows it can hold (\<open>nanoQ\<close>, \<open>plain_net\<close>, \<open>list_store\<close>). What the kernel and
  the cluster report (files, pods, usage, times) are inputs.

  \<^bold>\<open>Interfaces.\<close> \<open>quantity\<close> (interpreted by \<open>nano\<close>) carries the arithmetic of all theorems about amounts;
  \<open>conflict_interface\<close> is what the resource and the qos manager rely on in the conflict manager, a
  sublocale of \<open>quantity\<close> and so proved for the model; \<open>merge_interface\<close> gives the order independence of merging from
  the laws of a join; \<open>sliding_window\<close> is the ring buffer's contract, \<open>detector_interface\<close> the detectors',
  \<open>strict_weak_order\<close> and \<open>comparator\<close> the sort orders of pods and suspects, \<open>property_store\<close> the configuration as its clients see it,
  \<open>timed_store\<close> the library's store of timed metrics.

  \<^bold>\<open>What is shown.\<close> The conflict manager takes away exactly the largest demand on each resource, keeps its debts
  within the prediction, recovers under positive steps and reports every change; merging results
  does not depend on the order as long as results with one key name one resource; adjustment ratios stay between 0 and 1 and rounds take turns; detectors fire exactly when the
  data say so, and their window of data suffices; rules keep their distance; the schedule switch
  follows the rules and stays off in silence, but for a call delayed over a restart; the node never gets more than the prediction, and only offline
  pods are killed, in order of priority, and for memory pressure only when it is sustained; the offline jobs get what is left of the node, never less than the minimum,
  on cores of their own, with their memory limit above their usage; the trials of the adaptive policy
  end; alarms are neither lost nor repeated before the first silence in which they are ignored; an accepted
  configuration is well formed; directories with exclusive disk quotas keep project ids of their own; containers on YARN
  are killed in order and only as many as needed, within a capacity that never falls below the minimum; the nodemanager operator refines a
  state machine that an observer of its answers can follow, and what it writes into configuration files is read back; containers of offline pods reach docker below the \<open>offline\<close>
  group, and exactly the groups of dead offline pods are removed; what online jobs report is what the checks read, and the health manager runs exactly one checker, for its file; the search for outliers is exact. Where the code fails, the failure is a theorem:
  a node update that fails is forgotten, a schedule that is enabled with zero cores or in the middle of a silence, plugins whose failures are not ignored, metrics that panic, silence that ends the alarm loop, a failed write
  that spoils the cpu sets of the groups after it.

  \<^bold>\<open>Loops.\<close> All loops are structural or bounded recursions but two, which are \<open>partial_function\<close>s: \<open>count_up\<close>, the range
  loop over int64, which does not end at the largest integer (\<open>count_up_endless\<close>) and is shown to return below that (\<open>count_up_bounded\<close>); and
  \<open>allocate_from\<close>, the search for a free project id, which is shown to return while ids are free (\<open>quota_calls_return\<close>). No definition has a fuel
  argument.

  \<^bold>\<open>Not modelled.\<close> Flag parsing and start-up, the http server and prometheus collectors, and the
  copy of Go's reverse proxy in lighthouse: they consist of calls to the kernel, to the network or to libraries. Goroutines appear as the order
  in which their steps arrive.
\<close>

section \<open>Properties across components\<close>


lemma set_update_wf: "wf_map m \<Longrightarrow> set (AList.update k v m) = insert (k, v) {e \<in> set m. fst e \<noteq> k}"
proof -
  assume wf: "wf_map m"
  have "(x, y) \<in> set (AList.update k v m) \<longleftrightarrow> (x, y) = (k, v) \<or> (x, y) \<in> set m \<and> x \<noteq> k" for x y
    using map_of_eq_Some_iff [OF wf, of x y] map_of_eq_Some_iff [OF wf_map_update [OF wf], of k v x y] by (auto simp del: map_of_eq_Some_iff split: if_splits)
  then show ?thesis by auto
qed

context quantity
begin

text \<open>Storing a negative total under a key, whatever is stored there.\<close>

lemma total_update:
  assumes "UpdateConflictList Q [(k, \<lparr>ar_Name = r, ar_Conflicting = True, ar_ConflictQuantity = [(FormulaTotal, q)]\<rparr>)] c0 = (c, changed)"
    and "amount q < 0"
  obtains b qt where "conflictingResources c = AList.update k b (conflictingResources c0)" and "ar_Conflicting b" and "amount qt = amount q"
    and "case map_of (conflictingResources c0) k of
        None \<Rightarrow> changed \<and> ar_Name b = r \<and> ar_ConflictQuantity b = [(FormulaTotal, qt)]
      | Some old \<Rightarrow> ar_Name b = ar_Name old \<and> ar_ConflictQuantity b = AList.update FormulaTotal qt (ar_ConflictQuantity old) \<and>
          (changed \<or> map_of (ar_ConflictQuantity old) FormulaTotal = Some qt)"
proof (cases "map_of (conflictingResources c0) k")
  case None
  with assms that [of "\<lparr>ar_Name = r, ar_Conflicting = True, ar_ConflictQuantity = [(FormulaTotal, q)]\<rparr>" q] show thesis
    by (auto simp: UpdateConflictList_def update_resource_def IsNegative_def ActionResource_DeepCopy_def gmap_put_all_def)
next
  case (Some old)
  define qt where "qt = (case map_of (ar_ConflictQuantity old) FormulaTotal of None \<Rightarrow> q | Some v \<Rightarrow> if amount v \<noteq> amount q then q else v)"
  have qt: "amount qt = amount q" by (simp add: qt_def split: option.split)
  have "AList.update FormulaTotal qt (ar_ConflictQuantity old) \<noteq> []" by (cases "ar_ConflictQuantity old") auto
  moreover have "update_formula Q (FormulaTotal, q) (ar_ConflictQuantity old, False) =
      (AList.update FormulaTotal qt (ar_ConflictQuantity old), map_of (ar_ConflictQuantity old) FormulaTotal \<noteq> Some qt \<or> qt = q \<and>
         (\<forall>v. map_of (ar_ConflictQuantity old) FormulaTotal = Some v \<longrightarrow> amount v \<noteq> amount q))"
    using assms(2) qt by (auto simp: update_formula_other store_negative_def qt_def simp del: map_of_eq_Some_iff split: option.splits)
  ultimately show thesis
    using assms(1) Some qt that [of "old\<lparr>ar_Conflicting := True, ar_ConflictQuantity := AList.update FormulaTotal qt (ar_ConflictQuantity old)\<rparr>" qt]
    by (auto simp: UpdateConflictList_def update_resource_def simp del: map_of_eq_Some_iff split: if_splits)
qed

text \<open>An entry with a negative total bounds the demand, and is the demand when no other entry asks for the resource.\<close>

lemma demand_total:
  assumes "(k, b) \<in> set (conflictingResources c)" and "entry_name (k, b) = r" and "(FormulaTotal, qt) \<in> set (ar_ConflictQuantity b)" and "amount qt < 0"
  shows "entry_demand Q amount p (ar_ConflictQuantity b) \<le> amount qt" and "demand Q amount r p c \<le> amount qt"
    and "(\<forall>e \<in> set (conflictingResources c). entry_name e = r \<longrightarrow> e = (k, b)) \<Longrightarrow> set (ar_ConflictQuantity b) = {(FormulaTotal, qt)} \<Longrightarrow>
      demand Q amount r p c = amount qt"
proof -
  have a: "asked Q amount p (FormulaTotal, qt) = amount qt" using assms(4) by (simp add: asked_def)
  show 1: "entry_demand Q amount p (ar_ConflictQuantity b) \<le> amount qt"
    unfolding entry_demand_def min0_eq using assms(3) a by (intro Min_le) (auto intro: rev_image_eqI)
  have "entry_demand Q amount p (ar_ConflictQuantity b) \<in> set (map (\<lambda>e. entry_demand Q amount p (ar_ConflictQuantity (snd e)))
     (filter (\<lambda>e. entry_name e = r) (conflictingResources c)))" using assms(1,2) by force
  then have "demand Q amount r p c \<le> entry_demand Q amount p (ar_ConflictQuantity b)"
    unfolding demand_def min0_eq by (intro Min_le) auto
  with 1 show "demand Q amount r p c \<le> amount qt" by simp
  assume only: "\<forall>e \<in> set (conflictingResources c). entry_name e = r \<longrightarrow> e = (k, b)" "set (ar_ConflictQuantity b) = {(FormulaTotal, qt)}"
  have e: "entry_demand Q amount p (ar_ConflictQuantity b) = amount qt"
    using assms(4) a by (simp add: entry_demand_def min0_eq only(2))
  have "set (filter (\<lambda>e. entry_name e = r) (conflictingResources c)) = {(k, b)}"
  proof (intro equalityI subsetI)
    fix x
    assume "x \<in> set (filter (\<lambda>e. entry_name e = r) (conflictingResources c))"
    with only(1) show "x \<in> {(k, b)}" by simp
  qed (use assms(1,2) in simp)
  then show "demand Q amount r p c = amount qt" using assms(4) e by (simp add: demand_def min0_eq)
qed

end


definition tight_store :: node_store where
  "tight_store = \<lparr>st_range = (\<lambda>t n. None), st_recent = Some (nodeStatExample\<lparr>nrs_Memory := Some
     \<lparr>nm_Total = 16, nm_UsageTotal = 13, nm_UsageCache = 0, nm_UsageRss = 13, nm_Available = 3, nm_OfflineTotal = 8\<rparr>\<rparr>)\<rparr>"

definition tight_conflict :: "int ActionResource" where
  "tight_conflict = \<lparr>ar_Name = ResourceMemory, ar_Conflicting = True, ar_ConflictQuantity = [(FormulaTotal, - 2000000000)]\<rparr>"

lemma tight_quantity:
  "getMemConflictedQuantity nanoQ [(''memory'', 5000000000)] tight_store True = Some (Some tight_conflict)"
  by (simp add: getMemConflictedQuantity_def tight_store_def tight_conflict_def rl_get_def nano_ops go_trunc_def)

lemma tight_update:
  "UpdateConflictList nanoQ [(''memory'', tight_conflict)] NewConflictManager =
     (\<lparr>conflictingResources = [(''memory'', tight_conflict)]\<rparr>, True)"
  by (simp add: UpdateConflictList_def update_resource_def NewConflictManager_def ActionResource_DeepCopy_def gmap_put_all_def
      tight_conflict_def IsNegative_def nano_ops)


end
